(* ===== verification/Prelude.thy ===== *)
theory Prelude
  imports Main "HOL-Library.Log_Nat"
begin

text \<open>
  Shared vocabulary of the development: results with errors as values, the part of
  the JavaScript string and number library that the relay uses, and the generic
  lemmas about them.

  A JavaScript string is a list of characters with code points below 256 (Latin-1);
  every string the modelled code compares, slices or parses is of that kind.
  A JavaScript bigint is an \<open>int\<close>. A JavaScript number is an \<open>int\<close> too wherever the
  code only ever holds integers in it; the rounding of a conversion from bigint to
  number is written out with \<open>double_of_int\<close>.
\<close>

section \<open>Automation\<close>

named_theorems res_simps \<open>equations of the result monad\<close>
named_theorems str_simps \<open>equations of the string library\<close>

section \<open>Results\<close>

text \<open>An exception is \<open>Inl e\<close>; a call that returns is \<open>Inr v\<close>.\<close>

definition res_bind :: "'err + 'val \<Rightarrow> ('val \<Rightarrow> 'err + 'res) \<Rightarrow> 'err + 'res" where
  "res_bind r f = (case r of Inl e \<Rightarrow> Inl e | Inr v \<Rightarrow> f v)"

lemma res_bind_Inl [simp, res_simps]: "res_bind (Inl e) f = Inl e"
  by (simp add: res_bind_def)

lemma res_bind_Inr [simp, res_simps]: "res_bind (Inr v) f = f v"
  by (simp add: res_bind_def)

lemma res_bind_eq_Inr: "res_bind r f = Inr w \<longleftrightarrow> (\<exists>v. r = Inr v \<and> f v = Inr w)"
  by (cases r) auto

lemma res_bind_eq_Inl:
  "res_bind r f = Inl e \<longleftrightarrow> r = Inl e \<or> (\<exists>v. r = Inr v \<and> f v = Inl e)"
  by (cases r) auto

lemma res_bind_assoc: "res_bind (res_bind r f) g = res_bind r (\<lambda>v. res_bind (f v) g)"
  by (cases r) auto

section \<open>Characters and letter case\<close>

text \<open>
  \<open>String.prototype.toLowerCase\<close> on Latin-1: the ASCII capitals and the accented
  capitals U+00C0 to U+00DE (but not the multiplication sign U+00D7) move up by 32.
\<close>

definition upper_char :: "char \<Rightarrow> bool" where
  "upper_char c \<longleftrightarrow> (let n = of_char c :: nat in
     (65 \<le> n \<and> n \<le> 90) \<or> (192 \<le> n \<and> n \<le> 222 \<and> n \<noteq> 215))"

definition lower_char :: "char \<Rightarrow> char" where
  "lower_char c = (if upper_char c then char_of ((of_char c :: nat) + 32) else c)"

definition toLowerCase :: "string \<Rightarrow> string" where
  "toLowerCase s = map lower_char s"

lemma lower_char_idem [simp]: "lower_char (lower_char c) = lower_char c"
proof (cases "upper_char c")
  case True
  let ?n = "of_char c :: nat"
  have "?n + 32 < 256" using True by (auto simp: upper_char_def Let_def)
  hence "of_char (char_of (?n + 32) :: char) = ?n + 32" by simp
  hence "\<not> upper_char (char_of (?n + 32))"
    using True by (auto simp: upper_char_def Let_def)
  with True show ?thesis by (simp add: lower_char_def)
qed (simp add: lower_char_def)

lemma toLowerCase_idem [simp]: "toLowerCase (toLowerCase s) = toLowerCase s"
  by (simp add: toLowerCase_def)

lemma toLowerCase_Nil [simp]: "toLowerCase [] = []"
  by (simp add: toLowerCase_def)

lemma toLowerCase_append [simp]: "toLowerCase (s @ t) = toLowerCase s @ toLowerCase t"
  by (simp add: toLowerCase_def)

lemma length_toLowerCase [simp]: "length (toLowerCase s) = length s"
  by (simp add: toLowerCase_def)

section \<open>Substrings\<close>

definition startsWith :: "string \<Rightarrow> string \<Rightarrow> bool" where
  "startsWith s p \<longleftrightarrow> take (length p) s = p"

text \<open>\<open>s.slice(a, b)\<close> and \<open>s.substring(a, b)\<close> for indices with \<open>0 \<le> a \<le> b\<close>; both clamp at the end.\<close>

definition str_slice :: "string \<Rightarrow> nat \<Rightarrow> nat \<Rightarrow> string" where
  "str_slice s a b = take (b - a) (drop a s)"

text \<open>\<open>s.slice(a, e)\<close> where the end may be negative, counting from the end of the string.\<close>

definition js_slice :: "string \<Rightarrow> nat \<Rightarrow> int \<Rightarrow> string" where
  "js_slice s a e = str_slice s a (nat (if e < 0 then int (length s) + e else e))"

fun str_includes :: "string \<Rightarrow> string \<Rightarrow> bool" where
  "str_includes [] p = (p = [])"
| "str_includes (c # s) p = (startsWith (c # s) p \<or> str_includes s p)"

text \<open>\<open>s.replace(p, r)\<close> with a string pattern: the first occurrence only.\<close>

fun replace_first :: "string \<Rightarrow> string \<Rightarrow> string \<Rightarrow> string" where
  "replace_first p r [] = (if p = [] then r else [])"
| "replace_first p r (c # s) =
     (if startsWith (c # s) p then r @ drop (length p) (c # s) else c # replace_first p r s)"

text \<open>\<open>s.split(c)\<close> at a one-character separator: always at least one piece.\<close>

fun split_on :: "char \<Rightarrow> string \<Rightarrow> string list" where
  "split_on c [] = [[]]"
| "split_on c (x # xs) =
     (if x = c then [] # split_on c xs
      else (case split_on c xs of [] \<Rightarrow> [[x]] | p # ps \<Rightarrow> (x # p) # ps))"

text \<open>\<open>Array.prototype.join\<close>.\<close>

fun join_with :: "string \<Rightarrow> string list \<Rightarrow> string" where
  "join_with sep [] = []"
| "join_with sep [x] = x"
| "join_with sep (x # y # xs) = x @ sep @ join_with sep (y # xs)"

lemma split_on_not_Nil [simp]: "split_on c s \<noteq> []"
  by (induction s) (auto split: list.splits)

lemma startsWith_append [simp, str_simps]: "startsWith (p @ s) p"
  by (simp add: startsWith_def)

lemma startsWith_iff: "startsWith s p \<longleftrightarrow> (\<exists>t. s = p @ t)"
  by (auto simp: startsWith_def) (metis append_take_drop_id)

lemma str_includes_iff: "str_includes s p \<longleftrightarrow> (\<exists>a b. s = a @ p @ b)"
proof (induction s)
  case (Cons c s)
  show ?case
  proof
    assume "str_includes (c # s) p"
    then consider "startsWith (c # s) p" | "str_includes s p" by auto
    then show "\<exists>a b. c # s = a @ p @ b"
    proof cases
      case 1
      then obtain t where "c # s = p @ t" by (auto simp: startsWith_iff)
      then have "c # s = [] @ p @ t" by simp
      then show ?thesis by blast
    next
      case 2
      then obtain a b where "s = a @ p @ b" using Cons by auto
      then have "c # s = (c # a) @ p @ b" by simp
      then show ?thesis by blast
    qed
  next
    assume "\<exists>a b. c # s = a @ p @ b"
    then obtain a b where eq: "c # s = a @ p @ b" by blast
    show "str_includes (c # s) p"
    proof (cases a)
      case Nil
      with eq have "startsWith (c # s) p" by (simp only: append_Nil startsWith_append)
      then show ?thesis by simp
    next
      case (Cons x xs)
      with eq have "s = xs @ p @ b" by simp
      with Cons.IH show ?thesis by auto
    qed
  qed
qed auto

lemma split_on_absent: "c \<notin> set s \<Longrightarrow> split_on c s = [s]"
  by (induction s) auto

lemma split_on_first:
  "c \<notin> set s \<Longrightarrow> split_on c (s @ c # t) = s # split_on c t"
  by (induction s) auto

section \<open>Digits and numerals\<close>

text \<open>\<open>Number.prototype.toString(b)\<close> on a non-negative integer: lower-case digits, no padding.\<close>

definition digit :: "nat \<Rightarrow> char" where
  "digit d = (if d < 10 then char_of (48 + d) else char_of (87 + d))"

definition digit_val :: "char \<Rightarrow> nat option" where
  "digit_val c = (let n = of_char c :: nat in
     if 48 \<le> n \<and> n \<le> 57 then Some (n - 48)
     else if 97 \<le> n \<and> n \<le> 122 then Some (n - 87)
     else if 65 \<le> n \<and> n \<le> 90 then Some (n - 55)
     else None)"

definition is_digit_in :: "nat \<Rightarrow> char \<Rightarrow> bool" where
  "is_digit_in b c \<longleftrightarrow> (case digit_val c of None \<Rightarrow> False | Some d \<Rightarrow> d < b)"

function radix_str :: "nat \<Rightarrow> nat \<Rightarrow> string" where
  "radix_str b n =
     (if b < 2 \<or> n < b then [digit n] else radix_str b (n div b) @ [digit (n mod b)])"
  by pat_completeness auto
termination
  by (relation "measure (\<lambda>(b, n). n)") auto

declare radix_str.simps [simp del]

definition radix_val :: "nat \<Rightarrow> string \<Rightarrow> nat" where
  "radix_val b s = foldl (\<lambda>a c. b * a + (case digit_val c of None \<Rightarrow> 0 | Some d \<Rightarrow> d)) 0 s"

abbreviation to_hex :: "nat \<Rightarrow> string" where
  "to_hex \<equiv> radix_str 16"

abbreviation to_dec :: "nat \<Rightarrow> string" where
  "to_dec \<equiv> radix_str 10"

definition int_str :: "nat \<Rightarrow> int \<Rightarrow> string" where
  "int_str b i = (if i < 0 then CHR ''-'' # radix_str b (nat (- i)) else radix_str b (nat i))"

lemma digit_val_digit [simp]: "d < 36 \<Longrightarrow> digit_val (digit d) = Some d"
  by (auto simp: digit_def digit_val_def Let_def)

lemma is_digit_in_digit [simp]: "d < b \<Longrightarrow> d < 36 \<Longrightarrow> is_digit_in b (digit d)"
  by (simp add: is_digit_in_def)

lemma radix_str_not_Nil [simp]: "radix_str b n \<noteq> []"
  by (subst radix_str.simps) simp

lemma radix_val_append1:
  "radix_val b (s @ [c]) = b * radix_val b s + (case digit_val c of None \<Rightarrow> 0 | Some d \<Rightarrow> d)"
  by (simp add: radix_val_def)

lemma radix_val_radix_str [simp]:
  assumes "2 \<le> b" "b \<le> 36"
  shows "radix_val b (radix_str b n) = n"
  using assms
proof (induction b n rule: radix_str.induct)
  case (1 b n)
  show ?case
  proof (cases "n < b")
    case True
    with 1(2,3) show ?thesis by (subst radix_str.simps) (simp add: radix_val_def)
  next
    case False
    moreover from 1(2,3) have "n mod b < 36" by (meson less_le_trans mod_less_divisor pos2 order_less_le_trans)
    ultimately show ?thesis using 1
      by (subst radix_str.simps) (simp add: radix_val_append1 not_less)
  qed
qed

lemma radix_str_digits:
  assumes "2 \<le> b" "b \<le> 36"
  shows "list_all (is_digit_in b) (radix_str b n)"
  using assms
proof (induction b n rule: radix_str.induct)
  case (1 b n)
  have "n mod b < b" using 1(2) by simp
  moreover from this 1(3) have "n mod b < 36" by linarith
  ultimately show ?case using 1
    by (subst radix_str.simps) (auto simp: not_less)
qed

lemma radix_str_inj: "2 \<le> b \<Longrightarrow> b \<le> 36 \<Longrightarrow> radix_str b m = radix_str b n \<Longrightarrow> m = n"
  by (metis radix_val_radix_str)

lemma foldl_radix:
  "foldl (\<lambda>a c. b * a + f c) x s = b ^ length s * x + foldl (\<lambda>a c. b * a + f c) (0::nat) s"
proof (induction s arbitrary: x)
  case (Cons c s)
  show ?case
    using Cons [of "b * x + f c"] Cons [of "f c"] by (simp add: algebra_simps)
qed simp

lemma radix_val_Nil [simp]: "radix_val b [] = 0"
  by (simp add: radix_val_def)

lemma radix_val_Cons:
  "radix_val b (c # s) = b ^ length s * (case digit_val c of None \<Rightarrow> 0 | Some d \<Rightarrow> d) + radix_val b s"
  unfolding radix_val_def by (simp add: foldl_radix [where x = "case digit_val c of None \<Rightarrow> 0 | Some d \<Rightarrow> d"])

lemma radix_val_append:
  "radix_val b (s @ t) = b ^ length t * radix_val b s + radix_val b t"
  by (induction s) (simp_all add: radix_val_Cons algebra_simps power_add)

lemma digit_val_zero [simp]: "digit_val (CHR ''0'') = Some 0"
  by (simp add: digit_val_def)

lemma radix_val_zeros [simp]: "radix_val b (replicate n (CHR ''0'')) = 0"
  by (induction n) (simp_all add: radix_val_Cons)

lemma radix_val_bound:
  "2 \<le> b \<Longrightarrow> list_all (is_digit_in b) s \<Longrightarrow> radix_val b s < b ^ length s"
proof (induction s)
  case (Cons c s)
  then obtain d where d: "digit_val c = Some d" "d < b"
    by (auto simp: is_digit_in_def split: option.splits)
  have "b ^ length s * d + radix_val b s < b ^ length s * (d + 1)"
    using Cons by (simp add: algebra_simps)
  also have "\<dots> \<le> b ^ length s * b" using d by (intro mult_le_mono2) simp
  finally show ?case using d by (simp add: radix_val_Cons mult.commute)
qed simp

section \<open>Numbers\<close>

text \<open>
  \<open>Number(n)\<close> for a bigint \<open>n\<close>: the nearest IEEE double, ties to the even significand.
  (The overflow to infinity beyond the largest double is out of the range of every
  amount the relay handles.)
\<close>

definition round_even :: "nat \<Rightarrow> nat \<Rightarrow> nat" where
  "round_even m n = (let q = n div m; r = n mod m in
     if 2 * r < m \<or> (2 * r = m \<and> even q) then q * m else (q + 1) * m)"

definition double_of_nat :: "nat \<Rightarrow> nat" where
  "double_of_nat n = (if n < 2 ^ 53 then n else round_even (2 ^ (floorlog 2 n - 53)) n)"

definition double_of_int :: "int \<Rightarrow> int" where
  "double_of_int i = (if i < 0 then - int (double_of_nat (nat (- i))) else int (double_of_nat (nat i)))"

text \<open>An integer a JavaScript number can hold.\<close>

definition is_double :: "int \<Rightarrow> bool" where
  "is_double i \<longleftrightarrow> double_of_int i = i"

lemma double_of_int_exact: "\<bar>i\<bar> < 2 ^ 53 \<Longrightarrow> double_of_int i = i"
proof -
  assume "\<bar>i\<bar> < 2 ^ 53"
  then have "nat i < 2 ^ 53" "nat (- i) < 2 ^ 53" by (simp_all add: nat_less_iff)
  then show ?thesis by (simp add: double_of_int_def double_of_nat_def)
qed

lemma is_double_small [simp]: "\<bar>i\<bar> < 2 ^ 53 \<Longrightarrow> is_double i"
  by (simp add: is_double_def double_of_int_exact)

text \<open>BigInt division truncates towards zero.\<close>

definition trunc_div :: "int \<Rightarrow> int \<Rightarrow> int" where
  "trunc_div dividend divisor =
     (let q = \<bar>dividend\<bar> div \<bar>divisor\<bar> in if (dividend < 0) = (divisor < 0) then q else - q)"

lemma trunc_div_nonneg: "0 \<le> a \<Longrightarrow> 0 < b \<Longrightarrow> trunc_div a b = a div b"
  by (simp add: trunc_div_def Let_def)

text \<open>\<open>Math.ceil(a / b)\<close> and \<open>Math.round(a / b)\<close> of integers, the latter rounding halves up.\<close>

definition ceil_div :: "int \<Rightarrow> int \<Rightarrow> int" where
  "ceil_div a b = - ((- a) div b)"

definition round_div :: "int \<Rightarrow> int \<Rightarrow> int" where
  "round_div a b = (2 * a + b) div (2 * b)"

lemma ceil_div_bounds:
  assumes "0 < b"
  shows "a \<le> ceil_div a b * b" "ceil_div a b * b < a + b"
proof -
  have m: "0 \<le> (- a) mod b" "(- a) mod b < b" using assms by auto
  have "ceil_div a b * b = a + (- a) mod b"
    using div_mult_mod_eq [of "- a" b] unfolding ceil_div_def mult_minus_left by linarith
  with m show "a \<le> ceil_div a b * b" "ceil_div a b * b < a + b" by linarith+
qed

text \<open>White space as \<open>parseInt\<close> and \<open>BigInt\<close> skip it, on Latin-1.\<close>

definition is_space :: "char \<Rightarrow> bool" where
  "is_space c \<longleftrightarrow> (of_char c :: nat) \<in> {9, 10, 11, 12, 13, 32, 160}"

definition trim :: "string \<Rightarrow> string" where
  "trim s = rev (dropWhile is_space (rev (dropWhile is_space s)))"

text \<open>
  \<open>parseInt(s, b)\<close>, \<open>None\<close> for NaN: leading space, a sign, a \<open>0x\<close> when the radix is 16,
  then the longest run of digits.
\<close>

definition parse_digits :: "nat \<Rightarrow> string \<Rightarrow> int option" where
  "parse_digits b s = (let ds = takeWhile (is_digit_in b) s in
     if ds = [] then None else Some (int (radix_val b ds)))"

definition drop_0x :: "string \<Rightarrow> string" where
  "drop_0x s = (if startsWith s ''0x'' \<or> startsWith s ''0X'' then drop 2 s else s)"

definition parseInt :: "string \<Rightarrow> nat \<Rightarrow> int option" where
  "parseInt s b = (let t = dropWhile is_space s;
       neg = startsWith t ''-'';
       u = (if neg \<or> startsWith t ''+'' then drop 1 t else t);
       v = (if b = 16 then drop_0x u else u)
     in map_option (\<lambda>n. if neg then - n else n) (parse_digits b v))"

text \<open>\<open>BigInt(s)\<close> of a string, \<open>None\<close> for the SyntaxError it throws.\<close>

definition whole_numeral :: "nat \<Rightarrow> string \<Rightarrow> int option" where
  "whole_numeral b s =
     (if s \<noteq> [] \<and> list_all (is_digit_in b) s then Some (int (radix_val b s)) else None)"

definition BigInt_str :: "string \<Rightarrow> int option" where
  "BigInt_str s = (let t = trim s in
     if t = [] then Some 0
     else if startsWith t ''0x'' \<or> startsWith t ''0X'' then whole_numeral 16 (drop 2 t)
     else if startsWith t ''0o'' \<or> startsWith t ''0O'' then whole_numeral 8 (drop 2 t)
     else if startsWith t ''0b'' \<or> startsWith t ''0B'' then whole_numeral 2 (drop 2 t)
     else if startsWith t ''-'' then map_option uminus (whole_numeral 10 (drop 1 t))
     else if startsWith t ''+'' then whole_numeral 10 (drop 1 t)
     else whole_numeral 10 t)"

lemma digit_not_space: "is_digit_in b c \<Longrightarrow> \<not> is_space c"
  by (auto simp: is_digit_in_def is_space_def digit_val_def Let_def split: if_splits option.splits)

lemma takeWhile_digits: "list_all P s \<Longrightarrow> takeWhile P s = s"
  by (simp add: list_all_iff)

lemma trim_no_space: "s = [] \<or> \<not> is_space (hd s) \<and> \<not> is_space (last s) \<Longrightarrow> trim s = s"
proof -
  assume *: "s = [] \<or> \<not> is_space (hd s) \<and> \<not> is_space (last s)"
  then have d: "dropWhile is_space s = s" by (cases s) auto
  have "dropWhile is_space (rev s) = rev s" using * by (cases s rule: rev_cases) auto
  with d show ?thesis by (simp add: trim_def)
qed

lemma BigInt_str_dec: "BigInt_str (to_dec k) = Some (int k)"
proof -
  let ?d = "to_dec k"
  have all: "list_all (is_digit_in 10) ?d" by (simp add: radix_str_digits)
  then have "hd ?d \<in> set ?d \<and> last ?d \<in> set ?d" by simp
  then have "\<not> is_space (hd ?d) \<and> \<not> is_space (last ?d)" using all by (meson digit_not_space list_all_iff)
  then have trim: "trim ?d = ?d" by (intro trim_no_space) simp
  have no: "\<not> startsWith ?d p" if "\<exists>c \<in> set p. \<not> is_digit_in 10 c" for p
    using that all by (auto simp: startsWith_iff list_all_iff)
  show ?thesis using all by (simp add: BigInt_str_def trim no whole_numeral_def is_digit_in_def digit_val_def)
qed

lemma is_space_0 [simp]: "\<not> is_space (CHR ''0'')"
  by (simp add: is_space_def)

lemma BigInt_str_hex:
  "BigInt_str (''0x'' @ to_hex n) = Some (int n)"
proof -
  have "list_all (is_digit_in 16) (to_hex n)" by (simp add: radix_str_digits)
  then have "\<not> is_space (last (to_hex n))"
    by (metis digit_not_space last_in_set list_all_iff radix_str_not_Nil)
  then have "trim (''0x'' @ to_hex n) = ''0x'' @ to_hex n"
    by (intro trim_no_space) simp
  then show ?thesis
    by (simp add: BigInt_str_def whole_numeral_def radix_str_digits startsWith_def)
qed

lemma parseInt_digits:
  assumes "s \<noteq> []" "list_all (is_digit_in 16) s"
  shows "parseInt s 16 = Some (int (radix_val 16 s))"
proof -
  obtain c t where s: "s = c # t" using assms(1) by (cases s) auto
  have c: "is_digit_in 16 c" and t: "list_all (is_digit_in 16) t" using assms(2) s by auto
  have sp: "\<not> is_space c" using c by (rule digit_not_space)
  have ndx: "\<not> is_digit_in 16 (CHR ''x'')" "\<not> is_digit_in 16 (CHR ''X'')"
      "\<not> is_digit_in 16 (CHR ''-'')" "\<not> is_digit_in 16 (CHR ''+'')"
    by (simp_all add: is_digit_in_def digit_val_def)
  have "\<not> startsWith s ''-''" "\<not> startsWith s ''+''"
    using c ndx s by (auto simp: startsWith_def)
  moreover have "drop_0x s = s"
    using t ndx s by (cases t) (auto simp: drop_0x_def startsWith_def)
  ultimately show ?thesis
    using sp s assms by (simp add: parseInt_def parse_digits_def takeWhile_digits)
qed

end
