(* ===== verification/Json.thy ===== *)
theory Json
  imports Prelude
begin

text \<open>
  JavaScript values as they arrive in a JSON-RPC request, with the conversions the relay
  applies to them: \<open>String(v)\<close> (also what a regular expression's \<open>test\<close> and a template
  literal do to their argument), \<open>JSON.stringify(v)\<close>, property access and \<open>Object.keys\<close>.
  Numbers are integers; an object is its list of properties in enumeration order.
\<close>

datatype jv =
    JUndefined
  | JNullV
  | JBool bool
  | JNumV int
  | JString string
  | JArray "jv list"
  | JObject "(string \<times> jv) list"

section \<open>Conversion to strings\<close>

fun js_String :: "jv \<Rightarrow> string" where
  "js_String JUndefined = ''undefined''"
| "js_String JNullV = ''null''"
| "js_String (JBool b) = (if b then ''true'' else ''false'')"
| "js_String (JNumV i) = int_str 10 i"
| "js_String (JString s) = s"
| "js_String (JArray xs) =
     join_with '','' (map (\<lambda>x. if x = JUndefined \<or> x = JNullV then [] else js_String x) xs)"
| "js_String (JObject ps) = ''[object Object]''"

definition json_escape :: "char \<Rightarrow> string" where
  "json_escape c = (let n = of_char c :: nat in
     if c = CHR 0x22 then [CHR 0x5C, CHR 0x22]
     else if c = CHR 0x5C then [CHR 0x5C, CHR 0x5C]
     else if n = 8 then [CHR 0x5C, CHR ''b''] else if n = 9 then [CHR 0x5C, CHR ''t'']
     else if n = 10 then [CHR 0x5C, CHR ''n''] else if n = 12 then [CHR 0x5C, CHR ''f'']
     else if n = 13 then [CHR 0x5C, CHR ''r'']
     else if n < 32 then [CHR 0x5C] @ ''u00'' @ [digit (n div 16), digit (n mod 16)]
     else [c])"

definition json_quote :: "string \<Rightarrow> string" where
  "json_quote s = [CHR 0x22] @ concat (map json_escape s) @ [CHR 0x22]"

text \<open>Inside an array \<open>undefined\<close> prints as \<open>null\<close>; an undefined property is left out.\<close>

fun json_stringify :: "jv \<Rightarrow> string" where
  "json_stringify JUndefined = ''undefined''"
| "json_stringify JNullV = ''null''"
| "json_stringify (JBool b) = (if b then ''true'' else ''false'')"
| "json_stringify (JNumV i) = int_str 10 i"
| "json_stringify (JString s) = json_quote s"
| "json_stringify (JArray xs) =
     ''['' @ join_with '','' (map (\<lambda>x. if x = JUndefined then ''null'' else json_stringify x) xs) @ '']''"
| "json_stringify (JObject ps) =
     ''{'' @ join_with '','' (concat (map (\<lambda>(k, v). if v = JUndefined then []
        else [json_quote k @ '':'' @ json_stringify v]) ps)) @ ''}''"

section \<open>Properties\<close>

definition is_object_tag :: "jv \<Rightarrow> bool" where
  "is_object_tag v = (case v of JObject _ \<Rightarrow> True | _ \<Rightarrow> False)"

definition is_array :: "jv \<Rightarrow> bool" where
  "is_array v = (case v of JArray _ \<Rightarrow> True | _ \<Rightarrow> False)"

text \<open>\<open>typeof v === 'object'\<close>, which also holds of \<open>null\<close> and of arrays.\<close>

definition typeof_object :: "jv \<Rightarrow> bool" where
  "typeof_object v = (case v of JNullV \<Rightarrow> True | JArray _ \<Rightarrow> True | JObject _ \<Rightarrow> True | _ \<Rightarrow> False)"

fun truthy :: "jv \<Rightarrow> bool" where
  "truthy JUndefined = False"
| "truthy JNullV = False"
| "truthy (JBool b) = b"
| "truthy (JNumV i) = (i \<noteq> 0)"
| "truthy (JString s) = (s \<noteq> [])"
| "truthy (JArray _) = True"
| "truthy (JObject _) = True"

fun js_entries :: "jv \<Rightarrow> (string \<times> jv) list" where
  "js_entries (JObject ps) = ps"
| "js_entries (JArray xs) = zip (map to_dec [0..<length xs]) xs"
| "js_entries _ = []"

definition js_keys :: "jv \<Rightarrow> string list" where
  "js_keys v = map fst (js_entries v)"

definition js_get :: "jv \<Rightarrow> string \<Rightarrow> jv" where
  "js_get v k = (case map_of (js_entries v) k of None \<Rightarrow> JUndefined | Some x \<Rightarrow> x)"

fun js_length :: "jv \<Rightarrow> nat option" where
  "js_length (JString s) = Some (length s)"
| "js_length (JArray xs) = Some (length xs)"
| "js_length _ = None"

definition js_flat :: "jv list \<Rightarrow> jv list" where
  "js_flat xs = concat (map (\<lambda>x. case x of JArray ys \<Rightarrow> ys | _ \<Rightarrow> [x]) xs)"

text \<open>\<open>delete object[k]\<close> for every key of a list.\<close>

definition js_delete :: "string list \<Rightarrow> jv \<Rightarrow> jv" where
  "js_delete ks v = (case v of
     JObject ps \<Rightarrow> JObject (filter (\<lambda>(k, _). k \<notin> set ks) ps) | _ \<Rightarrow> v)"

lemma js_get_JObject: "js_get (JObject ps) k = (case map_of ps k of None \<Rightarrow> JUndefined | Some x \<Rightarrow> x)"
  by (simp add: js_get_def)

lemma map_of_filter_key: "P k \<Longrightarrow> map_of (filter (\<lambda>(k, _). P k) ps) k = map_of ps k"
  by (induction ps) auto

lemma js_get_delete:
  "js_get (js_delete ks (JObject ps)) k = (if k \<in> set ks then JUndefined else js_get (JObject ps) k)"
proof (cases "k \<in> set ks")
  case True
  have "map_of (filter (\<lambda>(k, _). k \<notin> set ks) ps) k = None"
    using True by (auto simp: map_of_eq_None_iff)
  with True show ?thesis by (simp add: js_delete_def js_get_JObject)
next
  case False
  then show ?thesis by (simp add: js_delete_def js_get_JObject map_of_filter_key)
qed

lemma js_keys_delete: "js_keys (js_delete ks (JObject ps)) = filter (\<lambda>k. k \<notin> set ks) (js_keys (JObject ps))"
  by (induction ps) (auto simp: js_delete_def js_keys_def)

end
