(* ===== verification/Formatters.thy ===== *)
theory Formatters
  imports Prelude "HOL-Library.Word" "HOL-Library.AList"
begin

text \<open>
  The value formatters of \<open>packages/relay/src/formatters.ts\<close>: hexadecimal printing,
  prefixes, the conversions between tinybars and weibars, transaction ids and the
  decoding of EVM revert messages. The theorems are round trips against the
  JavaScript readers of the prelude, the two's complement reading of negative
  mirror node amounts, and the exactness of the unit conversions.

  A decoded text is a list of UTF-16 code units (natural numbers), because
  \<open>String.fromCharCode\<close> can produce units that are not Latin-1 characters.
\<close>

section \<open>Definitions\<close>

definition EMPTY_HEX :: string where
  "EMPTY_HEX = ''0x''"

definition TINYBAR_TO_WEIBAR_COEF :: int where
  "TINYBAR_TO_WEIBAR_COEF = 10000000000"

definition TOTAL_SUPPLY_TINYBARS :: int where
  "TOTAL_SUPPLY_TINYBARS = 5000000000000000000"

definition hashNumber :: "int \<Rightarrow> string" where
  "hashNumber num = EMPTY_HEX @ int_str 16 num"

text \<open>\<open>String.fromCharCode(x)\<close>: NaN counts as 0, other numbers modulo \<open>2^16\<close>.\<close>

definition fromCharCode :: "int option \<Rightarrow> nat" where
  "fromCharCode x = (case x of None \<Rightarrow> 0 | Some i \<Rightarrow> nat (i mod 65536))"

fun hexToASCII :: "string \<Rightarrow> nat list" where
  "hexToASCII [] = []"
| "hexToASCII [c] = [fromCharCode (parseInt [c] 16)]"
| "hexToASCII (c # d # s) = fromCharCode (parseInt [c, d] 16) # hexToASCII s"

definition ASCIIToHex :: "string \<Rightarrow> string" where
  "ASCIIToHex ascii = concat (map (\<lambda>c. to_hex (of_char c)) ascii)"

definition decodeErrorMessage :: "string option \<Rightarrow> nat list" where
  "decodeErrorMessage message = (case message of
     None \<Rightarrow> []
   | Some m \<Rightarrow>
       if m = [] then []
       else if \<not> str_includes m EMPTY_HEX then map of_char m
       else let m' = (if startsWith m ''0x'' then drop 2 m else m);
                strLen = parseInt (str_slice m' (8 + 64) (8 + 128)) 16;
                resultCodeHex = (case strLen of
                   None \<Rightarrow> []
                 | Some n \<Rightarrow> js_slice m' (8 + 128) (8 + 128 + n * 2))
            in hexToASCII resultCodeHex)"

text \<open>
  \<open>constants.TRANSACTION_ID_REGEX\<close>, \<open>/\d{1}\.\d{1}\.\d{1,10}\@\d{1,10}\.\d{1,9}/\<close>, has no
  anchors: \<open>test\<close> looks for a match starting anywhere.
\<close>

definition txid_seconds_at :: "string \<Rightarrow> bool" where
  "txid_seconds_at r = (let es = takeWhile (is_digit_in 10) r; r' = dropWhile (is_digit_in 10) r in
     1 \<le> length es \<and> length es \<le> 10 \<and>
     (case r' of p # x # _ \<Rightarrow> p = CHR ''.'' \<and> is_digit_in 10 x | _ \<Rightarrow> False))"

definition txid_number_at :: "string \<Rightarrow> bool" where
  "txid_number_at r = (let ds = takeWhile (is_digit_in 10) r; r' = dropWhile (is_digit_in 10) r in
     1 \<le> length ds \<and> length ds \<le> 10 \<and>
     (case r' of a # r'' \<Rightarrow> a = CHR ''@'' \<and> txid_seconds_at r'' | _ \<Rightarrow> False))"

definition txid_at :: "string \<Rightarrow> bool" where
  "txid_at s = (case s of
     a # p # b # q # r \<Rightarrow> is_digit_in 10 a \<and> p = CHR ''.'' \<and> is_digit_in 10 b \<and> q = CHR ''.''
       \<and> txid_number_at r
   | _ \<Rightarrow> False)"

fun TRANSACTION_ID_REGEX_test :: "string \<Rightarrow> bool" where
  "TRANSACTION_ID_REGEX_test [] = False"
| "TRANSACTION_ID_REGEX_test (c # s) = (txid_at (c # s) \<or> TRANSACTION_ID_REGEX_test s)"

definition formatTransactionId :: "string \<Rightarrow> string option" where
  "formatTransactionId transactionId =
     (if \<not> TRANSACTION_ID_REGEX_test transactionId then None
      else let transactionSplit = split_on (CHR ''@'') transactionId;
               payer = transactionSplit ! 0;
               timestamp = replace_first ''.'' ''-'' (transactionSplit ! 1)
           in Some (payer @ ''-'' @ timestamp))"

definition formatTransactionIdWithoutQueryParams :: "string \<Rightarrow> string option" where
  "formatTransactionIdWithoutQueryParams transactionId =
     (case formatTransactionId transactionId of
        None \<Rightarrow> None
      | Some t \<Rightarrow> if t = [] then None else Some (split_on (CHR ''?'') t ! 0))"

text \<open>\<open>Number.parseInt(s)\<close> without a radix: hexadecimal after \<open>0x\<close>, else decimal.\<close>

definition parseInt_auto :: "string \<Rightarrow> int option" where
  "parseInt_auto s = (let t = dropWhile is_space s;
       u = (if startsWith t ''-'' \<or> startsWith t ''+'' then drop 1 t else t)
     in if drop_0x u \<noteq> u then parseInt s 16 else parseInt s 10)"

definition parseNumericEnvVar :: "string option \<Rightarrow> string option \<Rightarrow> string + int" where
  "parseNumericEnvVar envVar fallback =
     (case parseInt (case envVar of None \<Rightarrow> [] | Some s \<Rightarrow> s) 10 of
        Some value \<Rightarrow> Inr value
      | None \<Rightarrow> (case parseInt_auto (case fallback of None \<Rightarrow> [] | Some s \<Rightarrow> s) of
          None \<Rightarrow> Inl ''Unable to parse numeric env var''
        | Some value \<Rightarrow> Inr value))"

datatype weibar_value = BigintV int | BoolV bool | NumberV int | StringV string

text \<open>\<open>BigInt(value)\<close>; \<open>None\<close> stands for the SyntaxError on a malformed string.\<close>

fun BigInt_of :: "weibar_value \<Rightarrow> int option" where
  "BigInt_of (BigintV i) = Some i"
| "BigInt_of (BoolV b) = Some (if b then 1 else 0)"
| "BigInt_of (NumberV i) = Some i"
| "BigInt_of (StringV s) = BigInt_str s"

definition weibarHexToTinyBarInt :: "weibar_value \<Rightarrow> string + int" where
  "weibarHexToTinyBarInt value =
     (if value = StringV ''0x'' then Inr 0
      else case BigInt_of value of
        None \<Rightarrow> Inl ''SyntaxError''
      | Some weiBigInt \<Rightarrow>
          let tinybarValue = trunc_div weiBigInt TINYBAR_TO_WEIBAR_COEF
          in if tinybarValue = 0 \<and> weiBigInt > 0 then Inr 1
             else Inr (double_of_int tinybarValue))"

text \<open>
  \<open>mapKeysAndValues\<close> on an object, an association list in enumeration order; writing to
  an existing key of the result replaces its value. \<open>None\<close> stands for an omitted function.
\<close>

definition mapKeysAndValues ::
    "('k \<times> 'v) list \<Rightarrow> ('k \<Rightarrow> 'k) option \<Rightarrow> ('v \<Rightarrow> 'v) option \<Rightarrow> ('k \<times> 'v) list" where
  "mapKeysAndValues target key value =
     foldl (\<lambda>result (k, v).
        AList.update (case key of None \<Rightarrow> k | Some f \<Rightarrow> f k)
                     (case value of None \<Rightarrow> v | Some g \<Rightarrow> g v) result) [] target"

definition strip0x :: "string \<Rightarrow> string" where
  "strip0x input = (if startsWith input EMPTY_HEX then drop 2 input else input)"

definition prepend0x :: "string \<Rightarrow> string" where
  "prepend0x input = (if startsWith input EMPTY_HEX then input else EMPTY_HEX @ input)"

text \<open>The argument of \<open>trimPrecedingZeros\<close> is \<open>None\<close> when it is not a string.\<close>

definition trimPrecedingZeros :: "string option \<Rightarrow> string option" where
  "trimPrecedingZeros input = (case input of
     None \<Rightarrow> None
   | Some s \<Rightarrow>
       let hex = (if startsWith s EMPTY_HEX then drop 2 s else s)
       in if \<not> (hex \<noteq> [] \<and> list_all (is_digit_in 16) hex) then None
          else let trimmed = dropWhile (\<lambda>c. c = CHR ''0'') hex
               in Some (if trimmed = [] then ''0'' else trimmed))"

definition stripLeadingZeroForSignatures :: "string \<Rightarrow> string" where
  "stripLeadingZeroForSignatures signature =
     (let remove0x = (\<lambda>s. if startsWith s ''0x'' then drop 2 s else s);
          remove0 = (\<lambda>s. if startsWith s ''0'' then drop 1 s else s)
      in ''0x'' @ foldl (\<lambda>acc fn. fn acc) signature [remove0x, remove0])"

definition numberTo0x :: "int \<Rightarrow> string" where
  "numberTo0x input = EMPTY_HEX @ int_str 16 input"

text \<open>A nullable number of JavaScript, which may also be NaN.\<close>

datatype js_number = JNull | JNaN | JNum int

definition nullableNumberTo0x :: "int option \<Rightarrow> string option" where
  "nullableNumberTo0x input = (case input of None \<Rightarrow> None | Some n \<Rightarrow> Some (numberTo0x n))"

definition nanOrNumberTo0x :: "js_number \<Rightarrow> string" where
  "nanOrNumberTo0x input = (case input of
     JNull \<Rightarrow> numberTo0x 0 | JNaN \<Rightarrow> numberTo0x 0 | JNum n \<Rightarrow> numberTo0x n)"

text \<open>BigInt's \<open>%\<close> takes the sign of the dividend.\<close>

definition trunc_mod :: "int \<Rightarrow> int \<Rightarrow> int" where
  "trunc_mod a b = a - trunc_div a b * b"

definition nanOrNumberInt64To0x :: "js_number \<Rightarrow> string" where
  "nanOrNumberInt64To0x input = (case input of
     JNum n \<Rightarrow> if n < 0 then numberTo0x (trunc_mod (n + 2 ^ 64) (2 ^ 64)) else nanOrNumberTo0x input
   | _ \<Rightarrow> nanOrNumberTo0x input)"

definition toHash32 :: "string \<Rightarrow> string" where
  "toHash32 value = str_slice value 0 66"

definition toNullIfEmptyHex :: "string \<Rightarrow> string option" where
  "toNullIfEmptyHex value = (if value = EMPTY_HEX then None else Some value)"

definition toHexString :: "8 word list \<Rightarrow> string" where
  "toHexString byteArray = concat (map (\<lambda>b. [digit (unat b div 16), digit (unat b mod 16)]) byteArray)"

text \<open>The random bytes of \<open>crypto.randomBytes\<close> are the argument.\<close>

definition generateRandomHex :: "8 word list \<Rightarrow> string" where
  "generateRandomHex randomBytes = ''0x'' @ toHexString randomBytes"

definition isValidEthereumAddress :: "string option \<Rightarrow> bool" where
  "isValidEthereumAddress address = (case address of
     None \<Rightarrow> False
   | Some a \<Rightarrow> a \<noteq> [] \<and> (startsWith a ''0x'' \<or> startsWith a ''0X'') \<and>
       length (drop 2 a) = 40 \<and> list_all (is_digit_in 16) (drop 2 a))"

definition isHex :: "string \<Rightarrow> bool" where
  "isHex value \<longleftrightarrow> startsWith value ''0x'' \<and> drop 2 value \<noteq> [] \<and> list_all (is_digit_in 16) (drop 2 value)"

definition tinybarsToWeibars :: "int option \<Rightarrow> bool \<Rightarrow> string + int option" where
  "tinybarsToWeibars value allowNegativeValues = (case value of
     None \<Rightarrow> Inr None
   | Some v \<Rightarrow>
       if v < 0 then
         if allowNegativeValues then Inr (Some v)
         else Inl ''Invalid value - cannot pass negative number''
       else if v > TOTAL_SUPPLY_TINYBARS then
         Inl ''Value cannot be more than the total supply of tinybars in the blockchain''
       else Inr (Some (v * TINYBAR_TO_WEIBAR_COEF)))"

section \<open>Hexadecimal printing\<close>

lemma numberTo0x_nonneg: "0 \<le> n \<Longrightarrow> numberTo0x n = ''0x'' @ to_hex (nat n)"
  by (simp add: numberTo0x_def EMPTY_HEX_def int_str_def)

lemma hashNumber_eq_numberTo0x: "hashNumber n = numberTo0x n"
  by (simp add: hashNumber_def numberTo0x_def)

lemma BigInt_numberTo0x: "0 \<le> n \<Longrightarrow> BigInt_str (numberTo0x n) = Some n"
  using BigInt_str_hex [of "nat n"] by (simp add: numberTo0x_nonneg)

lemma isHex_numberTo0x: "0 \<le> n \<Longrightarrow> isHex (numberTo0x n)"
  by (simp add: numberTo0x_nonneg isHex_def startsWith_def radix_str_digits)

lemma numberTo0x_inj: "0 \<le> m \<Longrightarrow> 0 \<le> n \<Longrightarrow> numberTo0x m = numberTo0x n \<Longrightarrow> m = n"
  by (metis BigInt_numberTo0x option.inject)

text \<open>\<open>numberTo0x\<close> prints every non-negative integer as a string that \<open>isHex\<close> accepts
  and that \<open>BigInt\<close> reads back as the same integer.\<close>

lemma numberTo0x_roundtrip:
  assumes "0 \<le> n"
  shows "BigInt_str (numberTo0x n) = Some n \<and> isHex (numberTo0x n)"
  using assms by (simp add: BigInt_numberTo0x isHex_numberTo0x)

lemma numberTo0x_roundtrip_witness:
  "BigInt_str (numberTo0x 255) = Some 255 \<and> isHex (numberTo0x 255)"
  using numberTo0x_roundtrip [of 255] by simp

lemma trunc_mod_int64: "- (2 ^ 64) \<le> n \<Longrightarrow> n < 0 \<Longrightarrow> trunc_mod (n + 2 ^ 64) (2 ^ 64) = n + 2 ^ 64"
  by (simp add: trunc_mod_def trunc_div_nonneg)

lemma uint_int64: "- (2 ^ 63) \<le> n \<Longrightarrow> n < 2 ^ 63 \<Longrightarrow>
    uint (word_of_int n :: 64 word) = (if n < 0 then n + 2 ^ 64 else n)"
proof -
  assume *: "- (2 ^ 63) \<le> n" "n < 2 ^ 63"
  have "n mod 2 ^ 64 = (if n < 0 then n + 2 ^ 64 else n)"
  proof (cases "n < 0")
    case True
    have "n mod 2 ^ 64 = (n + 2 ^ 64) mod 2 ^ 64" by simp
    also have "\<dots> = n + 2 ^ 64" by (rule mod_pos_pos_trivial) (use * True in auto)
    finally show ?thesis using True by simp
  next
    case False
    have "n mod 2 ^ 64 = n" by (rule mod_pos_pos_trivial) (use * False in auto)
    then show ?thesis using False by simp
  qed
  then show ?thesis by (simp add: uint_word_of_int)
qed

text \<open>on the whole int64 range of the mirror node, \<open>nanOrNumberInt64To0x\<close> prints the
  two's complement reading of the amount: the hexadecimal of the 64-bit word holding it,
  so that a 64-bit reader gets the signed amount back.\<close>

lemma nanOrNumberInt64To0x_twos_complement:
  assumes "- (2 ^ 63) \<le> n" "n < 2 ^ 63"
  shows "nanOrNumberInt64To0x (JNum n) = numberTo0x (uint (word_of_int n :: 64 word))
    \<and> map_option (\<lambda>i. sint (word_of_int i :: 64 word)) (BigInt_str (nanOrNumberInt64To0x (JNum n))) = Some n"
proof
  show eq: "nanOrNumberInt64To0x (JNum n) = numberTo0x (uint (word_of_int n :: 64 word))"
    unfolding uint_int64 [OF assms]
    using assms trunc_mod_int64 [of n] by (simp add: nanOrNumberInt64To0x_def nanOrNumberTo0x_def)
  have "sint (word_of_int n :: 64 word) = n"
    using assms by (simp add: sint_sbintrunc' signed_take_bit_int_eq_self)
  then show "map_option (\<lambda>i. sint (word_of_int i :: 64 word))
      (BigInt_str (nanOrNumberInt64To0x (JNum n))) = Some n"
    unfolding eq by (simp add: BigInt_numberTo0x)
qed

lemma nanOrNumberInt64To0x_twos_complement_witness:
  "nanOrNumberInt64To0x (JNum (- 10)) = ''0xfffffffffffffff6''"
proof -
  have "nanOrNumberInt64To0x (JNum (- 10)) = numberTo0x (uint (word_of_int (- 10) :: 64 word))"
    using nanOrNumberInt64To0x_twos_complement [of "- 10"] by simp
  also have "\<dots> = ''0xfffffffffffffff6''"
    by (simp add: numberTo0x_def EMPTY_HEX_def int_str_def radix_str.simps digit_def char_of_def bit_simps)
  finally show ?thesis .
qed

section \<open>Prefixes and leading zeros\<close>

lemma strip0x_prepend0x: "strip0x (prepend0x s) = strip0x s"
  by (auto simp: strip0x_def prepend0x_def EMPTY_HEX_def startsWith_def)

lemma prepend0x_strip0x: "startsWith s EMPTY_HEX \<Longrightarrow> prepend0x (strip0x s) = s \<or> startsWith (strip0x s) EMPTY_HEX"
  by (auto simp: strip0x_def prepend0x_def EMPTY_HEX_def startsWith_iff)

lemma prepend0x_idem: "prepend0x (prepend0x s) = prepend0x s"
  by (auto simp: prepend0x_def EMPTY_HEX_def startsWith_def)

lemma dropWhile_zeros_val:
  "radix_val b (dropWhile (\<lambda>c. c = CHR ''0'') s) = radix_val b s"
  by (induction s) (auto simp: radix_val_Cons)

lemma dropWhile_zeros_Nil:
  "list_all (is_digit_in 16) h \<Longrightarrow> radix_val 16 h = 0 \<longleftrightarrow> dropWhile (\<lambda>c. c = CHR ''0'') h = []"
proof (induction h)
  case (Cons c h)
  then obtain d where d: "digit_val c = Some d" "d < 16"
    by (auto simp: is_digit_in_def split: option.splits)
  have "d = 0 \<longleftrightarrow> c = CHR ''0''"
  proof
    assume "d = 0"
    with d have "(of_char c :: nat) = 48"
      by (auto simp: digit_val_def Let_def split: if_splits)
    then have "(of_char c :: nat) = of_char (CHR ''0'')" by simp
    then show "c = CHR ''0''" by (metis of_char_eq_iff)
  qed (use d in auto)
  with Cons d show ?case by (auto simp: radix_val_Cons)
qed simp

text \<open>\<open>trimPrecedingZeros\<close> refuses exactly the strings that are not hexadecimal after an
  optional \<open>0x\<close>; otherwise it returns a string of the same value without a leading zero
  (the numeral \<open>0\<close> itself apart).\<close>

lemma trimPrecedingZeros_canonical:
  "(trimPrecedingZeros (Some s) = None \<longleftrightarrow> strip0x s = [] \<or> \<not> list_all (is_digit_in 16) (strip0x s))
   \<and> (\<forall>t. trimPrecedingZeros (Some s) = Some t \<longrightarrow>
        radix_val 16 t = radix_val 16 (strip0x s) \<and> (hd t = CHR ''0'' \<longrightarrow> t = ''0''))"
proof (intro conjI allI impI)
  show "trimPrecedingZeros (Some s) = None \<longleftrightarrow> strip0x s = [] \<or> \<not> list_all (is_digit_in 16) (strip0x s)"
    by (simp add: trimPrecedingZeros_def strip0x_def Let_def)
next
  fix t assume "trimPrecedingZeros (Some s) = Some t"
  then have ok: "list_all (is_digit_in 16) (strip0x s)"
    and t: "t = (if dropWhile (\<lambda>c. c = CHR ''0'') (strip0x s) = [] then ''0''
                 else dropWhile (\<lambda>c. c = CHR ''0'') (strip0x s))"
    by (auto simp: trimPrecedingZeros_def strip0x_def Let_def split: if_splits)
  show "radix_val 16 t = radix_val 16 (strip0x s)"
    using t dropWhile_zeros_Nil [OF ok] dropWhile_zeros_val [of 16 "strip0x s"]
    by (auto simp: radix_val_Cons)
  assume "hd t = CHR ''0''"
  then show "t = ''0''"
    using t hd_dropWhile [of "\<lambda>c. c = CHR ''0''" "strip0x s"] by (auto split: if_splits)
qed

lemma trimPrecedingZeros_canonical_witness:
  "trimPrecedingZeros (Some ''0x00ff'') = Some ''ff'' \<and> radix_val 16 ''ff'' = radix_val 16 (strip0x ''0x00ff'')"
proof -
  have "trimPrecedingZeros (Some ''0x00ff'') = Some ''ff''" by code_simp
  moreover from this have "radix_val 16 ''ff'' = radix_val 16 (strip0x ''0x00ff'')"
    using trimPrecedingZeros_canonical [of "''0x00ff''"] by blast
  ultimately show ?thesis by blast
qed

section \<open>Units\<close>

lemma weibar_of_tinybar:
  "0 \<le> t \<Longrightarrow> trunc_div (t * TINYBAR_TO_WEIBAR_COEF) TINYBAR_TO_WEIBAR_COEF = t"
  by (simp add: trunc_div_nonneg TINYBAR_TO_WEIBAR_COEF_def)

text \<open>an amount of tinybars that a JavaScript number can hold, up to the total supply,
  survives the conversion to weibars and back exactly: no rounding is visible.\<close>

lemma tinybars_weibars_roundtrip:
  assumes "0 \<le> t" "t \<le> TOTAL_SUPPLY_TINYBARS" "is_double t"
  shows "\<exists>w. tinybarsToWeibars (Some t) allowNeg = Inr (Some w) \<and> weibarHexToTinyBarInt (BigintV w) = Inr t"
proof -
  have "weibarHexToTinyBarInt (BigintV (t * TINYBAR_TO_WEIBAR_COEF)) = Inr t"
    using assms by (auto simp: weibarHexToTinyBarInt_def Let_def weibar_of_tinybar is_double_def)
  moreover have "tinybarsToWeibars (Some t) allowNeg = Inr (Some (t * TINYBAR_TO_WEIBAR_COEF))"
    using assms by (simp add: tinybarsToWeibars_def)
  ultimately show ?thesis by blast
qed

lemma tinybars_weibars_roundtrip_witness:
  "\<exists>w. tinybarsToWeibars (Some 72) False = Inr (Some w) \<and> weibarHexToTinyBarInt (BigintV w) = Inr 72"
  using tinybars_weibars_roundtrip [of 72 False] by (simp add: TOTAL_SUPPLY_TINYBARS_def)

text \<open>every weibar amount below \<open>2^53\<close> tinybars converts to its whole tinybars, except
  that a positive amount never becomes zero: it is rounded up to one tinybar.\<close>

lemma weibarHexToTinyBarInt_value:
  assumes "0 \<le> w" "w < 2 ^ 53 * TINYBAR_TO_WEIBAR_COEF"
  shows "weibarHexToTinyBarInt (StringV (numberTo0x w)) =
      Inr (if w = 0 then 0 else max 1 (w div TINYBAR_TO_WEIBAR_COEF))"
proof -
  let ?q = "w div TINYBAR_TO_WEIBAR_COEF"
  have q: "0 \<le> ?q" "?q < 2 ^ 53"
    using assms by (simp_all add: TINYBAR_TO_WEIBAR_COEF_def div_less_iff_less_mult pos_imp_zdiv_nonneg_iff)
  have "numberTo0x w \<noteq> ''0x''" using assms(1) by (simp add: numberTo0x_nonneg)
  moreover have "trunc_div w TINYBAR_TO_WEIBAR_COEF = ?q"
    using assms(1) by (intro trunc_div_nonneg) (simp_all add: TINYBAR_TO_WEIBAR_COEF_def)
  ultimately show ?thesis
    using assms(1) q double_of_int_exact [of ?q]
    by (auto simp: weibarHexToTinyBarInt_def Let_def BigInt_numberTo0x max_def)
qed

lemma weibarHexToTinyBarInt_value_witness:
  "weibarHexToTinyBarInt (StringV (numberTo0x 25000000000)) = Inr 2
   \<and> weibarHexToTinyBarInt (StringV (numberTo0x 1)) = Inr 1"
  using weibarHexToTinyBarInt_value [of 25000000000] weibarHexToTinyBarInt_value [of 1]
  by (simp add: TINYBAR_TO_WEIBAR_COEF_def)

section \<open>Revert messages\<close>

text \<open>
  The ABI encoding of \<open>Error(string)\<close> that a reverting contract returns: the selector,
  the offset 32, the length and the bytes of the text, padded with zeros. This is the
  specification that \<open>decodeErrorMessage\<close> is compared with.
\<close>

definition pad64 :: "string \<Rightarrow> string" where
  "pad64 s = replicate (64 - length s) (CHR ''0'') @ s"

definition byte_hex :: "char \<Rightarrow> string" where
  "byte_hex c = [digit (of_char c div 16), digit (of_char c mod 16)]"

definition abi_error_string :: "string \<Rightarrow> nat \<Rightarrow> string" where
  "abi_error_string reason padding =
     ''0x08c379a0'' @ pad64 (to_hex 32) @ pad64 (to_hex (length reason)) @
     concat (map byte_hex reason) @ replicate padding (CHR ''0'')"

lemma length_radix_str:
  "2 \<le> b \<Longrightarrow> n < b ^ k \<Longrightarrow> 0 < k \<Longrightarrow> length (radix_str b n) \<le> k"
proof (induction b n arbitrary: k rule: radix_str.induct)
  case (1 b n)
  show ?case
  proof (cases "n < b")
    case True
    with 1 show ?thesis by (subst radix_str.simps) simp
  next
    case False
    then obtain k' where k: "k = Suc k'" "0 < k'"
      using 1(3,4) by (cases k; cases "k - 1") auto
    have "n div b < b ^ k'" using 1(2,3) k by (simp add: div_less_iff_less_mult mult.commute)
    then have "length (radix_str b (n div b)) \<le> k'" using 1 False k by simp
    then show ?thesis using False 1(2) k by (subst radix_str.simps) simp
  qed
qed

lemma length_pad64: "n < 16 ^ 64 \<Longrightarrow> length (pad64 (to_hex n)) = 64"
  using length_radix_str [of 16 n 64] by (simp add: pad64_def)

lemma pad64_digits: "list_all (is_digit_in 16) (pad64 (to_hex n))"
  using radix_str_digits [of 16 n] by (auto simp: pad64_def list_all_iff) (simp add: is_digit_in_def)

lemma parseInt_pad64: "n < 16 ^ 64 \<Longrightarrow> parseInt (pad64 (to_hex n)) 16 = Some (int n)"
proof -
  assume n: "n < 16 ^ 64"
  have "pad64 (to_hex n) \<noteq> []" by (simp add: pad64_def)
  moreover have "radix_val 16 (pad64 (to_hex n)) = n"
    by (simp add: pad64_def radix_val_append)
  ultimately show ?thesis by (simp add: parseInt_digits pad64_digits)
qed

lemma hexToASCII_byte_hex: "hexToASCII (concat (map byte_hex s)) = map of_char s"
proof (induction s)
  case (Cons c s)
  let ?n = "of_char c :: nat"
  have d: "?n div 16 < 16" "?n mod 16 < 16"
    by (simp_all add: div_less_iff_less_mult)
  have "parseInt [digit (?n div 16), digit (?n mod 16)] 16 = Some (int ?n)"
    using d by (subst parseInt_digits) (simp_all add: radix_val_Cons)
  moreover have "?n < 65536" by (rule less_trans [of _ 256]) simp_all
  ultimately show ?case using Cons
    by (simp add: byte_hex_def fromCharCode_def nat_mod_distrib)
qed simp

lemma length_concat_byte_hex: "length (concat (map byte_hex s)) = 2 * length s"
  by (induction s) (simp_all add: byte_hex_def)

lemma decode_abi:
  assumes "length reason < 16 ^ 64"
  shows "decodeErrorMessage (Some (abi_error_string reason padding)) = map of_char reason"
proof -
  let ?L = "pad64 (to_hex (length reason))"
  let ?B = "concat (map byte_hex reason)"
  let ?Z = "replicate padding (CHR ''0'')"
  let ?m = "''08c379a0'' @ pad64 (to_hex 32) @ ?L @ ?B @ ?Z"
  have l32: "length (pad64 (to_hex 32)) = 64" and lL: "length ?L = 64"
    using assms by (simp_all add: length_pad64)
  have head: "abi_error_string reason padding = ''0x'' @ ?m"
    by (simp add: abi_error_string_def)
  have incl: "str_includes (''0x'' @ ?m) EMPTY_HEX"
    by (simp add: EMPTY_HEX_def startsWith_def)
  have sl: "str_slice ?m 72 136 = ?L"
    using l32 lL by (simp add: str_slice_def)
  have byts: "js_slice ?m 136 (136 + int (length reason) * 2) = ?B"
  proof -
    have "nat (136 + int (length reason) * 2) - 136 = 2 * length reason" by simp
    then show ?thesis using l32 lL length_concat_byte_hex [of reason]
      by (simp add: js_slice_def str_slice_def)
  qed
  show ?thesis
    using incl sl byts parseInt_pad64 [OF assms] hexToASCII_byte_hex [of reason]
    by (simp add: decodeErrorMessage_def head Let_def startsWith_def)
qed

text \<open>on the ABI encoding of \<open>Error(string)\<close>, with any zero padding,
  \<open>decodeErrorMessage\<close> returns the text of the revert reason.\<close>

lemma decodeErrorMessage_abi:
  assumes "length reason < 16 ^ 64"
  shows "decodeErrorMessage (Some (abi_error_string reason padding)) = map of_char reason"
  using assms by (rule decode_abi)

lemma decodeErrorMessage_abi_witness:
  "decodeErrorMessage (Some (abi_error_string ''Set to revert'' 38)) = map of_char ''Set to revert''"
  by (rule decodeErrorMessage_abi) simp

text \<open>\<open>hexToASCII\<close> undoes \<open>ASCIIToHex\<close> on every text whose characters print as two
  hexadecimal digits (codes from 16 on); control characters print as one digit and are
  not recovered.\<close>

lemma hexToASCII_ASCIIToHex:
  assumes "list_all (\<lambda>c. 16 \<le> (of_char c :: nat)) s"
  shows "hexToASCII (ASCIIToHex s) = map of_char s"
proof -
  have "to_hex (of_char c) = byte_hex c" if "16 \<le> (of_char c :: nat)" for c
  proof -
    have "(of_char c :: nat) div 16 < 16" by (simp add: div_less_iff_less_mult)
    with that show ?thesis
      by (subst radix_str.simps, subst radix_str.simps) (simp add: byte_hex_def)
  qed
  with assms have "map (\<lambda>c. to_hex (of_char c)) s = map byte_hex s"
    by (auto simp: list_all_iff)
  then show ?thesis by (simp only: ASCIIToHex_def hexToASCII_byte_hex)
qed

lemma hexToASCII_ASCIIToHex_newline:
  "hexToASCII (ASCIIToHex [CHR 0x0A, CHR 0x0A]) \<noteq> map of_char [CHR 0x0A, CHR 0x0A]"
  by code_simp

section \<open>Transaction ids\<close>

lemma takeWhile_app_digits:
  "list_all P ds \<Longrightarrow> \<not> P c \<Longrightarrow> takeWhile P (ds @ c # r) = ds \<and> dropWhile P (ds @ c # r) = c # r"
  by (induction ds) auto

lemma replace_first_dot:
  "CHR ''.'' \<notin> set ds \<Longrightarrow> replace_first ''.'' ''-'' (ds @ CHR ''.'' # r) = ds @ CHR ''-'' # r"
  by (induction ds) (auto simp: startsWith_def)

text \<open>a transaction id \<open>shard.realm.num@seconds.nanos\<close> as the SDK prints it is
  rewritten to the mirror node's form \<open>shard.realm.num-seconds-nanos\<close>, and a query string
  after it is dropped by the variant without query parameters.\<close>

lemma formatTransactionId_format:
  assumes "is_digit_in 10 sh" "is_digit_in 10 re"
    and "list_all (is_digit_in 10) num" "1 \<le> length num" "length num \<le> 10"
    and "list_all (is_digit_in 10) sec" "1 \<le> length sec" "length sec \<le> 10"
    and "list_all (is_digit_in 10) nano" "1 \<le> length nano"
    and q: "CHR ''@'' \<notin> set query"
  shows "formatTransactionIdWithoutQueryParams
      ([sh, CHR ''.'', re, CHR ''.''] @ num @ ''@'' @ sec @ ''.'' @ nano @ ''?'' @ query) =
    Some ([sh, CHR ''.'', re, CHR ''.''] @ num @ ''-'' @ sec @ ''-'' @ nano)"
proof -
  let ?isd = "is_digit_in 10"
  let ?head = "[sh, CHR ''.'', re, CHR ''.''] @ num"
  let ?tail = "sec @ ''.'' @ nano @ ''?'' @ query"
  have nd: "\<not> ?isd (CHR ''@'')" "\<not> ?isd (CHR ''.'')" "\<not> ?isd (CHR ''?'')"
    by (simp_all add: is_digit_in_def digit_val_def)
  obtain x xs where nano: "nano = x # xs" "?isd x" using assms(9,10) by (cases nano) auto
  have "txid_seconds_at ?tail"
    using takeWhile_app_digits [of ?isd sec "CHR ''.''" "nano @ ''?'' @ query"] assms(6-8) nd nano
    by (simp add: txid_seconds_at_def)
  then have "txid_number_at (num @ ''@'' @ ?tail)"
    using takeWhile_app_digits [of ?isd num "CHR ''@''" ?tail] assms(3-5) nd
    by (simp add: txid_number_at_def)
  then have test: "TRANSACTION_ID_REGEX_test (?head @ ''@'' @ ?tail)"
    using assms(1,2) by (simp add: txid_at_def)
  have notin: "CHR ''@'' \<notin> set s" "CHR ''.'' \<notin> set s" "CHR ''?'' \<notin> set s" if "list_all ?isd s" for s
    using that nd by (auto simp: list_all_iff)
  have h: "CHR ''@'' \<notin> set ?head" "CHR ''?'' \<notin> set ?head"
    using assms(1-3) notin nd by auto
  have t: "CHR ''@'' \<notin> set ?tail"
    using notin assms(6,9) q by auto
  have "split_on (CHR ''@'') (?head @ ''@'' @ ?tail) = [?head, ?tail]"
    using split_on_first [OF h(1), of ?tail] split_on_absent [OF t] by simp
  then have "formatTransactionId (?head @ ''@'' @ ?tail) =
      Some ((?head @ ''-'' @ sec @ ''-'' @ nano) @ CHR ''?'' # query)"
    using test replace_first_dot [OF notin(2) [OF assms(6)], of "nano @ ''?'' @ query"]
    by (simp add: formatTransactionId_def)
  moreover have "CHR ''?'' \<notin> set (?head @ ''-'' @ sec @ ''-'' @ nano)"
    using h(2) notin assms(6,9) by auto
  ultimately show ?thesis
    using split_on_first [of "CHR ''?''" "?head @ ''-'' @ sec @ ''-'' @ nano" query]
    by (simp add: formatTransactionIdWithoutQueryParams_def)
qed

lemma formatTransactionId_format_witness:
  "formatTransactionIdWithoutQueryParams ''0.0.902@1684375868.230217103?nonce=1'' =
     Some ''0.0.902-1684375868-230217103''"
  using formatTransactionId_format [of "CHR ''0''" "CHR ''0''" "''902''" "''1684375868''" "''230217103''" "''nonce=1''"]
  by (simp add: is_digit_in_def digit_val_def)

section \<open>Objects\<close>

lemma mapKeysAndValues_lookup_aux:
  assumes "inj f"
  shows "map_of (foldl (\<lambda>result (k, v). AList.update (f k) (g v) result) acc target) (f k) =
    (case map_of (rev target) k of None \<Rightarrow> map_of acc (f k) | Some v \<Rightarrow> Some (g v))"
proof (induction target arbitrary: acc)
  case (Cons p target)
  then show ?case
    using assms by (cases p) (auto simp: update_conv' map_add_def dest: injD split: option.splits)
qed simp

lemma mapKeysAndValues_lookup:
  assumes "inj f" "distinct (map fst target)"
  shows "map_of (mapKeysAndValues target (Some f) (Some g)) (f k) = map_option g (map_of target k)"
proof -
  have "map_of (rev target) = map_of target" using assms(2) by (subst map_of_inject_set) (simp_all add: rev_map [symmetric])
  then show ?thesis
    using mapKeysAndValues_lookup_aux [OF assms(1), of g "[]" target k]
    by (simp add: mapKeysAndValues_def split: option.splits)
qed

end
