(* ===== verification/Errors.thy ===== *)
theory Errors
  imports Formatters
begin

text \<open>
  The errors of the relay: the JSON-RPC errors of \<open>lib/errors/JsonRpcError.ts\<close>, one
  constructor per entry of \<open>predefined\<close> with the arguments its factory takes, and the
  errors of the two upstream clients (\<open>lib/errors/MirrorNodeClientError.ts\<close>,
  \<open>lib/errors/SDKClientError.ts\<close>). A message is a list of UTF-16 code units, because a
  revert reason is decoded with \<open>decodeErrorMessage\<close>.
\<close>

section \<open>JSON-RPC errors\<close>

datatype (plugins only: code) predefined =
    CONTENT_TOO_LARGE
  | CONTRACT_REVERT "string option" string
  | DEPENDENT_SERVICE_IMMATURE_RECORDS
  | GAS_LIMIT_TOO_HIGH int int
  | GAS_LIMIT_TOO_LOW int int
  | GAS_PRICE_TOO_LOW int int
  | HBAR_RATE_LIMIT_EXCEEDED
  | HBAR_RATE_LIMIT_PREEMPTIVE_EXCEEDED
  | INSUFFICIENT_ACCOUNT_BALANCE
  | INTERNAL_ERROR string
  | INVALID_PARAMETER string string
  | INVALID_PARAMETERS
  | INVALID_REQUEST
  | IP_RATE_LIMIT_EXCEEDED string
  | MISSING_FROM_BLOCK_PARAM
  | MISSING_REQUIRED_PARAMETER string
  | NONCE_TOO_LOW int int
  | NONCE_TOO_HIGH int int
  | NO_MINING_WORK
  | PARSE_ERROR
  | RANGE_TOO_LARGE int
  | TIMESTAMP_RANGE_TOO_LARGE string string string string
  | REQUEST_BEYOND_HEAD_BLOCK int int
  | REQUEST_TIMEOUT
  | RESOURCE_NOT_FOUND string
  | UNKNOWN_HISTORICAL_BALANCE
  | UNSUPPORTED_CHAIN_ID string string
  | UNSUPPORTED_METHOD
  | METHOD_NOT_FOUND string
  | NOT_YET_IMPLEMENTED
  | UNSUPPORTED_TRANSACTION_TYPE_3
  | VALUE_TOO_LOW
  | INVALID_CONTRACT_ADDRESS "string option"
  | NON_EXISTING_CONTRACT "string option"
  | NON_EXISTING_ACCOUNT "string option"
  | COULD_NOT_SIMULATE_TRANSACTION string
  | COULD_NOT_RETRIEVE_LATEST_BLOCK
  | MAX_SUBSCRIPTIONS
  | UNSUPPORTED_HISTORICAL_EXECUTION string
  | UNSUPPORTED_OPERATION string
  | PAGINATION_MAX int
  | MAX_BLOCK_SIZE int
  | MIRROR_NODE_UPSTREAM_FAIL int string
  | UNKNOWN_BLOCK "string option"
  | INVALID_BLOCK_RANGE
  | RECEIVER_SIGNATURE_ENABLED
  | FILTER_NOT_FOUND
  | TRANSACTION_SIZE_LIMIT_EXCEEDED nat int
  | CALL_DATA_SIZE_LIMIT_EXCEEDED nat int
  | BATCH_REQUESTS_DISABLED
  | BATCH_REQUESTS_AMOUNT_MAX_EXCEEDED int int
  | WS_BATCH_REQUESTS_DISABLED
  | WS_BATCH_REQUESTS_AMOUNT_MAX_EXCEEDED int int
  | WS_SUBSCRIPTIONS_DISABLED
  | INVALID_ARGUMENTS string
  | CONSENSUS_NODE_ERROR string int string

text \<open>
  The sizes of \<open>TRANSACTION_SIZE_LIMIT_EXCEEDED\<close> and \<open>CALL_DATA_SIZE_LIMIT_EXCEEDED\<close> are
  half the length of a hexadecimal string; the constructors carry that length, and
  \<open>half_str\<close> prints the half as JavaScript does.
\<close>

definition half_str :: "nat \<Rightarrow> string" where
  "half_str n = (if even n then to_dec (n div 2) else to_dec (n div 2) @ ''.5'')"

abbreviation dec :: "int \<Rightarrow> string" where
  "dec \<equiv> int_str 10"

definition units :: "string \<Rightarrow> nat list" where
  "units s = map of_char s"

definition opt_str :: "string option \<Rightarrow> string" where
  "opt_str a = (case a of None \<Rightarrow> ''undefined'' | Some s \<Rightarrow> s)"

definition quoted :: "string \<Rightarrow> string" where
  "quoted s = [CHR 0x27] @ s @ [CHR 0x27]"

primrec error_code :: "predefined \<Rightarrow> int" where
  "error_code CONTENT_TOO_LARGE = -32000"
| "error_code (CONTRACT_REVERT _ _) = 3"
| "error_code DEPENDENT_SERVICE_IMMATURE_RECORDS = -32015"
| "error_code (GAS_LIMIT_TOO_HIGH _ _) = -32005"
| "error_code (GAS_LIMIT_TOO_LOW _ _) = -32003"
| "error_code (GAS_PRICE_TOO_LOW _ _) = -32009"
| "error_code HBAR_RATE_LIMIT_EXCEEDED = -32606"
| "error_code HBAR_RATE_LIMIT_PREEMPTIVE_EXCEEDED = -32606"
| "error_code INSUFFICIENT_ACCOUNT_BALANCE = -32000"
| "error_code (INTERNAL_ERROR _) = -32603"
| "error_code (INVALID_PARAMETER _ _) = -32602"
| "error_code INVALID_PARAMETERS = -32602"
| "error_code INVALID_REQUEST = -32600"
| "error_code (IP_RATE_LIMIT_EXCEEDED _) = -32605"
| "error_code MISSING_FROM_BLOCK_PARAM = -32011"
| "error_code (MISSING_REQUIRED_PARAMETER _) = -32602"
| "error_code (NONCE_TOO_LOW _ _) = 32001"
| "error_code (NONCE_TOO_HIGH _ _) = 32002"
| "error_code NO_MINING_WORK = -32000"
| "error_code PARSE_ERROR = -32700"
| "error_code (RANGE_TOO_LARGE _) = -32000"
| "error_code (TIMESTAMP_RANGE_TOO_LARGE _ _ _ _) = -32004"
| "error_code (REQUEST_BEYOND_HEAD_BLOCK _ _) = -32000"
| "error_code REQUEST_TIMEOUT = -32010"
| "error_code (RESOURCE_NOT_FOUND _) = -32001"
| "error_code UNKNOWN_HISTORICAL_BALANCE = -32007"
| "error_code (UNSUPPORTED_CHAIN_ID _ _) = -32000"
| "error_code UNSUPPORTED_METHOD = -32601"
| "error_code (METHOD_NOT_FOUND _) = -32601"
| "error_code NOT_YET_IMPLEMENTED = -32601"
| "error_code UNSUPPORTED_TRANSACTION_TYPE_3 = -32611"
| "error_code VALUE_TOO_LOW = -32602"
| "error_code (INVALID_CONTRACT_ADDRESS _) = -32012"
| "error_code (NON_EXISTING_CONTRACT _) = -32013"
| "error_code (NON_EXISTING_ACCOUNT _) = -32014"
| "error_code (COULD_NOT_SIMULATE_TRANSACTION _) = -32000"
| "error_code COULD_NOT_RETRIEVE_LATEST_BLOCK = -32607"
| "error_code MAX_SUBSCRIPTIONS = -32608"
| "error_code (UNSUPPORTED_HISTORICAL_EXECUTION _) = -32609"
| "error_code (UNSUPPORTED_OPERATION _) = -32610"
| "error_code (PAGINATION_MAX _) = -32011"
| "error_code (MAX_BLOCK_SIZE _) = -32000"
| "error_code (MIRROR_NODE_UPSTREAM_FAIL _ _) = -32020"
| "error_code (UNKNOWN_BLOCK _) = -39012"
| "error_code INVALID_BLOCK_RANGE = -39013"
| "error_code RECEIVER_SIGNATURE_ENABLED = -32000"
| "error_code FILTER_NOT_FOUND = -32001"
| "error_code (TRANSACTION_SIZE_LIMIT_EXCEEDED _ _) = -32201"
| "error_code (CALL_DATA_SIZE_LIMIT_EXCEEDED _ _) = -32201"
| "error_code BATCH_REQUESTS_DISABLED = -32202"
| "error_code (BATCH_REQUESTS_AMOUNT_MAX_EXCEEDED _ _) = -32203"
| "error_code WS_BATCH_REQUESTS_DISABLED = -32205"
| "error_code (WS_BATCH_REQUESTS_AMOUNT_MAX_EXCEEDED _ _) = -32206"
| "error_code WS_SUBSCRIPTIONS_DISABLED = -32207"
| "error_code (INVALID_ARGUMENTS _) = -32000"
| "error_code (CONSENSUS_NODE_ERROR _ _ _) = -32000"

definition contract_revert_message :: "string option \<Rightarrow> string \<Rightarrow> nat list" where
  "contract_revert_message errorMessage errData =
     (case errorMessage of
        Some m \<Rightarrow> if m \<noteq> [] then units ''execution reverted: '' @ decodeErrorMessage (Some m)
                  else (let d = decodeErrorMessage (Some errData) in
                    if d \<noteq> [] then units ''execution reverted: '' @ d else units ''execution reverted'')
      | None \<Rightarrow> (let d = decodeErrorMessage (Some errData) in
          if d \<noteq> [] then units ''execution reverted: '' @ d else units ''execution reverted''))"

definition address_message :: "string \<Rightarrow> string option \<Rightarrow> (string \<Rightarrow> string) \<Rightarrow> string" where
  "address_message kind address hint =
     (let message = kind @ '': '' @ opt_str address @ ''.'' in
      case address of
        Some a \<Rightarrow> if a \<noteq> [] then message @ '' '' @ hint a else message
      | None \<Rightarrow> message)"

primrec error_message :: "predefined \<Rightarrow> nat list" where
  "error_message CONTENT_TOO_LARGE =
     units ''The request payload exceeded the maximum size limit. Use a smaller block range.''"
| "error_message (CONTRACT_REVERT m d) = contract_revert_message m d"
| "error_message DEPENDENT_SERVICE_IMMATURE_RECORDS = units ''Dependent service returned immature records''"
| "error_message (GAS_LIMIT_TOO_HIGH g m) =
     units (''Transaction gas limit '' @ quoted (dec g) @ '' exceeds max gas per sec limit '' @ quoted (dec m))"
| "error_message (GAS_LIMIT_TOO_LOW g r) =
     units (''Transaction gas limit provided '' @ quoted (dec g) @
       '' is insufficient of intrinsic gas required '' @ quoted (dec r))"
| "error_message (GAS_PRICE_TOO_LOW g m) =
     units (''Gas price '' @ quoted (dec g) @ '' is below configured minimum gas price '' @ quoted (dec m))"
| "error_message HBAR_RATE_LIMIT_EXCEEDED = units ''HBAR Rate limit exceeded''"
| "error_message HBAR_RATE_LIMIT_PREEMPTIVE_EXCEEDED =
     units ''The HBAR rate limit was preemptively exceeded due to an excessively large callData size.''"
| "error_message INSUFFICIENT_ACCOUNT_BALANCE = units ''Insufficient funds for transfer''"
| "error_message (INTERNAL_ERROR m) =
     units (if m = [] then ''Unknown error invoking RPC'' else ''Error invoking RPC: '' @ m)"
| "error_message (INVALID_PARAMETER i m) = units (''Invalid parameter '' @ i @ '': '' @ m)"
| "error_message INVALID_PARAMETERS = units ''Invalid params''"
| "error_message INVALID_REQUEST = units ''Invalid request''"
| "error_message (IP_RATE_LIMIT_EXCEEDED m) = units (''IP Rate limit exceeded on '' @ m)"
| "error_message MISSING_FROM_BLOCK_PARAM = units ''Provided toBlock parameter without specifying fromBlock''"
| "error_message (MISSING_REQUIRED_PARAMETER i) = units (''Missing value for required parameter '' @ i)"
| "error_message (NONCE_TOO_LOW n c) =
     units (''Nonce too low. Provided nonce: '' @ dec n @ '', current nonce: '' @ dec c)"
| "error_message (NONCE_TOO_HIGH n c) =
     units (''Nonce too high. Provided nonce: '' @ dec n @ '', current nonce: '' @ dec c)"
| "error_message NO_MINING_WORK = units ''No mining work available yet''"
| "error_message PARSE_ERROR = units ''Unable to parse JSON''"
| "error_message (RANGE_TOO_LARGE r) = units (''Exceeded maximum block range: '' @ dec r)"
| "error_message (TIMESTAMP_RANGE_TOO_LARGE fb ft tb tt) =
     units (''The provided fromBlock and toBlock contain timestamps that exceed the maximum allowed duration of 7 days (604800 seconds): fromBlock: '' @
       fb @ '' ('' @ ft @ ''), toBlock: '' @ tb @ '' ('' @ tt @ '')'')"
| "error_message (REQUEST_BEYOND_HEAD_BLOCK r l) =
     units (''Request beyond head block: requested '' @ dec r @ '', head '' @ dec l)"
| "error_message REQUEST_TIMEOUT = units ''Request timeout. Please try again.''"
| "error_message (RESOURCE_NOT_FOUND m) = units (''Requested resource not found. '' @ m)"
| "error_message UNKNOWN_HISTORICAL_BALANCE =
     units ''Historical balance data is available only after 15 minutes.''"
| "error_message (UNSUPPORTED_CHAIN_ID r c) =
     units (''ChainId ('' @ r @ '') not supported. The correct chainId is '' @ c)"
| "error_message UNSUPPORTED_METHOD = units ''Unsupported JSON-RPC method''"
| "error_message (METHOD_NOT_FOUND m) = units (''Method '' @ m @ '' not found'')"
| "error_message NOT_YET_IMPLEMENTED = units ''Not yet implemented''"
| "error_message UNSUPPORTED_TRANSACTION_TYPE_3 = units ''Unsupported transaction type: txType=3''"
| "error_message VALUE_TOO_LOW =
     units (''Value can'' @ [CHR 0x27] @ ''t be non-zero and less than 10_000_000_000 wei which is 1 tinybar'')"
| "error_message (INVALID_CONTRACT_ADDRESS a) =
     units (address_message ''Invalid Contract Address'' a
       (\<lambda>s. ''Expected length of 42 chars but was '' @ to_dec (length s) @ ''.''))"
| "error_message (NON_EXISTING_CONTRACT a) =
     units (address_message ''Non Existing Contract Address'' a (\<lambda>_. ''Expected a Contract or Token Address.''))"
| "error_message (NON_EXISTING_ACCOUNT a) =
     units (address_message ''Non Existing Account Address'' a (\<lambda>_. ''Expected an Account Address.''))"
| "error_message (COULD_NOT_SIMULATE_TRANSACTION m) =
     units (''Error occurred during transaction simulation: '' @ m)"
| "error_message COULD_NOT_RETRIEVE_LATEST_BLOCK = units ''Error encountered retrieving latest block''"
| "error_message MAX_SUBSCRIPTIONS = units ''Exceeded maximum allowed subscriptions''"
| "error_message (UNSUPPORTED_HISTORICAL_EXECUTION b) =
     units (''Unsupported historical block identifier encountered: '' @ b)"
| "error_message (UNSUPPORTED_OPERATION m) = units (''Unsupported operation. '' @ m)"
| "error_message (PAGINATION_MAX c) = units (''Exceeded maximum mirror node pagination count: '' @ dec c)"
| "error_message (MAX_BLOCK_SIZE c) =
     units (''Exceeded max transactions that can be returned in a block: '' @ dec c)"
| "error_message (MIRROR_NODE_UPSTREAM_FAIL c m) =
     units (''Mirror node upstream failure: statusCode='' @ dec c @ '', message='' @ m)"
| "error_message (UNKNOWN_BLOCK m) = units (case m of None \<Rightarrow> ''Unknown block''
     | Some s \<Rightarrow> if s = [] then ''Unknown block'' else s)"
| "error_message INVALID_BLOCK_RANGE = units ''Invalid block range''"
| "error_message RECEIVER_SIGNATURE_ENABLED =
     units (''Operation is not supported when receiver'' @ [CHR 0x27] @ ''s signature is enabled.'')"
| "error_message FILTER_NOT_FOUND = units ''Filter not found''"
| "error_message (TRANSACTION_SIZE_LIMIT_EXCEEDED a e) =
     units (''Oversized data: transaction size '' @ half_str a @ '', transaction limit '' @ dec e)"
| "error_message (CALL_DATA_SIZE_LIMIT_EXCEEDED a e) =
     units (''Oversized data: call data size '' @ half_str a @ '', call data size limit '' @ dec e)"
| "error_message BATCH_REQUESTS_DISABLED = units ''Batch requests are disabled''"
| "error_message (BATCH_REQUESTS_AMOUNT_MAX_EXCEEDED a m) =
     units (''Batch request amount '' @ dec a @ '' exceeds max '' @ dec m)"
| "error_message WS_BATCH_REQUESTS_DISABLED = units ''WS batch requests are disabled''"
| "error_message (WS_BATCH_REQUESTS_AMOUNT_MAX_EXCEEDED a m) =
     units (''Batch request amount '' @ dec a @ '' exceeds max '' @ dec m)"
| "error_message WS_SUBSCRIPTIONS_DISABLED = units ''WS Subscriptions are disabled''"
| "error_message (INVALID_ARGUMENTS m) = units (''Invalid arguments: '' @ m)"
| "error_message (CONSENSUS_NODE_ERROR n c m) =
     units (''Consensus node error: '' @ n @ '' ('' @ dec c @ ''): '' @ m)"

text \<open>The \<open>data\<close> field: a revert carries its data, an upstream failure its HTTP status.\<close>

datatype error_payload = NoData | StrData string | NumData int

definition error_data :: "predefined \<Rightarrow> error_payload" where
  "error_data e = (case e of
     CONTRACT_REVERT _ d \<Rightarrow> StrData d
   | MIRROR_NODE_UPSTREAM_FAIL c _ \<Rightarrow> NumData c
   | _ \<Rightarrow> NoData)"

record json_error =
  je_code :: int
  je_data :: error_payload
  je_message :: "nat list"
  je_name :: string

definition JsonRpcError_toJSON :: "predefined \<Rightarrow> json_error" where
  "JsonRpcError_toJSON e =
     \<lparr>je_code = error_code e, je_data = error_data e, je_message = error_message e, je_name = ''JsonRpcError''\<rparr>"

section \<open>Mirror node errors\<close>

record mirror_message =
  mm_message :: string
  mm_detail :: "string option"
  mm_data :: "string option"

text \<open>
  The argument of the \<open>MirrorNodeClientError\<close> constructor: the list
  \<open>error.response.data._status.messages\<close> (empty when absent) and \<open>error.message\<close>.
\<close>

record mirror_cause =
  mc_messages :: "mirror_message list"
  mc_message :: string

record mirror_error =
  me_statusCode :: int
  me_message :: string
  me_data :: "string option"
  me_detail :: "string option"
  me_children :: "mirror_message list"

definition MirrorNodeClientError :: "mirror_cause \<Rightarrow> int \<Rightarrow> mirror_error" where
  "MirrorNodeClientError error statusCode = (case mc_messages error of
     msg # children \<Rightarrow> \<lparr>me_statusCode = statusCode, me_message = mm_message msg,
        me_data = mm_data msg, me_detail = mm_detail msg, me_children = children\<rparr>
   | [] \<Rightarrow> \<lparr>me_statusCode = statusCode, me_message = mc_message error,
        me_data = None, me_detail = None, me_children = []\<rparr>)"

text \<open>\<open>a || b\<close> on strings: the empty string and \<open>undefined\<close> are falsy.\<close>

definition or_str :: "string option \<Rightarrow> string \<Rightarrow> string" where
  "or_str a b = (case a of None \<Rightarrow> b | Some s \<Rightarrow> if s = [] then b else s)"

definition revertReason :: "mirror_error \<Rightarrow> string" where
  "revertReason e =
     (let reasons = filter (\<lambda>r. r \<noteq> []) (map (\<lambda>c. or_str (mm_detail c) (mm_message c)) (me_children e))
      in join_with '', '' (or_str (me_detail e) (me_message e) # reasons))"

definition isTimeout :: "mirror_error \<Rightarrow> bool" where "isTimeout e \<longleftrightarrow> me_statusCode e = 504"
definition isContractRevert :: "mirror_error \<Rightarrow> bool" where
  "isContractRevert e \<longleftrightarrow> me_message e = ''CONTRACT_REVERT_EXECUTED''"
definition isNotFound :: "mirror_error \<Rightarrow> bool" where "isNotFound e \<longleftrightarrow> me_statusCode e = 404"
definition isNotSupported :: "mirror_error \<Rightarrow> bool" where "isNotSupported e \<longleftrightarrow> me_statusCode e = 501"
definition isEmpty :: "mirror_error \<Rightarrow> bool" where "isEmpty e \<longleftrightarrow> me_statusCode e = 204"
definition isRateLimit :: "mirror_error \<Rightarrow> bool" where "isRateLimit e \<longleftrightarrow> me_statusCode e = 429"
definition isNotSupportedSystemContractOperaton :: "mirror_error \<Rightarrow> bool" where
  "isNotSupportedSystemContractOperaton e \<longleftrightarrow> me_message e = ''Precompile not supported''"
definition isFailInvalid :: "mirror_error \<Rightarrow> bool" where "isFailInvalid e \<longleftrightarrow> me_message e = ''FAIL_INVALID''"
definition isInvalidTransaction :: "mirror_error \<Rightarrow> bool" where
  "isInvalidTransaction e \<longleftrightarrow> me_message e = ''INVALID_TRANSACTION''"

record mirror_error_json =
  mj_statusCode :: int
  mj_data :: "string option"
  mj_detail :: "string option"
  mj_message :: string
  mj_name :: string

definition MirrorNodeClientError_toJSON :: "mirror_error \<Rightarrow> mirror_error_json" where
  "MirrorNodeClientError_toJSON e = \<lparr>mj_statusCode = me_statusCode e, mj_data = me_data e,
     mj_detail = me_detail e, mj_message = me_message e, mj_name = ''MirrorNodeClientError''\<rparr>"

definition MirrorNodeClientError_fromJSON ::
    "int \<Rightarrow> string \<Rightarrow> string option \<Rightarrow> string option \<Rightarrow> mirror_error" where
  "MirrorNodeClientError_fromJSON statusCode message errData detail =
     (MirrorNodeClientError \<lparr>mc_messages = [], mc_message = []\<rparr> statusCode)
       \<lparr>me_data := errData, me_detail := detail, me_message := message\<rparr>"

section \<open>SDK errors\<close>

text \<open>
  A status of the SDK is its numeric code and its name. The codes of the three statuses
  the class compares with are the SDK's and are parameters of the predicates.
\<close>

record sdk_status =
  st_code :: int
  st_name :: string

record sdk_error =
  se_status :: sdk_status
  se_message :: "string option"
  se_nodeAccountId :: "string option"
  se_transactionId :: string

text \<open>
  The constructor's cause: \<open>e?.status\<close>, whose \<open>_code\<close> counts only when it is not zero,
  and \<open>e.message\<close>. \<open>unknown\<close> is the SDK's \<open>Status.Unknown\<close>.
\<close>

definition SDKClientError ::
    "sdk_status \<Rightarrow> sdk_status option \<Rightarrow> string option \<Rightarrow> string option \<Rightarrow> string option \<Rightarrow> string option \<Rightarrow> sdk_error" where
  "SDKClientError unknown causeStatus causeMessage message transactionId nodeId =
     (let hasStatus = (case causeStatus of None \<Rightarrow> False | Some s \<Rightarrow> st_code s \<noteq> 0) in
      \<lparr>se_status = (if hasStatus then the causeStatus else unknown),
       se_message = (if hasStatus then causeMessage else message),
       se_nodeAccountId = nodeId,
       se_transactionId = (case transactionId of None \<Rightarrow> [] | Some t \<Rightarrow> t)\<rparr>)"

definition sdk_statusCode :: "sdk_error \<Rightarrow> int" where
  "sdk_statusCode e = st_code (se_status e)"

definition isContractRevertExecuted :: "int \<Rightarrow> sdk_error \<Rightarrow> bool" where
  "isContractRevertExecuted contractRevertExecuted e \<longleftrightarrow> sdk_statusCode e = contractRevertExecuted"

definition isTimeoutExceeded :: "int \<Rightarrow> sdk_error \<Rightarrow> bool" where
  "isTimeoutExceeded unknownCode e \<longleftrightarrow> sdk_statusCode e = unknownCode \<and>
     (case se_message e of None \<Rightarrow> False | Some m \<Rightarrow> str_includes m ''timeout exceeded'')"

definition isConnectionDropped :: "int \<Rightarrow> sdk_error \<Rightarrow> bool" where
  "isConnectionDropped unknownCode e \<longleftrightarrow> sdk_statusCode e = unknownCode \<and>
     (case se_message e of None \<Rightarrow> False | Some m \<Rightarrow> str_includes m ''Connection dropped'')"

definition isGrpcTimeout :: "int \<Rightarrow> sdk_error \<Rightarrow> bool" where
  "isGrpcTimeout invalidTransactionId e \<longleftrightarrow> sdk_statusCode e = invalidTransactionId"

section \<open>Properties\<close>

text \<open>a contract revert answers with the text of the revert reason whether the ABI-encoded
  \<open>Error(string)\<close> arrives as the error message or, with no error message, as the data;
  the data is passed on unchanged.\<close>

lemma contract_revert_reason:
  assumes "length reason < 16 ^ 64" "reason \<noteq> []"
  shows "error_message (CONTRACT_REVERT (Some (abi_error_string reason k)) d) =
       units (''execution reverted: '' @ reason)
    \<and> error_message (CONTRACT_REVERT None (abi_error_string reason k)) =
       units (''execution reverted: '' @ reason)
    \<and> error_data (CONTRACT_REVERT None (abi_error_string reason k)) = StrData (abi_error_string reason k)"
proof -
  have dec: "decodeErrorMessage (Some (abi_error_string reason k)) = units reason"
    using decode_abi [OF assms(1)] by (simp add: units_def)
  have ne: "abi_error_string reason k \<noteq> []" by (simp add: abi_error_string_def)
  have nr: "units reason \<noteq> []" using assms(2) by (simp add: units_def)
  show ?thesis
    using ne nr by (simp add: contract_revert_message_def error_data_def dec Let_def) (simp add: units_def)
qed

lemma contract_revert_reason_witness:
  "error_message (CONTRACT_REVERT (Some (abi_error_string ''Set to revert'' 0)) []) =
     units ''execution reverted: Set to revert''"
  using contract_revert_reason [of "''Set to revert''" 0 "[]"] by simp

text \<open>an error of the mirror node keeps its status, message, data and detail through
  \<open>toJSON\<close> and \<open>fromJSON\<close>, the way it crosses from a worker thread; only the further
  messages of the response are lost, so the rebuilt error equals the original exactly when
  there were none.\<close>

lemma mirror_error_json_roundtrip:
  "(let j = MirrorNodeClientError_toJSON e;
        e' = MirrorNodeClientError_fromJSON (mj_statusCode j) (mj_message j) (mj_data j) (mj_detail j)
    in e' = e\<lparr>me_children := []\<rparr> \<and> (e' = e \<longleftrightarrow> me_children e = [])
       \<and> isTimeout e' = isTimeout e \<and> isNotFound e' = isNotFound e
       \<and> isContractRevert e' = isContractRevert e \<and> isRateLimit e' = isRateLimit e
       \<and> revertReason e' = or_str (me_detail e) (me_message e))"
  by (cases e) (auto simp: MirrorNodeClientError_toJSON_def MirrorNodeClientError_fromJSON_def
      MirrorNodeClientError_def isTimeout_def isNotFound_def isContractRevert_def isRateLimit_def
      revertReason_def Let_def)

text \<open>apart from contract reverts (code 3), the two nonce errors (positive codes 32001 and
  32002) and the two block errors (-39012, -39013), every predefined error has a code of
  the range -32768 to -32000 that JSON-RPC reserves.\<close>

lemma error_code_ranges:
  "(-32768 \<le> error_code e \<and> error_code e \<le> -32000)
     \<longleftrightarrow> error_code e \<notin> {3, 32001, 32002, -39012, -39013}"
  by (cases e) simp_all

end
