(* ===== verification/Validators.thy ===== *)
theory Validators
  imports Json Errors
begin

text \<open>
  Parameter validation: \<open>lib/validators/index.ts\<close>, \<open>types.ts\<close>, \<open>utils.ts\<close>,
  \<open>objectTypes.ts\<close> and \<open>constants.ts\<close>. A validator may return a verdict or throw a
  JSON-RPC error, and one of them (the transaction object) removes unknown properties
  from its argument, so a test returns the verdict together with the argument after it.

  The tests of \<open>TYPES\<close> call each other through the object schemas, but never to the same
  type again; they are defined in layers, each layer using \<open>validateSchema\<close> on the one
  below it.
\<close>

section \<open>Types and their error texts\<close>

datatype param_type =
    T_address | T_addressFilter | T_array | T_blockHash | T_blockNumber | T_boolean | T_blockParams
  | T_filter | T_hex | T_hexEvenLength | T_hex64 | T_topicHash | T_topics | T_transaction
  | T_transactionHash | T_tracerType | T_callTracerConfig | T_opcodeLoggerConfig | T_tracerConfig
  | T_tracerConfigWrapper | T_stateOverride

definition DEFAULT_HEX_ERROR :: string where
  "DEFAULT_HEX_ERROR = ''Expected 0x prefixed hexadecimal value''"
definition EVEN_HEX_ERROR :: string where
  "EVEN_HEX_ERROR = DEFAULT_HEX_ERROR @ '' with even length''"
definition HASH_ERROR :: string where
  "HASH_ERROR = ''Expected 0x prefixed string representing the hash (32 bytes)''"
definition ADDRESS_ERROR :: string where
  "ADDRESS_ERROR = ''Expected 0x prefixed string representing the address (20 bytes)''"

definition dquote :: "string \<Rightarrow> string" where
  "dquote s = [CHR 0x22] @ s @ [CHR 0x22]"

definition BLOCK_TAGS_ERROR :: string where
  "BLOCK_TAGS_ERROR = ''or the string '' @ dquote ''latest'' @ '', '' @ dquote ''earliest'' @ '' or '' @ dquote ''pending''"
definition BLOCK_NUMBER_ERROR :: string where
  "BLOCK_NUMBER_ERROR = ''Expected 0x prefixed hexadecimal block number, '' @ BLOCK_TAGS_ERROR"
definition BLOCK_PARAMS_ERROR :: string where
  "BLOCK_PARAMS_ERROR = ''Expected '' @ HASH_ERROR @ '' in object, 0x prefixed hexadecimal block number, '' @ BLOCK_TAGS_ERROR"
definition BLOCK_HASH_ERROR :: string where "BLOCK_HASH_ERROR = ''Expected '' @ HASH_ERROR @ '' of a block''"
definition TRANSACTION_HASH_ERROR :: string where
  "TRANSACTION_HASH_ERROR = ''Expected '' @ HASH_ERROR @ '' of a transaction''"
definition TOPIC_HASH_ERROR :: string where "TOPIC_HASH_ERROR = ''Expected '' @ HASH_ERROR @ '' of a topic''"

primrec type_error :: "param_type \<Rightarrow> string" where
  "type_error T_address = ADDRESS_ERROR"
| "type_error T_addressFilter = ADDRESS_ERROR @ '' or an array of addresses''"
| "type_error T_array = ''Expected Array''"
| "type_error T_blockHash = BLOCK_HASH_ERROR"
| "type_error T_blockNumber = BLOCK_NUMBER_ERROR"
| "type_error T_boolean = ''Expected boolean type''"
| "type_error T_blockParams = BLOCK_PARAMS_ERROR"
| "type_error T_filter = ''Expected FilterObject''"
| "type_error T_hex = DEFAULT_HEX_ERROR"
| "type_error T_hexEvenLength = EVEN_HEX_ERROR"
| "type_error T_hex64 = HASH_ERROR"
| "type_error T_topicHash = TOPIC_HASH_ERROR"
| "type_error T_topics = ''Expected an array or array of arrays containing '' @ HASH_ERROR @ '' of a topic''"
| "type_error T_transaction = ''Expected TransactionObject''"
| "type_error T_transactionHash = TRANSACTION_HASH_ERROR"
| "type_error T_tracerType = ''Expected TracerType''"
| "type_error T_callTracerConfig = ''Expected CallTracerConfig''"
| "type_error T_opcodeLoggerConfig = ''Expected OpcodeLoggerConfig''"
| "type_error T_tracerConfig = ''Expected TracerConfig''"
| "type_error T_tracerConfigWrapper =
     ''Expected TracerConfigWrapper which contains a valid TracerType and/or TracerConfig''"
| "type_error T_stateOverride = ''Expected StateOverride object (currently accepting any object structure)''"

section \<open>Tests without schemas\<close>

text \<open>
  \<open>new RegExp(BASE_HEX_REGEX + q).test(v)\<close> for a quantifier \<open>q\<close> anchored at the end: the
  argument is converted to a string, and \<open>ok\<close> says which numbers of digits \<open>q\<close> allows.
\<close>

definition hex_regex :: "(nat \<Rightarrow> bool) \<Rightarrow> jv \<Rightarrow> bool" where
  "hex_regex ok v = (let s = js_String v in
     (startsWith s ''0x'' \<or> startsWith s ''0X'') \<and> list_all (is_digit_in 16) (drop 2 s) \<and>
     ok (length (drop 2 s)))"

definition MAX_SAFE_INTEGER :: nat where
  "MAX_SAFE_INTEGER = 2 ^ 53 - 1"

definition BLOCK_TAGS :: "string list" where
  "BLOCK_TAGS = [''earliest'', ''latest'', ''pending'', ''finalized'', ''safe'']"

text \<open>\<open>/^0[xX]([1-9A-Fa-f][0-9A-Fa-f]{0,13}|0)$/\<close>\<close>

definition block_number_regex :: "string \<Rightarrow> bool" where
  "block_number_regex s \<longleftrightarrow> (startsWith s ''0x'' \<or> startsWith s ''0X'') \<and> (let b = drop 2 s in
     b = ''0'' \<or> (b \<noteq> [] \<and> list_all (is_digit_in 16) b \<and> hd b \<noteq> CHR ''0'' \<and> length b \<le> 14))"

text \<open>
  \<open>/^0[xX]([1-9A-Fa-f]+[0-9A-Fa-f]{0,13}|0)$/\<close>: at most the last 13 digits may contain a zero.
\<close>

definition block_params_regex :: "string \<Rightarrow> bool" where
  "block_params_regex s \<longleftrightarrow> (startsWith s ''0x'' \<or> startsWith s ''0X'') \<and> (let b = drop 2 s in
     b = ''0'' \<or> (b \<noteq> [] \<and> list_all (is_digit_in 16) b \<and>
       CHR ''0'' \<notin> set (take (max 1 (length b - 13)) b)))"

definition safe_number :: "string \<Rightarrow> bool" where
  "safe_number s \<longleftrightarrow> radix_val 16 (drop 2 s) \<le> MAX_SAFE_INTEGER"

definition is_block_tag :: "jv \<Rightarrow> bool" where
  "is_block_tag v = (case v of JString s \<Rightarrow> s \<in> set BLOCK_TAGS | _ \<Rightarrow> False)"

definition test_address :: "jv \<Rightarrow> bool" where
  "test_address v = hex_regex (\<lambda>n. n = 40) v"

definition test_topicHash :: "jv \<Rightarrow> bool" where
  "test_topicHash v \<longleftrightarrow> hex_regex (\<lambda>n. n = 64) v \<or> v = JNullV"

definition TRACER_TYPES :: "string list" where
  "TRACER_TYPES = [''callTracer'', ''opcodeLogger'', ''prestateTracer'']"

definition base_test :: "param_type \<Rightarrow> jv \<Rightarrow> bool" where
  "base_test t v = (case t of
     T_address \<Rightarrow> test_address v
   | T_addressFilter \<Rightarrow> (case v of JArray xs \<Rightarrow> list_all test_address (js_flat xs) | _ \<Rightarrow> hex_regex (\<lambda>n. n = 40) v)
   | T_array \<Rightarrow> is_array v
   | T_blockHash \<Rightarrow> hex_regex (\<lambda>n. n = 64) v
   | T_blockNumber \<Rightarrow> (block_number_regex (js_String v) \<and> safe_number (js_String v)) \<or> is_block_tag v
   | T_boolean \<Rightarrow> v = JBool True \<or> v = JBool False
   | T_hex \<Rightarrow> hex_regex (\<lambda>n. True) v
   | T_hexEvenLength \<Rightarrow> hex_regex (\<lambda>n. True) v \<and> (case js_length v of None \<Rightarrow> True | Some n \<Rightarrow> even n)
   | T_hex64 \<Rightarrow> hex_regex (\<lambda>n. 1 \<le> n \<and> n \<le> 64) v
   | T_topicHash \<Rightarrow> test_topicHash v
   | T_topics \<Rightarrow> (case v of JArray xs \<Rightarrow> list_all test_topicHash (js_flat xs) | _ \<Rightarrow> False)
   | T_transactionHash \<Rightarrow> hex_regex (\<lambda>n. n = 64) v
   | T_tracerType \<Rightarrow> (case v of JString s \<Rightarrow> s \<in> set TRACER_TYPES | _ \<Rightarrow> False)
   | T_stateOverride \<Rightarrow> typeof_object v \<and> \<not> is_array v
   | _ \<Rightarrow> False)"

section \<open>Object schemas\<close>

record prop_schema =
  ps_type :: param_type
  ps_nullable :: bool
  ps_required :: bool

record object_schema =
  os_name :: string
  os_properties :: "(string \<times> prop_schema) list"
  os_failOnEmpty :: bool
  os_failOnUnexpectedParams :: bool
  os_deleteUnknownProperties :: bool

definition mk_prop :: "param_type \<Rightarrow> bool \<Rightarrow> prop_schema" where
  "mk_prop t nullable = \<lparr>ps_type = t, ps_nullable = nullable, ps_required = False\<rparr>"

definition schema_blockHashObject :: object_schema where
  "schema_blockHashObject = \<lparr>os_name = ''BlockHashObject'', os_properties = [(''blockHash'', mk_prop T_blockHash False)],
     os_failOnEmpty = False, os_failOnUnexpectedParams = True, os_deleteUnknownProperties = False\<rparr>"

definition schema_blockNumberObject :: object_schema where
  "schema_blockNumberObject = \<lparr>os_name = ''BlockNumberObject'',
     os_properties = [(''blockNumber'', mk_prop T_blockNumber False)],
     os_failOnEmpty = False, os_failOnUnexpectedParams = True, os_deleteUnknownProperties = False\<rparr>"

definition schema_filter :: object_schema where
  "schema_filter = \<lparr>os_name = ''FilterObject'',
     os_properties = [(''blockHash'', mk_prop T_blockHash False), (''fromBlock'', mk_prop T_blockNumber False),
       (''toBlock'', mk_prop T_blockNumber False), (''address'', mk_prop T_addressFilter False),
       (''topics'', mk_prop T_topics False)],
     os_failOnEmpty = False, os_failOnUnexpectedParams = True, os_deleteUnknownProperties = False\<rparr>"

definition schema_callTracerConfig :: object_schema where
  "schema_callTracerConfig = \<lparr>os_name = ''CallTracerConfig'', os_properties = [(''onlyTopCall'', mk_prop T_boolean False)],
     os_failOnEmpty = True, os_failOnUnexpectedParams = False, os_deleteUnknownProperties = False\<rparr>"

definition schema_opcodeLoggerConfig :: object_schema where
  "schema_opcodeLoggerConfig = \<lparr>os_name = ''OpcodeLoggerConfig'',
     os_properties = [(''disableMemory'', mk_prop T_boolean False), (''enableMemory'', mk_prop T_boolean False),
       (''disableStack'', mk_prop T_boolean False), (''disableStorage'', mk_prop T_boolean False),
       (''fullStorage'', mk_prop T_boolean False)],
     os_failOnEmpty = True, os_failOnUnexpectedParams = False, os_deleteUnknownProperties = False\<rparr>"

definition schema_tracerConfigWrapper :: object_schema where
  "schema_tracerConfigWrapper = \<lparr>os_name = ''TracerConfigWrapper'',
     os_properties = [(''tracer'', mk_prop T_tracerType False), (''tracerConfig'', mk_prop T_tracerConfig False),
       (''enableMemory'', mk_prop T_boolean False), (''disableStack'', mk_prop T_boolean False),
       (''disableStorage'', mk_prop T_boolean False), (''fullStorage'', mk_prop T_boolean False)],
     os_failOnEmpty = True, os_failOnUnexpectedParams = True, os_deleteUnknownProperties = False\<rparr>"

definition schema_transaction :: object_schema where
  "schema_transaction = \<lparr>os_name = ''TransactionObject'',
     os_properties = [(''from'', mk_prop T_address False), (''to'', mk_prop T_address True), (''gas'', mk_prop T_hex False),
       (''gasPrice'', mk_prop T_hex False), (''maxPriorityFeePerGas'', mk_prop T_hex False),
       (''maxFeePerGas'', mk_prop T_hex False), (''value'', mk_prop T_hex False), (''data'', mk_prop T_hexEvenLength True),
       (''type'', mk_prop T_hex False), (''chainId'', mk_prop T_hex False), (''nonce'', mk_prop T_hex False),
       (''input'', mk_prop T_hex False), (''accessList'', mk_prop T_array False)],
     os_failOnEmpty = False, os_failOnUnexpectedParams = False, os_deleteUnknownProperties = True\<rparr>"

definition schema_ethSubscribeLogsParams :: object_schema where
  "schema_ethSubscribeLogsParams = \<lparr>os_name = ''EthSubscribeLogsParamsObject'',
     os_properties = [(''address'', mk_prop T_addressFilter False), (''topics'', mk_prop T_topics False)],
     os_failOnEmpty = False, os_failOnUnexpectedParams = True, os_deleteUnknownProperties = False\<rparr>"

definition requiredIsMissing :: "jv \<Rightarrow> bool \<Rightarrow> bool" where
  "requiredIsMissing param required \<longleftrightarrow> required \<and> param = JUndefined"

definition isValidAndNonNullableParam :: "jv \<Rightarrow> bool \<Rightarrow> bool" where
  "isValidAndNonNullableParam param nullable \<longleftrightarrow> param \<noteq> JUndefined \<and> (param \<noteq> JNullV \<or> \<not> nullable)"

definition param_string :: "jv \<Rightarrow> string" where
  "param_string v = (if typeof_object v then json_stringify v else js_String v)"

definition for_schema :: "string \<Rightarrow> object_schema \<Rightarrow> string" where
  "for_schema property schema = quoted property @ '' for '' @ os_name schema"

text \<open>
  The loop of \<open>validateObject\<close>. A test that fails and a test that throws give the same
  \<open>INVALID_PARAMETER\<close>. \<open>tst\<close> is \<open>TYPES[type].test\<close>.
\<close>

fun check_properties ::
    "(param_type \<Rightarrow> jv \<Rightarrow> predefined + bool) \<Rightarrow> object_schema \<Rightarrow> jv \<Rightarrow> (string \<times> prop_schema) list \<Rightarrow> predefined + unit" where
  "check_properties tst schema obj [] = Inr ()"
| "check_properties tst schema obj ((property, validation) # rest) =
     (let param = js_get obj property in
      if requiredIsMissing param (ps_required validation)
      then Inl (MISSING_REQUIRED_PARAMETER (for_schema property schema))
      else if isValidAndNonNullableParam param (ps_nullable validation) \<and>
              tst (ps_type validation) param \<noteq> Inr True
      then Inl (INVALID_PARAMETER (for_schema property schema)
                  (type_error (ps_type validation) @ '', value: '' @ param_string param))
      else check_properties tst schema obj rest)"

definition validateObject ::
    "(param_type \<Rightarrow> jv \<Rightarrow> predefined + bool) \<Rightarrow> jv \<Rightarrow> object_schema \<Rightarrow> predefined + bool" where
  "validateObject tst obj filters =
     res_bind (check_properties tst filters obj (os_properties filters)) (\<lambda>_.
       let paramsMatchingFilters = filter (\<lambda>key. js_get obj key \<noteq> JUndefined) (map fst (os_properties filters))
       in Inr (\<not> os_failOnEmpty filters \<or> paramsMatchingFilters \<noteq> []))"

text \<open>The second component is the object after the deletion of unknown properties.\<close>

definition validateSchema ::
    "(param_type \<Rightarrow> jv \<Rightarrow> predefined + bool) \<Rightarrow> object_schema \<Rightarrow> jv \<Rightarrow> predefined + (bool \<times> jv)" where
  "validateSchema tst schema obj =
     (let expectedParams = map fst (os_properties schema);
          actualParams = js_keys obj;
          unknown = filter (\<lambda>param. param \<notin> set expectedParams) actualParams
      in if os_failOnUnexpectedParams schema \<and> unknown \<noteq> [] \<and> hd unknown \<noteq> []
         then Inl (INVALID_PARAMETER (for_schema (hd unknown) schema) ''Unknown parameter'')
         else let obj' = (if os_deleteUnknownProperties schema then js_delete unknown obj else obj)
              in res_bind (validateObject tst obj' schema) (\<lambda>valid. Inr (valid, obj')))"

definition schema_verdict ::
    "(param_type \<Rightarrow> jv \<Rightarrow> predefined + bool) \<Rightarrow> object_schema \<Rightarrow> jv \<Rightarrow> predefined + bool" where
  "schema_verdict tst schema obj = map_sum id fst (validateSchema tst schema obj)"

section \<open>Tests with schemas\<close>

text \<open>Layer one: tests whose schemas use base types only.\<close>

definition test_callTracerConfig :: "jv \<Rightarrow> predefined + bool" where
  "test_callTracerConfig param =
     (if truthy param \<and> typeof_object param
      then schema_verdict (\<lambda>t v. Inr (base_test t v)) schema_callTracerConfig param else Inr False)"

definition test_opcodeLoggerConfig :: "jv \<Rightarrow> predefined + bool" where
  "test_opcodeLoggerConfig param =
     (if truthy param \<and> typeof_object param
      then schema_verdict (\<lambda>t v. Inr (base_test t v)) schema_opcodeLoggerConfig param else Inr False)"

definition test_blockParams :: "jv \<Rightarrow> predefined + bool" where
  "test_blockParams param =
     (if is_object_tag param then
        if ''blockHash'' \<in> set (js_keys param)
        then schema_verdict (\<lambda>t v. Inr (base_test t v)) schema_blockHashObject param
        else schema_verdict (\<lambda>t v. Inr (base_test t v)) schema_blockNumberObject param
      else Inr ((block_params_regex (js_String param) \<and> safe_number (js_String param)) \<or> is_block_tag param))"

definition test_filter :: "jv \<Rightarrow> predefined + bool" where
  "test_filter param =
     (if is_object_tag param then
        if truthy (js_get param ''blockHash'') \<and>
           (truthy (js_get param ''toBlock'') \<or> truthy (js_get param ''fromBlock''))
        then Inl (INVALID_PARAMETER ''0'' (''Can'' @ [CHR 0x27] @ ''t use both blockHash and toBlock/fromBlock''))
        else schema_verdict (\<lambda>t v. Inr (base_test t v)) schema_filter param
      else Inr False)"

text \<open>Layer two: the tracer configuration is one of the two configurations, or empty.\<close>

definition test_tracerConfig :: "jv \<Rightarrow> predefined + bool" where
  "test_tracerConfig param =
     (if truthy param \<and> typeof_object param then
        res_bind (test_callTracerConfig param) (\<lambda>isValidCallTracerConfig.
        res_bind (test_opcodeLoggerConfig param) (\<lambda>isValidOpcodeLoggerConfig.
          Inr (js_keys param = [] \<or> isValidCallTracerConfig \<or> isValidOpcodeLoggerConfig)))
      else Inr False)"

definition layer2_test :: "param_type \<Rightarrow> jv \<Rightarrow> predefined + bool" where
  "layer2_test t v = (if t = T_tracerConfig then test_tracerConfig v else Inr (base_test t v))"

text \<open>Layer three: the wrapper around tracer and configuration.\<close>

definition wrapper_error :: "string \<Rightarrow> predefined" where
  "wrapper_error m = INVALID_PARAMETER ''1'' m"

definition validateTracerConfigWrapper :: "jv \<Rightarrow> predefined + bool" where
  "validateTracerConfigWrapper param =
     (let schema = schema_tracerConfigWrapper in
      res_bind (schema_verdict layer2_test schema param) (\<lambda>valid.
        let tracer = js_get param ''tracer'';
            tracerConfig = js_get param ''tracerConfig'';
            callTracerKeys = map fst (os_properties schema_callTracerConfig);
            opcodeLoggerKeys = map fst (os_properties schema_opcodeLoggerConfig);
            hasTopLevelOpcodeLoggerKeys = list_ex (\<lambda>k. k \<in> set opcodeLoggerKeys) (js_keys param);
            configKeys = (if truthy tracerConfig then js_keys tracerConfig else []);
            hasNestedCallTracerKeys = list_ex (\<lambda>k. k \<in> set callTracerKeys) configKeys;
            hasNestedOpcodeLoggerKeys = list_ex (\<lambda>k. k \<in> set opcodeLoggerKeys) configKeys
        in if hasTopLevelOpcodeLoggerKeys \<and> truthy tracerConfig
           then Inl (wrapper_error (''Cannot specify tracer config properties both at top level and in '' @
                  quoted ''tracerConfig'' @ '' for '' @ os_name schema))
           else if hasTopLevelOpcodeLoggerKeys \<and> truthy tracer
           then Inl (wrapper_error (''Cannot specify tracer config properties at top level when '' @
                  quoted ''tracer'' @ '' is explicitly set for '' @ os_name schema))
           else if hasNestedCallTracerKeys \<and> tracer = JString ''opcodeLogger''
           then Inl (wrapper_error (''callTracer config properties for '' @ os_name schema @
                  '' are only valid when tracer=callTracer''))
           else if hasNestedOpcodeLoggerKeys \<and> tracer \<noteq> JString ''opcodeLogger''
           then Inl (wrapper_error (''opcodeLogger config properties for '' @ os_name schema @
                  '' are only valid when tracer=opcodeLogger''))
           else Inr valid))"

definition validateEthSubscribeLogsParamObject :: "jv \<Rightarrow> predefined + bool" where
  "validateEthSubscribeLogsParamObject param =
     (let schema = schema_ethSubscribeLogsParams in
      res_bind (schema_verdict (\<lambda>t v. Inr (base_test t v)) schema param) (\<lambda>valid.
        if valid \<and> js_get param ''address'' = JArray [] \<and>
           (case map_of (os_properties schema) ''address'' of None \<Rightarrow> False | Some p \<Rightarrow> ps_required p)
        then Inl (MISSING_REQUIRED_PARAMETER (for_schema ''address'' schema))
        else Inr valid))"

text \<open>\<open>TYPES[t].test(v)\<close>, with the argument after the test.\<close>

definition TYPES_test :: "param_type \<Rightarrow> jv \<Rightarrow> predefined + (bool \<times> jv)" where
  "TYPES_test t v = (case t of
     T_transaction \<Rightarrow> (if is_object_tag v
        then validateSchema (\<lambda>t v. Inr (base_test t v)) schema_transaction v else Inr (False, v))
   | T_blockParams \<Rightarrow> map_sum id (\<lambda>b. (b, v)) (test_blockParams v)
   | T_filter \<Rightarrow> map_sum id (\<lambda>b. (b, v)) (test_filter v)
   | T_callTracerConfig \<Rightarrow> map_sum id (\<lambda>b. (b, v)) (test_callTracerConfig v)
   | T_opcodeLoggerConfig \<Rightarrow> map_sum id (\<lambda>b. (b, v)) (test_opcodeLoggerConfig v)
   | T_tracerConfig \<Rightarrow> map_sum id (\<lambda>b. (b, v)) (test_tracerConfig v)
   | T_tracerConfigWrapper \<Rightarrow> map_sum id (\<lambda>b. (b, v))
        (if truthy v \<and> typeof_object v then validateTracerConfigWrapper v else Inr False)
   | _ \<Rightarrow> Inr (base_test t v, v))"

section \<open>Validation of a request's parameters\<close>

datatype type_spec = OneType param_type | AnyOf "param_type list"

record param_validation =
  pv_type :: type_spec
  pv_required :: bool

text \<open>The tests of a list of alternatives all run, in order; the first throw ends them.\<close>

fun run_tests :: "param_type list \<Rightarrow> jv \<Rightarrow> predefined + (bool list \<times> jv)" where
  "run_tests [] v = Inr ([], v)"
| "run_tests (t # ts) v =
     res_bind (TYPES_test t v) (\<lambda>(b, v').
     res_bind (run_tests ts v') (\<lambda>(bs, v''). Inr (b # bs, v'')))"

definition validateParam :: "string \<Rightarrow> jv \<Rightarrow> param_validation \<Rightarrow> predefined + jv" where
  "validateParam index param validation =
     (if requiredIsMissing param (pv_required validation) then Inl (MISSING_REQUIRED_PARAMETER index)
      else if \<not> pv_required validation \<and> param = JUndefined then Inr param
      else if param = JNullV then Inl (INVALID_PARAMETER index (''The value passed is not valid: null.''))
      else case pv_type validation of
        AnyOf paramTypes \<Rightarrow>
          res_bind (run_tests paramTypes param) (\<lambda>(results, param').
            if True \<notin> set results
            then Inl (INVALID_PARAMETER index (''The value passed is not valid: '' @ js_String param' @ ''. '' @
                        join_with '' OR '' (map type_error paramTypes)))
            else Inr param')
      | OneType paramType \<Rightarrow>
          res_bind (TYPES_test paramType param) (\<lambda>(result, param').
            if \<not> result
            then Inl (INVALID_PARAMETER index (type_error paramType @ '', value: '' @ param_string param'))
            else Inr param'))"

definition nth_param :: "jv list \<Rightarrow> nat \<Rightarrow> jv" where
  "nth_param params i = (if i < length params then params ! i else JUndefined)"

text \<open>
  The loop of \<open>validateParams\<close>, over the indices of the rules in ascending order. The
  result is the parameter list after the tests, as the handler receives it.
\<close>

fun validate_each :: "jv list \<Rightarrow> (nat \<times> param_validation) list \<Rightarrow> predefined + jv list" where
  "validate_each params [] = Inr params"
| "validate_each params ((i, validation) # rest) =
     res_bind (validateParam (to_dec i) (nth_param params i) validation) (\<lambda>param'.
       validate_each (if i < length params then params[i := param'] else params) rest)"

definition validateParams :: "jv list \<Rightarrow> (nat \<times> param_validation) list \<Rightarrow> predefined + jv list" where
  "validateParams params indexes =
     (if length params > length indexes then Inl INVALID_PARAMETERS else validate_each params indexes)"

section \<open>Block numbers\<close>

lemma digit_val_0_iff: "digit_val c = Some 0 \<longleftrightarrow> c = CHR ''0''"
proof
  assume "digit_val c = Some 0"
  then have "of_char c = (of_char (CHR ''0'') :: nat)"
    by (auto simp: digit_val_def Let_def split: if_splits)
  then show "c = CHR ''0''" by (simp only: of_char_eq_iff)
qed simp

lemma radix_val_lower:
  assumes "list_all (is_digit_in 16) (c # s)" and "c \<noteq> CHR ''0''"
  shows "16 ^ length s \<le> radix_val 16 (c # s)"
proof -
  obtain d where d: "digit_val c = Some d"
    using assms(1) by (auto simp: is_digit_in_def split: option.splits)
  then have "1 \<le> d" using assms(2) digit_val_0_iff [of c] by (cases d) auto
  then show ?thesis by (simp add: radix_val_Cons d trans_le_add1)
qed

lemma hd_radix_str: "0 < n \<Longrightarrow> hd (radix_str 16 n) \<noteq> CHR ''0''"
proof (induction n rule: less_induct)
  case (less n)
  show ?case
  proof (cases "n < 16")
    case True
    then have "digit_val (digit n) = Some n" by simp
    with less.prems have "digit n \<noteq> CHR ''0''" by (metis digit_val_zero option.inject less_irrefl)
    then show ?thesis using True by (simp add: radix_str.simps)
  next
    case False
    then have "hd (radix_str 16 (n div 16)) \<noteq> CHR ''0''" using less by auto
    then show ?thesis using False by (subst radix_str.simps) simp
  qed
qed

lemma safe_number_length:
  assumes "list_all (is_digit_in 16) b" "b \<noteq> []" "hd b \<noteq> CHR ''0''" "radix_val 16 b \<le> MAX_SAFE_INTEGER"
  shows "length b \<le> 14"
proof (rule ccontr)
  assume "\<not> length b \<le> 14"
  moreover obtain c s where b: "b = c # s" using assms(2) by (cases b) auto
  ultimately have "14 \<le> length s" by simp
  then have "(16::nat) ^ 14 \<le> 16 ^ length s" by (rule power_increasing) simp
  also have "\<dots> \<le> radix_val 16 b" using radix_val_lower assms(1,3) b by simp
  finally show False using assms(4) by (simp add: MAX_SAFE_INTEGER_def)
qed

text \<open>The two regular expressions for block numbers agree on the numbers below \<open>2 ^ 53\<close>.\<close>

lemma block_regexes_agree:
  "safe_number s \<Longrightarrow> block_params_regex s \<longleftrightarrow> block_number_regex s"
proof -
  assume safe: "safe_number s"
  let ?b = "drop 2 s"
  have "CHR ''0'' \<notin> set (take (max 1 (length ?b - 13)) ?b) \<longleftrightarrow> hd ?b \<noteq> CHR ''0'' \<and> length ?b \<le> 14"
    if digits: "list_all (is_digit_in 16) ?b" and ne: "?b \<noteq> []"
  proof
    assume no0: "CHR ''0'' \<notin> set (take (max 1 (length ?b - 13)) ?b)"
    have "hd ?b \<in> set (take (max 1 (length ?b - 13)) ?b)"
      using ne by (cases ?b) (auto simp: max_def take_Cons')
    with no0 have "hd ?b \<noteq> CHR ''0''" by metis
    then show "hd ?b \<noteq> CHR ''0'' \<and> length ?b \<le> 14"
      using safe_number_length [OF digits ne] safe by (simp add: safe_number_def)
  next
    assume hd: "hd ?b \<noteq> CHR ''0'' \<and> length ?b \<le> 14"
    then have "max 1 (length ?b - 13) = 1" by linarith
    then show "CHR ''0'' \<notin> set (take (max 1 (length ?b - 13)) ?b)"
      using hd ne by (cases ?b) auto
  qed
  then show ?thesis by (auto simp: block_params_regex_def block_number_regex_def Let_def)
qed

text \<open>The number the relay itself prints for a block, \<open>numberTo0x(n)\<close>, is accepted as a block
number exactly when it is a safe integer, and the argument is left as it is.\<close>

lemma block_number_accepts_printed:
  "TYPES_test T_blockNumber (JString (numberTo0x (int n))) =
     Inr (n \<le> 9007199254740991, JString (numberTo0x (int n)))"
proof -
  have p: "numberTo0x (int n) = ''0x'' @ radix_str 16 n" by (simp add: numberTo0x_nonneg)
  have v: "safe_number (numberTo0x (int n)) \<longleftrightarrow> n \<le> 9007199254740991"
    by (simp add: p safe_number_def MAX_SAFE_INTEGER_def)
  have d: "list_all (is_digit_in 16) (radix_str 16 n)" by (simp add: radix_str_digits)
  have "block_number_regex (numberTo0x (int n))" if "safe_number (numberTo0x (int n))"
  proof (cases "n = 0")
    case True
    then have "radix_str 16 n = ''0''" by (simp add: radix_str.simps digit_def char_of_def bit_simps)
    then show ?thesis unfolding p by (simp add: block_number_regex_def startsWith_def)
  next
    case False
    then have h: "hd (radix_str 16 n) \<noteq> CHR ''0''" by (simp add: hd_radix_str)
    moreover have "length (radix_str 16 n) \<le> 14"
      using safe_number_length [OF d _ h] that by (simp add: p safe_number_def)
    ultimately show ?thesis using d by (simp add: p block_number_regex_def startsWith_def)
  qed
  moreover have "\<not> is_block_tag (JString (numberTo0x (int n)))"
    by (simp add: p is_block_tag_def BLOCK_TAGS_def)
  ultimately show ?thesis using v by (auto simp: TYPES_test_def base_test_def)
qed

text \<open>The \<open>blockParams\<close> type accepts every value that is not an object exactly when the
\<open>blockNumber\<close> type does, although their regular expressions differ.\<close>

lemma block_params_agree:
  assumes "\<not> is_object_tag v"
  shows "TYPES_test T_blockParams v = TYPES_test T_blockNumber v"
  using assms block_regexes_agree [of "js_String v"]
  by (auto simp: TYPES_test_def test_blockParams_def base_test_def)

lemma block_params_agree_witness:
  "TYPES_test T_blockParams (JString ''0x10'') = TYPES_test T_blockNumber (JString ''0x10'')"
  by (rule block_params_agree) (simp add: is_object_tag_def)

section \<open>Objects\<close>

lemma check_properties_Inr:
  "check_properties tst schema obj ps = Inr u \<longleftrightarrow>
     (\<forall>(k, p) \<in> set ps. \<not> requiredIsMissing (js_get obj k) (ps_required p) \<and>
        (isValidAndNonNullableParam (js_get obj k) (ps_nullable p) \<longrightarrow> tst (ps_type p) (js_get obj k) = Inr True))"
  by (induction tst schema obj ps rule: check_properties.induct) (auto simp: Let_def)

definition property_ok :: "prop_schema \<Rightarrow> jv \<Rightarrow> bool" where
  "property_ok p x \<longleftrightarrow> x = JUndefined \<or> (x = JNullV \<and> ps_nullable p) \<or> base_test (ps_type p) x"

lemma validateObject_ok:
  assumes "list_all (\<lambda>(k, p). \<not> ps_required p) (os_properties schema)" "\<not> os_failOnEmpty schema"
  shows "validateObject (\<lambda>t v. Inr (base_test t v)) obj schema = Inr True \<longleftrightarrow>
    list_all (\<lambda>(k, p). property_ok p (js_get obj k)) (os_properties schema)"
  using assms
  by (auto simp: validateObject_def res_bind_eq_Inr check_properties_Inr requiredIsMissing_def
      isValidAndNonNullableParam_def property_ok_def list_all_iff)

lemma list_all_keys_cong:
  assumes "\<And>k p. (k, p) \<in> set xs \<Longrightarrow> f k = g k"
  shows "list_all (\<lambda>(k, p). P p (f k)) xs = list_all (\<lambda>(k, p). P p (g k)) xs"
  using assms by (intro list.pred_cong refl) (auto split: prod.splits)

text \<open>A transaction object is accepted exactly when each property the schema names is absent,
an allowed null, or passes the test of its type; the accepted object is left with the properties
the schema names, in their order and unchanged, and with no other.\<close>

lemma transaction_object_accepted:
  "TYPES_test T_transaction (JObject ps) = Inr (True, v) \<longleftrightarrow>
     list_all (\<lambda>(k, p). property_ok p (js_get (JObject ps) k)) (os_properties schema_transaction)
   \<and> v = JObject (filter (\<lambda>(k, _). k \<in> fst ` set (os_properties schema_transaction)) ps)"
proof -
  let ?known = "map fst (os_properties schema_transaction)"
  let ?unknown = "filter (\<lambda>k. k \<notin> set ?known) (js_keys (JObject ps))"
  let ?obj = "js_delete ?unknown (JObject ps)"
  have opt: "list_all (\<lambda>(k, p). \<not> ps_required p) (os_properties schema_transaction)"
    "\<not> os_failOnEmpty schema_transaction" "\<not> os_failOnUnexpectedParams schema_transaction"
    "os_deleteUnknownProperties schema_transaction"
    by (simp_all add: schema_transaction_def mk_prop_def)
  have obj: "?obj = JObject (filter (\<lambda>(k, _). k \<in> set ?known) ps)"
    by (force simp: js_delete_def js_keys_def intro!: filter_cong)
  have "js_get ?obj k = js_get (JObject ps) k" if "k \<in> set ?known" for k
    using that by (simp add: js_get_delete)
  then have "list_all (\<lambda>(k, p). property_ok p (js_get ?obj k)) (os_properties schema_transaction) =
      list_all (\<lambda>(k, p). property_ok p (js_get (JObject ps) k)) (os_properties schema_transaction)"
    by (intro list_all_keys_cong) force
  then show ?thesis
    using validateObject_ok [OF opt(1,2), of ?obj] opt(3,4) obj
    by (auto simp: TYPES_test_def is_object_tag_def validateSchema_def Let_def res_bind_eq_Inr)
qed

lemma schema_verdict_Inr:
  "schema_verdict tst schema obj = Inr b \<longleftrightarrow> (\<exists>v. validateSchema tst schema obj = Inr (b, v))"
  by (cases "validateSchema tst schema obj") (auto simp: schema_verdict_def)

lemma map_sum_pair: "map_sum id (\<lambda>b. (b, v)) r = Inr (b', v') \<longleftrightarrow> r = Inr b' \<and> v' = v"
  by (cases r) auto

lemma schema_verdict_strict:
  assumes "os_failOnUnexpectedParams schema" "\<not> os_deleteUnknownProperties schema" "[] \<notin> set (js_keys obj)"
  shows "schema_verdict tst schema obj = Inr True \<longleftrightarrow>
    set (js_keys obj) \<subseteq> set (map fst (os_properties schema)) \<and> validateObject tst obj schema = Inr True"
proof -
  let ?unknown = "filter (\<lambda>k. k \<notin> set (map fst (os_properties schema))) (js_keys obj)"
  have "hd ?unknown \<noteq> []" if "?unknown \<noteq> []"
    using hd_in_set [OF that] assms(3) by force
  moreover have "?unknown = [] \<longleftrightarrow> set (js_keys obj) \<subseteq> set (map fst (os_properties schema))"
    by (auto simp: filter_empty_conv)
  ultimately show ?thesis
    using assms(1,2) by (auto simp: schema_verdict_Inr validateSchema_def Let_def res_bind_eq_Inr)
qed

text \<open>A filter object that names a block hash together with a first or last block is refused
with an error of code -32602; any other filter object is accepted exactly when it has no unknown
property and each property it has passes the test of its type. (A property whose name is the empty
string escapes the check for unknown properties.)\<close>

lemma filter_object_accepted:
  assumes "[] \<notin> fst ` set ps"
  shows "if truthy (js_get (JObject ps) ''blockHash'') \<and>
      (truthy (js_get (JObject ps) ''toBlock'') \<or> truthy (js_get (JObject ps) ''fromBlock''))
   then map_sum error_code id (TYPES_test T_filter (JObject ps)) = Inl (-32602)
   else TYPES_test T_filter (JObject ps) = Inr (True, JObject ps) \<longleftrightarrow>
     fst ` set ps \<subseteq> {''blockHash'', ''fromBlock'', ''toBlock'', ''address'', ''topics''} \<and>
     list_all (\<lambda>(k, p). property_ok p (js_get (JObject ps) k)) (os_properties schema_filter)"
proof -
  have opt: "list_all (\<lambda>(k, p). \<not> ps_required p) (os_properties schema_filter)"
    "\<not> os_failOnEmpty schema_filter" "os_failOnUnexpectedParams schema_filter"
    "\<not> os_deleteUnknownProperties schema_filter"
    and keys: "set (map fst (os_properties schema_filter)) =
      {''blockHash'', ''fromBlock'', ''toBlock'', ''address'', ''topics''}"
    by (simp_all add: schema_filter_def mk_prop_def)
  have "set (js_keys (JObject ps)) = fst ` set ps" by (simp add: js_keys_def)
  then show ?thesis
    using schema_verdict_strict [OF opt(3,4), of "JObject ps"] validateObject_ok [OF opt(1,2), of "JObject ps"]
      assms unfolding keys
    by (auto simp: TYPES_test_def test_filter_def is_object_tag_def map_sum_pair)
qed

lemma filter_object_accepted_witness:
  "TYPES_test T_filter (JObject [(''fromBlock'', JString ''latest'')]) =
     Inr (True, JObject [(''fromBlock'', JString ''latest'')])"
  using filter_object_accepted [of "[(''fromBlock'', JString ''latest'')]"]
  by (simp add: js_get_def schema_filter_def mk_prop_def property_ok_def base_test_def is_block_tag_def BLOCK_TAGS_def)

text \<open>A tracer object that is accepted does not mix its forms: options of the opcode logger
stand either at the top level, with no tracer and no configuration named, or inside the
configuration under the opcode logger; options of the call tracer never stand under the opcode logger.\<close>

lemma tracer_wrapper_exclusive:
  assumes "TYPES_test T_tracerConfigWrapper v = Inr (True, v')"
  shows "v' = v \<and>
    (let tracer = js_get v ''tracer''; config = js_get v ''tracerConfig'';
         opcodeOptions = {''disableMemory'', ''enableMemory'', ''disableStack'', ''disableStorage'', ''fullStorage''};
         configKeys = (if truthy config then set (js_keys config) else {})
     in (set (js_keys v) \<inter> opcodeOptions \<noteq> {} \<longrightarrow> \<not> truthy tracer \<and> \<not> truthy config) \<and>
        (configKeys \<inter> opcodeOptions \<noteq> {} \<longrightarrow> tracer = JString ''opcodeLogger'') \<and>
        (''onlyTopCall'' \<in> configKeys \<longrightarrow> tracer \<noteq> JString ''opcodeLogger''))"
proof -
  have K: "map fst (os_properties schema_callTracerConfig) = [''onlyTopCall'']"
    "set (map fst (os_properties schema_opcodeLoggerConfig)) =
       {''disableMemory'', ''enableMemory'', ''disableStack'', ''disableStorage'', ''fullStorage''}"
    by (simp_all add: schema_callTracerConfig_def schema_opcodeLoggerConfig_def mk_prop_def)
  have ex: "list_ex (\<lambda>k. k \<in> A) ks \<longleftrightarrow> set ks \<inter> A \<noteq> {}" for A :: "string set" and ks
    by (auto simp: list_ex_iff)
  from assms have ok: "validateTracerConfigWrapper v = Inr True" and eq: "v' = v"
    by (auto simp: TYPES_test_def map_sum_pair split: if_splits)
  show ?thesis
    using ok unfolding validateTracerConfigWrapper_def Let_def K(2) ex
    by (auto simp: eq K(1) res_bind_eq_Inr list_ex_iff split: if_splits)
qed

lemma tracer_wrapper_exclusive_witness:
  "TYPES_test T_tracerConfigWrapper (JObject [(''tracer'', JString ''opcodeLogger'')]) =
     Inr (True, JObject [(''tracer'', JString ''opcodeLogger'')]) \<and>
   set (js_keys (JObject [(''tracer'', JString ''opcodeLogger'')])) \<inter>
     {''disableMemory'', ''enableMemory'', ''disableStack'', ''disableStorage'', ''fullStorage''} = {}"
proof -
  let ?v = "JObject [(''tracer'', JString ''opcodeLogger'')]"
  have t: "TYPES_test T_tracerConfigWrapper ?v = Inr (True, ?v)" by code_simp
  show ?thesis using tracer_wrapper_exclusive [OF t] t by (auto simp: Let_def js_get_def)
qed

section \<open>Request parameters\<close>

text \<open>What a parameter rule demands: an optional parameter may be absent, \<open>null\<close> is never accepted,
no test throws, and one of the tests of the rule accepts.\<close>

definition rule_types :: "type_spec \<Rightarrow> param_type list" where
  "rule_types spec = (case spec of OneType t \<Rightarrow> [t] | AnyOf ts \<Rightarrow> ts)"

definition param_result :: "jv \<Rightarrow> param_validation \<Rightarrow> jv option" where
  "param_result p rule =
     (if p = JUndefined then if pv_required rule then None else Some p
      else if p = JNullV then None
      else case run_tests (rule_types (pv_type rule)) p of
             Inr (bs, p') \<Rightarrow> if True \<in> set bs then Some p' else None
           | Inl _ \<Rightarrow> None)"

lemma validateParam_Inr:
  "validateParam i p rule = Inr p' \<longleftrightarrow> param_result p rule = Some p'"
proof (cases "p = JUndefined \<or> p = JNullV")
  case True
  then show ?thesis by (auto simp: validateParam_def param_result_def requiredIsMissing_def)
next
  case False
  show ?thesis
  proof (cases "pv_type rule")
    case (OneType t)
    show ?thesis
    proof (cases "TYPES_test t p")
      case (Inr r)
      then show ?thesis using False OneType
        by (cases r) (simp add: validateParam_def param_result_def requiredIsMissing_def rule_types_def)
    qed (use False OneType in \<open>simp add: validateParam_def param_result_def requiredIsMissing_def rule_types_def\<close>)
  next
    case (AnyOf ts)
    show ?thesis
    proof (cases "run_tests ts p")
      case (Inr r)
      then show ?thesis using False AnyOf
        by (cases r) (simp add: validateParam_def param_result_def requiredIsMissing_def rule_types_def)
    qed (use False AnyOf in \<open>simp add: validateParam_def param_result_def requiredIsMissing_def rule_types_def\<close>)
  qed
qed

lemma nth_param_update:
  "nth_param (if i < length ps then ps[i := x] else ps) j = (if j = i \<and> i < length ps then x else nth_param ps j)"
  by (auto simp: nth_param_def)

lemma param_result_undefined: "param_result JUndefined rule = Some v \<Longrightarrow> v = JUndefined"
  by (auto simp: param_result_def split: if_splits)

lemma validate_each_Inr:
  assumes "distinct (map fst rules)"
  shows "validate_each params rules = Inr params' \<longleftrightarrow>
    length params' = length params \<and>
    (\<forall>i < length params. i \<notin> fst ` set rules \<longrightarrow> params' ! i = params ! i) \<and>
    (\<forall>(i, rule) \<in> set rules. param_result (nth_param params i) rule = Some (nth_param params' i))"
  using assms
proof (induction rules arbitrary: params)
  case Nil
  then show ?case by (auto intro: nth_equalityI)
next
  case (Cons r rules)
  obtain i rule where r: "r = (i, rule)" by fastforce
  have fresh: "i \<notin> fst ` set rules" and dist: "distinct (map fst rules)"
    using Cons.prems r by auto
  show ?case
  proof (cases "param_result (nth_param params i) rule")
    case None
    then have "validate_each params (r # rules) \<noteq> Inr params'"
      using validateParam_Inr [of "to_dec i"] by (auto simp: r res_bind_eq_Inr)
    then show ?thesis using None by (auto simp: r)
  next
    case (Some p)
    let ?params = "if i < length params then params[i := p] else params"
    have vp: "validateParam (to_dec i) (nth_param params i) rule = Inr p"
      using Some by (simp only: validateParam_Inr)
    have "validate_each params (r # rules) = validate_each ?params rules"
      by (simp add: r vp)
    moreover have same: "nth_param ?params (fst q) = nth_param params (fst q)" if "q \<in> set rules" for q
      using that fresh by (auto simp: nth_param_update)
    have "(\<forall>(j, q) \<in> set rules. param_result (nth_param ?params j) q = Some (nth_param params' j)) \<longleftrightarrow>
        (\<forall>(j, q) \<in> set rules. param_result (nth_param params j) q = Some (nth_param params' j))"
      using same by (intro ball_cong refl) (force split: prod.splits)
    moreover have "\<not> i < length params \<Longrightarrow> p = JUndefined"
      using Some param_result_undefined by (simp add: nth_param_def)
    then have "length params' = length params \<Longrightarrow>
        (\<forall>j < length params. j \<notin> fst ` set rules \<longrightarrow> params' ! j = ?params ! j) \<longleftrightarrow>
        (\<forall>j < length params. j \<notin> insert i (fst ` set rules) \<longrightarrow> params' ! j = params ! j) \<and> nth_param params' i = p"
      using fresh by (auto simp: nth_param_def nth_list_update)
    ultimately show ?thesis
      using Cons.IH [OF dist, of ?params] Some by (auto simp: r simp del: validate_each.simps)
  qed
qed


text \<open>Validation of a request succeeds exactly when there are no more parameters than rules and
every rule is met by the parameter at its index: an optional parameter may be absent, \<open>null\<close> never
passes, no test throws and one of the rule's tests accepts. The handler then receives the parameters with the ones
under a rule as their tests left them, all others as sent, and as many as were sent.\<close>

lemma validateParams_accepts:
  assumes "distinct (map fst rules)"
  shows "validateParams params rules = Inr params' \<longleftrightarrow>
    length params \<le> length rules \<and> length params' = length params \<and>
    (\<forall>i < length params. i \<notin> fst ` set rules \<longrightarrow> params' ! i = params ! i) \<and>
    (\<forall>(i, rule) \<in> set rules. param_result (nth_param params i) rule = Some (nth_param params' i))"
  using validate_each_Inr [OF assms] by (auto simp: validateParams_def)

lemma validateParams_accepts_witness:
  "validateParams [JString ''latest'', JBool True]
     [(0, \<lparr>pv_type = OneType T_blockNumber, pv_required = True\<rparr>), (1, \<lparr>pv_type = OneType T_boolean, pv_required = True\<rparr>)]
   = Inr [JString ''latest'', JBool True]"
  by (subst validateParams_accepts)
    (auto simp: less_Suc_eq param_result_def rule_types_def nth_param_def TYPES_test_def base_test_def is_block_tag_def
      BLOCK_TAGS_def)

text \<open>The address type accepts a string exactly when the relay's own address predicate does;
it also accepts a one-element array around such a string, because the regular expression converts its argument to a string.\<close>

lemma address_test_strings:
  "base_test T_address (JString s) = isValidEthereumAddress (Some s)
   \<and> base_test T_address (JArray [JString s]) = isValidEthereumAddress (Some s)"
  by (auto simp: base_test_def test_address_def hex_regex_def isValidEthereumAddress_def Let_def startsWith_def)

end
