(* ===== verification/Dispatcher.thy ===== *)
theory Dispatcher
  imports Validators
begin

text \<open>
  The path of a request through the relay: registration of the decorated methods
  (\<open>services/registryService/rpcMethodRegistryService.ts\<close>, \<open>decorators/\<close>), the arrangement
  of the arguments (\<open>utils.ts\<close>) and the dispatcher (\<open>dispatcher/rpcMethodDispatcher.ts\<close>).
  A handler is a function on the state of the world that returns a value or throws; the
  world is a type parameter, since the handlers of all services run behind the dispatcher.
\<close>

section \<open>Handlers\<close>

text \<open>The relay's own error classes; anything else that is thrown has at most a message.\<close>

datatype relay_error = JsonRpcErr predefined | SdkErr sdk_error | MirrorErr mirror_error

datatype thrown = RelayError relay_error | OtherError "string option"

text \<open>What a handler returns when it does not throw: a value, or an error object as a value.\<close>

datatype returned = Value jv | ErrorValue relay_error

datatype layout = DefaultLayout | REQUEST_DETAILS_ONLY | Custom "jv list \<Rightarrow> jv list"

record request_details =
  rd_requestId :: string
  rd_ipAddress :: string
  rd_connectionId :: "string option"

datatype arg = RpcParam jv | RequestDetails request_details

record 'w operation =
  op_name :: string
  op_is_rpc :: bool
  op_rules :: "(nat \<times> param_validation) list option"
  op_layout :: layout
  op_run :: "arg list \<Rightarrow> 'w \<Rightarrow> 'w \<times> (thrown + returned)"

text \<open>The decorators mark a function; the marked function is the function itself.\<close>

definition rpcMethod :: "'w operation \<Rightarrow> 'w operation" where
  "rpcMethod target = target\<lparr>op_is_rpc := True\<rparr>"

definition rpcParamLayoutConfig :: "layout \<Rightarrow> 'w operation \<Rightarrow> 'w operation" where
  "rpcParamLayoutConfig lay target = target\<lparr>op_layout := lay\<rparr>"

definition rpcParamValidationRules :: "(nat \<times> param_validation) list \<Rightarrow> 'w operation \<Rightarrow> 'w operation" where
  "rpcParamValidationRules rules target = target\<lparr>op_rules := Some rules\<rparr>"

section \<open>Registration\<close>

text \<open>
  A service instance: the properties of its prototype in order, \<open>None\<close> for one that is not
  a function, and the properties of the instance itself, which shadow them.
\<close>

record 'w service =
  sv_namespace :: string
  sv_prototype :: "(string \<times> 'w operation option) list"
  sv_own :: "string \<rightharpoonup> 'w operation option"

definition service_get :: "'w service \<Rightarrow> string \<Rightarrow> 'w operation option" where
  "service_get sv n = (case sv_own sv n of
     Some p \<Rightarrow> p
   | None \<Rightarrow> (case map_of (sv_prototype sv) n of Some p \<Rightarrow> p | None \<Rightarrow> None))"

type_synonym 'w registry = "string \<rightharpoonup> 'w operation"

definition register_operation :: "'w service \<Rightarrow> string \<Rightarrow> 'w registry \<Rightarrow> 'w registry" where
  "register_operation sv operationName registry = (case service_get sv operationName of
     None \<Rightarrow> registry
   | Some operationFunction \<Rightarrow>
       if op_is_rpc operationFunction
       then registry(sv_namespace sv @ ''_'' @ operationName \<mapsto> operationFunction\<lparr>op_name := operationName\<rparr>)
       else registry)"

definition operation_names :: "'w service \<Rightarrow> string list" where
  "operation_names sv = map fst (filter (\<lambda>(n, p). n \<noteq> ''constructor'' \<and> p \<noteq> None) (sv_prototype sv))"

definition register_service :: "'w service \<Rightarrow> 'w registry \<Rightarrow> 'w registry" where
  "register_service sv registry = fold (register_operation sv) (operation_names sv) registry"

definition registerRpcMethods :: "'w service list \<Rightarrow> 'w registry" where
  "registerRpcMethods services = fold register_service services Map.empty"

section \<open>Dispatching\<close>

definition arrangeRpcParams :: "layout \<Rightarrow> jv list \<Rightarrow> request_details \<Rightarrow> arg list" where
  "arrangeRpcParams lay rpcParams requestDetails = (case lay of
     REQUEST_DETAILS_ONLY \<Rightarrow> [RequestDetails requestDetails]
   | Custom f \<Rightarrow> map RpcParam (f rpcParams) @ [RequestDetails requestDetails]
   | DefaultLayout \<Rightarrow> map RpcParam rpcParams @ [RequestDetails requestDetails])"

definition throwUnregisteredRpcMethods :: "string \<Rightarrow> predefined" where
  "throwUnregisteredRpcMethods methodName =
     (if startsWith methodName ''engine_'' then UNSUPPORTED_METHOD
      else if startsWith methodName ''trace_'' \<or> startsWith methodName ''debug_'' then NOT_YET_IMPLEMENTED
      else METHOD_NOT_FOUND methodName)"

text \<open>The handler to run with the parameters as the validation left them.\<close>

definition precheckRpcMethod :: "'w registry \<Rightarrow> string \<Rightarrow> jv list \<Rightarrow> thrown + ('w operation \<times> jv list)" where
  "precheckRpcMethod registry rpcMethodName rpcMethodParams = (case registry rpcMethodName of
     None \<Rightarrow> Inl (RelayError (JsonRpcErr (throwUnregisteredRpcMethods rpcMethodName)))
   | Some operationHandler \<Rightarrow> (case op_rules operationHandler of
       None \<Rightarrow> Inr (operationHandler, rpcMethodParams)
     | Some methodParamSchemas \<Rightarrow>
         (case validateParams rpcMethodParams methodParamSchemas of
            Inl e \<Rightarrow> Inl (RelayError (JsonRpcErr e)) | Inr params \<Rightarrow> Inr (operationHandler, params))))"

text \<open>A returned error of one of the relay's classes is thrown.\<close>

definition rethrow_returned :: "thrown + returned \<Rightarrow> thrown + jv" where
  "rethrow_returned r = (case r of
     Inl e \<Rightarrow> Inl e
   | Inr (Value v) \<Rightarrow> Inr v
   | Inr (ErrorValue e) \<Rightarrow> Inl (RelayError e))"

definition processRpcMethod ::
    "'w operation \<Rightarrow> jv list \<Rightarrow> request_details \<Rightarrow> 'w \<Rightarrow> 'w \<times> (thrown + jv)" where
  "processRpcMethod operationHandler rpcMethodParams requestDetails w =
     (let rearrangedParams = arrangeRpcParams (op_layout operationHandler) rpcMethodParams requestDetails;
          (w', result) = op_run operationHandler rearrangedParams w
      in (w', rethrow_returned result))"

text \<open>The dispatcher's own state is the counter of consensus node errors by status name.\<close>

record 'w dispatcher =
  dp_world :: 'w
  dp_errors :: "string \<Rightarrow> nat"

text \<open>\<open>e?.message?.toString() || d\<close>\<close>

definition message_or :: "string option \<Rightarrow> string \<Rightarrow> string" where
  "message_or m d = or_str m d"

definition sdk_message :: "sdk_error \<Rightarrow> string" where
  "sdk_message e = or_str (se_message e) []"

text \<open>\<open>invalidTransactionId\<close> is the SDK's code of \<open>Status.InvalidTransactionId\<close>.\<close>

definition handleRpcMethodError :: "int \<Rightarrow> thrown \<Rightarrow> 'w dispatcher \<Rightarrow> 'w dispatcher \<times> predefined" where
  "handleRpcMethodError invalidTransactionId error d = (case error of
     RelayError (JsonRpcErr e) \<Rightarrow> (d, e)
   | RelayError (SdkErr e) \<Rightarrow>
       (let n = st_name (se_status e) in
        (d\<lparr>dp_errors := (dp_errors d)(n := Suc (dp_errors d n))\<rparr>,
         if isGrpcTimeout invalidTransactionId e then REQUEST_TIMEOUT
         else CONSENSUS_NODE_ERROR n (sdk_statusCode e) (sdk_message e)))
   | RelayError (MirrorErr e) \<Rightarrow>
       (d, MIRROR_NODE_UPSTREAM_FAIL (me_statusCode e) (or_str (Some (me_message e)) ''Mirror node upstream failure''))
   | OtherError m \<Rightarrow> (d, INTERNAL_ERROR (message_or m ''Unknown error'')))"

definition dispatch ::
    "int \<Rightarrow> 'w registry \<Rightarrow> string \<Rightarrow> jv list \<Rightarrow> request_details \<Rightarrow> 'w dispatcher \<Rightarrow> 'w dispatcher \<times> (predefined + jv)" where
  "dispatch invalidTransactionId registry rpcMethodName rpcMethodParams requestDetails d =
     (let fail = (\<lambda>e d. let (d', e') = handleRpcMethodError invalidTransactionId e d in (d', Inl e')) in
      case precheckRpcMethod registry rpcMethodName rpcMethodParams of
        Inl e \<Rightarrow> fail e d
      | Inr (operationHandler, params) \<Rightarrow>
          (let (w, r) = processRpcMethod operationHandler params requestDetails (dp_world d);
               d' = d\<lparr>dp_world := w\<rparr>
           in case r of Inl e \<Rightarrow> fail e d' | Inr v \<Rightarrow> (d', Inr v)))"

section \<open>Network and status helpers\<close>

definition getNetworkNameByChainId :: "string \<Rightarrow> string" where
  "getNetworkNameByChainId CHAIN_ID =
     (if CHAIN_ID = ''0x127'' then ''mainnet'' else if CHAIN_ID = ''0x128'' then ''testnet''
      else if CHAIN_ID = ''0x129'' then ''previewnet'' else ''local'')"

definition isRevertedDueToHederaSpecificValidation :: "string list \<Rightarrow> string \<Rightarrow> string option \<Rightarrow> bool" where
  "isRevertedDueToHederaSpecificValidation statuses result errorMessage \<longleftrightarrow>
     result \<in> set statuses \<or>
     hexToASCII (strip0x (case errorMessage of None \<Rightarrow> [] | Some m \<Rightarrow> m)) \<in> units ` set statuses"

section \<open>Properties\<close>

lemmas dispatch_defs = dispatch_def precheckRpcMethod_def processRpcMethod_def handleRpcMethodError_def Let_def

text \<open>C2: A request that fails the checks before execution is answered with the error of the check
and runs no handler: neither the world nor the error counter changes. An unregistered method is
\<open>UNSUPPORTED_METHOD\<close> in the engine namespace, \<open>NOT_YET_IMPLEMENTED\<close> in the trace and debug namespaces and
\<open>METHOD_NOT_FOUND\<close> otherwise; invalid parameters give the validator's error.\<close>

theorem dispatch_rejects_before_execution:
  assumes "registry m = None \<or>
    (\<exists>h rules. registry m = Some h \<and> op_rules h = Some rules \<and> (\<exists>e. validateParams params rules = Inl e))"
  shows "\<exists>e. dispatch itx registry m params rd d = (d, Inl e) \<and>
     (case registry m of
        None \<Rightarrow> e = (if startsWith m ''engine_'' then UNSUPPORTED_METHOD
                    else if startsWith m ''trace_'' \<or> startsWith m ''debug_'' then NOT_YET_IMPLEMENTED
                    else METHOD_NOT_FOUND m)
      | Some h \<Rightarrow> validateParams params (the (op_rules h)) = Inl e)"
  using assms by (auto simp: dispatch_defs throwUnregisteredRpcMethods_def)

definition sample_details :: request_details where
  "sample_details = \<lparr>rd_requestId = ''r-1'', rd_ipAddress = ''127.0.0.1'', rd_connectionId = None\<rparr>"

theorem dispatch_rejects_before_execution_witness:
  "dispatch 2 Map.empty ''engine_getPayloadV1'' [] sample_details \<lparr>dp_world = (), dp_errors = (\<lambda>_. 0)\<rparr> =
     (\<lparr>dp_world = (), dp_errors = (\<lambda>_. 0)\<rparr>, Inl UNSUPPORTED_METHOD)"
  using dispatch_rejects_before_execution [of Map.empty "''engine_getPayloadV1''" "[]" 2 sample_details "\<lparr>dp_world = (), dp_errors = (\<lambda>_. 0)\<rparr>"]
  by (simp add: startsWith_def)

text \<open>The same handler, throwing the errors it would return.\<close>

definition throwing :: "'w operation \<Rightarrow> 'w operation" where
  "throwing h = h\<lparr>op_run := (\<lambda>args w. let (w', r) = op_run h args w in
     (w', case r of Inr (ErrorValue e) \<Rightarrow> Inl (RelayError e) | _ \<Rightarrow> r))\<rparr>"

text \<open>It makes no difference to the response, the world or the error counter whether a handler
throws an error of the relay or returns it as a value.\<close>

lemma dispatch_thrown_or_returned:
  "dispatch itx (registry(m \<mapsto> throwing h)) m params rd d = dispatch itx (registry(m \<mapsto> h)) m params rd d"
proof -
  have "rethrow_returned (case r of Inr (ErrorValue e) \<Rightarrow> Inl (RelayError e) | _ \<Rightarrow> r) = rethrow_returned r" for r
    by (auto simp: rethrow_returned_def split: sum.splits returned.splits)
  then have "processRpcMethod (throwing h) ps rd w = processRpcMethod h ps rd w" for ps w
    by (simp add: processRpcMethod_def throwing_def Let_def split: prod.split)
  moreover have "op_rules (throwing h) = op_rules h" by (simp add: throwing_def)
  ultimately show ?thesis
    by (auto simp: dispatch_def precheckRpcMethod_def split: option.splits sum.splits)
qed


definition echo_operation :: "unit operation" where
  "echo_operation = rpcParamValidationRules [(0, \<lparr>pv_type = OneType T_boolean, pv_required = True\<rparr>)]
     \<lparr>op_name = ''echo'', op_is_rpc = True, op_rules = None, op_layout = DefaultLayout,
      op_run = (\<lambda>args w. (w, case args of RpcParam v # _ \<Rightarrow> Inr (Value v) | _ \<Rightarrow> Inl (OtherError None)))\<rparr>"


subsection \<open>The registry\<close>

lemma fold_register_operation_dom:
  "dom (fold (register_operation sv) ns reg) =
     dom reg \<union> {sv_namespace sv @ ''_'' @ n | n. n \<in> set ns \<and> (\<exists>f. service_get sv n = Some f \<and> op_is_rpc f)}"
proof (induction ns arbitrary: reg)
  case (Cons n ns)
  have "dom (register_operation sv n reg) = dom reg \<union>
      {sv_namespace sv @ ''_'' @ n | f. service_get sv n = Some f \<and> op_is_rpc f}"
    by (auto simp: register_operation_def split: option.splits if_splits)
  then show ?case using Cons by auto
qed simp

definition exposed :: "'w service \<Rightarrow> string set" where
  "exposed sv = {sv_namespace sv @ ''_'' @ n | n. n \<in> set (operation_names sv) \<and>
     (\<exists>f. service_get sv n = Some f \<and> op_is_rpc f)}"

lemma register_service_dom: "dom (register_service sv reg) = dom reg \<union> exposed sv"
  by (simp only: register_service_def fold_register_operation_dom exposed_def)

lemma fold_register_service_dom: "dom (fold register_service services reg) = dom reg \<union> \<Union> (exposed ` set services)"
  by (induction services arbitrary: reg) (simp_all add: register_service_dom Un_assoc)

text \<open>The relay exposes exactly the methods \<open>namespace_operation\<close> where the operation is a function on the
prototype of the namespace's service, is not its constructor, and carries the \<open>rpcMethod\<close> mark: no
undecorated method of a service can be called from outside.\<close>

lemma registered_methods:
  "m \<in> dom (registerRpcMethods services) \<longleftrightarrow>
     (\<exists>sv n p f. sv \<in> set services \<and> (n, Some p) \<in> set (sv_prototype sv) \<and> n \<noteq> ''constructor'' \<and>
        service_get sv n = Some f \<and> op_is_rpc f \<and> m = sv_namespace sv @ ''_'' @ n)"
  unfolding registerRpcMethods_def fold_register_service_dom by (fastforce simp: exposed_def operation_names_def)

end
