(* ===== verification/TxPool.thy ===== *)
theory TxPool
  imports Dispatcher
begin

text \<open>
  The pool of pending transactions: the in-memory and the Redis storage
  (\<open>services/transactionPoolService/LocalPendingTransactionStorage.ts\<close>,
  \<open>RedisPendingTransactionStorage.ts\<close>), the service in front of them
  (\<open>transactionPoolService.ts\<close>) and the \<open>txpool_\<close> methods (\<open>txpool.ts\<close>).

  A storage is a record of operations on a state, so that the service is written once; the
  contract of a storage is the locale \<open>pending_storage\<close>. A JavaScript \<open>Set\<close> is a list
  without repetition in insertion order. The decoder of signed transactions is ethers'
  \<open>Transaction.from\<close> and an argument of the definitions that use it.
\<close>

section \<open>Signed transactions\<close>

record tx_signature =
  sig_v :: int
  sig_r :: string
  sig_s :: string

record eth_tx =
  tx_from :: "string option"
  tx_to :: "string option"
  tx_gasLimit :: int
  tx_hash :: "string option"
  tx_data :: string
  tx_nonce :: int
  tx_value :: int
  tx_type :: "int option"
  tx_signature :: "tx_signature option"
  tx_chainId :: int
  tx_gasPrice :: "int option"
  tx_maxFeePerGas :: "int option"
  tx_maxPriorityFeePerGas :: "int option"
  tx_accessList :: "string list option"
  tx_serialized :: string

section \<open>Sets in insertion order\<close>

definition set_add :: "'a \<Rightarrow> 'a list \<Rightarrow> 'a list" where
  "set_add x xs = (if x \<in> set xs then xs else xs @ [x])"

lemma set_set_add [simp]: "set (set_add x xs) = insert x (set xs)"
  by (auto simp: set_add_def)

lemma distinct_set_add [simp]: "distinct xs \<Longrightarrow> distinct (set_add x xs)"
  by (auto simp: set_add_def)

section \<open>Storages\<close>

text \<open>The operations of the interface \<open>PendingTransactionStorage\<close>; a storage error is its message.\<close>

record 's storage =
  addToList :: "string \<Rightarrow> string \<Rightarrow> 's \<Rightarrow> string + 's"
  removeFromList :: "string \<Rightarrow> string \<Rightarrow> 's \<Rightarrow> string + 's"
  removeAllTxs :: "'s \<Rightarrow> string + 's"
  getList :: "string \<Rightarrow> 's \<Rightarrow> string + nat"
  getAllTransactionPayloads :: "'s \<Rightarrow> string + string list"
  getTransactionPayloads :: "string \<Rightarrow> 's \<Rightarrow> string + string list"

subsection \<open>In memory\<close>

record local_pool =
  pendingTransactions :: "string \<rightharpoonup> string list"
  globalTransactionIndex :: "string list"

definition empty_pool :: local_pool where
  "empty_pool = \<lparr>pendingTransactions = Map.empty, globalTransactionIndex = []\<rparr>"

definition local_getList :: "string \<Rightarrow> local_pool \<Rightarrow> nat" where
  "local_getList addr s = (case pendingTransactions s addr of None \<Rightarrow> 0 | Some txs \<Rightarrow> length txs)"

definition local_addToList :: "string \<Rightarrow> string \<Rightarrow> local_pool \<Rightarrow> local_pool" where
  "local_addToList addr rlpHex s =
     (let pending = (if pendingTransactions s addr = None then (pendingTransactions s)(addr \<mapsto> []) else pendingTransactions s)
      in s\<lparr>pendingTransactions := pending(addr \<mapsto> set_add rlpHex (the (pending addr))),
           globalTransactionIndex := set_add rlpHex (globalTransactionIndex s)\<rparr>)"

definition local_removeFromList :: "string \<Rightarrow> string \<Rightarrow> local_pool \<Rightarrow> local_pool" where
  "local_removeFromList address rlpHex s =
     (let pending = (case pendingTransactions s address of
            None \<Rightarrow> pendingTransactions s
          | Some txs \<Rightarrow> (let txs' = removeAll rlpHex txs in
              if length txs' = 0 then (pendingTransactions s)(address := None)
              else (pendingTransactions s)(address \<mapsto> txs')))
      in s\<lparr>pendingTransactions := pending, globalTransactionIndex := removeAll rlpHex (globalTransactionIndex s)\<rparr>)"

definition local_removeAll :: "local_pool \<Rightarrow> local_pool" where
  "local_removeAll s = s\<lparr>pendingTransactions := Map.empty, globalTransactionIndex := []\<rparr>"

definition local_getTransactionPayloads :: "string \<Rightarrow> local_pool \<Rightarrow> string list" where
  "local_getTransactionPayloads address s = (case pendingTransactions s address of None \<Rightarrow> [] | Some txs \<Rightarrow> txs)"

definition LocalPendingTransactionStorage :: "local_pool storage" where
  "LocalPendingTransactionStorage =
     \<lparr>addToList = (\<lambda>a x s. Inr (local_addToList a x s)), removeFromList = (\<lambda>a x s. Inr (local_removeFromList a x s)),
      removeAllTxs = (\<lambda>s. Inr (local_removeAll s)), getList = (\<lambda>a s. Inr (local_getList a s)),
      getAllTransactionPayloads = (\<lambda>s. Inr (globalTransactionIndex s)),
      getTransactionPayloads = (\<lambda>a s. Inr (local_getTransactionPayloads a s))\<rparr>"

subsection \<open>In Redis\<close>

text \<open>
  The commands of the Redis client are arguments. \<open>MULTI\<close> runs its commands as one
  transaction; \<open>KEYS\<close> with a pattern that ends in a star lists the keys with that prefix.
\<close>

datatype set_command = SADD string string | SREM string string | EXPIRE string nat

record 'r redis_sets =
  cmd_exec :: "set_command list \<Rightarrow> 'r \<Rightarrow> string + 'r"
  cmd_KEYS :: "string \<Rightarrow> 'r \<Rightarrow> string + string list"
  cmd_UNLINK :: "string list \<Rightarrow> 'r \<Rightarrow> string + 'r"
  cmd_SCARD :: "string \<Rightarrow> 'r \<Rightarrow> string + nat"
  cmd_SMEMBERS :: "string \<Rightarrow> 'r \<Rightarrow> string + string list"

definition keyPrefix :: string where "keyPrefix = ''txpool:pending:''"
definition globalPendingTxsKey :: string where "globalPendingTxsKey = keyPrefix @ ''global''"
definition keyFor :: "string \<Rightarrow> string" where "keyFor address = keyPrefix @ address"

definition redis_addToList :: "'r redis_sets \<Rightarrow> nat \<Rightarrow> string \<Rightarrow> string \<Rightarrow> 'r \<Rightarrow> string + 'r" where
  "redis_addToList cmds storageTtl address rlpHex =
     (let addressKey = keyFor address in
      cmd_exec cmds [SADD addressKey rlpHex, EXPIRE addressKey storageTtl,
                     SADD globalPendingTxsKey rlpHex, EXPIRE globalPendingTxsKey storageTtl])"

definition redis_removeFromList :: "'r redis_sets \<Rightarrow> string \<Rightarrow> string \<Rightarrow> 'r \<Rightarrow> string + 'r" where
  "redis_removeFromList cmds address rlpHex =
     cmd_exec cmds [SREM (keyFor address) rlpHex, SREM globalPendingTxsKey rlpHex]"

definition redis_removeAll :: "'r redis_sets \<Rightarrow> 'r \<Rightarrow> string + 'r" where
  "redis_removeAll cmds r = res_bind (cmd_KEYS cmds (keyPrefix @ ''*'') r) (\<lambda>pendingKeys.
     if length pendingKeys > 0 then cmd_UNLINK cmds pendingKeys r else Inr r)"

definition redis_getList :: "'r redis_sets \<Rightarrow> string \<Rightarrow> 'r \<Rightarrow> string + nat" where
  "redis_getList cmds address = cmd_SCARD cmds (keyFor address)"

definition redis_getTransactionPayloads :: "'r redis_sets \<Rightarrow> string \<Rightarrow> 'r \<Rightarrow> string + string list" where
  "redis_getTransactionPayloads cmds address r =
     map_sum id (\<lambda>ms. fold set_add ms []) (cmd_SMEMBERS cmds (keyFor address) r)"

definition redis_getAllTransactionPayloads :: "'r redis_sets \<Rightarrow> 'r \<Rightarrow> string + string list" where
  "redis_getAllTransactionPayloads cmds r =
     map_sum id (\<lambda>ms. fold set_add ms []) (cmd_SMEMBERS cmds globalPendingTxsKey r)"

definition RedisPendingTransactionStorage :: "'r redis_sets \<Rightarrow> nat \<Rightarrow> 'r storage" where
  "RedisPendingTransactionStorage cmds ttl =
     \<lparr>addToList = redis_addToList cmds ttl, removeFromList = redis_removeFromList cmds,
      removeAllTxs = redis_removeAll cmds, getList = redis_getList cmds,
      getAllTransactionPayloads = redis_getAllTransactionPayloads cmds,
      getTransactionPayloads = redis_getTransactionPayloads cmds\<rparr>"

section \<open>The pool service\<close>

definition saveTransaction :: "bool \<Rightarrow> 's storage \<Rightarrow> string \<Rightarrow> eth_tx \<Rightarrow> 's \<Rightarrow> string + 's" where
  "saveTransaction isEnabled storage address tx s =
     (if \<not> isEnabled then Inr s
      else let addressLowerCased = toLowerCase address; rlpHex = tx_serialized tx
           in addToList storage addressLowerCased rlpHex s)"

definition removeTransaction :: "bool \<Rightarrow> 's storage \<Rightarrow> string \<Rightarrow> string \<Rightarrow> 's \<Rightarrow> string + 's" where
  "removeTransaction isEnabled storage address rlpHex s =
     (if \<not> isEnabled then Inr s else removeFromList storage (toLowerCase address) rlpHex s)"

definition getPendingCount :: "'s storage \<Rightarrow> string \<Rightarrow> 's \<Rightarrow> string + nat" where
  "getPendingCount storage address s = getList storage (toLowerCase address) s"

definition getTransactions :: "'s storage \<Rightarrow> string \<Rightarrow> 's \<Rightarrow> string + string list" where
  "getTransactions storage address s = getTransactionPayloads storage (toLowerCase address) s"

definition getAllTransactions :: "'s storage \<Rightarrow> 's \<Rightarrow> string + string list" where
  "getAllTransactions storage s = getAllTransactionPayloads storage s"

section \<open>The \<open>txpool_\<close> methods\<close>

record pool_tx =
  pt_blockHash :: string
  pt_from :: "string option"
  pt_gas :: string
  pt_hash :: "string option"
  pt_input :: string
  pt_nonce :: string
  pt_to :: "string option"
  pt_value :: string
  pt_type :: string
  pt_v :: "string option"
  pt_r :: "string option"
  pt_s :: "string option"
  pt_chainId :: "string option"
  pt_gasPrice :: "string option"
  pt_maxFeePerGas :: "string option"
  pt_maxPriorityFeePerGas :: "string option"

text \<open>A number that is printed only when it is truthy: present and not zero.\<close>

definition print_if :: "int option \<Rightarrow> string option" where
  "print_if n = (case n of None \<Rightarrow> None | Some i \<Rightarrow> if i = 0 then None else Some (numberTo0x i))"

definition ZERO_HEX_32_BYTE :: string where
  "ZERO_HEX_32_BYTE = ''0x'' @ replicate 64 (CHR ''0'')"

definition toPoolTransaction :: "eth_tx \<Rightarrow> pool_tx" where
  "toPoolTransaction tx =
     \<lparr>pt_blockHash = ZERO_HEX_32_BYTE, pt_from = tx_from tx, pt_gas = numberTo0x (tx_gasLimit tx),
      pt_hash = tx_hash tx, pt_input = tx_data tx, pt_nonce = numberTo0x (tx_nonce tx), pt_to = tx_to tx,
      pt_value = numberTo0x (tx_value tx), pt_type = numberTo0x (case tx_type tx of None \<Rightarrow> 0 | Some t \<Rightarrow> t),
      pt_v = print_if (map_option sig_v (tx_signature tx)),
      pt_r = map_option sig_r (tx_signature tx), pt_s = map_option sig_s (tx_signature tx),
      pt_chainId = print_if (Some (tx_chainId tx)), pt_gasPrice = print_if (tx_gasPrice tx),
      pt_maxFeePerGas = print_if (tx_maxFeePerGas tx), pt_maxPriorityFeePerGas = print_if (tx_maxPriorityFeePerGas tx)\<rparr>"

text \<open>\<open>decode\<close> is \<open>ethers.Transaction.from\<close>, which throws on a payload it cannot decode.\<close>

fun convertRlpEncodedTxToTransactionPoolTx :: "(string \<Rightarrow> string + eth_tx) \<Rightarrow> string list \<Rightarrow> string + pool_tx list" where
  "convertRlpEncodedTxToTransactionPoolTx decode [] = Inr []"
| "convertRlpEncodedTxToTransactionPoolTx decode (rlpTx # rest) =
     res_bind (decode rlpTx) (\<lambda>tx.
     res_bind (convertRlpEncodedTxToTransactionPoolTx decode rest) (\<lambda>txs. Inr (toPoolTransaction tx # txs)))"

text \<open>\<open>Number(s)\<close> of a printed number.\<close>

definition Number_hex :: "string \<Rightarrow> int" where
  "Number_hex s = (case BigInt_str s of None \<Rightarrow> 0 | Some i \<Rightarrow> double_of_int i)"

definition from_key :: "pool_tx \<Rightarrow> string" where
  "from_key item = (case pt_from item of None \<Rightarrow> ''null'' | Some a \<Rightarrow> a)"

definition groupByAddressAndNonce :: "pool_tx list \<Rightarrow> string \<rightharpoonup> (int \<rightharpoonup> pool_tx)" where
  "groupByAddressAndNonce txs = fold (\<lambda>item acc.
     let frm = from_key item; nonce = Number_hex (pt_nonce item);
         acc1 = (if acc frm = None then acc(frm \<mapsto> Map.empty) else acc)
     in acc1(frm \<mapsto> (the (acc1 frm))(nonce \<mapsto> item))) txs Map.empty"

definition groupByNonce :: "pool_tx list \<Rightarrow> int \<rightharpoonup> pool_tx" where
  "groupByNonce txs = fold (\<lambda>item acc. acc(Number_hex (pt_nonce item) \<mapsto> item)) txs Map.empty"

definition requireTxPoolAPIEnabled :: "bool \<Rightarrow> bool \<Rightarrow> thrown + unit" where
  "requireTxPoolAPIEnabled TXPOOL_API_ENABLED ENABLE_TX_POOL =
     (if \<not> TXPOOL_API_ENABLED \<or> \<not> ENABLE_TX_POOL then Inl (RelayError (JsonRpcErr UNSUPPORTED_METHOD)) else Inr ())"

definition lift_error :: "string + 'a \<Rightarrow> thrown + 'a" where
  "lift_error r = map_sum (\<lambda>m. OtherError (Some m)) id r"

definition txpool_content ::
    "(string \<Rightarrow> string + eth_tx) \<Rightarrow> bool \<Rightarrow> bool \<Rightarrow> 's storage \<Rightarrow> 's \<Rightarrow> thrown + (string \<rightharpoonup> (int \<rightharpoonup> pool_tx))" where
  "txpool_content decode api pool storage s =
     res_bind (requireTxPoolAPIEnabled api pool) (\<lambda>_.
     res_bind (lift_error (getAllTransactions storage s)) (\<lambda>rlpTxs.
     res_bind (lift_error (convertRlpEncodedTxToTransactionPoolTx decode rlpTxs)) (\<lambda>txs.
       Inr (groupByAddressAndNonce txs))))"

definition txpool_contentFrom ::
    "(string \<Rightarrow> string + eth_tx) \<Rightarrow> bool \<Rightarrow> bool \<Rightarrow> 's storage \<Rightarrow> string \<Rightarrow> 's \<Rightarrow> thrown + (int \<rightharpoonup> pool_tx)" where
  "txpool_contentFrom decode api pool storage address s =
     res_bind (requireTxPoolAPIEnabled api pool) (\<lambda>_.
     res_bind (lift_error (getTransactions storage address s)) (\<lambda>rlpTxs.
     res_bind (lift_error (convertRlpEncodedTxToTransactionPoolTx decode rlpTxs)) (\<lambda>txs.
       Inr (groupByNonce txs))))"

record pool_status =
  status_pending :: string
  status_queued :: string

definition txpool_status :: "bool \<Rightarrow> bool \<Rightarrow> 's storage \<Rightarrow> 's \<Rightarrow> thrown + pool_status" where
  "txpool_status api pool storage s =
     res_bind (requireTxPoolAPIEnabled api pool) (\<lambda>_.
     res_bind (lift_error (getAllTransactions storage s)) (\<lambda>txs.
       Inr \<lparr>status_pending = numberTo0x (int (length txs)), status_queued = ''0x0''\<rparr>))"

section \<open>The contract of a storage\<close>

datatype pool_op = Save string eth_tx | Remove string string

fun run_pool :: "bool \<Rightarrow> 's storage \<Rightarrow> pool_op list \<Rightarrow> 's \<Rightarrow> string + 's" where
  "run_pool enabled storage [] s = Inr s"
| "run_pool enabled storage (Save a tx # ops) s =
     res_bind (saveTransaction enabled storage a tx s) (run_pool enabled storage ops)"
| "run_pool enabled storage (Remove a x # ops) s =
     res_bind (removeTransaction enabled storage a x s) (run_pool enabled storage ops)"

text \<open>The specification: a set of pairs of an address in lower case and a payload.\<close>

fun spec_op :: "pool_op \<Rightarrow> (string \<times> string) set \<Rightarrow> (string \<times> string) set" where
  "spec_op (Save a tx) P = insert (toLowerCase a, tx_serialized tx) P"
| "spec_op (Remove a x) P = P - {(toLowerCase a, x)}"

fun op_address :: "pool_op \<Rightarrow> string" where
  "op_address (Save a tx) = toLowerCase a"
| "op_address (Remove a x) = toLowerCase a"

fun op_payload :: "pool_op \<Rightarrow> string" where
  "op_payload (Save a tx) = tx_serialized tx"
| "op_payload (Remove a x) = x"

locale pending_storage =
  fixes st :: "'s storage"
    and inv :: "'s \<Rightarrow> bool"
    and txs_of :: "'s \<Rightarrow> string \<Rightarrow> string set"
    and all_txs :: "'s \<Rightarrow> string set"
    and addr_ok :: "string \<Rightarrow> bool"
  assumes add: "inv s \<Longrightarrow> addr_ok a \<Longrightarrow> addToList st a x s = Inr s' \<Longrightarrow>
      inv s' \<and> (\<forall>b. addr_ok b \<longrightarrow> txs_of s' b = (if b = a then insert x (txs_of s b) else txs_of s b)) \<and>
      all_txs s' = insert x (all_txs s)"
    and remove: "inv s \<Longrightarrow> addr_ok a \<Longrightarrow> removeFromList st a x s = Inr s' \<Longrightarrow>
      inv s' \<and> (\<forall>b. addr_ok b \<longrightarrow> txs_of s' b = (if b = a then txs_of s b - {x} else txs_of s b)) \<and>
      all_txs s' = all_txs s - {x}"
    and clear: "inv s \<Longrightarrow> removeAllTxs st s = Inr s' \<Longrightarrow> inv s' \<and> (\<forall>b. txs_of s' b = {}) \<and> all_txs s' = {}"
    and count: "inv s \<Longrightarrow> addr_ok a \<Longrightarrow> getList st a s = Inr n \<Longrightarrow> n = card (txs_of s a)"
    and payloads: "inv s \<Longrightarrow> addr_ok a \<Longrightarrow> getTransactionPayloads st a s = Inr xs \<Longrightarrow> distinct xs \<and> set xs = txs_of s a"
    and everything: "inv s \<Longrightarrow> getAllTransactionPayloads st s = Inr xs \<Longrightarrow> distinct xs \<and> set xs = all_txs s"
begin

definition implements :: "'s \<Rightarrow> (string \<times> string) set \<Rightarrow> bool" where
  "implements s P \<longleftrightarrow> inv s \<and> (\<forall>a. addr_ok a \<longrightarrow> txs_of s a = {x. (a, x) \<in> P}) \<and> (\<forall>(a, x) \<in> P. addr_ok a)"

lemma run_implements:
  assumes "implements s P" "\<forall>op \<in> set ops. addr_ok (op_address op)" "run_pool True st ops s = Inr s'"
  shows "implements s' (fold spec_op ops P)"
  using assms
proof (induction ops arbitrary: s P)
  case (Cons op ops)
  obtain s1 where s1: "run_pool True st [op] s = Inr s1" "run_pool True st ops s1 = Inr s'"
    using Cons.prems(3) by (cases op) (auto simp: res_bind_eq_Inr)
  have ok: "addr_ok (op_address op)" using Cons.prems(2) by simp
  have "implements s1 (spec_op op P)"
  proof (cases op)
    case (Save a tx)
    then have "addToList st (toLowerCase a) (tx_serialized tx) s = Inr s1"
      using s1(1) by (auto simp: saveTransaction_def res_bind_eq_Inr)
    then show ?thesis using add [of s "toLowerCase a"] Cons.prems(1) ok Save by (auto simp: implements_def)
  next
    case (Remove a x)
    then have "removeFromList st (toLowerCase a) x s = Inr s1"
      using s1(1) by (auto simp: removeTransaction_def res_bind_eq_Inr)
    then show ?thesis using remove [of s "toLowerCase a"] Cons.prems(1) ok Remove by (auto simp: implements_def)
  qed
  then show ?case using Cons.IH [of s1] Cons.prems(2) s1(2) by simp
qed simp

lemma owned_union:
  assumes "implements s P" "all_txs s = snd ` P" "\<forall>(a, x) \<in> P. owner x = a"
    and "\<forall>op \<in> set ops. addr_ok (op_address op) \<and> owner (op_payload op) = op_address op"
    and "run_pool True st ops s = Inr s'"
  shows "all_txs s' = snd ` fold spec_op ops P"
  using assms
proof (induction ops arbitrary: s P)
  case (Cons op ops)
  obtain s1 where s1: "run_pool True st [op] s = Inr s1" "run_pool True st ops s1 = Inr s'"
    using Cons.prems(5) by (cases op) (auto simp: res_bind_eq_Inr)
  have ok: "addr_ok (op_address op)" "owner (op_payload op) = op_address op" using Cons.prems(4) by auto
  have imp: "implements s1 (spec_op op P)"
    using run_implements [OF Cons.prems(1) _ s1(1)] ok by simp
  have "all_txs s1 = snd ` spec_op op P \<and> (\<forall>(a, x) \<in> spec_op op P. owner x = a)"
  proof (cases op)
    case (Save a tx)
    then have "addToList st (toLowerCase a) (tx_serialized tx) s = Inr s1"
      using s1(1) by (auto simp: saveTransaction_def res_bind_eq_Inr)
    then show ?thesis using add [of s "toLowerCase a"] Cons.prems(1-3) ok Save by (auto simp: implements_def)
  next
    case (Remove a x)
    then have "removeFromList st (toLowerCase a) x s = Inr s1"
      using s1(1) by (auto simp: removeTransaction_def res_bind_eq_Inr)
    then have "all_txs s1 = snd ` P - {x}"
      using remove [of s "toLowerCase a"] Cons.prems(1,2) ok Remove by (auto simp: implements_def)
    moreover have "snd ` (P - {(toLowerCase a, x)}) = snd ` P - {x}"
      using Cons.prems(3) ok Remove by force
    ultimately show ?thesis using Cons.prems(3) Remove by auto
  qed
  then show ?case using Cons.IH [OF imp] Cons.prems(4) s1(2) by simp
qed simp

lemma queries:
  assumes "implements s P" "addr_ok (toLowerCase a)"
  shows "getTransactions st a s = Inr xs \<Longrightarrow> distinct xs \<and> set xs = {x. (toLowerCase a, x) \<in> P}"
    and "getPendingCount st a s = Inr n \<Longrightarrow> n = card {x. (toLowerCase a, x) \<in> P}"
  using payloads [of s "toLowerCase a"] count [of s "toLowerCase a"] assms
  by (auto simp: implements_def getTransactions_def getPendingCount_def)

end

subsection \<open>The in-memory storage\<close>

definition local_inv :: "local_pool \<Rightarrow> bool" where
  "local_inv s \<longleftrightarrow> distinct (globalTransactionIndex s) \<and>
     (\<forall>a txs. pendingTransactions s a = Some txs \<longrightarrow> distinct txs) \<and> (\<forall>a. pendingTransactions s a \<noteq> Some [])"

definition local_txs :: "local_pool \<Rightarrow> string \<Rightarrow> string set" where
  "local_txs s a = set (local_getTransactionPayloads a s)"

lemmas local_defs = LocalPendingTransactionStorage_def local_addToList_def local_removeFromList_def local_removeAll_def
  local_getList_def local_getTransactionPayloads_def local_inv_def local_txs_def Let_def

lemma removeAll_eq_Nil: "removeAll x xs = [] \<longleftrightarrow> set xs \<subseteq> {x}"
  by (induction xs) auto

interpretation loc: pending_storage LocalPendingTransactionStorage local_inv local_txs
  "\<lambda>s. set (globalTransactionIndex s)" "\<lambda>_. True"
proof (unfold_locales, goal_cases)
  case (1 s a x s')
  then show ?case by (auto simp: local_defs set_add_def split: option.splits if_splits)
next
  case (2 s a x s')
  then show ?case
    by (auto simp: local_defs distinct_removeAll removeAll_eq_Nil split: option.splits if_splits)
next
  case (3 s s')
  then show ?case by (auto simp: local_defs)
next
  case (4 s a n)
  then show ?case by (auto simp: local_defs distinct_card split: option.splits)
next
  case (5 s a xs)
  then show ?case by (auto simp: local_defs split: option.splits)
next
  case (6 s xs)
  then show ?case by (auto simp: local_defs)
qed

lemma local_run_total: "\<exists>s'. run_pool True LocalPendingTransactionStorage ops s = Inr s'"
proof (induction ops arbitrary: s)
  case (Cons op ops)
  then show ?case
    by (cases op) (auto simp: saveTransaction_def removeTransaction_def LocalPendingTransactionStorage_def)
qed simp

lemma empty_pool_implements: "loc.implements empty_pool {}"
  by (auto simp: loc.implements_def empty_pool_def local_defs)

lemma local_pool_answers:
  "\<exists>s xs. run_pool True LocalPendingTransactionStorage ops empty_pool = Inr s \<and>
     getTransactions LocalPendingTransactionStorage a s = Inr xs \<and> distinct xs \<and>
     set xs = {x. (toLowerCase a, x) \<in> fold spec_op ops {}} \<and>
     getPendingCount LocalPendingTransactionStorage a s = Inr (card {x. (toLowerCase a, x) \<in> fold spec_op ops {}})"
proof -
  obtain s where s: "run_pool True LocalPendingTransactionStorage ops empty_pool = Inr s"
    using local_run_total by blast
  have imp: "loc.implements s (fold spec_op ops {})"
    using loc.run_implements [OF empty_pool_implements _ s] by simp
  have q: "getTransactions LocalPendingTransactionStorage a s = Inr (local_getTransactionPayloads (toLowerCase a) s)"
    "getPendingCount LocalPendingTransactionStorage a s = Inr (local_getList (toLowerCase a) s)"
    by (simp_all add: getTransactions_def getPendingCount_def LocalPendingTransactionStorage_def)
  show ?thesis
    using loc.queries(1) [OF imp _ q(1)] loc.queries(2) [OF imp _ q(2)] q s by simp
qed

text \<open>C14: After any sequence of saves and removals the in-memory pool answers like a set of pairs of sender and
payload, senders compared without regard to letter case: the payloads of an address are exactly those saved for it and not
removed since, each listed once, and the count is their number; no operation fails.\<close>

theorem local_pool_refines_set:
  "\<exists>s xs. run_pool True LocalPendingTransactionStorage ops empty_pool = Inr s \<and>
     getTransactions LocalPendingTransactionStorage a s = Inr xs \<and> distinct xs \<and>
     set xs = {x. (toLowerCase a, x) \<in> fold spec_op ops {}} \<and>
     getPendingCount LocalPendingTransactionStorage a s = Inr (card {x. (toLowerCase a, x) \<in> fold spec_op ops {}})"
  by (rule local_pool_answers)

text \<open>When every payload is saved and removed under one sender only (the one that signed it), the global index of
the in-memory pool is the union of the senders' payloads, and \<open>txpool_status\<close> prints their number in hexadecimal.\<close>

lemma local_status_counts_all:
  assumes "list_all (\<lambda>op. owner (op_payload op) = op_address op) ops"
  shows "\<exists>s. run_pool True LocalPendingTransactionStorage ops empty_pool = Inr s \<and>
    set (globalTransactionIndex s) = snd ` fold spec_op ops {} \<and>
    txpool_status True True LocalPendingTransactionStorage s =
      Inr \<lparr>status_pending = numberTo0x (int (card (fold spec_op ops {}))), status_queued = ''0x0''\<rparr>"
proof -
  obtain s where s: "run_pool True LocalPendingTransactionStorage ops empty_pool = Inr s"
    using local_run_total by blast
  have imp: "loc.implements s (fold spec_op ops {})"
    using loc.run_implements [OF empty_pool_implements _ s] by simp
  have all: "set (globalTransactionIndex s) = snd ` fold spec_op ops {}"
    using loc.owned_union [OF empty_pool_implements _ _ _ s, of owner] assms
    by (auto simp: empty_pool_def list_all_iff)
  have "\<forall>(a, x) \<in> fold spec_op ops P. owner x = a" if "\<forall>(a, x) \<in> P. owner x = a" for P
    using that assms
  proof (induction ops arbitrary: P)
    case (Cons op ops)
    then have "\<forall>(a, x) \<in> spec_op op P. owner x = a" by (cases op) auto
    then show ?case using Cons by simp
  qed simp
  from this [of "{}"] have "p = (owner (snd p), snd p)" if "p \<in> fold spec_op ops {}" for p
    using that by (cases p) auto
  then have "inj_on snd (fold spec_op ops {})" by (metis inj_onI)
  then have "card (fold spec_op ops {}) = card (set (globalTransactionIndex s))"
    by (simp add: all card_image)
  also have "\<dots> = length (globalTransactionIndex s)"
    using imp by (simp add: loc.implements_def local_inv_def distinct_card)
  finally show ?thesis
    using s all
    by (simp add: txpool_status_def requireTxPoolAPIEnabled_def lift_error_def getAllTransactions_def
        LocalPendingTransactionStorage_def)
qed

definition sample_tx :: eth_tx where
  "sample_tx = \<lparr>tx_from = Some ''0xAb'', tx_to = None, tx_gasLimit = 21000, tx_hash = None, tx_data = ''0x'', tx_nonce = 7,
     tx_value = 0, tx_type = Some 0, tx_signature = None, tx_chainId = 298, tx_gasPrice = Some 5, tx_maxFeePerGas = None,
     tx_maxPriorityFeePerGas = None, tx_accessList = None, tx_serialized = ''0xf8''\<rparr>"

lemma local_status_counts_all_witness:
  "\<exists>s. run_pool True LocalPendingTransactionStorage [Save ''0xAb'' sample_tx] empty_pool = Inr s \<and>
    txpool_status True True LocalPendingTransactionStorage s = Inr \<lparr>status_pending = numberTo0x 1, status_queued = ''0x0''\<rparr>"
  using local_status_counts_all [of "\<lambda>_. toLowerCase ''0xAb''" "[Save ''0xAb'' sample_tx]"] by auto

subsection \<open>The Redis storage\<close>

text \<open>
  What the storage relies on, for keys that do not expire in between: \<open>mem r key\<close> is the set stored
  under a key (empty when the key is absent), and a transaction runs its commands in order.
\<close>

fun set_effect :: "set_command \<Rightarrow> (string \<Rightarrow> string set) \<Rightarrow> string \<Rightarrow> string set" where
  "set_effect (SADD k x) m = m(k := insert x (m k))"
| "set_effect (SREM k x) m = m(k := m k - {x})"
| "set_effect (EXPIRE k n) m = m"

locale redis_set_server =
  fixes cmds :: "'r redis_sets" and mem :: "'r \<Rightarrow> string \<Rightarrow> string set"
  assumes exec_ok: "cmd_exec cmds cs r = Inr r' \<Longrightarrow> mem r' = fold set_effect cs (mem r)"
    and KEYS_ok: "cmd_KEYS cmds (p @ ''*'') r = Inr ks \<Longrightarrow> set ks = {k. startsWith k p \<and> mem r k \<noteq> {}}"
    and UNLINK_ok: "cmd_UNLINK cmds ks r = Inr r' \<Longrightarrow> mem r' = (\<lambda>k. if k \<in> set ks then {} else mem r k)"
    and SCARD_ok: "cmd_SCARD cmds k r = Inr n \<Longrightarrow> n = card (mem r k)"
    and SMEMBERS_ok: "cmd_SMEMBERS cmds k r = Inr xs \<Longrightarrow> set xs = mem r k"

lemma fold_set_add: "distinct acc \<Longrightarrow> distinct (fold set_add xs acc) \<and> set (fold set_add xs acc) = set xs \<union> set acc"
  by (induction xs arbitrary: acc) auto

lemma fold_set_add_Nil [simp]: "distinct (fold set_add xs [])" "set (fold set_add xs []) = set xs"
  using fold_set_add [of "[]" xs] by auto

lemma keyFor_simps [simp]: "keyFor a = keyFor b \<longleftrightarrow> a = b" "keyFor a = globalPendingTxsKey \<longleftrightarrow> a = ''global''"
  by (auto simp: keyFor_def globalPendingTxsKey_def)

lemma map_sum_Inr_iff: "map_sum id f r = Inr y \<longleftrightarrow> (\<exists>x. r = Inr x \<and> y = f x)"
  by (cases r) auto

context redis_set_server
begin

sublocale pool: pending_storage "RedisPendingTransactionStorage cmds ttl" "\<lambda>_. True" "\<lambda>r a. mem r (keyFor a)"
  "\<lambda>r. mem r globalPendingTxsKey" "\<lambda>a. a \<noteq> ''global''"
  for ttl :: nat
proof (unfold_locales, goal_cases)
  case (1 s a x s')
  then have "mem s' = fold set_effect [SADD (keyFor a) x, EXPIRE (keyFor a) ttl, SADD globalPendingTxsKey x,
      EXPIRE globalPendingTxsKey ttl] (mem s)"
    using exec_ok by (simp add: RedisPendingTransactionStorage_def redis_addToList_def Let_def)
  with 1 show ?case by auto
next
  case (2 s a x s')
  then have "mem s' = fold set_effect [SREM (keyFor a) x, SREM globalPendingTxsKey x] (mem s)"
    using exec_ok by (simp add: RedisPendingTransactionStorage_def redis_removeFromList_def)
  with 2 show ?case by auto
next
  case (3 s s')
  then obtain ks where ks: "cmd_KEYS cmds (keyPrefix @ ''*'') s = Inr ks"
    "(if ks \<noteq> [] then cmd_UNLINK cmds ks s else Inr s) = Inr s'"
    by (auto simp: RedisPendingTransactionStorage_def redis_removeAll_def res_bind_eq_Inr)
  have "mem s' k = {}" if "startsWith k keyPrefix" for k
    using KEYS_ok [OF ks(1)] ks(2) that by (auto simp: UNLINK_ok split: if_splits)
  then show ?case by (simp add: keyFor_def globalPendingTxsKey_def)
next
  case (4 s a n)
  then show ?case using SCARD_ok by (simp add: RedisPendingTransactionStorage_def redis_getList_def)
next
  case (5 s a xs)
  then show ?case using SMEMBERS_ok
    by (auto simp: RedisPendingTransactionStorage_def redis_getTransactionPayloads_def map_sum_Inr_iff)
next
  case (6 s xs)
  then show ?case using SMEMBERS_ok
    by (auto simp: RedisPendingTransactionStorage_def redis_getAllTransactionPayloads_def map_sum_Inr_iff)
qed

lemma pool_refines:
  assumes "\<forall>a. mem r (keyFor a) = {}" "\<forall>op \<in> set ops. op_address op \<noteq> ''global''"
    and "run_pool True (RedisPendingTransactionStorage cmds ttl) ops r = Inr r'"
  shows "pool.implements r' (fold spec_op ops {})"
  using pool.run_implements [OF _ _ assms(3), of "{}"] assms(1,2) by (auto simp: pool.implements_def)

lemma pool_answers:
  assumes "\<forall>a. mem r (keyFor a) = {}" "\<forall>op \<in> set ops. op_address op \<noteq> ''global''" "toLowerCase a \<noteq> ''global''"
    and "run_pool True (RedisPendingTransactionStorage cmds ttl) ops r = Inr r'"
    and "getTransactions (RedisPendingTransactionStorage cmds ttl) a r' = Inr xs"
  shows "distinct xs \<and> set xs = {x. (toLowerCase a, x) \<in> fold spec_op ops {}}"
  using pool.queries(1) [OF pool_refines [OF assms(1,2,4)] assms(3,5)] .

end

text \<open>A Redis server with these commands: a list of pairs of key and member.\<close>

fun pair_effect :: "set_command \<Rightarrow> (string \<times> string) list \<Rightarrow> (string \<times> string) list" where
  "pair_effect (SADD k x) r = set_add (k, x) r"
| "pair_effect (SREM k x) r = removeAll (k, x) r"
| "pair_effect (EXPIRE k n) r = r"

definition members :: "(string \<times> string) list \<Rightarrow> string \<Rightarrow> string list" where
  "members r k = remdups (map snd (filter (\<lambda>(k', _). k' = k) r))"

definition reference_sets :: "(string \<times> string) list redis_sets" where
  "reference_sets =
     \<lparr>cmd_exec = (\<lambda>cs r. Inr (fold pair_effect cs r)),
      cmd_KEYS = (\<lambda>p r. Inr (filter (\<lambda>k. startsWith k (butlast p)) (remdups (map fst r)))),
      cmd_UNLINK = (\<lambda>ks r. Inr (filter (\<lambda>(k, _). k \<notin> set ks) r)),
      cmd_SCARD = (\<lambda>k r. Inr (length (members r k))),
      cmd_SMEMBERS = (\<lambda>k r. Inr (members r k))\<rparr>"

lemma set_members: "set (members r k) = {x. (k, x) \<in> set r}"
  by (force simp: members_def)

lemma pair_effects: "(\<lambda>k. set (members (fold pair_effect cs r) k)) = fold set_effect cs (\<lambda>k. set (members r k))"
proof (induction cs arbitrary: r)
  case (Cons c cs)
  have "(\<lambda>k. set (members (pair_effect c r) k)) = set_effect c (\<lambda>k. set (members r k))"
    by (cases c) (auto simp: set_members fun_eq_iff)
  then show ?case using Cons by simp
qed simp

interpretation ref_sets: redis_set_server reference_sets "\<lambda>r k. set (members r k)"
proof (unfold_locales, goal_cases)
  case (1 cs r r')
  then show ?case using pair_effects by (auto simp: reference_sets_def)
next
  case (2 p r ks)
  then show ?case by (force simp: reference_sets_def set_members butlast_append)
next
  case (4 k r n)
  then show ?case by (auto simp: reference_sets_def members_def length_remdups_card_conv)
qed (auto simp: reference_sets_def set_members fun_eq_iff)

text \<open>C12: Over any Redis whose set commands behave as documented (and as long as no key expires), the payloads the Redis
pool returns for an address after a sequence of saves and removals are exactly those saved for it and
not removed since: the Redis storage and the in-memory one refine the same specification.\<close>

theorem redis_pool_refines_set:
  assumes "redis_set_server cmds mem" and "\<forall>a. mem r (keyFor a) = {}"
    and "\<forall>op \<in> set ops. op_address op \<noteq> ''global''" and "toLowerCase a \<noteq> ''global''"
    and "run_pool True (RedisPendingTransactionStorage cmds ttl) ops r = Inr r'"
    and "getTransactions (RedisPendingTransactionStorage cmds ttl) a r' = Inr xs"
  shows "distinct xs \<and> set xs = {x. (toLowerCase a, x) \<in> fold spec_op ops {}}"
  using redis_set_server.pool_answers [OF assms] .

theorem redis_pool_refines_set_witness:
  "getTransactions (RedisPendingTransactionStorage reference_sets 30) ''0xAB''
     [(keyFor ''0xab'', ''0xf8''), (globalPendingTxsKey, ''0xf8'')] = Inr [''0xf8''] \<and>
   set [''0xf8''] = {x. (toLowerCase ''0xAB'', x) \<in> fold spec_op [Save ''0xAb'' sample_tx] {}}"
proof -
  let ?r = "[(keyFor ''0xab'', ''0xf8''), (globalPendingTxsKey, ''0xf8'')]"
  have low: "toLowerCase ''0xAb'' = ''0xab''" "toLowerCase ''0xAB'' = ''0xab''" by code_simp+
  have run: "run_pool True (RedisPendingTransactionStorage reference_sets 30) [Save ''0xAb'' sample_tx] [] = Inr ?r"
    by (simp add: saveTransaction_def RedisPendingTransactionStorage_def redis_addToList_def reference_sets_def set_add_def
        sample_tx_def low Let_def keyFor_def globalPendingTxsKey_def)
  have get: "getTransactions (RedisPendingTransactionStorage reference_sets 30) ''0xAB'' ?r = Inr [''0xf8'']"
    by (simp add: getTransactions_def RedisPendingTransactionStorage_def redis_getTransactionPayloads_def reference_sets_def
        low members_def set_add_def keyFor_def globalPendingTxsKey_def)
  show ?thesis
    using redis_pool_refines_set [OF ref_sets.redis_set_server_axioms _ _ _ run get] get
    by (simp add: low members_def)
qed

section \<open>Grouping\<close>

lemma fold_groupByNonce:
  "fold (\<lambda>item acc. acc(f item \<mapsto> item)) txs acc n =
     (case filter (\<lambda>t. f t = n) txs of [] \<Rightarrow> acc n | ts \<Rightarrow> Some (last ts))"
proof (induction txs arbitrary: acc)
  case (Cons t txs)
  show ?case
    unfolding fold_Cons comp_def Cons.IH by (auto split: list.split)
qed simp

lemma groupByAddressAndNonce_lookup:
  "(case groupByAddressAndNonce txs a of None \<Rightarrow> None | Some m \<Rightarrow> m n) =
     groupByNonce (filter (\<lambda>t. from_key t = a) txs) n"
proof -
  let ?step = "\<lambda>item acc. let frm = from_key item; nonce = Number_hex (pt_nonce item);
         acc1 = (if acc frm = None then acc(frm \<mapsto> Map.empty) else acc)
     in acc1(frm \<mapsto> (the (acc1 frm))(nonce \<mapsto> item))"
  have "(case fold ?step txs acc a of None \<Rightarrow> None | Some m \<Rightarrow> m n) =
      fold (\<lambda>item acc. acc(Number_hex (pt_nonce item) \<mapsto> item)) (filter (\<lambda>t. from_key t = a) txs)
        (case acc a of None \<Rightarrow> Map.empty | Some m \<Rightarrow> m) n" for acc
  proof (induction txs arbitrary: acc)
    case Nil
    then show ?case by (simp split: option.split)
  next
    case (Cons t txs)
    show ?case
      unfolding fold_Cons comp_def Cons.IH
      by (cases "from_key t = a"; cases "acc a") (simp_all add: Let_def fun_upd_same fun_upd_other del: fun_upd_apply)
  qed
  from this [of Map.empty] show ?thesis by (simp add: groupByAddressAndNonce_def groupByNonce_def)
qed

lemma Number_hex_numberTo0x: "0 \<le> n \<Longrightarrow> n < 2 ^ 53 \<Longrightarrow> Number_hex (numberTo0x n) = n"
  by (simp add: Number_hex_def BigInt_numberTo0x double_of_int_exact)

lemma convert_Inr: "list_all2 (\<lambda>x tx. decode x = Inr tx) rlps txs \<Longrightarrow>
    convertRlpEncodedTxToTransactionPoolTx decode rlps = Inr (map toPoolTransaction txs)"
  by (induction rule: list_all2_induct) auto

text \<open>\<open>txpool_contentFrom\<close> shows for each nonce the transaction of the sender with that nonce that was saved last, if
there is one; \<open>txpool_content\<close> shows the same for every sender, grouped by the sender the signature gives.\<close>

lemma txpool_content_last_by_nonce:
  assumes "list_all2 (\<lambda>x tx. decode x = Inr tx \<and> 0 \<le> tx_nonce tx \<and> tx_nonce tx < 2 ^ 53) rlps txs"
  shows "(getTransactions st a s = Inr rlps \<longrightarrow>
      (\<exists>m. txpool_contentFrom decode True True st a s = Inr m \<and>
        (\<forall>n. m n = (case filter (\<lambda>tx. tx_nonce tx = n) txs of [] \<Rightarrow> None | ts \<Rightarrow> Some (toPoolTransaction (last ts)))))) \<and>
    (getAllTransactions st s = Inr rlps \<longrightarrow>
      (\<exists>m. txpool_content decode True True st s = Inr m \<and>
        (\<forall>f n. (case m f of None \<Rightarrow> None | Some g \<Rightarrow> g n) =
          (case filter (\<lambda>tx. tx_nonce tx = n \<and> from_key (toPoolTransaction tx) = f) txs of
             [] \<Rightarrow> None | ts \<Rightarrow> Some (toPoolTransaction (last ts))))))"
proof -
  have conv: "convertRlpEncodedTxToTransactionPoolTx decode rlps = Inr (map toPoolTransaction txs)"
    using assms by (intro convert_Inr) (auto elim: list_all2_mono)
  have nonces: "\<forall>tx \<in> set txs. Number_hex (pt_nonce (toPoolTransaction tx)) = tx_nonce tx"
    using assms by (auto simp: list_all2_conv_all_nth in_set_conv_nth toPoolTransaction_def Number_hex_numberTo0x)
  have grp: "groupByNonce (map toPoolTransaction ts) n =
      (case filter (\<lambda>tx. tx_nonce tx = n) ts of [] \<Rightarrow> None | ts \<Rightarrow> Some (toPoolTransaction (last ts)))"
    if "set ts \<subseteq> set txs" for ts n
  proof -
    have "filter (\<lambda>tx. Number_hex (pt_nonce (toPoolTransaction tx)) = n) ts = filter (\<lambda>tx. tx_nonce tx = n) ts"
      using that nonces by (intro filter_cong) auto
    then show ?thesis
      by (simp add: groupByNonce_def fold_groupByNonce filter_map comp_def last_map split: list.split)
  qed
  have grp2: "(case groupByAddressAndNonce (map toPoolTransaction txs) f of None \<Rightarrow> None | Some g \<Rightarrow> g n) =
      (case filter (\<lambda>tx. tx_nonce tx = n \<and> from_key (toPoolTransaction tx) = f) txs of
             [] \<Rightarrow> None | ts \<Rightarrow> Some (toPoolTransaction (last ts)))" for f n
    using grp [of "filter (\<lambda>tx. from_key (toPoolTransaction tx) = f) txs" n]
    by (simp add: groupByAddressAndNonce_lookup filter_map comp_def conj_commute)
  show ?thesis
    using conv grp [of txs] grp2
    by (auto simp: txpool_contentFrom_def txpool_content_def requireTxPoolAPIEnabled_def lift_error_def)
qed

lemma txpool_content_last_by_nonce_witness:
  "\<exists>m. txpool_content (\<lambda>_. Inr sample_tx) True True LocalPendingTransactionStorage
      (local_addToList ''0xab'' ''0xf8'' empty_pool) = Inr m \<and> (case m ''0xAb'' of None \<Rightarrow> None | Some g \<Rightarrow> g 7) = Some (toPoolTransaction sample_tx)"
proof -
  have a: "getAllTransactions LocalPendingTransactionStorage (local_addToList ''0xab'' ''0xf8'' empty_pool) = Inr [''0xf8'']"
    by (simp add: getAllTransactions_def local_defs empty_pool_def set_add_def)
  show ?thesis
    using txpool_content_last_by_nonce [of "\<lambda>_. Inr sample_tx" "[''0xf8'']" "[sample_tx]" LocalPendingTransactionStorage
        "[]" "local_addToList ''0xab'' ''0xf8'' empty_pool"] a
    by (force simp: sample_tx_def from_key_def toPoolTransaction_def)
qed

text \<open>The \<open>txpool_\<close> methods answer \<open>UNSUPPORTED_METHOD\<close> unless both the pool and its API are enabled, and a
disabled pool stores and removes nothing.\<close>

lemma txpool_disabled:
  assumes "\<not> (api \<and> pool)"
  shows "txpool_content decode api pool st s = Inl (RelayError (JsonRpcErr UNSUPPORTED_METHOD)) \<and>
    txpool_contentFrom decode api pool st a s = Inl (RelayError (JsonRpcErr UNSUPPORTED_METHOD)) \<and>
    txpool_status api pool st s = Inl (RelayError (JsonRpcErr UNSUPPORTED_METHOD)) \<and>
    saveTransaction False st a tx s = Inr s \<and> removeTransaction False st a x s = Inr s"
  using assms by (auto simp: txpool_content_def txpool_contentFrom_def txpool_status_def requireTxPoolAPIEnabled_def
      saveTransaction_def removeTransaction_def)

end
