(* ===== verification/Precheck.thy ===== *)
theory Precheck
  imports TxPool
begin

text \<open>
  The checks a raw transaction passes before it is submitted: \<open>lib/precheck.ts\<close>, with
  \<open>isSubsidizedTransaction\<close> of \<open>services/ethService/ethCommonService/CommonService.ts\<close>. The
  account lookup of the mirror node client is an argument, the count of pending
  transactions comes from the pool service. The configuration is a record of the values
  the checks read.
\<close>

section \<open>State and configuration\<close>

record precheck_config =
  pc_chain :: string
  pc_maxTransactionFeeThreshold :: int
  pc_sendRawTransactionSizeLimit :: int
  pc_callDataSizeLimit :: int
  pc_gasPriceTinyBarBuffer :: int
  pc_paymasterEnabled :: bool
  pc_paymasterWhitelist :: "string list"
  pc_deterministicDeployerTransaction :: string

text \<open>The fields the checks read of an account of the mirror node.\<close>

datatype account_nonce = NonceUndefined | NonceNull | NonceIs int

record account_info =
  ai_ethereum_nonce :: account_nonce
  ai_balance :: "int option"
  ai_receiver_sig_required :: bool

definition TX_BASE_COST :: int where "TX_BASE_COST = 21000"
definition TX_DATA_ZERO_COST :: int where "TX_DATA_ZERO_COST = 4"
definition ISTANBUL_TX_DATA_NON_ZERO_COST :: int where "ISTANBUL_TX_DATA_NON_ZERO_COST = 16"

definition fail :: "predefined \<Rightarrow> thrown + 'a" where
  "fail e = Inl (RelayError (JsonRpcErr e))"

definition from_str :: "eth_tx \<Rightarrow> string" where
  "from_str tx = (case tx_from tx of None \<Rightarrow> ''null'' | Some a \<Rightarrow> a)"

section \<open>Checks\<close>

text \<open>\<open>decode\<close> is ethers' \<open>Transaction.from\<close>; its failure carries a message.\<close>

definition parseRawTransaction :: "(string \<Rightarrow> string + eth_tx) \<Rightarrow> string + eth_tx \<Rightarrow> thrown + eth_tx" where
  "parseRawTransaction decode transaction = (case transaction of
     Inl raw \<Rightarrow> (case decode raw of Inl message \<Rightarrow> fail (INVALID_ARGUMENTS message) | Inr tx \<Rightarrow> Inr tx)
   | Inr tx \<Rightarrow> Inr tx)"

definition check_value :: "eth_tx \<Rightarrow> thrown + unit" where
  "check_value tx =
     (if (tx_value tx > 0 \<and> tx_value tx < TINYBAR_TO_WEIBAR_COEF) \<or> tx_value tx < 0 then fail VALUE_TOO_LOW else Inr ())"

definition verifyAccount :: "(string \<Rightarrow> thrown + account_info option) \<Rightarrow> eth_tx \<Rightarrow> thrown + account_info" where
  "verifyAccount getAccount tx =
     res_bind (getAccount (from_str tx)) (\<lambda>accountInfo. case accountInfo of
       None \<Rightarrow> fail (RESOURCE_NOT_FOUND (''address '' @ quoted (from_str tx) @ ''.''))
     | Some info \<Rightarrow> Inr info)"

text \<open>The account's nonce may be \<open>undefined\<close> (None); as a number it may be NaN.\<close>

definition check_nonce :: "eth_tx \<Rightarrow> js_number option \<Rightarrow> thrown + unit" where
  "check_nonce tx accountNonce = (case accountNonce of
     None \<Rightarrow> fail (RESOURCE_NOT_FOUND (''Account nonce unavailable for address: '' @ from_str tx @ ''.''))
   | Some JNull \<Rightarrow> fail (RESOURCE_NOT_FOUND (''Account nonce unavailable for address: '' @ from_str tx @ ''.''))
   | Some JNaN \<Rightarrow> Inr ()
   | Some (JNum n) \<Rightarrow> if n > tx_nonce tx then fail (NONCE_TOO_LOW (tx_nonce tx) n) else Inr ())"

definition isLegacyUnprotectedEtx :: "eth_tx \<Rightarrow> bool" where
  "isLegacyUnprotectedEtx tx \<longleftrightarrow> tx_chainId tx = 0 \<and>
     (case tx_signature tx of None \<Rightarrow> False | Some g \<Rightarrow> sig_v g = 27 \<or> sig_v g = 28)"

definition check_chainId :: "precheck_config \<Rightarrow> eth_tx \<Rightarrow> thrown + unit" where
  "check_chainId cfg tx =
     (let txChainId = prepend0x (int_str 16 (double_of_int (tx_chainId tx)));
          passes = isLegacyUnprotectedEtx tx \<or> txChainId = pc_chain cfg
      in if \<not> passes then fail (UNSUPPORTED_CHAIN_ID txChainId (pc_chain cfg)) else Inr ())"

text \<open>
  \<open>BigInt(tx.gasPrice || tx.maxFeePerGas! + tx.maxPriorityFeePerGas!)\<close>: a zero gas price is
  falsy, \<open>null + null\<close> is 0, and the sum of a bigint and \<open>null\<close> is a \<open>TypeError\<close>.
\<close>

definition txGasPrice :: "eth_tx \<Rightarrow> thrown + int" where
  "txGasPrice tx =
     (if tx_gasPrice tx \<noteq> None \<and> tx_gasPrice tx \<noteq> Some 0 then Inr (the (tx_gasPrice tx))
      else case (tx_maxFeePerGas tx, tx_maxPriorityFeePerGas tx) of
        (None, None) \<Rightarrow> Inr 0
      | (Some a, Some b) \<Rightarrow> Inr (a + b)
      | _ \<Rightarrow> Inl (OtherError (Some ''Cannot mix BigInt and other types, use explicit conversions'')))"

definition isDeterministicDeploymentTransaction :: "precheck_config \<Rightarrow> eth_tx \<Rightarrow> bool" where
  "isDeterministicDeploymentTransaction cfg tx \<longleftrightarrow> tx_serialized tx = pc_deterministicDeployerTransaction cfg"

definition isSubsidizedTransaction :: "precheck_config \<Rightarrow> string option \<Rightarrow> bool" where
  "isSubsidizedTransaction cfg toAddress \<longleftrightarrow>
     (let payMasterWhiteList = map toLowerCase (pc_paymasterWhitelist cfg) in
      pc_paymasterEnabled cfg \<and>
      (''*'' \<in> set payMasterWhiteList \<or>
       (case toAddress of None \<Rightarrow> False
        | Some a \<Rightarrow> a \<noteq> [] \<and> prepend0x (toLowerCase a) \<in> set payMasterWhiteList)))"

definition check_gasPrice :: "precheck_config \<Rightarrow> eth_tx \<Rightarrow> int \<Rightarrow> thrown + unit" where
  "check_gasPrice cfg tx networkGasPrice =
     res_bind (txGasPrice tx) (\<lambda>price.
       let passes = price \<ge> networkGasPrice \<or> isDeterministicDeploymentTransaction cfg tx \<or>
             isSubsidizedTransaction cfg (tx_to tx)
       in if \<not> passes then
            if pc_gasPriceTinyBarBuffer cfg \<noteq> 0 \<and> price + pc_gasPriceTinyBarBuffer cfg \<ge> networkGasPrice
            then Inr ()
            else fail (GAS_PRICE_TOO_LOW price networkGasPrice)
          else Inr ())"

definition check_balance :: "eth_tx \<Rightarrow> int option \<Rightarrow> thrown + unit" where
  "check_balance tx accountBalance = (case accountBalance of
     None \<Rightarrow> fail (RESOURCE_NOT_FOUND (''Account balance unavailable for address: '' @ from_str tx @ ''.''))
   | Some balance \<Rightarrow>
       res_bind (txGasPrice tx) (\<lambda>price.
         let txTotalValue = tx_value tx + price * tx_gasLimit tx;
             accountBalanceInWeiBars = balance * TINYBAR_TO_WEIBAR_COEF
         in if accountBalanceInWeiBars < txTotalValue then fail INSUFFICIENT_ACCOUNT_BALANCE else Inr ()))"

text \<open>
  The loop over pairs of characters. The last character of a text of odd length is paired
  with \<open>undefined\<close>, which is not \<open>'00'\<close>.
\<close>

fun count_bytes :: "string \<Rightarrow> nat \<times> nat" where
  "count_bytes [] = (0, 0)"
| "count_bytes [c] = (0, 1)"
| "count_bytes (c # d # rest) = (let (zeros, nonZeros) = count_bytes rest in
     if [c, d] = ''00'' then (Suc zeros, nonZeros) else (zeros, Suc nonZeros))"

definition transactionIntrinsicGasCost :: "string \<Rightarrow> int" where
  "transactionIntrinsicGasCost data =
     (let trimmedData = replace_first ''0x'' [] data; (zeros, nonZeros) = count_bytes trimmedData
      in TX_BASE_COST + TX_DATA_ZERO_COST * int zeros + ISTANBUL_TX_DATA_NON_ZERO_COST * int nonZeros)"

definition check_gasLimit :: "precheck_config \<Rightarrow> eth_tx \<Rightarrow> thrown + unit" where
  "check_gasLimit cfg tx =
     (let gasLimit = double_of_int (tx_gasLimit tx); intrinsicGasCost = transactionIntrinsicGasCost (tx_data tx)
      in if gasLimit > pc_maxTransactionFeeThreshold cfg
         then fail (GAS_LIMIT_TOO_HIGH gasLimit (pc_maxTransactionFeeThreshold cfg))
         else if gasLimit < intrinsicGasCost then fail (GAS_LIMIT_TOO_LOW gasLimit intrinsicGasCost)
         else Inr ())"

definition check_accessList :: "eth_tx \<Rightarrow> thrown + unit" where
  "check_accessList tx = (case tx_accessList tx of
     None \<Rightarrow> Inr () | Some xs \<Rightarrow> if length xs > 0 then fail NOT_YET_IMPLEMENTED else Inr ())"

text \<open>Sizes are compared in half bytes: \<open>length / 2 > limit\<close>.\<close>

definition check_transactionSize :: "precheck_config \<Rightarrow> eth_tx \<Rightarrow> thrown + unit" where
  "check_transactionSize cfg tx =
     (let digits = length (replace_first ''0x'' [] (tx_serialized tx))
      in if int digits > 2 * pc_sendRawTransactionSizeLimit cfg
         then fail (TRANSACTION_SIZE_LIMIT_EXCEEDED digits (pc_sendRawTransactionSizeLimit cfg)) else Inr ())"

definition check_callDataSize :: "precheck_config \<Rightarrow> eth_tx \<Rightarrow> thrown + unit" where
  "check_callDataSize cfg tx =
     (let digits = length (replace_first ''0x'' [] (tx_data tx))
      in if int digits > 2 * pc_callDataSizeLimit cfg
         then fail (CALL_DATA_SIZE_LIMIT_EXCEEDED digits (pc_callDataSizeLimit cfg)) else Inr ())"

definition check_transactionType :: "eth_tx \<Rightarrow> thrown + unit" where
  "check_transactionType tx = (if tx_type tx = Some 3 then fail UNSUPPORTED_TRANSACTION_TYPE_3 else Inr ())"

definition check_receiverAccount :: "(string \<Rightarrow> thrown + account_info option) \<Rightarrow> eth_tx \<Rightarrow> thrown + unit" where
  "check_receiverAccount getAccount tx = (case tx_to tx of
     None \<Rightarrow> Inr ()
   | Some receiver \<Rightarrow> if receiver = [] then Inr () else
       res_bind (getAccount receiver) (\<lambda>account. case account of
         None \<Rightarrow> Inr ()
       | Some info \<Rightarrow> if ai_receiver_sig_required info then fail RECEIVER_SIGNATURE_ENABLED else Inr ()))"

text \<open>\<open>mirrorAccountInfo.ethereum_nonce + pending\<close>: \<open>undefined\<close> gives NaN, \<open>null\<close> counts as 0.\<close>

definition add_nonce :: "account_nonce \<Rightarrow> nat \<Rightarrow> js_number" where
  "add_nonce n pending = (case n of
     NonceUndefined \<Rightarrow> JNaN | NonceNull \<Rightarrow> JNum (int pending) | NonceIs i \<Rightarrow> JNum (i + int pending))"

definition sendRawTransactionCheck ::
    "precheck_config \<Rightarrow> (string \<Rightarrow> thrown + account_info option) \<Rightarrow> 's storage \<Rightarrow> 's \<Rightarrow> eth_tx \<Rightarrow> int \<Rightarrow> thrown + unit" where
  "sendRawTransactionCheck cfg getAccount storage s parsedTx networkGasPriceInWeiBars =
     res_bind (check_callDataSize cfg parsedTx) (\<lambda>_.
     res_bind (check_transactionSize cfg parsedTx) (\<lambda>_.
     res_bind (check_transactionType parsedTx) (\<lambda>_.
     res_bind (check_gasLimit cfg parsedTx) (\<lambda>_.
     res_bind (check_chainId cfg parsedTx) (\<lambda>_.
     res_bind (check_value parsedTx) (\<lambda>_.
     res_bind (check_gasPrice cfg parsedTx networkGasPriceInWeiBars) (\<lambda>_.
     res_bind (verifyAccount getAccount parsedTx) (\<lambda>mirrorAccountInfo.
     res_bind (lift_error (getPendingCount storage (from_str parsedTx) s)) (\<lambda>pending.
     res_bind (check_nonce parsedTx (Some (add_nonce (ai_ethereum_nonce mirrorAccountInfo) pending))) (\<lambda>_.
     res_bind (check_balance parsedTx (ai_balance mirrorAccountInfo)) (\<lambda>_.
     res_bind (check_accessList parsedTx) (\<lambda>_.
       check_receiverAccount getAccount parsedTx))))))))))))"

section \<open>Properties\<close>

lemmas check_defs = check_callDataSize_def check_transactionSize_def check_transactionType_def check_gasLimit_def
  check_chainId_def check_value_def check_gasPrice_def verifyAccount_def check_nonce_def check_balance_def
  check_accessList_def check_receiverAccount_def fail_def Let_def

lemma res_bind_unit: "res_bind r (\<lambda>_::unit. f) = Inr w \<longleftrightarrow> r = Inr () \<and> f = Inr w"
  by (cases r) auto

lemma replace_first_0x: "replace_first ''0x'' [] (''0x'' @ s) = s"
  by (simp add: startsWith_def)

lemma digit_eq_0: "d < 36 \<Longrightarrow> digit d = CHR ''0'' \<longleftrightarrow> d = 0"
  using digit_val_digit [of d] digit_val_0_iff [of "digit d"] by auto

lemma byte_hex_zero: "byte_hex b = ''00'' \<longleftrightarrow> b = CHR 0x00"
proof -
  have "of_char b div 16 < (36::nat)" by (rule less_mult_imp_div_less) (use nat_of_char_less_256 [of b] in linarith)
  then have "byte_hex b = ''00'' \<longleftrightarrow> of_char b div 16 = (0::nat) \<and> of_char b mod 16 = (0::nat)"
    by (simp add: byte_hex_def digit_eq_0)
  also have "\<dots> \<longleftrightarrow> of_char b = (of_char (CHR 0x00) :: nat)" by auto
  finally show ?thesis by (simp only: of_char_eq_iff)
qed

lemma count_bytes_concat:
  "count_bytes (concat (map byte_hex bs)) = (length (filter (\<lambda>b. b = CHR 0x00) bs), length (filter (\<lambda>b. b \<noteq> CHR 0x00) bs))"
proof (induction bs)
  case (Cons b bs)
  obtain c d where cd: "byte_hex b = [c, d]" by (simp add: byte_hex_def)
  then have "[c, d] = ''00'' \<longleftrightarrow> b = CHR 0x00" using byte_hex_zero by metis
  then show ?case using Cons by (simp add: cd Let_def)
qed simp

text \<open>The intrinsic gas of a transaction whose data are the given bytes is 21000 plus 4 for every zero byte and 16 for
every other byte, with and without the leading \<open>0x\<close>.\<close>

lemma intrinsic_gas_cost:
  "transactionIntrinsicGasCost (''0x'' @ concat (map byte_hex bs)) =
     21000 + 4 * int (length (filter (\<lambda>b. b = CHR 0x00) bs)) + 16 * int (length (filter (\<lambda>b. b \<noteq> CHR 0x00) bs))"
proof -
  have "count_bytes (replace_first ''0x'' [] (''0x'' @ concat (map byte_hex bs))) =
      (length (filter (\<lambda>b. b = CHR 0x00) bs), length (filter (\<lambda>b. b \<noteq> CHR 0x00) bs))"
    by (simp only: replace_first_0x count_bytes_concat)
  then show ?thesis
    by (simp add: transactionIntrinsicGasCost_def TX_BASE_COST_def TX_DATA_ZERO_COST_def ISTANBUL_TX_DATA_NON_ZERO_COST_def)
qed

text \<open>The conditions under which a transaction is submitted.\<close>

definition price_ok :: "precheck_config \<Rightarrow> eth_tx \<Rightarrow> int \<Rightarrow> int \<Rightarrow> bool" where
  "price_ok cfg tx networkGasPrice price \<longleftrightarrow>
     networkGasPrice \<le> price \<or> isDeterministicDeploymentTransaction cfg tx \<or> isSubsidizedTransaction cfg (tx_to tx) \<or>
     (pc_gasPriceTinyBarBuffer cfg \<noteq> 0 \<and> networkGasPrice \<le> price + pc_gasPriceTinyBarBuffer cfg)"

definition static_ok :: "precheck_config \<Rightarrow> eth_tx \<Rightarrow> bool" where
  "static_ok cfg tx \<longleftrightarrow>
     int (length (replace_first ''0x'' [] (tx_data tx))) \<le> 2 * pc_callDataSizeLimit cfg \<and>
     int (length (replace_first ''0x'' [] (tx_serialized tx))) \<le> 2 * pc_sendRawTransactionSizeLimit cfg \<and>
     tx_type tx \<noteq> Some 3 \<and>
     transactionIntrinsicGasCost (tx_data tx) \<le> double_of_int (tx_gasLimit tx) \<and>
     double_of_int (tx_gasLimit tx) \<le> pc_maxTransactionFeeThreshold cfg \<and>
     (isLegacyUnprotectedEtx tx \<or> prepend0x (int_str 16 (double_of_int (tx_chainId tx))) = pc_chain cfg) \<and>
     (tx_value tx = 0 \<or> 10000000000 \<le> tx_value tx) \<and>
     tx_accessList tx \<in> {None, Some []}"

definition sender_ok :: "eth_tx \<Rightarrow> account_info \<Rightarrow> nat \<Rightarrow> int \<Rightarrow> bool" where
  "sender_ok tx info pending price \<longleftrightarrow>
     (case ai_ethereum_nonce info of NonceUndefined \<Rightarrow> True
      | NonceNull \<Rightarrow> int pending \<le> tx_nonce tx | NonceIs n \<Rightarrow> n + int pending \<le> tx_nonce tx) \<and>
     (\<exists>b. ai_balance info = Some b \<and> tx_value tx + price * tx_gasLimit tx \<le> b * 10000000000)"

definition receiver_ok :: "(string \<Rightarrow> thrown + account_info option) \<Rightarrow> eth_tx \<Rightarrow> bool" where
  "receiver_ok getAccount tx \<longleftrightarrow> tx_to tx \<in> {None, Some []} \<or>
     getAccount (the (tx_to tx)) = Inr None \<or>
     (\<exists>i. getAccount (the (tx_to tx)) = Inr (Some i) \<and> \<not> ai_receiver_sig_required i)"

lemma static_checks:
  "check_callDataSize cfg tx = Inr () \<longleftrightarrow> int (length (replace_first ''0x'' [] (tx_data tx))) \<le> 2 * pc_callDataSizeLimit cfg"
  "check_transactionSize cfg tx = Inr () \<longleftrightarrow>
     int (length (replace_first ''0x'' [] (tx_serialized tx))) \<le> 2 * pc_sendRawTransactionSizeLimit cfg"
  "check_transactionType tx = Inr () \<longleftrightarrow> tx_type tx \<noteq> Some 3"
  "check_gasLimit cfg tx = Inr () \<longleftrightarrow> transactionIntrinsicGasCost (tx_data tx) \<le> double_of_int (tx_gasLimit tx) \<and>
     double_of_int (tx_gasLimit tx) \<le> pc_maxTransactionFeeThreshold cfg"
  "check_chainId cfg tx = Inr () \<longleftrightarrow>
     isLegacyUnprotectedEtx tx \<or> prepend0x (int_str 16 (double_of_int (tx_chainId tx))) = pc_chain cfg"
  "check_value tx = Inr () \<longleftrightarrow> tx_value tx = 0 \<or> 10000000000 \<le> tx_value tx"
  "check_accessList tx = Inr () \<longleftrightarrow> tx_accessList tx \<in> {None, Some []}"
  by (auto simp: check_defs TINYBAR_TO_WEIBAR_COEF_def split: option.splits if_splits)

lemma gasPrice_check:
  "check_gasPrice cfg tx g = Inr () \<longleftrightarrow> (\<exists>price. txGasPrice tx = Inr price \<and> price_ok cfg tx g price)"
  by (cases "txGasPrice tx") (auto simp: check_gasPrice_def fail_def price_ok_def Let_def)

lemma account_checks:
  "verifyAccount getAccount tx = Inr info \<longleftrightarrow> getAccount (from_str tx) = Inr (Some info)"
  "check_receiverAccount getAccount tx = Inr () \<longleftrightarrow> receiver_ok getAccount tx"
  by (auto simp: check_defs receiver_ok_def res_bind_eq_Inr split: option.splits if_splits)

lemmas dynamic_checks = gasPrice_check account_checks

lemma sender_checks:
  "txGasPrice tx = Inr price \<Longrightarrow>
     check_nonce tx (Some (add_nonce (ai_ethereum_nonce info) n)) = Inr () \<and> check_balance tx (ai_balance info) = Inr () \<longleftrightarrow>
     sender_ok tx info n price"
  by (auto simp: check_defs sender_ok_def add_nonce_def TINYBAR_TO_WEIBAR_COEF_def split: option.splits account_nonce.splits if_splits)

lemma sendRawTransactionCheck_iff:
  "sendRawTransactionCheck cfg getAccount storage s tx g = Inr () \<longleftrightarrow>
     static_ok cfg tx \<and> receiver_ok getAccount tx \<and>
     (\<exists>price info pending. txGasPrice tx = Inr price \<and> price_ok cfg tx g price \<and>
        getAccount (from_str tx) = Inr (Some info) \<and> getPendingCount storage (from_str tx) s = Inr pending \<and>
        sender_ok tx info pending price)"
proof -
  have lift: "lift_error (getPendingCount storage (from_str tx) s) = Inr n \<longleftrightarrow> getPendingCount storage (from_str tx) s = Inr n" for n
    by (cases "getPendingCount storage (from_str tx) s") (auto simp: lift_error_def)
  have "sendRawTransactionCheck cfg getAccount storage s tx g = Inr () \<longleftrightarrow>
      static_ok cfg tx \<and> receiver_ok getAccount tx \<and> (\<exists>price. txGasPrice tx = Inr price \<and> price_ok cfg tx g price) \<and>
      (\<exists>info. getAccount (from_str tx) = Inr (Some info) \<and> (\<exists>n. getPendingCount storage (from_str tx) s = Inr n \<and>
         check_nonce tx (Some (add_nonce (ai_ethereum_nonce info) n)) = Inr () \<and> check_balance tx (ai_balance info) = Inr ()))"
    unfolding sendRawTransactionCheck_def res_bind_unit static_checks dynamic_checks static_ok_def
    unfolding res_bind_eq_Inr [of "verifyAccount getAccount tx"] res_bind_eq_Inr [of "lift_error _"]
      res_bind_unit lift dynamic_checks static_checks by blast
  then show ?thesis using sender_checks [of tx] by metis
qed

text \<open>C3: A raw transaction passes the checks exactly when its call data and size are within their limits, it is not a
blob transaction and has no access list, its gas limit lies between the intrinsic gas and the maximum, it is for this
chain (or unprotected), its value is zero or at least a tinybar, its gas price reaches the network's (or an exemption
or the buffer applies), its sender exists, has not used its nonce counting the pending transactions and can
pay value and gas, and the receiver does not demand a signature.\<close>

theorem precheck_accepts:
  "sendRawTransactionCheck cfg getAccount storage s tx g = Inr () \<longleftrightarrow>
     static_ok cfg tx \<and> receiver_ok getAccount tx \<and>
     (\<exists>price info pending. txGasPrice tx = Inr price \<and> price_ok cfg tx g price \<and>
        getAccount (from_str tx) = Inr (Some info) \<and> getPendingCount storage (from_str tx) s = Inr pending \<and>
        sender_ok tx info pending price)"
  by (rule sendRawTransactionCheck_iff)

text \<open>An account whose nonce the mirror node does not report passes the nonce check.\<close>

lemma undefined_nonce_passes: "check_nonce tx (Some (add_nonce NonceUndefined n)) = Inr ()"
  by (simp add: check_nonce_def add_nonce_def)

end
