(* ===== verification/RateLimiter.thy ===== *)
theory RateLimiter
  imports Prelude
begin

text \<open>
  Rate limiting by client address and method: the in-memory store
  (\<open>services/rateLimiterService/LruRateLimitStore.ts\<close>), the Redis store
  (\<open>RedisRateLimitStore.ts\<close>, with its Lua script), their factory and the service that asks
  them (\<open>rateLimiterService.ts\<close>), with \<open>RateLimitKey\<close> of \<open>types/rateLimiter.ts\<close>. The time
  \<open>now\<close> of a call is \<open>Date.now()\<close> in milliseconds.

  The contract both stores keep is the locale \<open>window_limiter\<close>: in an open window of a key
  the store lets exactly the first \<open>limit\<close> requests pass.
\<close>

section \<open>Keys\<close>

record rate_key =
  rk_ip :: string
  rk_method :: string

definition RateLimitKey_toString :: "rate_key \<Rightarrow> string" where
  "RateLimitKey_toString k = ''ratelimit'' @ '':'' @ rk_ip k @ '':'' @ rk_method k"

section \<open>The in-memory store\<close>

text \<open>
  \<open>methodInfo\<close> is an object literal, so a method named like a property of
  \<open>Object.prototype\<close> would be found there; the model is for all other names.
\<close>

record method_entry =
  mt_methodName :: string
  mt_remaining :: nat
  mt_total :: nat

record ip_entry =
  ip_reset :: int
  ip_methodInfo :: "string \<rightharpoonup> method_entry"

type_synonym rate_db = "string \<rightharpoonup> ip_entry"

definition checkIpExist :: "rate_db \<Rightarrow> string \<Rightarrow> bool" where
  "checkIpExist db ip \<longleftrightarrow> db ip \<noteq> None"

definition setNewIp :: "int \<Rightarrow> int \<Rightarrow> string \<Rightarrow> rate_db \<Rightarrow> rate_db" where
  "setNewIp duration now ip db = db(ip \<mapsto> \<lparr>ip_reset = now + duration, ip_methodInfo = Map.empty\<rparr>)"

text \<open>An update of the entry of an address, and of one of its methods; the callers have made sure they exist.\<close>

definition update_ip :: "string \<Rightarrow> (ip_entry \<Rightarrow> ip_entry) \<Rightarrow> rate_db \<Rightarrow> rate_db" where
  "update_ip ip f db = (case db ip of None \<Rightarrow> db | Some e \<Rightarrow> db(ip \<mapsto> f e))"

definition update_method :: "string \<Rightarrow> (method_entry \<Rightarrow> method_entry) \<Rightarrow> ip_entry \<Rightarrow> ip_entry" where
  "update_method m f e = (case ip_methodInfo e m of
     None \<Rightarrow> e | Some x \<Rightarrow> e\<lparr>ip_methodInfo := (ip_methodInfo e)(m \<mapsto> f x)\<rparr>)"

definition method_of :: "rate_db \<Rightarrow> string \<Rightarrow> string \<Rightarrow> method_entry option" where
  "method_of db ip m = (case db ip of None \<Rightarrow> None | Some e \<Rightarrow> ip_methodInfo e m)"

definition checkMethodExist :: "rate_db \<Rightarrow> string \<Rightarrow> string \<Rightarrow> bool" where
  "checkMethodExist db ip m \<longleftrightarrow> method_of db ip m \<noteq> None"

definition setNewMethod :: "string \<Rightarrow> string \<Rightarrow> nat \<Rightarrow> rate_db \<Rightarrow> rate_db" where
  "setNewMethod ip m tot db = update_ip ip (\<lambda>e. e\<lparr>ip_methodInfo :=
     (ip_methodInfo e)(m \<mapsto> \<lparr>mt_methodName = m, mt_remaining = tot, mt_total = tot\<rparr>)\<rparr>) db"

definition precheck_rate :: "int \<Rightarrow> int \<Rightarrow> string \<Rightarrow> string \<Rightarrow> nat \<Rightarrow> rate_db \<Rightarrow> rate_db" where
  "precheck_rate duration now ip m tot db =
     (let db1 = (if checkIpExist db ip then db else setNewIp duration now ip db)
      in if checkMethodExist db1 ip m then db1 else setNewMethod ip m tot db1)"

definition checkRemaining :: "rate_db \<Rightarrow> string \<Rightarrow> string \<Rightarrow> bool" where
  "checkRemaining db ip m = (case method_of db ip m of None \<Rightarrow> False | Some x \<Rightarrow> mt_remaining x > 0)"

definition shouldReset :: "int \<Rightarrow> rate_db \<Rightarrow> string \<Rightarrow> bool" where
  "shouldReset now db ip = (case db ip of None \<Rightarrow> False | Some e \<Rightarrow> ip_reset e < now)"

definition reset_rate :: "int \<Rightarrow> int \<Rightarrow> string \<Rightarrow> string \<Rightarrow> nat \<Rightarrow> rate_db \<Rightarrow> rate_db" where
  "reset_rate duration now ip m tot db =
     update_ip ip (\<lambda>e.
       let e1 = e\<lparr>ip_reset := now + duration\<rparr>;
           e2 = e1\<lparr>ip_methodInfo := (\<lambda>k. map_option (\<lambda>x. x\<lparr>mt_remaining := mt_total x\<rparr>) (ip_methodInfo e1 k))\<rparr>
       in update_method m (\<lambda>x. x\<lparr>mt_remaining := tot, mt_total := tot\<rparr>) e2) db"

definition decreaseRemaining :: "string \<Rightarrow> string \<Rightarrow> rate_db \<Rightarrow> rate_db" where
  "decreaseRemaining ip m db =
     update_ip ip (update_method m (\<lambda>x. x\<lparr>mt_remaining := (if mt_remaining x > 0 then mt_remaining x - 1 else 0)\<rparr>)) db"

definition lru_incrementAndCheck :: "int \<Rightarrow> int \<Rightarrow> rate_key \<Rightarrow> nat \<Rightarrow> rate_db \<Rightarrow> rate_db \<times> bool" where
  "lru_incrementAndCheck duration now key limit db =
     (let ip = rk_ip key; m = rk_method key;
          db1 = precheck_rate duration now ip m limit db
      in if \<not> shouldReset now db1 ip
         then if checkRemaining db1 ip m then (decreaseRemaining ip m db1, False) else (db1, True)
         else (decreaseRemaining ip m (reset_rate duration now ip m limit db1), False))"

section \<open>The Redis store\<close>

text \<open>
  Redis is outside the repository: the two commands of the Lua script are arguments. A
  command may fail, which makes the whole script fail; \<open>EVAL\<close> runs the script atomically.
\<close>

record 'r redis_commands =
  cmd_INCR :: "int \<Rightarrow> string \<Rightarrow> 'r \<Rightarrow> ('r \<times> nat) option"
  cmd_EXPIRE :: "int \<Rightarrow> string \<Rightarrow> nat \<Rightarrow> 'r \<Rightarrow> 'r option"

definition LUA_SCRIPT :: "'r redis_commands \<Rightarrow> int \<Rightarrow> string \<Rightarrow> nat \<Rightarrow> nat \<Rightarrow> 'r \<Rightarrow> ('r \<times> nat) option" where
  "LUA_SCRIPT cmds now key limit seconds r = (case cmd_INCR cmds now key r of
     None \<Rightarrow> None
   | Some (r1, current) \<Rightarrow>
       (case (if current = 1 then cmd_EXPIRE cmds now key seconds r1 else Some r1) of
          None \<Rightarrow> None
        | Some r2 \<Rightarrow> Some (r2, if current > limit then 1 else 0)))"

text \<open>The store with the counter of its failures by method.\<close>

record 'r redis_store =
  rs_redis :: 'r
  rs_failures :: "string \<Rightarrow> nat"

definition redis_incrementAndCheck ::
    "'r redis_commands \<Rightarrow> int \<Rightarrow> int \<Rightarrow> rate_key \<Rightarrow> nat \<Rightarrow> 'r redis_store \<Rightarrow> 'r redis_store \<times> bool" where
  "redis_incrementAndCheck cmds duration now key limit s =
     (let durationSeconds = nat (ceil_div duration 1000) in
      case LUA_SCRIPT cmds now (RateLimitKey_toString key) limit durationSeconds (rs_redis s) of
        Some (r, result) \<Rightarrow> (s\<lparr>rs_redis := r\<rparr>, result = 1)
      | None \<Rightarrow> (s\<lparr>rs_failures := (rs_failures s)(rk_method key := Suc (rs_failures s (rk_method key)))\<rparr>, False))"

section \<open>Factory and service\<close>

datatype 'r rate_store = LruStore rate_db | RedisStore "'r redis_store"

definition RateLimitStoreFactory_create :: "'r option \<Rightarrow> 'r rate_store" where
  "RateLimitStoreFactory_create redisClient = (case redisClient of
     Some r \<Rightarrow> RedisStore \<lparr>rs_redis = r, rs_failures = (\<lambda>_. 0)\<rparr>
   | None \<Rightarrow> LruStore Map.empty)"

definition store_incrementAndCheck ::
    "'r redis_commands \<Rightarrow> int \<Rightarrow> int \<Rightarrow> rate_key \<Rightarrow> nat \<Rightarrow> 'r rate_store \<Rightarrow> 'r rate_store \<times> bool" where
  "store_incrementAndCheck cmds duration now key limit st = (case st of
     LruStore db \<Rightarrow> map_prod LruStore id (lru_incrementAndCheck duration now key limit db)
   | RedisStore s \<Rightarrow> map_prod RedisStore id (redis_incrementAndCheck cmds duration now key limit s))"

definition store_label :: "'r rate_store \<Rightarrow> string" where
  "store_label st = (case st of LruStore _ \<Rightarrow> ''LruRateLimit'' | RedisStore _ \<Rightarrow> ''RedisRateLimit'')"

record 'r rate_service =
  rv_store :: "'r rate_store"
  rv_counter :: "string \<times> string \<Rightarrow> nat"

definition shouldRateLimit ::
    "bool \<Rightarrow> 'r redis_commands \<Rightarrow> int \<Rightarrow> int \<Rightarrow> string \<Rightarrow> string \<Rightarrow> nat \<Rightarrow> 'r rate_service \<Rightarrow> 'r rate_service \<times> bool" where
  "shouldRateLimit rateLimitDisabled cmds duration now ip methodName limit sv =
     (if rateLimitDisabled then (sv, False)
      else let key = \<lparr>rk_ip = ip, rk_method = methodName\<rparr>;
               storeTypeLabel = store_label (rv_store sv);
               (st, isRateLimited) = store_incrementAndCheck cmds duration now key limit (rv_store sv);
               sv1 = sv\<lparr>rv_store := st\<rparr>
           in if isRateLimited
              then (sv1\<lparr>rv_counter := (rv_counter sv1)((methodName, storeTypeLabel) :=
                       Suc (rv_counter sv1 (methodName, storeTypeLabel)))\<rparr>, True)
              else (sv1, False))"

section \<open>The contract\<close>

text \<open>Runs a list of timed requests and collects the verdicts for one key.\<close>

fun verdicts :: "(int \<Rightarrow> rate_key \<Rightarrow> 's \<Rightarrow> 's \<times> bool) \<Rightarrow> rate_key \<Rightarrow> 's \<Rightarrow> (int \<times> rate_key) list \<Rightarrow> bool list" where
  "verdicts step k s [] = []"
| "verdicts step k s ((now, k') # rs) =
     (let (s', limited) = step now k' s in (if k' = k then [limited] else []) @ verdicts step k s' rs)"

definition requests_of :: "rate_key \<Rightarrow> (int \<times> rate_key) list \<Rightarrow> nat" where
  "requests_of k rs = length (filter (\<lambda>(now, k'). k' = k) rs)"

definition first_n_pass :: "nat \<Rightarrow> nat \<Rightarrow> bool list" where
  "first_n_pass limit n = replicate (min limit n) False @ replicate (n - limit) True"

text \<open>
  \<open>wend s k\<close> is the last instant of the open window of a key and \<open>cnt s k\<close> the number of its
  requests counted in it, exact up to the limit \<open>lim k\<close>.
\<close>

locale window_limiter =
  fixes step :: "int \<Rightarrow> rate_key \<Rightarrow> 's \<Rightarrow> 's \<times> bool"
    and ok :: "'s \<Rightarrow> bool"
    and wend :: "'s \<Rightarrow> rate_key \<Rightarrow> int option"
    and cnt :: "'s \<Rightarrow> rate_key \<Rightarrow> nat"
    and valid :: "rate_key \<Rightarrow> bool"
    and lim :: "rate_key \<Rightarrow> nat"
    and dur :: int
  assumes lim_pos: "0 < lim k"
    and dur_nonneg: "0 \<le> dur"
    and keeps_ok: "ok s \<Longrightarrow> ok (fst (step now k s))"
    and verdict_open: "ok s \<Longrightarrow> wend s k = Some e \<Longrightarrow> now \<le> e \<Longrightarrow> snd (step now k s) \<longleftrightarrow> lim k \<le> cnt s k"
    and count_open: "ok s \<Longrightarrow> wend s k = Some e \<Longrightarrow> now \<le> e \<Longrightarrow>
      min (lim k) (cnt (fst (step now k s)) k) = min (lim k) (Suc (cnt s k))"
    and same_window: "ok s \<Longrightarrow> wend s k = Some e \<Longrightarrow> now \<le> e \<Longrightarrow> wend (fst (step now k s)) k = Some e"
    and new_window: "ok s \<Longrightarrow> wend s k = None \<or> the (wend s k) < now \<Longrightarrow>
      \<not> snd (step now k s) \<and> wend (fst (step now k s)) k = Some (now + dur) \<and>
      min (lim k) (cnt (fst (step now k s)) k) = 1"
    and other_key: "ok s \<Longrightarrow> valid k \<Longrightarrow> valid k' \<Longrightarrow> k' \<noteq> k \<Longrightarrow> wend s k' = Some e \<Longrightarrow> now \<le> e \<Longrightarrow>
      wend (fst (step now k s)) k' = Some e \<and> cnt (fst (step now k s)) k' = cnt s k'"
begin

lemma verdicts_open:
  assumes "ok s" "valid k" "wend s k = Some e" "\<forall>(now, k') \<in> set rs. now \<le> e \<and> valid k'"
  shows "verdicts step k s rs = first_n_pass (lim k - cnt s k) (requests_of k rs)"
  using assms
proof (induction rs arbitrary: s)
  case (Cons r rs)
  obtain now k' where r: "r = (now, k')" by fastforce
  obtain s' b where st: "step now k' s = (s', b)" by fastforce
  have le: "now \<le> e" and valid': "valid k'" and rest: "\<forall>(now, k') \<in> set rs. now \<le> e \<and> valid k'"
    using Cons.prems(4) r by auto
  have ok': "ok s'" using keeps_ok [OF Cons.prems(1), of now k'] st by simp
  show ?case
  proof (cases "k' = k")
    case True
    have w: "wend s' k = Some e" using same_window [OF Cons.prems(1,3) le] st True by simp
    have c: "min (lim k) (cnt s' k) = min (lim k) (Suc (cnt s k))"
      using count_open [OF Cons.prems(1,3) le] st True by simp
    have b: "b \<longleftrightarrow> lim k \<le> cnt s k" using verdict_open [OF Cons.prems(1,3) le] st True by simp
    show ?thesis
    proof (cases "lim k \<le> cnt s k")
      case le: True
      then have "lim k \<le> cnt s' k" using c by linarith
      then show ?thesis
        using Cons.IH [OF ok' Cons.prems(2) w rest] st r True b le
        by (simp add: first_n_pass_def requests_of_def)
    next
      case False
      then have "lim k - cnt s k = Suc (lim k - cnt s' k)" using c by linarith
      then show ?thesis
        using Cons.IH [OF ok' Cons.prems(2) w rest] st r True b False
        by (simp add: first_n_pass_def requests_of_def)
    qed
  next
    case False
    then have "wend s' k = Some e \<and> cnt s' k = cnt s k"
      using other_key [OF Cons.prems(1) valid' Cons.prems(2) _ Cons.prems(3) le] st by auto
    then show ?thesis
      using Cons.IH [OF ok' Cons.prems(2) _ rest] st r False by (simp add: requests_of_def)
  qed
qed (simp add: first_n_pass_def requests_of_def)

lemma verdicts_new_window:
  assumes "ok s" "valid k" "wend s k = None \<or> the (wend s k) < now" "\<forall>(t, k') \<in> set rs. t \<le> now + dur \<and> valid k'"
  shows "verdicts step k s ((now, k) # rs) = first_n_pass (lim k) (Suc (requests_of k rs))"
proof -
  obtain s' b where st: "step now k s = (s', b)" by fastforce
  have ok': "ok s'" using keeps_ok [OF assms(1), of now k] st by simp
  have n: "\<not> b" "wend s' k = Some (now + dur)" "min (lim k) (cnt s' k) = 1"
    using new_window [OF assms(1,3)] st by auto
  have c: "lim k - cnt s' k = lim k - 1" using n(3) lim_pos [of k] by linarith
  obtain l where l: "lim k = Suc l" using lim_pos [of k] by (cases "lim k") auto
  show ?thesis
    using verdicts_open [OF ok' assms(2) n(2) assms(4)] st n(1) c by (simp add: first_n_pass_def l)
qed

end

section \<open>The in-memory store keeps the contract\<close>

definition lru_ok :: "(rate_key \<Rightarrow> nat) \<Rightarrow> rate_db \<Rightarrow> bool" where
  "lru_ok lmt db \<longleftrightarrow> (\<forall>ip m x. method_of db ip m = Some x \<longrightarrow>
     mt_total x = lmt \<lparr>rk_ip = ip, rk_method = m\<rparr> \<and> mt_remaining x \<le> mt_total x)"

definition lru_wend :: "rate_db \<Rightarrow> rate_key \<Rightarrow> int option" where
  "lru_wend db k = map_option ip_reset (db (rk_ip k))"

definition lru_cnt :: "rate_db \<Rightarrow> rate_key \<Rightarrow> nat" where
  "lru_cnt db k = (case method_of db (rk_ip k) (rk_method k) of None \<Rightarrow> 0 | Some x \<Rightarrow> mt_total x - mt_remaining x)"

lemmas lru_defs = lru_incrementAndCheck_def precheck_rate_def checkIpExist_def setNewIp_def checkMethodExist_def
  setNewMethod_def checkRemaining_def shouldReset_def reset_rate_def decreaseRemaining_def update_ip_def update_method_def
  method_of_def Let_def

lemma rate_key_eta: "\<lparr>rk_ip = rk_ip k, rk_method = rk_method k\<rparr> = (k :: rate_key)"
  by simp

text \<open>The effect of a call on the entry of one address, the others staying as they are.\<close>

definition call_ip :: "int \<Rightarrow> int \<Rightarrow> string \<Rightarrow> nat \<Rightarrow> ip_entry \<Rightarrow> ip_entry \<times> bool" where
  "call_ip duration now m limit e =
     (let x = (case ip_methodInfo e m of None \<Rightarrow> \<lparr>mt_methodName = m, mt_remaining = limit, mt_total = limit\<rparr> | Some x \<Rightarrow> x)
      in if now \<le> ip_reset e
         then (e\<lparr>ip_methodInfo := (ip_methodInfo e)(m \<mapsto> x\<lparr>mt_remaining := mt_remaining x - 1\<rparr>)\<rparr>, mt_remaining x = 0)
         else (e\<lparr>ip_reset := now + duration, ip_methodInfo :=
                 (\<lambda>k. map_option (\<lambda>x. x\<lparr>mt_remaining := mt_total x\<rparr>) (ip_methodInfo e k))
                   (m \<mapsto> x\<lparr>mt_remaining := limit - 1, mt_total := limit\<rparr>)\<rparr>, False))"

lemma lru_call:
  "lru_incrementAndCheck duration now k limit db =
     (let e = (case db (rk_ip k) of None \<Rightarrow> \<lparr>ip_reset = now + duration, ip_methodInfo = Map.empty\<rparr> | Some e \<Rightarrow> e);
          (e', limited) = call_ip duration now (rk_method k) limit e
      in (db(rk_ip k \<mapsto> e'), limited))"
proof (cases "db (rk_ip k)")
  case None
  show ?thesis
    by (cases "duration < 0") (auto simp: lru_defs call_ip_def None fun_eq_iff)
next
  case (Some e)
  show ?thesis
  proof (cases "ip_methodInfo e (rk_method k)")
    case None
    then show ?thesis
      by (cases "ip_reset e < now") (auto simp: lru_defs call_ip_def Some fun_eq_iff)
  next
    case (Some x)
    then show ?thesis
      by (cases "ip_reset e < now") (auto simp: lru_defs call_ip_def \<open>db (rk_ip k) = Some e\<close> fun_eq_iff)
  qed
qed

text \<open>The limits are positive and the window is not negative: \<open>l\<close> is the limit less one.\<close>

lemmas lru_call_defs = lru_call call_ip_def Let_def lru_wend_def lru_cnt_def lru_ok_def method_of_def

lemma remaining_count: "r \<le> Suc n \<Longrightarrow> Suc n - (r - Suc 0) = Suc (min n (Suc n - r))"
  by (cases r) auto

interpretation lru: window_limiter
  "\<lambda>now k. lru_incrementAndCheck (int d) now k (Suc (l k))" "lru_ok (\<lambda>k. Suc (l k))" lru_wend lru_cnt "\<lambda>_. True"
  "\<lambda>k. Suc (l k)" "int d"
  for d :: nat and l :: "rate_key \<Rightarrow> nat"
proof (unfold_locales, goal_cases)
  case (3 s now k)
  then show ?case
    by (cases k) (auto simp: lru_call_defs split: option.splits if_splits intro: le_trans [OF diff_le_self])
next
  case (4 s k e now)
  then show ?case
    by (cases k) (auto simp: lru_call_defs split: option.splits if_splits)
next
  case (5 s k e now)
  then show ?case
    by (cases k) (auto simp: lru_call_defs remaining_count split: option.splits if_splits)
next
  case (6 s k e now)
  then show ?case
    by (cases k) (auto simp: lru_call_defs split: option.splits if_splits)
next
  case (7 s k now)
  then show ?case
    by (cases k) (auto simp: lru_call_defs split: option.splits if_splits)
next
  case (8 s k k' e now)
  then show ?case
    by (cases k) (auto simp: lru_call_defs split: option.splits if_splits)
qed simp_all



text \<open>With limit 0 a request is limited inside a window, but the first one after it passes.\<close>

lemma lru_zero_limit:
  assumes "db (rk_ip k) = Some e" "ip_methodInfo e (rk_method k) = Some x" "mt_remaining x = 0"
  shows "snd (lru_incrementAndCheck duration now k 0 db) \<longleftrightarrow> now \<le> ip_reset e"
  using assms by (simp add: lru_call call_ip_def Let_def)

section \<open>The Redis store keeps the contract\<close>

text \<open>
  What the store relies on: \<open>look r key\<close> is the counter stored under a key with the instant
  it expires at. \<open>INCR\<close> counts from 1 on a key that is absent or has expired and keeps the
  expiry of a live one; \<open>EXPIRE\<close> sets the expiry; neither touches another key.
\<close>

definition live :: "int \<Rightarrow> (nat \<times> int option) option \<Rightarrow> bool" where
  "live now x = (case x of None \<Rightarrow> False | Some (_, None) \<Rightarrow> True | Some (_, Some d) \<Rightarrow> now < d)"

locale redis_counters =
  fixes cmds :: "'r redis_commands" and look :: "'r \<Rightarrow> string \<Rightarrow> (nat \<times> int option) option"
  assumes INCR_ok: "\<exists>r' n. cmd_INCR cmds now key r = Some (r', n) \<and>
      n = (if live now (look r key) then Suc (fst (the (look r key))) else 1) \<and>
      look r' key = Some (n, if live now (look r key) then snd (the (look r key)) else None) \<and>
      (\<forall>key'. key' \<noteq> key \<longrightarrow> look r' key' = look r key')"
    and EXPIRE_ok: "\<exists>r'. cmd_EXPIRE cmds now key secs r = Some r' \<and>
      look r' key = map_option (\<lambda>(n, _). (n, Some (now + 1000 * int secs))) (look r key) \<and>
      (\<forall>key'. key' \<noteq> key \<longrightarrow> look r' key' = look r key')"

definition redis_ok :: "('r \<Rightarrow> string \<Rightarrow> (nat \<times> int option) option) \<Rightarrow> 'r redis_store \<Rightarrow> bool" where
  "redis_ok look s \<longleftrightarrow> (\<forall>k n d. look (rs_redis s) (RateLimitKey_toString k) = Some (n, d) \<longrightarrow> n > 0 \<and> d \<noteq> None)"

definition redis_wend :: "('r \<Rightarrow> string \<Rightarrow> (nat \<times> int option) option) \<Rightarrow> 'r redis_store \<Rightarrow> rate_key \<Rightarrow> int option" where
  "redis_wend look s k = (case look (rs_redis s) (RateLimitKey_toString k) of
     Some (_, Some d) \<Rightarrow> Some (d - 1) | _ \<Rightarrow> None)"

definition redis_cnt :: "('r \<Rightarrow> string \<Rightarrow> (nat \<times> int option) option) \<Rightarrow> 'r redis_store \<Rightarrow> rate_key \<Rightarrow> nat" where
  "redis_cnt look s k = (case look (rs_redis s) (RateLimitKey_toString k) of Some (n, _) \<Rightarrow> n | None \<Rightarrow> 0)"

definition redis_window :: "nat \<Rightarrow> int" where
  "redis_window d = 1000 * int (nat (ceil_div (int (Suc d)) 1000)) - 1"

text \<open>Keys are distinct strings when the method name has no colon (an IPv6 address has).\<close>

definition plain_method :: "rate_key \<Rightarrow> bool" where
  "plain_method k \<longleftrightarrow> CHR '':'' \<notin> set (rk_method k)"

lemma append_sep_inj:
  "c \<notin> set b \<Longrightarrow> c \<notin> set b' \<Longrightarrow> a @ c # b = a' @ c # b' \<longleftrightarrow> a = a' \<and> b = b'"
  by (auto simp: append_eq_append_conv2 Cons_eq_append_conv append_eq_Cons_conv)

lemma RateLimitKey_toString_inj:
  assumes "plain_method k" "plain_method k'" "RateLimitKey_toString k = RateLimitKey_toString k'"
  shows "k = k'"
  using assms append_sep_inj [of "CHR '':''" "rk_method k" "rk_method k'" "rk_ip k" "rk_ip k'"]
  by (cases k, cases k') (auto simp: RateLimitKey_toString_def plain_method_def)

lemma RateLimitKey_toString_collision:
  "RateLimitKey_toString \<lparr>rk_ip = ''fe80::1'', rk_method = ''2:eth_call''\<rparr> =
   RateLimitKey_toString \<lparr>rk_ip = ''fe80::1:2'', rk_method = ''eth_call''\<rparr>"
  by (simp add: RateLimitKey_toString_def)

context redis_counters
begin

lemma script_ok:
  "\<exists>r' n. LUA_SCRIPT cmds now key limit secs r = Some (r', if n > limit then 1 else 0) \<and>
     n = (if live now (look r key) then Suc (fst (the (look r key))) else 1) \<and>
     look r' key = Some (n, if live now (look r key) \<and> fst (the (look r key)) \<noteq> 0
        then snd (the (look r key)) else Some (now + 1000 * int secs)) \<and>
     (\<forall>key'. key' \<noteq> key \<longrightarrow> look r' key' = look r key')"
proof -
  obtain r1 n where i: "cmd_INCR cmds now key r = Some (r1, n)"
    "n = (if live now (look r key) then Suc (fst (the (look r key))) else 1)"
    "look r1 key = Some (n, if live now (look r key) then snd (the (look r key)) else None)"
    "\<forall>key'. key' \<noteq> key \<longrightarrow> look r1 key' = look r key'"
    using INCR_ok [of now key r] by blast
  obtain r2 where e: "cmd_EXPIRE cmds now key secs r1 = Some r2"
    "look r2 key = map_option (\<lambda>(n, _). (n, Some (now + 1000 * int secs))) (look r1 key)"
    "\<forall>key'. key' \<noteq> key \<longrightarrow> look r2 key' = look r1 key'"
    using EXPIRE_ok [of now key secs r1] by blast
  show ?thesis
  proof (cases "n = 1")
    case True
    then show ?thesis using i e by (intro exI [of _ r2] exI [of _ n]) (auto simp: LUA_SCRIPT_def)
  next
    case False
    then have "live now (look r key)" "fst (the (look r key)) \<noteq> 0" using i(2) by (auto split: if_splits)
    then show ?thesis using i False by (intro exI [of _ r1] exI [of _ n]) (auto simp: LUA_SCRIPT_def)
  qed
qed

lemma redis_call:
  assumes "redis_ok look s"
  shows "\<exists>r n. redis_incrementAndCheck cmds duration now k limit s = (s\<lparr>rs_redis := r\<rparr>, n > limit) \<and>
     (let x = look (rs_redis s) (RateLimitKey_toString k) in
      n = (if live now x then Suc (fst (the x)) else 1) \<and>
      look r (RateLimitKey_toString k) = Some (n, if live now x then snd (the x)
         else Some (now + 1000 * int (nat (ceil_div duration 1000))))) \<and>
     (\<forall>key. key \<noteq> RateLimitKey_toString k \<longrightarrow> look r key = look (rs_redis s) key)"
proof -
  let ?x = "look (rs_redis s) (RateLimitKey_toString k)"
  have pos: "live now ?x \<Longrightarrow> fst (the ?x) \<noteq> 0"
    using assms by (cases ?x) (auto simp: redis_ok_def live_def)
  obtain r n where r: "LUA_SCRIPT cmds now (RateLimitKey_toString k) limit (nat (ceil_div duration 1000)) (rs_redis s) =
      Some (r, if n > limit then 1 else 0)"
    "n = (if live now ?x then Suc (fst (the ?x)) else 1)"
    "look r (RateLimitKey_toString k) = Some (n, if live now ?x \<and> fst (the ?x) \<noteq> 0
        then snd (the ?x) else Some (now + 1000 * int (nat (ceil_div duration 1000))))"
    "\<forall>key. key \<noteq> RateLimitKey_toString k \<longrightarrow> look r key = look (rs_redis s) key"
    using script_ok [of now "RateLimitKey_toString k" limit "nat (ceil_div duration 1000)" "rs_redis s"] by blast
  have "redis_incrementAndCheck cmds duration now k limit s = (s\<lparr>rs_redis := r\<rparr>, n > limit)"
    by (simp add: redis_incrementAndCheck_def r(1))
  moreover have "look r (RateLimitKey_toString k) = Some (n, if live now ?x then snd (the ?x)
         else Some (now + 1000 * int (nat (ceil_div duration 1000))))"
    using r(3) pos by auto
  ultimately show ?thesis using r(2,4) unfolding Let_def by blast
qed

lemma redis_call_key:
  assumes ok: "redis_ok look s"
    and call: "redis_incrementAndCheck cmds (int (Suc d)) now k limit s = (s', limited)"
  shows "redis_ok look s'"
    and "redis_wend look s k = Some e \<Longrightarrow> now \<le> e \<Longrightarrow>
      limited = (limit \<le> redis_cnt look s k) \<and> redis_cnt look s' k = Suc (redis_cnt look s k) \<and> redis_wend look s' k = Some e"
    and "redis_wend look s k = None \<or> the (redis_wend look s k) < now \<Longrightarrow>
      limited = (limit = 0) \<and> redis_cnt look s' k = 1 \<and> redis_wend look s' k = Some (now + redis_window d)"
    and "plain_method k \<Longrightarrow> plain_method k' \<Longrightarrow> k' \<noteq> k \<Longrightarrow>
      redis_wend look s' k' = redis_wend look s k' \<and> redis_cnt look s' k' = redis_cnt look s k'"
proof -
  let ?x = "look (rs_redis s) (RateLimitKey_toString k)"
  obtain r n where s': "s' = s\<lparr>rs_redis := r\<rparr>" and l: "limited = (n > limit)"
    and n: "n = (if live now ?x then Suc (fst (the ?x)) else 1)"
    and x': "look r (RateLimitKey_toString k) = Some (n, if live now ?x then snd (the ?x)
         else Some (now + 1000 * int (nat (ceil_div (int (Suc d)) 1000))))"
    and oth: "\<And>key. key \<noteq> RateLimitKey_toString k \<Longrightarrow> look r key = look (rs_redis s) key"
    using redis_call [OF ok, of "int (Suc d)" now k limit] call unfolding Let_def by (metis prod.inject)
  have x: "?x = Some y \<Longrightarrow> 0 < fst y \<and> snd y \<noteq> None" for y
    using ok by (cases y) (auto simp: redis_ok_def)
  show "redis_ok look s'"
  proof -
    have "0 < m \<and> dl \<noteq> None" if "look r (RateLimitKey_toString j) = Some (m, dl)" for j m dl
      using that oth [of "RateLimitKey_toString j"] ok x' n x
      by (cases "RateLimitKey_toString j = RateLimitKey_toString k")
        (auto simp: redis_ok_def live_def split: if_splits option.splits)
    then show ?thesis by (auto simp: redis_ok_def s')
  qed
  show "limited = (limit \<le> redis_cnt look s k) \<and> redis_cnt look s' k = Suc (redis_cnt look s k) \<and> redis_wend look s' k = Some e"
    if "redis_wend look s k = Some e" "now \<le> e"
    using that n l x' by (auto simp: s' redis_wend_def redis_cnt_def live_def split: option.splits)
  show "limited = (limit = 0) \<and> redis_cnt look s' k = 1 \<and> redis_wend look s' k = Some (now + redis_window d)"
    if "redis_wend look s k = None \<or> the (redis_wend look s k) < now"
  proof -
    have "\<not> live now ?x"
      using that x by (cases ?x) (auto simp: redis_wend_def live_def split: option.splits)
    then show ?thesis using n l x' by (auto simp: s' redis_wend_def redis_cnt_def redis_window_def)
  qed
  show "redis_wend look s' k' = redis_wend look s k' \<and> redis_cnt look s' k' = redis_cnt look s k'"
    if "plain_method k" "plain_method k'" "k' \<noteq> k"
  proof -
    have "RateLimitKey_toString k' \<noteq> RateLimitKey_toString k"
      using RateLimitKey_toString_inj [OF that(2,1)] that(3) by blast
    then show ?thesis using oth by (simp add: s' redis_wend_def redis_cnt_def)
  qed
qed

sublocale store: window_limiter
  "\<lambda>now k. redis_incrementAndCheck cmds (int (Suc d)) now k (Suc (l k))" "redis_ok look" "redis_wend look"
  "redis_cnt look" plain_method "\<lambda>k. Suc (l k)" "redis_window d"
  for d :: nat and l :: "rate_key \<Rightarrow> nat"
proof (unfold_locales, goal_cases)
  case 2
  then show ?case using ceil_div_bounds [of 1000 "int (Suc d)"] by (simp add: redis_window_def)
next
  case (3 s now k)
  then show ?case using redis_call_key(1) [OF _ prod.collapse [symmetric]] by blast
next
  case (4 s k e now)
  then show ?case using redis_call_key(2) [OF _ prod.collapse [symmetric]] by blast
next
  case (5 s k e now)
  then show ?case using redis_call_key(2) [OF _ prod.collapse [symmetric]] by metis
next
  case (6 s k e now)
  then show ?case using redis_call_key(2) [OF _ prod.collapse [symmetric]] by blast
next
  case (7 s k now)
  then show ?case using redis_call_key(3) [OF 7(1) prod.collapse [symmetric] 7(2), where limit = "Suc (l k)" and d = d] by simp
next
  case (8 s k k' e now)
  then show ?case using redis_call_key(4) [OF _ prod.collapse [symmetric]] by metis
qed simp_all

lemmas window_exact = store.verdicts_new_window

end

text \<open>A Redis server with these two commands: a map of counters with their expiry.\<close>

definition reference_redis :: "(string \<Rightarrow> (nat \<times> int option) option) redis_commands" where
  "reference_redis =
     \<lparr>cmd_INCR = (\<lambda>now key r.
        let (n, d) = (if live now (r key) then (Suc (fst (the (r key))), snd (the (r key))) else (1, None))
        in Some (r(key \<mapsto> (n, d)), n)),
      cmd_EXPIRE = (\<lambda>now key secs r. Some (r(key := map_option (\<lambda>(n, _). (n, Some (now + 1000 * int secs))) (r key))))\<rparr>"

interpretation ref: redis_counters reference_redis "\<lambda>r. r"
  by unfold_locales (auto simp: reference_redis_def Let_def)

text \<open>C8: Over any Redis whose \<open>INCR\<close> and \<open>EXPIRE\<close> behave as documented, the Redis store lets exactly the first
\<open>limit\<close> requests of a key pass in each window of the duration rounded up to whole seconds, whatever
requests for other keys come in between, provided method names contain no colon.\<close>

theorem redis_window_exact:
  assumes "redis_counters cmds look" and "redis_ok look s" and "plain_method k"
    and "redis_wend look s k = None \<or> the (redis_wend look s k) < now"
    and "list_all (\<lambda>(t, k'). t \<le> now + redis_window d \<and> plain_method k') rs"
  shows "verdicts (\<lambda>now k. redis_incrementAndCheck cmds (int (Suc d)) now k (Suc (l k))) k s ((now, k) # rs) =
    first_n_pass (Suc (l k)) (Suc (requests_of k rs))"
  using redis_counters.window_exact [OF assms(1-4), of rs d l] assms(5) by (auto simp: list_all_iff)

theorem redis_window_exact_witness:
  "verdicts (\<lambda>now k. redis_incrementAndCheck reference_redis (int (Suc 1499)) now k (Suc 1))
     \<lparr>rk_ip = ''a'', rk_method = ''m''\<rparr> \<lparr>rs_redis = Map.empty, rs_failures = (\<lambda>_. 0)\<rparr>
     [(5, \<lparr>rk_ip = ''a'', rk_method = ''m''\<rparr>), (6, \<lparr>rk_ip = ''a'', rk_method = ''m''\<rparr>),
      (7, \<lparr>rk_ip = ''a'', rk_method = ''m''\<rparr>)] = [False, False, True]"
  using redis_window_exact [OF ref.redis_counters_axioms, where s = "\<lparr>rs_redis = Map.empty, rs_failures = (\<lambda>_. 0)\<rparr>"
      and k = "\<lparr>rk_ip = ''a'', rk_method = ''m''\<rparr>" and now = 5 and d = 1499 and l = "\<lambda>_. 1"
      and rs = "[(6, \<lparr>rk_ip = ''a'', rk_method = ''m''\<rparr>), (7, \<lparr>rk_ip = ''a'', rk_method = ''m''\<rparr>)]"]
  by (simp add: redis_ok_def plain_method_def redis_wend_def redis_window_def ceil_div_def first_n_pass_def requests_of_def
      numeral_2_eq_2)

text \<open>When Redis fails, the Redis store lets the request pass, leaves the counters as they were and
counts one failure under the method.\<close>

lemma redis_fail_open:
  assumes "LUA_SCRIPT cmds now (RateLimitKey_toString k) limit (nat (ceil_div duration 1000)) (rs_redis s) = None"
  shows "snd (redis_incrementAndCheck cmds duration now k limit s) = False \<and>
    rs_redis (fst (redis_incrementAndCheck cmds duration now k limit s)) = rs_redis s \<and>
    rs_failures (fst (redis_incrementAndCheck cmds duration now k limit s)) =
      (rs_failures s)(rk_method k := rs_failures s (rk_method k) + 1)"
  using assms by (simp add: redis_incrementAndCheck_def)

definition failing_redis :: "unit redis_commands" where
  "failing_redis = \<lparr>cmd_INCR = (\<lambda>_ _ _. None), cmd_EXPIRE = (\<lambda>_ _ _ _. None)\<rparr>"

lemma redis_fail_open_witness:
  "snd (redis_incrementAndCheck failing_redis 1000 0 \<lparr>rk_ip = ''a'', rk_method = ''m''\<rparr> 0 \<lparr>rs_redis = (), rs_failures = (\<lambda>_. 0)\<rparr>)
     = False"
  using redis_fail_open [of failing_redis 0 "\<lparr>rk_ip = ''a'', rk_method = ''m''\<rparr>" 0 1000 "\<lparr>rs_redis = (), rs_failures = (\<lambda>_. 0)\<rparr>"]
  by (simp add: LUA_SCRIPT_def failing_redis_def)

text \<open>The service answers with its store's verdict and counts each limited request once under the
method and the kind of store; when rate limiting is disabled no request is limited and the store is not asked.\<close>

lemma shouldRateLimit_counts:
  "shouldRateLimit disabled cmds duration now ip m limit sv =
     (if disabled then (sv, False)
      else let (st, b) = store_incrementAndCheck cmds duration now \<lparr>rk_ip = ip, rk_method = m\<rparr> limit (rv_store sv) in
        (\<lparr>rv_store = st, rv_counter = (\<lambda>x. rv_counter sv x + (if b \<and> x = (m, store_label (rv_store sv)) then 1 else 0))\<rparr>, b))"
  by (cases sv) (auto simp: shouldRateLimit_def Let_def split: prod.splits)

end
