(* ===== verification/HttpServer.thy ===== *)
theory HttpServer
  imports Dispatcher RateLimiter Transitions
begin

text \<open>
  The HTTP server (\<open>packages/server/src/\<close>): JSON-RPC responses (\<open>koaJsonRpc/lib/RpcResponse.ts\<close>,
  \<open>RpcError.ts\<close>), the mapping of errors to HTTP statuses (\<open>koaJsonRpc/lib/httpErrorMapper.ts\<close>), single and batch
  requests (\<open>koaJsonRpc/index.ts\<close>), the conformity service (\<open>koaJsonRpc/services/\<close>) and the routes and the
  parser of the Forwarded header (\<open>server.ts\<close>).

  The rate limiter and the relay are the fields of an environment; \<open>relay_env\<close> puts the modelled limiter and
  dispatcher there. The web framework answers with a status of its own (a parameter, 200 in its
  documentation) when a body but no status was set.
\<close>

section \<open>Responses\<close>

record rpc_error =
  er_code :: int
  er_message :: "nat list"
  er_data :: error_payload

definition of_predefined :: "predefined \<Rightarrow> rpc_error" where
  "of_predefined e = \<lparr>er_code = error_code e, er_message = error_message e, er_data = error_data e\<rparr>"

definition spec_ParseError :: rpc_error where
  "spec_ParseError = \<lparr>er_code = - 32700, er_message = units ''Parse error'', er_data = NoData\<rparr>"

definition spec_InvalidRequest :: rpc_error where
  "spec_InvalidRequest = \<lparr>er_code = - 32600, er_message = units ''Invalid Request'', er_data = NoData\<rparr>"

definition spec_MethodNotFound :: "string \<Rightarrow> rpc_error" where
  "spec_MethodNotFound methodName =
     \<lparr>er_code = - 32601, er_message = units (''Method '' @ methodName @ '' not found''), er_data = NoData\<rparr>"

text \<open>\<open>None\<close> is something thrown that has no message.\<close>

definition spec_InternalError :: "string option \<Rightarrow> rpc_error" where
  "spec_InternalError err = \<lparr>er_code = - 32603,
     er_message = units (case err of Some message \<Rightarrow> message | None \<Rightarrow> ''Internal error''), er_data = NoData\<rparr>"

definition spec_IPRateLimitExceeded :: "string \<Rightarrow> rpc_error" where
  "spec_IPRateLimitExceeded methodName =
     \<lparr>er_code = - 32605, er_message = units (''IP Rate limit exceeded on '' @ methodName), er_data = NoData\<rparr>"

definition spec_BatchRequestsMethodNotPermitted :: "string \<Rightarrow> rpc_error" where
  "spec_BatchRequestsMethodNotPermitted m =
     \<lparr>er_code = - 32007, er_message = units (''Method '' @ m @ '' is not permitted as part of batch requests''), er_data = NoData\<rparr>"

text \<open>An absent \<open>result\<close> or \<open>error\<close> is \<open>None\<close>.\<close>

record rpc_response =
  rp_jsonrpc :: jv
  rp_id :: jv
  rp_result :: "jv option"
  rp_error :: "rpc_error option"

fun js_typeof :: "jv \<Rightarrow> string" where
  "js_typeof JUndefined = ''undefined''"
| "js_typeof (JBool _) = ''boolean''"
| "js_typeof (JNumV _) = ''number''"
| "js_typeof (JString _) = ''string''"
| "js_typeof _ = ''object''"

definition valid_id :: "jv \<Rightarrow> bool" where
  "valid_id i \<longleftrightarrow> i = JNullV \<or> js_typeof i = ''string'' \<or> js_typeof i = ''number''"

definition jsonRespResult :: "jv \<Rightarrow> jv \<Rightarrow> string + rpc_response" where
  "jsonRespResult i result =
     (if \<not> valid_id i then Inl (''Invalid id type '' @ js_typeof i)
      else if result = JUndefined then Inl ''Missing result''
      else Inr \<lparr>rp_jsonrpc = JString ''2.0'', rp_id = i, rp_result = Some result, rp_error = None\<rparr>)"

text \<open>The code and the message of an error always have the types the function tests.\<close>

definition request_id_prefix :: "string \<Rightarrow> string" where
  "request_id_prefix requestId = ''[Request ID: '' @ requestId @ ''] ''"

definition jsonRespError :: "jv \<Rightarrow> rpc_error \<Rightarrow> string \<Rightarrow> string + rpc_response" where
  "jsonRespError i error requestId =
     (if \<not> valid_id i then Inl (''Invalid id type '' @ js_typeof i)
      else Inr \<lparr>rp_jsonrpc = JString ''2.0'', rp_id = i, rp_result = None,
        rp_error = Some (error\<lparr>er_message := units (request_id_prefix requestId) @ er_message error\<rparr>)\<rparr>)"

section \<open>HTTP statuses\<close>

definition ERROR_CODE_MAP :: "int \<rightharpoonup> int" where
  "ERROR_CODE_MAP = [3 \<mapsto> 200, - 32603 \<mapsto> 500, - 32600 \<mapsto> 400, - 32602 \<mapsto> 400, - 32601 \<mapsto> 400, - 32605 \<mapsto> 429]"

definition MIRROR_NODE_ERROR_MAP :: "int \<rightharpoonup> int" where
  "MIRROR_NODE_ERROR_MAP = [404 \<mapsto> 400, 429 \<mapsto> 429, 501 \<mapsto> 501]"

definition translateRpcErrorToHttpStatus :: "rpc_error \<Rightarrow> int \<times> nat list" where
  "translateRpcErrorToHttpStatus e =
     (let statusErrorCode = (case ERROR_CODE_MAP (er_code e) of Some c \<Rightarrow> c | None \<Rightarrow> 400)
      in (if er_code e = - 32020
          then (case er_data e of
              NumData d \<Rightarrow> (case MIRROR_NODE_ERROR_MAP d of Some c \<Rightarrow> c | None \<Rightarrow> 500)
            | _ \<Rightarrow> statusErrorCode)
          else statusErrorCode, er_message e))"

section \<open>Requests\<close>

record 's server_env =
  env_shouldRateLimit :: "int \<Rightarrow> string \<Rightarrow> string \<Rightarrow> nat \<Rightarrow> 's \<Rightarrow> 's \<times> bool"
  env_executeRpcMethod :: "string \<Rightarrow> jv \<Rightarrow> request_details \<Rightarrow> 's \<Rightarrow> 's \<times> (string option + (predefined + jv))"

record server_config =
  sc_methodConfig :: "string \<rightharpoonup> nat"
  sc_defaultRateLimit :: nat
  sc_requestIdIsOptional :: bool
  sc_batchRequestsEnabled :: bool
  sc_batchRequestsMaxSize :: nat
  sc_disallowedMethods :: "string list"
  sc_onValidJsonRpcHttpResponseStatusCode :: int

text \<open>The id of a request, if it has one or may do without.\<close>

definition hasValidJsonRpcId :: "server_config \<Rightarrow> jv \<Rightarrow> jv option" where
  "hasValidJsonRpcId cfg body =
     (if \<not> typeof_object body \<or> body = JNullV then None
      else case map_of (js_entries body) ''id'' of
        Some i \<Rightarrow> Some i
      | None \<Rightarrow> if sc_requestIdIsOptional cfg then Some (JString ''0'') else None)"

definition isValidJsonRpcRequest :: "jv \<Rightarrow> bool" where
  "isValidJsonRpcRequest body \<longleftrightarrow>
     js_get body ''jsonrpc'' = JString ''2.0'' \<and> js_typeof (js_get body ''method'') = ''string''"

definition request_method :: "jv \<Rightarrow> string" where
  "request_method body = js_String (js_get body ''method'')"

text \<open>An exception in the body of \<open>getRequestResult\<close> becomes an internal error; a second one leaves the function.\<close>

definition catch_internal :: "jv \<Rightarrow> string \<Rightarrow> string + rpc_response \<Rightarrow> string + rpc_response" where
  "catch_internal i requestId r = (case r of
     Inl message \<Rightarrow> jsonRespError i (spec_InternalError (Some message)) requestId | Inr y \<Rightarrow> Inr y)"

definition respond :: "jv \<Rightarrow> string \<Rightarrow> string option + (predefined + jv) \<Rightarrow> string + rpc_response" where
  "respond i requestId r = (case r of
     Inl err \<Rightarrow> jsonRespError i (spec_InternalError err) requestId
   | Inr (Inl e) \<Rightarrow> catch_internal i requestId (jsonRespError i (of_predefined e) requestId)
   | Inr (Inr result) \<Rightarrow> catch_internal i requestId (jsonRespResult i result))"

definition limit_of :: "server_config \<Rightarrow> string \<Rightarrow> nat" where
  "limit_of cfg m = (case sc_methodConfig cfg m of Some n \<Rightarrow> n | None \<Rightarrow> sc_defaultRateLimit cfg)"

definition details :: "string \<Rightarrow> string \<Rightarrow> request_details" where
  "details requestId ipAddress = \<lparr>rd_requestId = requestId, rd_ipAddress = ipAddress, rd_connectionId = None\<rparr>"

text \<open>The part up to the answer of the rate limiter, which may already be the response, and the rest.\<close>

definition check_limit ::
    "'s server_env \<Rightarrow> server_config \<Rightarrow> int \<Rightarrow> jv \<Rightarrow> string \<Rightarrow> string \<Rightarrow> string \<Rightarrow> 's \<Rightarrow> 's \<times> (string + rpc_response) option" where
  "check_limit env cfg now i m ipAddress requestId s =
     (let (s1, limited) = env_shouldRateLimit env now ipAddress m (limit_of cfg m) s
      in (s1, if limited then Some (catch_internal i requestId (jsonRespError i (spec_IPRateLimitExceeded m) requestId)) else None))"

definition run_method ::
    "'s server_env \<Rightarrow> jv \<Rightarrow> string \<Rightarrow> jv \<Rightarrow> string \<Rightarrow> string \<Rightarrow> 's \<Rightarrow> 's \<times> (string + rpc_response)" where
  "run_method env i m params ipAddress requestId s =
     (let (s1, r) = env_executeRpcMethod env m params (details requestId ipAddress) s in (s1, respond i requestId r))"

definition getRequestResult ::
    "'s server_env \<Rightarrow> server_config \<Rightarrow> int \<Rightarrow> jv \<Rightarrow> string \<Rightarrow> jv \<Rightarrow> string \<Rightarrow> string \<Rightarrow> 's \<Rightarrow> 's \<times> (string + rpc_response)" where
  "getRequestResult env cfg now i m params ipAddress requestId s =
     (case check_limit env cfg now i m ipAddress requestId s of
        (s1, Some r) \<Rightarrow> (s1, r)
      | (s1, None) \<Rightarrow> run_method env i m params ipAddress requestId s1)"

section \<open>Single requests\<close>

datatype http_body = NoBody | TextBody string | OneBody rpc_response | ManyBody "rpc_response list"

text \<open>
  What the handlers write: the body, the HTTP status (\<open>None\<close> if it was not assigned), and the status text and
  the method name that go to the log and the metrics.
\<close>

record http_context =
  ct_body :: http_body
  ct_status :: "int option"
  ct_stateStatus :: "nat list option"
  ct_methodName :: "string option"

definition fresh_context :: http_context where
  "fresh_context = \<lparr>ct_body = NoBody, ct_status = None, ct_stateStatus = None, ct_methodName = None\<rparr>"

definition status_text :: "int \<Rightarrow> nat list \<Rightarrow> nat list" where
  "status_text c message = units (dec c @ '' ('') @ message @ units '')''"

definition INVALID_REQUEST_TEXT :: string where
  "INVALID_REQUEST_TEXT = ''INVALID REQUEST''"

definition single_response ::
    "'s server_env \<Rightarrow> server_config \<Rightarrow> int \<Rightarrow> jv \<Rightarrow> string \<Rightarrow> string \<Rightarrow> 's \<Rightarrow> 's \<times> (string + rpc_response \<times> string option)" where
  "single_response env cfg now body ip requestId s = (case hasValidJsonRpcId cfg body of
     None \<Rightarrow> (s, res_bind (jsonRespError JNullV spec_InvalidRequest requestId) (\<lambda>y. Inr (y, None)))
   | Some i \<Rightarrow>
       if \<not> isValidJsonRpcRequest body
       then (s, res_bind (jsonRespError i spec_InvalidRequest requestId) (\<lambda>y. Inr (y, None)))
       else (let (s1, r) = getRequestResult env cfg now i (request_method body) (js_get body ''params'') ip requestId s
             in (s1, res_bind r (\<lambda>y. Inr (y, Some (request_method body))))))"

definition write_response :: "rpc_response \<Rightarrow> string option \<Rightarrow> http_context \<Rightarrow> http_context" where
  "write_response response methodName ctx =
     (let ctx1 = ctx\<lparr>ct_body := OneBody response,
            ct_methodName := (case methodName of Some m \<Rightarrow> Some m | None \<Rightarrow> ct_methodName ctx)\<rparr>
      in case rp_error response of
           None \<Rightarrow> ctx1
         | Some e \<Rightarrow> (let t = translateRpcErrorToHttpStatus e
             in ctx1\<lparr>ct_status := Some (fst t), ct_stateStatus := Some (status_text (fst t) (snd t))\<rparr>))"

definition handleSingleRequest ::
    "'s server_env \<Rightarrow> server_config \<Rightarrow> int \<Rightarrow> jv \<Rightarrow> string \<Rightarrow> string \<Rightarrow> http_context \<Rightarrow> 's \<Rightarrow> 's \<times> (string + http_context)" where
  "handleSingleRequest env cfg now body ip requestId ctx s =
     (let (s1, r) = single_response env cfg now body ip requestId s
      in (s1, res_bind r (\<lambda>(response, methodName). Inr (write_response response methodName ctx))))"

section \<open>Batches\<close>

text \<open>
  The items of a batch run concurrently. An item that passed the checks waits for the rate limiter, then for the
  relay; a settled item has a response, or was rejected with an exception.
\<close>

datatype item_state =
    Limiting jv string jv
  | Running jv string jv
  | Settled "string + rpc_response"

definition start_item :: "server_config \<Rightarrow> string \<Rightarrow> jv \<Rightarrow> item_state" where
  "start_item cfg requestId item = (case hasValidJsonRpcId cfg item of
     None \<Rightarrow> Settled (jsonRespError JNullV spec_InvalidRequest requestId)
   | Some i \<Rightarrow>
       if \<not> isValidJsonRpcRequest item then Settled (jsonRespError i spec_InvalidRequest requestId)
       else let m = request_method item in
         if m \<in> set (sc_disallowedMethods cfg)
         then Settled (jsonRespError i (spec_BatchRequestsMethodNotPermitted m) requestId)
         else Limiting i m (js_get item ''params''))"

fun advance_item ::
    "'s server_env \<Rightarrow> server_config \<Rightarrow> int \<Rightarrow> string \<Rightarrow> string \<Rightarrow> item_state \<Rightarrow> 's \<Rightarrow> 's \<times> item_state" where
  "advance_item env cfg now ip requestId (Limiting i m params) s =
     (let (s1, r) = check_limit env cfg now i m ip requestId s
      in (s1, case r of Some y \<Rightarrow> Settled y | None \<Rightarrow> Running i m params))"
| "advance_item env cfg now ip requestId (Running i m params) s =
     (let (s1, r) = run_method env i m params ip requestId s in (s1, Settled r))"
| "advance_item env cfg now ip requestId (Settled r) s = (s, Settled r)"

fun settled :: "item_state \<Rightarrow> bool" where
  "settled (Settled _) = True"
| "settled _ = False"

record 's batch =
  bt_items :: "item_state list"
  bt_state :: 's

definition advance_at ::
    "'s server_env \<Rightarrow> server_config \<Rightarrow> int \<Rightarrow> string \<Rightarrow> string \<Rightarrow> nat \<Rightarrow> 's batch \<Rightarrow> 's batch" where
  "advance_at env cfg now ip requestId k b =
     (let (s, x) = advance_item env cfg now ip requestId (bt_items b ! k) (bt_state b)
      in b\<lparr>bt_items := (bt_items b)[k := x], bt_state := s\<rparr>)"

text \<open>Any unsettled item may go on next, and other requests may change the shared state in between.\<close>

inductive batch_step :: "'s server_env \<Rightarrow> server_config \<Rightarrow> string \<Rightarrow> string \<Rightarrow> 's batch \<Rightarrow> 's batch \<Rightarrow> bool"
  for env cfg ip requestId where
  item: "k < length (bt_items b) \<Longrightarrow> \<not> settled (bt_items b ! k) \<Longrightarrow>
     batch_step env cfg ip requestId b (advance_at env cfg now ip requestId k b)"
| others: "batch_step env cfg ip requestId b (b\<lparr>bt_state := s\<rparr>)"

inductive_cases batch_step_cases: "batch_step env cfg ip requestId b b'"

fun rejection :: "item_state \<Rightarrow> string option" where
  "rejection (Settled (Inl e)) = Some e"
| "rejection _ = None"

fun response_of :: "item_state \<Rightarrow> rpc_response option" where
  "response_of (Settled (Inr y)) = Some y"
| "response_of _ = None"

text \<open>\<open>Promise.all\<close>: rejected once an item is (the model names the first in the list), fulfilled when every item is; \<open>None\<close> while it is pending.\<close>

definition Promise_all :: "item_state list \<Rightarrow> (string + rpc_response list) option" where
  "Promise_all items = (case List.map_filter rejection items of
     e # _ \<Rightarrow> Some (Inl e)
   | [] \<Rightarrow> if list_all settled items then Some (Inr (List.map_filter response_of items)) else None)"

definition BATCH_REQUEST_METHOD_NAME :: string where
  "BATCH_REQUEST_METHOD_NAME = ''batch_request''"

text \<open>The beginning of \<open>handleBatchRequest\<close>: a refused batch is answered at once.\<close>

definition batch_begin ::
    "server_config \<Rightarrow> jv list \<Rightarrow> string \<Rightarrow> http_context \<Rightarrow> 's \<Rightarrow> (string + http_context) + (http_context \<times> 's batch)" where
  "batch_begin cfg body requestId ctx s =
     (if \<not> sc_batchRequestsEnabled cfg
      then Inl (res_bind (jsonRespError JNullV (of_predefined BATCH_REQUESTS_DISABLED) requestId) (\<lambda>y.
        Inr (ctx\<lparr>ct_body := OneBody y, ct_status := Some 400, ct_stateStatus := Some (status_text 400 (units INVALID_REQUEST_TEXT))\<rparr>)))
      else if length body > sc_batchRequestsMaxSize cfg
      then Inl (res_bind (jsonRespError JNullV (of_predefined
          (BATCH_REQUESTS_AMOUNT_MAX_EXCEEDED (int (length body)) (int (sc_batchRequestsMaxSize cfg)))) requestId) (\<lambda>y.
        Inr (ctx\<lparr>ct_body := ManyBody (replicate (length body) y), ct_status := Some 200,
          ct_stateStatus := Some (status_text 200 (units INVALID_REQUEST_TEXT))\<rparr>)))
      else Inr (ctx\<lparr>ct_methodName := Some BATCH_REQUEST_METHOD_NAME\<rparr>,
        \<lparr>bt_items = map (start_item cfg requestId) body, bt_state = s\<rparr>))"

definition batch_finish :: "http_context \<Rightarrow> rpc_response list \<Rightarrow> http_context" where
  "batch_finish ctx results =
     ctx\<lparr>ct_body := ManyBody results, ct_status := Some 200, ct_stateStatus := Some (units ''200'')\<rparr>"

section \<open>The application\<close>

datatype 's outcome = Answer "string + http_context" | Batch http_context "'s batch"

text \<open>\<open>body\<close> is \<open>None\<close> when the request's body cannot be parsed.\<close>

definition rpcApp ::
    "'s server_env \<Rightarrow> server_config \<Rightarrow> int \<Rightarrow> string \<Rightarrow> jv option \<Rightarrow> string \<Rightarrow> string \<Rightarrow> http_context \<Rightarrow> 's \<Rightarrow> 's \<times> 's outcome" where
  "rpcApp env cfg now httpMethod parsed ip requestId ctx s =
     (if httpMethod \<noteq> ''POST''
      then (s, Answer (res_bind (jsonRespError JNullV spec_InvalidRequest requestId) (\<lambda>y.
        Inr (ctx\<lparr>ct_body := OneBody y, ct_status := Some 400, ct_stateStatus := Some (status_text 400 (units INVALID_REQUEST_TEXT))\<rparr>))))
      else case parsed of
        None \<Rightarrow> (s, Answer (res_bind (jsonRespError JNullV spec_ParseError requestId) (\<lambda>y.
          Inr (ctx\<lparr>ct_body := OneBody y, ct_status := Some 400\<rparr>))))
      | Some (JArray body) \<Rightarrow> (case batch_begin cfg body requestId ctx s of
          Inl answer \<Rightarrow> (s, Answer answer) | Inr (ctx1, b) \<Rightarrow> (s, Batch ctx1 b))
      | Some body \<Rightarrow> (let (s1, r) = handleSingleRequest env cfg now body ip requestId ctx s in (s1, Answer r)))"

text \<open>
  The conformity service. \<open>dflt\<close> is the status the framework reports for a body whose status was not assigned.
\<close>

definition status_of :: "(http_body \<Rightarrow> int) \<Rightarrow> http_context \<Rightarrow> int" where
  "status_of dflt ctx = (case ct_status ctx of Some c \<Rightarrow> c | None \<Rightarrow> dflt (ct_body ctx))"

definition fallback_error :: rpc_error where
  "fallback_error = \<lparr>er_code = - 32600, er_message = units ''Request body is empty; expected a JSON-RPC 2.0 request'', er_data = NoData\<rparr>"

definition fallbackResponseBody :: rpc_response where
  "fallbackResponseBody = \<lparr>rp_jsonrpc = JString ''2.0'', rp_id = JNullV, rp_result = None, rp_error = Some fallback_error\<rparr>"

definition makeSureBodyExistsAndCanBeChecked ::
    "(http_body \<Rightarrow> int) \<Rightarrow> http_context \<Rightarrow> http_context \<times> rpc_response option" where
  "makeSureBodyExistsAndCanBeChecked dflt ctx =
     (if status_of dflt ctx = 200 then (ctx, None)
      else case ct_body ctx of
        NoBody \<Rightarrow> (ctx\<lparr>ct_status := Some 400, ct_body := OneBody fallbackResponseBody\<rparr>, None)
      | ManyBody _ \<Rightarrow> (ctx\<lparr>ct_status := Some 200\<rparr>, None)
      | TextBody _ \<Rightarrow> (ctx\<lparr>ct_status := Some 400, ct_body := OneBody fallbackResponseBody\<rparr>, None)
      | OneBody y \<Rightarrow>
          (let y1 = y\<lparr>rp_jsonrpc := if truthy (rp_jsonrpc y) then rp_jsonrpc y else JString ''2.0'',
                 rp_id := if truthy (rp_id y) then rp_id y else JNullV\<rparr>
           in (ctx\<lparr>ct_body := OneBody y1\<rparr>, Some y1)))"

definition ensureEthereumJsonRpcCompliance :: "(http_body \<Rightarrow> int) \<Rightarrow> server_config \<Rightarrow> http_context \<Rightarrow> http_context" where
  "ensureEthereumJsonRpcCompliance dflt cfg ctx = (case makeSureBodyExistsAndCanBeChecked dflt ctx of
     (ctx1, None) \<Rightarrow> ctx1
   | (ctx1, Some y) \<Rightarrow>
       if status_of dflt ctx1 = 400
       then (let e = (case rp_error y of Some e \<Rightarrow> if er_code e = 0 then fallback_error else e | None \<Rightarrow> fallback_error);
                 ctx2 = ctx1\<lparr>ct_body := OneBody (y\<lparr>rp_error := Some e\<rparr>)\<rparr>
             in if er_code e \<in> {- 32600, - 32700} then ctx2
                else ctx2\<lparr>ct_status := Some (sc_onValidJsonRpcHttpResponseStatusCode cfg)\<rparr>)
       else ctx1)"

section \<open>Well-formed responses\<close>

text \<open>A JSON-RPC 2.0 response object: the version, an id that is a string, a number or null, and exactly one of a result and an error.\<close>

definition well_formed :: "rpc_response \<Rightarrow> bool" where
  "well_formed y \<longleftrightarrow> rp_jsonrpc y = JString ''2.0'' \<and> valid_id (rp_id y) \<and> (rp_result y = None) = (rp_error y \<noteq> None) \<and>
     rp_result y \<noteq> Some JUndefined"

definition item_id :: "server_config \<Rightarrow> jv \<Rightarrow> jv" where
  "item_id cfg item = (case hasValidJsonRpcId cfg item of None \<Rightarrow> JNullV | Some i \<Rightarrow> i)"

text \<open>What the handlers of a request with id \<open>i\<close> return: its response, or a rejection if the id has the wrong type.\<close>

definition answers :: "jv \<Rightarrow> string + rpc_response \<Rightarrow> bool" where
  "answers i r \<longleftrightarrow> (case r of Inl _ \<Rightarrow> \<not> valid_id i | Inr y \<Rightarrow> well_formed y \<and> rp_id y = i)"

lemma valid_id_null [simp]: "valid_id JNullV"
  by (simp add: valid_id_def)

lemma answers_valid: "answers i r \<Longrightarrow> valid_id i \<Longrightarrow> \<exists>y. r = Inr y \<and> well_formed y \<and> rp_id y = i"
  by (auto simp: answers_def split: sum.splits)

lemma jsonRespError_answers [simp]: "answers i (jsonRespError i e requestId)"
  by (simp add: answers_def jsonRespError_def well_formed_def)

lemma catch_internal_answers [simp]: "answers i (catch_internal i requestId (jsonRespError i e requestId))"
  by (simp add: answers_def jsonRespError_def well_formed_def catch_internal_def)

lemma respond_answers [simp]: "answers i (respond i requestId r)"
  by (auto simp: respond_def answers_def jsonRespError_def jsonRespResult_def well_formed_def catch_internal_def
      split: sum.splits)

lemma check_limit_answers: "check_limit env cfg now i m ip requestId s = (s1, Some r) \<Longrightarrow> answers i r"
  by (auto simp: check_limit_def Let_def split: prod.splits if_splits)

lemma run_method_answers: "run_method env i m params ip requestId s = (s1, r) \<Longrightarrow> answers i r"
  by (auto simp: run_method_def Let_def split: prod.splits)

lemma getRequestResult_answers: "answers i (snd (getRequestResult env cfg now i m params ip requestId s))"
  by (auto simp: getRequestResult_def split: prod.splits option.splits
      intro: check_limit_answers run_method_answers [OF surjective_pairing])

lemma start_item_answers: "start_item cfg requestId item = Settled r \<Longrightarrow> answers (item_id cfg item) r"
  by (auto simp: start_item_def item_id_def Let_def split: option.splits if_splits)

lemma start_item_Limiting: "start_item cfg requestId item = Limiting i m params \<Longrightarrow> item_id cfg item = i"
  by (auto simp: start_item_def item_id_def Let_def split: option.splits if_splits)

lemma start_item_not_Running [simp]: "start_item cfg requestId item \<noteq> Running i m params"
  by (simp add: start_item_def Let_def split: option.splits if_splits)

section \<open>Runs of a batch\<close>

definition item_inv :: "server_config \<Rightarrow> string \<Rightarrow> jv \<Rightarrow> item_state \<Rightarrow> bool" where
  "item_inv cfg requestId item x = (case x of
     Limiting _ _ _ \<Rightarrow> start_item cfg requestId item = x
   | Running i m params \<Rightarrow> start_item cfg requestId item = Limiting i m params
   | Settled r \<Rightarrow> answers (item_id cfg item) r \<and> (\<forall>r0. start_item cfg requestId item = Settled r0 \<longrightarrow> r = r0))"

definition batch_inv :: "server_config \<Rightarrow> string \<Rightarrow> jv list \<Rightarrow> 's batch \<Rightarrow> bool" where
  "batch_inv cfg requestId body b \<longleftrightarrow> list_all2 (item_inv cfg requestId) body (bt_items b)"

definition batch_start :: "server_config \<Rightarrow> string \<Rightarrow> jv list \<Rightarrow> 's batch \<Rightarrow> bool" where
  "batch_start cfg requestId body b \<longleftrightarrow> bt_items b = map (start_item cfg requestId) body"

lemma item_inv_start: "item_inv cfg requestId item (start_item cfg requestId item)"
  by (auto simp: item_inv_def dest: start_item_answers split: item_state.splits)

lemma item_inv_advance:
  assumes "item_inv cfg requestId item x" and "advance_item env cfg now ip requestId x s = (s1, x1)"
  shows "item_inv cfg requestId item x1"
proof (cases x)
  case (Limiting i m params)
  then have start: "start_item cfg requestId item = Limiting i m params" using assms(1) by (simp add: item_inv_def)
  obtain r where r: "check_limit env cfg now i m ip requestId s = (s1, r)" "x1 = (case r of Some y \<Rightarrow> Settled y | None \<Rightarrow> Running i m params)"
    using assms(2) Limiting by (auto simp: Let_def split: prod.splits)
  then show ?thesis using start start_item_Limiting [OF start]
    by (cases r) (auto simp: item_inv_def dest: check_limit_answers)
next
  case (Running i m params)
  then have start: "start_item cfg requestId item = Limiting i m params" using assms(1) by (simp add: item_inv_def)
  obtain r where "run_method env i m params ip requestId s = (s1, r)" "x1 = Settled r"
    using assms(2) Running by (auto simp: Let_def split: prod.splits)
  then show ?thesis using start start_item_Limiting [OF start] by (auto simp: item_inv_def dest: run_method_answers)
qed (use assms in auto)

lemma batch_inv_step:
  assumes "batch_inv cfg requestId body b" and "batch_step env cfg ip requestId b b'"
  shows "batch_inv cfg requestId body b'"
  using assms(2)
proof cases
  case (item k now)
  obtain s x where x: "advance_item env cfg now ip requestId (bt_items b ! k) (bt_state b) = (s, x)" by fastforce
  have "item_inv cfg requestId (body ! k) (bt_items b ! k)"
    using assms(1) item(2) by (auto simp: batch_inv_def list_all2_conv_all_nth)
  then show ?thesis using item_inv_advance [OF _ x] assms(1) item(1,2) x
    by (auto simp: batch_inv_def advance_at_def list_all2_conv_all_nth nth_list_update)
qed (use assms(1) in \<open>simp add: batch_inv_def\<close>)

lemma batch_inv_start: "batch_start cfg requestId body b \<Longrightarrow> batch_inv cfg requestId body b"
  by (simp add: batch_start_def batch_inv_def list_all2_conv_all_nth item_inv_start)

interpretation http_batch: invariant_system "batch_start cfg requestId body" "batch_step env cfg ip requestId" "batch_inv cfg requestId body"
  by unfold_locales (auto intro: batch_inv_step batch_inv_start)

lemma map_filter_Nil_iff: "List.map_filter f xs = [] \<longleftrightarrow> (\<forall>x \<in> set xs. f x = None)"
  by (induction xs) (auto simp: List.map_filter_simps split: option.splits)

lemma map_filter_all: "\<forall>x \<in> set xs. f x = Some (g x) \<Longrightarrow> List.map_filter f xs = map g xs"
  by (induction xs) (auto simp: List.map_filter_simps)

lemma Promise_all_Inr_iff: "Promise_all items = Some (Inr ys) \<longleftrightarrow> items = map (Settled \<circ> Inr) ys"
proof
  assume "Promise_all items = Some (Inr ys)"
  then have none: "List.map_filter rejection items = []" and all: "list_all settled items" and ys: "ys = List.map_filter response_of items"
    by (auto simp: Promise_all_def split: list.splits if_splits)
  have inr: "\<forall>x \<in> set items. \<exists>y. x = Settled (Inr y)"
  proof
    fix x assume "x \<in> set items"
    then have "settled x" "rejection x = None" using none all by (auto simp: map_filter_Nil_iff list_all_iff)
    then show "\<exists>y. x = Settled (Inr y)" by (cases x rule: rejection.cases) auto
  qed
  then have "\<forall>x \<in> set items. response_of x = Some (the (response_of x)) \<and> x = Settled (Inr (the (response_of x)))" by force
  then show "items = map (Settled \<circ> Inr) ys" unfolding ys
    by (subst map_filter_all [where g = "the \<circ> response_of"]) (auto simp: map_idI)
next
  assume items: "items = map (Settled \<circ> Inr) ys"
  have "List.map_filter rejection items = []" by (simp add: items map_filter_Nil_iff)
  moreover have "List.map_filter response_of items = ys"
    by (simp add: items) (induction ys, simp_all add: List.map_filter_simps)
  moreover have "list_all settled items" by (simp add: items list_all_iff)
  ultimately show "Promise_all items = Some (Inr ys)" by (simp add: Promise_all_def)
qed

section \<open>Properties of responses\<close>

text \<open>C33: The responses of a batch come in the order of its requests, however the requests were
interleaved with each other and with other traffic: one well-formed response per request, with the id of the
request at the same position (null for a request without a valid id), and the prepared error for a request that is refused before it runs.\<close>

theorem batch_responses_in_order:
  assumes "reachable (batch_start cfg requestId body) (batch_step env cfg ip requestId) b"
    and "Promise_all (bt_items b) = Some (Inr results)"
  shows "length results = length body \<and> (\<forall>k < length body. well_formed (results ! k) \<and>
     rp_id (results ! k) = item_id cfg (body ! k) \<and>
     (\<forall>r. start_item cfg requestId (body ! k) = Settled r \<longrightarrow> r = Inr (results ! k)))"
proof -
  have inv: "list_all2 (item_inv cfg requestId) body (map (Settled \<circ> Inr) results)"
    using http_batch.reachable_inv [OF assms(1)] assms(2) by (simp add: batch_inv_def Promise_all_Inr_iff)
  then have len: "length results = length body" by (auto dest: list_all2_lengthD)
  moreover have "item_inv cfg requestId (body ! k) (Settled (Inr (results ! k)))" if "k < length body" for k
    using list_all2_nthD [OF inv that] that len by simp
  ultimately show ?thesis by (auto simp: item_inv_def answers_def)
qed

definition work :: "item_state \<Rightarrow> nat" where
  "work x = (case x of Limiting _ _ _ \<Rightarrow> 2 | Running _ _ _ \<Rightarrow> 1 | Settled _ \<Rightarrow> 0)"

definition batch_work :: "'s batch \<Rightarrow> nat" where
  "batch_work b = sum_list (map work (bt_items b))"

lemma work_advance: "\<not> settled x \<Longrightarrow> advance_item env cfg now ip requestId x s = (s1, x1) \<Longrightarrow> work x1 < work x"
  by (cases x) (auto simp: work_def Let_def split: prod.splits option.splits)

lemma sum_list_decrease:
  "k < length xs \<Longrightarrow> f x < f (xs ! k) \<Longrightarrow> sum_list (map f (xs[k := x])) < (sum_list (map f xs) :: nat)"
  by (induction xs arbitrary: k) (auto simp: nth_Cons split: nat.splits)

lemma batch_work_advance:
  assumes "k < length (bt_items b)" and "\<not> settled (bt_items b ! k)"
  shows "batch_work (advance_at env cfg now ip requestId k b) < batch_work b"
proof -
  obtain s x where x: "advance_item env cfg now ip requestId (bt_items b ! k) (bt_state b) = (s, x)" by fastforce
  show ?thesis using sum_list_decrease [OF assms(1), of work x] work_advance [OF assms(2) x] x
    by (simp add: batch_work_def advance_at_def)
qed

lemma batch_settles: "\<exists>b'. (batch_step env cfg ip requestId)\<^sup>*\<^sup>* b b' \<and> list_all settled (bt_items b')"
proof (induction "batch_work b" arbitrary: b rule: less_induct)
  case less
  show ?case
  proof (cases "list_all settled (bt_items b)")
    case False
    then obtain k where k: "k < length (bt_items b)" "\<not> settled (bt_items b ! k)" by (auto simp: list_all_length)
    then show ?thesis using less [OF batch_work_advance [OF k]] batch_step.item [OF k] by (meson converse_rtranclp_into_rtranclp)
  qed blast
qed

lemma settled_answered:
  assumes "batch_inv cfg requestId body b" and "list_all settled (bt_items b)" and "\<forall>item \<in> set body. valid_id (item_id cfg item)"
  shows "\<exists>results. Promise_all (bt_items b) = Some (Inr results)"
proof -
  have "\<exists>y. x = Settled (Inr y)" if "x \<in> set (bt_items b)" for x
  proof -
    obtain k where k: "k < length (bt_items b)" "x = bt_items b ! k" using \<open>x \<in> set (bt_items b)\<close> by (auto simp: in_set_conv_nth)
    then have i: "item_inv cfg requestId (body ! k) x" "body ! k \<in> set body"
      using assms(1) by (auto simp: batch_inv_def list_all2_conv_all_nth)
    obtain r where "x = Settled r" using assms(2) \<open>x \<in> set (bt_items b)\<close> by (cases x) (auto simp: list_all_iff)
    then show ?thesis using i assms(3) answers_valid [of "item_id cfg (body ! k)" r] by (auto simp: item_inv_def)
  qed
  then have "map (\<lambda>x. Settled (Inr (the (response_of x)))) (bt_items b) = bt_items b" by (intro map_idI) force
  then have "bt_items b = map (Settled \<circ> Inr) (map (the \<circ> response_of) (bt_items b))" by (simp add: comp_def)
  then show ?thesis unfolding Promise_all_Inr_iff by blast
qed

text \<open>A batch whose requests all have an id of a valid type (or none) can always be answered: from every state of a run
some continuation settles all items, and the batch then has its list of responses.\<close>

lemma batch_answered:
  assumes "reachable (batch_start cfg requestId body) (batch_step env cfg ip requestId) b"
    and "\<forall>item \<in> set body. valid_id (item_id cfg item)"
  shows "\<exists>b' results. (batch_step env cfg ip requestId)\<^sup>*\<^sup>* b b' \<and> Promise_all (bt_items b') = Some (Inr results)"
proof -
  obtain b' where b': "(batch_step env cfg ip requestId)\<^sup>*\<^sup>* b b'" "list_all settled (bt_items b')" using batch_settles by blast
  have "batch_inv cfg requestId body b'" using http_batch.reachable_inv [OF reachable_trans [OF assms(1) b'(1)]] .
  then show ?thesis using settled_answered [OF _ b'(2) assms(2)] b'(1) by blast
qed

text \<open>What reaches the client: an answer given at once, or the responses of a batch that has run to its end.\<close>

definition delivers ::
    "'s server_env \<Rightarrow> server_config \<Rightarrow> int \<Rightarrow> string \<Rightarrow> jv option \<Rightarrow> string \<Rightarrow> string \<Rightarrow> 's \<Rightarrow> http_context \<Rightarrow> bool" where
  "delivers env cfg now httpMethod parsed ip requestId s ctx \<longleftrightarrow>
     (case snd (rpcApp env cfg now httpMethod parsed ip requestId fresh_context s) of
        Answer r \<Rightarrow> r = Inr ctx
      | Batch ctx1 b \<Rightarrow> (\<exists>b' results. (batch_step env cfg ip requestId)\<^sup>*\<^sup>* b b' \<and>
          Promise_all (bt_items b') = Some (Inr results) \<and> ctx = batch_finish ctx1 results))"

definition body_ok :: "http_body \<Rightarrow> bool" where
  "body_ok body = (case body of OneBody y \<Rightarrow> well_formed y | ManyBody ys \<Rightarrow> list_all well_formed ys | _ \<Rightarrow> False)"

text \<open>A single response has an assigned status only if it is an error.\<close>

definition context_ok :: "http_context \<Rightarrow> bool" where
  "context_ok ctx \<longleftrightarrow> body_ok (ct_body ctx) \<and>
     (\<forall>y. ct_body ctx = OneBody y \<and> ct_status ctx \<noteq> None \<longrightarrow> rp_error y \<noteq> None)"

lemma jsonRespError_ok:
  "jsonRespError i e requestId = Inr y \<Longrightarrow> well_formed y \<and> rp_error y \<noteq> None"
  by (auto simp: jsonRespError_def well_formed_def split: if_splits)

lemma single_response_ok:
  assumes "single_response env cfg now body ip requestId s = (s1, Inr (y, m))"
  shows "well_formed y"
proof (cases "hasValidJsonRpcId cfg body")
  case (Some i)
  show ?thesis
  proof (cases "isValidJsonRpcRequest body")
    case True
    have "answers i (snd (getRequestResult env cfg now i (request_method body) (js_get body ''params'') ip requestId s))"
      by (rule getRequestResult_answers)
    then show ?thesis using assms Some True
      by (auto simp: single_response_def answers_def res_bind_eq_Inr Let_def split: prod.splits)
  qed (use assms Some in \<open>auto simp: single_response_def res_bind_eq_Inr dest: jsonRespError_ok\<close>)
qed (use assms in \<open>auto simp: single_response_def res_bind_eq_Inr dest: jsonRespError_ok\<close>)

lemma write_response_ok: "well_formed y \<Longrightarrow> context_ok (write_response y m fresh_context)"
  by (simp add: write_response_def context_ok_def body_ok_def fresh_context_def Let_def split: option.splits)

lemma handleSingleRequest_ok:
  assumes "handleSingleRequest env cfg now body ip requestId fresh_context s = (s1, Inr ctx)"
  shows "context_ok ctx"
  using assms
  by (auto simp: handleSingleRequest_def res_bind_eq_Inr Let_def split: prod.splits
      dest!: single_response_ok intro: write_response_ok)

lemma batch_begin_ok: "batch_begin cfg body requestId ctx s = Inl (Inr ctx') \<Longrightarrow> context_ok ctx'"
  by (auto simp: batch_begin_def context_ok_def body_ok_def res_bind_eq_Inr list_all_iff
      split: if_splits dest!: jsonRespError_ok)

lemma batch_finish_ok:
  assumes "batch_begin cfg body requestId ctx s = Inr (ctx1, b)" and "(batch_step env cfg ip requestId)\<^sup>*\<^sup>* b b'"
    and "Promise_all (bt_items b') = Some (Inr results)"
  shows "context_ok (batch_finish ctx1 results)"
proof -
  have "batch_start cfg requestId body b" using assms(1) by (auto simp: batch_begin_def batch_start_def split: if_splits)
  then have "reachable (batch_start cfg requestId body) (batch_step env cfg ip requestId) b'"
    using assms(2) by (blast intro: reachable_trans reachable.start)
  then have "list_all2 (item_inv cfg requestId) body (map (Settled \<circ> Inr) results)"
    using http_batch.reachable_inv assms(3) by (fastforce simp: batch_inv_def Promise_all_Inr_iff)
  then have "list_all well_formed results"
    by (auto simp: list_all2_conv_all_nth list_all_length item_inv_def answers_def)
  then show ?thesis by (simp add: context_ok_def batch_finish_def body_ok_def)
qed

lemma delivers_ok:
  assumes "delivers env cfg now httpMethod parsed ip requestId s ctx"
  shows "context_ok ctx"
proof -
  have early: "context_ok (fresh_context\<lparr>ct_body := OneBody y, ct_status := c, ct_stateStatus := t\<rparr>)"
      "context_ok (fresh_context\<lparr>ct_body := OneBody y, ct_status := c\<rparr>)"
    if "jsonRespError i e requestId = Inr y" for y c t i e
    using jsonRespError_ok [OF that] by (simp_all add: context_ok_def body_ok_def)
  show ?thesis
  proof (cases "httpMethod = ''POST''")
    case True
    note post = assms [unfolded delivers_def rpcApp_def, simplified True]
    consider "parsed = None" | body where "parsed = Some (JArray body)" | body where "parsed = Some body" "\<not> is_array body"
      by (cases parsed; cases "the parsed") (auto simp: is_array_def)
    then show ?thesis
    proof cases
      case 2
      then show ?thesis using post
        by (cases "batch_begin cfg body requestId fresh_context s") (auto intro: batch_begin_ok batch_finish_ok)
    next
      case (3 body)
      then have "snd (handleSingleRequest env cfg now body ip requestId fresh_context s) = Inr ctx"
        using post by (cases body) (auto simp: is_array_def split: prod.splits)
      then show ?thesis by (intro handleSingleRequest_ok [OF prod_eqI]) simp_all
    qed (use post in \<open>auto simp: res_bind_eq_Inr intro: early\<close>)
  qed (use assms in \<open>auto simp: delivers_def rpcApp_def res_bind_eq_Inr intro: early\<close>)
qed

lemma well_formed_fallback: "well_formed fallbackResponseBody"
  by (simp add: well_formed_def fallbackResponseBody_def)

lemma makeSure_ok:
  assumes "context_ok ctx" and "\<forall>y. dflt (OneBody y) = 200"
    and "makeSureBodyExistsAndCanBeChecked dflt ctx = (ctx1, r)"
  shows "body_ok (ct_body ctx1)" and "r = Some y \<Longrightarrow> ct_body ctx1 = OneBody y \<and> rp_error y \<noteq> None"
  using assms
  by (cases "ct_body ctx"; force simp: makeSureBodyExistsAndCanBeChecked_def context_ok_def body_ok_def well_formed_def
      status_of_def Let_def split: if_splits option.splits)+

lemma compliance_ok:
  assumes "context_ok ctx" and "\<forall>y. dflt (OneBody y) = 200"
  shows "body_ok (ct_body (ensureEthereumJsonRpcCompliance dflt cfg ctx))"
proof (cases "makeSureBodyExistsAndCanBeChecked dflt ctx")
  case (Pair ctx1 r)
  have "well_formed (y\<lparr>rp_error := Some e\<rparr>)" if "well_formed y" "rp_error y \<noteq> None" for y e
    using that by (auto simp: well_formed_def)
  then show ?thesis using makeSure_ok [OF assms Pair] Pair
    by (cases r) (auto simp: ensureEthereumJsonRpcCompliance_def body_ok_def Let_def)
qed


text \<open>The part of the application that answers a well-formed single request.\<close>

lemma rpcApp_single:
  assumes "hasValidJsonRpcId cfg body = Some i" and "isValidJsonRpcRequest body" and "\<not> is_array body"
    and "getRequestResult env cfg now i (request_method body) (js_get body ''params'') ip requestId s = (s1, Inr y)"
  shows "rpcApp env cfg now ''POST'' (Some body) ip requestId fresh_context s =
    (s1, Answer (Inr (write_response y (Some (request_method body)) fresh_context)))"
  using assms by (cases body) (simp_all add: rpcApp_def handleSingleRequest_def single_response_def is_array_def)

text \<open>The HTTP status of an error response after the conformity service.\<close>

definition final_status :: "server_config \<Rightarrow> rpc_error \<Rightarrow> int" where
  "final_status cfg e = (let c = fst (translateRpcErrorToHttpStatus e) in
     if c = 400 \<and> er_code e \<notin> {- 32600, - 32700} then sc_onValidJsonRpcHttpResponseStatusCode cfg else c)"

lemma translate_message [simp]:
  "fst (translateRpcErrorToHttpStatus (e\<lparr>er_message := t\<rparr>)) = fst (translateRpcErrorToHttpStatus e)"
  by (simp add: translateRpcErrorToHttpStatus_def Let_def)

lemma compliance_status:
  assumes "rp_error y = Some e" and "er_code e \<noteq> 0"
  shows "status_of dflt (ensureEthereumJsonRpcCompliance dflt cfg (write_response y m fresh_context)) = final_status cfg e"
  using assms
  by (simp add: ensureEthereumJsonRpcCompliance_def makeSureBodyExistsAndCanBeChecked_def write_response_def fresh_context_def
      status_of_def final_status_def Let_def)

lemma final_status_predefined:
  "final_status cfg (of_predefined e) = (case e of
     CONTRACT_REVERT _ _ \<Rightarrow> 200
   | INTERNAL_ERROR _ \<Rightarrow> 500
   | IP_RATE_LIMIT_EXCEEDED _ \<Rightarrow> 429
   | MIRROR_NODE_UPSTREAM_FAIL c _ \<Rightarrow>
       if c = 404 then sc_onValidJsonRpcHttpResponseStatusCode cfg else if c = 429 then 429 else if c = 501 then 501 else 500
   | INVALID_REQUEST \<Rightarrow> 400
   | PARSE_ERROR \<Rightarrow> 400
   | _ \<Rightarrow> sc_onValidJsonRpcHttpResponseStatusCode cfg)"
  by (cases e) (simp_all add: final_status_def of_predefined_def translateRpcErrorToHttpStatus_def ERROR_CODE_MAP_def
      MIRROR_NODE_ERROR_MAP_def error_data_def)

lemma error_code_nonzero: "error_code e \<noteq> 0"
  by (cases e) simp_all

text \<open>C32: A well-formed POST request that the rate limiter lets pass is answered with what the relay returns for it: a result with status 200;
an error with its code, its data and its message after the request id, and with status 200 for a contract revert, 500 for an
internal error, 429 for a rate limit, 400 for an invalid request, the status that stands for the
upstream status for a failure of the mirror node, and the configured status for every other error.\<close>

theorem http_answer_of_relay:
  assumes "hasValidJsonRpcId cfg body = Some i" and "valid_id i" and "isValidJsonRpcRequest body" and "\<not> is_array body"
    and "env_shouldRateLimit env now ip (request_method body) (limit_of cfg (request_method body)) s = (s1, False)"
    and "env_executeRpcMethod env (request_method body) (js_get body ''params'') (details requestId ip) s1 = (s2, Inr r)"
    and "\<forall>y. dflt (OneBody y) = 200" and "r \<noteq> Inr JUndefined"
  shows "\<exists>ctx y. rpcApp env cfg now ''POST'' (Some body) ip requestId fresh_context s = (s2, Answer (Inr ctx)) \<and>
    ct_body ctx = OneBody y \<and> rp_id y = i \<and>
    (case r of
       Inr v \<Rightarrow> rp_result y = Some v \<and> status_of dflt (ensureEthereumJsonRpcCompliance dflt cfg ctx) = 200
     | Inl e \<Rightarrow> rp_error y = Some \<lparr>er_code = error_code e,
             er_message = units (''[Request ID: '' @ requestId @ ''] '') @ error_message e, er_data = error_data e\<rparr> \<and>
         status_of dflt (ensureEthereumJsonRpcCompliance dflt cfg ctx) = (case e of
           CONTRACT_REVERT _ _ \<Rightarrow> 200
         | INTERNAL_ERROR _ \<Rightarrow> 500
         | IP_RATE_LIMIT_EXCEEDED _ \<Rightarrow> 429
         | MIRROR_NODE_UPSTREAM_FAIL c _ \<Rightarrow>
             if c = 404 then sc_onValidJsonRpcHttpResponseStatusCode cfg else if c = 429 then 429 else if c = 501 then 501 else 500
         | INVALID_REQUEST \<Rightarrow> 400
         | PARSE_ERROR \<Rightarrow> 400
         | _ \<Rightarrow> sc_onValidJsonRpcHttpResponseStatusCode cfg))"
proof -
  let ?y = "case r of
      Inr v \<Rightarrow> \<lparr>rp_jsonrpc = JString ''2.0'', rp_id = i, rp_result = Some v, rp_error = None\<rparr>
    | Inl e \<Rightarrow> \<lparr>rp_jsonrpc = JString ''2.0'', rp_id = i, rp_result = None,
        rp_error = Some ((of_predefined e)\<lparr>er_message := units (request_id_prefix requestId) @ error_message e\<rparr>)\<rparr>"
  have "getRequestResult env cfg now i (request_method body) (js_get body ''params'') ip requestId s = (s2, Inr ?y)"
    using assms by (cases r) (simp_all add: getRequestResult_def check_limit_def run_method_def respond_def catch_internal_def
        jsonRespResult_def jsonRespError_def of_predefined_def)
  note app = rpcApp_single [OF assms(1,3,4) this]
  show ?thesis
  proof (cases r)
    case (Inl e)
    have "final_status cfg ((of_predefined e)\<lparr>er_message := t\<rparr>) = final_status cfg (of_predefined e)" for t
      by (simp add: final_status_def)
    moreover have "status_of dflt (ensureEthereumJsonRpcCompliance dflt cfg (write_response ?y (Some (request_method body)) fresh_context)) =
        final_status cfg ((of_predefined e)\<lparr>er_message := units (request_id_prefix requestId) @ error_message e\<rparr>)"
      using Inl by (intro compliance_status) (simp_all add: of_predefined_def error_code_nonzero)
    ultimately have "status_of dflt (ensureEthereumJsonRpcCompliance dflt cfg (write_response ?y (Some (request_method body)) fresh_context)) =
        final_status cfg (of_predefined e)" by simp
    then show ?thesis unfolding app final_status_predefined using Inl
      by (auto simp: write_response_def of_predefined_def request_id_prefix_def Let_def)
  next
    case (Inr v)
    then show ?thesis unfolding app using assms(7)
      by (auto simp: write_response_def ensureEthereumJsonRpcCompliance_def makeSureBodyExistsAndCanBeChecked_def status_of_def
          fresh_context_def)
  qed
qed

section \<open>The relay behind the server\<close>

text \<open>
  \<open>Relay.executeRpcMethod\<close> passes the call on to the dispatcher, for which absent parameters are no parameters.
  What the dispatcher does with parameters that are not an array, outside the types of the code, is an argument.
\<close>

definition executeRpcMethod ::
    "(string \<Rightarrow> jv \<Rightarrow> request_details \<Rightarrow> 'w dispatcher \<Rightarrow> 'w dispatcher \<times> (predefined + jv)) \<Rightarrow> int \<Rightarrow> 'w registry \<Rightarrow>
     string \<Rightarrow> jv \<Rightarrow> request_details \<Rightarrow> 'w dispatcher \<Rightarrow> 'w dispatcher \<times> (predefined + jv)" where
  "executeRpcMethod untyped itx registry m params rd d = (case params of
     JUndefined \<Rightarrow> dispatch itx registry m [] rd d
   | JArray ps \<Rightarrow> dispatch itx registry m ps rd d
   | _ \<Rightarrow> untyped m params rd d)"

definition relay_env ::
    "bool \<Rightarrow> 'r redis_commands \<Rightarrow> int \<Rightarrow> (string \<Rightarrow> jv \<Rightarrow> request_details \<Rightarrow> 'w dispatcher \<Rightarrow> 'w dispatcher \<times> (predefined + jv)) \<Rightarrow>
     int \<Rightarrow> 'w registry \<Rightarrow> ('r rate_service \<times> 'w dispatcher) server_env" where
  "relay_env rateLimitDisabled cmds duration untyped itx registry =
     \<lparr>env_shouldRateLimit = (\<lambda>now ip m limit (sv, d).
        let (sv1, b) = shouldRateLimit rateLimitDisabled cmds duration now ip m limit sv in ((sv1, d), b)),
      env_executeRpcMethod = (\<lambda>m params rd (sv, d).
        let (d1, r) = executeRpcMethod untyped itx registry m params rd d in ((sv, d1), Inr r))\<rparr>"

section \<open>The Forwarded header\<close>

fun index_of :: "string \<Rightarrow> string \<Rightarrow> nat option" where
  "index_of p [] = (if p = [] then Some 0 else None)"
| "index_of p (c # s) = (if startsWith (c # s) p then Some 0 else map_option Suc (index_of p s))"

definition DQ :: char where
  "DQ = CHR 0x22"

definition ends_value :: "char \<Rightarrow> bool" where
  "ends_value c \<longleftrightarrow> c = CHR '';'' \<or> c = CHR '','' \<or> c = CHR '' '' \<or> c = CHR 0x09"

text \<open>The address that starts a text: quoted, in brackets, or up to a separator.\<close>

definition forwarded_value :: "string \<Rightarrow> string option" where
  "forwarded_value rest = (case rest of
     [] \<Rightarrow> None
   | c # cs \<Rightarrow>
       if c = DQ
       then (if DQ \<notin> set cs then None
             else let ip = takeWhile (\<lambda>x. x \<noteq> DQ) cs in
               Some (if startsWith ip ''['' \<and> last ip = CHR '']'' then butlast (tl ip) else ip))
       else if c = CHR ''[''
       then (if CHR '']'' \<notin> set cs then None else Some (takeWhile (\<lambda>x. x \<noteq> CHR '']'') cs))
       else Some (takeWhile (\<lambda>x. \<not> ends_value x) rest))"

definition address_char :: "char \<Rightarrow> bool" where
  "address_char c \<longleftrightarrow> is_digit_in 16 c \<or> c = CHR '':'' \<or> c = CHR ''.''"

definition valid_address :: "string \<Rightarrow> bool" where
  "valid_address ip \<longleftrightarrow> ip \<noteq> [] \<and> length ip \<le> 45 \<and> list_all address_char ip"

definition parseForwardedHeader :: "string \<Rightarrow> string option" where
  "parseForwardedHeader forwardedHeader =
     (if length forwardedHeader > 1000 then None
      else let firstEntry = trim (hd (split_on (CHR '','') forwardedHeader)) in
        if firstEntry = [] then None
        else case index_of ''for='' (toLowerCase firstEntry) of
            None \<Rightarrow> None
          | Some forIndex \<Rightarrow> (case forwarded_value (drop (forIndex + 4) firstEntry) of
                None \<Rightarrow> None
              | Some ip \<Rightarrow> if valid_address ip then Some ip else None))"

record http_headers =
  hd_x_forwarded_for :: "string option"
  hd_forwarded :: "string option"
  hd_requestId :: string
  hd_query :: string

definition forwarded_middleware :: "http_headers \<Rightarrow> http_headers" where
  "forwarded_middleware h =
     (if (hd_x_forwarded_for h = None \<or> hd_x_forwarded_for h = Some []) \<and> hd_forwarded h \<noteq> None \<and> hd_forwarded h \<noteq> Some []
      then (case parseForwardedHeader (the (hd_forwarded h)) of
          Some clientIp \<Rightarrow> h\<lparr>hd_x_forwarded_for := Some clientIp\<rparr> | None \<Rightarrow> h)
      else h)"

text \<open>The request id: the header named query, then \<open>Request-Id\<close>, then a new one.\<close>

definition request_id_middleware :: "string \<Rightarrow> http_headers \<Rightarrow> string" where
  "request_id_middleware uuid h =
     (if hd_query h \<noteq> [] then hd_query h else if hd_requestId h \<noteq> [] then hd_requestId h else uuid)"

section \<open>Routes\<close>

record health =
  he_redis :: bool
  he_chainId :: string
  he_metrics :: string
  he_adminDisabled :: bool
  he_config :: string
  he_openrpc :: string

definition INVALID_METHOD_RESPONSE_BODY :: rpc_response where
  "INVALID_METHOD_RESPONSE_BODY = \<lparr>rp_jsonrpc = JString ''2.0'', rp_id = JNullV, rp_result = None,
     rp_error = Some \<lparr>er_code = - 32600, er_message = units ''Invalid HTTP method: only POST is allowed'', er_data = NoData\<rparr>\<rparr>"

definition text_answer :: "bool \<Rightarrow> http_context \<Rightarrow> http_context" where
  "text_answer healthy ctx = ctx\<lparr>ct_status := Some (if healthy then 200 else 503), ct_body := TextBody (if healthy then ''OK'' else ''DOWN'')\<rparr>"

text \<open>\<open>None\<close>: the request goes on to the JSON-RPC application.\<close>

definition routes :: "health \<Rightarrow> string \<Rightarrow> string \<Rightarrow> http_context \<Rightarrow> http_context option" where
  "routes he url httpMethod ctx =
     (if url = ''/health/liveness'' then Some (text_answer (he_redis he) ctx)
      else if url = ''/health/readiness'' then Some (text_answer (he_redis he \<and> he_chainId he \<noteq> ''0x'') ctx)
      else if url = ''/metrics'' then Some (ctx\<lparr>ct_status := Some 200, ct_body := TextBody (he_metrics he)\<rparr>)
      else if url = ''/config'' then
        (if he_adminDisabled he then Some ctx
         else Some (ctx\<lparr>ct_status := Some 200, ct_body := TextBody (he_config he)\<rparr>))
      else if url = ''/openrpc'' then Some (ctx\<lparr>ct_status := Some 200, ct_body := TextBody (he_openrpc he)\<rparr>)
      else if httpMethod = ''POST'' then None
      else if httpMethod = ''OPTIONS'' then Some (ctx\<lparr>ct_status := Some 200\<rparr>)
      else Some (ctx\<lparr>ct_status := Some 405, ct_body := OneBody INVALID_METHOD_RESPONSE_BODY\<rparr>))"

section \<open>Properties of the header parser\<close>

lemma parseForwardedHeader_valid: "parseForwardedHeader h = Some ip \<Longrightarrow> valid_address ip"
  by (auto simp: parseForwardedHeader_def Let_def split: if_splits option.splits)

text \<open>The four ways to write an address in the header.\<close>

datatype address_style = Plain | Quoted | Bracketed | QuotedBracketed

fun write_address :: "address_style \<Rightarrow> string \<Rightarrow> string" where
  "write_address Plain ip = ip"
| "write_address Quoted ip = DQ # ip @ [DQ]"
| "write_address Bracketed ip = CHR ''['' # ip @ '']''"
| "write_address QuotedBracketed ip = DQ # CHR ''['' # ip @ CHR '']'' # [DQ]"

lemma hd_split_on: "hd (split_on c s) = takeWhile (\<lambda>x. x \<noteq> c) s"
  by (induction s) (auto split: list.splits simp: neq_Nil_conv)

lemma trim_keeps_front:
  assumes "a \<noteq> []" and "\<not> is_space (hd a)" and "\<not> is_space (last a)"
  shows "\<exists>r'. trim (a @ r) = a @ r' \<and> (r' = [] \<or> r \<noteq> [] \<and> hd r' = hd r)"
proof -
  have "dropWhile is_space (a @ r) = a @ r" using assms(1,2) by (cases a) auto
  moreover have "dropWhile is_space (rev (a @ r)) = dropWhile is_space (rev r) @ rev a"
  proof (cases "\<forall>x \<in> set r. is_space x")
    case True
    have "dropWhile is_space (rev a) = rev a" using assms(1,3) by (cases a rule: rev_cases) auto
    then show ?thesis using True by (simp add: dropWhile_append)
  qed (auto simp: dropWhile_append)
  ultimately have t: "trim (a @ r) = a @ rev (dropWhile is_space (rev r))" by (simp add: trim_def)
  obtain p where p: "rev r = p @ dropWhile is_space (rev r)" using takeWhile_dropWhile_id by metis
  then have "r = rev (dropWhile is_space (rev r)) @ rev p" by (metis rev_append rev_rev_ident)
  then have "rev (dropWhile is_space (rev r)) = [] \<or> r \<noteq> [] \<and> hd (rev (dropWhile is_space (rev r))) = hd r"
    by (metis append_is_Nil_conv hd_append2)
  with t show ?thesis by blast
qed

lemma address_char_plain:
  assumes "address_char c"
  shows "c \<noteq> DQ" "c \<noteq> CHR ''[''" "c \<noteq> CHR '']''" "\<not> ends_value c" "\<not> is_space c" "c \<noteq> CHR '',''"
  using assms
  by (auto simp: address_char_def DQ_def ends_value_def is_space_def is_digit_in_def digit_val_def Let_def
      split: if_splits option.splits)

lemma forwarded_value_write:
  assumes "valid_address ip" and "r = [] \<or> hd r = CHR '';''"
  shows "forwarded_value (write_address style ip @ r) = Some ip"
proof -
  have c: "\<forall>x \<in> set ip. address_char x" and ne: "ip \<noteq> []" using assms(1) by (auto simp: valid_address_def list_all_iff)
  have tw: "takeWhile P (ip @ t) = ip" if "\<forall>x \<in> set ip. P x" "t = [] \<or> \<not> P (hd t)" for P t
    using that by (cases t) (simp_all add: takeWhile_append1 takeWhile_append2)
  have hd: "hd ip \<in> set ip" using ne by simp
  show ?thesis
  proof (cases style)
    case Plain
    obtain x xs where x: "ip = x # xs" using ne by (cases ip) auto
    have "r = [] \<or> ends_value (hd r)" using assms(2) by (auto simp: ends_value_def)
    then show ?thesis using Plain address_char_plain c tw [of "\<lambda>x. \<not> ends_value x" r] x
      by (auto simp: forwarded_value_def)
  next
    case Quoted
    have "\<not> startsWith ip ''[''" using c ne address_char_plain(2) by (cases ip) (auto simp: startsWith_def)
    then show ?thesis using Quoted c address_char_plain(1) tw [of "\<lambda>x. x \<noteq> DQ" "DQ # r"]
      by (auto simp: forwarded_value_def Let_def)
  next
    case Bracketed
    then show ?thesis using c address_char_plain(3) tw [of "\<lambda>x. x \<noteq> CHR '']''" "CHR '']'' # r"]
      by (auto simp: forwarded_value_def DQ_def)
  next
    case QuotedBracketed
    have "takeWhile (\<lambda>x. x \<noteq> DQ) (CHR ''['' # ip @ CHR '']'' # DQ # r) = CHR ''['' # ip @ '']''"
      using c address_char_plain(1) by (simp add: DQ_def takeWhile_append2)
    then show ?thesis using QuotedBracketed by (auto simp: forwarded_value_def Let_def startsWith_def)
  qed
qed

lemma write_address_chars:
  assumes "valid_address ip"
  shows "CHR '','' \<notin> set (write_address style ip)" "\<not> is_space (last (write_address style ip))" "write_address style ip \<noteq> []"
  using assms address_char_plain
  by (cases style; fastforce simp: valid_address_def list_all_iff DQ_def is_space_def)+

lemma lower_char_space: "is_space c \<or> c = CHR '','' \<Longrightarrow> lower_char c = c"
  by (auto simp: is_space_def lower_char_def upper_char_def Let_def)

text \<open>C40: The parser of the Forwarded header returns only addresses: at most 45 characters, hexadecimal
digits, colons and dots. And it reads every such address back from the first entry of a header of at most 1000
characters, whichever case the key is in, whether the address is plain, quoted, in brackets or both, and whatever parameters and entries follow.\<close>

theorem forwarded_header_roundtrip:
  assumes "toLowerCase key = ''for=''" and "valid_address ip" and "rest = [] \<or> hd rest = CHR '';'' \<or> hd rest = CHR '',''"
    and "length (key @ write_address style ip @ rest) \<le> 1000"
  shows "parseForwardedHeader (key @ write_address style ip @ rest) = Some ip \<and>
    (\<forall>h a. parseForwardedHeader h = Some a \<longrightarrow> a \<noteq> [] \<and> length a \<le> 45 \<and> list_all address_char a)"
proof
  let ?a = "key @ write_address style ip"
  have len: "length key = 4" using arg_cong [OF assms(1), of length] by simp
  have low: "map lower_char key = ''for=''" using assms(1) by (simp add: toLowerCase_def)
  have key: "\<forall>x \<in> set key. lower_char x \<in> set ''for=''" by (metis imageI list.set_map low)
  have sp: "\<not> is_space x \<and> x \<noteq> CHR '',''" if "x \<in> set key" for x
  proof -
    have "list_all (\<lambda>c. \<not> is_space c \<and> c \<noteq> CHR '','') ''for=''" by code_simp
    then have "\<not> is_space (lower_char x) \<and> lower_char x \<noteq> CHR '',''" using key that unfolding list_all_iff by blast
    then show ?thesis using lower_char_space [of x] by auto
  qed
  have comma: "CHR '','' \<notin> set ?a" using sp write_address_chars(1) [OF assms(2)] by auto
  then have first: "hd (split_on (CHR '','') (?a @ rest)) = ?a @ takeWhile (\<lambda>x. x \<noteq> CHR '','') rest"
    unfolding hd_split_on by (intro takeWhile_append2) auto
  have ends: "?a \<noteq> []" "\<not> is_space (hd ?a)" "\<not> is_space (last ?a)"
    using len sp write_address_chars(2,3) [OF assms(2)] by (cases key; auto)+
  obtain r where r: "trim (?a @ takeWhile (\<lambda>x. x \<noteq> CHR '','') rest) = ?a @ r" "r = [] \<or> takeWhile (\<lambda>x. x \<noteq> CHR '','') rest \<noteq> [] \<and> hd r = hd (takeWhile (\<lambda>x. x \<noteq> CHR '','') rest)"
    using trim_keeps_front [OF ends] by blast
  have semi: "r = [] \<or> hd r = CHR '';''"
    using r(2) assms(3) by (cases rest) (auto split: if_splits)
  have "index_of ''for='' (toLowerCase (?a @ r)) = Some 0"
    using assms(1) by (simp add: startsWith_def)
  then show "parseForwardedHeader (key @ write_address style ip @ rest) = Some ip"
    using first r(1) semi forwarded_value_write [OF assms(2), of r style] assms(2,4) len ends(1)
    by (auto simp: parseForwardedHeader_def Let_def)
qed (auto dest!: parseForwardedHeader_valid simp: valid_address_def)

section \<open>Concrete requests\<close>

definition demo_cfg :: server_config where
  "demo_cfg = \<lparr>sc_methodConfig = [''eth_call'' \<mapsto> 5], sc_defaultRateLimit = 200, sc_requestIdIsOptional = False, sc_batchRequestsEnabled = True,
     sc_batchRequestsMaxSize = 100, sc_disallowedMethods = [''eth_sendRawTransaction''], sc_onValidJsonRpcHttpResponseStatusCode = 200\<rparr>"

definition demo_env :: "nat server_env" where
  "demo_env = \<lparr>env_shouldRateLimit = (\<lambda>_ _ m _ s. (s, m = ''eth_call'')),
     env_executeRpcMethod = (\<lambda>m _ _ s. (Suc s, Inr (if m = ''eth_chainId'' then Inr (JString ''0x12a'') else Inl (METHOD_NOT_FOUND m))))\<rparr>"

definition sample_request :: "jv \<Rightarrow> string \<Rightarrow> jv" where
  "sample_request i m = JObject [(''id'', i), (''jsonrpc'', JString ''2.0''), (''method'', JString m)]"

definition demo_body :: "jv list" where
  "demo_body = [sample_request (JNumV 1) ''eth_chainId'', JNumV 5, sample_request (JString ''x'') ''eth_call'']"

definition demo_batch :: "nat batch" where
  "demo_batch = \<lparr>bt_items = map (start_item demo_cfg ''r'') demo_body, bt_state = 0\<rparr>"

definition demo_advance :: "nat \<Rightarrow> nat batch \<Rightarrow> nat batch" where
  "demo_advance k = advance_at demo_env demo_cfg 0 ''ip'' ''r'' k"

definition demo_done :: "nat batch" where
  "demo_done = demo_advance 0 (demo_advance 2 (demo_advance 0 demo_batch))"

lemma demo_step:
  "k < length (bt_items b) \<and> \<not> settled (bt_items b ! k) \<Longrightarrow> batch_step demo_env demo_cfg ''ip'' ''r'' b (demo_advance k b)"
  unfolding demo_advance_def by (blast intro: batch_step.item)

lemma demo_reachable: "reachable (batch_start demo_cfg ''r'' demo_body) (batch_step demo_env demo_cfg ''ip'' ''r'') demo_done"
proof -
  have "batch_step demo_env demo_cfg ''ip'' ''r'' demo_batch (demo_advance 0 demo_batch)"
    by (rule demo_step) code_simp
  moreover have "batch_step demo_env demo_cfg ''ip'' ''r'' (demo_advance 0 demo_batch) (demo_advance 2 (demo_advance 0 demo_batch))"
    by (rule demo_step) code_simp
  moreover have "batch_step demo_env demo_cfg ''ip'' ''r'' (demo_advance 2 (demo_advance 0 demo_batch)) demo_done"
    unfolding demo_done_def by (rule demo_step) code_simp
  moreover have "batch_start demo_cfg ''r'' demo_body demo_batch" by (simp add: batch_start_def demo_batch_def)
  ultimately show ?thesis by (meson reachable.start reachable.advance)
qed

definition demo_results :: "rpc_response list" where
  "demo_results = (case Promise_all (bt_items demo_done) of Some (Inr ys) \<Rightarrow> ys | _ \<Rightarrow> [])"

lemma demo_results: "Promise_all (bt_items demo_done) = Some (Inr demo_results)"
  by code_simp

theorem batch_responses_in_order_witness:
  "length demo_results = 3 \<and> rp_id (demo_results ! 0) = JNumV 1 \<and> rp_id (demo_results ! 1) = JNullV \<and> rp_id (demo_results ! 2) = JString ''x''"
proof -
  have body: "length demo_body = 3" by (simp add: demo_body_def)
  have ids: "item_id demo_cfg (demo_body ! 0) = JNumV 1" "item_id demo_cfg (demo_body ! 1) = JNullV" "item_id demo_cfg (demo_body ! 2) = JString ''x''"
    by code_simp+
  show ?thesis using batch_responses_in_order [OF demo_reachable demo_results] unfolding body ids [symmetric] by simp
qed

lemma batch_answered_witness:
  "\<exists>b' results. (batch_step demo_env demo_cfg ''ip'' ''r'')\<^sup>*\<^sup>* demo_done b' \<and> Promise_all (bt_items b') = Some (Inr results)"
proof (rule batch_answered [OF demo_reachable])
  have "list_all (\<lambda>item. valid_id (item_id demo_cfg item)) demo_body" by code_simp
  then show "\<forall>item \<in> set demo_body. valid_id (item_id demo_cfg item)" by (simp add: list_all_iff)
qed

definition koa_status :: "http_body \<Rightarrow> int" where
  "koa_status body = (case body of NoBody \<Rightarrow> 404 | _ \<Rightarrow> 200)"

definition demo_answer :: http_context where
  "demo_answer = write_response \<lparr>rp_jsonrpc = JString ''2.0'', rp_id = JNullV, rp_result = None,
     rp_error = Some (spec_InvalidRequest\<lparr>er_message := units (request_id_prefix ''r'') @ er_message spec_InvalidRequest\<rparr>)\<rparr> None fresh_context"


definition echo_state :: "(string \<Rightarrow> (nat \<times> int option) option) rate_service \<times> unit dispatcher" where
  "echo_state = (\<lparr>rv_store = LruStore Map.empty, rv_counter = (\<lambda>_. 0)\<rparr>, \<lparr>dp_world = (), dp_errors = (\<lambda>_. 0)\<rparr>)"

theorem http_answer_of_relay_witness:
  "\<exists>ctx. snd (rpcApp (relay_env True reference_redis 1000 (\<lambda>m ps rd d. (d, Inl INVALID_PARAMETERS)) 2 Map.empty) demo_cfg 0 ''POST''
      (Some (sample_request (JNumV 1) ''eth_foo'')) ''ip'' ''r'' fresh_context echo_state) = Answer (Inr ctx) \<and>
    status_of koa_status (ensureEthereumJsonRpcCompliance koa_status demo_cfg ctx) = 200"
proof -
  have exec: "env_executeRpcMethod (relay_env True reference_redis 1000 (\<lambda>m ps rd d. (d, Inl INVALID_PARAMETERS)) 2 Map.empty)
      (request_method (sample_request (JNumV 1) ''eth_foo'')) (js_get (sample_request (JNumV 1) ''eth_foo'') ''params'') (details ''r'' ''ip'') echo_state =
      (echo_state, Inr (Inl (METHOD_NOT_FOUND ''eth_foo'')))"
    by (simp add: relay_env_def executeRpcMethod_def sample_request_def js_get_def dispatch_defs echo_state_def request_method_def
        throwUnregisteredRpcMethods_def startsWith_def)
  show ?thesis
    using http_answer_of_relay [OF _ _ _ _ _ exec, of demo_cfg "JNumV 1" 0 echo_state koa_status]
    by (auto simp: sample_request_def hasValidJsonRpcId_def typeof_object_def valid_id_def isValidJsonRpcRequest_def js_get_def is_array_def
        relay_env_def shouldRateLimit_def echo_state_def koa_status_def demo_cfg_def)
qed

theorem forwarded_header_roundtrip_witness:
  "parseForwardedHeader (''For='' @ write_address QuotedBracketed ''2001:db8::1'' @ '';by=10.0.0.1, for=1.2.3.4'') = Some ''2001:db8::1''"
proof -
  have "toLowerCase ''For='' = ''for=''" "valid_address ''2001:db8::1''" by code_simp+
  then show ?thesis
    using forwarded_header_roundtrip [of "''For=''" "''2001:db8::1''" "'';by=10.0.0.1, for=1.2.3.4''" QuotedBracketed] by simp
qed

section \<open>Defects\<close>

text \<open>An error answer to a request with id 0 loses its id in the conformity service, which takes 0 for a missing id.\<close>

lemma zero_id_lost:
  "\<exists>ctx y. snd (rpcApp demo_env demo_cfg 0 ''POST'' (Some (sample_request (JNumV 0) ''eth_foo'')) ''ip'' ''r'' fresh_context 0) = Answer (Inr ctx) \<and>
     ct_body (ensureEthereumJsonRpcCompliance koa_status demo_cfg ctx) = OneBody y \<and> rp_id y = JNullV"
proof -
  have "(case snd (rpcApp demo_env demo_cfg 0 ''POST'' (Some (sample_request (JNumV 0) ''eth_foo'')) ''ip'' ''r'' fresh_context 0) of
      Answer (Inr ctx) \<Rightarrow> (case ct_body (ensureEthereumJsonRpcCompliance koa_status demo_cfg ctx) of OneBody y \<Rightarrow> rp_id y = JNullV | _ \<Rightarrow> False)
    | _ \<Rightarrow> False)" by code_simp
  then show ?thesis by (auto split: outcome.splits sum.splits http_body.splits)
qed

text \<open>One request of a batch with an id of the wrong type (an object, for example) makes the whole batch fail.\<close>

lemma bad_id_fails_batch:
  assumes "reachable (batch_start cfg requestId body) (batch_step env cfg ip requestId) b" and "item \<in> set body" and "\<not> valid_id (item_id cfg item)"
  shows "\<nexists>results. Promise_all (bt_items b) = Some (Inr results)"
proof
  assume "\<exists>results. Promise_all (bt_items b) = Some (Inr results)"
  then obtain results where "list_all2 (item_inv cfg requestId) body (map (Settled \<circ> Inr) results)"
    using http_batch.reachable_inv [OF assms(1)] by (auto simp: batch_inv_def Promise_all_Inr_iff)
  then show False using assms(2,3) by (fastforce simp: list_all2_conv_all_nth in_set_conv_nth item_inv_def answers_def well_formed_def)
qed

end
