(* ===== verification/WsServer.thy ===== *)
theory WsServer
  imports HttpServer
begin

text \<open>
  The WebSocket server (\<open>packages/ws-server/src/\<close>): the connection limiter (\<open>metrics/connectionLimiter.ts\<close>),
  subscriptions and polls (\<open>service/\<close>), the controllers (\<open>controllers/\<close>, \<open>utils/\<close>) and the events of a
  connection (\<open>webSocketServer.ts\<close>). Gauges, counters and histograms are left out.

  A connection is a record with the fields the code keeps on the socket and what was sent to it. Ids the code draws at
  random are arguments. Time is an argument; a timer is the instant at which it fires.
\<close>

section \<open>Connections\<close>

type_synonym ws_error = "int \<times> string"

definition CONNECTION_IP_LIMIT_EXCEEDED :: ws_error where
  "CONNECTION_IP_LIMIT_EXCEEDED = (4001, ''Exceeded maximum connections from a single IP address'')"

definition TTL_EXPIRED :: ws_error where
  "TTL_EXPIRED = (4002, ''Connection timeout expired'')"

definition CONNECTION_LIMIT_EXCEEDED :: ws_error where
  "CONNECTION_LIMIT_EXCEEDED = (4003, ''Connection limit exceeded'')"

text \<open>A limit error carries the code, the message and the limit; a notification its data and subscription.\<close>

datatype ws_message =
    LimitError ws_error int
  | Response rpc_response
  | Responses "rpc_response list"
  | Notification jv string

text \<open>The ready state (3 for closed) is the library's; the calls of \<open>close\<close> and \<open>send\<close> are recorded.\<close>

record socket =
  so_ip :: string
  so_ipCounted :: bool
  so_subscriptions :: int
  so_inactivityTTL :: "int option"
  so_readyState :: nat
  so_closed :: "ws_error list"
  so_sent :: "ws_message list"

definition new_socket :: "string \<Rightarrow> socket" where
  "new_socket ip = \<lparr>so_ip = ip, so_ipCounted = False, so_subscriptions = 0, so_inactivityTTL = None, so_readyState = 1,
     so_closed = [], so_sent = []\<rparr>"

definition ws_send :: "ws_message \<Rightarrow> socket \<Rightarrow> socket" where
  "ws_send m so = so\<lparr>so_sent := so_sent so @ [m]\<rparr>"

definition ws_close :: "ws_error \<Rightarrow> socket \<Rightarrow> socket" where
  "ws_close e so = so\<lparr>so_closed := so_closed so @ [e]\<rparr>"

record ws_config =
  wc_connectionLimit :: int
  wc_connectionLimitPerIp :: int
  wc_subscriptionLimit :: int
  wc_maxInactivityTTL :: int
  wc_sameSubForSameEvent :: bool
  wc_subscriptionsEnabled :: bool
  wc_newHeadsEnabled :: bool
  wc_multipleAddressesEnabled :: bool
  wc_batchRequestsEnabled :: bool
  wc_batchRequestsMaxSize :: nat
  wc_requestIdIsOptional :: bool
  wc_disallowedMethods :: "string list"
  wc_methodConfiguration :: "string \<rightharpoonup> nat"

section \<open>The connection limiter\<close>

record ws_limiter =
  wl_connectedClients :: int
  wl_clientIps :: "string \<rightharpoonup> int"

definition startInactivityTTLTimer :: "ws_config \<Rightarrow> int \<Rightarrow> socket \<Rightarrow> socket" where
  "startInactivityTTLTimer cfg now so = so\<lparr>so_inactivityTTL := Some (now + wc_maxInactivityTTL cfg)\<rparr>"

text \<open>The callback of the timer.\<close>

definition inactivity_expired :: "ws_config \<Rightarrow> socket \<Rightarrow> socket" where
  "inactivity_expired cfg so =
     (let so1 = so\<lparr>so_inactivityTTL := None\<rparr> in
      if so_readyState so \<noteq> 3 then ws_close TTL_EXPIRED (ws_send (LimitError TTL_EXPIRED (wc_maxInactivityTTL cfg)) so1)
      else so1)"

text \<open>Clears the timer and starts it anew.\<close>

definition resetInactivityTTLTimer :: "ws_config \<Rightarrow> int \<Rightarrow> socket \<Rightarrow> socket" where
  "resetInactivityTTLTimer cfg now so = startInactivityTTLTimer cfg now (so\<lparr>so_inactivityTTL := None\<rparr>)"

text \<open>\<open>connections\<close> is the number of connections the HTTP server reports.\<close>

definition incrementCounters :: "int \<Rightarrow> socket \<Rightarrow> ws_limiter \<Rightarrow> ws_limiter \<times> socket" where
  "incrementCounters connections so l =
     (let n = (case wl_clientIps l (so_ip so) of None \<Rightarrow> 1 | Some c \<Rightarrow> if c = 0 then 1 else c + 1)
      in (l\<lparr>wl_connectedClients := connections, wl_clientIps := (wl_clientIps l)(so_ip so \<mapsto> n)\<rparr>,
          so\<lparr>so_ipCounted := True, so_subscriptions := 0\<rparr>))"

text \<open>
  The counter of an address is defined while a counted connection of it is open (\<open>ip_count_inv\<close> below);
  \<open>NaN\<close>, the decrement of an undefined counter, does not arise, and the entry would not be deleted.
\<close>

definition decrementCounters :: "socket \<Rightarrow> ws_limiter \<Rightarrow> ws_limiter" where
  "decrementCounters so l =
     (let ips = (if so_ipCounted so
          then (case wl_clientIps l (so_ip so) of
              None \<Rightarrow> wl_clientIps l
            | Some c \<Rightarrow> if c - 1 = 0 then (wl_clientIps l)(so_ip so := None) else (wl_clientIps l)(so_ip so \<mapsto> c - 1))
          else wl_clientIps l)
      in l\<lparr>wl_connectedClients := wl_connectedClients l - 1, wl_clientIps := ips\<rparr>)"

definition applyLimits :: "ws_config \<Rightarrow> int \<Rightarrow> socket \<Rightarrow> ws_limiter \<Rightarrow> socket" where
  "applyLimits cfg now so l =
     (if wl_connectedClients l > wc_connectionLimit cfg
      then ws_close CONNECTION_LIMIT_EXCEEDED (ws_send (LimitError CONNECTION_LIMIT_EXCEEDED (wc_connectionLimit cfg)) so)
      else if (case wl_clientIps l (so_ip so) of None \<Rightarrow> False | Some c \<Rightarrow> c \<noteq> 0 \<and> c > wc_connectionLimitPerIp cfg)
      then ws_close CONNECTION_IP_LIMIT_EXCEEDED (ws_send (LimitError CONNECTION_IP_LIMIT_EXCEEDED (wc_connectionLimitPerIp cfg)) so)
      else startInactivityTTLTimer cfg now so)"

definition incrementSubs :: "socket \<Rightarrow> socket" where
  "incrementSubs so = so\<lparr>so_subscriptions := so_subscriptions so + 1\<rparr>"

definition decrementSubs :: "int \<Rightarrow> socket \<Rightarrow> socket" where
  "decrementSubs amount so = so\<lparr>so_subscriptions := so_subscriptions so - amount\<rparr>"

definition validateSubscriptionLimit :: "ws_config \<Rightarrow> socket \<Rightarrow> bool" where
  "validateSubscriptionLimit cfg so \<longleftrightarrow> so_subscriptions so < wc_subscriptionLimit cfg"

text \<open>A method without configuration makes the code read a property of \<open>undefined\<close>, which throws.\<close>

definition shouldRateLimitOnMethod ::
    "'s server_env \<Rightarrow> ws_config \<Rightarrow> int \<Rightarrow> string \<Rightarrow> string \<Rightarrow> 's \<Rightarrow> 's \<times> (string + bool)" where
  "shouldRateLimitOnMethod env cfg now ip methodName s =
     (if methodName = ''eth_subscribe'' \<or> methodName = ''eth_unsubscribe'' then (s, Inr False)
      else case wc_methodConfiguration cfg methodName of
          None \<Rightarrow> (s, Inl ''Cannot read properties of undefined'')
        | Some methodTotalLimit \<Rightarrow>
            (let (s1, b) = env_shouldRateLimit env now ip methodName methodTotalLimit s in (s1, Inr b)))"

section \<open>Polls\<close>

record poll =
  po_tag :: string
  po_lastPolled :: "string option"

text \<open>The callback of a poll is always the notification of the subscribers of its tag.\<close>

record poller =
  pl_polls :: "poll list"
  pl_interval :: bool
  pl_latestBlock :: "string option"

definition hasPoll :: "string \<Rightarrow> poller \<Rightarrow> bool" where
  "hasPoll tag p \<longleftrightarrow> filter (\<lambda>q. po_tag q = tag) (pl_polls p) \<noteq> []"

definition isPolling :: "poller \<Rightarrow> bool" where
  "isPolling p \<longleftrightarrow> pl_interval p"

definition poller_start :: "poller \<Rightarrow> poller" where
  "poller_start p = p\<lparr>pl_interval := True\<rparr>"

definition poller_stop :: "poller \<Rightarrow> poller" where
  "poller_stop p = (if isPolling p then p\<lparr>pl_interval := False\<rparr> else p)"

definition poller_add :: "string \<Rightarrow> poller \<Rightarrow> poller" where
  "poller_add tag p =
     (let p1 = (if hasPoll tag p then p else p\<lparr>pl_polls := pl_polls p @ [\<lparr>po_tag = tag, po_lastPolled = None\<rparr>]\<rparr>)
      in if isPolling p1 then p1 else poller_start p1)"

definition poller_remove :: "string \<Rightarrow> poller \<Rightarrow> poller" where
  "poller_remove tag p =
     (let p1 = p\<lparr>pl_polls := filter (\<lambda>q. po_tag q \<noteq> tag) (pl_polls p)\<rparr>
      in if pl_polls p1 = [] then poller_stop p1 else p1)"

section \<open>Subscriptions\<close>

record subscriber =
  sb_connection :: string
  sb_subscriptionId :: string

text \<open>The subscribers by tag, in the order in which the tags were added, the cache of recently sent data and the poller.\<close>

record 'c sub_service =
  ss_subscriptions :: "(string \<times> subscriber list) list"
  ss_cache :: 'c
  ss_poller :: poller

definition has_keys :: "jv \<Rightarrow> bool" where
  "has_keys v = (case v of JString t \<Rightarrow> t \<noteq> [] | _ \<Rightarrow> js_keys v \<noteq> [])"

definition subscription_tag :: "string \<Rightarrow> jv \<Rightarrow> string" where
  "subscription_tag event filters = json_stringify (JObject
     ((''event'', JString event) # (if truthy filters \<and> has_keys filters then [(''filters'', filters)] else [])))"

definition subs_at :: "string \<Rightarrow> (string \<times> subscriber list) list \<Rightarrow> subscriber list" where
  "subs_at tag m = (case map_of m tag of None \<Rightarrow> [] | Some xs \<Rightarrow> xs)"

text \<open>\<open>generated\<close> is the random id of a new subscription.\<close>

definition ws_subscribe :: "ws_config \<Rightarrow> string \<Rightarrow> string \<Rightarrow> string \<Rightarrow> jv \<Rightarrow> 'c sub_service \<Rightarrow> 'c sub_service \<times> string" where
  "ws_subscribe cfg generated connection event filters st =
     (let tag = subscription_tag event filters;
          m = (if map_of (ss_subscriptions st) tag = None then ss_subscriptions st @ [(tag, [])] else ss_subscriptions st);
          existing = (if wc_sameSubForSameEvent cfg then List.find (\<lambda>s. sb_connection s = connection) (subs_at tag m) else None)
      in case existing of
          Some sub \<Rightarrow> (st\<lparr>ss_subscriptions := m\<rparr>, sb_subscriptionId sub)
        | None \<Rightarrow>
            (st\<lparr>ss_subscriptions := AList.update tag
                  (subs_at tag m @ [\<lparr>sb_connection = connection, sb_subscriptionId = generated\<rparr>]) m,
                ss_poller := poller_add tag (ss_poller st)\<rparr>, generated))"

text \<open>An absent or empty id stands for all subscriptions of the connection.\<close>

definition unsubscribed :: "string \<Rightarrow> jv \<Rightarrow> subscriber \<Rightarrow> bool" where
  "unsubscribed connection subId sub \<longleftrightarrow>
     sb_connection sub = connection \<and> (\<not> truthy subId \<or> subId = JString (sb_subscriptionId sub))"

definition unsubscribe_tag :: "string \<Rightarrow> jv \<Rightarrow> string \<times> subscriber list \<Rightarrow> 'c sub_service \<times> nat \<Rightarrow> 'c sub_service \<times> nat" where
  "unsubscribe_tag connection subId entry acc =
     (let (tag, subs) = entry; (st, subCount) = acc;
          kept = filter (\<lambda>sub. \<not> unsubscribed connection subId sub) subs;
          n = length (filter (unsubscribed connection subId) subs)
      in (if kept = []
          then st\<lparr>ss_subscriptions := AList.delete tag (ss_subscriptions st), ss_poller := poller_remove tag (ss_poller st)\<rparr>
          else st\<lparr>ss_subscriptions := AList.update tag kept (ss_subscriptions st)\<rparr>, subCount + n))"

definition ws_unsubscribe :: "string \<Rightarrow> jv \<Rightarrow> 'c sub_service \<Rightarrow> 'c sub_service \<times> nat" where
  "ws_unsubscribe connection subId st = fold (unsubscribe_tag connection subId) (ss_subscriptions st) (st, 0)"

section \<open>Notifications\<close>

text \<open>The cache of the service and the hash of a text are parameters: \<open>has\<close> at a time, and \<open>put\<close> at a time.\<close>

record 'c sent_cache =
  sn_has :: "int \<Rightarrow> string \<Rightarrow> 'c \<Rightarrow> bool"
  sn_put :: "int \<Rightarrow> string \<Rightarrow> 'c \<Rightarrow> 'c"
  sn_hash :: "string \<Rightarrow> string"

definition createHash :: "'c sent_cache \<Rightarrow> jv \<Rightarrow> string \<Rightarrow> string" where
  "createHash cache data subscriptionId =
     sn_hash cache (json_stringify (JObject [(''result'', data), (''subscription'', JString subscriptionId)]))"

definition notify_one ::
    "'c sent_cache \<Rightarrow> ws_config \<Rightarrow> int \<Rightarrow> jv \<Rightarrow> subscriber \<Rightarrow> 'c \<times> (string \<rightharpoonup> socket) \<Rightarrow> 'c \<times> (string \<rightharpoonup> socket)" where
  "notify_one cache cfg now data sub cs =
     (let (c, sockets) = cs; h = createHash cache data (sb_subscriptionId sub) in
      if sn_has cache now h c then (c, sockets)
      else (sn_put cache now h c,
        sockets(sb_connection sub := map_option (\<lambda>so. resetInactivityTTLTimer cfg now (ws_send (Notification data (sb_subscriptionId sub)) so))
          (sockets (sb_connection sub)))))"

definition notifySubscribers ::
    "'c sent_cache \<Rightarrow> ws_config \<Rightarrow> int \<Rightarrow> string \<Rightarrow> jv \<Rightarrow> 'c sub_service \<times> (string \<rightharpoonup> socket) \<Rightarrow> 'c sub_service \<times> (string \<rightharpoonup> socket)" where
  "notifySubscribers cache cfg now tag data x =
     (let (st, sockets) = x; (c, sockets1) = fold (notify_one cache cfg now data) (subs_at tag (ss_subscriptions st)) (ss_cache st, sockets)
      in (st\<lparr>ss_cache := c\<rparr>, sockets1))"

text \<open>
  One poll: the call it makes, and what it does with the data. \<open>parse\<close> is \<open>JSON.parse\<close>; an exception ends the
  poll of this tag until the next interval.
\<close>

datatype fetch = GetLogs string jv jv | GetBlockByNumber jv | UnsupportedEvent

definition poll_fetch :: "(string \<Rightarrow> string + jv) \<Rightarrow> ws_config \<Rightarrow> string option \<Rightarrow> poll \<Rightarrow> string + fetch" where
  "poll_fetch parse cfg latestBlock q = res_bind (parse (po_tag q)) (\<lambda>t.
     let event = js_get t ''event''; filters = js_get t ''filters'' in
     Inr (if event = JString ''logs''
       then GetLogs (case po_lastPolled q of
             Some b \<Rightarrow> if b \<noteq> [] then b else (case latestBlock of Some c \<Rightarrow> if c \<noteq> [] then c else ''latest'' | None \<Rightarrow> ''latest'')
           | None \<Rightarrow> (case latestBlock of Some c \<Rightarrow> if c \<noteq> [] then c else ''latest'' | None \<Rightarrow> ''latest''))
         (if truthy (js_get filters ''address'') then js_get filters ''address'' else JNullV)
         (if truthy (js_get filters ''topics'') then js_get filters ''topics'' else JNullV)
       else if event = JString ''newHeads'' \<and> wc_newHeadsEnabled cfg
       then GetBlockByNumber (let i = js_get filters ''includeTransactions'' in if i = JUndefined \<or> i = JNullV then JBool False else i)
       else UnsupportedEvent))"

definition set_property :: "string \<Rightarrow> jv \<Rightarrow> jv \<Rightarrow> string + jv" where
  "set_property k v x = (case x of
     JObject ps \<Rightarrow> Inr (JObject (AList.update k v ps))
   | JUndefined \<Rightarrow> Inl ''Cannot set properties of undefined''
   | JNullV \<Rightarrow> Inl ''Cannot set properties of null''
   | _ \<Rightarrow> Inr x)"

text \<open>The data for the subscribers and the poll afterwards; \<open>latestBlock\<close> is the one known when the answer arrives.\<close>

definition poll_receive :: "string option \<Rightarrow> fetch \<Rightarrow> string + jv \<Rightarrow> poll \<Rightarrow> string + (jv list \<times> poll)" where
  "poll_receive latestBlock f answer q =
     res_bind (case f of
         GetLogs _ _ _ \<Rightarrow> res_bind answer (\<lambda>data. Inr (data, q\<lparr>po_lastPolled := latestBlock\<rparr>))
       | GetBlockByNumber _ \<Rightarrow> res_bind answer (\<lambda>block. res_bind (set_property ''jsonrpc'' (JString ''2.0'') block) (\<lambda>data.
           Inr (data, q\<lparr>po_lastPolled := latestBlock\<rparr>)))
       | UnsupportedEvent \<Rightarrow> Inr (JUndefined, q))
     (\<lambda>(data, q1). Inr (case data of JArray ds \<Rightarrow> ds | d \<Rightarrow> [d], q1))"

section \<open>Controllers\<close>

record ('s, 'c) ws_server =
  wv_limiter :: ws_limiter
  wv_sockets :: "string \<rightharpoonup> socket"
  wv_subs :: "'c sub_service"
  wv_state :: 's

definition constructValidLogSubscriptionFilter :: "jv \<Rightarrow> thrown + jv" where
  "constructValidLogSubscriptionFilter filters =
     (if filters = JUndefined \<or> filters = JNullV then Inl (OtherError (Some ''Cannot convert undefined or null to object''))
      else Inr (JObject (filter (\<lambda>(key, value). value \<noteq> JUndefined \<and> key \<in> {''address'', ''topics''}) (js_entries filters))))"

text \<open>\<open>resolve\<close> asks the mirror node whether an address is a contract or a token.\<close>

definition validateIsContractOrTokenAddress :: "(jv \<Rightarrow> thrown + bool) \<Rightarrow> jv \<Rightarrow> thrown + unit" where
  "validateIsContractOrTokenAddress resolve address = res_bind (resolve address) (\<lambda>isContractOrToken.
     if isContractOrToken then Inr ()
     else Inl (RelayError (JsonRpcErr (INVALID_PARAMETER ''filters.address''
       (js_String address @ '' is not a valid contract or token type or does not exists'')))))"

fun validate_addresses :: "(jv \<Rightarrow> thrown + bool) \<Rightarrow> jv list \<Rightarrow> thrown + unit" where
  "validate_addresses resolve [] = Inr ()"
| "validate_addresses resolve (a # as) =
     res_bind (validateIsContractOrTokenAddress resolve a) (\<lambda>_. validate_addresses resolve as)"

definition validateSubscribeEthLogsParams :: "(jv \<Rightarrow> thrown + bool) \<Rightarrow> jv \<Rightarrow> thrown + unit" where
  "validateSubscribeEthLogsParams resolve filters =
     (case validateEthSubscribeLogsParamObject filters of
        Inl e \<Rightarrow> Inl (RelayError (JsonRpcErr e))
      | Inr _ \<Rightarrow>
          (let address = js_get filters ''address'' in
           if \<not> truthy address then Inr ()
           else case address of
               JArray as \<Rightarrow> validate_addresses resolve as
             | a \<Rightarrow> validateIsContractOrTokenAddress resolve a))"

text \<open>The filters of a subscription to logs, before it is made.\<close>

definition prepare_logs :: "ws_config \<Rightarrow> (jv \<Rightarrow> thrown + bool) \<Rightarrow> jv \<Rightarrow> thrown + jv" where
  "prepare_logs cfg resolve filters =
     res_bind (constructValidLogSubscriptionFilter filters) (\<lambda>validFilters.
     res_bind (validateSubscribeEthLogsParams resolve validFilters) (\<lambda>_.
       if \<not> wc_multipleAddressesEnabled cfg \<and>
          (case js_get validFilters ''address'' of JArray as \<Rightarrow> length as > 1 | _ \<Rightarrow> False)
       then Inl (RelayError (JsonRpcErr (INVALID_PARAMETER ''filters.address'' ''Only one contract address is allowed'')))
       else Inr validFilters))"

text \<open>
  \<open>handleEthSubscribe\<close> up to the subscription itself: the event and the filters to subscribe with. For logs it
  waits for the mirror node, so other events may happen before the subscription is made.
\<close>

definition prepare_subscription :: "ws_config \<Rightarrow> (jv \<Rightarrow> thrown + bool) \<Rightarrow> jv \<Rightarrow> thrown + (string \<times> jv)" where
  "prepare_subscription cfg resolve params =
     (let event = js_get params ''0''; filters = js_get params ''1'' in
      if event = JString ''logs'' then res_bind (prepare_logs cfg resolve filters) (\<lambda>f. Inr (''logs'', f))
      else if event = JString ''newHeads'' \<and> wc_newHeadsEnabled cfg then Inr (''newHeads'', filters)
      else Inl (RelayError (JsonRpcErr UNSUPPORTED_METHOD)))"

text \<open>
  The rest: the subscription is made, the response is built, and only then the subscription is counted; an id of
  the wrong type makes the response fail in between.
\<close>

definition update_socket :: "string \<Rightarrow> (socket \<Rightarrow> socket) \<Rightarrow> ('s, 'c) ws_server \<Rightarrow> ('s, 'c) ws_server" where
  "update_socket c f sv = sv\<lparr>wv_sockets := (wv_sockets sv)(c := map_option f (wv_sockets sv c))\<rparr>"

definition commit_subscription ::
    "ws_config \<Rightarrow> string \<Rightarrow> string \<Rightarrow> jv \<Rightarrow> string \<times> jv \<Rightarrow> ('s, 'c) ws_server \<Rightarrow> ('s, 'c) ws_server \<times> (thrown + rpc_response)" where
  "commit_subscription cfg generated connection i ef sv =
     (let (subs, subId) = ws_subscribe cfg generated connection (fst ef) (snd ef) (wv_subs sv);
          sv1 = sv\<lparr>wv_subs := subs\<rparr>
      in case jsonRespResult i (JString subId) of
          Inl e \<Rightarrow> (sv1, Inl (OtherError (Some e)))
        | Inr y \<Rightarrow> (update_socket connection incrementSubs sv1, Inr y))"

definition sendSubscriptionsDisabledError :: "string \<Rightarrow> thrown + rpc_response" where
  "sendSubscriptionsDisabledError requestId =
     (case jsonRespError JNullV (of_predefined WS_SUBSCRIPTIONS_DISABLED) requestId of
        Inl e \<Rightarrow> Inl (OtherError (Some e)) | Inr y \<Rightarrow> Inr y)"

definition handleEthSubscribe ::
    "ws_config \<Rightarrow> (jv \<Rightarrow> thrown + bool) \<Rightarrow> string \<Rightarrow> string \<Rightarrow> string \<Rightarrow> jv \<Rightarrow> jv \<Rightarrow> ('s, 'c) ws_server \<Rightarrow>
     ('s, 'c) ws_server \<times> (thrown + rpc_response)" where
  "handleEthSubscribe cfg resolve generated requestId connection i params sv =
     (if \<not> wc_subscriptionsEnabled cfg then (sv, sendSubscriptionsDisabledError requestId)
      else case prepare_subscription cfg resolve params of
          Inl e \<Rightarrow> (sv, Inl e)
        | Inr ef \<Rightarrow> commit_subscription cfg generated connection i ef sv)"

definition handleEthUnsubscribe ::
    "ws_config \<Rightarrow> string \<Rightarrow> string \<Rightarrow> jv \<Rightarrow> jv \<Rightarrow> ('s, 'c) ws_server \<Rightarrow> ('s, 'c) ws_server \<times> (thrown + rpc_response)" where
  "handleEthUnsubscribe cfg requestId connection i params sv =
     (if \<not> wc_subscriptionsEnabled cfg then (sv, sendSubscriptionsDisabledError requestId)
      else let (subs, unsubbedCount) = ws_unsubscribe connection (js_get params ''0'') (wv_subs sv)
           in (update_socket connection (decrementSubs (int unsubbedCount)) (sv\<lparr>wv_subs := subs\<rparr>),
               case jsonRespResult i (JBool (unsubbedCount \<noteq> 0)) of Inl e \<Rightarrow> Inl (OtherError (Some e)) | Inr y \<Rightarrow> Inr y))"

section \<open>Requests\<close>

text \<open>The keys of the table of supported methods are the names in capitals.\<close>

definition METHODS :: "string list" where
  "METHODS = [''eth_call'', ''eth_chainId'', ''eth_getLogs'', ''eth_getCode'', ''eth_gasPrice'', ''eth_subscribe'', ''eth_newFilter'',
     ''eth_getBalance'', ''eth_unsubscribe'', ''eth_blockNumber'', ''eth_estimateGas'', ''eth_getStorageAt'', ''eth_getBlockByHash'',
     ''eth_getBlockByNumber'', ''eth_sendRawTransaction'', ''eth_getTransactionCount'', ''eth_getTransactionByHash'',
     ''eth_getTransactionReceipt'', ''eth_maxPriorityFeePerGas'', ''web3_clientVersion'', ''web3_sha3'']"

text \<open>Letters outside ASCII have no capital that occurs in the table.\<close>

definition upper_ascii :: "string \<Rightarrow> string" where
  "upper_ascii s = map (\<lambda>c. let n = of_char c :: nat in if 97 \<le> n \<and> n \<le> 122 then char_of (n - 32) else c) s"

definition verifySupportedMethod :: "jv \<Rightarrow> string + bool" where
  "verifySupportedMethod m = (case m of
     JString s \<Rightarrow> Inr (upper_ascii s \<in> upper_ascii ` set METHODS)
   | _ \<Rightarrow> Inl ''method.toUpperCase is not a function'')"

text \<open>The id of a valid request, which may be the default.\<close>

definition ws_validateJsonRpcRequest :: "ws_config \<Rightarrow> jv \<Rightarrow> jv option" where
  "ws_validateJsonRpcRequest cfg request =
     (if js_get request ''jsonrpc'' \<noteq> JString ''2.0'' \<or> map_of (js_entries request) ''method'' = None then None
      else case map_of (js_entries request) ''id'' of
          Some i \<Rightarrow> Some i
        | None \<Rightarrow> if wc_requestIdIsOptional cfg then Some (JString ''0'') else None)"

definition or_null :: "jv \<Rightarrow> jv" where
  "or_null i = (if truthy i then i else JNullV)"

definition handleSendingRequestsToRelay ::
    "'s server_env \<Rightarrow> jv \<Rightarrow> string \<Rightarrow> jv \<Rightarrow> request_details \<Rightarrow> 's \<Rightarrow> 's \<times> (string + rpc_response)" where
  "handleSendingRequestsToRelay env i m params rd s =
     (let (s1, r) = env_executeRpcMethod env m params rd s in (s1, respond i (rd_requestId rd) r))"

text \<open>The \<open>catch\<close> of \<open>getRequestResult\<close>: \<open>JSON.stringify(error.message || error)\<close>, where an error without message prints as \<open>{}\<close>;
  the errors of the two clients have a message.\<close>

definition controller_error :: "thrown \<Rightarrow> predefined" where
  "controller_error e = (case e of
     RelayError (JsonRpcErr p) \<Rightarrow> p
   | RelayError (SdkErr x) \<Rightarrow> INTERNAL_ERROR (json_quote (sdk_message x))
   | RelayError (MirrorErr x) \<Rightarrow> INTERNAL_ERROR (json_quote (me_message x))
   | OtherError (Some m) \<Rightarrow> INTERNAL_ERROR (if m = [] then ''{}'' else json_quote m)
   | OtherError None \<Rightarrow> INTERNAL_ERROR ''{}'')"

definition catch_controller :: "jv \<Rightarrow> string \<Rightarrow> thrown + rpc_response \<Rightarrow> string + rpc_response" where
  "catch_controller i requestId r = (case r of
     Inl e \<Rightarrow> jsonRespError i (of_predefined (controller_error e)) requestId | Inr y \<Rightarrow> Inr y)"

text \<open>
  The checks before a request is processed; \<open>Some r\<close> ends the request, where \<open>Inl\<close> is an exception that nobody
  catches, so that no response is sent. \<open>None\<close> lets it pass, with its id and method.
\<close>

definition ws_admit ::
    "'s server_env \<Rightarrow> ws_config \<Rightarrow> int \<Rightarrow> string \<Rightarrow> string \<Rightarrow> jv \<Rightarrow> 's \<Rightarrow> 's \<times> ((string + rpc_response) + (jv \<times> string))" where
  "ws_admit env cfg now ip requestId request s =
     (if request = JNullV \<or> request = JUndefined then (s, Inl (Inl ''Cannot destructure property of null''))
      else case ws_validateJsonRpcRequest cfg request of
          None \<Rightarrow> (s, Inl (jsonRespError (or_null (js_get request ''id'')) spec_InvalidRequest requestId))
        | Some i \<Rightarrow> (case verifySupportedMethod (js_get request ''method'') of
              Inl e \<Rightarrow> (s, Inl (Inl e))
            | Inr supported \<Rightarrow>
                (let m = request_method request in
                 if \<not> supported then (s, Inl (jsonRespError (or_null i) (spec_MethodNotFound m) requestId))
                 else (case shouldRateLimitOnMethod env cfg now ip m s of
                     (s1, Inl e) \<Rightarrow> (s1, Inl (Inl e))
                   | (s1, Inr limited) \<Rightarrow>
                       if limited then (s1, Inl (jsonRespError JNullV (spec_IPRateLimitExceeded m) requestId))
                       else (s1, Inr (i, m))))))"

definition params_of :: "jv \<Rightarrow> jv" where
  "params_of request = (let p = js_get request ''params'' in if truthy p then p else JArray [])"

definition ws_process ::
    "'s server_env \<Rightarrow> ws_config \<Rightarrow> (jv \<Rightarrow> thrown + bool) \<Rightarrow> string \<Rightarrow> request_details \<Rightarrow> string \<Rightarrow> jv \<Rightarrow> string \<Rightarrow> jv \<Rightarrow>
     ('s, 'c) ws_server \<Rightarrow> ('s, 'c) ws_server \<times> (string + rpc_response)" where
  "ws_process env cfg resolve generated rd connection i m params sv =
     (if m = ''eth_subscribe'' \<and> (case wv_sockets sv connection of None \<Rightarrow> False | Some so \<Rightarrow> \<not> validateSubscriptionLimit cfg so)
      then (sv, jsonRespError i (of_predefined MAX_SUBSCRIPTIONS) (rd_requestId rd))
      else if m = ''eth_subscribe'' then
        (let (sv1, r) = handleEthSubscribe cfg resolve generated (rd_requestId rd) connection i params sv
         in (sv1, catch_controller i (rd_requestId rd) r))
      else if m = ''eth_unsubscribe'' then
        (let (sv1, r) = handleEthUnsubscribe cfg (rd_requestId rd) connection i params sv
         in (sv1, catch_controller i (rd_requestId rd) r))
      else (let (s1, r) = handleSendingRequestsToRelay env i m params rd (wv_state sv)
            in (sv\<lparr>wv_state := s1\<rparr>, case r of
                 Inl e \<Rightarrow> catch_controller i (rd_requestId rd) (Inl (OtherError (Some e))) | Inr y \<Rightarrow> Inr y)))"

text \<open>A request that runs without interruption.\<close>

definition ws_getRequestResult ::
    "'s server_env \<Rightarrow> ws_config \<Rightarrow> (jv \<Rightarrow> thrown + bool) \<Rightarrow> int \<Rightarrow> string \<Rightarrow> request_details \<Rightarrow> string \<Rightarrow> jv \<Rightarrow>
     ('s, 'c) ws_server \<Rightarrow> ('s, 'c) ws_server \<times> (string + rpc_response)" where
  "ws_getRequestResult env cfg resolve now generated rd connection request sv =
     (case ws_admit env cfg now (rd_ipAddress rd) (rd_requestId rd) request (wv_state sv) of
        (s1, Inl r) \<Rightarrow> (sv\<lparr>wv_state := s1\<rparr>, r)
      | (s1, Inr (i, m)) \<Rightarrow> ws_process env cfg resolve generated rd connection i m (params_of request) (sv\<lparr>wv_state := s1\<rparr>))"

section \<open>The events of a connection\<close>

definition on_connect :: "ws_config \<Rightarrow> int \<Rightarrow> int \<Rightarrow> string \<Rightarrow> string \<Rightarrow> ('s, 'c) ws_server \<Rightarrow> ('s, 'c) ws_server" where
  "on_connect cfg now connections connection ip sv =
     (let (l, so) = incrementCounters connections (new_socket ip) (wv_limiter sv);
          so1 = applyLimits cfg now so l
      in sv\<lparr>wv_limiter := l, wv_sockets := (wv_sockets sv)(connection \<mapsto> so1)\<rparr>)"

definition handleConnectionClose :: "string \<Rightarrow> ('s, 'c) ws_server \<Rightarrow> ('s, 'c) ws_server" where
  "handleConnectionClose connection sv = (case wv_sockets sv connection of
     None \<Rightarrow> sv
   | Some so \<Rightarrow> sv\<lparr>wv_subs := fst (ws_unsubscribe connection JUndefined (wv_subs sv)),
       wv_limiter := decrementCounters so (wv_limiter sv),
       wv_sockets := (wv_sockets sv)(connection \<mapsto> so\<lparr>so_readyState := 3\<rparr>)\<rparr>)"

text \<open>The start of the handler of a message: an answer at once, one request, or the requests of a batch with those refused already.
  A null in a batch throws while the requests are started, so those before it run but the batch is not answered.\<close>

datatype message_plan = SendNow "string + ws_message" | RunSingle jv | RunBatch "((string + rpc_response) + jv) list"

definition batch_item :: "ws_config \<Rightarrow> string \<Rightarrow> jv \<Rightarrow> (string + rpc_response) + jv" where
  "batch_item cfg requestId item =
     (case js_get item ''method'' of
        JString m \<Rightarrow> if m \<in> set (wc_disallowedMethods cfg)
          then Inl (jsonRespError (js_get item ''id'') (spec_BatchRequestsMethodNotPermitted m) requestId) else Inr item
      | _ \<Rightarrow> Inr item)"

definition on_message :: "ws_config \<Rightarrow> string \<Rightarrow> jv option \<Rightarrow> message_plan" where
  "on_message cfg requestId parsed = (case parsed of
     None \<Rightarrow> SendNow (res_bind (jsonRespError JNullV (of_predefined INVALID_REQUEST) requestId) (\<lambda>y. Inr (Response y)))
   | Some (JArray request) \<Rightarrow>
       if \<not> wc_batchRequestsEnabled cfg
       then SendNow (res_bind (jsonRespError JNullV (of_predefined WS_BATCH_REQUESTS_DISABLED) requestId) (\<lambda>y. Inr (Responses [y])))
       else if length request > wc_batchRequestsMaxSize cfg
       then SendNow (res_bind (jsonRespError JNullV (of_predefined
           (BATCH_REQUESTS_AMOUNT_MAX_EXCEEDED (int (length request)) (int (wc_batchRequestsMaxSize cfg)))) requestId) (\<lambda>y. Inr (Responses [y])))
       else RunBatch (map (batch_item cfg requestId) (takeWhile (\<lambda>x. x \<noteq> JNullV) request) @
         (if JNullV \<in> set request then [Inl (Inl ''Cannot read properties of null'')] else []))
   | Some request \<Rightarrow> RunSingle request)"

definition sendToClient :: "ws_config \<Rightarrow> int \<Rightarrow> ws_message \<Rightarrow> socket \<Rightarrow> socket" where
  "sendToClient cfg now response so = resetInactivityTTLTimer cfg now (ws_send response so)"

section \<open>Runs of the server\<close>

text \<open>
  What happens between two events: connections open and close, subscriptions are made and given up, data is sent,
  timers fire, polls are answered, and requests change the state of the relay. A subscription may be made after its connection was closed, since the
  request waits for the mirror node. \<open>ids\<close> restricts the ids of the subscribe requests of a run.
\<close>

inductive ws_step :: "ws_config \<Rightarrow> 'c sent_cache \<Rightarrow> (jv \<Rightarrow> bool) \<Rightarrow> ('s, 'c) ws_server \<Rightarrow> ('s, 'c) ws_server \<Rightarrow> bool"
  for cfg cache ids where
  connect: "wv_sockets sv c = None \<Longrightarrow> ws_step cfg cache ids sv (on_connect cfg now connections c ip sv)"
| close: "wv_sockets sv c = Some so \<Longrightarrow> so_readyState so \<noteq> 3 \<Longrightarrow> ws_step cfg cache ids sv (handleConnectionClose c sv)"
| subscribe: "wv_sockets sv c \<noteq> None \<Longrightarrow> ids i \<Longrightarrow>
    ws_step cfg cache ids sv (fst (commit_subscription cfg generated c i ef sv))"
| unsubscribe: "wv_sockets sv c \<noteq> None \<Longrightarrow> ws_step cfg cache ids sv (fst (handleEthUnsubscribe cfg requestId c i params sv))"
| notify: "notifySubscribers cache cfg now tag data (wv_subs sv, wv_sockets sv) = (subs, sockets) \<Longrightarrow>
    ws_step cfg cache ids sv (sv\<lparr>wv_subs := subs, wv_sockets := sockets\<rparr>)"
| sent: "ws_step cfg cache ids sv (update_socket c (sendToClient cfg now m) sv)"
| expired: "ws_step cfg cache ids sv (update_socket c (inactivity_expired cfg) sv)"
| polled: "poll_receive b f answer q = Inr (ds, q') \<Longrightarrow> q \<in> set (pl_polls (ss_poller (wv_subs sv))) \<Longrightarrow>
    ws_step cfg cache ids sv (sv\<lparr>wv_subs := (wv_subs sv)\<lparr>ss_poller := (ss_poller (wv_subs sv))\<lparr>pl_latestBlock := b,
      pl_polls := map (\<lambda>p. if p = q then q' else p) (pl_polls (ss_poller (wv_subs sv)))\<rparr>\<rparr>\<rparr>)"
| relay: "ws_step cfg cache ids sv (sv\<lparr>wv_state := s\<rparr>)"

definition ws_init :: "('s, 'c) ws_server \<Rightarrow> bool" where
  "ws_init sv \<longleftrightarrow> wv_limiter sv = \<lparr>wl_connectedClients = 0, wl_clientIps = Map.empty\<rparr> \<and> wv_sockets sv = Map.empty \<and>
     ss_subscriptions (wv_subs sv) = [] \<and> pl_polls (ss_poller (wv_subs sv)) = [] \<and> \<not> pl_interval (ss_poller (wv_subs sv))"

section \<open>What unsubscribing does\<close>

definition kept_subs :: "string \<Rightarrow> jv \<Rightarrow> (string \<times> subscriber list) list \<Rightarrow> (string \<times> subscriber list) list" where
  "kept_subs c i m = filter (\<lambda>(t, xs). xs \<noteq> []) (map (\<lambda>(t, xs). (t, filter (\<lambda>s. \<not> unsubscribed c i s) xs)) m)"

definition emptied_tags :: "string \<Rightarrow> jv \<Rightarrow> (string \<times> subscriber list) list \<Rightarrow> string list" where
  "emptied_tags c i m = map fst (filter (\<lambda>(t, xs). filter (\<lambda>s. \<not> unsubscribed c i s) xs = []) m)"

definition removed_count :: "string \<Rightarrow> jv \<Rightarrow> (string \<times> subscriber list) list \<Rightarrow> nat" where
  "removed_count c i m = sum_list (map (\<lambda>(t, xs). length (filter (unsubscribed c i) xs)) m)"

lemma AList_update_append: "k \<notin> fst ` set xs \<Longrightarrow> AList.update k v (xs @ ys) = xs @ AList.update k v ys"
  by (induction xs) auto

lemma AList_delete_append: "k \<notin> fst ` set xs \<Longrightarrow> AList.delete k (xs @ (k, v) # ys) = xs @ AList.delete k ys"
  by (force simp: AList.delete_eq filter_id_conv)

lemma unsubscribe_fold:
  assumes "distinct (map fst (done @ m))" and "ss_subscriptions st = done @ m"
  shows "fold (unsubscribe_tag c i) m (st, n) =
    (st\<lparr>ss_subscriptions := done @ kept_subs c i m, ss_poller := fold poller_remove (emptied_tags c i m) (ss_poller st)\<rparr>,
     n + removed_count c i m)"
  using assms
proof (induction m arbitrary: "done" st n)
  case (Cons e m)
  obtain tag subs where e: "e = (tag, subs)" by (cases e)
  have fresh: "tag \<notin> fst ` set done" "tag \<notin> fst ` set m" using Cons.prems(1) e by auto
  let ?kept = "filter (\<lambda>s. \<not> unsubscribed c i s) subs"
  show ?case
  proof (cases "?kept = []")
    case True
    let ?st = "st\<lparr>ss_subscriptions := done @ m, ss_poller := poller_remove tag (ss_poller st)\<rparr>"
    have "AList.delete tag (done @ (tag, subs) # m) = done @ m"
      using fresh by (simp add: AList_delete_append delete_idem)
    then have "unsubscribe_tag c i e (st, n) = (?st, n + length (filter (unsubscribed c i) subs))"
      using True Cons.prems(2) e by (simp add: unsubscribe_tag_def)
    then show ?thesis using Cons.IH [of "done" ?st] Cons.prems(1) True e
      by (simp add: kept_subs_def emptied_tags_def removed_count_def)
  next
    case False
    let ?st = "st\<lparr>ss_subscriptions := (done @ [(tag, ?kept)]) @ m\<rparr>"
    have "AList.update tag ?kept (done @ (tag, subs) # m) = (done @ [(tag, ?kept)]) @ m"
      using fresh by (simp add: AList_update_append)
    then have "unsubscribe_tag c i e (st, n) = (?st, n + length (filter (unsubscribed c i) subs))"
      using False Cons.prems(2) e by (simp add: unsubscribe_tag_def)
    then show ?thesis using Cons.IH [of "done @ [(tag, ?kept)]" ?st] Cons.prems(1) False e
      by (simp add: kept_subs_def emptied_tags_def removed_count_def)
  qed
qed (simp add: kept_subs_def emptied_tags_def removed_count_def)

lemma ws_unsubscribe_eq:
  assumes "distinct (map fst (ss_subscriptions st))"
  shows "ws_unsubscribe c i st =
    (st\<lparr>ss_subscriptions := kept_subs c i (ss_subscriptions st),
        ss_poller := fold poller_remove (emptied_tags c i (ss_subscriptions st)) (ss_poller st)\<rparr>,
     removed_count c i (ss_subscriptions st))"
  using unsubscribe_fold [of "[]" "ss_subscriptions st" st c i 0] assms by (simp add: ws_unsubscribe_def)

section \<open>Polls and subscriptions\<close>

definition poll_tags :: "poller \<Rightarrow> string list" where
  "poll_tags p = map po_tag (pl_polls p)"

text \<open>Every tag has subscribers and one poll, there are no other polls, and polling is on exactly when there are polls.\<close>

definition sub_inv :: "'c sub_service \<Rightarrow> bool" where
  "sub_inv st \<longleftrightarrow> distinct (map fst (ss_subscriptions st)) \<and> (\<forall>(t, xs) \<in> set (ss_subscriptions st). xs \<noteq> []) \<and>
     distinct (poll_tags (ss_poller st)) \<and> set (poll_tags (ss_poller st)) = fst ` set (ss_subscriptions st) \<and>
     (pl_interval (ss_poller st) \<longleftrightarrow> pl_polls (ss_poller st) \<noteq> [])"

lemma poll_tags_remove: "poll_tags (poller_remove t p) = filter (\<lambda>x. x \<noteq> t) (poll_tags p)"
  by (simp add: poll_tags_def poller_remove_def poller_stop_def Let_def filter_map comp_def)

lemma poll_tags_fold_remove: "poll_tags (fold poller_remove ts p) = filter (\<lambda>x. x \<notin> set ts) (poll_tags p)"
  by (induction ts arbitrary: p) (auto simp: poll_tags_remove intro: filter_cong)

lemma interval_remove:
  "pl_interval p \<longleftrightarrow> pl_polls p \<noteq> [] \<Longrightarrow> pl_interval (poller_remove t p) \<longleftrightarrow> pl_polls (poller_remove t p) \<noteq> []"
  by (auto simp: poller_remove_def poller_stop_def isPolling_def Let_def)

lemma interval_fold_remove:
  "pl_interval p \<longleftrightarrow> pl_polls p \<noteq> [] \<Longrightarrow> pl_interval (fold poller_remove ts p) \<longleftrightarrow> pl_polls (fold poller_remove ts p) \<noteq> []"
  by (induction ts arbitrary: p) (simp_all add: interval_remove)

lemma emptied_tags_subset: "set (emptied_tags c i m) \<subseteq> fst ` set m"
  by (force simp: emptied_tags_def)

lemma kept_subs_Cons:
  "kept_subs c i ((t, xs) # m) = (let ys = filter (\<lambda>s. \<not> unsubscribed c i s) xs in if ys = [] then kept_subs c i m else (t, ys) # kept_subs c i m)"
  by (simp add: kept_subs_def)

lemma emptied_tags_Cons:
  "emptied_tags c i ((t, xs) # m) = (if filter (\<lambda>s. \<not> unsubscribed c i s) xs = [] then t # emptied_tags c i m else emptied_tags c i m)"
  by (simp add: emptied_tags_def)

lemma kept_subs_tags: "map fst (kept_subs c i m) = filter (\<lambda>t. t \<notin> set (emptied_tags c i m)) (map fst m)"
  if "distinct (map fst m)"
  using that
proof (induction m)
  case (Cons e m)
  obtain t xs where e: "e = (t, xs)" by (cases e)
  have fresh: "t \<notin> fst ` set m" using Cons.prems e by auto
  then have "t \<notin> set (emptied_tags c i m)" using emptied_tags_subset by blast
  moreover have "filter (\<lambda>x. x \<noteq> t \<and> x \<notin> E) (map fst m) = filter (\<lambda>x. x \<notin> E) (map fst m)" for E
    using fresh by (intro filter_cong) auto
  ultimately show ?case using Cons e by (simp add: kept_subs_Cons emptied_tags_Cons Let_def)
qed (simp add: kept_subs_def)

lemma sub_inv_unsubscribe:
  assumes "sub_inv st"
  shows "sub_inv (fst (ws_unsubscribe c i st))"
proof -
  have d: "distinct (map fst (ss_subscriptions st))" using assms by (simp add: sub_inv_def)
  have "set (map fst (kept_subs c i (ss_subscriptions st))) = set (poll_tags (ss_poller st)) - set (emptied_tags c i (ss_subscriptions st))"
    using assms unfolding kept_subs_tags [OF d] by (auto simp: sub_inv_def)
  moreover have "distinct (map fst (kept_subs c i (ss_subscriptions st)))" unfolding kept_subs_tags [OF d] using d by simp
  moreover have "\<forall>(t, xs) \<in> set (kept_subs c i (ss_subscriptions st)). xs \<noteq> []" by (auto simp: kept_subs_def)
  ultimately show ?thesis using assms interval_fold_remove [of "ss_poller st"]
    unfolding ws_unsubscribe_eq [OF d] sub_inv_def by (auto simp: poll_tags_fold_remove)
qed

lemma poller_add_tags: "poll_tags (poller_add t p) = (if t \<in> set (poll_tags p) then poll_tags p else poll_tags p @ [t])"
  by (auto simp: poller_add_def hasPoll_def poll_tags_def isPolling_def poller_start_def Let_def filter_empty_conv)

lemma poller_add_interval: "pl_interval (poller_add t p) \<and> pl_polls (poller_add t p) \<noteq> []"
  by (auto simp: poller_add_def hasPoll_def isPolling_def poller_start_def Let_def)

lemma fst_set_update: "fst ` set (AList.update k v m) = insert k (fst ` set m)"
  using AList.dom_update [of k v m] by (auto simp: dom_map_of_conv_image_fst)

lemma set_AList_update: "(t, xs) \<in> set (AList.update k v m) \<Longrightarrow> (t, xs) \<in> set m \<or> (t, xs) = (k, v)"
  by (induction m) (auto split: if_splits)

lemma subs_at_append: "map_of m tag = None \<Longrightarrow> subs_at tag (m @ [(tag, [])]) = []"
  by (simp add: subs_at_def map_add_def split: option.splits)

lemma ws_subscribe_cases:
  obtains (existing) "map_of (ss_subscriptions st) (subscription_tag event filters) \<noteq> None"
      "fst (ws_subscribe cfg g c event filters st) = st"
    | (new) xs where "fst (ws_subscribe cfg g c event filters st) =
        st\<lparr>ss_subscriptions := AList.update (subscription_tag event filters) xs (ss_subscriptions st),
           ss_poller := poller_add (subscription_tag event filters) (ss_poller st)\<rparr>" "xs \<noteq> []"
proof (cases "map_of (ss_subscriptions st) (subscription_tag event filters)")
  case None
  then have "subscription_tag event filters \<notin> fst ` set (ss_subscriptions st)" by (simp add: map_of_eq_None_iff)
  then have u: "AList.update (subscription_tag event filters) v (ss_subscriptions st @ [(subscription_tag event filters, [])]) =
      AList.update (subscription_tag event filters) v (ss_subscriptions st)" for v
    using AList_update_append [of _ "ss_subscriptions st" v "[]"] by (simp add: AList_update_append)
  show thesis using None that(2) by (simp add: ws_subscribe_def Let_def subs_at_append u)
next
  case (Some ys)
  show thesis
  proof (cases "if wc_sameSubForSameEvent cfg then List.find (\<lambda>s. sb_connection s = c) (subs_at (subscription_tag event filters) (ss_subscriptions st)) else None")
    case None
    have "fst (ws_subscribe cfg g c event filters st) =
        st\<lparr>ss_subscriptions := AList.update (subscription_tag event filters) (ys @ [\<lparr>sb_connection = c, sb_subscriptionId = g\<rparr>]) (ss_subscriptions st),
           ss_poller := poller_add (subscription_tag event filters) (ss_poller st)\<rparr>"
      using None Some by (cases "wc_sameSubForSameEvent cfg") (simp_all add: ws_subscribe_def Let_def subs_at_def)
    then show thesis by (rule that(2)) simp
  next
    case (Some sub)
    then have "fst (ws_subscribe cfg g c event filters st) = st"
      using \<open>map_of _ _ = Some ys\<close> by (cases "wc_sameSubForSameEvent cfg") (simp_all add: ws_subscribe_def Let_def)
    then show thesis using \<open>map_of _ _ = Some ys\<close> by (intro that(1)) simp_all
  qed
qed

lemma sub_inv_subscribe:
  assumes "sub_inv st"
  shows "sub_inv (fst (ws_subscribe cfg g c event filters st))"
proof (cases rule: ws_subscribe_cases [of st event filters cfg g c])
  case (new xs)
  then show ?thesis using assms poller_add_interval
    by (auto simp: sub_inv_def poller_add_tags fst_set_update AList.distinct_update dest!: set_AList_update)
qed (use assms in simp)

lemma sub_inv_polled:
  assumes "sub_inv st" and "po_tag q' = po_tag q"
  shows "sub_inv (st\<lparr>ss_poller := (ss_poller st)\<lparr>pl_latestBlock := b,
    pl_polls := map (\<lambda>p. if p = q then q' else p) (pl_polls (ss_poller st))\<rparr>\<rparr>)"
proof -
  have "poll_tags (p\<lparr>pl_latestBlock := b, pl_polls := map (\<lambda>p. if p = q then q' else p) (pl_polls p)\<rparr>) = poll_tags p" for p
    using assms(2) by (auto simp: poll_tags_def)
  then show ?thesis using assms(1) by (simp add: sub_inv_def)
qed

lemma poll_receive_tag: "poll_receive b f answer q = Inr (ds, q') \<Longrightarrow> po_tag q' = po_tag q"
  by (auto simp: poll_receive_def res_bind_eq_Inr split: fetch.splits)

lemma notify_subs:
  "notifySubscribers cache cfg now tag data (st, sockets) = (st', sockets') \<Longrightarrow>
     ss_subscriptions st' = ss_subscriptions st \<and> ss_poller st' = ss_poller st"
  by (auto simp: notifySubscribers_def Let_def split: prod.splits)

lemma sub_inv_cong:
  "ss_subscriptions st' = ss_subscriptions st \<Longrightarrow> ss_poller st' = ss_poller st \<Longrightarrow> sub_inv st' = sub_inv st"
  by (simp add: sub_inv_def)

lemma sub_inv_step:
  assumes "sub_inv (wv_subs sv)" and "ws_step cfg cache ids sv sv'"
  shows "sub_inv (wv_subs sv')"
  using assms(2)
proof cases
  case (subscribe c i generated ef)
  then show ?thesis using sub_inv_subscribe [OF assms(1), of cfg generated c "fst ef" "snd ef"]
    by (auto simp: commit_subscription_def update_socket_def Let_def split: prod.splits sum.splits)
next
  case (unsubscribe c requestId i params)
  then show ?thesis using assms(1) sub_inv_unsubscribe [OF assms(1), of c "js_get params ''0''"]
    by (auto simp: handleEthUnsubscribe_def update_socket_def Let_def split: prod.splits)
next
  case (notify now tag data subs sockets)
  then show ?thesis using assms(1) notify_subs [OF notify(2)] by (simp add: sub_inv_cong [of subs "wv_subs sv"])
next
  case (polled b f answer q ds q')
  then show ?thesis using sub_inv_polled [OF assms(1) poll_receive_tag [OF polled(2)]] by simp
qed (use assms(1) in \<open>auto simp: on_connect_def handleConnectionClose_def update_socket_def Let_def sub_inv_unsubscribe
      split: prod.splits option.splits\<close>)

lemma sub_inv_init: "ws_init sv \<Longrightarrow> sub_inv (wv_subs sv)"
  by (simp add: ws_init_def sub_inv_def poll_tags_def)

interpretation ws_polls: invariant_system ws_init "ws_step cfg cache ids" "\<lambda>sv. sub_inv (wv_subs sv)"
  by unfold_locales (auto intro: sub_inv_init sub_inv_step)

section \<open>Connections by address\<close>

definition core :: "socket \<Rightarrow> string \<times> bool \<times> nat" where
  "core so = (so_ip so, so_ipCounted so, so_readyState so)"

definition open_at :: "(string \<rightharpoonup> socket) \<Rightarrow> string \<Rightarrow> string set" where
  "open_at sockets ip = {c. \<exists>so. sockets c = Some so \<and> so_ip so = ip \<and> so_readyState so \<noteq> 3}"

definition ip_inv :: "('s, 'c) ws_server \<Rightarrow> bool" where
  "ip_inv sv \<longleftrightarrow> finite (dom (wv_sockets sv)) \<and> (\<forall>c so. wv_sockets sv c = Some so \<longrightarrow> so_ipCounted so) \<and>
     (\<forall>ip. wl_clientIps (wv_limiter sv) ip =
        (if open_at (wv_sockets sv) ip = {} then None else Some (int (card (open_at (wv_sockets sv) ip)))))"

definition same_by :: "(socket \<Rightarrow> 'x) \<Rightarrow> (string \<rightharpoonup> socket) \<Rightarrow> (string \<rightharpoonup> socket) \<Rightarrow> bool" where
  "same_by p a b \<longleftrightarrow> (\<forall>c. map_option p (a c) = map_option p (b c))"

lemma same_cores_open:
  assumes "same_by core a b"
  shows "open_at b ip = open_at a ip"
proof -
  have "c \<in> open_at b ip \<longleftrightarrow> c \<in> open_at a ip" for c
    using assms [unfolded same_by_def, rule_format, of c] by (cases "a c"; cases "b c") (auto simp: open_at_def core_def)
  then show ?thesis by blast
qed

lemma ip_inv_cong:
  assumes "ip_inv sv" and "same_by core (wv_sockets sv) (wv_sockets sv')" and "wv_limiter sv' = wv_limiter sv"
  shows "ip_inv sv'"
proof -
  have "wv_sockets sv' c = None \<longleftrightarrow> wv_sockets sv c = None" for c
    using assms(2) [unfolded same_by_def, rule_format, of c] by (metis option.map_disc_iff)
  then have "dom (wv_sockets sv') = dom (wv_sockets sv)" by (simp add: dom_def)
  moreover have "so_ipCounted so" if "wv_sockets sv' c = Some so" for c so
    using assms(1) assms(2) [unfolded same_by_def, rule_format, of c] that
    by (cases "wv_sockets sv c") (auto simp: ip_inv_def core_def)
  ultimately show ?thesis using assms(1,3) same_cores_open [OF assms(2)] by (simp add: ip_inv_def)
qed

lemma same_by_refl [simp]: "same_by p a a"
  by (simp add: same_by_def)

lemma same_by_update: "(\<And>so. p (f so) = p so) \<Longrightarrow> same_by p a (a(c := map_option f (a c)))"
  by (auto simp: same_by_def option.map_comp comp_def)

lemma core_updates [simp]:
  "core (ws_send m so) = core so" "core (ws_close e so) = core so" "core (startInactivityTTLTimer cfg now so) = core so"
  "core (resetInactivityTTLTimer cfg now so) = core so" "core (sendToClient cfg now m so) = core so" "core (inactivity_expired cfg so) = core so"
  "core (incrementSubs so) = core so" "core (decrementSubs k so) = core so" "core (applyLimits cfg now so l) = core so"
  "core (so\<lparr>so_subscriptions := k\<rparr>) = core so"
  by (simp_all add: core_def ws_send_def ws_close_def startInactivityTTLTimer_def resetInactivityTTLTimer_def sendToClient_def
      inactivity_expired_def incrementSubs_def decrementSubs_def applyLimits_def Let_def split: option.splits)

lemma same_by_upd: "a c = Some so \<Longrightarrow> p so' = p so \<Longrightarrow> same_by p a (a(c \<mapsto> so'))"
  by (simp add: same_by_def)

lemma same_by_trans: "same_by p a b \<Longrightarrow> same_by p b d \<Longrightarrow> same_by p a d"
  by (simp add: same_by_def)

lemma notify_fold_same:
  assumes "\<And>so m. p (resetInactivityTTLTimer cfg now (ws_send m so)) = p so"
  shows "same_by p sockets (snd (fold (notify_one cache cfg now data) subs (c, sockets)))"
proof (induction subs arbitrary: c sockets)
  case (Cons sub subs)
  obtain c1 s1 where n: "notify_one cache cfg now data sub (c, sockets) = (c1, s1)" by fastforce
  have "same_by p sockets s1"
    using n assms by (auto simp: notify_one_def Let_def split: if_splits intro!: same_by_update)
  then show ?case using Cons.IH [of s1 c1] n by (auto intro: same_by_trans)
qed simp

lemma notify_same:
  assumes "notifySubscribers cache cfg now tag data (st, sockets) = (st', sockets')"
    and "\<And>so m. p (resetInactivityTTLTimer cfg now (ws_send m so)) = p so"
  shows "same_by p sockets sockets'"
  using notify_fold_same [of p cfg now sockets cache data "subs_at tag (ss_subscriptions st)" "ss_cache st", OF assms(2)] assms(1)
  by (auto simp: notifySubscribers_def Let_def split: prod.splits)

lemma open_at_connect:
  assumes "core so = (ip, True, 1)" and "sockets c = None"
  shows "open_at (sockets(c \<mapsto> so)) a = (if a = ip then insert c (open_at sockets a) else open_at sockets a)"
  using assms by (auto simp: open_at_def core_def)

lemma open_at_close:
  assumes "sockets c = Some so"
  shows "open_at (sockets(c \<mapsto> so\<lparr>so_readyState := 3\<rparr>)) a = open_at sockets a - {c}"
  using assms by (auto simp: open_at_def)

lemma finite_open: "finite (dom sockets) \<Longrightarrow> finite (open_at sockets ip)"
  by (rule finite_subset [of _ "dom sockets"]) (auto simp: open_at_def)

lemma ip_inv_connect:
  assumes "ip_inv sv" and "wv_sockets sv c = None"
  shows "ip_inv (on_connect cfg now connections c ip sv)"
proof -
  obtain l so where l: "incrementCounters connections (new_socket ip) (wv_limiter sv) = (l, so)" by fastforce
  then have "core so = (ip, True, 1)" by (auto simp: incrementCounters_def new_socket_def core_def Let_def)
  then have so: "core (applyLimits cfg now so l) = (ip, True, 1)" by simp
  then have cnt: "so_ipCounted (applyLimits cfg now so l)" by (simp add: core_def)
  have fin: "finite (open_at (wv_sockets sv) a)" for a using assms(1) finite_open by (auto simp: ip_inv_def)
  have fresh: "c \<notin> open_at (wv_sockets sv) a" for a using assms(2) by (simp add: open_at_def)
  have ips: "wl_clientIps l a = (let n = card (open_at (wv_sockets sv) a) + (if a = ip then 1 else 0) in if n = 0 then None else Some (int n))" for a
    using l assms(1) fin [of a]
    by (auto simp: incrementCounters_def ip_inv_def new_socket_def Let_def split: if_splits)
  have "wl_clientIps l a = (let X = open_at ((wv_sockets sv)(c \<mapsto> applyLimits cfg now so l)) a in if X = {} then None else Some (int (card X)))" for a
    using fin [of a] fresh [of a] by (auto simp: ips open_at_connect [where sockets = "wv_sockets sv" and c = c, OF so assms(2)] Let_def)
  then show ?thesis using assms(1) cnt l by (auto simp: on_connect_def ip_inv_def Let_def)
qed

lemma ip_inv_close:
  assumes "ip_inv sv" and "wv_sockets sv c = Some so" and "so_readyState so \<noteq> 3"
  shows "ip_inv (handleConnectionClose c sv)"
proof -
  have fin: "finite (open_at (wv_sockets sv) a)" for a using assms(1) finite_open by (auto simp: ip_inv_def)
  have mem: "c \<in> open_at (wv_sockets sv) a \<longleftrightarrow> a = so_ip so" for a using assms(2,3) by (auto simp: open_at_def)
  have counted: "so_ipCounted so" using assms(1,2) by (auto simp: ip_inv_def)
  have pos: "card (open_at (wv_sockets sv) (so_ip so)) > 0" using fin mem by (auto simp: card_gt_0_iff)
  have ips: "wl_clientIps (decrementCounters so (wv_limiter sv)) a =
      (let n = card (open_at (wv_sockets sv) a) - (if a = so_ip so then 1 else 0) in if n = 0 then None else Some (int n))" for a
    using assms(1) counted pos fin [of a] mem [of a]
    by (auto simp: decrementCounters_def ip_inv_def Let_def of_nat_diff split: if_splits option.splits)
  have less: "card (open_at (wv_sockets sv) a - {c}) = card (open_at (wv_sockets sv) a) - (if a = so_ip so then 1 else 0)" for a
    using mem [of a] fin [of a] by (auto simp: card_Diff_singleton_if)
  have "wl_clientIps (decrementCounters so (wv_limiter sv)) a =
      (let X = open_at ((wv_sockets sv)(c \<mapsto> so\<lparr>so_readyState := 3\<rparr>)) a in if X = {} then None else Some (int (card X)))" for a
  proof -
    have "open_at (wv_sockets sv) a - {c} = {} \<longleftrightarrow> card (open_at (wv_sockets sv) a - {c}) = 0"
      using fin [of a] by (simp del: Diff_eq_empty_iff)
    then show ?thesis unfolding ips open_at_close [where sockets = "wv_sockets sv" and c = c, OF assms(2)] Let_def less
      by (simp del: Diff_eq_empty_iff)
  qed
  then show ?thesis using assms(1,2) counted by (auto simp: handleConnectionClose_def ip_inv_def Let_def)
qed

lemma ip_inv_step:
  assumes "ip_inv sv" and "ws_step cfg cache ids sv sv'"
  shows "ip_inv sv'"
  using assms(2)
proof cases
  case (connect c now connections ip)
  then show ?thesis using ip_inv_connect [OF assms(1)] by simp
next
  case (close c so)
  then show ?thesis using ip_inv_close [OF assms(1)] by simp
next
  case (subscribe c i generated ef)
  then show ?thesis using assms(1)
    by (auto simp: commit_subscription_def update_socket_def Let_def split: prod.splits sum.splits
        elim!: ip_inv_cong intro!: same_by_upd)
next
  case (unsubscribe c requestId i params)
  then show ?thesis using assms(1)
    by (auto simp: handleEthUnsubscribe_def update_socket_def Let_def split: prod.splits elim!: ip_inv_cong intro!: same_by_upd)
next
  case (notify now tag data subs sockets)
  then show ?thesis using ip_inv_cong [OF assms(1), of sv'] notify_same [where p = core, OF notify(2)] by simp
qed (use assms(1) in \<open>auto simp: update_socket_def elim!: ip_inv_cong intro!: same_by_update\<close>)

lemma ip_inv_init: "ws_init sv \<Longrightarrow> ip_inv sv"
  by (simp add: ws_init_def ip_inv_def open_at_def)

interpretation ws_ips: invariant_system ws_init "ws_step cfg cache ids" ip_inv
  by unfold_locales (auto intro: ip_inv_init ip_inv_step)

section \<open>Subscriptions of a connection\<close>

definition num_subs :: "string \<Rightarrow> (string \<times> subscriber list) list \<Rightarrow> nat" where
  "num_subs c m = sum_list (map (\<lambda>(t, xs). length (filter (\<lambda>s. sb_connection s = c) xs)) m)"

lemma num_subs_Cons [simp]: "num_subs c ((t, xs) # m) = length (filter (\<lambda>s. sb_connection s = c) xs) + num_subs c m"
  by (simp add: num_subs_def)

lemma num_subs_Nil [simp]: "num_subs c [] = 0"
  by (simp add: num_subs_def)

lemma num_subs_add:
  "num_subs c' (AList.update tag (subs_at tag m @ [\<lparr>sb_connection = c, sb_subscriptionId = g\<rparr>]) m) =
     num_subs c' m + (if c' = c then 1 else 0)"
  by (induction m) (auto simp: subs_at_def)

lemma num_subs_kept:
  "num_subs c' m = num_subs c' (kept_subs c i m) + (if c' = c then removed_count c i m else 0)"
proof (induction m)
  case (Cons e m)
  obtain t xs where e: "e = (t, xs)" by (cases e)
  have "length (filter (\<lambda>s. sb_connection s = c) xs) =
      length (filter (\<lambda>s. sb_connection s = c) (filter (\<lambda>s. \<not> unsubscribed c i s) xs)) + length (filter (unsubscribed c i) xs)"
    by (induction xs) (simp_all add: unsubscribed_def)
  moreover have "filter (\<lambda>s. sb_connection s = c') (filter (\<lambda>s. \<not> unsubscribed c i s) xs) = filter (\<lambda>s. sb_connection s = c') xs"
    if "c' \<noteq> c" using that by (auto simp: unsubscribed_def intro: filter_cong)
  ultimately show ?case using Cons e by (auto simp: kept_subs_def removed_count_def simp del: filter_filter)
qed (simp add: kept_subs_def removed_count_def)

lemma ws_subscribe_new:
  assumes "\<not> wc_sameSubForSameEvent cfg"
  shows "ss_subscriptions (fst (ws_subscribe cfg g c event filters st)) = AList.update (subscription_tag event filters)
    (subs_at (subscription_tag event filters) (ss_subscriptions st) @ [\<lparr>sb_connection = c, sb_subscriptionId = g\<rparr>]) (ss_subscriptions st)"
proof (cases "map_of (ss_subscriptions st) (subscription_tag event filters)")
  case None
  then have "subscription_tag event filters \<notin> fst ` set (ss_subscriptions st)" by (simp add: map_of_eq_None_iff)
  then have "AList.update (subscription_tag event filters) v (ss_subscriptions st @ [(subscription_tag event filters, [])]) =
      AList.update (subscription_tag event filters) v (ss_subscriptions st)" for v
    using AList_update_append [of _ "ss_subscriptions st" v "[]"] by (simp add: AList_update_append)
  then show ?thesis using None assms by (simp add: ws_subscribe_def Let_def subs_at_append) (simp add: subs_at_def)
qed (use assms in \<open>simp add: ws_subscribe_def Let_def\<close>)

text \<open>The counter of an open connection is the number of its subscriptions.\<close>

definition counter_ok :: "socket option \<Rightarrow> nat \<Rightarrow> bool" where
  "counter_ok x n = (case x of None \<Rightarrow> n = 0 | Some so \<Rightarrow> so_readyState so \<noteq> 3 \<longrightarrow> so_subscriptions so = int n)"

definition counter_inv :: "('s, 'c) ws_server \<Rightarrow> bool" where
  "counter_inv sv \<longleftrightarrow> sub_inv (wv_subs sv) \<and>
     (\<forall>c. counter_ok (wv_sockets sv c) (num_subs c (ss_subscriptions (wv_subs sv))))"

definition counted :: "socket \<Rightarrow> nat \<times> int" where
  "counted so = (so_readyState so, so_subscriptions so)"

lemma counted_updates [simp]:
  "counted (ws_send m so) = counted so" "counted (ws_close e so) = counted so" "counted (startInactivityTTLTimer cfg now so) = counted so"
  "counted (resetInactivityTTLTimer cfg now so) = counted so" "counted (sendToClient cfg now m so) = counted so"
  "counted (inactivity_expired cfg so) = counted so" "counted (applyLimits cfg now so l) = counted so"
  by (simp_all add: counted_def ws_send_def ws_close_def startInactivityTTLTimer_def resetInactivityTTLTimer_def sendToClient_def
      inactivity_expired_def applyLimits_def Let_def split: option.splits)

lemma counter_inv_cong:
  assumes "counter_inv sv" and "same_by counted (wv_sockets sv) (wv_sockets sv')"
    and "ss_subscriptions (wv_subs sv') = ss_subscriptions (wv_subs sv)" and "sub_inv (wv_subs sv')"
  shows "counter_inv sv'"
proof -
  have "counter_ok (wv_sockets sv' c) (num_subs c (ss_subscriptions (wv_subs sv)))" for c
    using assms(1) [unfolded counter_inv_def, THEN conjunct2, rule_format, of c] assms(2) [unfolded same_by_def, rule_format, of c]
    by (cases "wv_sockets sv c"; cases "wv_sockets sv' c") (auto simp: counted_def counter_ok_def)
  then show ?thesis using assms(3,4) by (simp add: counter_inv_def)
qed

lemma counter_inv_subscribe:
  assumes "counter_inv sv" and "wv_sockets sv c \<noteq> None" and "valid_id i" and "\<not> wc_sameSubForSameEvent cfg"
  shows "counter_inv (fst (commit_subscription cfg g c i ef sv))"
proof -
  obtain subs subId where s: "ws_subscribe cfg g c (fst ef) (snd ef) (wv_subs sv) = (subs, subId)" by fastforce
  have inv: "sub_inv subs" using sub_inv_subscribe [of "wv_subs sv" cfg g c "fst ef" "snd ef"] assms(1) s by (simp add: counter_inv_def)
  have n: "num_subs c' (ss_subscriptions subs) = num_subs c' (ss_subscriptions (wv_subs sv)) + (if c' = c then 1 else 0)" for c'
    using ws_subscribe_new [OF assms(4), of g c "fst ef" "snd ef" "wv_subs sv"] s by (simp add: num_subs_add)
  have "fst (commit_subscription cfg g c i ef sv) = update_socket c incrementSubs (sv\<lparr>wv_subs := subs\<rparr>)"
    using assms(3) s by (simp add: commit_subscription_def jsonRespResult_def)
  moreover have "counter_ok (map_option incrementSubs (wv_sockets sv c)) (Suc (num_subs c (ss_subscriptions (wv_subs sv))))"
    using assms(1) [unfolded counter_inv_def, THEN conjunct2, rule_format, of c] assms(2)
    by (auto simp: counter_ok_def incrementSubs_def split: option.splits)
  ultimately show ?thesis using assms(1) inv by (simp add: counter_inv_def update_socket_def n)
qed

lemma counter_inv_unsubscribe:
  assumes "counter_inv sv" and "wv_sockets sv c \<noteq> None"
  shows "counter_inv (fst (handleEthUnsubscribe cfg requestId c i params sv))"
proof (cases "wc_subscriptionsEnabled cfg")
  case True
  let ?m = "ss_subscriptions (wv_subs sv)" and ?i = "js_get params ''0''"
  obtain subs n where s: "ws_unsubscribe c ?i (wv_subs sv) = (subs, n)" by fastforce
  have inv: "sub_inv subs" using sub_inv_unsubscribe [of "wv_subs sv" c ?i] assms(1) s by (simp add: counter_inv_def)
  have m: "ss_subscriptions subs = kept_subs c ?i ?m" "n = removed_count c ?i ?m"
    using s ws_unsubscribe_eq [of "wv_subs sv" c ?i] assms(1) by (auto simp: counter_inv_def sub_inv_def)
  have "fst (handleEthUnsubscribe cfg requestId c i params sv) = update_socket c (decrementSubs (int n)) (sv\<lparr>wv_subs := subs\<rparr>)"
    using True s by (simp add: handleEthUnsubscribe_def)
  moreover have "counter_ok (map_option (decrementSubs (int n)) (wv_sockets sv c)) (num_subs c (kept_subs c ?i ?m))"
    using assms(1) [unfolded counter_inv_def, THEN conjunct2, rule_format, of c] assms(2) num_subs_kept [of c ?m c ?i]
    by (auto simp: counter_ok_def decrementSubs_def m(2) split: option.splits)
  moreover have "num_subs c' (kept_subs c ?i ?m) = num_subs c' ?m" if "c' \<noteq> c" for c'
    using num_subs_kept [of c' ?m c ?i] that by simp
  ultimately show ?thesis using assms(1) inv by (simp add: counter_inv_def update_socket_def m(1))
qed (use assms(1) in \<open>simp add: handleEthUnsubscribe_def\<close>)

lemma counter_inv_close:
  assumes "counter_inv sv" and "wv_sockets sv c = Some so"
  shows "counter_inv (handleConnectionClose c sv)"
proof -
  let ?m = "ss_subscriptions (wv_subs sv)"
  have m: "ss_subscriptions (fst (ws_unsubscribe c JUndefined (wv_subs sv))) = kept_subs c JUndefined ?m"
    using ws_unsubscribe_eq [of "wv_subs sv" c JUndefined] assms(1) by (auto simp: counter_inv_def sub_inv_def)
  have n: "num_subs c' (kept_subs c JUndefined ?m) = num_subs c' ?m" if "c' \<noteq> c" for c'
    using num_subs_kept [of c' ?m c JUndefined] that by simp
  show ?thesis using assms sub_inv_unsubscribe [of "wv_subs sv" c JUndefined]
    by (auto simp: handleConnectionClose_def counter_inv_def m n) (simp add: counter_ok_def)
qed

lemma counter_inv_connect:
  assumes "counter_inv sv" and "wv_sockets sv c = None"
  shows "counter_inv (on_connect cfg now connections c ip sv)"
proof -
  obtain l so where l: "incrementCounters connections (new_socket ip) (wv_limiter sv) = (l, so)" by fastforce
  then have "counted so = (1, 0)" by (auto simp: incrementCounters_def new_socket_def counted_def Let_def)
  then have "so_subscriptions (applyLimits cfg now so l) = 0"
    using counted_updates(7) [of cfg now so l] by (simp add: counted_def)
  moreover have "num_subs c (ss_subscriptions (wv_subs sv)) = 0"
    using assms(1) [unfolded counter_inv_def, THEN conjunct2, rule_format, of c] assms(2) by (simp add: counter_ok_def)
  ultimately show ?thesis using assms(1) l by (simp add: on_connect_def counter_inv_def) (simp add: counter_ok_def)
qed

lemma counter_inv_step:
  assumes "counter_inv sv" and "ws_step cfg cache valid_id sv sv'" and "\<not> wc_sameSubForSameEvent cfg"
  shows "counter_inv sv'"
proof -
  have inv: "sub_inv (wv_subs sv')" using sub_inv_step [OF _ assms(2)] assms(1) by (simp add: counter_inv_def)
  note cong = counter_inv_cong [OF assms(1) _ _ inv]
  show ?thesis using assms(2)
  proof cases
    case (connect c now connections ip)
    then show ?thesis using counter_inv_connect [OF assms(1)] by simp
  next
    case (close c so)
    then show ?thesis using counter_inv_close [OF assms(1)] by simp
  next
    case (subscribe c i generated ef)
    then show ?thesis using counter_inv_subscribe [OF assms(1) _ _ assms(3)] by simp
  next
    case (unsubscribe c requestId i params)
    then show ?thesis using counter_inv_unsubscribe [OF assms(1)] by simp
  next
    case (notify now tag data subs sockets)
    then show ?thesis using cong notify_same [where p = counted, OF notify(2)] notify_subs [OF notify(2)] by simp
  qed (rule cong; simp add: update_socket_def same_by_update)+
qed

lemma counter_inv_init: "ws_init sv \<Longrightarrow> counter_inv sv"
  using sub_inv_init [of sv] by (simp add: counter_inv_def counter_ok_def ws_init_def)

lemma counter_reachable:
  assumes "reachable ws_init (ws_step cfg cache valid_id) sv" and "\<not> wc_sameSubForSameEvent cfg"
  shows "counter_inv sv"
proof -
  have "invariant_system ws_init (ws_step cfg cache valid_id) counter_inv"
    using assms(2) by unfold_locales (auto intro: counter_inv_init counter_inv_step)
  then show ?thesis using assms(1) by (rule invariant_system.reachable_inv)
qed

section \<open>Properties\<close>

text \<open>C39: The polls of the server match its subscriptions, in any interleaving of connections, subscriptions, notifications and timers:
every tag has at least one subscriber and exactly one poll, no other tag is polled, and the poller runs exactly
when there is a subscription.\<close>

theorem polls_match_subscriptions:
  assumes "reachable ws_init (ws_step cfg cache ids) sv"
  shows "distinct (map fst (ss_subscriptions (wv_subs sv))) \<and> (\<forall>(t, xs) \<in> set (ss_subscriptions (wv_subs sv)). xs \<noteq> []) \<and>
    distinct (map po_tag (pl_polls (ss_poller (wv_subs sv)))) \<and>
    (\<forall>t. hasPoll t (ss_poller (wv_subs sv)) \<longleftrightarrow> subs_at t (ss_subscriptions (wv_subs sv)) \<noteq> []) \<and>
    (isPolling (ss_poller (wv_subs sv)) \<longleftrightarrow> ss_subscriptions (wv_subs sv) \<noteq> [])"
proof -
  have inv: "sub_inv (wv_subs sv)" using ws_polls.reachable_inv [OF assms] .
  have ne: "subs_at t (ss_subscriptions (wv_subs sv)) \<noteq> [] \<longleftrightarrow> t \<in> fst ` set (ss_subscriptions (wv_subs sv))" for t
  proof (cases "map_of (ss_subscriptions (wv_subs sv)) t")
    case (Some xs)
    then have "(t, xs) \<in> set (ss_subscriptions (wv_subs sv))" by (rule map_of_SomeD)
    moreover from this have "t \<in> fst ` set (ss_subscriptions (wv_subs sv))" by force
    ultimately have "xs \<noteq> []" "t \<in> fst ` set (ss_subscriptions (wv_subs sv))" using inv by (auto simp: sub_inv_def)
    then show ?thesis using Some by (simp add: subs_at_def)
  next
    case None
    then show ?thesis by (simp add: subs_at_def) (metis map_of_eq_None_iff)
  qed
  have poll: "hasPoll t p \<longleftrightarrow> t \<in> set (poll_tags p)" for t p
    by (auto simp: hasPoll_def poll_tags_def filter_empty_conv)
  have "pl_polls (ss_poller (wv_subs sv)) = [] \<longleftrightarrow> ss_subscriptions (wv_subs sv) = []"
  proof -
    have "set (poll_tags (ss_poller (wv_subs sv))) = fst ` set (ss_subscriptions (wv_subs sv))" using inv by (simp add: sub_inv_def)
    then show ?thesis by (simp add: poll_tags_def) (metis image_is_empty set_empty)
  qed
  then show ?thesis using inv by (simp add: sub_inv_def ne poll isPolling_def poll_tags_def)
qed

text \<open>The limiter's counter of an address is the number of open connections from it, and there is no counter for an address
without one, after any run of the server.\<close>

lemma ip_counter_exact:
  assumes "reachable ws_init (ws_step cfg cache ids) sv"
  shows "wl_clientIps (wv_limiter sv) ip =
    (let n = card {c. \<exists>so. wv_sockets sv c = Some so \<and> so_ip so = ip \<and> so_readyState so \<noteq> 3} in if n = 0 then None else Some (int n))"
proof -
  have inv: "ip_inv sv" using ws_ips.reachable_inv [OF assms] .
  then have "finite (open_at (wv_sockets sv) ip)" by (simp add: ip_inv_def finite_open)
  then show ?thesis using inv by (simp add: ip_inv_def Let_def open_at_def)
qed

text \<open>When the same event may be subscribed to twice and the ids of the requests have valid types, the counter of an open connection, which the
subscription limit is compared with, is the number of its subscriptions, after any run of the server.\<close>

lemma subscription_counter_exact:
  assumes "reachable ws_init (ws_step cfg cache valid_id) sv" and "\<not> wc_sameSubForSameEvent cfg"
    and "wv_sockets sv c = Some so" and "so_readyState so \<noteq> 3"
  shows "so_subscriptions so = int (sum_list (map (\<lambda>(t, xs). length (filter (\<lambda>s. sb_connection s = c) xs)) (ss_subscriptions (wv_subs sv))))"
  using counter_reachable [OF assms(1,2), unfolded counter_inv_def, THEN conjunct2, rule_format, of c] assms(3,4)
  by (simp add: counter_ok_def num_subs_def)

text \<open>When a connection closes, all its subscriptions end and those of the other connections stay, in their order.\<close>

lemma close_ends_subscriptions:
  assumes "reachable ws_init (ws_step cfg cache ids) sv" and "wv_sockets sv c = Some so"
  shows "subs_at t (ss_subscriptions (wv_subs (handleConnectionClose c sv))) =
    filter (\<lambda>s. sb_connection s \<noteq> c) (subs_at t (ss_subscriptions (wv_subs sv)))"
proof -
  let ?m = "ss_subscriptions (wv_subs sv)"
  have d: "distinct (map fst ?m)" using ws_polls.reachable_inv [OF assms(1)] by (simp add: sub_inv_def)
  have k: "subs_at t (kept_subs c JUndefined m) = filter (\<lambda>s. sb_connection s \<noteq> c) (subs_at t m)" if "distinct (map fst m)" for m
    using that
  proof (induction m)
    case (Cons e m)
    obtain u xs where e: "e = (u, xs)" by (cases e)
    have f: "filter (\<lambda>s. \<not> unsubscribed c JUndefined s) xs = filter (\<lambda>s. sb_connection s \<noteq> c) xs"
      by (simp add: unsubscribed_def)
    have "subs_at u m = []" using Cons.prems e by (simp add: subs_at_def) (metis map_of_eq_None_iff option.case(1))
    then show ?case using Cons e f
      by (cases "t = u") (auto simp: kept_subs_def subs_at_def simp del: filter_filter split: if_splits)
  qed (simp add: kept_subs_def subs_at_def)
  show ?thesis using assms(2) k [OF d] ws_unsubscribe_eq [OF d, of c JUndefined] by (simp add: handleConnectionClose_def)
qed

lemma notify_fold_sent:
  assumes "\<forall>h h' k. sn_has cache now h (sn_put cache now h' k) \<longrightarrow> h = h' \<or> sn_has cache now h k"
    and "distinct (map sb_subscriptionId subs)" and "inj_on (createHash cache data) (sb_subscriptionId ` set subs)" and "sockets c = Some so"
  shows "\<exists>ns so'. snd (fold (notify_one cache cfg now data) subs (k, sockets)) c = Some so' \<and> so_sent so' = so_sent so @ ns \<and> distinct ns \<and>
    set ns \<subseteq> {Notification data (sb_subscriptionId s) |s. s \<in> set subs \<and> sb_connection s = c} \<and>
    (\<forall>s \<in> set subs. sb_connection s = c \<and> \<not> sn_has cache now (createHash cache data (sb_subscriptionId s)) k \<longrightarrow>
       Notification data (sb_subscriptionId s) \<in> set ns)"
  using assms(2-4)
proof (induction subs arbitrary: k sockets so)
  case (Cons s subs)
  let ?h = "createHash cache data (sb_subscriptionId s)"
  have prems: "distinct (map sb_subscriptionId subs)" "inj_on (createHash cache data) (sb_subscriptionId ` set subs)"
    using Cons.prems(1,2) by (auto intro: inj_on_subset)
  note IH = Cons.IH [OF prems]
  show ?case
  proof (cases "sn_has cache now ?h k")
    case True
    then have one: "notify_one cache cfg now data s (k, sockets) = (k, sockets)" by (simp add: notify_one_def)
    show ?thesis using IH [where sockets = sockets and so = so and k = k] Cons.prems(3) True by (fastforce simp: one)
  next
    case False
    obtain S1 so1 where one: "notify_one cache cfg now data s (k, sockets) = (sn_put cache now ?h k, S1)" and so1: "S1 c = Some so1"
        "so_sent so1 = so_sent so @ (if sb_connection s = c then [Notification data (sb_subscriptionId s)] else [])"
      using False Cons.prems(3)
      by (cases "sb_connection s = c") (auto simp: notify_one_def resetInactivityTTLTimer_def startInactivityTTLTimer_def ws_send_def)
    obtain ns so' where ns: "snd (fold (notify_one cache cfg now data) (s # subs) (k, sockets)) c = Some so'" "so_sent so' = so_sent so1 @ ns" "distinct ns"
        "set ns \<subseteq> {Notification data (sb_subscriptionId s) |s. s \<in> set subs \<and> sb_connection s = c}"
        "\<forall>x \<in> set subs. sb_connection x = c \<and> \<not> sn_has cache now (createHash cache data (sb_subscriptionId x)) (sn_put cache now ?h k) \<longrightarrow>
           Notification data (sb_subscriptionId x) \<in> set ns"
      using IH [where so = so1 and k = "sn_put cache now ?h k" and sockets = S1] so1(1) one by auto
    have new: "\<not> sn_has cache now (createHash cache data (sb_subscriptionId x)) (sn_put cache now ?h k)"
      if "x \<in> set subs" "\<not> sn_has cache now (createHash cache data (sb_subscriptionId x)) k" for x
    proof -
      have "sb_subscriptionId x \<noteq> sb_subscriptionId s" using Cons.prems(1) that(1) by (auto simp: image_iff)
      then have "createHash cache data (sb_subscriptionId x) \<noteq> ?h" using Cons.prems(2) that(1) by (auto simp: inj_on_def)
      then show ?thesis using assms(1) that(2) by blast
    qed
    have "Notification data (sb_subscriptionId s) \<notin> set ns" using ns(4) Cons.prems(1) by auto
    then show ?thesis using ns so1(2) new
      by (intro exI [of _ "(if sb_connection s = c then [Notification data (sb_subscriptionId s)] else []) @ ns"] exI [of _ so']) auto
  qed
qed simp

text \<open>Data for a tag reaches the subscribers of the tag and nobody else: a connection is sent at most one notification for each of its subscriptions to the tag,
and one for each whose data was not recently sent, after what was sent before; provided that the hashes of the subscriptions differ and that putting a hash in
the cache makes no other hash appear.\<close>

lemma notify_subscribers_once:
  assumes "\<forall>h h' k. sn_has cache now h (sn_put cache now h' k) \<longrightarrow> h = h' \<or> sn_has cache now h k"
    and "distinct (map sb_subscriptionId (subs_at tag (ss_subscriptions st)))"
    and "inj_on (createHash cache data) (sb_subscriptionId ` set (subs_at tag (ss_subscriptions st)))"
    and "sockets c = Some so" and "notifySubscribers cache cfg now tag data (st, sockets) = (st', sockets')"
  shows "\<exists>ns so'. sockets' c = Some so' \<and> so_sent so' = so_sent so @ ns \<and> distinct ns \<and>
    set ns \<subseteq> {Notification data (sb_subscriptionId s) |s. s \<in> set (subs_at tag (ss_subscriptions st)) \<and> sb_connection s = c} \<and>
    (\<forall>s \<in> set (subs_at tag (ss_subscriptions st)).
       sb_connection s = c \<and> \<not> sn_has cache now (createHash cache data (sb_subscriptionId s)) (ss_cache st) \<longrightarrow>
       Notification data (sb_subscriptionId s) \<in> set ns)"
proof -
  have "sockets' = snd (fold (notify_one cache cfg now data) (subs_at tag (ss_subscriptions st)) (ss_cache st, sockets))"
    using assms(5) by (auto simp: notifySubscribers_def Let_def split: prod.splits)
  then show ?thesis using notify_fold_sent [where k = "ss_cache st" and sockets = sockets and c = c, OF assms(1-4), of cfg] by simp
qed

section \<open>A concrete server\<close>

definition demo_ws :: ws_config where
  "demo_ws = \<lparr>wc_connectionLimit = 10, wc_connectionLimitPerIp = 2, wc_subscriptionLimit = 1, wc_maxInactivityTTL = 300000,
     wc_sameSubForSameEvent = False, wc_subscriptionsEnabled = True, wc_newHeadsEnabled = True, wc_multipleAddressesEnabled = False,
     wc_batchRequestsEnabled = True, wc_batchRequestsMaxSize = 20, wc_requestIdIsOptional = False, wc_disallowedMethods = [],
     wc_methodConfiguration = [''eth_call'' \<mapsto> 5]\<rparr>"

definition no_cache :: "string list sent_cache" where
  "no_cache = \<lparr>sn_has = (\<lambda>_ h c. h \<in> set c), sn_put = (\<lambda>_ h c. h # c), sn_hash = (\<lambda>t. t)\<rparr>"

definition empty_ws :: "(unit, string list) ws_server" where
  "empty_ws = \<lparr>wv_limiter = \<lparr>wl_connectedClients = 0, wl_clientIps = Map.empty\<rparr>, wv_sockets = Map.empty,
     wv_subs = \<lparr>ss_subscriptions = [], ss_cache = [], ss_poller = \<lparr>pl_polls = [], pl_interval = False, pl_latestBlock = None\<rparr>\<rparr>, wv_state = ()\<rparr>"

definition heads :: "string \<times> jv" where
  "heads = (''newHeads'', JUndefined)"

definition connected_ws :: "(unit, string list) ws_server" where
  "connected_ws = on_connect demo_ws 0 1 ''c1'' ''10.0.0.1'' empty_ws"

definition subscribed_ws :: "(unit, string list) ws_server" where
  "subscribed_ws = fst (commit_subscription demo_ws ''s1'' ''c1'' (JNumV 1) heads connected_ws)"

lemma subscribed_reachable: "reachable ws_init (ws_step demo_ws no_cache valid_id) subscribed_ws"
proof -
  have "ws_init empty_ws" by (simp add: ws_init_def empty_ws_def)
  moreover have "ws_step demo_ws no_cache valid_id empty_ws connected_ws"
    unfolding connected_ws_def by (rule ws_step.connect) (simp add: empty_ws_def)
  moreover have "wv_sockets connected_ws ''c1'' \<noteq> None"
    by (simp add: connected_ws_def on_connect_def Let_def split: prod.splits)
  then have "ws_step demo_ws no_cache valid_id connected_ws subscribed_ws"
    unfolding subscribed_ws_def by (rule ws_step.subscribe) (simp add: valid_id_def)
  ultimately show ?thesis by (meson reachable.start reachable.advance)
qed

lemma subscribed_facts:
  "(case wv_sockets subscribed_ws ''c1'' of Some so \<Rightarrow> so_readyState so = 1 \<and> so_ip so = ''10.0.0.1'' \<and> so_subscriptions so = 1 | None \<Rightarrow> False) \<and>
   ss_subscriptions (wv_subs subscribed_ws) = [(subscription_tag ''newHeads'' JUndefined, [\<lparr>sb_connection = ''c1'', sb_subscriptionId = ''s1''\<rparr>])] \<and>
   ss_cache (wv_subs subscribed_ws) = []"
  by code_simp

lemmas subscribed_subs = subscribed_facts [THEN conjunct2, THEN conjunct1]

lemma subscribed_socket:
  obtains so where "wv_sockets subscribed_ws ''c1'' = Some so" "so_readyState so = 1" "so_ip so = ''10.0.0.1''" "so_subscriptions so = 1"
  using subscribed_facts [THEN conjunct1] by (auto split: option.splits)

theorem polls_match_subscriptions_witness:
  "isPolling (ss_poller (wv_subs subscribed_ws)) \<and> hasPoll (subscription_tag ''newHeads'' JUndefined) (ss_poller (wv_subs subscribed_ws))"
  using polls_match_subscriptions [OF subscribed_reachable] by (simp add: subscribed_subs subs_at_def)

lemma dom_commit: "dom (wv_sockets (fst (commit_subscription cfg g c i ef sv))) = dom (wv_sockets sv)"
  by (auto simp: commit_subscription_def update_socket_def Let_def split: prod.splits sum.splits if_splits)

lemma dom_connect: "dom (wv_sockets (on_connect cfg now n c ip sv)) = insert c (dom (wv_sockets sv))"
  by (simp add: on_connect_def case_prod_beta Let_def)

lemma ip_counter_exact_witness: "wl_clientIps (wv_limiter subscribed_ws) ''10.0.0.1'' = Some 1"
proof -
  have "dom (wv_sockets connected_ws) = {''c1''}"
    unfolding connected_ws_def dom_connect by (simp add: empty_ws_def)
  then have d: "dom (wv_sockets subscribed_ws) = {''c1''}" unfolding subscribed_ws_def dom_commit .
  obtain so where so: "wv_sockets subscribed_ws ''c1'' = Some so" "so_readyState so = 1" "so_ip so = ''10.0.0.1''" by (rule subscribed_socket)
  let ?X = "{c. \<exists>so. wv_sockets subscribed_ws c = Some so \<and> so_ip so = ''10.0.0.1'' \<and> so_readyState so \<noteq> 3}"
  have "?X \<subseteq> {''c1''}" unfolding d [symmetric] dom_def by blast
  moreover have "''c1'' \<in> ?X" using so by (intro CollectI exI [of _ so]) simp
  ultimately have "?X = {''c1''}" by blast
  then show ?thesis using ip_counter_exact [OF subscribed_reachable, of "''10.0.0.1''"] by simp
qed

lemma subscription_counter_exact_witness:
  "\<exists>so. wv_sockets subscribed_ws ''c1'' = Some so \<and> so_subscriptions so = 1"
proof -
  obtain so where so: "wv_sockets subscribed_ws ''c1'' = Some so" "so_readyState so = 1" by (rule subscribed_socket)
  have "\<not> wc_sameSubForSameEvent demo_ws" by (simp add: demo_ws_def)
  then show ?thesis using subscription_counter_exact [OF subscribed_reachable _ so(1)] so by (simp add: subscribed_subs)
qed

lemma close_ends_subscriptions_witness:
  "subs_at (subscription_tag ''newHeads'' JUndefined) (ss_subscriptions (wv_subs (handleConnectionClose ''c1'' subscribed_ws))) = []"
proof -
  obtain so where "wv_sockets subscribed_ws ''c1'' = Some so" by (rule subscribed_socket)
  then show ?thesis using close_ends_subscriptions [OF subscribed_reachable] by (simp add: subscribed_subs subs_at_def)
qed

lemma notify_subscribers_once_witness:
  "\<exists>so'. snd (notifySubscribers no_cache demo_ws 5 (subscription_tag ''newHeads'' JUndefined) (JNumV 7) (wv_subs subscribed_ws, wv_sockets subscribed_ws)) ''c1'' = Some so' \<and>
     Notification (JNumV 7) ''s1'' \<in> set (so_sent so')"
proof -
  obtain so where so: "wv_sockets subscribed_ws ''c1'' = Some so" by (rule subscribed_socket)
  obtain st' sockets' where n: "notifySubscribers no_cache demo_ws 5 (subscription_tag ''newHeads'' JUndefined) (JNumV 7)
      (wv_subs subscribed_ws, wv_sockets subscribed_ws) = (st', sockets')" by fastforce
  note cache = subscribed_facts [THEN conjunct2, THEN conjunct2]
  show ?thesis
    using notify_subscribers_once [where cache = no_cache and c = "''c1''" and sockets = "wv_sockets subscribed_ws", OF _ _ _ so n] n
    by (auto simp: no_cache_def subscribed_subs subs_at_def cache)
qed

section \<open>Defects\<close>

text \<open>
  Where the counter and the subscriptions part. The limit is checked before the request waits for the mirror node and the
  subscription is counted afterwards: two requests that both pass the check with a limit of one end with two
  subscriptions. With one subscription per event, a repeated request is counted although it makes no subscription. A
  request whose id is an object makes a subscription that is not counted. A subscription that is made after its
  connection was closed stays, and its poll runs on. A request to unsubscribe without an id ends every
  subscription of the connection.
\<close>

definition same_ws :: ws_config where
  "same_ws = demo_ws\<lparr>wc_sameSubForSameEvent := True\<rparr>"

lemma subscription_defects:
  "(case wv_sockets connected_ws ''c1'' of Some so \<Rightarrow> validateSubscriptionLimit demo_ws so | None \<Rightarrow> False) \<and>
   num_subs ''c1'' (ss_subscriptions (wv_subs (fst (commit_subscription demo_ws ''s2'' ''c1'' (JNumV 2) heads subscribed_ws)))) = 2 \<and>
   (let sv = fst (commit_subscription same_ws ''s2'' ''c1'' (JNumV 2) heads (fst (commit_subscription same_ws ''s1'' ''c1'' (JNumV 1) heads connected_ws)))
    in num_subs ''c1'' (ss_subscriptions (wv_subs sv)) = 1 \<and> map_option so_subscriptions (wv_sockets sv ''c1'') = Some 2) \<and>
   (let sv = fst (commit_subscription demo_ws ''s1'' ''c1'' (JObject []) heads connected_ws)
    in num_subs ''c1'' (ss_subscriptions (wv_subs sv)) = 1 \<and> map_option so_subscriptions (wv_sockets sv ''c1'') = Some 0) \<and>
   (let sv = fst (commit_subscription demo_ws ''s1'' ''c1'' (JNumV 1) heads (handleConnectionClose ''c1'' connected_ws))
    in num_subs ''c1'' (ss_subscriptions (wv_subs sv)) = 1 \<and> isPolling (ss_poller (wv_subs sv))) \<and>
   snd (ws_unsubscribe ''c1'' (js_get (JArray []) ''0'')
     (wv_subs (fst (commit_subscription demo_ws ''s2'' ''c1'' (JNumV 2) (''logs'', JUndefined) subscribed_ws)))) = 2"
  by code_simp

text \<open>A supported method in other letters passes the check of supported methods and then has no configuration, so nothing is answered.\<close>

lemma other_case_unanswered:
  "snd (ws_admit demo_env demo_ws 0 ''10.0.0.1'' ''r'' (sample_request (JNumV 1) ''ETH_call'') 0) = Inl (Inl ''Cannot read properties of undefined'')"
  by code_simp

end
