(* ===== verification/LocalLock.thy ===== *)
theory LocalLock
  imports Transitions
begin

text \<open>
  The in-memory lock by sender address: \<open>services/lockService/LocalLockStrategy.ts\<close>, with
  \<open>LockService.ts\<close>. Every \<open>await\<close> of the code is a point where other requests run, so
  \<open>acquireLock\<close> is two operations: joining the mutex, and the code after
  \<open>await state.mutex.acquire()\<close>, which runs some time after the mutex was granted.

  The mutex (package async-mutex) is an argument, with its laws in the locale
  \<open>fifo_mutex\<close>. The LRU cache of lock states is a map from which any entry may disappear
  once the cache is full; a run without such evictions and a run with them are two step
  relations.
\<close>

section \<open>The mutex\<close>

record 'm mutex_ops =
  mx_new :: 'm
  mx_acquire :: "string \<Rightarrow> 'm \<Rightarrow> 'm"
  mx_release :: "'m \<Rightarrow> 'm"

locale fifo_mutex =
  fixes mx :: "'m mutex_ops" and holder :: "'m \<Rightarrow> string option" and queue :: "'m \<Rightarrow> string list"
  assumes new_mutex: "holder (mx_new mx) = None" "queue (mx_new mx) = []"
    and acquire_free: "holder m = None \<Longrightarrow> holder (mx_acquire mx k m) = Some k \<and> queue (mx_acquire mx k m) = queue m"
    and acquire_held: "holder m = Some j \<Longrightarrow> holder (mx_acquire mx k m) = Some j \<and> queue (mx_acquire mx k m) = queue m @ [k]"
    and release_next: "queue m = k # ks \<Longrightarrow> holder (mx_release mx m) = Some k \<and> queue (mx_release mx m) = ks"
    and release_last: "queue m = [] \<Longrightarrow> holder (mx_release mx m) = None \<and> queue (mx_release mx m) = []"

section \<open>Lock states\<close>

record 'm lock_state =
  lk_mutex :: 'm
  lk_sessionKey :: "string option"
  lk_acquiredAt :: "int option"
  lk_lockTimeoutId :: "string option"

text \<open>
  Lock states are objects with an identity, since a request keeps its reference while it
  waits; \<open>ll_address\<close> records the address an object was created for. A timer is known by
  the session that started it and carries the address of its closure; \<open>ll_waiting\<close> is the
  requests inside \<open>acquireLock\<close>.
\<close>

record 'm local_locks =
  ll_states :: "nat \<Rightarrow> 'm lock_state"
  ll_address :: "nat \<Rightarrow> string"
  ll_count :: nat
  ll_cache :: "string \<rightharpoonup> nat"
  ll_waiting :: "string \<rightharpoonup> nat \<times> string"
  ll_timers :: "string \<rightharpoonup> string"
  ll_keys :: "string set"

definition normalizeAddress :: "string \<Rightarrow> string" where
  "normalizeAddress address = toLowerCase address"

definition new_state :: "'m mutex_ops \<Rightarrow> 'm lock_state" where
  "new_state mx = \<lparr>lk_mutex = mx_new mx, lk_sessionKey = None, lk_acquiredAt = None, lk_lockTimeoutId = None\<rparr>"

definition getOrCreateState :: "'m mutex_ops \<Rightarrow> string \<Rightarrow> 'm local_locks \<Rightarrow> nat \<times> 'm local_locks" where
  "getOrCreateState mx address s =
     (let normalizedAddress = normalizeAddress address in
      case ll_cache s normalizedAddress of
        Some n \<Rightarrow> (n, s)
      | None \<Rightarrow> (ll_count s, s\<lparr>ll_states := (ll_states s)(ll_count s := new_state mx),
          ll_address := (ll_address s)(ll_count s := normalizedAddress), ll_count := Suc (ll_count s),
          ll_cache := (ll_cache s)(normalizedAddress \<mapsto> ll_count s)\<rparr>))"

text \<open>\<open>acquireLock\<close> up to its \<open>await\<close>, with the session key \<open>randomUUID\<close> gave.\<close>

definition acquireLock_begin :: "'m mutex_ops \<Rightarrow> string \<Rightarrow> string \<Rightarrow> 'm local_locks \<Rightarrow> 'm local_locks" where
  "acquireLock_begin mx address sessionKey s =
     (let (n, s1) = getOrCreateState mx address s; st = ll_states s1 n
      in s1\<lparr>ll_states := (ll_states s1)(n := st\<lparr>lk_mutex := mx_acquire mx sessionKey (lk_mutex st)\<rparr>),
            ll_waiting := (ll_waiting s1)(sessionKey \<mapsto> (n, address)), ll_keys := insert sessionKey (ll_keys s1)\<rparr>)"

text \<open>The rest of \<open>acquireLock\<close>, once the mutex of the state \<open>n\<close> is the session's.\<close>

definition acquireLock_end :: "nat \<Rightarrow> string \<Rightarrow> string \<Rightarrow> int \<Rightarrow> 'm local_locks \<Rightarrow> 'm local_locks" where
  "acquireLock_end n address sessionKey now s =
     s\<lparr>ll_states := (ll_states s)(n := (ll_states s n)\<lparr>lk_sessionKey := Some sessionKey, lk_acquiredAt := Some now,
          lk_lockTimeoutId := Some sessionKey\<rparr>),
       ll_timers := (ll_timers s)(sessionKey \<mapsto> address), ll_waiting := (ll_waiting s)(sessionKey := None)\<rparr>"

definition doRelease :: "'m mutex_ops \<Rightarrow> nat \<Rightarrow> 'm local_locks \<Rightarrow> 'm local_locks" where
  "doRelease mx n s =
     (let st = ll_states s n;
          timers = (case lk_lockTimeoutId st of None \<Rightarrow> ll_timers s | Some t \<Rightarrow> (ll_timers s)(t := None))
      in s\<lparr>ll_timers := timers, ll_states := (ll_states s)(n := \<lparr>lk_mutex = mx_release mx (lk_mutex st),
             lk_sessionKey = None, lk_acquiredAt = None, lk_lockTimeoutId = None\<rparr>)\<rparr>)"

definition release_if_owner :: "'m mutex_ops \<Rightarrow> string \<Rightarrow> string \<Rightarrow> 'm local_locks \<Rightarrow> 'm local_locks" where
  "release_if_owner mx address sessionKey s =
     (case ll_cache s (normalizeAddress address) of
        None \<Rightarrow> s
      | Some n \<Rightarrow> if lk_sessionKey (ll_states s n) = Some sessionKey then doRelease mx n s else s)"

definition releaseLock :: "'m mutex_ops \<Rightarrow> string \<Rightarrow> string \<Rightarrow> 'm local_locks \<Rightarrow> 'm local_locks" where
  "releaseLock mx address sessionKey s = release_if_owner mx address sessionKey s"

text \<open>The callback of the timer, which is spent when it runs.\<close>

definition forceReleaseExpiredLock :: "'m mutex_ops \<Rightarrow> string \<Rightarrow> string \<Rightarrow> 'm local_locks \<Rightarrow> 'm local_locks" where
  "forceReleaseExpiredLock mx address sessionKey s =
     release_if_owner mx address sessionKey (s\<lparr>ll_timers := (ll_timers s)(sessionKey := None)\<rparr>)"

section \<open>Runs\<close>

definition no_locks :: "'m mutex_ops \<Rightarrow> 'm local_locks \<Rightarrow> bool" where
  "no_locks mx s \<longleftrightarrow> ll_count s = 0 \<and> ll_cache s = Map.empty \<and> ll_waiting s = Map.empty \<and> ll_timers s = Map.empty \<and> ll_keys s = {}"

text \<open>Session keys are fresh; anyone may call \<open>releaseLock\<close> with any key.\<close>

inductive lock_step :: "'m mutex_ops \<Rightarrow> ('m \<Rightarrow> string option) \<Rightarrow> 'm local_locks \<Rightarrow> 'm local_locks \<Rightarrow> bool"
  for mx holder where
  begin_acquire: "k \<notin> ll_keys s \<Longrightarrow> lock_step mx holder s (acquireLock_begin mx a k s)"
| end_acquire: "ll_waiting s k = Some (n, a) \<Longrightarrow> holder (lk_mutex (ll_states s n)) = Some k \<Longrightarrow>
    lock_step mx holder s (acquireLock_end n a k now s)"
| release: "lock_step mx holder s (releaseLock mx a k s)"
| timeout: "ll_timers s k = Some a \<Longrightarrow> lock_step mx holder s (forceReleaseExpiredLock mx a k s)"

inductive_cases lock_step_cases: "lock_step mx holder s s'"

inductive evicting_step :: "'m mutex_ops \<Rightarrow> ('m \<Rightarrow> string option) \<Rightarrow> 'm local_locks \<Rightarrow> 'm local_locks \<Rightarrow> bool"
  for mx holder where
  ordinary: "lock_step mx holder s s' \<Longrightarrow> evicting_step mx holder s s'"
| evict: "evicting_step mx holder s (s\<lparr>ll_cache := (ll_cache s)(a := None)\<rparr>)"

text \<open>A session holds the lock of an address when it is the recorded owner of a state of that address.\<close>

definition holds :: "'m local_locks \<Rightarrow> string \<Rightarrow> string \<Rightarrow> bool" where
  "holds s a k \<longleftrightarrow> (\<exists>n < ll_count s. ll_address s n = normalizeAddress a \<and> lk_sessionKey (ll_states s n) = Some k)"

section \<open>The invariant\<close>

definition obj_inv :: "('m \<Rightarrow> string option) \<Rightarrow> ('m \<Rightarrow> string list) \<Rightarrow> 'm local_locks \<Rightarrow> nat \<Rightarrow> bool" where
  "obj_inv holder queue s n \<longleftrightarrow> (let st = ll_states s n; m = lk_mutex st in
     lk_lockTimeoutId st = lk_sessionKey st \<and>
     (holder m = None \<longrightarrow> queue m = []) \<and> distinct (queue m) \<and> (\<forall>k. holder m = Some k \<longrightarrow> k \<notin> set (queue m)) \<and>
     (\<forall>k. lk_sessionKey st = Some k \<longrightarrow> holder m = Some k \<and> k \<in> ll_keys s \<and> ll_waiting s k = None \<and>
        (\<exists>a. ll_timers s k = Some a \<and> normalizeAddress a = ll_address s n)) \<and>
     (\<forall>k. (holder m = Some k \<and> lk_sessionKey st = None) \<or> k \<in> set (queue m) \<longrightarrow> k \<in> ll_keys s \<and>
        (\<exists>a. ll_waiting s k = Some (n, a) \<and> normalizeAddress a = ll_address s n)))"

definition cache_inv :: "'m local_locks \<Rightarrow> bool" where
  "cache_inv s \<longleftrightarrow> (\<forall>a n. ll_cache s a = Some n \<longrightarrow> n < ll_count s \<and> ll_address s n = a) \<and>
     (\<forall>n < ll_count s. ll_cache s (ll_address s n) = Some n) \<and>
     (\<forall>k n a. ll_waiting s k = Some (n, a) \<longrightarrow> n < ll_count s \<and> k \<in> ll_keys s)"

definition lock_inv :: "('m \<Rightarrow> string option) \<Rightarrow> ('m \<Rightarrow> string list) \<Rightarrow> 'm local_locks \<Rightarrow> bool" where
  "lock_inv holder queue s \<longleftrightarrow> cache_inv s \<and> (\<forall>n < ll_count s. obj_inv holder queue s n)"

lemma lock_inv_obj: "lock_inv holder queue s \<Longrightarrow> n < ll_count s \<Longrightarrow> obj_inv holder queue s n"
  by (simp add: lock_inv_def)

lemma lock_inv_cache: "lock_inv holder queue s \<Longrightarrow> n < ll_count s \<Longrightarrow> ll_cache s (ll_address s n) = Some n"
  by (simp add: lock_inv_def cache_inv_def)

lemma lock_inv_address:
  "lock_inv holder queue s \<Longrightarrow> n < ll_count s \<Longrightarrow> n' < ll_count s \<Longrightarrow> ll_address s n = ll_address s n' \<Longrightarrow> n = n'"
  unfolding lock_inv_def cache_inv_def by (metis option.inject)

text \<open>An object keeps its invariant when only the entries of a session that is foreign to it change.\<close>

lemma obj_inv_frame:
  assumes "obj_inv holder queue s n"
    and "ll_states s' n = ll_states s n" "ll_address s' n = ll_address s n" "ll_keys s \<subseteq> ll_keys s'"
    and "\<And>k. lk_sessionKey (ll_states s n) = Some k \<Longrightarrow> ll_timers s' k = ll_timers s k \<and> ll_waiting s' k = ll_waiting s k"
    and "\<And>k a. ll_waiting s k = Some (n, a) \<Longrightarrow> ll_waiting s' k = ll_waiting s k"
  shows "obj_inv holder queue s' n"
proof -
  let ?st = "ll_states s n"
  let ?m = "lk_mutex ?st"
  have own: "holder ?m = Some k \<and> k \<in> ll_keys s \<and> ll_waiting s k = None \<and>
      (\<exists>a. ll_timers s k = Some a \<and> normalizeAddress a = ll_address s n)" if "lk_sessionKey ?st = Some k" for k
    using assms(1) that by (simp add: obj_inv_def Let_def)
  have wait: "k \<in> ll_keys s \<and> (\<exists>a. ll_waiting s k = Some (n, a) \<and> normalizeAddress a = ll_address s n)"
    if "(holder ?m = Some k \<and> lk_sessionKey ?st = None) \<or> k \<in> set (queue ?m)" for k
    using assms(1) that unfolding obj_inv_def Let_def by blast
  have "holder ?m = Some k \<and> k \<in> ll_keys s' \<and> ll_waiting s' k = None \<and>
      (\<exists>a. ll_timers s' k = Some a \<and> normalizeAddress a = ll_address s n)" if "lk_sessionKey ?st = Some k" for k
    using own [OF that] assms(4) assms(5) [OF that] by auto
  moreover have "k \<in> ll_keys s' \<and> (\<exists>a. ll_waiting s' k = Some (n, a) \<and> normalizeAddress a = ll_address s n)"
    if "(holder ?m = Some k \<and> lk_sessionKey ?st = None) \<or> k \<in> set (queue ?m)" for k
    using wait [OF that] assms(4,6) by (metis subsetD)
  ultimately show ?thesis
    using assms(1) unfolding obj_inv_def Let_def assms(2,3) by blast
qed

lemma normalizeAddress_idem [simp]: "normalizeAddress (normalizeAddress a) = normalizeAddress a"
  by (simp add: normalizeAddress_def)

context fifo_mutex
begin

lemma getOrCreateState_inv:
  assumes "lock_inv holder queue s" "getOrCreateState mx a s = (n, s1)"
  shows "lock_inv holder queue s1" "n < ll_count s1" "ll_address s1 n = normalizeAddress a"
    "ll_keys s1 = ll_keys s" "ll_waiting s1 = ll_waiting s" "ll_timers s1 = ll_timers s"
proof -
  have goals: "lock_inv holder queue s1 \<and> n < ll_count s1 \<and> ll_address s1 n = normalizeAddress a \<and>
    ll_keys s1 = ll_keys s \<and> ll_waiting s1 = ll_waiting s \<and> ll_timers s1 = ll_timers s"
  proof (cases "ll_cache s (normalizeAddress a)")
    case (Some j)
    then show ?thesis using assms by (auto simp: getOrCreateState_def lock_inv_def cache_inv_def)
  next
    case None
    then have s1: "n = ll_count s" "s1 = s\<lparr>ll_states := (ll_states s)(ll_count s := new_state mx),
          ll_address := (ll_address s)(ll_count s := normalizeAddress a), ll_count := Suc (ll_count s),
          ll_cache := (ll_cache s)(normalizeAddress a \<mapsto> ll_count s)\<rparr>"
      using assms(2) by (auto simp: getOrCreateState_def Let_def)
    have "obj_inv holder queue s1 i" if "i < ll_count s" for i
      by (rule obj_inv_frame [OF lock_inv_obj [OF assms(1) that]]) (use that in \<open>auto simp: s1\<close>)
    moreover have "obj_inv holder queue s1 (ll_count s)"
      by (simp add: obj_inv_def s1 new_state_def new_mutex)
    moreover have "cache_inv s1"
      using assms(1) None by (fastforce simp: lock_inv_def cache_inv_def s1 less_Suc_eq)
    ultimately show ?thesis by (auto simp: lock_inv_def s1 less_Suc_eq)
  qed
  then show "lock_inv holder queue s1" "n < ll_count s1" "ll_address s1 n = normalizeAddress a"
    "ll_keys s1 = ll_keys s" "ll_waiting s1 = ll_waiting s" "ll_timers s1 = ll_timers s" by auto
qed

lemma begin_inv:
  assumes "lock_inv holder queue s" "k \<notin> ll_keys s"
  shows "lock_inv holder queue (acquireLock_begin mx a k s)"
proof -
  obtain n s1 where g: "getOrCreateState mx a s = (n, s1)" by fastforce
  note i = getOrCreateState_inv [OF assms(1) g]
  let ?st = "ll_states s1 n"
  let ?s = "acquireLock_begin mx a k s"
  have s: "?s = s1\<lparr>ll_states := (ll_states s1)(n := ?st\<lparr>lk_mutex := mx_acquire mx k (lk_mutex ?st)\<rparr>),
            ll_waiting := (ll_waiting s1)(k \<mapsto> (n, a)), ll_keys := insert k (ll_keys s1)\<rparr>"
    by (simp add: acquireLock_begin_def g Let_def)
  have fresh: "k \<notin> ll_keys s1" "ll_waiting s1 k = None"
    using assms i(1,4) by (auto simp: lock_inv_def cache_inv_def) (metis option.exhaust surj_pair)
  have "obj_inv holder queue ?s j" if j: "j < ll_count s1" for j
  proof (cases "j = n")
    case False
    have "lk_sessionKey (ll_states s1 j) \<noteq> Some k"
      using lock_inv_obj [OF i(1) j] fresh by (auto simp: obj_inv_def Let_def)
    then show ?thesis
      by (intro obj_inv_frame [OF lock_inv_obj [OF i(1) j]]) (use False fresh in \<open>auto simp: s\<close>)
  next
    case True
    have o: "obj_inv holder queue s1 n" using lock_inv_obj [OF i(1,2)] .
    show ?thesis
    proof (cases "holder (lk_mutex ?st)")
      case None
      then show ?thesis using o acquire_free [OF None, of k] i(3) fresh
        by (auto simp: True s obj_inv_def Let_def)
    next
      case (Some h)
      then have "h \<noteq> k" using o fresh by (cases "lk_sessionKey ?st") (auto simp: obj_inv_def Let_def)
      then show ?thesis using Some o acquire_held [OF Some, of k] i(3) fresh
        by (auto simp: True s obj_inv_def Let_def)
    qed
  qed
  moreover have "cache_inv ?s"
    using i(1,2) by (auto simp: s lock_inv_def cache_inv_def)
  ultimately show ?thesis by (simp add: lock_inv_def s)
qed

lemma end_inv:
  assumes "lock_inv holder queue s" "ll_waiting s k = Some (n, a)" "holder (lk_mutex (ll_states s n)) = Some k"
  shows "lock_inv holder queue (acquireLock_end n a k now s)"
proof -
  let ?s = "acquireLock_end n a k now s"
  have n: "n < ll_count s" using assms(1,2) unfolding lock_inv_def cache_inv_def by blast
  have o: "obj_inv holder queue s n" using lock_inv_obj [OF assms(1) n] .
  then have free: "lk_sessionKey (ll_states s n) = None" "normalizeAddress a = ll_address s n"
    using assms(2,3) by (cases "lk_sessionKey (ll_states s n)"; force simp: obj_inv_def Let_def)+
  have "obj_inv holder queue ?s j" if j: "j < ll_count s" for j
  proof (cases "j = n")
    case False
    then show ?thesis
      using lock_inv_obj [OF assms(1) j] assms(2)
      by (intro obj_inv_frame [OF lock_inv_obj [OF assms(1) j]]) (auto simp: acquireLock_end_def obj_inv_def Let_def)
  next
    case True
    then show ?thesis using o free assms(2,3) by (auto simp: acquireLock_end_def obj_inv_def Let_def)
  qed
  moreover have "cache_inv ?s"
    using assms(1) by (auto simp: acquireLock_end_def lock_inv_def cache_inv_def)
  ultimately show ?thesis by (simp add: lock_inv_def acquireLock_end_def)
qed

lemma doRelease_inv:
  assumes "lock_inv holder queue s" "n < ll_count s" "lk_sessionKey (ll_states s n) = Some k"
  shows "lock_inv holder queue (doRelease mx n s)"
proof -
  let ?s = "doRelease mx n s"
  have o: "obj_inv holder queue s n" using lock_inv_obj [OF assms(1,2)] .
  then obtain a where t: "lk_lockTimeoutId (ll_states s n) = Some k" "ll_timers s k = Some a" "normalizeAddress a = ll_address s n"
    using assms(3) by (auto simp: obj_inv_def Let_def)
  have "obj_inv holder queue ?s j" if j: "j < ll_count s" for j
  proof (cases "j = n")
    case False
    have "lk_sessionKey (ll_states s j) \<noteq> Some k"
      using lock_inv_obj [OF assms(1) j] t lock_inv_address [OF assms(1) j assms(2)] False
      by (auto simp: obj_inv_def Let_def)
    then show ?thesis
      by (intro obj_inv_frame [OF lock_inv_obj [OF assms(1) j]]) (use False t in \<open>auto simp: doRelease_def Let_def\<close>)
  next
    case True
    show ?thesis
    proof (cases "queue (lk_mutex (ll_states s n))")
      case Nil
      then show ?thesis using o release_last [OF Nil] t by (auto simp: True doRelease_def obj_inv_def Let_def)
    next
      case (Cons j js)
      then show ?thesis using o release_next [OF Cons] t by (auto simp: True doRelease_def obj_inv_def Let_def)
    qed
  qed
  moreover have "cache_inv ?s"
    using assms(1) by (auto simp: doRelease_def lock_inv_def cache_inv_def Let_def)
  ultimately show ?thesis by (simp add: lock_inv_def doRelease_def Let_def)
qed

lemma release_inv:
  assumes "lock_inv holder queue s"
  shows "lock_inv holder queue (release_if_owner mx a k s)"
  using assms doRelease_inv [OF assms]
  by (auto simp: release_if_owner_def lock_inv_def cache_inv_def split: option.splits)

end

section \<open>Properties\<close>

context fifo_mutex
begin

lemma timeout_inv:
  assumes inv: "lock_inv holder queue s" and t: "ll_timers s k = Some a"
  shows "lock_inv holder queue (forceReleaseExpiredLock mx a k s)"
proof (cases "\<exists>n < ll_count s. lk_sessionKey (ll_states s n) = Some k")
  case True
  then obtain n where n: "n < ll_count s" "lk_sessionKey (ll_states s n) = Some k" by blast
  have o: "lk_lockTimeoutId (ll_states s n) = Some k" "ll_address s n = normalizeAddress a"
    using lock_inv_obj [OF inv n(1)] n(2) t by (auto simp: obj_inv_def Let_def)
  have c: "ll_cache s (normalizeAddress a) = Some n"
    using lock_inv_cache [OF inv n(1)] o(2) by simp
  have "forceReleaseExpiredLock mx a k s = doRelease mx n s"
    by (simp add: forceReleaseExpiredLock_def release_if_owner_def c n(2) doRelease_def o Let_def)
  then show ?thesis using doRelease_inv [OF inv n] by simp
next
  case False
  then have none: "\<And>j. j < ll_count s \<Longrightarrow> lk_sessionKey (ll_states s j) \<noteq> Some k" by blast
  let ?s = "s\<lparr>ll_timers := (ll_timers s)(k := None)\<rparr>"
  have "obj_inv holder queue ?s j" if "j < ll_count s" for j
    by (rule obj_inv_frame [OF lock_inv_obj [OF inv that]]) (use none [OF that] in auto)
  moreover have "cache_inv ?s" using inv by (simp add: lock_inv_def cache_inv_def)
  ultimately have "lock_inv holder queue ?s" by (simp add: lock_inv_def)
  moreover have "lk_sessionKey (ll_states s n) \<noteq> Some k" if "ll_cache s (normalizeAddress a) = Some n" for n
    using none inv that unfolding lock_inv_def cache_inv_def by blast
  then have "forceReleaseExpiredLock mx a k s = ?s"
    by (auto simp: forceReleaseExpiredLock_def release_if_owner_def split: option.split)
  ultimately show ?thesis by simp
qed

sublocale runs: invariant_system "no_locks mx" "lock_step mx holder" "lock_inv holder queue"
proof
  show "no_locks mx s \<Longrightarrow> lock_inv holder queue s" for s
    by (simp add: no_locks_def lock_inv_def cache_inv_def)
next
  show "lock_inv holder queue s \<Longrightarrow> lock_step mx holder s s' \<Longrightarrow> lock_inv holder queue s'" for s s'
    by (erule lock_step_cases) (auto simp: releaseLock_def intro: begin_inv end_inv release_inv timeout_inv)
qed

lemma exclusive:
  assumes "reachable (no_locks mx) (lock_step mx holder) s" "holds s a k" "holds s a k'"
  shows "k = k'"
  using assms lock_inv_address [OF runs.reachable_inv [OF assms(1)]] unfolding holds_def by (metis option.inject)

lemma progress:
  assumes "reachable (no_locks mx) (lock_step mx holder) s" "n < ll_count s" "holder (lk_mutex (ll_states s n)) = Some k"
  shows "(\<exists>a. ll_waiting s k = Some (n, a)) \<or>
    (holds s (ll_address s n) k \<and> (\<exists>a. ll_timers s k = Some a \<and>
       holder (lk_mutex (ll_states (forceReleaseExpiredLock mx a k s) n)) =
         (case queue (lk_mutex (ll_states s n)) of [] \<Rightarrow> None | j # _ \<Rightarrow> Some j)))"
proof -
  have inv: "lock_inv holder queue s" using runs.reachable_inv [OF assms(1)] .
  have o: "obj_inv holder queue s n" using lock_inv_obj [OF inv assms(2)] .
  show ?thesis
  proof (cases "lk_sessionKey (ll_states s n)")
    case None
    then show ?thesis using o assms(3) by (auto simp: obj_inv_def Let_def)
  next
    case (Some j)
    then have k: "lk_sessionKey (ll_states s n) = Some k" using o assms(3) by (auto simp: obj_inv_def Let_def)
    then obtain a where a: "ll_timers s k = Some a" "normalizeAddress a = ll_address s n"
      using o by (auto simp: obj_inv_def Let_def)
    have c: "ll_cache s (normalizeAddress a) = Some n"
      using lock_inv_cache [OF inv assms(2)] a(2) by simp
    have "holder (lk_mutex (ll_states (forceReleaseExpiredLock mx a k s) n)) =
         (case queue (lk_mutex (ll_states s n)) of [] \<Rightarrow> None | j # _ \<Rightarrow> Some j)"
      using c k release_last release_next
      by (auto simp: forceReleaseExpiredLock_def release_if_owner_def doRelease_def Let_def split: list.split)
    moreover have "holds s (ll_address s n) k"
      using assms(2) k a(2) by (metis holds_def normalizeAddress_idem)
    ultimately show ?thesis using a by blast
  qed
qed

end

text \<open>A mutex with these laws: the holder and the queue.\<close>

definition reference_mutex :: "(string option \<times> string list) mutex_ops" where
  "reference_mutex = \<lparr>mx_new = (None, []),
     mx_acquire = (\<lambda>k (h, q). case h of None \<Rightarrow> (Some k, q) | Some j \<Rightarrow> (h, q @ [k])),
     mx_release = (\<lambda>(h, q). case q of [] \<Rightarrow> (None, []) | k # ks \<Rightarrow> (Some k, ks))\<rparr>"

interpretation ref_mutex: fifo_mutex reference_mutex fst snd
  by unfold_locales (auto simp: reference_mutex_def split: option.splits)



subsection \<open>A run\<close>

definition start_locks :: "(string option \<times> string list) local_locks" where
  "start_locks = \<lparr>ll_states = (\<lambda>_. new_state reference_mutex), ll_address = (\<lambda>_. []), ll_count = 0, ll_cache = Map.empty,
     ll_waiting = Map.empty, ll_timers = Map.empty, ll_keys = {}\<rparr>"

definition one_waits :: "(string option \<times> string list) local_locks" where
  "one_waits = acquireLock_begin reference_mutex ''a'' ''k1'' start_locks"

definition one_holds :: "(string option \<times> string list) local_locks" where
  "one_holds = acquireLock_end 0 ''a'' ''k1'' 5 one_waits"

lemmas run_simps = start_locks_def one_waits_def one_holds_def acquireLock_begin_def acquireLock_end_def getOrCreateState_def
  new_state_def reference_mutex_def Let_def

lemma one_waits_reachable: "reachable (no_locks reference_mutex) (lock_step reference_mutex fst) one_waits"
  unfolding one_waits_def
  by (rule advance, rule start) (auto simp: no_locks_def start_locks_def intro: begin_acquire)

lemma one_holds_reachable: "reachable (no_locks reference_mutex) (lock_step reference_mutex fst) one_holds"
  unfolding one_holds_def
  by (rule advance [OF one_waits_reachable], rule end_acquire) (simp_all add: run_simps)

lemma one_holds_owner: "holds one_holds ''A'' ''k1''"
  by (simp add: holds_def run_simps normalizeAddress_def) code_simp



section \<open>The lock service\<close>

text \<open>\<open>LockService\<close> calls the strategy only when nonces are ordered; otherwise nothing is locked.\<close>

definition LockService_acquireLock :: "bool \<Rightarrow> (string \<Rightarrow> 's \<Rightarrow> 's) \<Rightarrow> string \<Rightarrow> 's \<Rightarrow> 's" where
  "LockService_acquireLock ENABLE_NONCE_ORDERING acquire address s =
     (if ENABLE_NONCE_ORDERING then acquire address s else s)"

definition LockService_releaseLock :: "bool \<Rightarrow> (string \<Rightarrow> string \<Rightarrow> 's \<Rightarrow> 's) \<Rightarrow> string \<Rightarrow> string \<Rightarrow> 's \<Rightarrow> 's" where
  "LockService_releaseLock ENABLE_NONCE_ORDERING release address sessionKey s =
     (if ENABLE_NONCE_ORDERING then release address sessionKey s else s)"

text \<open>A session that is not the recorded owner cannot release the in-memory lock: the call changes nothing. The owner's
release hands the mutex on, stops the timer and leaves the state without owner. With nonce ordering disabled nothing is released.\<close>

lemma local_release_owner_only:
  "(LockService_releaseLock True (releaseLock mx) a k s =
     (case ll_cache s (normalizeAddress a) of
        None \<Rightarrow> s
      | Some n \<Rightarrow> if lk_sessionKey (ll_states s n) = Some k
          then s\<lparr>ll_timers := (case lk_lockTimeoutId (ll_states s n) of None \<Rightarrow> ll_timers s | Some t \<Rightarrow> (ll_timers s)(t := None)),
                 ll_states := (ll_states s)(n := (new_state mx)\<lparr>lk_mutex := mx_release mx (lk_mutex (ll_states s n))\<rparr>)\<rparr>
          else s)) \<and> LockService_releaseLock False (releaseLock mx) a k s = s"
  by (auto simp: LockService_releaseLock_def releaseLock_def release_if_owner_def doRelease_def new_state_def Let_def
      split: option.split)

section \<open>Evictions\<close>

text \<open>When the state of a held lock is evicted, a second session gets the lock of the same address.\<close>

definition evicted :: "(string option \<times> string list) local_locks" where
  "evicted = one_holds\<lparr>ll_cache := (ll_cache one_holds)(''a'' := None)\<rparr>"

definition both_hold :: "(string option \<times> string list) local_locks" where
  "both_hold = acquireLock_end 1 ''a'' ''k2'' 6 (acquireLock_begin reference_mutex ''a'' ''k2'' evicted)"

lemma lock_step_evicting: "reachable init (lock_step mx holder) s \<Longrightarrow> reachable init (evicting_step mx holder) s"
  by (induction rule: reachable.induct) (auto intro: start advance ordinary)

lemma eviction_breaks_exclusion:
  "reachable (no_locks reference_mutex) (evicting_step reference_mutex fst) both_hold \<and>
   holds both_hold ''a'' ''k1'' \<and> holds both_hold ''a'' ''k2''"
proof -
  have a: "normalizeAddress ''a'' = ''a''" by code_simp
  have e: "reachable (no_locks reference_mutex) (evicting_step reference_mutex fst) evicted"
    unfolding evicted_def by (rule advance [OF lock_step_evicting [OF one_holds_reachable] evict])
  have b: "reachable (no_locks reference_mutex) (evicting_step reference_mutex fst)
      (acquireLock_begin reference_mutex ''a'' ''k2'' evicted)"
    by (rule advance [OF e], rule ordinary, rule begin_acquire) (simp add: evicted_def run_simps a)
  have "reachable (no_locks reference_mutex) (evicting_step reference_mutex fst) both_hold"
    unfolding both_hold_def
    by (rule advance [OF b], rule ordinary, rule end_acquire) (simp_all add: evicted_def run_simps a)
  moreover have "holds both_hold ''a'' ''k1''" "holds both_hold ''a'' ''k2''"
    unfolding holds_def by (rule exI [of _ 0], simp add: both_hold_def evicted_def run_simps a)
      (rule exI [of _ 1], simp add: both_hold_def evicted_def run_simps a)
  ultimately show ?thesis by simp
qed

end
