(* ===== verification/RedisLock.thy ===== *)
theory RedisLock
  imports LocalLock
begin

text \<open>
  The distributed lock by sender address: \<open>services/lockService/RedisLockStrategy.ts\<close>, with the
  choice between the two strategies (\<open>LockStrategyFactory.ts\<close>). Every \<open>await\<close> is a point where the other
  sessions run, on this relay or on another one, so \<open>acquireLock\<close> is a sequence of phases, each
  with the Redis command it sends and what it does with the reply.

  The Redis server is an argument: a function that runs a command at a time and answers, or fails.
  What the lock relies on is the locale \<open>lock_server\<close>: a reply is that of the documented command on
  the view of the keys, and a command that failed may or may not have had its effect.
\<close>

section \<open>Commands\<close>

record redis_view =
  rv_strings :: "string \<Rightarrow> (string \<times> int) option"
  rv_lists :: "string \<Rightarrow> string list"

datatype lock_reply = ROk | RNil | RStr string | RInt nat

datatype lock_command =
    LPUSH string string
  | LINDEX_last string
  | SET_PX string string int
  | SET_NX_PX string string int
  | EXISTS string
  | LREM string nat string
  | LLEN string
  | EVAL "int \<Rightarrow> redis_view \<Rightarrow> redis_view \<times> nat"

text \<open>The value of a key whose time to live has not passed.\<close>

definition redis_get :: "int \<Rightarrow> redis_view \<Rightarrow> string \<Rightarrow> string option" where
  "redis_get now s key = (case rv_strings s key of
     None \<Rightarrow> None | Some (v, expires) \<Rightarrow> if now < expires then Some v else None)"

definition redis_set :: "string \<Rightarrow> string \<Rightarrow> int \<Rightarrow> redis_view \<Rightarrow> redis_view" where
  "redis_set key v expires s = s\<lparr>rv_strings := (rv_strings s)(key \<mapsto> (v, expires))\<rparr>"

definition redis_del :: "string \<Rightarrow> redis_view \<Rightarrow> redis_view" where
  "redis_del key s = s\<lparr>rv_strings := (rv_strings s)(key := None)\<rparr>"

definition on_list :: "string \<Rightarrow> (string list \<Rightarrow> string list) \<Rightarrow> redis_view \<Rightarrow> redis_view" where
  "on_list key f s = s\<lparr>rv_lists := (rv_lists s)(key := f (rv_lists s key))\<rparr>"

fun redis_exec :: "int \<Rightarrow> lock_command \<Rightarrow> redis_view \<Rightarrow> redis_view \<times> lock_reply" where
  "redis_exec now (LPUSH key v) s = (on_list key ((#) v) s, RInt (Suc (length (rv_lists s key))))"
| "redis_exec now (LINDEX_last key) s = (s, if rv_lists s key = [] then RNil else RStr (last (rv_lists s key)))"
| "redis_exec now (SET_PX key v ttl) s = (redis_set key v (now + ttl) s, ROk)"
| "redis_exec now (SET_NX_PX key v ttl) s =
     (if redis_get now s key = None then (redis_set key v (now + ttl) s, ROk) else (s, RNil))"
| "redis_exec now (EXISTS key) s = (s, RInt (if redis_get now s key = None \<and> rv_lists s key = [] then 0 else 1))"
| "redis_exec now (LREM key count v) s = (on_list key (if count = 0 then removeAll v else remove1 v) s, RInt 0)"
| "redis_exec now (LLEN key) s = (s, RInt (length (rv_lists s key)))"
| "redis_exec now (EVAL script) s = (let (s', n) = script now s in (s', RInt n))"

type_synonym 'r lock_client = "int \<Rightarrow> lock_command \<Rightarrow> 'r \<Rightarrow> 'r \<times> lock_reply option"

section \<open>The strategy\<close>

record lock_config =
  lcf_maxLockHoldMs :: int
  lcf_pollIntervalMs :: int
  lcf_heartbeatMissedCount :: int

definition heartbeatTtlMs :: "lock_config \<Rightarrow> int" where
  "heartbeatTtlMs cfg = lcf_pollIntervalMs cfg * lcf_heartbeatMissedCount cfg"

definition getLockKey :: "string \<Rightarrow> string" where
  "getLockKey address = ''lock:'' @ normalizeAddress address"

definition getQueueKey :: "string \<Rightarrow> string" where
  "getQueueKey address = ''lock:queue:'' @ normalizeAddress address"

definition getHeartbeatKey :: "string \<Rightarrow> string" where
  "getHeartbeatKey sessionKey = ''lock:heartbeat:'' @ sessionKey"

text \<open>Where a call of \<open>acquireLock\<close> is; \<open>Leaving\<close> is its \<open>finally\<close> with the result it will return.\<close>

datatype phase =
    Joining | Beating | Looking | Locking | Counting
  | Probing string | Pruning string | Sleeping
  | Leaving "string option" | Returned "string option"

fun acquire_command :: "lock_config \<Rightarrow> string \<Rightarrow> string \<Rightarrow> phase \<Rightarrow> lock_command option" where
  "acquire_command cfg address k Joining = Some (LPUSH (getQueueKey address) k)"
| "acquire_command cfg address k Beating = Some (SET_PX (getHeartbeatKey k) ''1'' (heartbeatTtlMs cfg))"
| "acquire_command cfg address k Looking = Some (LINDEX_last (getQueueKey address))"
| "acquire_command cfg address k Locking = Some (SET_NX_PX (getLockKey address) k (lcf_maxLockHoldMs cfg))"
| "acquire_command cfg address k Counting = Some (LLEN (getQueueKey address))"
| "acquire_command cfg address k (Probing firstInQueue) = Some (EXISTS (getHeartbeatKey firstInQueue))"
| "acquire_command cfg address k (Pruning firstInQueue) = Some (LREM (getQueueKey address) 0 firstInQueue)"
| "acquire_command cfg address k Sleeping = None"
| "acquire_command cfg address k (Leaving result) = Some (LREM (getQueueKey address) 1 k)"
| "acquire_command cfg address k (Returned result) = None"

text \<open>The next phase after a reply. A key that is empty text is no first session.\<close>

fun acquire_reply :: "string \<Rightarrow> phase \<Rightarrow> lock_reply \<Rightarrow> phase" where
  "acquire_reply k Joining y = Beating"
| "acquire_reply k Beating y = Looking"
| "acquire_reply k Looking y = (case y of
     RStr firstInQueue \<Rightarrow> if firstInQueue = k then Locking else if firstInQueue \<noteq> [] then Probing firstInQueue else Sleeping
   | _ \<Rightarrow> Sleeping)"
| "acquire_reply k Locking y = (if y = ROk then Counting else Sleeping)"
| "acquire_reply k Counting y = Leaving (Some k)"
| "acquire_reply k (Probing firstInQueue) y = (if y = RInt 0 then Pruning firstInQueue else Sleeping)"
| "acquire_reply k (Pruning firstInQueue) y = Beating"
| "acquire_reply k Sleeping y = Beating"
| "acquire_reply k (Leaving result) y = Returned result"
| "acquire_reply k (Returned result) y = Returned result"

text \<open>The next phase after a failed command: the \<open>catch\<close>, or the one of \<open>removeFromQueue\<close>.\<close>

fun acquire_failed :: "phase \<Rightarrow> phase" where
  "acquire_failed Joining = Returned None"
| "acquire_failed (Leaving result) = Returned result"
| "acquire_failed (Returned result) = Returned result"
| "acquire_failed _ = Leaving None"

definition acquireLock_step ::
    "'r lock_client \<Rightarrow> lock_config \<Rightarrow> int \<Rightarrow> string \<Rightarrow> string \<Rightarrow> phase \<Rightarrow> 'r \<Rightarrow> 'r \<times> phase" where
  "acquireLock_step client cfg now address k ph r = (case acquire_command cfg address k ph of
     None \<Rightarrow> (r, acquire_reply k ph RNil)
   | Some c \<Rightarrow> (case client now c r of
       (r', Some y) \<Rightarrow> (r', acquire_reply k ph y)
     | (r', None) \<Rightarrow> (r', acquire_failed ph)))"

definition release_script :: "string \<Rightarrow> string \<Rightarrow> int \<Rightarrow> redis_view \<Rightarrow> redis_view \<times> nat" where
  "release_script lockKey sessionKey now s =
     (if redis_get now s lockKey = Some sessionKey then (redis_del lockKey s, 1) else (s, 0))"

text \<open>A failure is logged only.\<close>

definition redis_releaseLock :: "'r lock_client \<Rightarrow> int \<Rightarrow> string \<Rightarrow> string \<Rightarrow> 'r \<Rightarrow> 'r" where
  "redis_releaseLock client now address sessionKey r =
     fst (client now (EVAL (release_script (getLockKey address) sessionKey)) r)"

section \<open>Runs\<close>

text \<open>
  The relays and the server together. \<open>se_acquiredAt\<close> records when the session set the lock key and
  \<open>se_released\<close> that somebody called \<open>releaseLock\<close> with its key; the code does not read them.
\<close>

record lock_session =
  se_address :: string
  se_phase :: phase
  se_acquiredAt :: "int option"
  se_released :: bool

record 'r lock_world =
  lw_redis :: 'r
  lw_now :: int
  lw_sessions :: "string \<rightharpoonup> lock_session"

definition new_session :: "string \<Rightarrow> lock_session" where
  "new_session address = \<lparr>se_address = address, se_phase = Joining, se_acquiredAt = None, se_released = False\<rparr>"

definition run_session :: "'r lock_client \<Rightarrow> lock_config \<Rightarrow> string \<Rightarrow> lock_session \<Rightarrow> 'r lock_world \<Rightarrow> 'r lock_world" where
  "run_session client cfg k se w =
     (let (r, ph) = acquireLock_step client cfg (lw_now w) (se_address se) k (se_phase se) (lw_redis w);
          acq = (if se_phase se = Locking \<and> ph = Counting then Some (lw_now w) else se_acquiredAt se)
      in w\<lparr>lw_redis := r, lw_sessions := (lw_sessions w)(k \<mapsto> se\<lparr>se_phase := ph, se_acquiredAt := acq\<rparr>)\<rparr>)"

definition release_session :: "'r lock_client \<Rightarrow> string \<Rightarrow> string \<Rightarrow> 'r lock_world \<Rightarrow> 'r lock_world" where
  "release_session client address k w =
     w\<lparr>lw_redis := redis_releaseLock client (lw_now w) address k (lw_redis w),
       lw_sessions := (case lw_sessions w k of
         None \<Rightarrow> lw_sessions w | Some se \<Rightarrow> (lw_sessions w)(k \<mapsto> se\<lparr>se_released := True\<rparr>))\<rparr>"

inductive redis_lock_step :: "'r lock_client \<Rightarrow> lock_config \<Rightarrow> 'r lock_world \<Rightarrow> 'r lock_world \<Rightarrow> bool" for client cfg where
  join: "lw_sessions w k = None \<Longrightarrow> redis_lock_step client cfg w (w\<lparr>lw_sessions := (lw_sessions w)(k \<mapsto> new_session a)\<rparr>)"
| run: "lw_sessions w k = Some se \<Longrightarrow> redis_lock_step client cfg w (run_session client cfg k se w)"
| release: "redis_lock_step client cfg w (release_session client a k w)"
| tick: "0 \<le> d \<Longrightarrow> redis_lock_step client cfg w (w\<lparr>lw_now := lw_now w + d\<rparr>)"

inductive_cases redis_lock_step_cases: "redis_lock_step client cfg w w'"

definition empty_server :: "('r \<Rightarrow> redis_view) \<Rightarrow> 'r lock_world \<Rightarrow> bool" where
  "empty_server view w \<longleftrightarrow>
     (\<forall>key. rv_strings (view (lw_redis w)) key = None \<and> rv_lists (view (lw_redis w)) key = []) \<and> lw_sessions w = Map.empty"

text \<open>A session owns the lock from its acquisition to its release or the end of its time to live.\<close>

definition owns :: "lock_config \<Rightarrow> 'r lock_world \<Rightarrow> string \<Rightarrow> string \<Rightarrow> bool" where
  "owns cfg w a k \<longleftrightarrow> (case lw_sessions w k of None \<Rightarrow> False | Some se \<Rightarrow>
     normalizeAddress (se_address se) = normalizeAddress a \<and>
     (case se_acquiredAt se of None \<Rightarrow> False | Some t \<Rightarrow> \<not> se_released se \<and> lw_now w < t + lcf_maxLockHoldMs cfg))"

section \<open>The server's laws\<close>

locale lock_server =
  fixes client :: "'r lock_client" and view :: "'r \<Rightarrow> redis_view"
  assumes replies: "client now c r = (r', Some y) \<Longrightarrow> redis_exec now c (view r) = (view r', y)"
    and fails: "client now c r = (r', None) \<Longrightarrow> view r' = view r \<or> view r' = fst (redis_exec now c (view r))"
begin

lemma effect: "client now c r = (r', y) \<Longrightarrow> view r' = view r \<or> view r' = fst (redis_exec now c (view r))"
  by (cases y) (auto dest: replies fails)

end

lemma getLockKey_eq: "getLockKey a = getLockKey b \<longleftrightarrow> normalizeAddress a = normalizeAddress b"
  by (simp add: getLockKey_def)

lemma getQueueKey_eq: "getQueueKey a = getQueueKey b \<longleftrightarrow> normalizeAddress a = normalizeAddress b"
  by (simp add: getQueueKey_def)

lemma heartbeat_not_lock [simp]:
  assumes "CHR '':'' \<notin> set (normalizeAddress a)"
  shows "getLockKey a \<noteq> getHeartbeatKey k"
proof
  assume "getLockKey a = getHeartbeatKey k"
  then have "normalizeAddress a = ''heartbeat:'' @ k" by (simp add: getHeartbeatKey_def getLockKey_def)
  then show False using assms by simp
qed

subsection \<open>The lock key belongs to the owner\<close>

text \<open>A key that holds a live value survives every command but its owner's release.\<close>

lemma redis_get_strings:
  "redis_get now s key = Some k \<Longrightarrow> \<exists>e. rv_strings s key = Some (k, e) \<and> now < e"
  by (auto simp: redis_get_def split: option.splits prod.splits if_splits)

definition lock_kept :: "lock_config \<Rightarrow> string \<Rightarrow> string \<Rightarrow> int \<Rightarrow> redis_view \<Rightarrow> bool" where
  "lock_kept cfg a k t s \<longleftrightarrow> rv_strings s (getLockKey a) = Some (k, t + lcf_maxLockHoldMs cfg)"

lemma acquire_keeps_lock:
  assumes "lock_kept cfg a k t s" and "now < t + lcf_maxLockHoldMs cfg" and "CHR '':'' \<notin> set (normalizeAddress a)"
    and "acquire_command cfg b j ph = Some c"
  shows "lock_kept cfg a k t (fst (redis_exec now c s))"
  using assms
  by (cases ph) (auto simp: lock_kept_def redis_set_def on_list_def redis_get_def)

lemma release_keeps_lock:
  assumes "lock_kept cfg a k t s" and "j \<noteq> k"
  shows "lock_kept cfg a k t (fst (redis_exec now (EVAL (release_script (getLockKey b) j)) s))"
  using assms redis_get_strings [of now s "getLockKey b" j]
  by (auto simp: lock_kept_def release_script_def redis_del_def)

definition excl_inv :: "('r \<Rightarrow> redis_view) \<Rightarrow> lock_config \<Rightarrow> string \<Rightarrow> 'r lock_world \<Rightarrow> bool" where
  "excl_inv view cfg a w \<longleftrightarrow>
     (\<forall>k se t. lw_sessions w k = Some se \<and> normalizeAddress (se_address se) = normalizeAddress a \<and> se_acquiredAt se = Some t \<longrightarrow>
        t \<le> lw_now w \<and> (\<not> se_released se \<and> lw_now w < t + lcf_maxLockHoldMs cfg \<longrightarrow> lock_kept cfg a k t (view (lw_redis w))))"

context lock_server
begin

lemma step_view:
  assumes "acquireLock_step client cfg now a k ph r = (r', ph')"
  shows "view r' = view r \<or> (\<exists>c. acquire_command cfg a k ph = Some c \<and> view r' = fst (redis_exec now c (view r)))"
proof (cases "acquire_command cfg a k ph")
  case None
  then show ?thesis using assms by (simp add: acquireLock_step_def)
next
  case (Some c)
  obtain r1 y where cl: "client now c r = (r1, y)" by fastforce
  then have "r1 = r'" using assms Some by (simp add: acquireLock_step_def split: option.splits)
  then show ?thesis using effect [OF cl] Some by auto
qed

lemma step_acquires:
  assumes "acquireLock_step client cfg now a k Locking r = (r', Counting)"
  shows "redis_get now (view r) (getLockKey a) = None" and "lock_kept cfg a k now (view r')"
proof -
  obtain r1 y where cl: "client now (SET_NX_PX (getLockKey a) k (lcf_maxLockHoldMs cfg)) r = (r1, y)" by fastforce
  then have "y = Some ROk" "r1 = r'"
    using assms by (auto simp: acquireLock_step_def split: option.splits if_splits)
  then have "client now (SET_NX_PX (getLockKey a) k (lcf_maxLockHoldMs cfg)) r = (r', Some ROk)" using cl by simp
  from replies [OF this] show "redis_get now (view r) (getLockKey a) = None" "lock_kept cfg a k now (view r')"
    by (auto simp: lock_kept_def redis_set_def split: if_splits) (metis (no_types) fun_upd_same redis_view.select_convs(1) redis_view.surjective redis_view.update_convs(1))
qed

lemma excl_join:
  "excl_inv view cfg a w \<Longrightarrow> lw_sessions w k = None \<Longrightarrow> excl_inv view cfg a (w\<lparr>lw_sessions := (lw_sessions w)(k \<mapsto> new_session b)\<rparr>)"
  by (auto simp: excl_inv_def new_session_def)

lemma excl_tick: "excl_inv view cfg a w \<Longrightarrow> 0 \<le> d \<Longrightarrow> excl_inv view cfg a (w\<lparr>lw_now := lw_now w + d\<rparr>)"
  by (fastforce simp: excl_inv_def)

lemma excl_release:
  assumes inv: "excl_inv view cfg a w"
  shows "excl_inv view cfg a (release_session client b j w)"
proof -
  obtain r1 y where cl: "client (lw_now w) (EVAL (release_script (getLockKey b) j)) (lw_redis w) = (r1, y)" by fastforce
  have kept: "lock_kept cfg a k t (view r1)" if "lock_kept cfg a k t (view (lw_redis w))" "k \<noteq> j" for k t
    using effect [OF cl] release_keeps_lock [OF that(1), of j] that by auto
  show ?thesis
    using inv kept unfolding excl_inv_def
    by (cases "lw_sessions w j") (fastforce simp: release_session_def redis_releaseLock_def cl split: if_splits)+
qed

lemma excl_run:
  assumes inv: "excl_inv view cfg a w" and a: "CHR '':'' \<notin> set (normalizeAddress a)" and k: "lw_sessions w k = Some se"
  shows "excl_inv view cfg a (run_session client cfg k se w)"
proof -
  obtain r' ph' where st: "acquireLock_step client cfg (lw_now w) (se_address se) k (se_phase se) (lw_redis w) = (r', ph')" by fastforce
  have kept: "lock_kept cfg a j t (view r')"
    if "lock_kept cfg a j t (view (lw_redis w))" "lw_now w < t + lcf_maxLockHoldMs cfg" for j t
    using step_view [OF st] acquire_keeps_lock [OF that a] that(1) by auto
  show ?thesis
  proof (cases "se_phase se = Locking \<and> ph' = Counting \<and> normalizeAddress (se_address se) = normalizeAddress a")
    case False
    then show ?thesis using inv kept k
      by (auto simp: excl_inv_def run_session_def st split: if_splits)
  next
    case True
    then have key: "getLockKey (se_address se) = getLockKey a" by (simp add: getLockKey_eq)
    have acq: "redis_get (lw_now w) (view (lw_redis w)) (getLockKey a) = None" "lock_kept cfg a k (lw_now w) (view r')"
      using step_acquires [of cfg "lw_now w" "se_address se" k "lw_redis w" r'] st True key by (auto simp: lock_kept_def)
    have free: "\<not> (lock_kept cfg a j t (view (lw_redis w)) \<and> lw_now w < t + lcf_maxLockHoldMs cfg)" for j t
      using acq(1) by (auto simp: lock_kept_def redis_get_def)
    have gone: False if "lw_sessions w j = Some sj" "normalizeAddress (se_address sj) = normalizeAddress a"
        "se_acquiredAt sj = Some t" "\<not> se_released sj" "lw_now w < t + lcf_maxLockHoldMs cfg" for j sj t
      using inv free [of j t] that by (auto simp: excl_inv_def)
    have run: "run_session client cfg k se w =
        w\<lparr>lw_redis := r', lw_sessions := (lw_sessions w)(k \<mapsto> se\<lparr>se_phase := ph', se_acquiredAt := Some (lw_now w)\<rparr>)\<rparr>"
      using True st by (simp add: run_session_def)
    show ?thesis
      unfolding run using inv acq(2) by (auto simp: excl_inv_def split: if_splits dest: gone)
  qed
qed

lemma excl_step:
  assumes "excl_inv view cfg a w" "CHR '':'' \<notin> set (normalizeAddress a)" "redis_lock_step client cfg w w'"
  shows "excl_inv view cfg a w'"
  using assms(3,1,2) by (auto elim!: redis_lock_step_cases intro: excl_join excl_tick excl_release excl_run)

lemma exclusive:
  assumes "reachable (empty_server view) (redis_lock_step client cfg) w" and "CHR '':'' \<notin> set (normalizeAddress a)"
  shows "excl_inv view cfg a w"
proof -
  have "invariant_system (empty_server view) (redis_lock_step client cfg) (excl_inv view cfg a)"
  proof
    show "excl_inv view cfg a s'" if "excl_inv view cfg a s" "redis_lock_step client cfg s s'" for s s'
      using excl_step that assms(2) by blast
  qed (simp add: empty_server_def excl_inv_def)
  then show ?thesis using assms(1) by (rule invariant_system.reachable_inv)
qed

end

subsection \<open>The queue is first in, first out\<close>

text \<open>
  Sessions join at the front of the list and leave from anywhere; the last element is the
  one that has waited longest. A session that saw itself there stays there until it leaves,
  or is taken for dead and pruned.
\<close>

definition queue_inv :: "('r \<Rightarrow> redis_view) \<Rightarrow> string \<Rightarrow> 'r lock_world \<Rightarrow> bool" where
  "queue_inv view a w \<longleftrightarrow> (let q = rv_lists (view (lw_redis w)) (getQueueKey a) in
     distinct q \<and> (\<forall>k \<in> set q. \<exists>se. lw_sessions w k = Some se \<and> se_phase se \<noteq> Joining \<and>
        getQueueKey (se_address se) = getQueueKey a) \<and>
     (\<forall>k se. k \<in> set q \<and> lw_sessions w k = Some se \<and> se_phase se = Locking \<longrightarrow> last q = k))"

lemma last_removeAll: "last q = k \<Longrightarrow> k \<in> set (removeAll z q) \<Longrightarrow> last (removeAll z q) = k"
proof (induction q rule: rev_induct)
  case (snoc x q)
  then show ?case by (cases "x = z") auto
qed simp

lemma queue_effects:
  assumes "acquire_command cfg b k ph = Some c" and "s' = fst (redis_exec now c s)"
  shows "rv_lists s' (getQueueKey a) = rv_lists s (getQueueKey a) \<or>
    (ph = Joining \<and> getQueueKey b = getQueueKey a \<and> rv_lists s' (getQueueKey a) = k # rv_lists s (getQueueKey a)) \<or>
    (\<exists>z. rv_lists s' (getQueueKey a) = removeAll z (rv_lists s (getQueueKey a))) \<or>
    (\<exists>z. rv_lists s' (getQueueKey a) = remove1 z (rv_lists s (getQueueKey a)))"
proof (cases "getQueueKey a = getQueueKey b")
  case True
  then show ?thesis using assms by (cases ph) (fastforce simp: redis_set_def on_list_def)+
next
  case False
  then show ?thesis using assms by (cases ph) (auto simp: redis_set_def on_list_def)
qed

lemma queue_transfer:
  assumes inv: "queue_inv view a w"
    and q: "rv_lists (view r') (getQueueKey a) = q" "distinct q" "set q \<subseteq> set (rv_lists (view (lw_redis w)) (getQueueKey a))"
    and last: "\<And>k. k \<in> set q \<Longrightarrow> last (rv_lists (view (lw_redis w)) (getQueueKey a)) = k \<Longrightarrow> last q = k"
    and se: "\<And>k se. k \<in> set q \<Longrightarrow> lw_sessions w k = Some se \<Longrightarrow> se_phase se \<noteq> Joining \<Longrightarrow>
      \<exists>se'. ss k = Some se' \<and> se_phase se' \<noteq> Joining \<and> se_address se' = se_address se \<and>
        (se_phase se' = Locking \<longrightarrow> se_phase se = Locking \<or> last q = k)"
  shows "queue_inv view a (w\<lparr>lw_redis := r', lw_sessions := ss, lw_now := n\<rparr>)"
proof -
  let ?q = "rv_lists (view (lw_redis w)) (getQueueKey a)"
  have old: "\<exists>se. lw_sessions w k = Some se \<and> se_phase se \<noteq> Joining \<and> getQueueKey (se_address se) = getQueueKey a \<and>
      (se_phase se = Locking \<longrightarrow> last ?q = k)" if "k \<in> set q" for k
    using inv q(3) that by (fastforce simp: queue_inv_def Let_def)
  have "\<exists>se'. ss k = Some se' \<and> se_phase se' \<noteq> Joining \<and> getQueueKey (se_address se') = getQueueKey a \<and>
      (se_phase se' = Locking \<longrightarrow> last q = k)" if "k \<in> set q" for k
  proof -
    obtain se where "lw_sessions w k = Some se" "se_phase se \<noteq> Joining" "getQueueKey (se_address se) = getQueueKey a"
      "se_phase se = Locking \<longrightarrow> last ?q = k" using old [of k] \<open>k \<in> set q\<close> by blast
    then show ?thesis using se [of k se] last [of k] \<open>k \<in> set q\<close> by force
  qed
  then show ?thesis using q(1,2) by (fastforce simp: queue_inv_def Let_def)
qed

context lock_server
begin

lemma step_phase:
  assumes "acquireLock_step client cfg now a k ph r = (r', ph')"
  shows "ph' \<noteq> Joining" and "ph' = Locking \<Longrightarrow> ph = Looking"
    and "ph' = Locking \<Longrightarrow> view r' = view r \<and> rv_lists (view r) (getQueueKey a) \<noteq> [] \<and> last (rv_lists (view r) (getQueueKey a)) = k"
proof -
  show "ph' \<noteq> Joining" "ph' = Locking \<Longrightarrow> ph = Looking"
    using assms by (cases ph; auto simp: acquireLock_step_def split: option.splits prod.splits lock_reply.splits if_splits)+
  assume l: "ph' = Locking"
  then have ph: "ph = Looking"
    using assms by (cases ph; auto simp: acquireLock_step_def split: option.splits prod.splits lock_reply.splits if_splits)
  obtain r1 y where cl: "client now (LINDEX_last (getQueueKey a)) r = (r1, y)" by fastforce
  have "y = Some (RStr k)" "r1 = r'"
    using assms cl l ph by (auto simp: acquireLock_step_def split: option.splits lock_reply.splits if_splits)
  then show "view r' = view r \<and> rv_lists (view r) (getQueueKey a) \<noteq> [] \<and> last (rv_lists (view r) (getQueueKey a)) = k"
    using cl replies [of now "LINDEX_last (getQueueKey a)" r r' "RStr k"] by (auto split: if_splits)
qed

lemma queue_release:
  assumes inv: "queue_inv view a w"
  shows "queue_inv view a (release_session client b j w)"
proof -
  obtain r1 y where cl: "client (lw_now w) (EVAL (release_script (getLockKey b) j)) (lw_redis w) = (r1, y)" by fastforce
  have q: "rv_lists (view r1) (getQueueKey a) = rv_lists (view (lw_redis w)) (getQueueKey a)"
    using effect [OF cl] by (auto simp: release_script_def redis_del_def)
  have eq: "w\<lparr>lw_redis := r1, lw_sessions := lw_sessions (release_session client b j w), lw_now := lw_now w\<rparr> =
      release_session client b j w"
    by (simp add: release_session_def redis_releaseLock_def cl)
  have "queue_inv view a (w\<lparr>lw_redis := r1, lw_sessions := lw_sessions (release_session client b j w), lw_now := lw_now w\<rparr>)"
    by (rule queue_transfer [OF inv q]) (use inv in \<open>auto simp: queue_inv_def Let_def release_session_def split: option.split\<close>)
  then show ?thesis unfolding eq .
qed

lemma queue_run:
  assumes inv: "queue_inv view a w" and k: "lw_sessions w k = Some se"
  shows "queue_inv view a (run_session client cfg k se w)"
proof -
  let ?q = "rv_lists (view (lw_redis w)) (getQueueKey a)"
  obtain r' ph' where st: "acquireLock_step client cfg (lw_now w) (se_address se) k (se_phase se) (lw_redis w) = (r', ph')" by fastforce
  let ?q' = "rv_lists (view r') (getQueueKey a)"
  define ss where "ss = lw_sessions (run_session client cfg k se w)"
  have ss: "ss = (lw_sessions w)(k \<mapsto> se\<lparr>se_phase := ph', se_acquiredAt :=
      (if se_phase se = Locking \<and> ph' = Counting then Some (lw_now w) else se_acquiredAt se)\<rparr>)"
    by (simp add: ss_def run_session_def st)
  have run: "run_session client cfg k se w = w\<lparr>lw_redis := r', lw_sessions := ss, lw_now := lw_now w\<rparr>"
    by (simp add: ss run_session_def st)
  have moved: "se_phase se' \<noteq> Joining" "se_address se' = se_address sj" "se_phase se' = Locking \<longrightarrow> se_phase sj = Locking \<or> j = k"
    if "ss j = Some se'" "lw_sessions w j = Some sj" "se_phase sj \<noteq> Joining" for j sj se'
    using that k step_phase [OF st] by (auto simp: ss split: if_splits)
  have in_q: "distinct ?q" "k \<in> set ?q \<Longrightarrow> se_phase se \<noteq> Joining \<and> getQueueKey (se_address se) = getQueueKey a"
    using inv k by (auto simp: queue_inv_def Let_def)
  have looked: "last ?q = k" "?q' = ?q" if "ph' = Locking" "k \<in> set ?q"
    using step_phase(3) [OF st] in_q(2) that by auto
  have new: "\<exists>se'. ss j = Some se' \<and> se_phase se' \<noteq> Joining \<and> se_address se' = se_address sj \<and>
        (se_phase se' = Locking \<longrightarrow> se_phase sj = Locking \<or> last ?q' = j)"
    if "j \<in> set ?q" "lw_sessions w j = Some sj" "se_phase sj \<noteq> Joining" for j sj
    using that k step_phase(1) [OF st] looked by (auto simp: ss)
  consider "?q' = ?q" | "se_phase se = Joining" "getQueueKey (se_address se) = getQueueKey a" "?q' = k # ?q"
    | z where "?q' = removeAll z ?q"
    using step_view [OF st] queue_effects [of cfg "se_address se" k "se_phase se" _ "view r'" "lw_now w" "view (lw_redis w)" a]
      distinct_remove1_removeAll [OF in_q(1)] by metis
  then show ?thesis
  proof cases
    case 1
    show ?thesis unfolding run
      by (rule queue_transfer [OF inv 1 in_q(1)]) (use new 1 in auto)
  next
    case 2
    then have "k \<notin> set ?q" "ph' \<noteq> Locking" using in_q(2) step_phase(2) [OF st] by auto
    then show ?thesis unfolding run using inv 2 in_q(1) step_phase(1) [OF st]
      by (auto simp: queue_inv_def Let_def ss)
  next
    case (3 z)
    show ?thesis unfolding run
      by (rule queue_transfer [OF inv 3]) (use new in_q(1) 3 in \<open>auto simp: distinct_removeAll intro: last_removeAll\<close>)
  qed
qed

lemma queue_join:
  "queue_inv view a w \<Longrightarrow> lw_sessions w k = None \<Longrightarrow> queue_inv view a (w\<lparr>lw_sessions := (lw_sessions w)(k \<mapsto> new_session b)\<rparr>)"
  by (auto simp: queue_inv_def Let_def new_session_def)

lemma queue_tick: "queue_inv view a w \<Longrightarrow> queue_inv view a (w\<lparr>lw_now := n\<rparr>)"
  by (simp add: queue_inv_def)

lemma queue_step: "queue_inv view a w \<Longrightarrow> redis_lock_step client cfg w w' \<Longrightarrow> queue_inv view a w'"
  by (auto elim!: redis_lock_step_cases intro: queue_run queue_release queue_join queue_tick)

lemma fifo:
  assumes "reachable (empty_server view) (redis_lock_step client cfg) w"
  shows "queue_inv view a w"
proof -
  have "invariant_system (empty_server view) (redis_lock_step client cfg) (queue_inv view a)"
  proof
    show "queue_inv view a s'" if "queue_inv view a s" "redis_lock_step client cfg s s'" for s s'
      using queue_step that by blast
  qed (simp add: empty_server_def queue_inv_def)
  then show ?thesis using assms by (rule invariant_system.reachable_inv)
qed

end

section \<open>A server and runs\<close>

text \<open>A server that answers every command, and one that fails when a list of outcomes says so.\<close>

definition reference_server :: "redis_view lock_client" where
  "reference_server now c s = (case redis_exec now c s of (s', y) \<Rightarrow> (s', Some y))"

definition flaky_server :: "(redis_view \<times> bool list) lock_client" where
  "flaky_server now c r = (case r of (s, fate) \<Rightarrow>
     (case redis_exec now c s of (s', y) \<Rightarrow>
        if fate \<noteq> [] \<and> hd fate then ((s, tl fate), None) else ((s', tl fate), Some y)))"

interpretation ref_server: lock_server reference_server id
  by unfold_locales (auto simp: reference_server_def split: prod.splits)

interpretation flaky: lock_server flaky_server fst
  by unfold_locales (auto simp: flaky_server_def split: prod.splits if_splits)

text \<open>C6: With the Redis lock, whatever commands fail and however the sessions of all relays interleave, at most one session at a
time owns the lock of an address: a session that set the lock key keeps it until somebody
releases it with its session key or its time to live ends, and no other session can set it meanwhile.\<close>

theorem redis_mutual_exclusion:
  assumes "lock_server client view" and "reachable (empty_server view) (redis_lock_step client cfg) w"
    and "CHR '':'' \<notin> set (normalizeAddress a)" and "owns cfg w a k"
  shows "redis_get (lw_now w) (view (lw_redis w)) (getLockKey a) = Some k \<and> (\<forall>j. owns cfg w a j \<longrightarrow> j = k)"
proof -
  have inv: "excl_inv view cfg a w" using lock_server.exclusive [OF assms(1-3)] .
  have kept: "\<exists>t. lock_kept cfg a j t (view (lw_redis w)) \<and> lw_now w < t + lcf_maxLockHoldMs cfg" if "owns cfg w a j" for j
    using inv that by (auto simp: excl_inv_def owns_def split: option.splits)
  obtain e where e: "rv_strings (view (lw_redis w)) (getLockKey a) = Some (k, e)" "lw_now w < e"
    using kept [OF assms(4)] by (auto simp: lock_kept_def)
  then have "redis_get (lw_now w) (view (lw_redis w)) (getLockKey a) = Some k" by (simp add: redis_get_def)
  moreover have "j = k" if "owns cfg w a j" for j
    using kept [OF that] e by (auto simp: lock_kept_def)
  ultimately show ?thesis by blast
qed


definition lock_cfg :: lock_config where
  "lock_cfg = \<lparr>lcf_maxLockHoldMs = 1000, lcf_pollIntervalMs = 50, lcf_heartbeatMissedCount = 5\<rparr>"

definition no_keys :: redis_view where
  "no_keys = \<lparr>rv_strings = (\<lambda>_. None), rv_lists = (\<lambda>_. [])\<rparr>"

definition world0 :: "(redis_view \<times> bool list) lock_world" where
  "world0 = \<lparr>lw_redis = (no_keys, [False, False, False, False, True]), lw_now = 0, lw_sessions = Map.empty\<rparr>"

definition run_key :: "string \<Rightarrow> (redis_view \<times> bool list) lock_world \<Rightarrow> (redis_view \<times> bool list) lock_world" where
  "run_key k w = (case lw_sessions w k of None \<Rightarrow> w | Some se \<Rightarrow> run_session flaky_server lock_cfg k se w)"

definition world_locking :: "(redis_view \<times> bool list) lock_world" where
  "world_locking = (run_key ''k'' ^^ 3) (world0\<lparr>lw_sessions := (lw_sessions world0)(''k'' \<mapsto> new_session ''0xA'')\<rparr>)"

definition world_locked :: "(redis_view \<times> bool list) lock_world" where
  "world_locked = run_key ''k'' world_locking"

lemma reachable_run_key:
  "reachable (empty_server fst) (redis_lock_step flaky_server lock_cfg) w \<Longrightarrow>
   reachable (empty_server fst) (redis_lock_step flaky_server lock_cfg) ((run_key k ^^ n) w)"
proof (induction n)
  case (Suc n)
  then show ?case by (auto simp: run_key_def split: option.splits intro: advance redis_lock_step.run)
qed simp

lemma world_locking_reachable: "reachable (empty_server fst) (redis_lock_step flaky_server lock_cfg) world_locking"
  unfolding world_locking_def
  by (rule reachable_run_key, rule advance, rule start [of _ world0], rule_tac [2] redis_lock_step.join)
    (simp_all add: empty_server_def world0_def no_keys_def)

lemma world_locked_reachable: "reachable (empty_server fst) (redis_lock_step flaky_server lock_cfg) world_locked"
  unfolding world_locked_def using reachable_run_key [OF world_locking_reachable, of 1 "''k''"] by simp

lemma world_locking_state:
  "map_option (\<lambda>se. (se_phase se, se_address se)) (lw_sessions world_locking ''k'') = Some (Locking, ''0xA'')"
  "rv_lists (fst (lw_redis world_locking)) (getQueueKey ''0xA'') = [''k'']"
  by code_simp+

lemma world_locked_owner: "owns lock_cfg world_locked ''0xA'' ''k''"
  by code_simp

theorem redis_mutual_exclusion_witness:
  "owns lock_cfg world_locked ''0xA'' ''k'' \<and> \<not> owns lock_cfg world_locked ''0xa'' ''j'' \<and>
   redis_get (lw_now world_locked) (fst (lw_redis world_locked)) (getLockKey ''0xa'') = Some ''k''"
proof -
  have n: "normalizeAddress ''0xA'' = normalizeAddress ''0xa''" "CHR '':'' \<notin> set (normalizeAddress ''0xa'')" by code_simp+
  have o: "owns lock_cfg world_locked ''0xa'' ''k''" using world_locked_owner unfolding owns_def n(1) .
  show ?thesis
    using redis_mutual_exclusion [OF flaky.lock_server_axioms world_locked_reachable n(2) o] world_locked_owner by auto
qed


text \<open>
  When the length of the queue cannot be read after the lock was set, the call returns
  \<open>undefined\<close>, so its caller runs without a session key, and the lock stays set until its
  time to live ends.
\<close>

lemma count_failure_keeps_lock:
  "map_option se_phase (lw_sessions ((run_key ''k'' ^^ 2) world_locked) ''k'') = Some (Returned None)"
  "owns lock_cfg ((run_key ''k'' ^^ 2) world_locked) ''0xA'' ''k''"
  by code_simp+

section \<open>Choosing a strategy\<close>

datatype 'c lock_strategy = LocalLockStrategy | RedisLockStrategy 'c

definition LockStrategyFactory_create :: "'c option \<Rightarrow> 'c lock_strategy" where
  "LockStrategyFactory_create redisClient = (case redisClient of Some c \<Rightarrow> RedisLockStrategy c | None \<Rightarrow> LocalLockStrategy)"

end
