(* ===== verification/Cache.thy ===== *)
theory Cache
  imports Dispatcher
begin

text \<open>
  The caches (\<open>clients/cache/\<close>) and the decorator that caches the results of methods
  (\<open>decorators/cache.decorator.ts\<close>). A cache client is a record of operations on a state, the
  interface \<open>ICacheClient\<close>; the in-memory client, the Redis client with its safe wrapper and the
  counting wrapper are values of it. What the decorator relies on is the locale
  \<open>cache_contract\<close>: a cache may lose entries, but never returns anything that was not set.

  The packages lru-cache and redis are arguments. \<open>now\<close> is the time in milliseconds.
\<close>

section \<open>The interface\<close>

record 's cache_client =
  c_get :: "int \<Rightarrow> string \<Rightarrow> 's \<Rightarrow> 's \<times> (string + jv)"
  c_set :: "int \<Rightarrow> string \<Rightarrow> jv \<Rightarrow> int option \<Rightarrow> 's \<Rightarrow> 's \<times> (string + unit)"
  c_delete :: "int \<Rightarrow> string \<Rightarrow> 's \<Rightarrow> 's \<times> (string + unit)"
  c_clear :: "'s \<Rightarrow> 's \<times> (string + unit)"
  c_keys :: "int \<Rightarrow> string \<Rightarrow> 's \<Rightarrow> 's \<times> (string + string list)"
  c_incrBy :: "int \<Rightarrow> string \<Rightarrow> int \<Rightarrow> 's \<Rightarrow> 's \<times> (string + jv)"
  c_lRange :: "int \<Rightarrow> string \<Rightarrow> int \<Rightarrow> int \<Rightarrow> 's \<Rightarrow> 's \<times> (string + jv list)"
  c_rPush :: "int \<Rightarrow> string \<Rightarrow> jv \<Rightarrow> 's \<Rightarrow> 's \<times> (string + nat)"

definition CACHE_KEY_PREFIX :: string where "CACHE_KEY_PREFIX = ''cache:''"

definition prefixKey :: "string \<Rightarrow> string" where
  "prefixKey key = CACHE_KEY_PREFIX @ key"

section \<open>The in-memory client\<close>

text \<open>A time to live: a number of milliseconds, or infinity, which \<open>getRemainingTTL\<close> answers for an entry without one.\<close>

datatype ttl = Ms int | Infinite

record 'c lru_ops =
  lru_get :: "int \<Rightarrow> string \<Rightarrow> 'c \<Rightarrow> 'c \<times> jv option"
  lru_set :: "int \<Rightarrow> string \<Rightarrow> jv \<Rightarrow> ttl \<Rightarrow> 'c \<Rightarrow> 'c"
  lru_delete :: "string \<Rightarrow> 'c \<Rightarrow> 'c"
  lru_getRemainingTTL :: "int \<Rightarrow> string \<Rightarrow> 'c \<Rightarrow> ttl"
  lru_clear :: "'c \<Rightarrow> 'c"
  lru_purgeStale :: "int \<Rightarrow> 'c \<Rightarrow> 'c"
  lru_rkeys :: "'c \<Rightarrow> string list"

record 'c local_cache =
  lc_cache :: 'c
  lc_reservedCache :: "'c option"

text \<open>\<open>lo_new\<close> makes a cache of at most so many entries.\<close>

record 'c local_options =
  lo_lru :: "'c lru_ops"
  lo_new :: "nat \<Rightarrow> 'c"
  lo_max :: nat
  lo_ttl :: int
  lo_reservedKeys :: "string list"

definition LocalLRUCache :: "'c local_options \<Rightarrow> 'c local_cache" where
  "LocalLRUCache opts = \<lparr>lc_cache = lo_new opts (lo_max opts),
     lc_reservedCache = (if size (remdups (lo_reservedKeys opts)) > 0
       then Some (lo_new opts (size (remdups (lo_reservedKeys opts)))) else None)\<rparr>"

text \<open>The cache instance of a key, and the client with that instance replaced.\<close>

definition is_reserved :: "'c local_options \<Rightarrow> string \<Rightarrow> 'c local_cache \<Rightarrow> bool" where
  "is_reserved opts key s \<longleftrightarrow> lc_reservedCache s \<noteq> None \<and> key \<in> set (lo_reservedKeys opts)"

definition getCacheInstance :: "'c local_options \<Rightarrow> string \<Rightarrow> 'c local_cache \<Rightarrow> 'c" where
  "getCacheInstance opts key s = (if is_reserved opts key s then the (lc_reservedCache s) else lc_cache s)"

definition put_instance :: "'c local_options \<Rightarrow> string \<Rightarrow> 'c \<Rightarrow> 'c local_cache \<Rightarrow> 'c local_cache" where
  "put_instance opts key c s =
     (if is_reserved opts key s then s\<lparr>lc_reservedCache := Some c\<rparr> else s\<lparr>lc_cache := c\<rparr>)"

definition local_get :: "'c local_options \<Rightarrow> int \<Rightarrow> string \<Rightarrow> 'c local_cache \<Rightarrow> 'c local_cache \<times> jv" where
  "local_get opts now key s =
     (let (c, value) = lru_get (lo_lru opts) now (prefixKey key) (getCacheInstance opts key s)
      in (put_instance opts key c s, case value of Some v \<Rightarrow> v | None \<Rightarrow> JNullV))"

definition getRemainingTtl :: "'c local_options \<Rightarrow> int \<Rightarrow> string \<Rightarrow> 'c local_cache \<Rightarrow> ttl" where
  "getRemainingTtl opts now key s = lru_getRemainingTTL (lo_lru opts) now (prefixKey key) (getCacheInstance opts key s)"

definition positive_ttl :: "ttl \<Rightarrow> bool" where
  "positive_ttl t = (case t of Ms i \<Rightarrow> i > 0 | Infinite \<Rightarrow> True)"

text \<open>A time to live of zero is an indefinite time for the package.\<close>

definition local_set_ttl :: "'c local_options \<Rightarrow> int \<Rightarrow> string \<Rightarrow> jv \<Rightarrow> ttl \<Rightarrow> 'c local_cache \<Rightarrow> 'c local_cache" where
  "local_set_ttl opts now key value resolvedTtl s =
     (let c = lru_set (lo_lru opts) now (prefixKey key) value (if positive_ttl resolvedTtl then resolvedTtl else Ms 0)
            (getCacheInstance opts key s)
      in put_instance opts key c s)"

definition local_set :: "'c local_options \<Rightarrow> int \<Rightarrow> string \<Rightarrow> jv \<Rightarrow> int option \<Rightarrow> 'c local_cache \<Rightarrow> 'c local_cache" where
  "local_set opts now key value ttl s =
     local_set_ttl opts now key value (Ms (case ttl of Some t \<Rightarrow> t | None \<Rightarrow> lo_ttl opts)) s"

definition local_delete :: "'c local_options \<Rightarrow> string \<Rightarrow> 'c local_cache \<Rightarrow> 'c local_cache" where
  "local_delete opts key s =
     put_instance opts key (lru_delete (lo_lru opts) (prefixKey key) (getCacheInstance opts key s)) s"

definition purgeStale :: "'c local_options \<Rightarrow> int \<Rightarrow> 'c local_cache \<Rightarrow> 'c local_cache" where
  "purgeStale opts now s = s\<lparr>lc_cache := lru_purgeStale (lo_lru opts) now (lc_cache s)\<rparr>"

definition local_clear :: "'c local_options \<Rightarrow> 'c local_cache \<Rightarrow> 'c local_cache" where
  "local_clear opts s = s\<lparr>lc_cache := lru_clear (lo_lru opts) (lc_cache s),
     lc_reservedCache := map_option (lru_clear (lo_lru opts)) (lc_reservedCache s)\<rparr>"

text \<open>
  A pattern of stars and of characters without a meaning in regular expressions becomes a
  regular expression that is not anchored: its literal parts must occur in order.
\<close>

fun occurs_in_order :: "string list \<Rightarrow> string \<Rightarrow> bool" where
  "occurs_in_order [] s = True"
| "occurs_in_order (seg # segs) s =
     (case filter (\<lambda>i. startsWith seg (drop i s)) [0..<Suc (length s)] of
        [] \<Rightarrow> False
      | i # _ \<Rightarrow> occurs_in_order segs (drop (i + length seg) s))"

definition pattern_test :: "string \<Rightarrow> string \<Rightarrow> bool" where
  "pattern_test pattern key = occurs_in_order (split_on (CHR ''*'') pattern) key"

definition local_keys :: "'c local_options \<Rightarrow> string \<Rightarrow> 'c local_cache \<Rightarrow> string list" where
  "local_keys opts pattern s =
     (let keys = lru_rkeys (lo_lru opts) (lc_cache s) @
            (case lc_reservedCache s of None \<Rightarrow> [] | Some c \<Rightarrow> lru_rkeys (lo_lru opts) c)
      in map (drop (length CACHE_KEY_PREFIX)) (filter (pattern_test (prefixKey pattern)) keys))"

text \<open>\<open>value + amount\<close>\<close>

definition js_plus :: "jv \<Rightarrow> int \<Rightarrow> jv" where
  "js_plus value amount = (case value of
     JNullV \<Rightarrow> JNumV amount | JNumV i \<Rightarrow> JNumV (i + amount) | JBool b \<Rightarrow> JNumV ((if b then 1 else 0) + amount)
   | _ \<Rightarrow> JString (js_String value @ int_str 10 amount))"

definition local_incrBy :: "'c local_options \<Rightarrow> int \<Rightarrow> string \<Rightarrow> int \<Rightarrow> 'c local_cache \<Rightarrow> 'c local_cache \<times> jv" where
  "local_incrBy opts now key amount s =
     (let (s1, value) = local_get opts now key s;
          newValue = js_plus value amount
      in (local_set_ttl opts now key newValue (getRemainingTtl opts now key s1) s1, newValue))"

text \<open>\<open>values.slice(start, end)\<close>\<close>

definition arr_slice :: "'a list \<Rightarrow> int \<Rightarrow> int \<Rightarrow> 'a list" where
  "arr_slice xs start til =
     (let n = int (length xs); at_index = (\<lambda>i. nat (if i < 0 then max (n + i) 0 else min i n))
      in take (at_index til - at_index start) (drop (at_index start) xs))"

definition not_an_array :: "string \<Rightarrow> string" where
  "not_an_array key = ''Value at key '' @ key @ '' is not an array''"

definition local_lRange ::
    "'c local_options \<Rightarrow> int \<Rightarrow> string \<Rightarrow> int \<Rightarrow> int \<Rightarrow> 'c local_cache \<Rightarrow> 'c local_cache \<times> (string + jv list)" where
  "local_lRange opts now key start til s =
     (case local_get opts now key s of
        (s1, JNullV) \<Rightarrow> (s1, Inr [])
      | (s1, JArray values) \<Rightarrow>
          (s1, Inr (arr_slice values start ((if til < 0 then int (length values) + til else til) + 1)))
      | (s1, _) \<Rightarrow> (s1, Inl (not_an_array key)))"

definition local_rPush ::
    "'c local_options \<Rightarrow> int \<Rightarrow> string \<Rightarrow> jv \<Rightarrow> 'c local_cache \<Rightarrow> 'c local_cache \<times> (string + nat)" where
  "local_rPush opts now key value s =
     (let (s1, old) = local_get opts now key s;
          push = (\<lambda>values. (local_set_ttl opts now key (JArray (values @ [value])) (getRemainingTtl opts now key s1) s1,
                            Inr (Suc (length values))))
      in case old of JNullV \<Rightarrow> push [] | JArray values \<Rightarrow> push values | _ \<Rightarrow> (s1, Inl (not_an_array key)))"

definition local_client :: "'c local_options \<Rightarrow> 'c local_cache cache_client" where
  "local_client opts = \<lparr>
     c_get = (\<lambda>now key s. map_prod id Inr (local_get opts now key s)),
     c_set = (\<lambda>now key v ttl s. (local_set opts now key v ttl s, Inr ())),
     c_delete = (\<lambda>now key s. (local_delete opts key s, Inr ())),
     c_clear = (\<lambda>s. (local_clear opts s, Inr ())),
     c_keys = (\<lambda>now pattern s. (s, Inr (local_keys opts pattern s))),
     c_incrBy = (\<lambda>now key amount s. map_prod id Inr (local_incrBy opts now key amount s)),
     c_lRange = local_lRange opts, c_rPush = local_rPush opts\<rparr>"

section \<open>The Redis client\<close>

text \<open>The commands the client sends; any of them may fail with a message.\<close>

record 'r cache_commands =
  cc_GET :: "int \<Rightarrow> string \<Rightarrow> 'r \<Rightarrow> 'r \<times> (string + string option)"
  cc_SET :: "int \<Rightarrow> string \<Rightarrow> string \<Rightarrow> int option \<Rightarrow> 'r \<Rightarrow> 'r \<times> (string + unit)"
  cc_DEL :: "string \<Rightarrow> 'r \<Rightarrow> 'r \<times> (string + unit)"
  cc_INCRBY :: "int \<Rightarrow> string \<Rightarrow> int \<Rightarrow> 'r \<Rightarrow> 'r \<times> (string + int)"
  cc_LRANGE :: "int \<Rightarrow> string \<Rightarrow> int \<Rightarrow> int \<Rightarrow> 'r \<Rightarrow> 'r \<times> (string + string list)"
  cc_RPUSH :: "string \<Rightarrow> string \<Rightarrow> 'r \<Rightarrow> 'r \<times> (string + nat)"
  cc_KEYS :: "int \<Rightarrow> string \<Rightarrow> 'r \<Rightarrow> 'r \<times> (string + string list)"
  cc_UNLINK_all :: "string list \<Rightarrow> 'r \<Rightarrow> 'r \<times> (string + unit)"

text \<open>The state after a command and what is made of its reply.\<close>

definition reply_with :: "'r \<times> (string + 'a) \<Rightarrow> ('a \<Rightarrow> string + 'b) \<Rightarrow> 'r \<times> (string + 'b)" where
  "reply_with p f = (case p of (r, x) \<Rightarrow> (r, res_bind x f))"

fun parse_all :: "(string \<Rightarrow> string + jv) \<Rightarrow> string list \<Rightarrow> string + jv list" where
  "parse_all parse [] = Inr []"
| "parse_all parse (x # xs) = res_bind (parse x) (\<lambda>v. res_bind (parse_all parse xs) (\<lambda>vs. Inr (v # vs)))"

definition redis_cache_get :: "'r cache_commands \<Rightarrow> (string \<Rightarrow> string + jv) \<Rightarrow> int \<Rightarrow> string \<Rightarrow> 'r \<Rightarrow> 'r \<times> (string + jv)" where
  "redis_cache_get cmds parse now key r = reply_with (cc_GET cmds now (prefixKey key) r) (\<lambda>result. case result of
     Some text \<Rightarrow> if text \<noteq> [] then parse text else Inr JNullV
   | None \<Rightarrow> Inr JNullV)"

definition redis_cache_set :: "'r cache_commands \<Rightarrow> int \<Rightarrow> int \<Rightarrow> string \<Rightarrow> jv \<Rightarrow> int option \<Rightarrow> 'r \<Rightarrow> 'r \<times> (string + unit)" where
  "redis_cache_set cmds options_ttl now key value ttl r =
     (let resolvedTtl = (case ttl of Some t \<Rightarrow> t | None \<Rightarrow> options_ttl)
      in cc_SET cmds now (prefixKey key) (json_stringify value) (if resolvedTtl > 0 then Some resolvedTtl else None) r)"

definition redis_cache_clear :: "'r cache_commands \<Rightarrow> int \<Rightarrow> 'r \<Rightarrow> 'r \<times> (string + unit)" where
  "redis_cache_clear cmds now r = (case cc_KEYS cmds now (CACHE_KEY_PREFIX @ ''*'') r of
     (r1, Inl e) \<Rightarrow> (r1, Inl e)
   | (r1, Inr keysToDelete) \<Rightarrow> if length keysToDelete > 0 then cc_UNLINK_all cmds keysToDelete r1 else (r1, Inr ()))"

definition redis_cache_client ::
    "'r cache_commands \<Rightarrow> (string \<Rightarrow> string + jv) \<Rightarrow> int \<Rightarrow> 'r cache_client" where
  "redis_cache_client cmds parse options_ttl = \<lparr>
     c_get = redis_cache_get cmds parse,
     c_set = redis_cache_set cmds options_ttl,
     c_delete = (\<lambda>now key. cc_DEL cmds (prefixKey key)),
     c_clear = redis_cache_clear cmds 0,
     c_keys = (\<lambda>now pattern r. reply_with (cc_KEYS cmds now (prefixKey pattern) r)
       (\<lambda>result. Inr (map (drop (length CACHE_KEY_PREFIX)) result))),
     c_incrBy = (\<lambda>now key amount r. reply_with (cc_INCRBY cmds now (prefixKey key) amount r) (\<lambda>n. Inr (JNumV n))),
     c_lRange = (\<lambda>now key start end r. reply_with (cc_LRANGE cmds now (prefixKey key) start end r) (parse_all parse)),
     c_rPush = (\<lambda>now key value. cc_RPUSH cmds (prefixKey key) (json_stringify value))\<rparr>"

subsection \<open>The safe wrapper\<close>

definition safeCall :: "'s \<times> (string + 'a) \<Rightarrow> 'a \<Rightarrow> 's \<times> (string + 'a)" where
  "safeCall result fallback = (case result of (s, Inr x) \<Rightarrow> (s, Inr x) | (s, Inl error) \<Rightarrow> (s, Inr fallback))"

definition SafeRedisCache :: "'s cache_client \<Rightarrow> 's cache_client" where
  "SafeRedisCache super = \<lparr>
     c_get = (\<lambda>now key s. safeCall (c_get super now key s) JNullV),
     c_set = (\<lambda>now key value ttl s. safeCall (c_set super now key value ttl s) ()),
     c_delete = (\<lambda>now key s. safeCall (c_delete super now key s) ()),
     c_clear = (\<lambda>s. safeCall (c_clear super s) ()),
     c_keys = (\<lambda>now pattern s. safeCall (c_keys super now pattern s) []),
     c_incrBy = (\<lambda>now key amount s. safeCall (c_incrBy super now key amount s) (JNumV amount)),
     c_lRange = (\<lambda>now key start til s. safeCall (c_lRange super now key start til s) []),
     c_rPush = (\<lambda>now key value s. safeCall (c_rPush super now key value s) 0)\<rparr>"

subsection \<open>The counting wrapper\<close>

text \<open>The counter is by method of the cache; the labels of the caller and the type are constants of a call.\<close>

record 's measured =
  ms_client :: 's
  ms_counter :: "string \<Rightarrow> nat"

definition addLabelToCacheMethodsCounter :: "string \<Rightarrow> 's measured \<Rightarrow> 's measured" where
  "addLabelToCacheMethodsCounter label s = s\<lparr>ms_counter := (ms_counter s)(label := Suc (ms_counter s label))\<rparr>"

definition delegate :: "('s \<Rightarrow> 's \<times> 'a) \<Rightarrow> 's measured \<Rightarrow> 's measured \<times> 'a" where
  "delegate f s = (case f (ms_client s) of (c, x) \<Rightarrow> (s\<lparr>ms_client := c\<rparr>, x))"

text \<open>\<open>getAsync\<close> of the wrapper asks the wrapped client without counting.\<close>

definition measured_getAsync :: "'s cache_client \<Rightarrow> int \<Rightarrow> string \<Rightarrow> 's measured \<Rightarrow> 's measured \<times> (string + jv)" where
  "measured_getAsync decorated now key s = delegate (c_get decorated now key) s"

definition MeasurableCache :: "'s cache_client \<Rightarrow> 's measured cache_client" where
  "MeasurableCache decorated = \<lparr>
     c_get = (\<lambda>now key s. delegate (c_get decorated now key) (addLabelToCacheMethodsCounter ''get'' s)),
     c_set = (\<lambda>now key v ttl s. delegate (c_set decorated now key v ttl) (addLabelToCacheMethodsCounter ''set'' s)),
     c_delete = (\<lambda>now key s. delegate (c_delete decorated now key) (addLabelToCacheMethodsCounter ''delete'' s)),
     c_clear = delegate (c_clear decorated),
     c_keys = (\<lambda>now pattern. delegate (c_keys decorated now pattern)),
     c_incrBy = (\<lambda>now key n s. delegate (c_incrBy decorated now key n) (addLabelToCacheMethodsCounter ''incrBy'' s)),
     c_lRange = (\<lambda>now key i j s. delegate (c_lRange decorated now key i j) (addLabelToCacheMethodsCounter ''lrange'' s)),
     c_rPush = (\<lambda>now key v s. delegate (c_rPush decorated now key v) (addLabelToCacheMethodsCounter ''rpush'' s))\<rparr>"

datatype cache_choice = RedisChoice | LruChoice

definition CacheClientFactory_create :: "bool \<Rightarrow> 'r option \<Rightarrow> cache_choice" where
  "CacheClientFactory_create test redisClient = (if \<not> test \<and> redisClient \<noteq> None then RedisChoice else LruChoice)"

section \<open>The decorator\<close>

record skip_named =
  sn_index :: nat
  sn_fields :: "(string \<times> string) list"

record cache_options =
  co_skipParams :: "(nat \<times> string) list"
  co_skipNamedParams :: "skip_named list"
  co_ttl :: "int option"

definition arg_value :: "arg \<Rightarrow> string" where
  "arg_value a = (case a of
     RequestDetails _ \<Rightarrow> []
   | RpcParam v \<Rightarrow> ''_'' @ (if truthy v \<and> typeof_object v then json_stringify v else js_String v))"

definition generateCacheKey :: "string \<Rightarrow> arg list \<Rightarrow> string" where
  "generateCacheKey methodName args = methodName @ concat (map arg_value args)"

fun shouldSkipCachingForSingleParams :: "arg list \<Rightarrow> (nat \<times> string) list \<Rightarrow> bool" where
  "shouldSkipCachingForSingleParams args [] = False"
| "shouldSkipCachingForSingleParams args ((index, value) # items) =
     (let values = split_on (CHR ''|'') value in
      if index < length args \<and> (\<exists>v \<in> set values. args ! index = RpcParam (JString v)) then True
      else if \<not> index < length args \<or> args ! index = RpcParam JUndefined then True
      else shouldSkipCachingForSingleParams args items)"

text \<open>Reading a field of \<open>undefined\<close> or \<open>null\<close> throws. The details of a request have none of the named fields.\<close>

definition arg_field :: "arg list \<Rightarrow> nat \<Rightarrow> string \<Rightarrow> string + jv" where
  "arg_field args index key = (if \<not> index < length args then Inl ''Cannot read properties of undefined'' else
     case args ! index of
       RequestDetails _ \<Rightarrow> Inr JUndefined
     | RpcParam JUndefined \<Rightarrow> Inl ''Cannot read properties of undefined''
     | RpcParam JNullV \<Rightarrow> Inl ''Cannot read properties of null''
     | RpcParam v \<Rightarrow> Inr (js_get v key))"

fun skip_fields :: "arg list \<Rightarrow> nat \<Rightarrow> (string \<times> string) list \<Rightarrow> string + bool" where
  "skip_fields args index [] = Inr False"
| "skip_fields args index ((key, value) # rest) =
     res_bind (arg_field args index key) (\<lambda>actualValue.
       if \<exists>v \<in> set (split_on (CHR ''|'') value). actualValue = JString v then Inr True
       else skip_fields args index rest)"

text \<open>\<open>Object.fromEntries\<close>: the last value of a name, at the place of the first.\<close>

definition from_entries :: "(string \<times> string) list \<Rightarrow> (string \<times> string) list" where
  "from_entries ps = map (\<lambda>k. (k, the (map_of (rev ps) k))) (rev (remdups (rev (map fst ps))))"

fun shouldSkipCachingForNamedParams :: "arg list \<Rightarrow> skip_named list \<Rightarrow> string + bool" where
  "shouldSkipCachingForNamedParams args [] = Inr False"
| "shouldSkipCachingForNamedParams args (item # items) =
     res_bind (skip_fields args (sn_index item) (from_entries (sn_fields item))) (\<lambda>found.
       if found then Inr True else shouldSkipCachingForNamedParams args items)"

text \<open>The wrapped method: the cache and the world the method works on are its state.\<close>

definition other_error :: "string + 'a \<Rightarrow> thrown + 'a" where
  "other_error r = (case r of Inl e \<Rightarrow> Inl (OtherError (Some e)) | Inr x \<Rightarrow> Inr x)"

definition cache_decorator ::
    "'s cache_client \<Rightarrow> cache_options \<Rightarrow> int \<Rightarrow> string \<Rightarrow> (arg list \<Rightarrow> 'w \<Rightarrow> 'w \<times> (thrown + jv)) \<Rightarrow>
     int \<Rightarrow> arg list \<Rightarrow> 's \<times> 'w \<Rightarrow> ('s \<times> 'w) \<times> (thrown + jv)" where
  "cache_decorator client opts config_ttl methodName target now args sw =
     (let (s, w) = sw; cacheKey = generateCacheKey methodName args in
      case c_get client now cacheKey s of
        (s1, Inl e) \<Rightarrow> ((s1, w), Inl (OtherError (Some e)))
      | (s1, Inr cachedResponse) \<Rightarrow>
          if truthy cachedResponse then ((s1, w), Inr cachedResponse)
          else (case target args w of
              (w1, Inl e) \<Rightarrow> ((s1, w1), Inl e)
            | (w1, Inr result) \<Rightarrow>
                if \<not> truthy result \<or> shouldSkipCachingForSingleParams args (co_skipParams opts)
                then ((s1, w1), Inr result)
                else (case shouldSkipCachingForNamedParams args (co_skipNamedParams opts) of
                    Inl e \<Rightarrow> ((s1, w1), Inl (OtherError (Some e)))
                  | Inr True \<Rightarrow> ((s1, w1), Inr result)
                  | Inr False \<Rightarrow>
                      (case c_set client now cacheKey result (Some (case co_ttl opts of Some t \<Rightarrow> t | None \<Rightarrow> config_ttl)) s1 of
                         (s2, Inl e) \<Rightarrow> ((s2, w1), Inl (OtherError (Some e)))
                       | (s2, Inr _) \<Rightarrow> ((s2, w1), Inr result)))))"

section \<open>What the packages promise\<close>

definition expiry :: "int \<Rightarrow> ttl \<Rightarrow> int option" where
  "expiry now t = (case t of Ms i \<Rightarrow> if i = 0 then None else Some (now + i) | Infinite \<Rightarrow> None)"

definition entry_live :: "int \<Rightarrow> jv \<times> int option \<Rightarrow> bool" where
  "entry_live now e = (case snd e of None \<Rightarrow> True | Some t \<Rightarrow> now \<le> t)"

text \<open>
  The package lru-cache: an entry is returned while it is not stale, and a set drops other entries
  only when there would be more than the capacity allows.
\<close>

locale lru_package =
  fixes ops :: "'c lru_ops" and entries :: "'c \<Rightarrow> string \<Rightarrow> (jv \<times> int option) option" and cap :: "'c \<Rightarrow> nat"
  assumes lru_get: "lru_get ops now k c = (c', r) \<Longrightarrow>
      r = (case entries c k of None \<Rightarrow> None | Some e \<Rightarrow> if entry_live now e then Some (fst e) else None) \<and>
      entries c' = (if r = None then (entries c)(k := None) else entries c) \<and> cap c' = cap c"
    and lru_set: "entries (lru_set ops now k v t c) k = Some (v, expiry now t) \<and> cap (lru_set ops now k v t c) = cap c"
    and lru_set_other: "j \<noteq> k \<Longrightarrow> entries (lru_set ops now k v t c) j \<in> {entries c j, None}"
    and lru_set_room: "j \<noteq> k \<Longrightarrow> card (insert k (dom (entries c))) \<le> cap c \<Longrightarrow> entries (lru_set ops now k v t c) j = entries c j"
    and lru_delete: "entries (lru_delete ops k c) = (entries c)(k := None) \<and> cap (lru_delete ops k c) = cap c"
    and lru_ttl: "lru_getRemainingTTL ops now k c = (case entries c k of
      None \<Rightarrow> Ms 0 | Some (_, None) \<Rightarrow> Infinite | Some (_, Some t) \<Rightarrow> Ms (t - now))"
    and lru_clear: "entries (lru_clear ops c) = Map.empty \<and> cap (lru_clear ops c) = cap c"
    and lru_purge: "entries (lru_purgeStale ops now c) j = (case entries c j of
      None \<Rightarrow> None | Some e \<Rightarrow> if entry_live now e then Some e else None) \<and> cap (lru_purgeStale ops now c) = cap c"

text \<open>A cache client, by what it may hold: it can lose entries, and holds no value that was not set.\<close>

locale cache_contract =
  fixes client :: "'s cache_client" and stored :: "'s \<Rightarrow> string \<Rightarrow> jv option" and storable :: "jv \<Rightarrow> bool"
  assumes get_holds: "c_get client now key s = (s', Inr v) \<Longrightarrow> v = JNullV \<or> stored s key = Some v"
    and get_keeps: "c_get client now key s = (s', r) \<Longrightarrow> stored s' k = Some x \<Longrightarrow> stored s k = Some x"
    and set_holds: "storable v \<Longrightarrow> c_set client now key v t s = (s', u) \<Longrightarrow> stored s' k = Some x \<Longrightarrow>
      stored s k = Some x \<or> (k = key \<and> x = v)"

text \<open>Every entry of a method's calls is the result of the call.\<close>

definition memo_ok :: "('s \<Rightarrow> string \<Rightarrow> jv option) \<Rightarrow> string \<Rightarrow> (arg list \<Rightarrow> jv) \<Rightarrow> arg list set \<Rightarrow> 's \<Rightarrow> bool" where
  "memo_ok stored m f D s \<longleftrightarrow> (\<forall>args \<in> D. \<forall>x. stored s (generateCacheKey m args) = Some x \<longrightarrow> x = f args)"

definition pure_method :: "(arg list \<Rightarrow> 'w \<Rightarrow> 'w \<times> (thrown + jv)) \<Rightarrow> (arg list \<Rightarrow> jv) \<Rightarrow> arg list set \<Rightarrow> bool" where
  "pure_method target f D \<longleftrightarrow> (\<forall>args \<in> D. \<forall>w. \<exists>w'. target args w = (w', Inr (f args)))"

context cache_contract
begin

lemma decorated_call:
  assumes "pure_method target f D" and "args \<in> D" and "inj_on (generateCacheKey m) D" and "storable (f args)"
    and "memo_ok stored m f D s" and "cache_decorator client opts ttl m target now args (s, w) = ((s', w'), r)"
  shows "memo_ok stored m f D s' \<and> (\<forall>v. r = Inr v \<longrightarrow> v = f args)"
proof -
  obtain s1 g where get: "c_get client now (generateCacheKey m args) s = (s1, g)" by fastforce
  obtain w1 where run: "target args w = (w1, Inr (f args))" using assms(1,2) by (auto simp: pure_method_def)
  have memo1: "memo_ok stored m f D s1" using assms(5) get_keeps [OF get] by (auto simp: memo_ok_def)
  have hit: "v = f args" if "g = Inr v" "truthy v" for v
    using get_holds [of now "generateCacheKey m args" s s1 v] get that assms(2,5) by (auto simp: memo_ok_def)
  have memo2: "memo_ok stored m f D s2" if "c_set client now (generateCacheKey m args) (f args) t s1 = (s2, x)" for s2 t x
    using memo1 set_holds [OF assms(4) that] assms(2,3) unfolding memo_ok_def inj_on_def by metis
  show ?thesis
    using assms(6) hit memo1 memo2
    by (auto simp: cache_decorator_def get run Let_def split: sum.splits prod.splits if_splits bool.splits)
qed

end

fun run_cached ::
    "'s cache_client \<Rightarrow> cache_options \<Rightarrow> int \<Rightarrow> string \<Rightarrow> (arg list \<Rightarrow> 'w \<Rightarrow> 'w \<times> (thrown + jv)) \<Rightarrow>
     (int \<times> arg list) list \<Rightarrow> 's \<times> 'w \<Rightarrow> (thrown + jv) list" where
  "run_cached client opts ttl m target [] sw = []"
| "run_cached client opts ttl m target ((now, args) # calls) sw =
     (let (sw', r) = cache_decorator client opts ttl m target now args sw
      in r # run_cached client opts ttl m target calls sw')"

subsection \<open>The in-memory client keeps the contract\<close>

definition stored_local ::
    "('c \<Rightarrow> string \<Rightarrow> (jv \<times> int option) option) \<Rightarrow> 'c local_options \<Rightarrow> 'c local_cache \<Rightarrow> string \<Rightarrow> jv option" where
  "stored_local entries opts s key = map_option fst (entries (getCacheInstance opts key s) (prefixKey key))"

lemma prefixKey_eq [simp]: "prefixKey k = prefixKey j \<longleftrightarrow> k = j"
  by (simp add: prefixKey_def)

lemma instance_put:
  "getCacheInstance opts k (put_instance opts key c s) =
     (if is_reserved opts k s = is_reserved opts key s then c else getCacheInstance opts k s)"
  "is_reserved opts k (put_instance opts key c s) = is_reserved opts k s"
  by (auto simp: getCacheInstance_def put_instance_def is_reserved_def)

lemma instance_same: "is_reserved opts k s = is_reserved opts key s \<Longrightarrow> getCacheInstance opts k s = getCacheInstance opts key s"
  by (simp add: getCacheInstance_def)

locale local_caches = lru_package "lo_lru opts" entries cap
  for opts :: "'c local_options" and entries :: "'c \<Rightarrow> string \<Rightarrow> (jv \<times> int option) option" and cap :: "'c \<Rightarrow> nat"
begin

lemma local_get_result:
  assumes "local_get opts now key s = (s', v)"
  shows "v = (case entries (getCacheInstance opts key s) (prefixKey key) of
      None \<Rightarrow> JNullV | Some e \<Rightarrow> if entry_live now e then fst e else JNullV)"
    and "stored_local entries opts s' k = Some x \<Longrightarrow> stored_local entries opts s k = Some x"
proof -
  obtain c r where g: "lru_ops.lru_get (lo_lru opts) now (prefixKey key) (getCacheInstance opts key s) = (c, r)" by fastforce
  note law = lru_get [OF g]
  show "v = (case entries (getCacheInstance opts key s) (prefixKey key) of
      None \<Rightarrow> JNullV | Some e \<Rightarrow> if entry_live now e then fst e else JNullV)"
    using assms law by (auto simp: local_get_def g split: option.splits if_splits)
  show "stored_local entries opts s k = Some x" if "stored_local entries opts s' k = Some x"
    using assms that law instance_same [of opts k s key]
    by (auto simp: local_get_def g stored_local_def instance_put split: if_splits)
qed

lemma local_set_result:
  assumes "stored_local entries opts (local_set_ttl opts now key v t s) k = Some x"
  shows "stored_local entries opts s k = Some x \<or> (k = key \<and> x = v)"
proof (cases "k = key")
  case True
  then show ?thesis using assms lru_set [of now "prefixKey key" v] by (simp add: stored_local_def local_set_ttl_def instance_put Let_def)
next
  case False
  let ?t = "if positive_ttl t then t else Ms 0"
  let ?c = "getCacheInstance opts key s"
  have other: "entries (lru_set (lo_lru opts) now (prefixKey key) v ?t ?c) (prefixKey k) \<in> {entries ?c (prefixKey k), None}"
    by (rule lru_set_other) (use False in simp)
  have look: "getCacheInstance opts k (local_set_ttl opts now key v t s) =
      (if is_reserved opts k s = is_reserved opts key s then lru_set (lo_lru opts) now (prefixKey key) v ?t ?c
       else getCacheInstance opts k s)"
    by (simp add: local_set_ttl_def instance_put Let_def)
  show ?thesis
  proof (cases "is_reserved opts k s = is_reserved opts key s")
    case True
    then show ?thesis using assms other unfolding stored_local_def look instance_same [OF True] by auto
  qed (use assms look in \<open>simp add: stored_local_def\<close>)
qed

end

sublocale local_caches \<subseteq> client: cache_contract "local_client opts" "stored_local entries opts" "\<lambda>_. True"
proof
  show "v = JNullV \<or> stored_local entries opts s key = Some v"
    if "c_get (local_client opts) now key s = (s', Inr v)" for now key s s' v
  proof -
    have "local_get opts now key s = (s', v)"
      using that by (cases "local_get opts now key s") (simp add: local_client_def)
    from local_get_result(1) [OF this] show ?thesis by (auto simp: stored_local_def split: option.splits if_splits)
  qed
  show "stored_local entries opts s k = Some x"
    if get: "c_get (local_client opts) now key s = (s', r)" and held: "stored_local entries opts s' k = Some x" for now key s s' r k x
  proof -
    obtain v where "local_get opts now key s = (s', v)"
      using get by (cases "local_get opts now key s") (simp add: local_client_def)
    from local_get_result(2) [OF this held] show ?thesis .
  qed
  show "stored_local entries opts s k = Some x \<or> (k = key \<and> x = v)"
    if "c_set (local_client opts) now key v t s = (s', u)" "stored_local entries opts s' k = Some x" for now key v t s s' u k x
    using that local_set_result [of now key v _ s k x] by (auto simp: local_client_def local_set_def)
qed

subsection \<open>Reserved keys are not evicted\<close>

datatype local_op =
    OpGet int string | OpSet int string jv "int option" | OpDelete string
  | OpIncrBy int string int | OpRPush int string jv | OpPurge int

fun run_local_op :: "'c local_options \<Rightarrow> local_op \<Rightarrow> 'c local_cache \<Rightarrow> 'c local_cache" where
  "run_local_op opts (OpGet now key) s = fst (local_get opts now key s)"
| "run_local_op opts (OpSet now key v ttl) s = local_set opts now key v ttl s"
| "run_local_op opts (OpDelete key) s = local_delete opts key s"
| "run_local_op opts (OpIncrBy now key n) s = fst (local_incrBy opts now key n s)"
| "run_local_op opts (OpRPush now key v) s = fst (local_rPush opts now key v s)"
| "run_local_op opts (OpPurge now) s = purgeStale opts now s"

fun op_writes :: "local_op \<Rightarrow> string option" where
  "op_writes (OpSet now key v ttl) = Some key"
| "op_writes (OpDelete key) = Some key"
| "op_writes (OpIncrBy now key n) = Some key"
| "op_writes (OpRPush now key v) = Some key"
| "op_writes _ = None"

text \<open>The reserved cache holds reserved keys only and has room for all of them.\<close>

definition reserved_ok ::
    "('c \<Rightarrow> string \<Rightarrow> (jv \<times> int option) option) \<Rightarrow> ('c \<Rightarrow> nat) \<Rightarrow> 'c local_options \<Rightarrow> 'c local_cache \<Rightarrow> bool" where
  "reserved_ok entries cap opts s \<longleftrightarrow> (\<exists>c. lc_reservedCache s = Some c \<and>
     dom (entries c) \<subseteq> prefixKey ` set (lo_reservedKeys opts) \<and> card (set (lo_reservedKeys opts)) \<le> cap c)"

definition keeps_reserved ::
    "('c \<Rightarrow> string \<Rightarrow> (jv \<times> int option) option) \<Rightarrow> ('c \<Rightarrow> nat) \<Rightarrow> 'c local_options \<Rightarrow> string \<Rightarrow> jv \<Rightarrow> 'c local_cache \<Rightarrow> bool" where
  "keeps_reserved entries cap opts key v s \<longleftrightarrow> reserved_ok entries cap opts s \<and>
     (\<exists>c. lc_reservedCache s = Some c \<and> entries c (prefixKey key) = Some (v, None))"

context local_caches
begin

lemma reserved_put:
  assumes "reserved_ok entries cap opts s" and "is_reserved opts k s \<Longrightarrow>
      dom (entries c) \<subseteq> insert (prefixKey k) (dom (entries (getCacheInstance opts k s))) \<and> cap c = cap (getCacheInstance opts k s)"
  shows "reserved_ok entries cap opts (put_instance opts k c s)"
proof (cases "is_reserved opts k s")
  case True
  obtain ca where ca: "lc_reservedCache s = Some ca" "dom (entries ca) \<subseteq> prefixKey ` set (lo_reservedKeys opts)"
      "card (set (lo_reservedKeys opts)) \<le> cap ca" using assms(1) by (auto simp: reserved_ok_def)
  have "dom (entries c) \<subseteq> insert (prefixKey k) (dom (entries ca))" "cap c = cap ca"
    using assms(2) [OF True] ca True by (simp_all add: getCacheInstance_def)
  moreover have "insert (prefixKey k) (dom (entries ca)) \<subseteq> prefixKey ` set (lo_reservedKeys opts)"
    using ca True by (auto simp: is_reserved_def)
  ultimately show ?thesis using ca True by (auto simp: reserved_ok_def put_instance_def)
qed (use assms(1) in \<open>simp add: reserved_ok_def put_instance_def\<close>)

lemma keeps_put:
  assumes "keeps_reserved entries cap opts key v s" and "is_reserved opts k s \<Longrightarrow>
      dom (entries c) \<subseteq> insert (prefixKey k) (dom (entries (getCacheInstance opts k s))) \<and> cap c = cap (getCacheInstance opts k s) \<and>
      (entries (getCacheInstance opts k s) (prefixKey key) = Some (v, None) \<longrightarrow> entries c (prefixKey key) = Some (v, None))"
  shows "keeps_reserved entries cap opts key v (put_instance opts k c s)"
  using assms reserved_put [of s k c]
  by (auto simp: keeps_reserved_def put_instance_def getCacheInstance_def is_reserved_def)

lemma set_dom: "dom (entries (lru_ops.lru_set (lo_lru opts) now k v t c)) \<subseteq> insert k (dom (entries c))"
proof
  fix j assume "j \<in> dom (entries (lru_ops.lru_set (lo_lru opts) now k v t c))"
  then show "j \<in> insert k (dom (entries c))" using lru_set_other [of j k now v t c] by (cases "j = k") auto
qed

lemma reserved_room:
  assumes "reserved_ok entries cap opts s" "is_reserved opts k s"
  shows "card (insert (prefixKey k) (dom (entries (getCacheInstance opts k s)))) \<le> cap (getCacheInstance opts k s)"
proof -
  obtain c where c: "lc_reservedCache s = Some c" "dom (entries c) \<subseteq> prefixKey ` set (lo_reservedKeys opts)"
      "card (set (lo_reservedKeys opts)) \<le> cap c" using assms(1) by (auto simp: reserved_ok_def)
  have "insert (prefixKey k) (dom (entries c)) \<subseteq> prefixKey ` set (lo_reservedKeys opts)" using c assms(2) by (auto simp: is_reserved_def)
  then have "card (insert (prefixKey k) (dom (entries c))) \<le> card (prefixKey ` set (lo_reservedKeys opts))" by (intro card_mono) auto
  also have "\<dots> \<le> card (set (lo_reservedKeys opts))" by (rule card_image_le) simp
  finally show ?thesis using c assms(2) by (simp add: getCacheInstance_def)
qed

lemma keeps_set:
  assumes "keeps_reserved entries cap opts key v s" and "k \<noteq> key"
  shows "keeps_reserved entries cap opts key v (local_set_ttl opts now k x t s)"
  unfolding local_set_ttl_def Let_def
proof (rule keeps_put [OF assms(1)], intro conjI impI)
  assume r: "is_reserved opts k s"
  have room: "card (insert (prefixKey k) (dom (entries (getCacheInstance opts k s)))) \<le> cap (getCacheInstance opts k s)"
    using reserved_room r assms(1) by (simp add: keeps_reserved_def)
  let ?c = "lru_ops.lru_set (lo_lru opts) now (prefixKey k) x (if positive_ttl t then t else Ms 0) (getCacheInstance opts k s)"
  show "dom (entries ?c) \<subseteq> insert (prefixKey k) (dom (entries (getCacheInstance opts k s)))" by (rule set_dom)
  show "cap ?c = cap (getCacheInstance opts k s)" using lru_set by simp
  show "entries ?c (prefixKey key) = Some (v, None)" if "entries (getCacheInstance opts k s) (prefixKey key) = Some (v, None)"
    using lru_set_room [OF _ room, of "prefixKey key" now x] assms(2) that by simp
qed

lemma keeps_get:
  assumes "keeps_reserved entries cap opts key v s"
  shows "keeps_reserved entries cap opts key v (fst (local_get opts now k s))"
proof -
  obtain c r where g: "lru_ops.lru_get (lo_lru opts) now (prefixKey k) (getCacheInstance opts k s) = (c, r)" by fastforce
  have "fst (local_get opts now k s) = put_instance opts k c s" by (simp add: local_get_def g)
  then show ?thesis
    using lru_get [OF g] by (auto intro!: keeps_put [OF assms] simp: entry_live_def split: if_splits option.splits)
qed

lemma keeps_delete:
  "keeps_reserved entries cap opts key v s \<Longrightarrow> k \<noteq> key \<Longrightarrow> keeps_reserved entries cap opts key v (local_delete opts k s)"
  unfolding local_delete_def by (rule keeps_put) (auto simp: lru_delete)

lemma keeps_op:
  assumes "keeps_reserved entries cap opts key v s" and "op_writes op \<noteq> Some key"
  shows "keeps_reserved entries cap opts key v (run_local_op opts op s)"
proof (cases op)
  case (OpPurge now)
  then show ?thesis using assms(1) by (simp add: purgeStale_def keeps_reserved_def reserved_ok_def)
next
  case (OpIncrBy now k n)
  then show ?thesis using assms keeps_get [OF assms(1), of now k]
    by (auto simp: local_incrBy_def Let_def split: prod.splits intro: keeps_set)
next
  case (OpRPush now k x)
  then show ?thesis using assms keeps_get [OF assms(1), of now k]
    by (auto simp: local_rPush_def Let_def split: prod.splits jv.splits intro: keeps_set)
qed (use assms keeps_get keeps_set keeps_delete in \<open>auto simp: local_set_def\<close>)

lemma reserved_read:
  assumes "keeps_reserved entries cap opts key v s" and "key \<in> set (lo_reservedKeys opts)"
  shows "snd (local_get opts now key s) = v"
proof -
  obtain s' x where g: "local_get opts now key s = (s', x)" by fastforce
  show ?thesis using local_get_result(1) [OF g] assms g
    by (auto simp: keeps_reserved_def getCacheInstance_def is_reserved_def entry_live_def)
qed

lemma reserved_written:
  assumes "reserved_ok entries cap opts s" and "key \<in> set (lo_reservedKeys opts)"
  shows "keeps_reserved entries cap opts key v (local_set opts now key v (Some (- 1)) s)"
proof -
  let ?c = "lru_ops.lru_set (lo_lru opts) now (prefixKey key) v (Ms 0) (getCacheInstance opts key s)"
  have eq: "local_set opts now key v (Some (- 1)) s = put_instance opts key ?c s"
    by (simp add: local_set_def local_set_ttl_def positive_ttl_def Let_def)
  have r: "is_reserved opts key s" using assms by (auto simp: is_reserved_def reserved_ok_def)
  have "reserved_ok entries cap opts (put_instance opts key ?c s)"
    using set_dom lru_set by (intro reserved_put [OF assms(1)]) auto
  then show ?thesis unfolding eq using r lru_set
    by (auto simp: keeps_reserved_def put_instance_def expiry_def)
qed

lemma reserved_survives:
  assumes "reserved_ok entries cap opts s" and "key \<in> set (lo_reservedKeys opts)" and "\<forall>op \<in> set ops. op_writes op \<noteq> Some key"
  shows "snd (local_get opts now' key (fold (run_local_op opts) ops (local_set opts now key v (Some (- 1)) s))) = v"
proof -
  have "keeps_reserved entries cap opts key v (fold (run_local_op opts) ops s')"
    if "keeps_reserved entries cap opts key v s'" for s'
    using assms(3) that by (induction ops arbitrary: s') (auto intro: keeps_op)
  from reserved_read [OF this [OF reserved_written [OF assms(1,2)]] assms(2)] show ?thesis .
qed

end

section \<open>A reference package\<close>

text \<open>Entries in the order of their last use, most recent first.\<close>

record ref_lru =
  rl_cap :: nat
  rl_items :: "(string \<times> (jv \<times> int option)) list"

definition without :: "string \<Rightarrow> (string \<times> 'v) list \<Rightarrow> (string \<times> 'v) list" where
  "without k xs = filter (\<lambda>(j, _). j \<noteq> k) xs"

definition evict_last :: "nat \<Rightarrow> string \<Rightarrow> (string \<times> 'v) list \<Rightarrow> (string \<times> 'v) list" where
  "evict_last n k xs = (if card (set (map fst xs)) > n \<and> fst (last xs) \<noteq> k then without (fst (last xs)) xs else xs)"

definition reference_lru :: "ref_lru lru_ops" where
  "reference_lru = \<lparr>
     lru_get = (\<lambda>now k c. case map_of (rl_items c) k of
         None \<Rightarrow> (c, None)
       | Some e \<Rightarrow> if entry_live now e then (c\<lparr>rl_items := (k, e) # without k (rl_items c)\<rparr>, Some (fst e))
           else (c\<lparr>rl_items := without k (rl_items c)\<rparr>, None)),
     lru_set = (\<lambda>now k v t c. c\<lparr>rl_items := evict_last (rl_cap c) k ((k, (v, expiry now t)) # without k (rl_items c))\<rparr>),
     lru_delete = (\<lambda>k c. c\<lparr>rl_items := without k (rl_items c)\<rparr>),
     lru_getRemainingTTL = (\<lambda>now k c. case map_of (rl_items c) k of
         None \<Rightarrow> Ms 0 | Some (_, None) \<Rightarrow> Infinite | Some (_, Some t) \<Rightarrow> Ms (t - now)),
     lru_clear = (\<lambda>c. c\<lparr>rl_items := []\<rparr>),
     lru_purgeStale = (\<lambda>now c. c\<lparr>rl_items := filter (\<lambda>(k, e). case map_of (rl_items c) k of None \<Rightarrow> False | Some e' \<Rightarrow> entry_live now e') (rl_items c)\<rparr>),
     lru_rkeys = (\<lambda>c. rev (map fst (rl_items c)))\<rparr>"

lemma map_of_without: "map_of (without k xs) j = (if j = k then None else map_of xs j)"
  by (induction xs) (auto simp: without_def)

lemma map_of_evict: "map_of (evict_last n k xs) j \<in> {map_of xs j, None}" "map_of (evict_last n k xs) k = map_of xs k"
  by (auto simp: evict_last_def map_of_without)

lemma map_of_filter_fst: "map_of (filter (\<lambda>(k, e). P k) xs) j = (if P j then map_of xs j else None)"
  by (induction xs) auto

interpretation ref_pkg: lru_package reference_lru "\<lambda>c. map_of (rl_items c)" rl_cap
proof
  fix now j k v t and c :: ref_lru
  assume "j \<noteq> k" and room: "card (insert k (dom (map_of (rl_items c)))) \<le> rl_cap c"
  have "set (map fst ((k, (v, expiry now t)) # without k (rl_items c))) = insert k (dom (map_of (rl_items c)))"
    by (auto simp: without_def dom_map_of_conv_image_fst)
  then show "map_of (rl_items (lru_set reference_lru now k v t c)) j = map_of (rl_items c) j"
    using \<open>j \<noteq> k\<close> room by (simp add: reference_lru_def evict_last_def map_of_without)
next
  fix now k c c' r
  assume "lru_get reference_lru now k c = (c', r)"
  then show "r = (case map_of (rl_items c) k of None \<Rightarrow> None | Some e \<Rightarrow> if entry_live now e then Some (fst e) else None) \<and>
      map_of (rl_items c') = (if r = None then (map_of (rl_items c))(k := None) else map_of (rl_items c)) \<and> rl_cap c' = rl_cap c"
    by (auto simp: reference_lru_def map_of_without fun_eq_iff split: option.splits if_splits)
next
  fix now v t and j k :: string and c :: ref_lru
  assume "j \<noteq> k"
  then show "map_of (rl_items (lru_set reference_lru now k v t c)) j \<in> {map_of (rl_items c) j, None}"
    using map_of_evict(1) [of "rl_cap c" k "(k, (v, expiry now t)) # without k (rl_items c)" j]
    by (simp add: reference_lru_def map_of_without)
qed (auto simp: reference_lru_def map_of_without map_of_evict map_of_filter_fst fun_eq_iff split: option.splits prod.splits)

definition sample_opts :: "ref_lru local_options" where
  "sample_opts = \<lparr>lo_lru = reference_lru, lo_new = (\<lambda>n. \<lparr>rl_cap = n, rl_items = []\<rparr>), lo_max = 1, lo_ttl = 3600000,
     lo_reservedKeys = [''plan'']\<rparr>"

interpretation ref_local: local_caches sample_opts "\<lambda>c. map_of (rl_items c)" rl_cap
  unfolding local_caches_def sample_opts_def local_options.simps by (rule ref_pkg.lru_package_axioms)

text \<open>The client and the method never throw, and reading the fields that forbid caching does not either.\<close>

definition never_fails :: "'s cache_client \<Rightarrow> bool" where
  "never_fails client \<longleftrightarrow> (\<forall>now k s. \<exists>s' v. c_get client now k s = (s', Inr v)) \<and>
     (\<forall>now k v t s. \<exists>s'. c_set client now k v t s = (s', Inr ()))"

definition named_ok :: "cache_options \<Rightarrow> arg list \<Rightarrow> bool" where
  "named_ok opts args \<longleftrightarrow> \<not> isl (shouldSkipCachingForNamedParams args (co_skipNamedParams opts))"

lemma decorator_returns:
  assumes "never_fails client" and "pure_method target f D" and "args \<in> D" and "named_ok opts args"
    and "cache_decorator client opts ttl m target now args (s, w) = ((s', w'), r)"
  shows "\<exists>v. r = Inr v"
proof -
  obtain s1 v where get: "c_get client now (generateCacheKey m args) s = (s1, Inr v)"
    using assms(1) unfolding never_fails_def by blast
  obtain w1 where run: "target args w = (w1, Inr (f args))" using assms(2,3) by (auto simp: pure_method_def)
  obtain b where named: "shouldSkipCachingForNamedParams args (co_skipNamedParams opts) = Inr b"
    using assms(4) by (cases "shouldSkipCachingForNamedParams args (co_skipNamedParams opts)") (auto simp: named_ok_def)
  obtain s2 where set: "c_set client now (generateCacheKey m args) (f args)
      (Some (case co_ttl opts of Some t \<Rightarrow> t | None \<Rightarrow> ttl)) s1 = (s2, Inr ())"
    using assms(1) unfolding never_fails_def by blast
  show ?thesis using assms(5) by (auto simp: cache_decorator_def get run named set Let_def split: if_splits bool.splits)
qed

context cache_contract
begin

lemma cached_results:
  assumes "never_fails client" and "pure_method target f D" and "inj_on (generateCacheKey m) D" and "\<forall>args \<in> D. storable (f args)"
    and "\<forall>args \<in> D. named_ok opts args" and "snd ` set calls \<subseteq> D" and "memo_ok stored m f D s"
  shows "run_cached client opts ttl m target calls (s, w) = map (\<lambda>(now, args). Inr (f args)) calls"
  using assms(6,7)
proof (induction calls arbitrary: s w)
  case (Cons call calls)
  obtain now args where call: "call = (now, args)" by fastforce
  obtain s' w' r where step: "cache_decorator client opts ttl m target now args (s, w) = ((s', w'), r)"
    by (metis surj_pair)
  have args: "args \<in> D" using Cons.prems(1) call by simp
  have ok: "memo_ok stored m f D s'" "r = Inr (f args)"
    using decorated_call [OF assms(2) args assms(3) _ Cons.prems(2) step] assms(4,5) args
      decorator_returns [OF assms(1,2) args _ step] by auto
  then show ?case using Cons.IH [of s' w'] Cons.prems(1) step call by simp
qed simp

end

context local_caches
begin

lemma local_contract: "cache_contract (local_client opts) (stored_local entries opts) (\<lambda>_. True)"
  by (rule client.cache_contract_axioms)

end

lemma local_never_fails: "never_fails (local_client opts)"
  unfolding never_fails_def
proof (intro conjI allI)
  show "\<exists>s' v. c_get (local_client opts) now k s = (s', Inr v)" for now k s
    by (cases "local_get opts now k s") (simp add: local_client_def)
qed (simp add: local_client_def)

lemma safe_never_fails: "never_fails (SafeRedisCache super)"
  unfolding never_fails_def
proof (intro conjI allI)
  show "\<exists>s' v. c_get (SafeRedisCache super) now k s = (s', Inr v)" for now k s
    by (cases "c_get super now k s"; cases "snd (c_get super now k s)") (auto simp: SafeRedisCache_def safeCall_def)
  show "\<exists>s'. c_set (SafeRedisCache super) now k v t s = (s', Inr ())" for now k v t s
    by (cases "c_set super now k v t s"; cases "snd (c_set super now k v t s)") (auto simp: SafeRedisCache_def safeCall_def)
qed

context cache_contract
begin

lemma safe_contract: "cache_contract (SafeRedisCache client) stored storable"
proof
  show "v = JNullV \<or> stored s key = Some v" if "c_get (SafeRedisCache client) now key s = (s', Inr v)" for now key s s' v
    using that get_holds [of now key s]
    by (cases "c_get client now key s") (auto simp: SafeRedisCache_def safeCall_def split: sum.splits)
  show "stored s k = Some x" if "c_get (SafeRedisCache client) now key s = (s', r)" "stored s' k = Some x" for now key s s' r k x
    using that get_keeps [of now key s]
    by (cases "c_get client now key s") (auto simp: SafeRedisCache_def safeCall_def split: sum.splits)
  show "stored s k = Some x \<or> (k = key \<and> x = v)"
    if "storable v" "c_set (SafeRedisCache client) now key v t s = (s', u)" "stored s' k = Some x" for v now key t s s' u k x
    using that set_holds [of v now key t s]
    by (cases "c_set client now key v t s") (auto simp: SafeRedisCache_def safeCall_def split: sum.splits)
qed

end


text \<open>A value under a reserved key that was set without expiry is never evicted from the in-memory cache: after any sequence of
reads, writes, increments, pushes, deletions of other keys and purges, reading the key returns it.\<close>

lemma reserved_key_survives:
  assumes "local_caches opts entries cap" and "reserved_ok entries cap opts s" and "key \<in> set (lo_reservedKeys opts)"
    and "\<forall>op \<in> set ops. op_writes op \<noteq> Some key"
  shows "snd (local_get opts now' key (fold (run_local_op opts) ops (local_set opts now key v (Some (- 1)) s))) = v"
  using local_caches.reserved_survives [OF assms] .

definition echo_method :: "arg list \<Rightarrow> nat \<Rightarrow> nat \<times> (thrown + jv)" where
  "echo_method args n = (Suc n, Inr (JArray [JString (concat (map arg_value args))]))"

definition plain_options :: cache_options where
  "plain_options = \<lparr>co_skipParams = [(0, ''latest|pending'')], co_skipNamedParams = [], co_ttl = None\<rparr>"


lemma reserved_key_survives_witness:
  "snd (local_get sample_opts 9 ''plan'' (fold (run_local_op sample_opts) [OpSet 1 ''x'' (JNumV 1) None, OpGet 2 ''plan'', OpRPush 3 ''y'' JNullV]
     (local_set sample_opts 0 ''plan'' (JNumV 7) (Some (- 1)) (LocalLRUCache sample_opts)))) = JNumV 7"
  by (rule reserved_key_survives [OF ref_local.local_caches_axioms])
    (auto simp: reserved_ok_def LocalLRUCache_def sample_opts_def)

section \<open>Defects\<close>

text \<open>
  An increment at the last instant of an entry's time reads a remaining time of zero, which
  sets the entry for ever; the same happens when the entry expires between the two reads.
\<close>

lemma increment_drops_expiry:
  "let s = local_set sample_opts 0 ''n'' (JNumV 5) (Some 10) (LocalLRUCache sample_opts)
   in snd (local_get sample_opts 1000000 ''n'' s) = JNullV \<and>
      snd (local_get sample_opts 1000000 ''n'' (fst (local_incrBy sample_opts 10 ''n'' 1 s))) = JNumV 6"
  by code_simp

text \<open>An end before the start of the list is empty in Redis; in memory it is taken from the end again.\<close>

lemma lRange_far_negative_end:
  "let s = local_set sample_opts 0 ''l'' (JArray [JNumV 1, JNumV 2, JNumV 3, JNumV 4]) None (LocalLRUCache sample_opts)
   in snd (local_lRange sample_opts 1 ''l'' 0 (- 6) s) = Inr [JNumV 1, JNumV 2, JNumV 3]"
  by code_simp

text \<open>Different calls can have the same key.\<close>

lemma cache_key_collision:
  "generateCacheKey ''m'' [RpcParam (JString ''a_b'')] = generateCacheKey ''m'' [RpcParam (JString ''a''), RpcParam (JString ''b'')]"
  by (simp add: generateCacheKey_def arg_value_def typeof_object_def)

end
