(* ===== verification/HbarPlans.thy ===== *)
theory HbarPlans
  imports Formatters Transitions "HOL-Library.AList"
begin

text \<open>
  The spending plans of the HBAR limiter and their three repositories
  (\<open>db/repositories/hbarLimiter/\<close>), with the types and errors of \<open>db/types/hbarLimiter/\<close>. The
  repositories keep their records in the cache under keys made of a prefix, an identifier and
  possibly a suffix; the model has one association list per kind of record, keyed by the
  identifier. The search for all plans also matches the keys of the amounts, whose values have
  no tier and are filtered out. Amounts are tinybars. An entry whose time to live has passed is one that is absent.
\<close>

section \<open>Records and errors\<close>

datatype subscription_tier = BASIC | EXTENDED | PRIVILEGED | OPERATOR

datatype hbar_error =
    HbarSpendingPlanNotFoundError string
  | HbarSpendingPlanNotActiveError string
  | EvmAddressHbarSpendingPlanNotFoundError string
  | IPAddressHbarSpendingPlanNotFoundError string
  | NoEvmAddressError

record spending_plan =
  sp_id :: string
  sp_subscriptionTier :: subscription_tier
  sp_createdAt :: int
  sp_active :: bool

record detailed_plan = spending_plan +
  sp_amountSpent :: int

record address_plan =
  ap_address :: string
  ap_planId :: string

record spending_record =
  sr_amount :: int
  sr_timestamp :: int

record hbar_db =
  db_plans :: "(string \<times> spending_plan) list"
  db_amounts :: "(string \<times> int) list"
  db_evm :: "(string \<times> address_plan) list"
  db_ip :: "(string \<times> address_plan) list"
  db_history :: "(string \<times> spending_record list) list"

section \<open>Plans\<close>

definition findById :: "hbar_db \<Rightarrow> string \<Rightarrow> hbar_error + spending_plan" where
  "findById db planId = (case map_of (db_plans db) planId of
     None \<Rightarrow> Inl (HbarSpendingPlanNotFoundError planId) | Some plan \<Rightarrow> Inr plan)"

definition checkExistsAndActive :: "hbar_db \<Rightarrow> string \<Rightarrow> hbar_error + unit" where
  "checkExistsAndActive db planId =
     res_bind (findById db planId) (\<lambda>plan.
       if \<not> sp_active plan then Inl (HbarSpendingPlanNotActiveError planId) else Inr ())"

text \<open>\<open>amountSpent ?? '0'\<close>\<close>

definition amount_of :: "hbar_db \<Rightarrow> string \<Rightarrow> int" where
  "amount_of db planId = (case map_of (db_amounts db) planId of None \<Rightarrow> 0 | Some a \<Rightarrow> a)"

definition getAmountSpent :: "hbar_db \<Rightarrow> string \<Rightarrow> hbar_error + int" where
  "getAmountSpent db planId = res_bind (checkExistsAndActive db planId) (\<lambda>_. Inr (amount_of db planId))"

definition with_amount :: "spending_plan \<Rightarrow> int \<Rightarrow> detailed_plan" where
  "with_amount plan amount = \<lparr>sp_id = sp_id plan, sp_subscriptionTier = sp_subscriptionTier plan,
     sp_createdAt = sp_createdAt plan, sp_active = sp_active plan, sp_amountSpent = amount\<rparr>"

definition findByIdWithDetails :: "hbar_db \<Rightarrow> string \<Rightarrow> hbar_error + detailed_plan" where
  "findByIdWithDetails db planId =
     res_bind (findById db planId) (\<lambda>plan.
     res_bind (getAmountSpent db planId) (\<lambda>amount. Inr (with_amount plan amount)))"

text \<open>The identifier is the given one or a fresh UUID.\<close>

definition create_plan :: "subscription_tier \<Rightarrow> int \<Rightarrow> string \<Rightarrow> hbar_db \<Rightarrow> detailed_plan \<times> hbar_db" where
  "create_plan tier now planId db =
     (let plan = \<lparr>sp_id = planId, sp_subscriptionTier = tier, sp_createdAt = now, sp_active = True\<rparr>
      in (with_amount plan 0, db\<lparr>db_plans := AList.update planId plan (db_plans db)\<rparr>))"

definition delete_plan :: "string \<Rightarrow> hbar_db \<Rightarrow> hbar_db" where
  "delete_plan planId db = db\<lparr>db_plans := AList.delete planId (db_plans db)\<rparr>"

definition resetAmountSpentOfAllPlans :: "hbar_db \<Rightarrow> hbar_db" where
  "resetAmountSpentOfAllPlans db =
     (let keys = map fst (db_amounts db) in db\<lparr>db_amounts := fold AList.delete keys (db_amounts db)\<rparr>)"

definition addToAmountSpent :: "string \<Rightarrow> int \<Rightarrow> hbar_db \<Rightarrow> hbar_error + hbar_db" where
  "addToAmountSpent planId amount db =
     res_bind (checkExistsAndActive db planId) (\<lambda>_.
       let current = map_of (db_amounts db) planId in
       if current = None \<or> current = Some 0
       then Inr (db\<lparr>db_amounts := AList.update planId amount (db_amounts db)\<rparr>)
       else Inr (db\<lparr>db_amounts := AList.update planId (the current + amount) (db_amounts db)\<rparr>))"

definition history_of :: "hbar_db \<Rightarrow> string \<Rightarrow> spending_record list" where
  "history_of db planId = (case map_of (db_history db) planId of None \<Rightarrow> [] | Some h \<Rightarrow> h)"

definition getSpendingHistory :: "hbar_db \<Rightarrow> string \<Rightarrow> hbar_error + spending_record list" where
  "getSpendingHistory db planId = res_bind (checkExistsAndActive db planId) (\<lambda>_. Inr (history_of db planId))"

text \<open>The result is the new length of the history.\<close>

definition addAmountToSpendingHistory :: "string \<Rightarrow> int \<Rightarrow> int \<Rightarrow> hbar_db \<Rightarrow> hbar_error + (nat \<times> hbar_db)" where
  "addAmountToSpendingHistory planId amount now db =
     res_bind (checkExistsAndActive db planId) (\<lambda>_.
       let history = history_of db planId @ [\<lparr>sr_amount = amount, sr_timestamp = now\<rparr>]
       in Inr (length history, db\<lparr>db_history := AList.update planId history (db_history db)\<rparr>))"

fun with_amounts :: "hbar_db \<Rightarrow> spending_plan list \<Rightarrow> hbar_error + detailed_plan list" where
  "with_amounts db [] = Inr []"
| "with_amounts db (plan # plans) =
     res_bind (getAmountSpent db (sp_id plan)) (\<lambda>amount.
     res_bind (with_amounts db plans) (\<lambda>rest. Inr (with_amount plan amount # rest)))"

definition findAllActiveBySubscriptionTier :: "subscription_tier list \<Rightarrow> hbar_db \<Rightarrow> hbar_error + detailed_plan list" where
  "findAllActiveBySubscriptionTier tiers db =
     (let plans = map snd (AList.clearjunk (db_plans db))
      in with_amounts db (filter (\<lambda>plan. sp_subscriptionTier plan \<in> set tiers \<and> sp_active plan) plans))"

section \<open>Addresses\<close>

definition evm_key :: "string \<Rightarrow> string" where
  "evm_key evmAddress = toLowerCase (trim evmAddress)"

definition ip_key :: "string \<Rightarrow> string" where
  "ip_key ipAddress = ipAddress"

definition evm_existsByAddress :: "hbar_db \<Rightarrow> string \<Rightarrow> bool" where
  "evm_existsByAddress db evmAddress \<longleftrightarrow> map_of (db_evm db) (evm_key evmAddress) \<noteq> None"

definition evm_findAllByPlanId :: "hbar_db \<Rightarrow> string \<Rightarrow> address_plan list" where
  "evm_findAllByPlanId db planId = filter (\<lambda>p. ap_planId p = planId) (map snd (AList.clearjunk (db_evm db)))"

definition evm_deleteAllByPlanId :: "string \<Rightarrow> hbar_db \<Rightarrow> hbar_db" where
  "evm_deleteAllByPlanId planId db =
     (let keys = map fst (filter (\<lambda>(_, p). ap_planId p = planId) (AList.clearjunk (db_evm db)))
      in db\<lparr>db_evm := fold AList.delete keys (db_evm db)\<rparr>)"

definition evm_findByAddress :: "hbar_db \<Rightarrow> string \<Rightarrow> hbar_error + address_plan" where
  "evm_findByAddress db evmAddress = (case map_of (db_evm db) (evm_key evmAddress) of
     None \<Rightarrow> Inl (EvmAddressHbarSpendingPlanNotFoundError evmAddress) | Some p \<Rightarrow> Inr p)"

definition evm_save :: "string \<Rightarrow> string \<Rightarrow> hbar_db \<Rightarrow> hbar_db" where
  "evm_save evmAddress planId db =
     db\<lparr>db_evm := AList.update (evm_key evmAddress) \<lparr>ap_address = evmAddress, ap_planId = planId\<rparr> (db_evm db)\<rparr>"

definition evm_delete :: "string \<Rightarrow> hbar_db \<Rightarrow> hbar_db" where
  "evm_delete evmAddress db = db\<lparr>db_evm := AList.delete (evm_key evmAddress) (db_evm db)\<rparr>"

definition ip_existsByAddress :: "hbar_db \<Rightarrow> string \<Rightarrow> bool" where
  "ip_existsByAddress db ipAddress \<longleftrightarrow> map_of (db_ip db) (ip_key ipAddress) \<noteq> None"

definition ip_findAllByPlanId :: "hbar_db \<Rightarrow> string \<Rightarrow> address_plan list" where
  "ip_findAllByPlanId db planId = filter (\<lambda>p. ap_planId p = planId) (map snd (AList.clearjunk (db_ip db)))"

definition ip_deleteAllByPlanId :: "string \<Rightarrow> hbar_db \<Rightarrow> hbar_db" where
  "ip_deleteAllByPlanId planId db =
     (let keys = map fst (filter (\<lambda>(_, p). ap_planId p = planId) (AList.clearjunk (db_ip db)))
      in db\<lparr>db_ip := fold AList.delete keys (db_ip db)\<rparr>)"

definition ip_findByAddress :: "hbar_db \<Rightarrow> string \<Rightarrow> hbar_error + address_plan" where
  "ip_findByAddress db ipAddress = (case map_of (db_ip db) (ip_key ipAddress) of
     None \<Rightarrow> Inl (IPAddressHbarSpendingPlanNotFoundError ipAddress) | Some p \<Rightarrow> Inr p)"

definition ip_save :: "string \<Rightarrow> string \<Rightarrow> hbar_db \<Rightarrow> hbar_db" where
  "ip_save ipAddress planId db =
     db\<lparr>db_ip := AList.update (ip_key ipAddress) \<lparr>ap_address = ipAddress, ap_planId = planId\<rparr> (db_ip db)\<rparr>"

definition ip_delete :: "string \<Rightarrow> hbar_db \<Rightarrow> hbar_db" where
  "ip_delete ipAddress db = db\<lparr>db_ip := AList.delete (ip_key ipAddress) (db_ip db)\<rparr>"

section \<open>Laws of the repositories\<close>

lemma map_of_delete: "map_of (AList.delete k al) k' = (if k' = k then None else map_of al k')"
  by (simp add: delete_conv')

lemma map_of_fold_delete: "map_of (fold AList.delete ks al) k = (if k \<in> set ks then None else map_of al k)"
  by (induction ks arbitrary: al) (auto simp: map_of_delete)

lemma map_of_update: "map_of (AList.update k v al) k' = (if k' = k then Some v else map_of al k')"
  by (simp add: update_conv')

lemma amount_reset [simp]: "amount_of (resetAmountSpentOfAllPlans db) planId = 0"
  by (simp add: amount_of_def resetAmountSpentOfAllPlans_def Let_def map_of_fold_delete map_of_eq_None_iff split: option.splits)
    (metis fst_eqD image_eqI map_of_SomeD)

lemma reset_other [simp]:
  "db_plans (resetAmountSpentOfAllPlans db) = db_plans db"
  "db_evm (resetAmountSpentOfAllPlans db) = db_evm db" "db_ip (resetAmountSpentOfAllPlans db) = db_ip db"
  by (simp_all add: resetAmountSpentOfAllPlans_def Let_def)

definition usable :: "hbar_db \<Rightarrow> string \<Rightarrow> bool" where
  "usable db planId \<longleftrightarrow> (\<exists>p. map_of (db_plans db) planId = Some p \<and> sp_active p)"

text \<open>Every plan is stored under its own identifier.\<close>

definition ids_ok :: "hbar_db \<Rightarrow> bool" where
  "ids_ok db \<longleftrightarrow> (\<forall>i p. map_of (db_plans db) i = Some p \<longrightarrow> sp_id p = i)"

lemma addToAmountSpent_usable:
  assumes "usable db planId"
  shows "\<exists>db'. addToAmountSpent planId amount db = Inr db' \<and>
    (\<forall>i. amount_of db' i = amount_of db i + (if i = planId then amount else 0)) \<and>
    db_plans db' = db_plans db \<and> db_evm db' = db_evm db \<and> db_ip db' = db_ip db"
  using assms
  by (auto simp: usable_def addToAmountSpent_def checkExistsAndActive_def findById_def amount_of_def map_of_update Let_def
      split: option.splits)

lemma addToAmountSpent_not_usable: "\<not> usable db planId \<Longrightarrow> \<exists>e. addToAmountSpent planId amount db = Inl e"
  by (auto simp: usable_def addToAmountSpent_def checkExistsAndActive_def findById_def split: option.splits)

end
