(* ===== verification/HbarLimiter.thy ===== *)
theory HbarLimiter
  imports HbarPlans
begin

text \<open>
  The limiter of the operator's HBAR expenses: \<open>services/hbarLimitService/index.ts\<close>. Its state
  is the database of plans, the instant of the next reset and the metrics. The operator's
  address, the tier limits (in tinybars) and the duration are the configuration; \<open>uuid\<close>
  gives the identifiers of new plans. Updates the code starts in the background are done
  at once. The empty string stands for an address that is not given.
\<close>

section \<open>State\<close>

record limiter_config =
  lc_limits :: "subscription_tier \<Rightarrow> int"
  lc_limitDuration :: int
  lc_operatorAddress :: string
  lc_uuid :: "nat \<Rightarrow> string"

record limiter =
  hl_db :: hbar_db
  hl_reset :: int
  hl_uuids :: nat
  hl_limitCounter :: "string \<times> string \<Rightarrow> nat"
  hl_remainingGauge :: int
  hl_uniquePlans :: "subscription_tier \<Rightarrow> nat"
  hl_averageSpent :: "subscription_tier \<Rightarrow> js_number"

definition isEnabled :: "limiter_config \<Rightarrow> bool" where
  "isEnabled cfg \<longleftrightarrow> \<not> lc_limits cfg OPERATOR \<le> 0"

section \<open>The reset timestamp\<close>

text \<open>The loop of \<open>getResetTimestamp\<close>; it may run forever when the duration is not positive.\<close>

partial_function (option) getResetTimestamp_loop :: "int \<Rightarrow> int \<Rightarrow> int \<Rightarrow> int option" where
  "getResetTimestamp_loop limitDuration now resetDate =
     (if resetDate < now
      then (let intervalsPassed = ceil_div (now - resetDate) limitDuration
            in getResetTimestamp_loop limitDuration now (resetDate + intervalsPassed * limitDuration))
      else Some resetDate)"

declare getResetTimestamp_loop.simps [code]

text \<open>\<open>reset\<close> is undefined at construction; the first reset counts from midnight.\<close>

definition getResetTimestamp :: "int \<Rightarrow> int \<Rightarrow> int \<Rightarrow> int option \<Rightarrow> int option" where
  "getResetTimestamp limitDuration todayAtMidnight now reset =
     getResetTimestamp_loop limitDuration now (case reset of Some r \<Rightarrow> r | None \<Rightarrow> todayAtMidnight)"

definition shouldResetLimiter :: "int \<Rightarrow> limiter \<Rightarrow> bool" where
  "shouldResetLimiter now st \<longleftrightarrow> now \<ge> hl_reset st"

section \<open>Plans of addresses\<close>

definition getSpendingPlanByEvmAddress :: "hbar_db \<Rightarrow> string \<Rightarrow> hbar_error + detailed_plan" where
  "getSpendingPlanByEvmAddress db evmAddress =
     res_bind (evm_findByAddress db evmAddress) (\<lambda>p. findByIdWithDetails db (ap_planId p))"

definition getSpendingPlanByIPAddress :: "hbar_db \<Rightarrow> string \<Rightarrow> hbar_error + detailed_plan" where
  "getSpendingPlanByIPAddress db ipAddress =
     res_bind (ip_findByAddress db ipAddress) (\<lambda>p. findByIdWithDetails db (ap_planId p))"

text \<open>Errors of the lookups are swallowed.\<close>

definition ok_option :: "'e + 'a \<Rightarrow> 'a option" where
  "ok_option r = (case r of Inl _ \<Rightarrow> None | Inr v \<Rightarrow> Some v)"

definition getSpendingPlan :: "hbar_db \<Rightarrow> string \<Rightarrow> string \<Rightarrow> detailed_plan option" where
  "getSpendingPlan db evmAddress ipAddress =
     (let byEvm = (if evmAddress \<noteq> [] then ok_option (getSpendingPlanByEvmAddress db evmAddress) else None) in
      case byEvm of
        Some plan \<Rightarrow> Some plan
      | None \<Rightarrow> if ipAddress \<noteq> [] then ok_option (getSpendingPlanByIPAddress db ipAddress) else None)"

definition createSpendingPlanForAddress ::
    "limiter_config \<Rightarrow> int \<Rightarrow> string \<Rightarrow> subscription_tier \<Rightarrow> limiter \<Rightarrow> hbar_error + (detailed_plan \<times> limiter)" where
  "createSpendingPlanForAddress cfg now evmAddress tier st =
     (if evmAddress = [] then Inl NoEvmAddressError
      else let (spendingPlan, db1) = create_plan tier now (lc_uuid cfg (hl_uuids st)) (hl_db st);
               db2 = evm_save evmAddress (sp_id spendingPlan) db1
           in Inr (spendingPlan, st\<lparr>hl_db := db2, hl_uuids := Suc (hl_uuids st)\<rparr>))"

definition getOperatorSpendingPlan ::
    "limiter_config \<Rightarrow> int \<Rightarrow> string \<Rightarrow> limiter \<Rightarrow> hbar_error + (detailed_plan \<times> limiter)" where
  "getOperatorSpendingPlan cfg now ipAddress st =
     (case getSpendingPlan (hl_db st) (lc_operatorAddress cfg) ipAddress of
        Some operatorPlan \<Rightarrow> Inr (operatorPlan, st)
      | None \<Rightarrow> createSpendingPlanForAddress cfg now (lc_operatorAddress cfg) OPERATOR st)"

definition getRemainingBudget :: "limiter_config \<Rightarrow> int \<Rightarrow> string \<Rightarrow> limiter \<Rightarrow> int \<times> limiter" where
  "getRemainingBudget cfg now ipAddress st =
     (case getOperatorSpendingPlan cfg now ipAddress st of
        Inr (operatorPlan, st') \<Rightarrow> (lc_limits cfg OPERATOR - sp_amountSpent operatorPlan, st')
      | Inl _ \<Rightarrow> (lc_limits cfg OPERATOR, st))"

section \<open>Operations\<close>

definition resetTemporaryMetrics :: "limiter \<Rightarrow> limiter" where
  "resetTemporaryMetrics st = st\<lparr>hl_uniquePlans := (\<lambda>_. 0)\<rparr>"

definition resetLimiter :: "limiter_config \<Rightarrow> int \<Rightarrow> string \<Rightarrow> limiter \<Rightarrow> limiter option" where
  "resetLimiter cfg now ipAddress st =
     (let st1 = st\<lparr>hl_db := resetAmountSpentOfAllPlans (hl_db st)\<rparr>;
          (remainingBudget, st2) = getRemainingBudget cfg now ipAddress st1;
          st3 = resetTemporaryMetrics (st2\<lparr>hl_remainingGauge := remainingBudget\<rparr>)
      in map_option (\<lambda>r. st3\<lparr>hl_reset := r\<rparr>) (getResetTimestamp (lc_limitDuration cfg) 0 now (Some (hl_reset st3))))"

definition isTotalBudgetExceeded ::
    "limiter_config \<Rightarrow> int \<Rightarrow> string \<Rightarrow> string \<Rightarrow> int \<Rightarrow> string \<Rightarrow> limiter \<Rightarrow> (bool \<times> limiter) option" where
  "isTotalBudgetExceeded cfg now mode methodName estimatedTxFee ipAddress st =
     (case (if shouldResetLimiter now st then resetLimiter cfg now ipAddress st else Some st) of
        None \<Rightarrow> None
      | Some st1 \<Rightarrow>
          (let (remainingBudget, st2) = getRemainingBudget cfg now ipAddress st1 in
           if remainingBudget \<le> 0 \<or> remainingBudget - estimatedTxFee < 0
           then Some (True, st2\<lparr>hl_limitCounter := (hl_limitCounter st2)((mode, methodName) :=
                        Suc (hl_limitCounter st2 (mode, methodName)))\<rparr>)
           else Some (False, st2)))"

text \<open>\<open>None\<close> when the reset never returns, \<open>Inl\<close> for an exception.\<close>

definition shouldLimit ::
    "limiter_config \<Rightarrow> int \<Rightarrow> string \<Rightarrow> string \<Rightarrow> string \<Rightarrow> string \<Rightarrow> int \<Rightarrow> limiter \<Rightarrow> (hbar_error + (bool \<times> limiter)) option" where
  "shouldLimit cfg now mode methodName evmAddress ipAddress estimatedTxFee st =
     (if \<not> isEnabled cfg then Some (Inr (False, st))
      else case isTotalBudgetExceeded cfg now mode methodName estimatedTxFee ipAddress st of
        None \<Rightarrow> None
      | Some (True, st1) \<Rightarrow> Some (Inr (True, st1))
      | Some (False, st1) \<Rightarrow>
          if evmAddress = [] \<and> ipAddress = [] then Some (Inr (False, st1))
          else Some (res_bind
            (case getSpendingPlan (hl_db st1) evmAddress ipAddress of
               Some plan \<Rightarrow> Inr (plan, st1)
             | None \<Rightarrow> createSpendingPlanForAddress cfg now evmAddress BASIC st1)
            (\<lambda>(spendingPlan, st2).
               let spendingLimit = lc_limits cfg (sp_subscriptionTier spendingPlan);
                   exceedsLimit = spendingLimit \<le> sp_amountSpent spendingPlan \<or>
                     spendingLimit < sp_amountSpent spendingPlan + estimatedTxFee
               in Inr (exceedsLimit, st2))))"

definition updateAverageAmountSpentPerSubscriptionTier :: "subscription_tier \<Rightarrow> limiter \<Rightarrow> limiter" where
  "updateAverageAmountSpentPerSubscriptionTier tier st =
     (case findAllActiveBySubscriptionTier [tier] (hl_db st) of
        Inl _ \<Rightarrow> st
      | Inr plans \<Rightarrow>
          (let totalUsage = sum_list (map sp_amountSpent plans);
               averageUsage = (if plans = [] then JNaN else JNum (round_div totalUsage (int (length plans))))
           in st\<lparr>hl_averageSpent := (hl_averageSpent st)(tier := averageUsage)\<rparr>))"

text \<open>The end of \<open>addExpense\<close>, once the plan of the spender is known.\<close>

definition charge_plan :: "int \<Rightarrow> detailed_plan \<Rightarrow> limiter \<Rightarrow> hbar_error + limiter" where
  "charge_plan cost spendingPlan st =
     (let tier = sp_subscriptionTier spendingPlan;
          st1 = (if sp_amountSpent spendingPlan = 0
                 then st\<lparr>hl_uniquePlans := (hl_uniquePlans st)(tier := Suc (hl_uniquePlans st tier))\<rparr> else st)
      in res_bind (addToAmountSpent (sp_id spendingPlan) cost (hl_db st1)) (\<lambda>db.
           Inr (updateAverageAmountSpentPerSubscriptionTier tier (st1\<lparr>hl_db := db\<rparr>))))"

definition addExpense :: "limiter_config \<Rightarrow> int \<Rightarrow> int \<Rightarrow> string \<Rightarrow> string \<Rightarrow> limiter \<Rightarrow> hbar_error + limiter" where
  "addExpense cfg now cost evmAddress ipAddress st =
     (if \<not> isEnabled cfg then Inr st
      else res_bind (getOperatorSpendingPlan cfg now ipAddress st) (\<lambda>(operatorPlan, st1).
        res_bind (addToAmountSpent (sp_id operatorPlan) cost (hl_db st1)) (\<lambda>db2.
          let st2 = updateAverageAmountSpentPerSubscriptionTier (sp_subscriptionTier operatorPlan) (st1\<lparr>hl_db := db2\<rparr>);
              (remainingBudget, st3) = getRemainingBudget cfg now ipAddress st2;
              st4 = st3\<lparr>hl_remainingGauge := remainingBudget\<rparr>
          in case getSpendingPlan (hl_db st4) evmAddress ipAddress of
               None \<Rightarrow> if evmAddress \<noteq> []
                 then res_bind (createSpendingPlanForAddress cfg now evmAddress BASIC st4)
                   (\<lambda>(spendingPlan, st5). charge_plan cost spendingPlan st5)
                 else Inr st4
             | Some spendingPlan \<Rightarrow> charge_plan cost spendingPlan st4)))"

section \<open>The reset timestamp is the next one\<close>

text \<open>For a positive duration the computation of the reset timestamp ends, and gives the first instant not before now that
lies a whole number of durations after the previous reset (or after midnight, at the start).\<close>

lemma reset_timestamp_next:
  assumes "0 < limitDuration"
  shows "\<exists>r. getResetTimestamp limitDuration midnight now reset = Some r \<and>
    (let start = (case reset of Some s \<Rightarrow> s | None \<Rightarrow> midnight) in
     if now \<le> start then r = start
     else now \<le> r \<and> r < now + limitDuration \<and> limitDuration dvd r - start)"
proof -
  let ?start = "case reset of Some s \<Rightarrow> s | None \<Rightarrow> midnight"
  let ?r = "?start + ceil_div (now - ?start) limitDuration * limitDuration"
  show ?thesis
  proof (cases "now \<le> ?start")
    case True
    then show ?thesis by (simp add: getResetTimestamp_def getResetTimestamp_loop.simps)
  next
    case False
    note b = ceil_div_bounds [OF assms, of "now - ?start"]
    have "getResetTimestamp limitDuration midnight now reset = getResetTimestamp_loop limitDuration now ?r"
      using False by (simp add: getResetTimestamp_def getResetTimestamp_loop.simps [of _ _ ?start] Let_def)
    also have "\<dots> = Some ?r"
      using b by (subst getResetTimestamp_loop.simps) simp
    finally show ?thesis using b False by (simp add: Let_def)
  qed
qed

lemma reset_timestamp_next_witness: "getResetTimestamp 10 0 25 None = Some 30"
proof -
  obtain r where r: "getResetTimestamp 10 0 25 None = Some r" "25 \<le> r" "r < 35" "10 dvd r"
    using reset_timestamp_next [of 10 0 25 None] by auto
  then obtain m where "r = 10 * m" by (auto simp: dvd_def)
  then have "r = 30" using r by auto
  then show ?thesis using r by simp
qed

text \<open>At the very instant of the reset the timestamp stays, and the next call resets again.\<close>

lemma reset_at_the_instant: "getResetTimestamp limitDuration midnight now (Some now) = Some now"
  by (simp add: getResetTimestamp_def getResetTimestamp_loop.simps)

section \<open>Which plan is charged\<close>

definition linked :: "(string \<times> address_plan) list \<Rightarrow> hbar_db \<Rightarrow> string \<Rightarrow> string option" where
  "linked links db key = (case map_of links key of
     None \<Rightarrow> None | Some p \<Rightarrow> if usable db (ap_planId p) then Some (ap_planId p) else None)"

text \<open>The plan of a request: that of the address if it has one, else that of the client's IP address.\<close>

definition plan_of :: "hbar_db \<Rightarrow> string \<Rightarrow> string \<Rightarrow> string option" where
  "plan_of db evmAddress ipAddress =
     (case (if evmAddress = [] then None else linked (db_evm db) db (evm_key evmAddress)) of
        Some i \<Rightarrow> Some i
      | None \<Rightarrow> if ipAddress = [] then None else linked (db_ip db) db (ip_key ipAddress))"

definition plan_at :: "hbar_db \<Rightarrow> string \<Rightarrow> detailed_plan" where
  "plan_at db i = with_amount (the (map_of (db_plans db) i)) (amount_of db i)"

lemma findByIdWithDetails_ok:
  "ok_option (findByIdWithDetails db i) = (if usable db i then Some (plan_at db i) else None)"
  by (auto simp: ok_option_def findByIdWithDetails_def findById_def getAmountSpent_def checkExistsAndActive_def usable_def
      plan_at_def split: option.splits)

lemma getSpendingPlan_eq: "getSpendingPlan db evm ip = map_option (plan_at db) (plan_of db evm ip)"
proof -
  have "ok_option (getSpendingPlanByEvmAddress db evm) = map_option (plan_at db) (linked (db_evm db) db (evm_key evm))"
    using findByIdWithDetails_ok
    by (auto simp: getSpendingPlanByEvmAddress_def evm_findByAddress_def linked_def ok_option_def split: option.splits)
  moreover have "ok_option (getSpendingPlanByIPAddress db ip) = map_option (plan_at db) (linked (db_ip db) db (ip_key ip))"
    using findByIdWithDetails_ok
    by (auto simp: getSpendingPlanByIPAddress_def ip_findByAddress_def linked_def ok_option_def split: option.splits)
  ultimately show ?thesis by (auto simp: getSpendingPlan_def plan_of_def Let_def split: option.split)
qed

lemma plan_of_usable: "plan_of db evm ip = Some i \<Longrightarrow> usable db i"
  by (auto simp: plan_of_def linked_def split: option.splits if_splits)

lemma sp_id_plan_at: "ids_ok db \<Longrightarrow> usable db i \<Longrightarrow> sp_id (plan_at db i) = i"
  by (auto simp: plan_at_def with_amount_def usable_def ids_ok_def)

lemma amount_plan_at [simp]: "sp_amountSpent (plan_at db i) = amount_of db i"
  by (simp add: plan_at_def with_amount_def)

lemma tier_plan_at: "sp_subscriptionTier (plan_at db i) = sp_subscriptionTier (the (map_of (db_plans db) i))"
  by (simp add: plan_at_def with_amount_def)

lemma plan_of_cong:
  assumes "db_plans db' = db_plans db" "db_evm db' = db_evm db" "db_ip db' = db_ip db"
  shows "plan_of db' = plan_of db"
proof -
  have "usable db' = usable db" using assms(1) by (simp add: fun_eq_iff usable_def)
  then have "linked links db' = linked links db" for links
    by (intro ext) (simp add: linked_def split: option.split)
  then show ?thesis using assms(2,3) by (intro ext) (simp add: plan_of_def split: option.split)
qed

lemma ids_ok_cong: "db_plans db' = db_plans db \<Longrightarrow> ids_ok db' = ids_ok db"
  by (simp add: ids_ok_def)

lemma average_db [simp]: "hl_db (updateAverageAmountSpentPerSubscriptionTier t st) = hl_db st"
  "hl_reset (updateAverageAmountSpentPerSubscriptionTier t st) = hl_reset st"
  "hl_remainingGauge (updateAverageAmountSpentPerSubscriptionTier t st) = hl_remainingGauge st"
  by (auto simp: updateAverageAmountSpentPerSubscriptionTier_def Let_def split: sum.splits)

lemma operator_plan:
  "plan_of (hl_db st) (lc_operatorAddress cfg) ip = Some op \<Longrightarrow>
     getOperatorSpendingPlan cfg now ip st = Inr (plan_at (hl_db st) op, st)"
  by (simp add: getOperatorSpendingPlan_def getSpendingPlan_eq)

lemma remaining_budget:
  "plan_of (hl_db st) (lc_operatorAddress cfg) ip = Some op \<Longrightarrow>
     getRemainingBudget cfg now ip st = (lc_limits cfg OPERATOR - amount_of (hl_db st) op, st)"
  by (simp add: getRemainingBudget_def operator_plan)

lemma charge_plan_ok:
  assumes "ids_ok (hl_db st)" "usable (hl_db st) i"
  shows "\<exists>st'. charge_plan cost (plan_at (hl_db st) i) st = Inr st' \<and>
    (\<forall>j. amount_of (hl_db st') j = amount_of (hl_db st) j + (if j = i then cost else 0)) \<and>
    db_plans (hl_db st') = db_plans (hl_db st) \<and> db_evm (hl_db st') = db_evm (hl_db st) \<and> db_ip (hl_db st') = db_ip (hl_db st) \<and>
    hl_reset st' = hl_reset st \<and> hl_remainingGauge st' = hl_remainingGauge st"
proof -
  obtain db where "addToAmountSpent i cost (hl_db st) = Inr db"
    "\<forall>j. amount_of db j = amount_of (hl_db st) j + (if j = i then cost else 0)"
    "db_plans db = db_plans (hl_db st)" "db_evm db = db_evm (hl_db st)" "db_ip db = db_ip (hl_db st)"
    using addToAmountSpent_usable [OF assms(2), of cost] by blast
  then show ?thesis
    using sp_id_plan_at [OF assms] by (simp add: charge_plan_def Let_def)
qed

definition same_plans :: "limiter \<Rightarrow> limiter \<Rightarrow> bool" where
  "same_plans st st' \<longleftrightarrow> db_plans (hl_db st') = db_plans (hl_db st) \<and> db_evm (hl_db st') = db_evm (hl_db st) \<and>
     db_ip (hl_db st') = db_ip (hl_db st) \<and> hl_reset st' = hl_reset st"

lemma addExpense_ok:
  assumes "isEnabled cfg" "ids_ok (hl_db st)" "plan_of (hl_db st) (lc_operatorAddress cfg) ip = Some op"
    and "plan_of (hl_db st) evm ip = Some i"
  shows "\<exists>st'. addExpense cfg now cost evm ip st = Inr st' \<and>
    (\<forall>j. amount_of (hl_db st') j = amount_of (hl_db st) j + (if j = op then cost else 0) + (if j = i then cost else 0)) \<and>
    hl_remainingGauge st' = lc_limits cfg OPERATOR - (amount_of (hl_db st) op + cost) \<and> same_plans st st'"
proof -
  have uop: "usable (hl_db st) op" and ui: "usable (hl_db st) i" using plan_of_usable assms(3,4) by blast+
  obtain db where db: "addToAmountSpent op cost (hl_db st) = Inr db"
    "\<forall>j. amount_of db j = amount_of (hl_db st) j + (if j = op then cost else 0)"
    "db_plans db = db_plans (hl_db st)" "db_evm db = db_evm (hl_db st)" "db_ip db = db_ip (hl_db st)"
    using addToAmountSpent_usable [OF uop, of cost] by blast
  let ?st2 = "updateAverageAmountSpentPerSubscriptionTier (sp_subscriptionTier (plan_at (hl_db st) op)) (st\<lparr>hl_db := db\<rparr>)"
  have plans: "plan_of db = plan_of (hl_db st)" using plan_of_cong db(3-5) by blast
  have rem: "getRemainingBudget cfg now ip ?st2 = (lc_limits cfg OPERATOR - amount_of db op, ?st2)"
    using remaining_budget [of ?st2 cfg ip op now] plans assms(3) by simp
  let ?st4 = "?st2\<lparr>hl_remainingGauge := lc_limits cfg OPERATOR - amount_of db op\<rparr>"
  have ok4: "ids_ok (hl_db ?st4)" "usable (hl_db ?st4) i"
    using assms(2) ui db(3) by (simp_all add: ids_ok_def usable_def)
  have "addExpense cfg now cost evm ip st = charge_plan cost (plan_at (hl_db ?st4) i) ?st4"
    using assms(1,4) operator_plan [OF assms(3)] sp_id_plan_at [OF assms(2) uop] db(1) rem plans
    by (simp add: addExpense_def getSpendingPlan_eq Let_def)
  then show ?thesis
    using charge_plan_ok [OF ok4, of cost] db(2-5) by (auto simp: same_plans_def)
qed

text \<open>An expense is added once to the operator's plan and once to the plan of the spender (its own, or else that of its IP
address), to no other plan, and the remaining budget is the operator's limit less what its plan now shows; plans and links
stay as they are. When both are the same plan it is charged twice.\<close>

lemma addExpense_charges:
  assumes "isEnabled cfg" and "ids_ok (hl_db st)"
    and "plan_of (hl_db st) (lc_operatorAddress cfg) ip = Some op" and "plan_of (hl_db st) evm ip = Some i"
  shows "\<exists>st'. addExpense cfg now cost evm ip st = Inr st' \<and>
    (\<forall>j. amount_of (hl_db st') j = amount_of (hl_db st) j + (if j = op then cost else 0) + (if j = i then cost else 0)) \<and>
    hl_remainingGauge st' = lc_limits cfg OPERATOR - (amount_of (hl_db st) op + cost) \<and> same_plans st st'"
  using addExpense_ok [OF assms] .

text \<open>
  Without a plan of the operator, the client's IP plan is taken for it: an expense of an address without
  plan is then charged twice to the IP plan, and no operator plan is created.
\<close>

lemma ip_plan_charged_twice:
  assumes "isEnabled cfg" "ids_ok (hl_db st)" "ip \<noteq> []" "linked (db_ip (hl_db st)) (hl_db st) (ip_key ip) = Some i"
    and "linked (db_evm (hl_db st)) (hl_db st) (evm_key (lc_operatorAddress cfg)) = None"
    and "linked (db_evm (hl_db st)) (hl_db st) (evm_key evm) = None"
  shows "\<exists>st'. addExpense cfg now cost evm ip st = Inr st' \<and> amount_of (hl_db st') i = amount_of (hl_db st) i + 2 * cost"
proof -
  have "plan_of (hl_db st) (lc_operatorAddress cfg) ip = Some i" "plan_of (hl_db st) evm ip = Some i"
    using assms(3-6) by (simp_all add: plan_of_def)
  from addExpense_ok [OF assms(1,2) this, of now cost] show ?thesis by auto
qed

section \<open>When a request is limited\<close>

lemma totalBudget_open:
  assumes "now < hl_reset st" "plan_of (hl_db st) (lc_operatorAddress cfg) ip = Some op"
  shows "isTotalBudgetExceeded cfg now mode m fee ip st =
    (let rem = lc_limits cfg OPERATOR - amount_of (hl_db st) op; b = (rem \<le> 0 \<or> rem < fee)
     in Some (b, if b then st\<lparr>hl_limitCounter := (hl_limitCounter st)((mode, m) := Suc (hl_limitCounter st (mode, m)))\<rparr> else st))"
  using assms remaining_budget [OF assms(2)]
  by (auto simp: isTotalBudgetExceeded_def shouldResetLimiter_def Let_def)

text \<open>Between resets a request is limited exactly when the operator's budget is used up or cannot cover the estimated fee, or the
spender's plan has reached the limit of its tier or would pass it with the fee; only the first two cases
count as a reached total limit, and nothing else changes.\<close>

lemma shouldLimit_decision:
  assumes "isEnabled cfg" and "now < hl_reset st"
    and "plan_of (hl_db st) (lc_operatorAddress cfg) ip = Some op" and "plan_of (hl_db st) evm ip = Some i"
  shows "shouldLimit cfg now mode m evm ip fee st =
    (let budget = lc_limits cfg OPERATOR - amount_of (hl_db st) op;
         limit = lc_limits cfg (sp_subscriptionTier (the (map_of (db_plans (hl_db st)) i)));
         spent = amount_of (hl_db st) i
     in if budget \<le> 0 \<or> budget < fee
        then Some (Inr (True, st\<lparr>hl_limitCounter := (hl_limitCounter st)((mode, m) := hl_limitCounter st (mode, m) + 1)\<rparr>))
        else Some (Inr (limit \<le> spent \<or> limit < spent + fee, st)))"
proof -
  have "evm \<noteq> [] \<or> ip \<noteq> []" using assms(4) by (auto simp: plan_of_def)
  then show ?thesis
    using assms(1,4) totalBudget_open [OF assms(2,3), of mode m fee]
    by (auto simp: shouldLimit_def getSpendingPlan_eq tier_plan_at Let_def)
qed

text \<open>A reset returns, sets the amount of every plan to zero, keeps plans and links, and moves the reset to the next instant of
the schedule; the remaining budget is the whole budget again.\<close>

lemma resetLimiter_resets:
  assumes "0 < lc_limitDuration cfg" and "plan_of (hl_db st) (lc_operatorAddress cfg) ip = Some op"
  shows "\<exists>st'. resetLimiter cfg now ip st = Some st' \<and> (\<forall>i. amount_of (hl_db st') i = 0) \<and>
    db_plans (hl_db st') = db_plans (hl_db st) \<and> db_evm (hl_db st') = db_evm (hl_db st) \<and>
    hl_remainingGauge st' = lc_limits cfg OPERATOR \<and> now \<le> hl_reset st' \<and>
    (hl_reset st < now \<longrightarrow> hl_reset st' < now + lc_limitDuration cfg)"
proof -
  let ?st1 = "st\<lparr>hl_db := resetAmountSpentOfAllPlans (hl_db st)\<rparr>"
  have plan: "plan_of (hl_db ?st1) (lc_operatorAddress cfg) ip = Some op"
    using plan_of_cong [of "resetAmountSpentOfAllPlans (hl_db st)" "hl_db st"] assms(2) by simp
  obtain r where r: "getResetTimestamp (lc_limitDuration cfg) 0 now (Some (hl_reset st)) = Some r" "now \<le> r"
    "hl_reset st < now \<longrightarrow> r < now + lc_limitDuration cfg"
    using ceil_div_bounds [OF assms(1), of "now - hl_reset st"]
    by (cases "now \<le> hl_reset st") (auto simp: getResetTimestamp_def getResetTimestamp_loop.simps Let_def)
  show ?thesis
    using remaining_budget [OF plan, of now] r by (simp add: resetLimiter_def resetTemporaryMetrics_def Let_def)
qed

section \<open>The budget holds over a sequence of expenses\<close>

text \<open>Expenses of a cost, an address and the IP address of the request, one after the other.\<close>

fun spend :: "limiter_config \<Rightarrow> int \<Rightarrow> (int \<times> string \<times> string) list \<Rightarrow> limiter \<Rightarrow> hbar_error + limiter" where
  "spend cfg now [] st = Inr st"
| "spend cfg now ((cost, evm, ip) # es) st = res_bind (addExpense cfg now cost evm ip st) (spend cfg now es)"

definition operator_linked :: "limiter_config \<Rightarrow> hbar_db \<Rightarrow> string \<Rightarrow> bool" where
  "operator_linked cfg db op \<longleftrightarrow> lc_operatorAddress cfg \<noteq> [] \<and> linked (db_evm db) db (evm_key (lc_operatorAddress cfg)) = Some op"

lemma operator_linked_plan: "operator_linked cfg db op \<Longrightarrow> plan_of db (lc_operatorAddress cfg) ip = Some op"
  by (simp add: operator_linked_def plan_of_def)

lemma same_plans_keeps:
  assumes "same_plans st st'"
  shows "plan_of (hl_db st') = plan_of (hl_db st)" "ids_ok (hl_db st') = ids_ok (hl_db st)"
    "operator_linked cfg (hl_db st') op = operator_linked cfg (hl_db st) op" "hl_reset st' = hl_reset st"
proof -
  have "usable (hl_db st') = usable (hl_db st)" using assms by (simp add: fun_eq_iff usable_def same_plans_def)
  then have "linked links (hl_db st') = linked links (hl_db st)" for links
    by (intro ext) (simp add: linked_def split: option.split)
  then show "operator_linked cfg (hl_db st') op = operator_linked cfg (hl_db st) op"
    using assms by (simp add: operator_linked_def same_plans_def)
  show "plan_of (hl_db st') = plan_of (hl_db st)" "ids_ok (hl_db st') = ids_ok (hl_db st)" "hl_reset st' = hl_reset st"
    using assms plan_of_cong [of "hl_db st'" "hl_db st"] ids_ok_cong [of "hl_db st'" "hl_db st"]
    by (simp_all add: same_plans_def)
qed

lemma spend_ok:
  assumes "isEnabled cfg" "ids_ok (hl_db st)" "operator_linked cfg (hl_db st) op"
    and "list_all (\<lambda>(c, evm, ip). plan_of (hl_db st) evm ip \<notin> {None, Some op}) es"
  shows "\<exists>st'. spend cfg now es st = Inr st' \<and> same_plans st st' \<and>
    amount_of (hl_db st') op = amount_of (hl_db st) op + sum_list (map fst es)"
  using assms(2-4)
proof (induction es arbitrary: st)
  case Nil
  then show ?case by (simp add: same_plans_def)
next
  case (Cons e es)
  obtain c evm ip where e: "e = (c, evm, ip)" by (cases e) auto
  obtain i where i: "plan_of (hl_db st) evm ip = Some i" "i \<noteq> op" using Cons.prems(3) e by auto
  obtain st1 where st1: "addExpense cfg now c evm ip st = Inr st1" "same_plans st st1"
    "amount_of (hl_db st1) op = amount_of (hl_db st) op + c"
    using addExpense_ok [OF assms(1) Cons.prems(1) operator_linked_plan [OF Cons.prems(2)] i(1), of now c] i(2) by auto
  note keep = same_plans_keeps [OF st1(2)]
  obtain st' where "spend cfg now es st1 = Inr st'" "same_plans st1 st'"
    "amount_of (hl_db st') op = amount_of (hl_db st1) op + sum_list (map fst es)"
    using Cons.IH [of st1] Cons.prems keep by auto
  then show ?case using st1 by (auto simp: e same_plans_def)
qed


section \<open>An instance\<close>

definition sample_config :: limiter_config where
  "sample_config = \<lparr>lc_limits = (\<lambda>t. case t of BASIC \<Rightarrow> 10 | EXTENDED \<Rightarrow> 20 | PRIVILEGED \<Rightarrow> 30 | OPERATOR \<Rightarrow> 100),
     lc_limitDuration = 60, lc_operatorAddress = ''0x01'', lc_uuid = to_dec\<rparr>"

definition sample_db :: hbar_db where
  "sample_db = \<lparr>db_plans = [(''op'', \<lparr>sp_id = ''op'', sp_subscriptionTier = OPERATOR, sp_createdAt = 0, sp_active = True\<rparr>),
      (''u'', \<lparr>sp_id = ''u'', sp_subscriptionTier = BASIC, sp_createdAt = 0, sp_active = True\<rparr>)],
     db_amounts = [], db_evm = [(''0x01'', \<lparr>ap_address = ''0x01'', ap_planId = ''op''\<rparr>), (''0x02'', \<lparr>ap_address = ''0x02'', ap_planId = ''u''\<rparr>)],
     db_ip = [], db_history = []\<rparr>"

definition sample_limiter :: limiter where
  "sample_limiter = \<lparr>hl_db = sample_db, hl_reset = 50, hl_uuids = 0, hl_limitCounter = (\<lambda>_. 0), hl_remainingGauge = 100,
     hl_uniquePlans = (\<lambda>_. 0), hl_averageSpent = (\<lambda>_. JNaN)\<rparr>"

lemma sample_facts:
  "isEnabled sample_config" "ids_ok (hl_db sample_limiter)" "0 < lc_limitDuration sample_config"
  "operator_linked sample_config (hl_db sample_limiter) ''op''"
  "plan_of (hl_db sample_limiter) (lc_operatorAddress sample_config) [] = Some ''op''"
  "plan_of (hl_db sample_limiter) ''0x02'' [] = Some ''u''" "\<And>i. amount_of (hl_db sample_limiter) i = 0"
proof -
  have k: "evm_key ''0x01'' = ''0x01''" "evm_key ''0x02'' = ''0x02''" by code_simp+
  show "isEnabled sample_config" "0 < lc_limitDuration sample_config" "\<And>i. amount_of (hl_db sample_limiter) i = 0"
    by (simp_all add: isEnabled_def sample_config_def sample_limiter_def sample_db_def amount_of_def)
  show "ids_ok (hl_db sample_limiter)" by (simp add: ids_ok_def sample_limiter_def sample_db_def)
  show "operator_linked sample_config (hl_db sample_limiter) ''op''"
    "plan_of (hl_db sample_limiter) (lc_operatorAddress sample_config) [] = Some ''op''"
    "plan_of (hl_db sample_limiter) ''0x02'' [] = Some ''u''"
    by (simp_all add: operator_linked_def plan_of_def linked_def usable_def sample_config_def sample_limiter_def sample_db_def k)
qed

lemma addExpense_charges_witness:
  "\<exists>st'. addExpense sample_config 0 7 ''0x02'' [] sample_limiter = Inr st' \<and> amount_of (hl_db st') ''u'' = 7 \<and>
     amount_of (hl_db st') ''op'' = 7 \<and> hl_remainingGauge st' = 93"
  using addExpense_charges [OF sample_facts(1,2,5,6), of 0 7] sample_facts(7) by (auto simp: sample_config_def)

lemma shouldLimit_decision_witness:
  "shouldLimit sample_config 0 ''m'' ''f'' ''0x02'' [] 11 sample_limiter = Some (Inr (True, sample_limiter))"
  using shouldLimit_decision [OF sample_facts(1) _ sample_facts(5,6), of 0 "''m''" "''f''" 11] sample_facts(7)
  by (simp add: sample_limiter_def sample_config_def sample_db_def Let_def)

lemma resetLimiter_resets_witness:
  "\<exists>st'. resetLimiter sample_config 55 [] sample_limiter = Some st' \<and> hl_remainingGauge st' = 100 \<and> 55 \<le> hl_reset st' \<and> hl_reset st' < 115"
  using resetLimiter_resets [OF sample_facts(3,5), of 55] by (auto simp: sample_config_def sample_limiter_def)


end
