(* ===== verification/HbarConfig.thy ===== *)
theory HbarConfig
  imports HbarPlans Json
begin

text \<open>
  The pre-configured spending plans: \<open>config/hbarSpendingPlanConfigService.ts\<close> and
  \<open>types/spendingPlanConfig.ts\<close>. The configuration is the parsed JSON list; reading it from
  the environment or a file is left out. Loops over promises run in the order of their lists.
\<close>

section \<open>Configurations\<close>

definition is_string :: "jv \<Rightarrow> bool" where
  "is_string v = (case v of JString _ \<Rightarrow> True | _ \<Rightarrow> False)"

definition TIERS :: "(string \<times> subscription_tier) list" where
  "TIERS = [(''BASIC'', BASIC), (''EXTENDED'', EXTENDED), (''PRIVILEGED'', PRIVILEGED), (''OPERATOR'', OPERATOR)]"

definition nonempty_array :: "jv \<Rightarrow> bool" where
  "nonempty_array v = (case v of JArray xs \<Rightarrow> length xs > 0 | _ \<Rightarrow> False)"

definition isValidSpendingPlanConfig :: "jv \<Rightarrow> bool" where
  "isValidSpendingPlanConfig plan \<longleftrightarrow>
     truthy plan \<and> is_string (js_get plan ''id'') \<and> is_string (js_get plan ''name'') \<and>
     is_string (js_get plan ''subscriptionTier'') \<and> js_String (js_get plan ''subscriptionTier'') \<in> fst ` set TIERS \<and>
     (nonempty_array (js_get plan ''evmAddresses'') \<or> nonempty_array (js_get plan ''ipAddresses''))"

text \<open>The fields the service reads; an absent list of addresses reads as empty.\<close>

record plan_config =
  cf_id :: string
  cf_subscriptionTier :: subscription_tier
  cf_evmAddresses :: "string list"
  cf_ipAddresses :: "string list"

definition addresses_of :: "jv \<Rightarrow> string list" where
  "addresses_of v = (case v of JArray xs \<Rightarrow> map js_String xs | _ \<Rightarrow> [])"

definition plan_config_of :: "jv \<Rightarrow> plan_config" where
  "plan_config_of plan = \<lparr>cf_id = js_String (js_get plan ''id''),
     cf_subscriptionTier = (case map_of TIERS (js_String (js_get plan ''subscriptionTier'')) of Some t \<Rightarrow> t | None \<Rightarrow> BASIC),
     cf_evmAddresses = addresses_of (js_get plan ''evmAddresses''), cf_ipAddresses = addresses_of (js_get plan ''ipAddresses'')\<rparr>"

text \<open>The result of a failed validation is the offending configuration, which the message prints.\<close>

definition validateSpendingPlanConfig :: "jv list \<Rightarrow> jv + unit" where
  "validateSpendingPlanConfig plans = (case filter (\<lambda>plan. \<not> isValidSpendingPlanConfig plan) plans of
     [] \<Rightarrow> Inr () | plan # _ \<Rightarrow> Inl plan)"

definition getPreconfiguredSpendingPlanKeys :: "plan_config list \<Rightarrow> string set" where
  "getPreconfiguredSpendingPlanKeys configs = set (concat (map (\<lambda>c.
     [''hbarSpendingPlan:'' @ cf_id c, ''hbarSpendingPlan:'' @ cf_id c @ '':amountSpent'',
      ''hbarSpendingPlan:'' @ cf_id c @ '':spendingHistory''] @
     map (\<lambda>a. ''evmAddressHbarSpendingPlan:'' @ toLowerCase (trim a)) (cf_evmAddresses c) @
     map (\<lambda>a. ''ipAddressHbarSpendingPlan:'' @ a) (cf_ipAddresses c)) configs))"

section \<open>Populating the database\<close>

definition deleteObsoletePlans :: "detailed_plan list \<Rightarrow> plan_config list \<Rightarrow> hbar_db \<Rightarrow> nat \<times> hbar_db" where
  "deleteObsoletePlans existingPlans configs db =
     (let plansToDelete = filter (\<lambda>plan. \<not> list_ex (\<lambda>spc. cf_id spc = sp_id plan) configs) existingPlans
      in (length plansToDelete,
          fold (\<lambda>plan db. ip_deleteAllByPlanId (sp_id plan) (evm_deleteAllByPlanId (sp_id plan) (delete_plan (sp_id plan) db)))
            plansToDelete db))"

definition addNewPlans :: "int \<Rightarrow> plan_config list \<Rightarrow> detailed_plan list \<Rightarrow> hbar_db \<Rightarrow> nat \<times> hbar_db" where
  "addNewPlans now configs existingPlans db =
     (let plansToAdd = filter (\<lambda>spc. \<not> list_ex (\<lambda>plan. sp_id plan = cf_id spc) existingPlans) configs
      in (length plansToAdd,
          fold (\<lambda>spc db. snd (create_plan (cf_subscriptionTier spc) now (cf_id spc) db)) plansToAdd db))"

definition deleteObsoleteEvmAddressAssociations :: "plan_config \<Rightarrow> hbar_db \<Rightarrow> hbar_db" where
  "deleteObsoleteEvmAddressAssociations planConfig db =
     fold (\<lambda>evmAddress db. case evm_findByAddress db evmAddress of
         Inl _ \<Rightarrow> db
       | Inr p \<Rightarrow> if ap_planId p \<noteq> cf_id planConfig then evm_delete evmAddress db else db)
       (cf_evmAddresses planConfig) db"

definition deleteObsoleteIpAddressAssociations :: "plan_config \<Rightarrow> hbar_db \<Rightarrow> hbar_db" where
  "deleteObsoleteIpAddressAssociations planConfig db =
     fold (\<lambda>ipAddress db. case ip_findByAddress db ipAddress of
         Inl _ \<Rightarrow> db
       | Inr p \<Rightarrow> if ap_planId p \<noteq> cf_id planConfig then ip_delete ipAddress db else db)
       (cf_ipAddresses planConfig) db"

definition updateEvmAddressAssociations :: "plan_config \<Rightarrow> hbar_db \<Rightarrow> hbar_db" where
  "updateEvmAddressAssociations planConfig db =
     (let current = map ap_address (evm_findAllByPlanId db (cf_id planConfig));
          addressesToDelete = filter (\<lambda>a. a \<notin> set (cf_evmAddresses planConfig)) current;
          db1 = fold evm_delete addressesToDelete db;
          addressesToAdd = filter (\<lambda>a. a \<notin> set current) (cf_evmAddresses planConfig)
      in fold (\<lambda>a db. evm_save a (cf_id planConfig) db) addressesToAdd db1)"

definition updateIpAddressAssociations :: "plan_config \<Rightarrow> hbar_db \<Rightarrow> hbar_db" where
  "updateIpAddressAssociations planConfig db =
     (let current = map ap_address (ip_findAllByPlanId db (cf_id planConfig));
          addressesToDelete = filter (\<lambda>a. a \<notin> set (cf_ipAddresses planConfig)) current;
          db1 = fold ip_delete addressesToDelete db;
          addressesToAdd = filter (\<lambda>a. a \<notin> set current) (cf_ipAddresses planConfig)
      in fold (\<lambda>a db. ip_save a (cf_id planConfig) db) addressesToAdd db1)"

definition updatePlanAssociations :: "plan_config list \<Rightarrow> hbar_db \<Rightarrow> hbar_db" where
  "updatePlanAssociations configs db =
     fold (\<lambda>planConfig db.
       updateIpAddressAssociations planConfig (updateEvmAddressAssociations planConfig
         (deleteObsoleteIpAddressAssociations planConfig (deleteObsoleteEvmAddressAssociations planConfig db)))) configs db"

text \<open>An invalid configuration, an error of the repository, or the number of plans added and deleted.\<close>

datatype populate_error = InvalidConfig jv | RepositoryError hbar_error

definition populatePreconfiguredSpendingPlans :: "int \<Rightarrow> jv list \<Rightarrow> hbar_db \<Rightarrow> populate_error + (nat \<times> hbar_db)" where
  "populatePreconfiguredSpendingPlans now plans db =
     (if plans = [] then Inr (0, db)
      else res_bind (map_sum InvalidConfig id (validateSpendingPlanConfig plans)) (\<lambda>_.
        res_bind (map_sum RepositoryError id (findAllActiveBySubscriptionTier [EXTENDED, PRIVILEGED] db)) (\<lambda>existingPlans.
          let configs = map plan_config_of plans;
              (plansDeleted, db1) = deleteObsoletePlans existingPlans configs db;
              (plansAdded, db2) = addNewPlans now configs existingPlans db1
          in Inr (plansDeleted + plansAdded, updatePlanAssociations configs db2))))"

section \<open>Synchronising the links of one plan\<close>

text \<open>The effect on one kind of link, with the key of an address as an argument.\<close>

definition obsolete_links ::
    "(string \<Rightarrow> string) \<Rightarrow> string \<Rightarrow> string list \<Rightarrow> (string \<times> address_plan) list \<Rightarrow> (string \<times> address_plan) list" where
  "obsolete_links key pid addrs links = fold (\<lambda>a ls. case map_of ls (key a) of
     None \<Rightarrow> ls | Some p \<Rightarrow> if ap_planId p \<noteq> pid then AList.delete (key a) ls else ls) addrs links"

definition sync_links ::
    "(string \<Rightarrow> string) \<Rightarrow> string \<Rightarrow> string list \<Rightarrow> (string \<times> address_plan) list \<Rightarrow> (string \<times> address_plan) list" where
  "sync_links key pid addrs links =
     (let current = map ap_address (filter (\<lambda>p. ap_planId p = pid) (map snd (AList.clearjunk links)))
      in fold (\<lambda>a. AList.update (key a) \<lparr>ap_address = a, ap_planId = pid\<rparr>) (filter (\<lambda>a. a \<notin> set current) addrs)
           (fold (\<lambda>a. AList.delete (key a)) (filter (\<lambda>a. a \<notin> set addrs) current) links))"

lemma fold_evm_delete: "fold evm_delete as db = db\<lparr>db_evm := fold (\<lambda>a. AList.delete (evm_key a)) as (db_evm db)\<rparr>"
  by (induction as arbitrary: db) (simp_all add: evm_delete_def)

lemma fold_evm_save:
  "fold (\<lambda>a db. evm_save a pid db) as db =
     db\<lparr>db_evm := fold (\<lambda>a. AList.update (evm_key a) \<lparr>ap_address = a, ap_planId = pid\<rparr>) as (db_evm db)\<rparr>"
  by (induction as arbitrary: db) (simp_all add: evm_save_def)

lemma fold_ip_delete: "fold ip_delete as db = db\<lparr>db_ip := fold (\<lambda>a. AList.delete (ip_key a)) as (db_ip db)\<rparr>"
  by (induction as arbitrary: db) (simp_all add: ip_delete_def)

lemma fold_ip_save:
  "fold (\<lambda>a db. ip_save a pid db) as db =
     db\<lparr>db_ip := fold (\<lambda>a. AList.update (ip_key a) \<lparr>ap_address = a, ap_planId = pid\<rparr>) as (db_ip db)\<rparr>"
  by (induction as arbitrary: db) (simp_all add: ip_save_def)

lemma update_eqs:
  "updateEvmAddressAssociations c db = db\<lparr>db_evm := sync_links evm_key (cf_id c) (cf_evmAddresses c) (db_evm db)\<rparr>"
  "updateIpAddressAssociations c db = db\<lparr>db_ip := sync_links ip_key (cf_id c) (cf_ipAddresses c) (db_ip db)\<rparr>"
  by (simp_all add: updateEvmAddressAssociations_def updateIpAddressAssociations_def sync_links_def evm_findAllByPlanId_def
      ip_findAllByPlanId_def fold_evm_delete fold_evm_save fold_ip_delete fold_ip_save Let_def)

lemma obsolete_eqs:
  "deleteObsoleteEvmAddressAssociations c db = db\<lparr>db_evm := obsolete_links evm_key (cf_id c) (cf_evmAddresses c) (db_evm db)\<rparr>"
  "deleteObsoleteIpAddressAssociations c db = db\<lparr>db_ip := obsolete_links ip_key (cf_id c) (cf_ipAddresses c) (db_ip db)\<rparr>"
proof -
  have "fold (\<lambda>evmAddress db. case evm_findByAddress db evmAddress of
         Inl _ \<Rightarrow> db | Inr p \<Rightarrow> if ap_planId p \<noteq> pid then evm_delete evmAddress db else db) as db =
      db\<lparr>db_evm := obsolete_links evm_key pid as (db_evm db)\<rparr>" for pid as
    unfolding obsolete_links_def
    by (induction as arbitrary: db) (auto simp: evm_findByAddress_def evm_delete_def split: option.split)
  then show "deleteObsoleteEvmAddressAssociations c db = db\<lparr>db_evm := obsolete_links evm_key (cf_id c) (cf_evmAddresses c) (db_evm db)\<rparr>"
    by (simp add: deleteObsoleteEvmAddressAssociations_def)
  have "fold (\<lambda>ipAddress db. case ip_findByAddress db ipAddress of
         Inl _ \<Rightarrow> db | Inr p \<Rightarrow> if ap_planId p \<noteq> pid then ip_delete ipAddress db else db) as db =
      db\<lparr>db_ip := obsolete_links ip_key pid as (db_ip db)\<rparr>" for pid as
    unfolding obsolete_links_def
    by (induction as arbitrary: db) (auto simp: ip_findByAddress_def ip_delete_def split: option.split)
  then show "deleteObsoleteIpAddressAssociations c db = db\<lparr>db_ip := obsolete_links ip_key (cf_id c) (cf_ipAddresses c) (db_ip db)\<rparr>"
    by (simp add: deleteObsoleteIpAddressAssociations_def)
qed

definition links_ok :: "(string \<Rightarrow> string) \<Rightarrow> (string \<times> address_plan) list \<Rightarrow> bool" where
  "links_ok key links \<longleftrightarrow> (\<forall>k p. map_of links k = Some p \<longrightarrow> key (ap_address p) = k)"

definition plan_ids :: "(string \<times> address_plan) list \<Rightarrow> string \<Rightarrow> string option" where
  "plan_ids links k = map_option ap_planId (map_of links k)"

lemma map_of_fold_delete_key:
  "map_of (fold (\<lambda>a. AList.delete (key a)) as links) k = (if k \<in> key ` set as then None else map_of links k)"
  by (induction as arbitrary: links) (auto simp: map_of_delete)

lemma update_link:
  "links_ok key links \<Longrightarrow> links_ok key (AList.update (key a) \<lparr>ap_address = a, ap_planId = pid\<rparr> links)"
  "plan_ids (AList.update (key a) \<lparr>ap_address = a, ap_planId = pid\<rparr> links) k = (if k = key a then Some pid else plan_ids links k)"
  by (simp_all add: links_ok_def plan_ids_def map_of_update)

lemma fold_update_link:
  "links_ok key links \<Longrightarrow> links_ok key (fold (\<lambda>a. AList.update (key a) \<lparr>ap_address = a, ap_planId = pid\<rparr>) as links)"
  "plan_ids (fold (\<lambda>a. AList.update (key a) \<lparr>ap_address = a, ap_planId = pid\<rparr>) as links) k =
     (if k \<in> key ` set as then Some pid else plan_ids links k)"
  by (induction as arbitrary: links) (simp_all add: update_link)

lemma obsolete_lookup:
  "map_of (obsolete_links key pid addrs links) k = (case map_of links k of
     None \<Rightarrow> None | Some p \<Rightarrow> if k \<in> key ` set addrs \<and> ap_planId p \<noteq> pid then None else Some p)"
proof (induction addrs arbitrary: links)
  case (Cons a addrs)
  let ?ls = "case map_of links (key a) of None \<Rightarrow> links | Some p \<Rightarrow> if ap_planId p \<noteq> pid then AList.delete (key a) links else links"
  have "obsolete_links key pid (a # addrs) links = obsolete_links key pid addrs ?ls"
    by (simp add: obsolete_links_def)
  moreover have "map_of ?ls k = (case map_of links k of
     None \<Rightarrow> None | Some p \<Rightarrow> if k = key a \<and> ap_planId p \<noteq> pid then None else Some p)"
    by (auto simp: map_of_delete split: option.splits)
  ultimately show ?case using Cons.IH [of ?ls] by (auto split: option.splits)
qed (simp add: obsolete_links_def split: option.splits)

lemma current_addresses:
  fixes links :: "(string \<times> address_plan) list"
  shows "a \<in> set (map ap_address (filter (\<lambda>p. ap_planId p = pid) (map snd (AList.clearjunk links)))) \<longleftrightarrow>
     (\<exists>k p. map_of links k = Some p \<and> ap_planId p = pid \<and> ap_address p = a)"
proof -
  have mem: "(k, p) \<in> set (AList.clearjunk links) \<longleftrightarrow> map_of links k = Some p" for k p
    using map_of_eq_Some_iff [OF distinct_clearjunk, of links k p] by (simp only: map_of_clearjunk)
  have "a \<in> set (map ap_address (filter (\<lambda>p. ap_planId p = pid) (map snd xs))) \<longleftrightarrow>
      (\<exists>kp \<in> set xs. ap_planId (snd kp) = pid \<and> ap_address (snd kp) = a)" for xs :: "(string \<times> address_plan) list"
    by (induction xs) auto
  from this [of "AList.clearjunk links"] show ?thesis unfolding Bex_def split_paired_Ex snd_conv mem .
qed

lemma sync_plan_ids:
  assumes ok: "links_ok key links"
  shows "links_ok key (sync_links key pid addrs links)"
    and "plan_ids (sync_links key pid addrs links) k =
      (if k \<in> key ` set addrs then Some pid else if plan_ids links k = Some pid then None else plan_ids links k)"
proof -
  define current where "current = map ap_address (filter (\<lambda>p. ap_planId p = pid) (map snd (AList.clearjunk links)))"
  define gone where "gone = filter (\<lambda>a. a \<notin> set addrs) current"
  define new where "new = filter (\<lambda>a. a \<notin> set current) addrs"
  define kept where "kept = fold (\<lambda>a. AList.delete (key a)) gone links"
  have cur: "a \<in> set current \<longleftrightarrow> (\<exists>p. map_of links (key a) = Some p \<and> ap_planId p = pid \<and> ap_address p = a)" for a
  proof
    assume "a \<in> set current"
    then obtain k p where p: "map_of links k = Some p" "ap_planId p = pid" "ap_address p = a"
      unfolding current_def current_addresses by blast
    then have "key a = k" using ok unfolding links_ok_def by blast
    then show "\<exists>p. map_of links (key a) = Some p \<and> ap_planId p = pid \<and> ap_address p = a" using p by blast
  next
    assume "\<exists>p. map_of links (key a) = Some p \<and> ap_planId p = pid \<and> ap_address p = a"
    then show "a \<in> set current" unfolding current_def current_addresses by blast
  qed
  have kept: "map_of kept k = (if k \<in> key ` set gone then None else map_of links k)" for k
    unfolding kept_def by (rule map_of_fold_delete_key)
  have sync: "sync_links key pid addrs links = fold (\<lambda>a. AList.update (key a) \<lparr>ap_address = a, ap_planId = pid\<rparr>) new kept"
    by (simp add: sync_links_def kept_def gone_def new_def current_def)
  have "links_ok key kept" using ok by (simp add: links_ok_def kept)
  then show "links_ok key (sync_links key pid addrs links)" unfolding sync by (rule fold_update_link)
  have gone_iff: "k \<in> key ` set gone \<longleftrightarrow> (\<exists>p. map_of links k = Some p \<and> ap_planId p = pid \<and> ap_address p \<notin> set addrs)" for k
  proof -
    have "a \<in> set gone \<longleftrightarrow> a \<notin> set addrs \<and> (\<exists>p. map_of links (key a) = Some p \<and> ap_planId p = pid \<and> ap_address p = a)" for a
      by (auto simp: gone_def cur)
    note mem = this
    show ?thesis
    proof
      assume "k \<in> key ` set gone"
      then obtain a where "k = key a" "a \<in> set gone" by (rule imageE)
      then show "\<exists>p. map_of links k = Some p \<and> ap_planId p = pid \<and> ap_address p \<notin> set addrs" using mem [of a] by auto
    next
      assume "\<exists>p. map_of links k = Some p \<and> ap_planId p = pid \<and> ap_address p \<notin> set addrs"
      then obtain p where p: "map_of links k = Some p" "ap_planId p = pid" "ap_address p \<notin> set addrs" by blast
      then have "key (ap_address p) = k" using ok unfolding links_ok_def by blast
      then show "k \<in> key ` set gone" using p mem [of "ap_address p"] by (auto intro: rev_image_eqI)
    qed
  qed
  have new_iff: "k \<in> key ` set new \<longleftrightarrow>
      (\<exists>a \<in> set addrs. key a = k \<and> \<not> (\<exists>p. map_of links k = Some p \<and> ap_planId p = pid \<and> ap_address p = a))" for k
    by (auto simp: new_def cur)
  have "plan_ids (sync_links key pid addrs links) k = (if k \<in> key ` set new then Some pid else plan_ids kept k)"
    unfolding sync by (rule fold_update_link)
  also have "\<dots> = (if k \<in> key ` set addrs then Some pid else if plan_ids links k = Some pid then None else plan_ids links k)"
  proof (cases "k \<in> key ` set addrs")
    case True
    show ?thesis
    proof (cases "k \<in> key ` set new")
      case False
      then obtain a p where "a \<in> set addrs" "key a = k" "map_of links k = Some p" "ap_planId p = pid" "ap_address p = a"
        using True new_iff by blast
      then have "plan_ids kept k = Some pid" using gone_iff [of k] by (auto simp: plan_ids_def kept)
      then show ?thesis using True False by simp
    qed (use True in simp)
  next
    case False
    then have "k \<notin> key ` set new" by (auto simp: new_def)
    moreover have "k \<in> key ` set gone \<longleftrightarrow> plan_ids links k = Some pid"
      using gone_iff [of k] ok False by (auto simp: plan_ids_def links_ok_def)
    ultimately show ?thesis using False by (auto simp: plan_ids_def kept)
  qed
  finally show "plan_ids (sync_links key pid addrs links) k =
      (if k \<in> key ` set addrs then Some pid else if plan_ids links k = Some pid then None else plan_ids links k)" .
qed

lemma obsolete_ok: "links_ok key links \<Longrightarrow> links_ok key (obsolete_links key pid addrs links)"
  by (auto simp: links_ok_def obsolete_lookup split: option.splits if_splits)

lemma obsolete_plan_ids:
  "k \<notin> key ` set addrs \<Longrightarrow> plan_ids (obsolete_links key pid addrs links) k = plan_ids links k"
  by (simp add: plan_ids_def obsolete_lookup split: option.splits)

definition resync :: "(string \<Rightarrow> string) \<Rightarrow> (plan_config \<Rightarrow> string list) \<Rightarrow> plan_config \<Rightarrow> (string \<times> address_plan) list \<Rightarrow> (string \<times> address_plan) list" where
  "resync key addrs c links = sync_links key (cf_id c) (addrs c) (obsolete_links key (cf_id c) (addrs c) links)"

lemma resync_effect:
  assumes "links_ok key links"
  shows "links_ok key (resync key addrs c links)"
    and "plan_ids (resync key addrs c links) k = (if k \<in> key ` set (addrs c) then Some (cf_id c)
      else if plan_ids links k = Some (cf_id c) then None else plan_ids links k)"
  using sync_plan_ids [OF obsolete_ok [OF assms]] obsolete_plan_ids by (auto simp: resync_def)

lemma fold_resync:
  assumes "links_ok key links" "distinct (map cf_id cs)" "c \<in> set cs"
    and "\<And>c1 c2. c1 \<in> set cs \<Longrightarrow> c2 \<in> set cs \<Longrightarrow> key ` set (addrs c1) \<inter> key ` set (addrs c2) \<noteq> {} \<Longrightarrow> c1 = c2"
  shows "plan_ids (fold (resync key addrs) cs links) k = Some (cf_id c) \<longleftrightarrow> k \<in> key ` set (addrs c)"
  using assms(2-4)
proof (induction cs rule: rev_induct)
  case (snoc d cs)
  have ok: "links_ok key (fold (resync key addrs) cs links)"
    using assms(1) by (induction cs arbitrary: links) (auto intro: resync_effect)
  let ?L = "fold (resync key addrs) cs links"
  have step: "plan_ids (fold (resync key addrs) (cs @ [d]) links) k = (if k \<in> key ` set (addrs d) then Some (cf_id d)
      else if plan_ids ?L k = Some (cf_id d) then None else plan_ids ?L k)"
    using resync_effect(2) [OF ok] by simp
  show ?case
  proof (cases "c = d")
    case True
    then show ?thesis using step by auto
  next
    case False
    then have c: "c \<in> set cs" using snoc.prems(2) by simp
    have id: "cf_id c \<noteq> cf_id d" using snoc.prems(1) c by (force simp: image_iff)
    have disj: "k \<notin> key ` set (addrs d)" if "k \<in> key ` set (addrs c)"
      using snoc.prems(3) [of c d] c False that by auto
    have "plan_ids ?L k = Some (cf_id c) \<longleftrightarrow> k \<in> key ` set (addrs c)"
      using snoc.IH snoc.prems c by simp
    then show ?thesis using step id disj by auto
  qed
qed simp

lemma updatePlanAssociations_eq:
  "updatePlanAssociations cs db =
     db\<lparr>db_evm := fold (resync evm_key cf_evmAddresses) cs (db_evm db), db_ip := fold (resync ip_key cf_ipAddresses) cs (db_ip db)\<rparr>"
  unfolding updatePlanAssociations_def
  by (induction cs arbitrary: db) (simp_all add: update_eqs obsolete_eqs resync_def)

lemma fold_resync_ok: "links_ok key links \<Longrightarrow> links_ok key (fold (resync key addrs) cs links)"
  by (induction cs arbitrary: links) (auto intro: resync_effect)

section \<open>The plans of the database\<close>

text \<open>Plans and links are stored under the keys made of their own identifiers and addresses.\<close>

definition db_ok :: "hbar_db \<Rightarrow> bool" where
  "db_ok db \<longleftrightarrow> ids_ok db \<and> links_ok evm_key (db_evm db) \<and> links_ok ip_key (db_ip db)"

lemma links_ok_fold_delete: "links_ok key links \<Longrightarrow> links_ok key (fold AList.delete ks links)"
  by (simp add: links_ok_def map_of_fold_delete)

lemma remove_plan_ok:
  "links_ok evm_key (db_evm db) \<and> links_ok ip_key (db_ip db) \<Longrightarrow>
   (let db' = ip_deleteAllByPlanId i (evm_deleteAllByPlanId i (delete_plan i db))
    in links_ok evm_key (db_evm db') \<and> links_ok ip_key (db_ip db') \<and> db_plans db' = AList.delete i (db_plans db))"
  by (simp add: ip_deleteAllByPlanId_def evm_deleteAllByPlanId_def delete_plan_def Let_def links_ok_fold_delete)

lemma list_ex_image: "list_ex (\<lambda>x. f x = i) xs \<longleftrightarrow> i \<in> f ` set xs"
  by (induction xs) auto

lemma create_plan_effect:
  "db_plans (snd (create_plan tier now i db)) =
     AList.update i \<lparr>sp_id = i, sp_subscriptionTier = tier, sp_createdAt = now, sp_active = True\<rparr> (db_plans db)"
  "db_evm (snd (create_plan tier now i db)) = db_evm db" "db_ip (snd (create_plan tier now i db)) = db_ip db"
  by (simp_all add: create_plan_def Let_def)

lemma deleteObsoletePlans_effect:
  assumes "db_ok db" and "deleteObsoletePlans existing cs db = (n, db')"
  shows "links_ok evm_key (db_evm db') \<and> links_ok ip_key (db_ip db')"
    and "map_of (db_plans db') k = (if \<exists>p \<in> set existing. sp_id p = k \<and> k \<notin> cf_id ` set cs then None else map_of (db_plans db) k)"
proof -
  let ?step = "\<lambda>plan db. ip_deleteAllByPlanId (sp_id plan) (evm_deleteAllByPlanId (sp_id plan) (delete_plan (sp_id plan) db))"
  have run: "links_ok evm_key (db_evm (fold ?step ps db)) \<and> links_ok ip_key (db_ip (fold ?step ps db)) \<and>
      db_plans (fold ?step ps db) = fold AList.delete (map sp_id ps) (db_plans db)"
    if "links_ok evm_key (db_evm db) \<and> links_ok ip_key (db_ip db)" for ps :: "detailed_plan list" and db
    using that
  proof (induction ps arbitrary: db)
    case (Cons p ps)
    show ?case using remove_plan_ok [OF Cons.prems, of "sp_id p"] Cons.IH [of "?step p db"] by (simp add: Let_def)
  qed simp
  have ok: "links_ok evm_key (db_evm db) \<and> links_ok ip_key (db_ip db)" using assms(1) by (simp add: db_ok_def)
  define gone where "gone = filter (\<lambda>plan. \<not> list_ex (\<lambda>spc. cf_id spc = sp_id plan) cs) existing"
  have db': "db' = fold ?step gone db" using assms(2) by (simp add: deleteObsoletePlans_def gone_def Let_def)
  have gone: "k \<in> set (map sp_id gone) \<longleftrightarrow> (\<exists>p \<in> set existing. sp_id p = k \<and> k \<notin> cf_id ` set cs)"
    by (force simp: gone_def list_ex_image)
  show "links_ok evm_key (db_evm db') \<and> links_ok ip_key (db_ip db')" using run [OF ok] db' by simp
  show "map_of (db_plans db') k = (if \<exists>p \<in> set existing. sp_id p = k \<and> k \<notin> cf_id ` set cs then None else map_of (db_plans db) k)"
    unfolding gone [symmetric] using run [OF ok, of gone] db' by (simp add: map_of_fold_delete)
qed

lemma addNewPlans_effect:
  assumes "addNewPlans now cs existing db = (n, db')"
  shows "db_evm db' = db_evm db \<and> db_ip db' = db_ip db"
    and "ids_ok db \<Longrightarrow> ids_ok db'"
    and "k \<in> cf_id ` set cs \<Longrightarrow> k \<notin> sp_id ` set existing \<Longrightarrow> \<exists>p. map_of (db_plans db') k = Some p \<and> sp_active p"
    and "k \<notin> cf_id ` set cs \<or> k \<in> sp_id ` set existing \<Longrightarrow> map_of (db_plans db') k = map_of (db_plans db) k"
proof -
  let ?step = "\<lambda>spc db. snd (create_plan (cf_subscriptionTier spc) now (cf_id spc) db)"
  define new where "new = filter (\<lambda>spc. \<not> list_ex (\<lambda>plan. sp_id plan = cf_id spc) existing) cs"
  have db': "db' = fold ?step new db" using assms by (simp add: addNewPlans_def new_def Let_def)
  have links: "db_evm (fold ?step ns db) = db_evm db \<and> db_ip (fold ?step ns db) = db_ip db" for ns
    by (induction ns rule: rev_induct) (simp_all add: create_plan_effect)
  have ids: "ids_ok (fold ?step ns db)" if "ids_ok db" for ns
    by (induction ns rule: rev_induct) (use that in \<open>simp_all add: create_plan_effect ids_ok_def map_of_update\<close>)
  have look: "if k \<in> cf_id ` set ns then \<exists>p. map_of (db_plans (fold ?step ns db)) k = Some p \<and> sp_active p
      else map_of (db_plans (fold ?step ns db)) k = map_of (db_plans db) k" for ns
    by (induction ns rule: rev_induct) (simp_all add: create_plan_effect map_of_update split: if_splits)
  have new: "k \<in> cf_id ` set new \<longleftrightarrow> k \<in> cf_id ` set cs \<and> k \<notin> sp_id ` set existing"
    by (force simp: new_def list_ex_image)
  show "db_evm db' = db_evm db \<and> db_ip db' = db_ip db" using links db' by simp
  show "ids_ok db \<Longrightarrow> ids_ok db'" using ids db' by simp
  show "k \<in> cf_id ` set cs \<Longrightarrow> k \<notin> sp_id ` set existing \<Longrightarrow> \<exists>p. map_of (db_plans db') k = Some p \<and> sp_active p"
    using look [of new] db' new by simp
  show "k \<notin> cf_id ` set cs \<or> k \<in> sp_id ` set existing \<Longrightarrow> map_of (db_plans db') k = map_of (db_plans db) k"
    using look [of new] db' new by (auto split: if_splits)
qed

lemma findAllActive_ok:
  assumes "ids_ok db"
  shows "\<exists>ds. findAllActiveBySubscriptionTier tiers db = Inr ds \<and>
    (\<forall>k. k \<in> sp_id ` set ds \<longleftrightarrow>
      (\<exists>p. map_of (db_plans db) k = Some p \<and> sp_subscriptionTier p \<in> set tiers \<and> sp_active p))"
proof -
  define ps where "ps = filter (\<lambda>plan. sp_subscriptionTier plan \<in> set tiers \<and> sp_active plan) (map snd (AList.clearjunk (db_plans db)))"
  have mem: "(k, p) \<in> set (AList.clearjunk (db_plans db)) \<longleftrightarrow> map_of (db_plans db) k = Some p" for k p
    using map_of_eq_Some_iff [OF distinct_clearjunk, of "db_plans db" k p] by (simp only: map_of_clearjunk)
  have ps: "p \<in> set ps \<longleftrightarrow> map_of (db_plans db) (sp_id p) = Some p \<and> sp_subscriptionTier p \<in> set tiers \<and> sp_active p" for p
  proof -
    have "p \<in> snd ` set (AList.clearjunk (db_plans db)) \<longleftrightarrow> (\<exists>k. map_of (db_plans db) k = Some p)"
      by (simp add: image_iff split_paired_Ex Bex_def mem)
    also have "\<dots> \<longleftrightarrow> map_of (db_plans db) (sp_id p) = Some p" using assms by (auto simp: ids_ok_def)
    finally show ?thesis by (auto simp: ps_def)
  qed
  have "\<exists>ds. with_amounts db qs = Inr ds \<and> map sp_id ds = map sp_id qs" if "set qs \<subseteq> set ps" for qs
    using that
  proof (induction qs)
    case (Cons q qs)
    then have "map_of (db_plans db) (sp_id q) = Some q" "sp_active q" using ps [of q] by auto
    then have "getAmountSpent db (sp_id q) = Inr (amount_of db (sp_id q))"
      by (simp add: getAmountSpent_def checkExistsAndActive_def findById_def)
    then show ?case using Cons by (auto simp: with_amount_def)
  qed simp
  then obtain ds where ds: "with_amounts db ps = Inr ds" "map sp_id ds = map sp_id ps" by blast
  have "k \<in> sp_id ` set ds \<longleftrightarrow> (\<exists>p. map_of (db_plans db) k = Some p \<and> sp_subscriptionTier p \<in> set tiers \<and> sp_active p)" for k
  proof -
    have "k \<in> sp_id ` set ds \<longleftrightarrow> k \<in> set (map sp_id ps)" unfolding ds(2) [symmetric] by simp
    also have "\<dots> \<longleftrightarrow> (\<exists>p. map_of (db_plans db) k = Some p \<and> sp_subscriptionTier p \<in> set tiers \<and> sp_active p)"
    proof
      assume "\<exists>p. map_of (db_plans db) k = Some p \<and> sp_subscriptionTier p \<in> set tiers \<and> sp_active p"
      then obtain p where "p \<in> set ps" "sp_id p = k" using assms ps by (auto simp: ids_ok_def)
      then show "k \<in> set (map sp_id ps)" by auto
    qed (auto simp: ps)
    finally show ?thesis .
  qed
  then show ?thesis using ds(1) by (auto simp: findAllActiveBySubscriptionTier_def ps_def)
qed

lemma validate_ok: "\<forall>plan \<in> set plans. isValidSpendingPlanConfig plan \<Longrightarrow> validateSpendingPlanConfig plans = Inr ()"
  by (simp add: validateSpendingPlanConfig_def filter_False split: list.split)

section \<open>What populating establishes\<close>

definition disjoint_addresses :: "plan_config list \<Rightarrow> bool" where
  "disjoint_addresses cs \<longleftrightarrow> (\<forall>c \<in> set cs. \<forall>d \<in> set cs. c \<noteq> d \<longrightarrow>
     evm_key ` set (cf_evmAddresses c) \<inter> evm_key ` set (cf_evmAddresses d) = {} \<and>
     ip_key ` set (cf_ipAddresses c) \<inter> ip_key ` set (cf_ipAddresses d) = {})"

lemma populate_effect:
  assumes "plans \<noteq> []" and "\<forall>plan \<in> set plans. isValidSpendingPlanConfig plan"
    and "db_ok db" and "distinct (map (cf_id \<circ> plan_config_of) plans)"
    and "disjoint_addresses (map plan_config_of plans)"
  shows "\<exists>n db'. populatePreconfiguredSpendingPlans now plans db = Inr (n, db') \<and> db_ok db' \<and>
    (\<forall>c \<in> plan_config_of ` set plans. usable db' (cf_id c) \<and>
      (\<forall>k. plan_ids (db_evm db') k = Some (cf_id c) \<longleftrightarrow> k \<in> evm_key ` set (cf_evmAddresses c)) \<and>
      (\<forall>k. plan_ids (db_ip db') k = Some (cf_id c) \<longleftrightarrow> k \<in> ip_key ` set (cf_ipAddresses c))) \<and>
    (\<forall>k p. map_of (db_plans db') k = Some p \<longrightarrow> sp_active p \<longrightarrow> sp_subscriptionTier p \<in> {EXTENDED, PRIVILEGED} \<longrightarrow>
      k \<in> cf_id ` plan_config_of ` set plans)"
proof -
  define cs where "cs = map plan_config_of plans"
  have set_cs: "plan_config_of ` set plans = set cs" by (simp add: cs_def)
  have ids: "ids_ok db" using assms(3) by (simp add: db_ok_def)
  obtain ex where ex: "findAllActiveBySubscriptionTier [EXTENDED, PRIVILEGED] db = Inr ex"
    "\<And>k. k \<in> sp_id ` set ex \<longleftrightarrow> (\<exists>p. map_of (db_plans db) k = Some p \<and> sp_subscriptionTier p \<in> {EXTENDED, PRIVILEGED} \<and> sp_active p)"
    using findAllActive_ok [OF ids, of "[EXTENDED, PRIVILEGED]"] by auto
  obtain n1 db1 where del: "deleteObsoletePlans ex cs db = (n1, db1)" by (metis surj_pair)
  obtain n2 db2 where add: "addNewPlans now cs ex db1 = (n2, db2)" by (metis surj_pair)
  define db' where "db' = updatePlanAssociations cs db2"
  have run: "populatePreconfiguredSpendingPlans now plans db = Inr (n1 + n2, db')"
    using assms(1) validate_ok [OF assms(2)] ex(1) del add
    by (simp add: populatePreconfiguredSpendingPlans_def db'_def cs_def Let_def)
  note eq = updatePlanAssociations_eq [of cs db2, folded db'_def]
  note del_fx = deleteObsoletePlans_effect [OF assms(3) del] and add_fx = addNewPlans_effect [OF add]
  have links: "links_ok evm_key (db_evm db2)" "links_ok ip_key (db_ip db2)" using del_fx(1) add_fx(1) by auto
  have "ids_ok db1" using ids by (auto simp: ids_ok_def del_fx(2) split: if_splits)
  then have ok: "db_ok db'" using add_fx(2) links by (simp add: db_ok_def ids_ok_def eq fold_resync_ok)
  have dist: "distinct (map cf_id cs)" using assms(4) by (simp add: cs_def)
  have disj: "c = d" if "c \<in> set cs" "d \<in> set cs" "evm_key ` set (cf_evmAddresses c) \<inter> evm_key ` set (cf_evmAddresses d) \<noteq> {} \<or>
      ip_key ` set (cf_ipAddresses c) \<inter> ip_key ` set (cf_ipAddresses d) \<noteq> {}" for c d
    using assms(5) that unfolding disjoint_addresses_def cs_def [symmetric] by blast
  have conf: "usable db' (cf_id c) \<and>
      (\<forall>k. plan_ids (db_evm db') k = Some (cf_id c) \<longleftrightarrow> k \<in> evm_key ` set (cf_evmAddresses c)) \<and>
      (\<forall>k. plan_ids (db_ip db') k = Some (cf_id c) \<longleftrightarrow> k \<in> ip_key ` set (cf_ipAddresses c))" if c: "c \<in> set cs" for c
  proof -
    have "\<exists>p. map_of (db_plans db2) (cf_id c) = Some p \<and> sp_active p"
    proof (cases "cf_id c \<in> sp_id ` set ex")
      case True
      then show ?thesis using ex(2) [of "cf_id c"] add_fx(4) [of "cf_id c"] c by (auto simp: del_fx(2))
    qed (use add_fx(3) c in blast)
    then have "usable db' (cf_id c)" by (simp add: usable_def eq)
    then show ?thesis
      using fold_resync [OF links(1) dist c] fold_resync [OF links(2) dist c] disj by (simp add: eq)
  qed
  have left: "k \<in> cf_id ` set cs" if p: "map_of (db_plans db') k = Some p" "sp_active p" "sp_subscriptionTier p \<in> {EXTENDED, PRIVILEGED}" for k p
  proof (rule ccontr)
    assume k: "k \<notin> cf_id ` set cs"
    then have "map_of (db_plans db1) k = Some p" using p(1) add_fx(4) [of k] by (simp add: eq)
    then have "map_of (db_plans db) k = Some p" "\<not> (\<exists>p \<in> set ex. sp_id p = k)" using k by (auto simp: del_fx(2) split: if_splits)
    then show False using ex(2) [of k] p(2,3) by auto
  qed
  show ?thesis using run ok conf left set_cs by (metis (no_types, lifting))
qed


definition sample_plans :: "jv list" where
  "sample_plans =
    [JObject [(''id'', JString ''p1''), (''name'', JString ''partner''), (''subscriptionTier'', JString ''EXTENDED''),
       (''evmAddresses'', JArray [JString ''0xAA'', JString ''0xBB''])],
     JObject [(''id'', JString ''p2''), (''name'', JString ''office''), (''subscriptionTier'', JString ''PRIVILEGED''),
       (''ipAddresses'', JArray [JString ''10.0.0.1''])]]"

definition configured_db :: hbar_db where
  "configured_db = \<lparr>db_plans = [(''p1'', \<lparr>sp_id = ''p1'', sp_subscriptionTier = EXTENDED, sp_createdAt = 0, sp_active = True\<rparr>),
       (''old'', \<lparr>sp_id = ''old'', sp_subscriptionTier = PRIVILEGED, sp_createdAt = 0, sp_active = True\<rparr>)],
     db_amounts = [(''old'', 7)],
     db_evm = [(''0xaa'', \<lparr>ap_address = ''0xaa'', ap_planId = ''old''\<rparr>), (''0xcc'', \<lparr>ap_address = ''0xCC'', ap_planId = ''p1''\<rparr>)],
     db_ip = [(''10.0.0.1'', \<lparr>ap_address = ''10.0.0.1'', ap_planId = ''p1''\<rparr>)], db_history = []\<rparr>"

lemma sample_configs: "map plan_config_of sample_plans =
   [\<lparr>cf_id = ''p1'', cf_subscriptionTier = EXTENDED, cf_evmAddresses = [''0xAA'', ''0xBB''], cf_ipAddresses = []\<rparr>,
    \<lparr>cf_id = ''p2'', cf_subscriptionTier = PRIVILEGED, cf_evmAddresses = [], cf_ipAddresses = [''10.0.0.1'']\<rparr>]"
  by code_simp

lemma sample_valid: "\<forall>plan \<in> set sample_plans. isValidSpendingPlanConfig plan"
  by code_simp

lemma sample_ok: "db_ok configured_db"
proof -
  have keys: "evm_key ''0xaa'' = ''0xaa''" "evm_key ''0xCC'' = ''0xcc''" by code_simp+
  show ?thesis
    by (simp add: db_ok_def ids_ok_def links_ok_def configured_db_def ip_key_def keys)
qed

lemma sample_nonempty: "sample_plans \<noteq> []"
  by (simp add: sample_plans_def)

lemma sample_distinct: "distinct (map (cf_id \<circ> plan_config_of) sample_plans)"
  by code_simp

lemma sample_disjoint: "disjoint_addresses (map plan_config_of sample_plans)"
  by code_simp


end
