(* ===== verification/EthCommon.thy ===== *)
theory EthCommon
  imports Dispatcher "HOL-Library.List_Lexorder" "HOL-Library.Char_ord" "HOL-Library.Multiset"
begin

text \<open>
  The services the \<open>eth_\<close> methods share (\<open>lib/services/ethService/ethCommonService/CommonService.ts\<close>, \<open>commonWorker.ts\<close>): block
  tags and block ranges, the queries for logs, gas prices.

  The mirror node is a record of functions from a request to its answer, so that the answers within one call are
  those of one moment. Timestamps are the texts the mirror node sends, seconds and nanoseconds with a dot.
\<close>

section \<open>The mirror node\<close>

record block =
  bk_number :: int
  bk_hash :: string
  bk_previous_hash :: string
  bk_from :: string
  bk_to :: string
  bk_gas_used :: int
  bk_size :: "int option"
  bk_logs_bloom :: string
  bk_count :: "int option"

record mirror_log =
  ml_address :: string
  ml_timestamp :: string
  ml_block_hash :: string
  ml_block_number :: int
  ml_data :: string
  ml_index :: int
  ml_topics :: "string list"
  ml_transaction_hash :: string
  ml_transaction_index :: int

text \<open>The parameters of a query for logs: the bounds of the timestamps, and the topics by position.\<close>

datatype topic_param = OneTopic string | SomeTopics "string list"

record log_query =
  lq_timestamp :: "string list"
  lq_topics :: "(nat \<times> topic_param) list"

text \<open>\<open>mn_getBlocks\<close> is asked with a bound on the block number, in ascending order.\<close>

record mirror =
  mn_getLatestBlock :: "thrown + block list option"
  mn_getBlock :: "string \<Rightarrow> thrown + block option"
  mn_getBlocks :: "string \<Rightarrow> thrown + block list option"
  mn_getNetworkFees :: "string option \<Rightarrow> thrown + (string \<times> int) list option"
  mn_getContractResultsLogsByAddress :: "string \<Rightarrow> log_query \<Rightarrow> thrown + mirror_log list option"
  mn_getContractResultsLogsWithRetry :: "log_query \<Rightarrow> thrown + mirror_log list option"

section \<open>Block tags\<close>

text \<open>A block as the callers name it: nothing, a tag, number or hash as a text, or a JavaScript number.\<close>

datatype block_ref = NoBlock | Tag string | BlockNum int

text \<open>\<open>Number(s)\<close> of a text that is an integer numeral; \<open>None\<close> is NaN.\<close>

definition Number_str :: "string \<Rightarrow> int option" where
  "Number_str s = map_option double_of_int (BigInt_str s)"

fun js_Number :: "block_ref \<Rightarrow> int option" where
  "js_Number NoBlock = None"
| "js_Number (Tag s) = Number_str s"
| "js_Number (BlockNum n) = Some n"

definition blockTagIsLatestOrPendingStrict :: "block_ref \<Rightarrow> bool" where
  "blockTagIsLatestOrPendingStrict tag \<longleftrightarrow> tag = Tag ''latest'' \<or> tag = Tag ''pending''"

definition blockTagIsLatestOrPending :: "block_ref \<Rightarrow> bool" where
  "blockTagIsLatestOrPending tag \<longleftrightarrow>
     tag = NoBlock \<or> tag = Tag ''latest'' \<or> tag = Tag ''pending'' \<or> tag = Tag ''safe'' \<or> tag = Tag ''finalized''"

definition json_error_thrown :: "predefined \<Rightarrow> thrown" where
  "json_error_thrown e = RelayError (JsonRpcErr e)"

definition js_type_error :: "string \<Rightarrow> thrown" where
  "js_type_error m = OtherError (Some m)"

text \<open>\<open>response.blocks[0]\<close>, which throws when there is no response.\<close>

definition latest_first :: "mirror \<Rightarrow> thrown + block option" where
  "latest_first m = res_bind (mn_getLatestBlock m) (\<lambda>r. case r of
     None \<Rightarrow> Inl (js_type_error ''Cannot read properties of null'')
   | Some bs \<Rightarrow> Inr (case bs of [] \<Rightarrow> None | b # _ \<Rightarrow> Some b))"

definition getLatestBlockNumber :: "mirror \<Rightarrow> thrown + string" where
  "getLatestBlockNumber m = res_bind (mn_getLatestBlock m) (\<lambda>r. case r of
     Some (b # _) \<Rightarrow> Inr (numberTo0x (bk_number b))
   | _ \<Rightarrow> Inl (json_error_thrown COULD_NOT_RETRIEVE_LATEST_BLOCK))"

text \<open>A number is printed in the path of the request; NaN prints as such.\<close>

definition block_path :: "block_ref \<Rightarrow> string" where
  "block_path ref = (case js_Number ref of Some n \<Rightarrow> dec n | None \<Rightarrow> ''NaN'')"

text \<open>The range check applies to texts only: a number has no length.\<close>

definition beyond_range :: "mirror \<Rightarrow> int \<Rightarrow> block_ref \<Rightarrow> thrown + bool" where
  "beyond_range m maxBlockRange ref = (case ref of
     Tag s \<Rightarrow> (case Number_str s of
         Some blockNumber \<Rightarrow>
           if length s < 32
           then res_bind (latest_first m) (\<lambda>b. case b of
               None \<Rightarrow> Inl (js_type_error ''Cannot read properties of undefined'')
             | Some latest \<Rightarrow> Inr (blockNumber > bk_number latest + maxBlockRange))
           else Inr False
       | None \<Rightarrow> Inr False)
   | _ \<Rightarrow> Inr False)"

definition getHistoricalBlockResponse :: "mirror \<Rightarrow> int \<Rightarrow> block_ref \<Rightarrow> bool \<Rightarrow> thrown + block option" where
  "getHistoricalBlockResponse m maxBlockRange ref returnLatest =
     (if \<not> returnLatest \<and> blockTagIsLatestOrPending ref then Inr None
      else if ref = Tag ''0x'' then Inr None
      else res_bind (beyond_range m maxBlockRange ref) (\<lambda>beyond.
        if beyond then Inr None
        else if blockTagIsLatestOrPending ref then latest_first m
        else if ref = Tag ''earliest'' then mn_getBlock m ''0''
        else case ref of
            Tag s \<Rightarrow> if length s < 32 then mn_getBlock m (block_path ref) else mn_getBlock m s
          | _ \<Rightarrow> mn_getBlock m (block_path ref)))"

definition translateBlockTag :: "mirror \<Rightarrow> block_ref \<Rightarrow> thrown + int option" where
  "translateBlockTag m tag =
     (if blockTagIsLatestOrPending tag then res_bind (getLatestBlockNumber m) (\<lambda>s. Inr (Number_str s))
      else if tag = Tag ''earliest'' then Inr (Some 0)
      else Inr (js_Number tag))"

definition isBlockTagEarliest :: "string \<Rightarrow> bool" where
  "isBlockTagEarliest tag \<longleftrightarrow> tag = ''earliest''"

definition isBlockTagFinalized :: "string \<Rightarrow> bool" where
  "isBlockTagFinalized tag \<longleftrightarrow> tag \<in> {''finalized'', ''latest'', ''pending'', ''safe''}"

text \<open>
  \<open>/^0[xX]([1-9A-Fa-f]+[0-9A-Fa-f]{0,13}|0)$/\<close>: a run of non-zero digits and at most 13 further digits. The first
  run is cut at the latest place that leaves 13 digits.
\<close>

definition isBlockNumValid :: "string \<Rightarrow> bool" where
  "isBlockNumValid num \<longleftrightarrow>
     (startsWith num ''0x'' \<or> startsWith num ''0X'') \<and>
     (let ds = drop 2 num; nonzero = (\<lambda>c. is_digit_in 16 c \<and> c \<noteq> CHR ''0'');
          k = length (takeWhile nonzero ds)
      in ds = ''0'' \<or> (k > 0 \<and> list_all (is_digit_in 16) ds \<and> length ds \<le> k + 13)) \<and>
     (case Number_str num of Some n \<Rightarrow> n \<le> 2 ^ 53 - 1 | None \<Rightarrow> False)"

definition isBlockParamValid :: "block_ref \<Rightarrow> bool" where
  "isBlockParamValid tag \<longleftrightarrow> (case tag of
     NoBlock \<Rightarrow> True
   | Tag s \<Rightarrow> isBlockTagEarliest s \<or> isBlockTagFinalized s \<or> isBlockNumValid s
   | BlockNum n \<Rightarrow> isBlockNumValid (dec n))"

definition isBlockHash :: "string \<Rightarrow> bool" where
  "isBlockHash s \<longleftrightarrow> (startsWith s ''0x'' \<or> startsWith s ''0X'') \<and> length s = 66 \<and> list_all (is_digit_in 16) (drop 2 s)"

section \<open>Block ranges\<close>

record common_config =
  cc_maxBlockRange :: int
  cc_logsBlockRangeLimit :: int

text \<open>A text is falsy when it is empty, a number when it is zero.\<close>

definition falsy_ref :: "block_ref \<Rightarrow> bool" where
  "falsy_ref r = (case r of NoBlock \<Rightarrow> True | Tag s \<Rightarrow> s = [] | BlockNum n \<Rightarrow> n = 0)"

text \<open>The check of \<open>toBlock\<close> both range checks start with.\<close>

definition check_toBlock :: "mirror \<Rightarrow> block_ref \<Rightarrow> block_ref \<Rightarrow> thrown + block_ref" where
  "check_toBlock m fromBlock toBlock =
     (if blockTagIsLatestOrPending toBlock then Inr (Tag ''latest'')
      else res_bind (getLatestBlockNumber m) (\<lambda>latest.
        if (js_Number toBlock = None \<or> js_Number toBlock \<noteq> Number_str latest) \<and> falsy_ref fromBlock
        then Inl (json_error_thrown MISSING_FROM_BLOCK_PARAM)
        else Inr toBlock))"

definition normal_fromBlock :: "block_ref \<Rightarrow> block_ref" where
  "normal_fromBlock r = (if blockTagIsLatestOrPending r then Tag ''latest'' else r)"

text \<open>
  The time of a timestamp in nanoseconds. The code subtracts the texts as floating-point numbers of seconds; the
  model subtracts exactly.
\<close>

definition ts_nanos :: "string \<Rightarrow> int" where
  "ts_nanos t = (let secs = takeWhile (\<lambda>c. c \<noteq> CHR ''.'') t; frac = drop (length secs + 1) t
     in int (radix_val 10 secs) * 10 ^ 9 + int (radix_val 10 (take 9 (frac @ replicate 9 (CHR ''0'')))))"

definition maxTimestampParamRange :: int where
  "maxTimestampParamRange = 604800"

datatype log_address = NoAddress | OneAddress string | Addresses "string list"

definition isSingleAddress :: "log_address \<Rightarrow> bool" where
  "isSingleAddress a = (case a of Addresses as \<Rightarrow> length as = 1 | OneAddress s \<Rightarrow> s \<noteq> [] | NoAddress \<Rightarrow> False)"

definition check_range :: "common_config \<Rightarrow> log_address \<Rightarrow> block \<Rightarrow> block \<Rightarrow> thrown + unit" where
  "check_range cfg address fb tb =
     (if ts_nanos (bk_to tb) - ts_nanos (bk_from fb) > maxTimestampParamRange * 10 ^ 9
      then Inl (json_error_thrown (TIMESTAMP_RANGE_TOO_LARGE (prepend0x (int_str 16 (bk_number fb))) (bk_from fb)
        (prepend0x (int_str 16 (bk_number tb))) (bk_to tb)))
      else if bk_number fb > bk_number tb then Inl (json_error_thrown INVALID_BLOCK_RANGE)
      else if \<not> isSingleAddress address \<and> bk_number tb - bk_number fb > cc_logsBlockRangeLimit cfg
      then Inl (json_error_thrown (RANGE_TOO_LARGE (cc_logsBlockRangeLimit cfg)))
      else Inr ())"

text \<open>\<open>None\<close> is the answer \<open>false\<close>; otherwise the bounds of the timestamps.\<close>

definition validateBlockRangeAndAddTimestampToParams ::
    "mirror \<Rightarrow> common_config \<Rightarrow> block_ref \<Rightarrow> block_ref \<Rightarrow> log_address \<Rightarrow> thrown + string list option" where
  "validateBlockRangeAndAddTimestampToParams m cfg fromBlock0 toBlock0 address =
     res_bind (check_toBlock m fromBlock0 toBlock0) (\<lambda>toBlock.
     let fromBlock = normal_fromBlock fromBlock0 in
     res_bind (getHistoricalBlockResponse m (cc_maxBlockRange cfg) fromBlock True) (\<lambda>fr. case fr of
       None \<Rightarrow> Inr None
     | Some fb \<Rightarrow>
         if fromBlock = toBlock then Inr (Some [''gte:'' @ bk_from fb, ''lte:'' @ bk_to fb])
         else res_bind (getHistoricalBlockResponse m (cc_maxBlockRange cfg) toBlock True) (\<lambda>tr. case tr of
             None \<Rightarrow> Inr None
           | Some tb \<Rightarrow> res_bind (check_range cfg address fb tb) (\<lambda>_.
               Inr (Some [''gte:'' @ bk_from fb, ''lte:'' @ bk_to tb])))))"

text \<open>Comparisons with \<open>null\<close> are comparisons with zero, and with NaN they are false.\<close>

definition js_greater :: "js_number \<Rightarrow> js_number \<Rightarrow> bool" where
  "js_greater a b = (case (a, b) of
     (JNaN, _) \<Rightarrow> False | (_, JNaN) \<Rightarrow> False
   | (x, y) \<Rightarrow> (case x of JNum i \<Rightarrow> i | _ \<Rightarrow> 0) > (case y of JNum j \<Rightarrow> j | _ \<Rightarrow> 0))"

definition num_of :: "int option \<Rightarrow> js_number" where
  "num_of x = (case x of Some i \<Rightarrow> JNum i | None \<Rightarrow> JNaN)"

definition falsy_num :: "js_number \<Rightarrow> bool" where
  "falsy_num x \<longleftrightarrow> x = JNull \<or> x = JNaN \<or> x = JNum 0"

definition validateBlockRange :: "mirror \<Rightarrow> common_config \<Rightarrow> block_ref \<Rightarrow> block_ref \<Rightarrow> thrown + unit" where
  "validateBlockRange m cfg fromBlock0 toBlock0 =
     res_bind (check_toBlock m fromBlock0 toBlock0) (\<lambda>toBlock.
     let toNumber = (if blockTagIsLatestOrPending toBlock0 then JNull else num_of (js_Number toBlock0));
         fromBlock = normal_fromBlock fromBlock0;
         fromNumber = (if blockTagIsLatestOrPending fromBlock0 then JNull else num_of (js_Number fromBlock0))
     in res_bind (if falsy_num fromNumber \<or> falsy_num toNumber
          then res_bind (getHistoricalBlockResponse m (cc_maxBlockRange cfg) fromBlock True) (\<lambda>fr.
               res_bind (getHistoricalBlockResponse m (cc_maxBlockRange cfg) toBlock True) (\<lambda>tr.
                 Inr (case fr of Some b \<Rightarrow> JNum (bk_number b) | None \<Rightarrow> fromNumber,
                      case tr of Some b \<Rightarrow> JNum (bk_number b) | None \<Rightarrow> toNumber)))
          else Inr (fromNumber, toNumber))
        (\<lambda>(f, t). if js_greater f t then Inl (json_error_thrown INVALID_BLOCK_RANGE) else Inr ()))"

definition validateBlockHashAndAddTimestampToParams :: "mirror \<Rightarrow> string \<Rightarrow> thrown + string list option" where
  "validateBlockHashAndAddTimestampToParams m blockHash = (case mn_getBlock m blockHash of
     Inr (Some b) \<Rightarrow> Inr (Some [''gte:'' @ bk_from b, ''lte:'' @ bk_to b])
   | Inr None \<Rightarrow> Inr None
   | Inl e \<Rightarrow> (case e of RelayError (MirrorErr x) \<Rightarrow> if isNotFound x then Inr None else Inl e | _ \<Rightarrow> Inl e))"

section \<open>Logs\<close>

datatype topic_arg = NilTopic | TopicStr string | TopicList "string list"

fun trim_topics :: "nat \<Rightarrow> nat \<Rightarrow> string list \<Rightarrow> thrown + string list" where
  "trim_topics i j [] = Inr []"
| "trim_topics i j (t # ts) = (case trimPrecedingZeros (Some t) of
     None \<Rightarrow> Inl (json_error_thrown (INVALID_PARAMETER (to_dec i) (''Topic '' @ to_dec i @ ''['' @ to_dec j @ ''] is not a valid hex string'')))
   | Some trimmed \<Rightarrow> res_bind (trim_topics i (Suc j) ts) (\<lambda>rest. Inr (trimmed # rest)))"

definition topic_param_of :: "nat \<Rightarrow> topic_arg \<Rightarrow> thrown + (nat \<times> topic_param) list" where
  "topic_param_of i t = (case t of
     NilTopic \<Rightarrow> Inr []
   | TopicList ts \<Rightarrow>
       if length ts > 100
       then Inl (json_error_thrown (INVALID_PARAMETER (to_dec i) (''Topic '' @ to_dec i @ '' exceeds maximum nested length of 100'')))
       else res_bind (trim_topics i 0 ts) (\<lambda>trimmed. Inr [(i, SomeTopics trimmed)])
   | TopicStr s \<Rightarrow> (case trimPrecedingZeros (Some s) of
         None \<Rightarrow> Inl (json_error_thrown (INVALID_PARAMETER (to_dec i) (''Topic '' @ to_dec i @ '' is not a valid hex string'')))
       | Some trimmed \<Rightarrow> Inr [(i, OneTopic trimmed)]))"

fun add_topics :: "nat \<Rightarrow> topic_arg list \<Rightarrow> thrown + (nat \<times> topic_param) list" where
  "add_topics i [] = Inr []"
| "add_topics i (t # ts) = res_bind (topic_param_of i t) (\<lambda>p. res_bind (add_topics (Suc i) ts) (\<lambda>ps. Inr (p @ ps)))"

definition addTopicsToParams :: "topic_arg list option \<Rightarrow> string list \<Rightarrow> thrown + log_query" where
  "addTopicsToParams topics timestamps = (case topics of
     None \<Rightarrow> Inr \<lparr>lq_timestamp = timestamps, lq_topics = []\<rparr>
   | Some ts \<Rightarrow> res_bind (add_topics 0 ts) (\<lambda>ps. Inr \<lparr>lq_timestamp = timestamps, lq_topics = ps\<rparr>))"

fun all_results :: "(thrown + 'a list option) list \<Rightarrow> thrown + 'a list" where
  "all_results [] = Inr []"
| "all_results (r # rs) = res_bind r (\<lambda>x. res_bind (all_results rs) (\<lambda>xs. Inr ((case x of Some l \<Rightarrow> l | None \<Rightarrow> []) @ xs)))"

text \<open>
  The comparison function of the sort never calls two logs equal; the sort of the runtime keeps the order of logs
  with the same timestamp.
\<close>

definition getLogsByAddress :: "mirror \<Rightarrow> string list \<Rightarrow> log_query \<Rightarrow> thrown + mirror_log list" where
  "getLogsByAddress m addresses params =
     res_bind (all_results (map (\<lambda>addr. mn_getContractResultsLogsByAddress m addr params) addresses)) (\<lambda>logs.
       Inr (sort_key ml_timestamp logs))"

record eth_log =
  lg_address :: string
  lg_blockTimestamp :: string
  lg_blockHash :: string
  lg_blockNumber :: string
  lg_data :: string
  lg_logIndex :: string
  lg_removed :: bool
  lg_topics :: "string list"
  lg_transactionHash :: string
  lg_transactionIndex :: string

definition seconds_of :: "string \<Rightarrow> int" where
  "seconds_of t = (case Number_str (hd (split_on (CHR ''.'') t)) of Some n \<Rightarrow> n | None \<Rightarrow> 0)"

definition Log_of :: "mirror_log \<Rightarrow> eth_log" where
  "Log_of l = \<lparr>lg_address = ml_address l, lg_blockTimestamp = numberTo0x (seconds_of (ml_timestamp l)),
     lg_blockHash = toHash32 (ml_block_hash l), lg_blockNumber = numberTo0x (ml_block_number l), lg_data = ml_data l,
     lg_logIndex = numberTo0x (ml_index l), lg_removed = False, lg_topics = ml_topics l,
     lg_transactionHash = toHash32 (ml_transaction_hash l), lg_transactionIndex = numberTo0x (ml_transaction_index l)\<rparr>"

text \<open>An empty text is no address.\<close>

definition getLogsWithParams :: "mirror \<Rightarrow> log_address \<Rightarrow> log_query \<Rightarrow> thrown + eth_log list" where
  "getLogsWithParams m address params =
     res_bind (case address of
         Addresses as \<Rightarrow> res_bind (getLogsByAddress m as params) (\<lambda>ls. Inr (Some ls))
       | OneAddress a \<Rightarrow>
           if a \<noteq> [] then res_bind (getLogsByAddress m [a] params) (\<lambda>ls. Inr (Some ls))
           else mn_getContractResultsLogsWithRetry m params
       | NoAddress \<Rightarrow> mn_getContractResultsLogsWithRetry m params)
     (\<lambda>logResults. Inr (case logResults of None \<Rightarrow> [] | Some ls \<Rightarrow> map Log_of ls))"

text \<open>
  Errors on their way out of a worker thread: they travel as JSON and are rebuilt by their name. Only the relay's own errors
  and those of the mirror node client write their name into the JSON.
\<close>

definition across_worker :: "thrown \<Rightarrow> thrown" where
  "across_worker error = (case error of
     RelayError (JsonRpcErr e) \<Rightarrow> RelayError (JsonRpcErr e)
   | RelayError (MirrorErr e) \<Rightarrow> (let j = MirrorNodeClientError_toJSON e in
       RelayError (MirrorErr (MirrorNodeClientError_fromJSON (mj_statusCode j) (mj_message j) (mj_data j) (mj_detail j))))
   | _ \<Rightarrow> json_error_thrown (INTERNAL_ERROR ''Failed unwrapping piscina error.''))"

definition WorkersPool_run :: "thrown + 'a \<Rightarrow> thrown + 'a" where
  "WorkersPool_run r = (case r of Inl e \<Rightarrow> Inl (across_worker e) | Inr v \<Rightarrow> Inr v)"

text \<open>The query with its bounds, or none when a block of the range is not there. It runs in a worker thread.\<close>

definition worker_getLogs ::
    "mirror \<Rightarrow> common_config \<Rightarrow> string option \<Rightarrow> block_ref \<Rightarrow> block_ref \<Rightarrow> log_address \<Rightarrow> topic_arg list option \<Rightarrow> thrown + eth_log list" where
  "worker_getLogs m cfg blockHash fromBlock toBlock address topics =
     res_bind (case blockHash of
         Some h \<Rightarrow> if h \<noteq> [] then validateBlockHashAndAddTimestampToParams m h
           else validateBlockRangeAndAddTimestampToParams m cfg fromBlock toBlock address
       | None \<Rightarrow> validateBlockRangeAndAddTimestampToParams m cfg fromBlock toBlock address)
     (\<lambda>r. case r of
        None \<Rightarrow> Inr []
      | Some timestamps \<Rightarrow> res_bind (addTopicsToParams topics timestamps) (getLogsWithParams m address))"

definition getLogs ::
    "mirror \<Rightarrow> common_config \<Rightarrow> string option \<Rightarrow> block_ref \<Rightarrow> block_ref \<Rightarrow> log_address \<Rightarrow> topic_arg list option \<Rightarrow> thrown + eth_log list" where
  "getLogs m cfg blockHash fromBlock toBlock address topics =
     WorkersPool_run (worker_getLogs m cfg blockHash fromBlock toBlock address topics)"

section \<open>Gas prices\<close>

definition getGasPriceInWeibars :: "mirror \<Rightarrow> string option \<Rightarrow> thrown + int" where
  "getGasPriceInWeibars m timestamp = res_bind (mn_getNetworkFees m timestamp) (\<lambda>networkFees.
     case networkFees of
       Some fees \<Rightarrow> (case List.find (\<lambda>(t, _). t = ''EthereumTransaction'') fees of
           Some (_, gas) \<Rightarrow> if gas \<noteq> 0 then Inr (gas * TINYBAR_TO_WEIBAR_COEF)
             else Inl (json_error_thrown (INTERNAL_ERROR ''Failed to retrieve gas price from network fees''))
         | None \<Rightarrow> Inl (json_error_thrown (INTERNAL_ERROR ''Failed to retrieve gas price from network fees'')))
     | None \<Rightarrow> Inl (json_error_thrown (INTERNAL_ERROR ''Failed to retrieve gas price from network fees'')))"

text \<open>
  \<open>scaled t\<close> is \<open>Math.round(t * (buffer / 100))\<close> of a price in tinybars, a floating-point product the model leaves open.
\<close>

definition addPercentageBufferToGasPrice :: "(int \<Rightarrow> int) \<Rightarrow> int \<Rightarrow> int" where
  "addPercentageBufferToGasPrice scaled gasPrice =
     gasPrice + scaled (gasPrice div TINYBAR_TO_WEIBAR_COEF) * TINYBAR_TO_WEIBAR_COEF"

definition genericErrorHandler :: "thrown \<Rightarrow> thrown" where
  "genericErrorHandler error = (case error of
     RelayError e \<Rightarrow> RelayError e
   | OtherError (Some m) \<Rightarrow> json_error_thrown (INTERNAL_ERROR m)
   | OtherError None \<Rightarrow> js_type_error ''Cannot read properties of undefined'')"

definition gasPrice :: "mirror \<Rightarrow> (int \<Rightarrow> int) \<Rightarrow> thrown + string" where
  "gasPrice m scaled = (case getGasPriceInWeibars m None of
     Inl e \<Rightarrow> Inl (genericErrorHandler e)
   | Inr price \<Rightarrow> Inr (numberTo0x (addPercentageBufferToGasPrice scaled price)))"

definition getCurrentGasPriceForBlock :: "mirror \<Rightarrow> string \<Rightarrow> thrown + string" where
  "getCurrentGasPriceForBlock m blockHash = res_bind (mn_getBlock m blockHash) (\<lambda>block.
     res_bind (getGasPriceInWeibars m (Some (case block of Some b \<Rightarrow> hd (split_on (CHR ''.'') (bk_from b)) | None \<Rightarrow> []))) (\<lambda>price.
       Inr (numberTo0x price)))"

definition redirectBytecodeAddressReplace :: "string \<Rightarrow> string" where
  "redirectBytecodeAddressReplace address = ''0x'' @ ''6080604052348015600f57600080fd5b506000610167905077618dc65e'' @ drop 2 address @
     ''600052366000602037600080366018016008845af43d806000803e8160008114605857816000f35b816000fdfea2646970667358221220d8378feed472ba49a0005514ef7087017f707b45fb9bf56bb81bb93ff19a238b64736f6c634300080b0033''"

text \<open>The selectors of the functions of the system contract that create tokens.\<close>

definition HTS_CREATE_FUNCTIONS_SELECTORS :: "string list" where
  "HTS_CREATE_FUNCTIONS_SELECTORS = [''0x27d97be3'', ''0xc23baeb6'', ''0x0fb65bf3'', ''0xef2d1098'', ''0xb937581a'', ''0x2af0c59a'',
     ''0x9dc711e0'', ''0x9c89bb35'', ''0xea83f293'', ''0x5bc7c0e6'', ''0x45733969'', ''0xabb54eb5'']"

definition getContractAddressFromReceipt :: "string \<Rightarrow> string \<Rightarrow> string \<Rightarrow> string" where
  "getContractAddressFromReceipt address function_parameters call_result =
     (if str_slice function_parameters 0 10 \<notin> set HTS_CREATE_FUNCTIONS_SELECTORS then address
      else prepend0x (drop (length call_result - 40) call_result))"

section \<open>Properties of the queries for logs\<close>

text \<open>What a range of blocks has to satisfy when its two ends are different blocks.\<close>

definition within_limits :: "common_config \<Rightarrow> log_address \<Rightarrow> block \<Rightarrow> block \<Rightarrow> bool" where
  "within_limits cfg address fb tb \<longleftrightarrow>
     bk_number fb \<le> bk_number tb \<and> ts_nanos (bk_to tb) - ts_nanos (bk_from fb) \<le> maxTimestampParamRange * 10 ^ 9 \<and>
     (isSingleAddress address \<or> bk_number tb - bk_number fb \<le> cc_logsBlockRangeLimit cfg)"

lemma check_range_iff: "check_range cfg address fb tb = Inr u \<longleftrightarrow> within_limits cfg address fb tb"
  by (auto simp: check_range_def within_limits_def)

lemma block_range_bounds:
  assumes "validateBlockRangeAndAddTimestampToParams m cfg fromBlock toBlock address = Inr (Some ts)"
  obtains fb tb where "ts = [''gte:'' @ bk_from fb, ''lte:'' @ bk_to tb]"
    and "getHistoricalBlockResponse m (cc_maxBlockRange cfg) (normal_fromBlock fromBlock) True = Inr (Some fb)"
    and "getHistoricalBlockResponse m (cc_maxBlockRange cfg) (normal_fromBlock toBlock) True = Inr (Some tb)"
    and "normal_fromBlock fromBlock = normal_fromBlock toBlock \<or> within_limits cfg address fb tb"
proof -
  have to: "t = normal_fromBlock toBlock" if "check_toBlock m fromBlock toBlock = Inr t" for t
    using that by (auto simp: check_toBlock_def normal_fromBlock_def res_bind_eq_Inr split: if_splits)
  let ?f = "normal_fromBlock fromBlock" and ?t = "normal_fromBlock toBlock"
  have "check_toBlock m fromBlock toBlock = Inr ?t"
    using assms to by (auto simp: validateBlockRangeAndAddTimestampToParams_def res_bind_eq_Inr)
  then obtain fb where fb: "getHistoricalBlockResponse m (cc_maxBlockRange cfg) ?f True = Inr (Some fb)"
    and rest: "(if ?f = ?t then Inr (Some [''gte:'' @ bk_from fb, ''lte:'' @ bk_to fb])
      else res_bind (getHistoricalBlockResponse m (cc_maxBlockRange cfg) ?t True) (\<lambda>tr. case tr of
             None \<Rightarrow> Inr None
           | Some tb \<Rightarrow> res_bind (check_range cfg address fb tb) (\<lambda>_.
               Inr (Some [''gte:'' @ bk_from fb, ''lte:'' @ bk_to tb])))) = Inr (Some ts)"
    using assms by (auto simp: validateBlockRangeAndAddTimestampToParams_def Let_def res_bind_eq_Inr split: option.splits)
  show ?thesis
  proof (cases "?f = ?t")
    case True
    then show ?thesis using that [of fb fb] fb rest by simp
  next
    case False
    then show ?thesis using that [of fb] fb rest by (auto simp: res_bind_eq_Inr check_range_iff split: option.splits)
  qed
qed

lemma all_results_eq:
  "all_results rs = Inr xs \<longleftrightarrow> (\<exists>ls. rs = map Inr ls \<and> xs = concat (map (\<lambda>x. case x of Some l \<Rightarrow> l | None \<Rightarrow> []) ls))"
proof (induction rs arbitrary: xs)
  case (Cons r rs)
  then show ?case
    by (auto simp: res_bind_eq_Inr Cons_eq_map_conv)
qed auto

lemma all_results_set:
  "all_results rs = Inr xs \<Longrightarrow> x \<in> set xs \<Longrightarrow> \<exists>l. Inr (Some l) \<in> set rs \<and> x \<in> set l"
  by (force simp: all_results_eq split: option.splits)

lemma all_results_mset:
  "all_results rs = Inr xs \<Longrightarrow>
     mset xs = (\<Sum>r\<leftarrow>rs. case r of Inr (Some l) \<Rightarrow> mset l | _ \<Rightarrow> {#})"
proof (induction rs arbitrary: xs)
  case (Cons r rs)
  then show ?case by (auto simp: res_bind_eq_Inr split: option.splits)
qed simp

text \<open>C9: A query for logs without a block hash asks the mirror node only for bounded ranges: every log it returns for a list of addresses is a
  log the mirror node gave for one of these addresses, between the first moment of one block and the last moment of
  another, where the blocks are the ones the request names, in order, at most seven days and (for more than one
  address) at most the configured number of blocks apart.\<close>

theorem getLogs_bounded:
  assumes "getLogs m cfg None fromBlock toBlock (Addresses as) topics = Inr logs" and "x \<in> set logs"
  shows "\<exists>fb tb addr ps answer l.
    getHistoricalBlockResponse m (cc_maxBlockRange cfg) (normal_fromBlock fromBlock) True = Inr (Some fb) \<and>
    getHistoricalBlockResponse m (cc_maxBlockRange cfg) (normal_fromBlock toBlock) True = Inr (Some tb) \<and>
    (normal_fromBlock fromBlock = normal_fromBlock toBlock \<or>
       bk_number fb \<le> bk_number tb \<and> ts_nanos (bk_to tb) - ts_nanos (bk_from fb) \<le> 604800 * 10 ^ 9 \<and>
       (length as = 1 \<or> bk_number tb - bk_number fb \<le> cc_logsBlockRangeLimit cfg)) \<and>
    addr \<in> set as \<and>
    mn_getContractResultsLogsByAddress m addr \<lparr>lq_timestamp = [''gte:'' @ bk_from fb, ''lte:'' @ bk_to tb], lq_topics = ps\<rparr> =
      Inr (Some answer) \<and> l \<in> set answer \<and> x = Log_of l"
proof -
  obtain ts where ts: "validateBlockRangeAndAddTimestampToParams m cfg fromBlock toBlock (Addresses as) = Inr (Some ts)"
    and rest: "res_bind (addTopicsToParams topics ts) (getLogsWithParams m (Addresses as)) = Inr logs"
    using assms by (auto simp: getLogs_def WorkersPool_run_def worker_getLogs_def res_bind_eq_Inr split: option.splits sum.splits)
  obtain ps where ps: "getLogsWithParams m (Addresses as) \<lparr>lq_timestamp = ts, lq_topics = ps\<rparr> = Inr logs"
    using rest by (auto simp: addTopicsToParams_def res_bind_eq_Inr split: option.splits)
  then obtain ls where "all_results (map (\<lambda>a. mn_getContractResultsLogsByAddress m a \<lparr>lq_timestamp = ts, lq_topics = ps\<rparr>) as) = Inr ls"
    and "logs = map Log_of (sort_key ml_timestamp ls)"
    by (auto simp: getLogsWithParams_def getLogsByAddress_def res_bind_eq_Inr)
  then obtain answer l addr where "addr \<in> set as" "l \<in> set answer" "x = Log_of l"
    "mn_getContractResultsLogsByAddress m addr \<lparr>lq_timestamp = ts, lq_topics = ps\<rparr> = Inr (Some answer)"
    using assms(2) by (fastforce dest: all_results_set)
  moreover obtain fb tb where "ts = [''gte:'' @ bk_from fb, ''lte:'' @ bk_to tb]"
    "getHistoricalBlockResponse m (cc_maxBlockRange cfg) (normal_fromBlock fromBlock) True = Inr (Some fb)"
    "getHistoricalBlockResponse m (cc_maxBlockRange cfg) (normal_fromBlock toBlock) True = Inr (Some tb)"
    "normal_fromBlock fromBlock = normal_fromBlock toBlock \<or> within_limits cfg (Addresses as) fb tb"
    using ts by (rule block_range_bounds)
  ultimately show ?thesis
    by (intro exI [of _ fb] exI [of _ tb] exI [of _ addr] exI [of _ ps] exI [of _ answer] exI [of _ l])
      (auto simp: within_limits_def isSingleAddress_def maxTimestampParamRange_def)
qed

text \<open>The logs of several addresses come back in the order of their timestamps, each log of each answer exactly as often as the mirror
  node sent it, and the logs of one timestamp in the order in which the answers hold them.\<close>

lemma getLogsByAddress_sorted:
  assumes "getLogsByAddress m as params = Inr logs"
  shows "sorted (map ml_timestamp logs) \<and>
    mset logs = (\<Sum>a\<leftarrow>as. case mn_getContractResultsLogsByAddress m a params of Inr (Some l) \<Rightarrow> mset l | _ \<Rightarrow> {#}) \<and>
    filter (\<lambda>l. ml_timestamp l = t) logs =
      concat (map (\<lambda>a. case mn_getContractResultsLogsByAddress m a params of
        Inr (Some ls) \<Rightarrow> filter (\<lambda>l. ml_timestamp l = t) ls | _ \<Rightarrow> []) as)"
proof -
  let ?q = "\<lambda>a. mn_getContractResultsLogsByAddress m a params"
  obtain ls where ls: "all_results (map ?q as) = Inr ls" and logs: "logs = sort_key ml_timestamp ls"
    using assms by (auto simp: getLogsByAddress_def res_bind_eq_Inr)
  have "filter (\<lambda>l. ml_timestamp l = t) ls =
      concat (map (\<lambda>a. case ?q a of Inr (Some ls) \<Rightarrow> filter (\<lambda>l. ml_timestamp l = t) ls | _ \<Rightarrow> []) as)"
    using ls
  proof (induction as arbitrary: ls)
    case (Cons a as)
    then show ?case by (auto simp: res_bind_eq_Inr split: option.splits)
  qed simp
  moreover have "filter (\<lambda>l. ml_timestamp l = t) logs = filter (\<lambda>l. ml_timestamp l = t) ls"
    unfolding logs using sort_key_stable [of ml_timestamp t ls] by (simp add: eq_commute)
  ultimately show ?thesis
    using all_results_mset [OF ls] by (simp add: logs comp_def)
qed

section \<open>Properties of block numbers\<close>

lemma radix_str_length: "2 \<le> b \<Longrightarrow> n < b ^ Suc k \<Longrightarrow> length (radix_str b n) \<le> Suc k"
proof (induction k arbitrary: n)
  case (Suc k)
  have "n div b < b ^ Suc k" using Suc.prems by (simp add: less_mult_imp_div_less mult.commute)
  then show ?case using Suc.IH [of "n div b"] Suc.prems(1) by (subst radix_str.simps) simp
qed (subst radix_str.simps, simp)

lemma radix_str_hd:
  assumes "2 \<le> b" "b \<le> 36" "0 < n"
  shows "hd (radix_str b n) \<noteq> CHR ''0''"
  using assms
proof (induction b n rule: radix_str.induct)
  case (1 b n)
  show ?case
  proof (cases "n < b")
    case True
    then have "digit_val (digit n) = Some n" using 1(3) by simp
    then have "digit n \<noteq> CHR ''0''" using 1(4) by (metis digit_val_zero option.inject less_irrefl)
    with True show ?thesis by (subst radix_str.simps) simp
  next
    case False
    then have "0 < n div b" using 1(2) by (simp add: div_greater_zero_iff)
    with False 1 show ?thesis by (subst radix_str.simps) simp
  qed
qed

lemma double_of_int_large:
  assumes "2 ^ 53 \<le> i"
  shows "2 ^ 53 \<le> double_of_int i"
proof -
  define n where "n = nat i"
  define k where "k = floorlog 2 n - 53"
  have n: "2 ^ 53 \<le> n" using assms by (simp add: n_def le_nat_iff)
  have fl: "2 ^ (floorlog 2 n - 1) \<le> n" using floorlog_bounds [of n 2] n by simp
  have "53 < floorlog 2 n" using floorlog_leD [of 2 n 53] n by (meson less_le_not_le not_le one_less_numeral_iff semiring_norm(76))
  then have "floorlog 2 n - 1 = k + 52" by (simp add: k_def)
  then have "(2::nat) ^ (floorlog 2 n - 1) = 2 ^ k * 2 ^ 52" by (simp only: power_add)
  moreover have "(2::nat) ^ 53 \<le> 2 ^ (floorlog 2 n - 1)" using \<open>53 < floorlog 2 n\<close> by (intro power_increasing) auto
  moreover have "2 ^ k * 2 ^ 52 \<le> n div 2 ^ k * 2 ^ k"
  proof -
    have "2 ^ 52 \<le> n div 2 ^ k" using div_le_mono [of "2 ^ k * 2 ^ 52" n "2 ^ k"] fl calculation(1) by simp
    then show ?thesis by (metis mult.commute mult_le_mono1)
  qed
  ultimately have "2 ^ 53 \<le> n div 2 ^ k * 2 ^ k" by (metis order_trans)
  also have "\<dots> \<le> round_even (2 ^ k) n" by (simp add: round_even_def Let_def)
  finally have "2 ^ 53 \<le> double_of_nat n" using n by (simp add: double_of_nat_def k_def)
  then show ?thesis using assms by (simp add: double_of_int_def n_def zero_le_power le_nat_iff)
qed

lemma Number_numberTo0x: "0 \<le> n \<Longrightarrow> Number_str (numberTo0x n) = Some (double_of_int n)"
  by (simp add: Number_str_def BigInt_numberTo0x)

text \<open>A block number the relay prints is accepted as a block parameter, and read back as the same number, exactly up
  to the largest safe integer; larger numbers are refused.\<close>

lemma block_number_roundtrip:
  assumes "0 \<le> n"
  shows "(isBlockNumValid (numberTo0x n) \<longleftrightarrow> n < 2 ^ 53) \<and>
    (n < 2 ^ 53 \<longrightarrow> translateBlockTag m (Tag (numberTo0x n)) = Inr (Some n))"
proof -
  have str: "numberTo0x n = ''0x'' @ to_hex (nat n)" using assms by (simp add: numberTo0x_nonneg)
  have "isBlockNumValid (numberTo0x n) \<Longrightarrow> n < 2 ^ 53"
    using double_of_int_large [of n] by (force simp: isBlockNumValid_def Number_numberTo0x [OF assms])
  moreover have "isBlockNumValid (numberTo0x n)" if small: "n < 2 ^ 53"
  proof -
    let ?ds = "to_hex (nat n)"
    have len: "length ?ds \<le> 14" using radix_str_length [of 16 "nat n" 13] small assms by (simp add: nat_less_iff)
    have all: "list_all (is_digit_in 16) ?ds" by (simp add: radix_str_digits)
    obtain c cs where ds: "?ds = c # cs" by (cases ?ds) simp_all
    have "?ds = ''0'' \<or> c \<noteq> CHR ''0''"
    proof (cases "n = 0")
      case True
      have "to_hex 0 = ''0''" by code_simp
      with True show ?thesis by simp
    next
      case False
      then show ?thesis using radix_str_hd [of 16 "nat n"] assms ds by simp
    qed
    moreover have "Number_str (''0x'' @ c # cs) = Some n"
      using double_of_int_exact [of n] small assms Number_numberTo0x [OF assms] by (simp add: str ds)
    ultimately show ?thesis
      using len all small by (auto simp: isBlockNumValid_def str startsWith_def Let_def ds)
  qed
  moreover have "translateBlockTag m (Tag (numberTo0x n)) = Inr (Some n)" if "n < 2 ^ 53"
    using that assms double_of_int_exact [of n] Number_numberTo0x [OF assms]
    by (simp add: translateBlockTag_def blockTagIsLatestOrPending_def str)
  ultimately show ?thesis by blast
qed

definition sample_block :: "int \<Rightarrow> string \<Rightarrow> string \<Rightarrow> block" where
  "sample_block n f t = \<lparr>bk_number = n, bk_hash = ''0xab'', bk_previous_hash = ''0xaa'', bk_from = f, bk_to = t,
     bk_gas_used = 0, bk_size = Some 10, bk_logs_bloom = ''0x'', bk_count = Some 3\<rparr>"

definition sample_log :: "string \<Rightarrow> mirror_log" where
  "sample_log t = \<lparr>ml_address = ''0x1'', ml_timestamp = t, ml_block_hash = ''0xab'', ml_block_number = 1, ml_data = ''0x'',
     ml_index = 0, ml_topics = [], ml_transaction_hash = ''0xcd'', ml_transaction_index = 2\<rparr>"

text \<open>A mirror node with two blocks and one log for every address.\<close>

definition sample_mirror :: mirror where
  "sample_mirror = \<lparr>mn_getLatestBlock = Inr (Some [sample_block 2 ''20.0'' ''29.9'']),
     mn_getBlock = (\<lambda>ref. Inr (if ref = ''1'' then Some (sample_block 1 ''10.0'' ''19.9'')
       else if ref = ''2'' then Some (sample_block 2 ''20.0'' ''29.9'') else None)),
     mn_getBlocks = (\<lambda>bound. Inr (Some (if bound = ''gt:0x1'' then [sample_block 2 ''20.0'' ''29.9''] else []))),
     mn_getNetworkFees = (\<lambda>_. Inr (Some [(''EthereumTransaction'', 5)])),
     mn_getContractResultsLogsByAddress = (\<lambda>a q. Inr (Some [sample_log (if a = ''0xa1'' then ''25.0'' else ''15.0'')])),
     mn_getContractResultsLogsWithRetry = (\<lambda>q. Inr None)\<rparr>"

definition sample_common :: common_config where
  "sample_common = \<lparr>cc_maxBlockRange = 5, cc_logsBlockRangeLimit = 1000\<rparr>"

lemma sample_ts_nanos: "ts_nanos ''10.0'' = 10000000000 \<and> ts_nanos ''29.9'' = 29900000000"
proof -
  have "replicate 9 (CHR ''0'') = ''000000000''" by (simp add: numeral_eq_Suc)
  then show ?thesis by (simp add: ts_nanos_def radix_val_def digit_val_def Let_def)
qed

lemma sample_numbers: "Number_str ''0x1'' = Some 1 \<and> Number_str ''0x2'' = Some 2"
proof -
  have "numberTo0x 1 = ''0x1'' \<and> numberTo0x 2 = ''0x2''" by code_simp
  then show ?thesis
    using Number_numberTo0x [of 1] Number_numberTo0x [of 2] double_of_int_exact [of 1] double_of_int_exact [of 2] by simp
qed

lemma sample_latest: "getLatestBlockNumber sample_mirror = Inr ''0x2'' \<and> dec 1 = ''1'' \<and> dec 2 = ''2''"
  by code_simp

lemma sample_blocks:
  "getHistoricalBlockResponse sample_mirror 5 (Tag ''0x1'') True = Inr (Some (sample_block 1 ''10.0'' ''19.9'')) \<and>
   getHistoricalBlockResponse sample_mirror 5 (Tag ''0x2'') True = Inr (Some (sample_block 2 ''20.0'' ''29.9'')) \<and>
   check_toBlock sample_mirror (Tag ''0x1'') (Tag ''0x2'') = Inr (Tag ''0x2'') \<and> normal_fromBlock (Tag ''0x1'') = Tag ''0x1''"
  using sample_latest
  by (simp add: getHistoricalBlockResponse_def check_toBlock_def normal_fromBlock_def blockTagIsLatestOrPending_def beyond_range_def
      sample_numbers latest_first_def sample_mirror_def block_path_def sample_block_def falsy_ref_def)

lemma sample_range:
  "validateBlockRangeAndAddTimestampToParams sample_mirror sample_common (Tag ''0x1'') (Tag ''0x2'') (Addresses [''0xa1'', ''0xa2'']) =
    Inr (Some [''gte:10.0'', ''lte:29.9''])"
  by (simp add: validateBlockRangeAndAddTimestampToParams_def sample_blocks sample_common_def check_range_def sample_ts_nanos
      sample_block_def maxTimestampParamRange_def isSingleAddress_def)

lemma sample_by_address:
  "getLogsByAddress sample_mirror [''0xa1'', ''0xa2''] q = Inr [sample_log ''15.0'', sample_log ''25.0'']"
  by (simp add: getLogsByAddress_def sample_mirror_def sample_log_def)

lemma sample_logs:
  "getLogs sample_mirror sample_common None (Tag ''0x1'') (Tag ''0x2'') (Addresses [''0xa1'', ''0xa2'']) None =
    Inr [Log_of (sample_log ''15.0''), Log_of (sample_log ''25.0'')]"
  by (simp add: getLogs_def WorkersPool_run_def worker_getLogs_def sample_range addTopicsToParams_def getLogsWithParams_def sample_by_address)

lemma block_number_roundtrip_witness:
  "isBlockNumValid (numberTo0x 300) \<and> translateBlockTag sample_mirror (Tag (numberTo0x 300)) = Inr (Some 300)"
  using block_number_roundtrip [of 300 sample_mirror] by simp

theorem getLogs_bounded_witness:
  "\<exists>fb tb. getHistoricalBlockResponse sample_mirror 5 (Tag ''0x1'') True = Inr (Some fb) \<and>
     getHistoricalBlockResponse sample_mirror 5 (Tag ''0x2'') True = Inr (Some tb) \<and> bk_number fb \<le> bk_number tb"
  using getLogs_bounded [OF sample_logs, of "Log_of (sample_log ''15.0'')"]
  by (auto simp: sample_common_def normal_fromBlock_def blockTagIsLatestOrPending_def)

lemma getLogsByAddress_sorted_witness:
  "sorted (map ml_timestamp [sample_log ''15.0'', sample_log ''25.0''])"
  using getLogsByAddress_sorted [OF sample_by_address] by blast

end
