(* ===== verification/EthFee.thy ===== *)
theory EthFee
  imports EthCommon
begin

text \<open>
  The fee service (\<open>lib/services/ethService/feeService/FeeService.ts\<close>): \<open>eth_feeHistory\<close> and
  \<open>eth_maxPriorityFeePerGas\<close>. Block numbers are integers, \<open>None\<close> for a tag the shared service reads as NaN. The
  ratio of used gas is one constant, so a list of ratios is a list of its text.
\<close>

section \<open>The service\<close>

record fee_config =
  fc_test :: bool
  fc_maxResults :: int
  fc_fixed :: bool
  fc_scaled :: "int \<Rightarrow> int"

record fee_history =
  fh_baseFeePerGas :: "string list option"
  fh_gasUsedRatio :: "string list option"
  fh_oldestBlock :: string
  fh_reward :: "string list list option"

text \<open>The error for a block beyond the head is returned, not thrown.\<close>

datatype fee_answer = Fees fee_history | FeeError predefined

definition ZERO_HEX :: string where
  "ZERO_HEX = ''0x0''"

definition DEFAULT_GAS_USED_RATIO :: string where
  "DEFAULT_GAS_USED_RATIO = ''0.5''"

definition DEFAULT_FEE_HISTORY_MAX_RESULTS :: int where
  "DEFAULT_FEE_HISTORY_MAX_RESULTS = 10"

definition FEE_HISTORY_REWARD_PERCENTILES_MAX_SIZE :: nat where
  "FEE_HISTORY_REWARD_PERCENTILES_MAX_SIZE = 100"

definition maxPriorityFeePerGas :: string where
  "maxPriorityFeePerGas = ZERO_HEX"

text \<open>Any error while the block or its gas price is read, the absence of the block included, counts as a fee of zero.\<close>

definition getFeeByBlockNumber :: "mirror \<Rightarrow> int \<Rightarrow> string" where
  "getFeeByBlockNumber m blockNumber = numberTo0x
     (case res_bind (mn_getBlock m (dec blockNumber)) (\<lambda>block. case block of
         None \<Rightarrow> Inl (js_type_error ''Cannot read properties of null'')
       | Some b \<Rightarrow> getGasPriceInWeibars m (Some (''lte:'' @ bk_to b))) of
       Inl _ \<Rightarrow> 0 | Inr fee \<Rightarrow> fee)"

text \<open>Percentiles are \<open>None\<close> when the parameter is missing or null; only their number matters.\<close>

definition rewards_of :: "int \<Rightarrow> 'p list option \<Rightarrow> string list list option" where
  "rewards_of blockCount rewardPercentiles = (case rewardPercentiles of
     Some (p # ps) \<Rightarrow> Some (replicate (nat blockCount) (replicate (length (p # ps)) ZERO_HEX))
   | _ \<Rightarrow> None)"

definition getRepeatedFeeHistory :: "int \<Rightarrow> int \<Rightarrow> 'p list option \<Rightarrow> string \<Rightarrow> fee_history" where
  "getRepeatedFeeHistory blockCount oldestBlockNumber rewardPercentiles fee =
     \<lparr>fh_baseFeePerGas = Some (replicate (nat blockCount) fee @ [fee]),
      fh_gasUsedRatio = Some (replicate (nat blockCount) DEFAULT_GAS_USED_RATIO),
      fh_oldestBlock = numberTo0x oldestBlockNumber, fh_reward = rewards_of blockCount rewardPercentiles\<rparr>"

text \<open>The loop over the blocks from the oldest to the newest; nothing is pushed after it when it made no round and no next block exists.\<close>

definition getFeeHistory :: "mirror \<Rightarrow> int \<Rightarrow> int \<Rightarrow> int option \<Rightarrow> 'p list option \<Rightarrow> fee_history" where
  "getFeeHistory m blockCount newestBlockNumber latestBlockNumber rewardPercentiles =
     (let oldestBlockNumber = max 0 (newestBlockNumber - blockCount + 1);
          fees = map (getFeeByBlockNumber m) [oldestBlockNumber..newestBlockNumber];
          isLater = (case latestBlockNumber of Some latest \<Rightarrow> latest > newestBlockNumber | None \<Rightarrow> False);
          nextBaseFeePerGas = (if isLater then Some (getFeeByBlockNumber m (newestBlockNumber + 1))
            else if fees = [] then None else Some (last fees))
      in \<lparr>fh_baseFeePerGas = Some (fees @ (case nextBaseFeePerGas of Some fee \<Rightarrow> [fee] | None \<Rightarrow> [])),
          fh_gasUsedRatio = Some (map (\<lambda>_. DEFAULT_GAS_USED_RATIO) [oldestBlockNumber..newestBlockNumber]),
          fh_oldestBlock = numberTo0x oldestBlockNumber, fh_reward = rewards_of blockCount rewardPercentiles\<rparr>)"

text \<open>With NaN as the newest block no comparison holds and no block is in the range.\<close>

definition nan_history :: "int \<Rightarrow> 'p list option \<Rightarrow> fee_history" where
  "nan_history blockCount rewardPercentiles = \<lparr>fh_baseFeePerGas = Some [], fh_gasUsedRatio = Some [],
     fh_oldestBlock = ''0xNaN'', fh_reward = rewards_of blockCount rewardPercentiles\<rparr>"

text \<open>The part of the \<open>try\<close> block after the numbers are known.\<close>

definition history_between ::
    "mirror \<Rightarrow> fee_config \<Rightarrow> int \<Rightarrow> int option \<Rightarrow> int option \<Rightarrow> 'p list option \<Rightarrow> thrown + fee_history" where
  "history_between m cfg blockCount0 newest latest rewardPercentiles =
     (let maxResults = (if fc_test cfg then DEFAULT_FEE_HISTORY_MAX_RESULTS else fc_maxResults cfg);
          blockCount = (if blockCount0 > maxResults then maxResults else blockCount0)
      in if blockCount \<le> 0
         then Inr \<lparr>fh_baseFeePerGas = None, fh_gasUsedRatio = None, fh_oldestBlock = ZERO_HEX, fh_reward = None\<rparr>
         else case newest of
             None \<Rightarrow> if fc_fixed cfg
               then res_bind (gasPrice m (fc_scaled cfg)) (\<lambda>fee.
                 Inr ((getRepeatedFeeHistory blockCount 0 rewardPercentiles fee)\<lparr>fh_oldestBlock := ''0xNaN''\<rparr>))
               else Inr (nan_history blockCount rewardPercentiles)
           | Some newestBlockNumber \<Rightarrow>
               if fc_fixed cfg
               then let oldestBlock = newestBlockNumber - blockCount + 1;
                        (count, oldest) = (if oldestBlock \<le> 0 then (1, 1) else (blockCount, oldestBlock))
                    in res_bind (gasPrice m (fc_scaled cfg)) (\<lambda>fee.
                         Inr (getRepeatedFeeHistory count oldest rewardPercentiles fee))
               else Inr (getFeeHistory m blockCount newestBlockNumber latest rewardPercentiles))"

text \<open>
  Too many percentiles are refused; an error inside the \<open>try\<close> block gives an empty history; a block beyond the head is
  an error that is returned.
\<close>

definition feeHistory :: "mirror \<Rightarrow> fee_config \<Rightarrow> int \<Rightarrow> string \<Rightarrow> 'p list option \<Rightarrow> thrown + fee_answer" where
  "feeHistory m cfg blockCount newestBlock rewardPercentiles =
     (let size = (case rewardPercentiles of Some ps \<Rightarrow> length ps | None \<Rightarrow> 0)
      in if size > FEE_HISTORY_REWARD_PERCENTILES_MAX_SIZE
      then Inl (json_error_thrown (INVALID_PARAMETER ''2'' (''Reward percentiles size '' @ to_dec size @
        '' is greater than the maximum allowed size '' @ to_dec FEE_HISTORY_REWARD_PERCENTILES_MAX_SIZE)))
      else case res_bind (translateBlockTag m (Tag ''latest'')) (\<lambda>latest.
        res_bind (if newestBlock = ''latest'' \<or> newestBlock = ''pending'' then Inr latest
            else translateBlockTag m (Tag newestBlock)) (\<lambda>newest.
          case (newest, latest) of
            (Some n, Some l) \<Rightarrow> if n > l then Inr (FeeError (REQUEST_BEYOND_HEAD_BLOCK n l))
              else map_sum id Fees (history_between m cfg blockCount newest latest rewardPercentiles)
          | _ \<Rightarrow> map_sum id Fees (history_between m cfg blockCount newest latest rewardPercentiles))) of
        Inr answer \<Rightarrow> Inr answer
      | Inl _ \<Rightarrow> Inr (Fees \<lparr>fh_baseFeePerGas = Some [], fh_gasUsedRatio = Some [], fh_oldestBlock = ZERO_HEX, fh_reward = Some []\<rparr>))"

section \<open>Properties\<close>

text \<open>A fee history over known blocks has one base fee and one ratio for every block from the oldest to the newest, in order, and one
  further base fee, that of the next block, or of the newest block again when it is the latest. The oldest block is the
  first block of the chain when fewer blocks exist than were asked for.\<close>

lemma fee_history_blocks:
  assumes "translateBlockTag m (Tag ''latest'') = Inr (Some latest)"
    and "(if newestBlock = ''latest'' \<or> newestBlock = ''pending'' then Inr (Some latest) else translateBlockTag m (Tag newestBlock)) =
      Inr (Some newest)"
    and "0 \<le> newest" "newest \<le> latest" "\<not> fc_test cfg" "\<not> fc_fixed cfg" "0 < blockCount" "0 < fc_maxResults cfg"
    and "length percentiles \<le> 100"
  shows "\<exists>h fees. feeHistory m cfg blockCount newestBlock (Some percentiles) = Inr (Fees h) \<and>
    fh_oldestBlock h = numberTo0x (newest + 1 - int (length fees)) \<and> fh_baseFeePerGas h = Some (fees @
      [getFeeByBlockNumber m (if newest < latest then newest + 1 else newest)]) \<and>
    fh_gasUsedRatio h = Some (replicate (length fees) ''0.5'') \<and>
    int (length fees) = min (min blockCount (fc_maxResults cfg)) (newest + 1) \<and>
    (\<forall>i < length fees. fees ! i = getFeeByBlockNumber m (newest + 1 - int (length fees) + int i)) \<and>
    fh_reward h = rewards_of (min blockCount (fc_maxResults cfg)) (Some percentiles)"
proof -
  define count where "count = min blockCount (fc_maxResults cfg)"
  define oldest where "oldest = max 0 (newest - count + 1)"
  define fees where "fees = map (getFeeByBlockNumber m) [oldest..newest]"
  have len: "int (length fees) = min count (newest + 1)" using assms by (simp add: fees_def oldest_def count_def)
  then have start: "oldest = newest + 1 - int (length fees)" by (simp add: oldest_def)
  have last: "last fees = getFeeByBlockNumber m newest" "fees \<noteq> []"
    using len assms by (auto simp: fees_def oldest_def count_def last_map upto_rec2)
  have "feeHistory m cfg blockCount newestBlock (Some percentiles) = Inr (Fees (getFeeHistory m count newest (Some latest) (Some percentiles)))"
    using assms by (auto simp: feeHistory_def history_between_def FEE_HISTORY_REWARD_PERCENTILES_MAX_SIZE_def count_def min_def Let_def)
  moreover have "getFeeHistory m count newest (Some latest) (Some percentiles) =
      \<lparr>fh_baseFeePerGas = Some (fees @ [getFeeByBlockNumber m (if newest < latest then newest + 1 else newest)]),
       fh_gasUsedRatio = Some (replicate (length fees) ''0.5''), fh_oldestBlock = numberTo0x oldest,
       fh_reward = rewards_of count (Some percentiles)\<rparr>"
    using last assms(4) unfolding getFeeHistory_def Let_def oldest_def [symmetric] fees_def [symmetric]
    by (auto simp: DEFAULT_GAS_USED_RATIO_def map_replicate_const fees_def)
  moreover have "fees ! i = getFeeByBlockNumber m (oldest + int i)" if "i < length fees" for i
    using that by (simp add: fees_def)
  ultimately show ?thesis using len start by (simp add: count_def)
qed

lemma getFeeHistory_ratios:
  "0 < blockCount \<Longrightarrow> fh_gasUsedRatio (getFeeHistory m blockCount newest latest ps) = Some ratios \<Longrightarrow> int (length ratios) \<le> blockCount"
  by (auto simp: getFeeHistory_def Let_def)

lemma history_between_ratios:
  assumes "history_between m cfg blockCount newest latest ps = Inr h" and "fh_gasUsedRatio h = Some ratios"
  shows "int (length ratios) \<le> max 0 (if fc_test cfg then 10 else fc_maxResults cfg)"
proof -
  define top where "top = (if fc_test cfg then 10 else fc_maxResults cfg)"
  define count where "count = (if blockCount > top then top else blockCount)"
  have "count \<le> top" by (simp add: count_def)
  moreover have "0 < count \<Longrightarrow> int (length ratios) \<le> count" "\<not> count \<le> 0"
    using assms unfolding history_between_def DEFAULT_FEE_HISTORY_MAX_RESULTS_def top_def [symmetric] Let_def count_def [symmetric]
    by (auto simp: res_bind_eq_Inr getRepeatedFeeHistory_def nan_history_def getFeeHistory_ratios
        split: if_splits option.splits prod.splits)
  ultimately show ?thesis by (simp add: top_def)
qed

lemma map_sum_Fees: "map_sum id Fees x = Inr (Fees h) \<longleftrightarrow> x = Inr h"
  by (cases x) auto

lemma feeHistory_cases:
  assumes "feeHistory m cfg blockCount newestBlock ps = Inr (Fees h)"
  shows "fh_gasUsedRatio h = Some [] \<or> (\<exists>newest latest. history_between m cfg blockCount newest latest ps = Inr h)"
  using assms unfolding feeHistory_def
  by (auto simp: Let_def res_bind_eq_Inr map_sum_Fees split: if_splits sum.splits option.splits)

text \<open>Whatever the mirror node answers, a fee history throws exactly when more than a hundred percentiles are asked for, and it
  never has more ratios than the configured number of results.\<close>

lemma fee_history_total:
  "((\<exists>e. feeHistory m cfg blockCount newestBlock percentiles = Inl e) \<longleftrightarrow>
      (\<exists>ps. percentiles = Some ps \<and> 100 < length ps)) \<and>
   (\<nexists>h ratios. feeHistory m cfg blockCount newestBlock percentiles = Inr (Fees h) \<and> fh_gasUsedRatio h = Some ratios \<and>
      int (length ratios) > max 0 (if fc_test cfg then 10 else fc_maxResults cfg))"
proof -
  let ?max = "max 0 (if fc_test cfg then 10 else fc_maxResults cfg)"
  have "int (length ratios) \<le> ?max"
    if "feeHistory m cfg blockCount newestBlock percentiles = Inr (Fees h)" "fh_gasUsedRatio h = Some ratios" for h ratios
    using feeHistory_cases [OF that(1)] that(2) history_between_ratios by fastforce
  moreover have "(\<exists>e. feeHistory m cfg blockCount newestBlock percentiles = Inl e) \<longleftrightarrow>
      (\<exists>ps. percentiles = Some ps \<and> 100 < length ps)"
    by (auto simp: feeHistory_def Let_def FEE_HISTORY_REWARD_PERCENTILES_MAX_SIZE_def split: sum.splits option.splits)
  ultimately show ?thesis by (intro conjI notI) (assumption, elim exE conjE, simp add: not_le [symmetric] del: not_le)
qed

text \<open>The mirror node of \<open>EthCommon\<close> knows blocks 1 and 2.\<close>

definition sample_fee :: fee_config where
  "sample_fee = \<lparr>fc_test = False, fc_maxResults = 10, fc_fixed = False, fc_scaled = (\<lambda>t. 0)\<rparr>"

lemma sample_translate:
  "translateBlockTag sample_mirror (Tag ''latest'') = Inr (Some 2)"
  using sample_latest sample_numbers by (simp add: translateBlockTag_def blockTagIsLatestOrPending_def)

lemma fee_history_blocks_witness:
  "\<exists>h fees. feeHistory sample_mirror sample_fee 5 ''latest'' (Some [10::nat]) = Inr (Fees h) \<and> length fees = 3 \<and>
    fh_baseFeePerGas h = Some (fees @ [getFeeByBlockNumber sample_mirror 2]) \<and> fh_reward h = Some (replicate 5 [''0x0''])"
  using fee_history_blocks [of sample_mirror 2 "''latest''" 2 sample_fee 5 "[10::nat]"] sample_translate
  by (auto simp: sample_fee_def rewards_of_def ZERO_HEX_def min_def)

end
