(* ===== verification/Effects.thy ===== *)
theory Effects
  imports Cache
begin

text \<open>
  Calls that read and change the state of the world and may throw, and their composition: the form of the services that
  call the mirror node and the cache. A call that throws keeps what it did to the world.
\<close>

type_synonym ('w, 'a) io = "'w \<Rightarrow> 'w \<times> (thrown + 'a)"

definition io_return :: "'a \<Rightarrow> ('w, 'a) io" where
  "io_return a = (\<lambda>w. (w, Inr a))"

definition io_throw :: "thrown \<Rightarrow> ('w, 'a) io" where
  "io_throw e = (\<lambda>w. (w, Inl e))"

text \<open>A computation without effects.\<close>

definition io_pure :: "thrown + 'a \<Rightarrow> ('w, 'a) io" where
  "io_pure r = (\<lambda>w. (w, r))"

definition io_bind :: "'w \<times> (thrown + 'a) \<Rightarrow> ('a \<Rightarrow> ('w, 'b) io) \<Rightarrow> 'w \<times> (thrown + 'b)" where
  "io_bind x f = (case x of (w, Inl e) \<Rightarrow> (w, Inl e) | (w, Inr a) \<Rightarrow> f a w)"

definition io_then :: "('w, 'a) io \<Rightarrow> ('a \<Rightarrow> ('w, 'b) io) \<Rightarrow> ('w, 'b) io" where
  "io_then c f = (\<lambda>w. io_bind (c w) f)"

text \<open>\<open>try\<close> and \<open>catch\<close>.\<close>

definition io_catch :: "('w, 'a) io \<Rightarrow> (thrown \<Rightarrow> ('w, 'a) io) \<Rightarrow> ('w, 'a) io" where
  "io_catch c h = (\<lambda>w. case c w of (w', Inl e) \<Rightarrow> h e w' | (w', Inr a) \<Rightarrow> (w', Inr a))"

text \<open>A failing command of the cache throws an error without a class of its own.\<close>

definition io_cache :: "'w \<times> (string + 'a) \<Rightarrow> 'w \<times> (thrown + 'a)" where
  "io_cache x = (fst x, other_error (snd x))"

named_theorems io_simps \<open>calls applied to a state\<close>

lemma io_return_apply [simp, io_simps]: "io_return a w = (w, Inr a)"
  by (simp add: io_return_def)

lemma io_throw_apply [simp, io_simps]: "io_throw e w = (w, Inl e)"
  by (simp add: io_throw_def)

lemma io_pure_apply [simp, io_simps]: "io_pure r w = (w, r)"
  by (simp add: io_pure_def)

lemma io_then_apply [io_simps]:
  "io_then c f w = (case c w of (w', Inl e) \<Rightarrow> (w', Inl e) | (w', Inr a) \<Rightarrow> f a w')"
  by (simp add: io_then_def io_bind_def)

lemma io_then_Inr: "c w = (w', Inr a) \<Longrightarrow> io_then c f w = f a w'"
  by (simp add: io_then_def io_bind_def)

lemma io_then_Inl: "c w = (w', Inl e) \<Longrightarrow> io_then c f w = (w', Inl e)"
  by (simp add: io_then_def io_bind_def)

lemma io_catch_apply [io_simps]:
  "io_catch c h w = (case c w of (w', Inl e) \<Rightarrow> h e w' | (w', Inr a) \<Rightarrow> (w', Inr a))"
  by (simp add: io_catch_def)

lemma io_then_eq_Inr:
  "io_then c f w = (w2, Inr b) \<longleftrightarrow> (\<exists>w1 a. c w = (w1, Inr a) \<and> f a w1 = (w2, Inr b))"
  by (auto simp: io_then_def io_bind_def split: prod.splits sum.splits)

lemma io_then_return [simp]: "io_then (io_return a) f = f a"
  by (simp add: io_then_def io_bind_def fun_eq_iff)

lemma io_then_throw [simp]: "io_then (io_throw e) f = io_throw e"
  by (simp add: io_then_def io_bind_def fun_eq_iff)

lemma io_then_assoc: "io_then (io_then c f) g = io_then c (\<lambda>a. io_then (f a) g)"
  by (auto simp: io_then_def io_bind_def fun_eq_iff split: prod.splits sum.splits)

end
