(* ===== verification/EthFilter.thy ===== *)
theory EthFilter
  imports EthCommon Effects
begin

text \<open>
  The filters of \<open>eth_newFilter\<close> and its relatives (\<open>lib/services/ethService/ethFilterService/FilterService.ts\<close>). A
  filter lives in the shared cache as a JavaScript object of its type, its parameters and the block number
  from which the next poll reads on. The cache client is any value of \<open>cache_client\<close>; \<open>now\<close> is the time of the
  call, and the mirror node answers a call from one moment.
\<close>

section \<open>Filters in the cache\<close>

record filter_config =
  ft_enabled :: bool
  ft_ttl :: int
  ft_common :: common_config

definition getCacheKey :: "string \<Rightarrow> string" where
  "getCacheKey filterId = ''filterId_'' @ filterId"

definition filter_object :: "string \<Rightarrow> jv \<Rightarrow> jv \<Rightarrow> jv" where
  "filter_object type params lastQueried = JObject [(''type'', JString type), (''params'', params), (''lastQueried'', lastQueried)]"

definition updateFilterCache ::
    "'s cache_client \<Rightarrow> filter_config \<Rightarrow> int \<Rightarrow> string \<Rightarrow> string \<Rightarrow> jv \<Rightarrow> jv \<Rightarrow> 's \<Rightarrow> 's \<times> (thrown + unit)" where
  "updateFilterCache client cfg now filterId type params lastQueried s =
     io_cache (c_set client now (getCacheKey filterId) (filter_object type params lastQueried) (Some (ft_ttl cfg)) s)"

definition getFilterFromCache :: "'s cache_client \<Rightarrow> int \<Rightarrow> string \<Rightarrow> 's \<Rightarrow> 's \<times> (thrown + jv)" where
  "getFilterFromCache client now filterId s = io_cache (c_get client now (getCacheKey filterId) s)"

text \<open>\<open>filterId\<close> is what \<open>generateRandomHex\<close> draws.\<close>

definition createFilter ::
    "'s cache_client \<Rightarrow> filter_config \<Rightarrow> int \<Rightarrow> string \<Rightarrow> string \<Rightarrow> jv \<Rightarrow> 's \<Rightarrow> 's \<times> (thrown + string)" where
  "createFilter client cfg now filterId type params s =
     io_bind (updateFilterCache client cfg now filterId type params JNullV s) (\<lambda>_ s1. (s1, Inr filterId))"

definition requireFiltersEnabled :: "filter_config \<Rightarrow> thrown + unit" where
  "requireFiltersEnabled cfg = (if ft_enabled cfg then Inr () else Inl (json_error_thrown UNSUPPORTED_METHOD))"

section \<open>Parameters\<close>

text \<open>The shared services read validated parameters: texts, lists of texts, or nothing.\<close>

definition block_ref_of :: "jv \<Rightarrow> block_ref" where
  "block_ref_of v = (case v of JString s \<Rightarrow> Tag s | JNumV n \<Rightarrow> BlockNum n | _ \<Rightarrow> NoBlock)"

definition address_of :: "jv \<Rightarrow> log_address" where
  "address_of v = (case v of JString s \<Rightarrow> OneAddress s | JArray xs \<Rightarrow> Addresses (map js_String xs) | _ \<Rightarrow> NoAddress)"

definition topic_of :: "jv \<Rightarrow> topic_arg" where
  "topic_of v = (case v of JString s \<Rightarrow> TopicStr s | JArray xs \<Rightarrow> TopicList (map js_String xs) | _ \<Rightarrow> NilTopic)"

definition topics_of :: "jv \<Rightarrow> topic_arg list option" where
  "topics_of v = (case v of JArray xs \<Rightarrow> Some (map topic_of xs) | _ \<Rightarrow> None)"

definition js_or :: "jv \<Rightarrow> jv \<Rightarrow> jv" where
  "js_or a b = (if truthy a then a else b)"

definition default_latest :: "jv \<Rightarrow> jv" where
  "default_latest v = (if v = JUndefined then JString ''latest'' else v)"

text \<open>NaN is as falsy as the null that JSON makes of it.\<close>

definition number_jv :: "int option \<Rightarrow> jv" where
  "number_jv n = (case n of Some i \<Rightarrow> JNumV i | None \<Rightarrow> JNullV)"

section \<open>The methods\<close>

definition rethrow :: "'s \<times> (thrown + 'a) \<Rightarrow> 's \<times> (thrown + 'a)" where
  "rethrow x = (fst x, case snd x of Inl e \<Rightarrow> Inl (genericErrorHandler e) | Inr v \<Rightarrow> Inr v)"

definition newFilter ::
    "'s cache_client \<Rightarrow> filter_config \<Rightarrow> mirror \<Rightarrow> int \<Rightarrow> string \<Rightarrow> jv \<Rightarrow> 's \<Rightarrow> 's \<times> (thrown + string)" where
  "newFilter client cfg m now filterId params s = rethrow (
     io_bind (s, requireFiltersEnabled cfg) (\<lambda>_ s1.
     let fromBlock = default_latest (js_get params ''fromBlock''); toBlock = default_latest (js_get params ''toBlock'')
     in io_bind (s1, validateBlockRange m (ft_common cfg) (block_ref_of fromBlock) (block_ref_of toBlock)) (\<lambda>_ s2.
     io_bind (s2, if fromBlock = JString ''latest'' then map_sum id JString (getLatestBlockNumber m) else Inr fromBlock) (\<lambda>from_block s3.
     createFilter client cfg now filterId ''log'' (JObject [(''fromBlock'', from_block), (''toBlock'', toBlock),
       (''address'', js_get params ''address''), (''topics'', js_get params ''topics'')]) s3))))"

definition newBlockFilter ::
    "'s cache_client \<Rightarrow> filter_config \<Rightarrow> mirror \<Rightarrow> int \<Rightarrow> string \<Rightarrow> 's \<Rightarrow> 's \<times> (thrown + string)" where
  "newBlockFilter client cfg m now filterId s =
     io_bind (s, requireFiltersEnabled cfg) (\<lambda>_ s1.
     io_bind (s1, getLatestBlockNumber m) (\<lambda>blockAtCreation s2.
     createFilter client cfg now filterId ''newBlock'' (JObject [(''blockAtCreation'', JString blockAtCreation)]) s2))"

definition uninstallFilter :: "'s cache_client \<Rightarrow> filter_config \<Rightarrow> int \<Rightarrow> string \<Rightarrow> 's \<Rightarrow> 's \<times> (thrown + bool)" where
  "uninstallFilter client cfg now filterId s =
     io_bind (s, requireFiltersEnabled cfg) (\<lambda>_ s1.
     io_bind (getFilterFromCache client now filterId s1) (\<lambda>stored s2.
       if truthy stored
       then io_bind (io_cache (c_delete client now (getCacheKey filterId) s2)) (\<lambda>_ s3. (s3, Inr True))
       else (s2, Inr False)))"

definition filter_logs :: "filter_config \<Rightarrow> mirror \<Rightarrow> jv \<Rightarrow> jv \<Rightarrow> thrown + eth_log list" where
  "filter_logs cfg m fromBlock params = getLogs m (ft_common cfg) None (block_ref_of fromBlock) (block_ref_of (js_get params ''toBlock''))
     (address_of (js_get params ''address'')) (topics_of (js_get params ''topics''))"

definition getFilterLogs ::
    "'s cache_client \<Rightarrow> filter_config \<Rightarrow> mirror \<Rightarrow> int \<Rightarrow> string \<Rightarrow> 's \<Rightarrow> 's \<times> (thrown + eth_log list)" where
  "getFilterLogs client cfg m now filterId s =
     io_bind (s, requireFiltersEnabled cfg) (\<lambda>_ s1.
     io_bind (getFilterFromCache client now filterId s1) (\<lambda>stored s2.
       if js_get stored ''type'' \<noteq> JString ''log'' then (s2, Inl (json_error_thrown FILTER_NOT_FOUND))
       else let params = js_get stored ''params'' in
         io_bind (s2, filter_logs cfg m (js_get params ''fromBlock'') params) (\<lambda>logs s3.
         io_bind (updateFilterCache client cfg now filterId ''log'' params (js_get stored ''lastQueried'') s3) (\<lambda>_ s4.
           (s4, Inr logs)))))"

definition handleLogFilterChanges :: "filter_config \<Rightarrow> mirror \<Rightarrow> jv \<Rightarrow> thrown + eth_log list \<times> int option" where
  "handleLogFilterChanges cfg m stored =
     (let params = js_get stored ''params'' in
      res_bind (filter_logs cfg m (js_or (js_get stored ''lastQueried'') (js_get params ''fromBlock'')) params) (\<lambda>result.
      res_bind (if result \<noteq> [] then Inr (lg_blockNumber (last result)) else getLatestBlockNumber m) (\<lambda>n.
        Inr (result, map_option (\<lambda>i. i + 1) (Number_str n)))))"

definition handleNewBlockFilterChanges :: "mirror \<Rightarrow> jv \<Rightarrow> thrown + string list \<times> int option" where
  "handleNewBlockFilterChanges m stored =
     (let bound = js_or (js_get stored ''lastQueried'') (js_get (js_get stored ''params'') ''blockAtCreation'')
      in res_bind (mn_getBlocks m (''gt:'' @ js_String bound)) (\<lambda>blockResponse.
      res_bind (case blockResponse of
          Some (b # bs) \<Rightarrow> Inr (Some (bk_number (last (b # bs))))
        | _ \<Rightarrow> map_sum id Number_str (getLatestBlockNumber m)) (\<lambda>latestBlockNumber.
        Inr (case blockResponse of Some bs \<Rightarrow> map (\<lambda>b. toHash32 (bk_hash b)) bs | None \<Rightarrow> [], latestBlockNumber))))"

datatype filter_changes = NewHashes "string list" | NewLogs "eth_log list"

definition getFilterChanges ::
    "'s cache_client \<Rightarrow> filter_config \<Rightarrow> mirror \<Rightarrow> int \<Rightarrow> string \<Rightarrow> 's \<Rightarrow> 's \<times> (thrown + filter_changes)" where
  "getFilterChanges client cfg m now filterId s =
     io_bind (s, requireFiltersEnabled cfg) (\<lambda>_ s1.
     io_bind (getFilterFromCache client now filterId s1) (\<lambda>stored s2.
       if \<not> truthy stored then (s2, Inl (json_error_thrown FILTER_NOT_FOUND))
       else let type = js_get stored ''type'' in
       io_bind (s2, if type = JString ''log''
           then map_sum id (\<lambda>(r, n). (NewLogs r, n)) (handleLogFilterChanges cfg m stored)
           else if type = JString ''newBlock''
           then map_sum id (\<lambda>(r, n). (NewHashes r, n)) (handleNewBlockFilterChanges m stored)
           else Inl (json_error_thrown UNSUPPORTED_METHOD)) (\<lambda>(result, latestBlockNumber) s3.
       io_bind (updateFilterCache client cfg now filterId (js_String type) (js_get stored ''params'') (number_jv latestBlockNumber) s3)
         (\<lambda>_ s4. (s4, Inr result)))))"

section \<open>What a cache of filters promises\<close>

text \<open>
  Beyond the contract of the decorator: a write replaces the entry and is read back within its time to live, and a deleted entry is gone.
\<close>

locale filter_store = cache_contract client stored storable
  for client :: "'s cache_client" and stored :: "'s \<Rightarrow> string \<Rightarrow> jv option" and storable :: "jv \<Rightarrow> bool" +
  assumes set_replaces: "c_set client now key v t s = (s', u) \<Longrightarrow> stored s' key \<in> {None, Some v}"
    and set_read: "0 < life \<Longrightarrow> c_set client now key v (Some life) s = (s', u) \<Longrightarrow> now' \<le> now + life \<Longrightarrow> snd (c_get client now' key s') = Inr v"
    and delete_removes: "c_delete client now key s = (s', d) \<Longrightarrow> d = Inr () \<and> stored s' key = None"
    and cannot_fail: "never_fails client"

text \<open>A run of polls of one filter; before every poll the cache is put to other uses.\<close>

fun poll_filter ::
    "'s cache_client \<Rightarrow> filter_config \<Rightarrow> string \<Rightarrow> (('s \<Rightarrow> 's) \<times> mirror \<times> int) list \<Rightarrow> 's \<Rightarrow> (thrown + filter_changes) list" where
  "poll_filter client cfg filterId [] s = []"
| "poll_filter client cfg filterId ((other, m, now) # polls) s =
     (let (s', r) = getFilterChanges client cfg m now filterId (other s) in r # poll_filter client cfg filterId polls s')"

text \<open>
  A mirror node that has the blocks of a chain up to a height, and answers a query for blocks with a page of them.
\<close>

definition serves :: "(int \<Rightarrow> block) \<Rightarrow> int \<Rightarrow> int \<Rightarrow> mirror \<Rightarrow> bool" where
  "serves chain page h m \<longleftrightarrow> getLatestBlockNumber m = Inr (numberTo0x h) \<and>
     (\<forall>t x. Number_str t = Some x \<longrightarrow> mn_getBlocks m (''gt:'' @ t) = Inr (Some (map chain [x + 1..min h (x + page)])))"

definition hashes_of :: "(int \<Rightarrow> block) \<Rightarrow> int \<Rightarrow> int \<Rightarrow> string list" where
  "hashes_of chain a b = map (\<lambda>n. toHash32 (bk_hash (chain n))) [a..b]"

fun reported :: "(thrown + filter_changes) list \<Rightarrow> string list" where
  "reported [] = []"
| "reported (Inr (NewHashes hs) # rs) = hs @ reported rs"
| "reported (_ # rs) = reported rs"

text \<open>The entry of a filter that was created at height \<open>h\<close> and has reported every block from there up to \<open>q\<close>.\<close>

definition block_filter_at :: "int \<Rightarrow> int \<Rightarrow> jv \<Rightarrow> bool" where
  "block_filter_at h q v \<longleftrightarrow> h \<le> q \<and> (\<exists>l. (l = JNullV \<and> q = h \<or> l = JNumV q) \<and>
     v = filter_object ''newBlock'' (JObject [(''blockAtCreation'', JString (numberTo0x h))]) l)"

lemma Number_decimal:
  assumes "0 \<le> n" "n < 2 ^ 53"
  shows "Number_str (int_str 10 n) = Some n"
proof -
  have "BigInt_str (to_dec (nat n)) = Some n" using BigInt_str_dec [of "nat n"] assms(1) by simp
  then show ?thesis using assms double_of_int_exact [of n] by (simp add: Number_str_def int_str_def)
qed

lemma block_filter_bound:
  assumes "block_filter_at h q v" "0 \<le> h" "q < 2 ^ 53"
  shows "Number_str (js_String (js_or (js_get v ''lastQueried'') (js_get (js_get v ''params'') ''blockAtCreation''))) = Some q"
    and "truthy v" and "js_get v ''type'' = JString ''newBlock''"
    and "q \<le> n \<Longrightarrow> block_filter_at h n (filter_object ''newBlock'' (js_get v ''params'') (JNumV n))"
proof -
  have "h < 2 ^ 53" using assms by (simp add: block_filter_at_def)
  then have "Number_str (numberTo0x h) = Some h" using assms(2) double_of_int_exact [of h] by (simp add: Number_numberTo0x)
  then show "Number_str (js_String (js_or (js_get v ''lastQueried'') (js_get (js_get v ''params'') ''blockAtCreation''))) = Some q"
    using assms by (auto simp: block_filter_at_def filter_object_def js_get_JObject js_or_def Number_decimal)
qed (use assms in \<open>auto simp: block_filter_at_def filter_object_def js_get_JObject\<close>)

lemma block_changes:
  assumes at: "block_filter_at h q v" "0 \<le> h" "q \<le> tip" "tip < 2 ^ 53" and m: "serves chain page tip m" "0 < page"
    and chain: "\<forall>n. bk_number (chain n) = n"
  shows "handleNewBlockFilterChanges m v = Inr (hashes_of chain (q + 1) (min tip (q + page)), Some (min tip (q + page)))"
proof -
  let ?bs = "map chain [q + 1..min tip (q + page)]"
  have "Number_str (js_String (js_or (js_get v ''lastQueried'') (js_get (js_get v ''params'') ''blockAtCreation''))) = Some q"
    using block_filter_bound(1) at by simp
  then have blocks: "mn_getBlocks m (''gt:'' @ js_String (js_or (js_get v ''lastQueried'') (js_get (js_get v ''params'') ''blockAtCreation''))) =
      Inr (Some ?bs)" using m(1) by (simp add: serves_def)
  have latest: "getLatestBlockNumber m = Inr (numberTo0x tip)" using m(1) by (simp add: serves_def)
  have number: "Number_str (numberTo0x tip) = Some tip" using at double_of_int_exact [of tip] block_filter_at_def [of h q v]
    by (simp add: Number_numberTo0x)
  show ?thesis
  proof (cases "q < tip")
    case True
    then have "?bs \<noteq> []" "last ?bs = chain (min tip (q + page))" using m(2) by (auto simp: last_map upto_rec2)
    then show ?thesis
      using blocks chain by (cases ?bs) (auto simp: handleNewBlockFilterChanges_def Let_def hashes_of_def comp_def)
  next
    case False
    then have "q = tip" using at by simp
    then show ?thesis using blocks latest number m(2) by (simp add: handleNewBlockFilterChanges_def Let_def hashes_of_def)
  qed
qed

lemma hashes_of_append: "q \<le> n \<Longrightarrow> n \<le> k \<Longrightarrow> hashes_of chain (q + 1) n @ hashes_of chain (n + 1) k = hashes_of chain (q + 1) k"
  using upto_split1 [of "q + 1" "n + 1" k] by (cases "n = k") (simp_all add: hashes_of_def flip: map_append)

context filter_store
begin

lemma one_poll:
  assumes poll: "getFilterChanges client cfg m now filterId s = (s', r)" and on: "ft_enabled cfg"
    and held: "\<forall>v. stored s (getCacheKey filterId) = Some v \<longrightarrow> block_filter_at h q v"
    and nums: "0 \<le> h" "h \<le> q" "q \<le> tip" "tip < 2 ^ 53" and m: "serves chain page tip m" "0 < page"
    and chain: "\<forall>n. bk_number (chain n) = n"
  shows "(r = Inl (json_error_thrown FILTER_NOT_FOUND) \<and> (\<forall>v. stored s' (getCacheKey filterId) = Some v \<longrightarrow> block_filter_at h q v)) \<or>
    (r = Inr (NewHashes (hashes_of chain (q + 1) (min tip (q + page)))) \<and>
     (\<forall>v. stored s' (getCacheKey filterId) = Some v \<longrightarrow> block_filter_at h (min tip (q + page)) v))"
proof -
  let ?key = "getCacheKey filterId"
  obtain s1 v where get: "c_get client now ?key s = (s1, Inr v)" using cannot_fail unfolding never_fails_def by blast
  have keep: "\<forall>x. stored s1 ?key = Some x \<longrightarrow> block_filter_at h q x" using get_keeps [OF get] held by blast
  show ?thesis
  proof (cases "truthy v")
    case False
    then show ?thesis
      using poll on get keep by (simp add: getFilterChanges_def requireFiltersEnabled_def io_bind_def getFilterFromCache_def io_cache_def other_error_def)
  next
    case True
    then have v: "block_filter_at h q v" using get_holds [OF get] held by auto
    have "q < 2 ^ 53" using nums by simp
    note parts = block_filter_bound [OF v nums(1) this]
    let ?n = "min tip (q + page)"
    let ?new = "filter_object ''newBlock'' (js_get v ''params'') (JNumV ?n)"
    obtain s2 where set: "c_set client now ?key ?new (Some (ft_ttl cfg)) s1 = (s2, Inr ())"
      using cannot_fail unfolding never_fails_def by blast
    have "getFilterChanges client cfg m now filterId s = (s2, Inr (NewHashes (hashes_of chain (q + 1) ?n)))"
      using on get True parts(3) block_changes [OF v nums(1,3,4) m chain] set
      by (simp add: getFilterChanges_def requireFiltersEnabled_def io_bind_def getFilterFromCache_def io_cache_def other_error_def
          updateFilterCache_def number_jv_def)
    moreover have "q \<le> ?n" using nums m(2) by simp
    then have "block_filter_at h ?n ?new" by (rule parts(4))
    then have "\<forall>x. stored s2 ?key = Some x \<longrightarrow> block_filter_at h ?n x" using set_replaces [OF set] by auto
    ultimately show ?thesis using poll by simp
  qed
qed

lemma all_polls:
  assumes "ft_enabled cfg" and "0 \<le> h" and "h \<le> q" and "0 < page" and "\<forall>n. bk_number (chain n) = n"
    and "\<forall>v. stored s (getCacheKey filterId) = Some v \<longrightarrow> block_filter_at h q v"
    and "\<forall>(other, m, now) \<in> set polls. \<forall>s. stored (other s) (getCacheKey filterId) \<in> {None, stored s (getCacheKey filterId)}"
    and "list_all2 (\<lambda>(other, m, now) tip. tip < 2 ^ 53 \<and> serves chain page tip m) polls tips" and "sorted (q # tips)"
  shows "\<exists>k. q \<le> k \<and> k \<le> last (q # tips) \<and> reported (poll_filter client cfg filterId polls s) = hashes_of chain (q + 1) k \<and>
    (\<forall>e. Inl e \<in> set (poll_filter client cfg filterId polls s) \<longrightarrow> e = json_error_thrown FILTER_NOT_FOUND)"
  using assms(3,6-)
proof (induction polls arbitrary: q s tips)
  case Nil
  then show ?case by (auto simp: hashes_of_def)
next
  case (Cons p polls)
  obtain other m now where p: "p = (other, m, now)" by (cases p)
  obtain tip rest where tips: "tips = tip # rest" and tip: "tip < 2 ^ 53" "serves chain page tip m" "q \<le> tip"
    and rest: "list_all2 (\<lambda>(other, m, now) tip. tip < 2 ^ 53 \<and> serves chain page tip m) polls rest"
    using Cons.prems(4,5) p by (auto simp: list_all2_Cons1)
  obtain s' r where poll: "getFilterChanges client cfg m now filterId (other s) = (s', r)" by fastforce
  have "stored (other s) (getCacheKey filterId) \<in> {None, stored s (getCacheKey filterId)}"
    using Cons.prems(3) by (simp add: p)
  then have held: "\<forall>v. stored (other s) (getCacheKey filterId) = Some v \<longrightarrow> block_filter_at h q v"
    using Cons.prems(2) by (metis insertE option.distinct(1) singletonD)
  let ?n = "min tip (q + page)"
  have sorted: "sorted (q # rest)" "sorted (?n # rest)" "h \<le> ?n" "q \<le> ?n" using Cons.prems(1,5) tips assms(4) by auto
  have bound: "last (q # rest) \<le> last (q # tips)" "last (?n # rest) \<le> last (q # tips)" using tips tip(3) by (auto split: if_splits)
  consider (lost) "r = Inl (json_error_thrown FILTER_NOT_FOUND)" "\<forall>v. stored s' (getCacheKey filterId) = Some v \<longrightarrow> block_filter_at h q v"
    | (found) "r = Inr (NewHashes (hashes_of chain (q + 1) ?n))" "\<forall>v. stored s' (getCacheKey filterId) = Some v \<longrightarrow> block_filter_at h ?n v"
    using one_poll [OF poll assms(1) held assms(2) Cons.prems(1) tip(3,1,2) assms(4,5)] by blast
  then show ?case
  proof cases
    case lost
    obtain k where "q \<le> k" "k \<le> last (q # rest)" "reported (poll_filter client cfg filterId polls s') = hashes_of chain (q + 1) k"
      "\<forall>e. Inl e \<in> set (poll_filter client cfg filterId polls s') \<longrightarrow> e = json_error_thrown FILTER_NOT_FOUND"
      using Cons.IH [OF Cons.prems(1) lost(2) _ rest sorted(1)] Cons.prems(3) by auto
    then show ?thesis using lost(1) poll p bound by (intro exI [of _ k]) auto
  next
    case found
    obtain k where "?n \<le> k" "k \<le> last (?n # rest)" "reported (poll_filter client cfg filterId polls s') = hashes_of chain (?n + 1) k"
      "\<forall>e. Inl e \<in> set (poll_filter client cfg filterId polls s') \<longrightarrow> e = json_error_thrown FILTER_NOT_FOUND"
      using Cons.IH [OF sorted(3) found(2) _ rest sorted(2)] Cons.prems(3) by auto
    moreover have "hashes_of chain (q + 1) ?n @ hashes_of chain (?n + 1) k = hashes_of chain (q + 1) k"
      using hashes_of_append [of q ?n k chain] calculation(1) sorted(4) by simp
    ultimately show ?thesis using found(1) poll p bound sorted(4) by (intro exI [of _ k]) auto
  qed
qed

end

text \<open>The in-memory cache is such a store.\<close>

sublocale local_caches \<subseteq> store: filter_store "local_client opts" "stored_local entries opts" "\<lambda>_. True"
proof unfold_locales
  show "never_fails (local_client opts)" by (rule local_never_fails)
  show "stored_local entries opts s' key \<in> {None, Some v}" if "c_set (local_client opts) now key v t s = (s', u)" for now key v t s s' u
    using that lru_set [of now "prefixKey key" v]
    by (auto simp: local_client_def local_set_def local_set_ttl_def stored_local_def instance_put Let_def)
  show "snd (c_get (local_client opts) now' key s') = Inr v"
    if "0 < life" "c_set (local_client opts) now key v (Some life) s = (s', u)" "now' \<le> now + life" for now key v life s s' u now'
  proof -
    have s': "entries (getCacheInstance opts key s') (prefixKey key) = Some (v, Some (now + life))"
      using that lru_set [of now "prefixKey key" v]
      by (auto simp: local_client_def local_set_def local_set_ttl_def instance_put Let_def positive_ttl_def expiry_def)
    obtain s2 x where get: "local_get opts now' key s' = (s2, x)" by fastforce
    show ?thesis using local_get_result(1) [OF get] s' that(3) by (simp add: local_client_def get entry_live_def)
  qed
  show "d = Inr () \<and> stored_local entries opts s' key = None"
    if "c_delete (local_client opts) now key s = (s', d)" for now key s s' d
    using that lru_delete [of "prefixKey key"] by (auto simp: local_client_def local_delete_def stored_local_def instance_put)
qed

context local_caches
begin

lemma local_store: "filter_store (local_client opts) (stored_local entries opts) (\<lambda>_. True)"
  by (rule store.filter_store_axioms)

end

lemma createFilter_set:
  assumes "createFilter client cfg now filterId type params s0 = (s, r)"
  shows "\<exists>u. c_set client now (getCacheKey filterId) (filter_object type params JNullV) (Some (ft_ttl cfg)) s0 = (s, u)"
  using assms
  by (cases "c_set client now (getCacheKey filterId) (filter_object type params JNullV) (Some (ft_ttl cfg)) s0")
    (auto simp: createFilter_def updateFilterCache_def io_bind_def io_cache_def split: sum.splits)


text \<open>A filter lives from its creation to its removal: a filter just created is found by an uninstall within its time to live, which
  answers true; after it, uninstalling again answers false, and polling the filter or reading its logs answers that there is no such filter.\<close>

lemma filter_lifecycle:
  assumes "local_caches opts entries cap" and "ft_enabled cfg" and "0 < ft_ttl cfg" and "now' \<le> now + ft_ttl cfg"
    and "createFilter (local_client opts) cfg now filterId type params s0 = (s, Inr filterId)"
  shows "\<exists>s'. uninstallFilter (local_client opts) cfg now' filterId s = (s', Inr True) \<and>
    snd (uninstallFilter (local_client opts) cfg later filterId s') = Inr False \<and>
    snd (getFilterChanges (local_client opts) cfg m later filterId s') = Inl (json_error_thrown FILTER_NOT_FOUND) \<and>
    snd (getFilterLogs (local_client opts) cfg m later filterId s') = Inl (json_error_thrown FILTER_NOT_FOUND)"
proof -
  have store: "filter_store (local_client opts) (stored_local entries opts) (\<lambda>_. True)"
    by (rule local_caches.local_store [OF assms(1)])
  let ?c = "local_client opts" and ?key = "getCacheKey filterId" and ?v = "filter_object type params JNullV"
  obtain u where set: "c_set ?c now ?key ?v (Some (ft_ttl cfg)) s0 = (s, u)"
    using createFilter_set [OF assms(5)] by blast
  obtain s1 where get: "c_get ?c now' ?key s = (s1, Inr ?v)"
    using filter_store.set_read [OF store assms(3) set assms(4)] by (metis surjective_pairing)
  obtain s2 d where del: "c_delete ?c now' ?key s1 = (s2, d)" by fastforce
  have gone: "d = Inr ()" "stored_local entries opts s2 ?key = None" using filter_store.delete_removes [OF store del] by auto
  obtain s3 x where later: "c_get ?c later ?key s2 = (s3, Inr x)"
    using local_never_fails [of opts] unfolding never_fails_def by blast
  have "x = JNullV"
    using cache_contract.get_holds [OF local_caches.local_contract [OF assms(1)] later] gone(2) by auto
  moreover have "uninstallFilter ?c cfg now' filterId s = (s2, Inr True)"
    using assms(2) get del gone(1)
    by (simp add: uninstallFilter_def requireFiltersEnabled_def io_bind_def getFilterFromCache_def io_cache_def other_error_def filter_object_def)
  ultimately show ?thesis
    using assms(2) later
    by (simp add: uninstallFilter_def getFilterChanges_def getFilterLogs_def requireFiltersEnabled_def io_bind_def getFilterFromCache_def
        io_cache_def other_error_def js_get_def)
qed

text \<open>
  A log filter with a fixed last block answers with an error once the block from which its next poll reads on lies behind
  that last block: after a poll without new logs this is the block after the latest one.
\<close>

lemma log_filter_past_its_end:
  assumes "js_get params ''toBlock'' = JString t" and "\<not> blockTagIsLatestOrPending (Tag t)" and "n \<noteq> 0"
    and "getLatestBlockNumber m = Inr l" and "getHistoricalBlockResponse m (cc_maxBlockRange (ft_common cfg)) (BlockNum n) True = Inr (Some fb)"
    and "getHistoricalBlockResponse m (cc_maxBlockRange (ft_common cfg)) (Tag t) True = Inr (Some tb)"
    and "bk_number tb < bk_number fb" and "ts_nanos (bk_to tb) \<le> ts_nanos (bk_from fb)"
  shows "filter_logs cfg m (JNumV n) params = Inl (json_error_thrown INVALID_BLOCK_RANGE)"
  using assms
  by (simp add: filter_logs_def getLogs_def WorkersPool_run_def worker_getLogs_def across_worker_def json_error_thrown_def validateBlockRangeAndAddTimestampToParams_def check_toBlock_def block_ref_of_def falsy_ref_def
      normal_fromBlock_def blockTagIsLatestOrPending_def check_range_def maxTimestampParamRange_def)

definition filters_on :: filter_config where
  "filters_on = \<lparr>ft_enabled = True, ft_ttl = 300000, ft_common = sample_common\<rparr>"

definition sample_chain :: "int \<Rightarrow> block" where
  "sample_chain n = sample_block n (dec n) (dec n)"

text \<open>A mirror node at a height, with pages of two blocks.\<close>

definition mirror_at :: "int \<Rightarrow> mirror" where
  "mirror_at h = sample_mirror\<lparr>mn_getLatestBlock := Inr (Some [sample_chain h]),
     mn_getBlocks := (\<lambda>bound. Inr (case Number_str (drop 3 bound) of
       Some x \<Rightarrow> Some (map sample_chain [x + 1..min h (x + 2)]) | None \<Rightarrow> None))\<rparr>"

lemma mirror_at_latest: "getLatestBlockNumber (mirror_at h) = Inr (numberTo0x h)"
  by (simp add: mirror_at_def getLatestBlockNumber_def sample_chain_def sample_block_def)

lemma mirror_at_serves: "serves sample_chain 2 h (mirror_at h)"
  by (simp add: serves_def mirror_at_latest) (simp add: mirror_at_def)

definition empty_cache :: "ref_lru local_cache" where
  "empty_cache = LocalLRUCache sample_opts"

lemma created:
  "createFilter (local_client sample_opts) filters_on 0 ''0xf1'' type params s =
     (local_set sample_opts 0 (getCacheKey ''0xf1'') (filter_object type params JNullV) (Some 300000) s, Inr ''0xf1'')"
  by (simp add: createFilter_def updateFilterCache_def io_bind_def io_cache_def other_error_def local_client_def filters_on_def)


lemma filter_lifecycle_witness:
  "\<exists>s s'. uninstallFilter (local_client sample_opts) filters_on 1000 ''0xf1'' s = (s', Inr True) \<and>
     snd (uninstallFilter (local_client sample_opts) filters_on 2000 ''0xf1'' s') = Inr False"
  using filter_lifecycle [OF ref_local.local_caches_axioms _ _ _ created, where now' = 1000 and later = 2000]
  by (simp add: filters_on_def) blast

end
