(* ===== verification/EthApi.thy ===== *)
theory EthApi
  imports EthCommon Effects
begin

text \<open>
  The \<open>eth_\<close> methods as the relay exposes them (\<open>lib/eth.ts\<close>): for each method its mark, its rules for the parameters, its
  layout and its cache, over the services that do the work. The services are functions on the state of the
  world; the shared cache and the list of executions the class announces are the state of this layer.
\<close>

section \<open>Operations\<close>

record 'w eth_state =
  es_world :: 'w
  es_executions :: "string list"

type_synonym ('s, 'w) eth_world = "'s \<times> 'w eth_state"

type_synonym 'w handler = "arg list \<Rightarrow> 'w \<Rightarrow> 'w \<times> (thrown + returned)"

text \<open>
  \<open>ee_service\<close> is the method of a service by its name. \<open>ee_object\<close> is the JavaScript value of an error object, and \<open>ee_error\<close> recognises
  one: an in-memory cache keeps the object, the Redis cache only its JSON.
\<close>

record ('s, 'w) eth_env =
  ee_service :: "string \<Rightarrow> 'w handler"
  ee_chain :: string
  ee_cache :: "'s cache_client"
  ee_now :: int
  ee_ttl :: int
  ee_object :: "relay_error \<Rightarrow> jv"
  ee_error :: "jv \<Rightarrow> relay_error option"

definition plain_operation :: "('w handler) \<Rightarrow> 'w operation" where
  "plain_operation f = \<lparr>op_name = [], op_is_rpc = False, op_rules = None, op_layout = DefaultLayout, op_run = f\<rparr>"

text \<open>A method that answers without a service.\<close>

definition constant_handler :: "returned \<Rightarrow> ('s, 'w) eth_world handler" where
  "constant_handler r = (\<lambda>args w. (w, Inr r))"

text \<open>A method that passes its first arguments on; a missing argument is undefined.\<close>

definition first_args :: "nat \<Rightarrow> arg list \<Rightarrow> arg list" where
  "first_args n args = take n (args @ replicate n (RpcParam JUndefined))"

definition delegate_to :: "('s, 'w) eth_env \<Rightarrow> string \<Rightarrow> nat \<Rightarrow> ('s, 'w) eth_world handler" where
  "delegate_to env name n = (\<lambda>args (s, e). let (w, r) = ee_service env name (first_args n args) (es_world e) in ((s, e\<lparr>es_world := w\<rparr>), r))"

text \<open>The cache decorator around a method: a returned error object is a value like any other.\<close>

definition value_of :: "('s, 'w) eth_env \<Rightarrow> returned \<Rightarrow> jv" where
  "value_of env r = (case r of Value v \<Rightarrow> v | ErrorValue e \<Rightarrow> ee_object env e)"

definition returned_of :: "('s, 'w) eth_env \<Rightarrow> jv \<Rightarrow> returned" where
  "returned_of env v = (case ee_error env v of Some e \<Rightarrow> ErrorValue e | None \<Rightarrow> Value v)"

definition cached_handler ::
    "('s, 'w) eth_env \<Rightarrow> cache_options \<Rightarrow> string \<Rightarrow> (arg list \<Rightarrow> 'w eth_state \<Rightarrow> 'w eth_state \<times> (thrown + returned)) \<Rightarrow>
     ('s, 'w) eth_world handler" where
  "cached_handler env opts name f = (\<lambda>args sw.
     let (sw', r) = cache_decorator (ee_cache env) opts (ee_ttl env) name
           (\<lambda>args e. let (e', r) = f args e in (e', map_sum id (value_of env) r)) (ee_now env) args sw
     in (sw', map_sum id (returned_of env) r))"

definition uncached :: "('s, 'w) eth_env \<Rightarrow> string \<Rightarrow> nat \<Rightarrow> arg list \<Rightarrow> 'w eth_state \<Rightarrow> 'w eth_state \<times> (thrown + returned)" where
  "uncached env name n = (\<lambda>args e. let (w, r) = ee_service env name (first_args n args) (es_world e) in (e\<lparr>es_world := w\<rparr>, r))"

definition NON_CACHABLE_BLOCK_PARAMS :: string where
  "NON_CACHABLE_BLOCK_PARAMS = ''latest|pending|finalized|safe''"

definition always_cached :: cache_options where
  "always_cached = \<lparr>co_skipParams = [], co_skipNamedParams = [], co_ttl = None\<rparr>"

definition unless_head :: "nat \<Rightarrow> cache_options" where
  "unless_head i = always_cached\<lparr>co_skipParams := [(i, NON_CACHABLE_BLOCK_PARAMS)]\<rparr>"

definition required :: "param_type \<Rightarrow> param_validation" where
  "required t = \<lparr>pv_type = OneType t, pv_required = True\<rparr>"

definition optional :: "param_type \<Rightarrow> param_validation" where
  "optional t = \<lparr>pv_type = OneType t, pv_required = False\<rparr>"

definition required_block :: param_validation where
  "required_block = \<lparr>pv_type = AnyOf [T_blockNumber, T_blockHash], pv_required = True\<rparr>"

definition nth_jv :: "jv list \<Rightarrow> nat \<Rightarrow> jv" where
  "nth_jv ps i = (if i < length ps then ps ! i else JUndefined)"

text \<open>A method without parameters that has an answer of its own.\<close>

definition answering :: "returned \<Rightarrow> ('s, 'w) eth_world operation" where
  "answering r = rpcMethod (rpcParamLayoutConfig REQUEST_DETAILS_ONLY (plain_operation (constant_handler r)))"

definition unsupported :: "('s, 'w) eth_world operation" where
  "unsupported = answering (ErrorValue (JsonRpcErr UNSUPPORTED_METHOD))"

text \<open>A method without parameters of a service.\<close>

definition asking :: "('s, 'w) eth_env \<Rightarrow> string \<Rightarrow> ('s, 'w) eth_world operation" where
  "asking env name = rpcMethod (rpcParamLayoutConfig REQUEST_DETAILS_ONLY (plain_operation (delegate_to env name 1)))"

text \<open>A method with parameters of a service, which gets them and the request details.\<close>

definition calling :: "('s, 'w) eth_env \<Rightarrow> string \<Rightarrow> param_validation list \<Rightarrow> ('s, 'w) eth_world operation" where
  "calling env name rules = rpcMethod (rpcParamValidationRules (zip [0..<length rules] rules)
     (plain_operation (delegate_to env name (length rules + 1))))"

definition calling_cached ::
    "('s, 'w) eth_env \<Rightarrow> string \<Rightarrow> string \<Rightarrow> param_validation list \<Rightarrow> cache_options \<Rightarrow> ('s, 'w) eth_world operation" where
  "calling_cached env method name rules opts = rpcMethod (rpcParamValidationRules (zip [0..<length rules] rules)
     (plain_operation (cached_handler env opts method (uncached env name (length rules + 1)))))"

section \<open>The methods\<close>

definition eth_accounts :: "('s, 'w) eth_world operation" where
  "eth_accounts = answering (Value (JArray []))"

text \<open>The number of blocks is converted before the call.\<close>

definition eth_feeHistory :: "('s, 'w) eth_env \<Rightarrow> ('s, 'w) eth_world operation" where
  "eth_feeHistory env = rpcMethod (rpcParamValidationRules [(0, required T_hex), (1, required T_blockNumber), (2, optional T_array)]
     (rpcParamLayoutConfig (Custom (\<lambda>params. [case Number_str (js_String (nth_jv params 0)) of Some n \<Rightarrow> JNumV n | None \<Rightarrow> JNullV,
         nth_jv params 1, nth_jv params 2]))
       (plain_operation (cached_handler env ((unless_head 1)\<lparr>co_ttl := Some 900000\<rparr>) ''feeHistory'' (uncached env ''feeService.feeHistory'' 4)))))"

definition eth_blockNumber :: "('s, 'w) eth_env \<Rightarrow> ('s, 'w) eth_world operation" where
  "eth_blockNumber env = asking env ''common.getLatestBlockNumber''"

definition eth_chainId :: "('s, 'w) eth_env \<Rightarrow> ('s, 'w) eth_world operation" where
  "eth_chainId env = answering (Value (JString (ee_chain env)))"

text \<open>Empty call data is removed; calls with a selector are announced.\<close>

definition without_empty_data :: "jv \<Rightarrow> jv" where
  "without_empty_data transaction = (if js_get transaction ''data'' = JString ''0x'' then js_delete [''data''] transaction else transaction)"

definition eth_estimateGas :: "('s, 'w) eth_env \<Rightarrow> ('s, 'w) eth_world operation" where
  "eth_estimateGas env = rpcMethod (rpcParamValidationRules [(0, required T_transaction), (1, optional T_blockNumber)]
     (rpcParamLayoutConfig (Custom (\<lambda>params. [nth_jv params 0, nth_jv params 1]))
       (plain_operation (\<lambda>args (s, e). case first_args 3 args of
           RpcParam transaction # rest \<Rightarrow>
             (let transaction' = without_empty_data transaction;
                  callData = (if truthy (js_get transaction' ''data'') then js_get transaction' ''data'' else js_get transaction' ''input'');
                  size = (case js_length callData of Some n \<Rightarrow> n | None \<Rightarrow> 0);
                  e1 = (if size \<ge> 10 then e\<lparr>es_executions := es_executions e @ [''eth_estimateGas'']\<rparr> else e);
                  (e2, r) = uncached env ''contractService.estimateGas'' 3 (RpcParam transaction' # rest) e1
              in ((s, e2), r))
         | _ \<Rightarrow> ((s, e), Inl (OtherError None))))))"

definition eth_gasPrice :: "('s, 'w) eth_env \<Rightarrow> ('s, 'w) eth_world operation" where
  "eth_gasPrice env = asking env ''common.gasPrice''"

definition eth_mining :: "('s, 'w) eth_world operation" where
  "eth_mining = answering (Value (JBool False))"

definition eth_newFilter :: "('s, 'w) eth_env \<Rightarrow> ('s, 'w) eth_world operation" where
  "eth_newFilter env = calling env ''filterService.newFilter'' [required T_filter]"

definition eth_getFilterLogs :: "('s, 'w) eth_env \<Rightarrow> ('s, 'w) eth_world operation" where
  "eth_getFilterLogs env = calling env ''filterService.getFilterLogs'' [required T_hex]"

definition eth_getFilterChanges :: "('s, 'w) eth_env \<Rightarrow> ('s, 'w) eth_world operation" where
  "eth_getFilterChanges env = calling env ''filterService.getFilterChanges'' [required T_hex]"

definition eth_newBlockFilter :: "('s, 'w) eth_env \<Rightarrow> ('s, 'w) eth_world operation" where
  "eth_newBlockFilter env = asking env ''filterService.newBlockFilter''"

definition eth_uninstallFilter :: "('s, 'w) eth_env \<Rightarrow> ('s, 'w) eth_world operation" where
  "eth_uninstallFilter env = rpcMethod (rpcParamValidationRules [(0, required T_hex)]
     (plain_operation (delegate_to env ''filterService.uninstallFilter'' 1)))"

definition eth_newPendingTransactionFilter :: "('s, 'w) eth_world operation" where
  "eth_newPendingTransactionFilter = unsupported"

definition eth_submitWork :: "('s, 'w) eth_world operation" where
  "eth_submitWork = answering (Value (JBool False))"

definition eth_syncing :: "('s, 'w) eth_world operation" where
  "eth_syncing = answering (Value (JBool False))"

definition eth_getUncleByBlockHashAndIndex :: "('s, 'w) eth_world operation" where
  "eth_getUncleByBlockHashAndIndex = rpcMethod (rpcParamValidationRules [(0, optional T_blockHash), (1, optional T_hex)]
     (plain_operation (constant_handler (Value JNullV))))"

definition eth_getUncleByBlockNumberAndIndex :: "('s, 'w) eth_world operation" where
  "eth_getUncleByBlockNumberAndIndex = rpcMethod (rpcParamValidationRules [(0, optional T_blockNumber), (1, optional T_hex)]
     (plain_operation (constant_handler (Value JNullV))))"

definition eth_getUncleCountByBlockHash :: "('s, 'w) eth_world operation" where
  "eth_getUncleCountByBlockHash = rpcMethod (rpcParamValidationRules [(0, optional T_blockHash)]
     (plain_operation (constant_handler (Value (JString ''0x0'')))))"

definition eth_getUncleCountByBlockNumber :: "('s, 'w) eth_world operation" where
  "eth_getUncleCountByBlockNumber = rpcMethod (rpcParamValidationRules [(0, optional T_blockNumber)]
     (plain_operation (constant_handler (Value (JString ''0x0'')))))"

definition eth_hashrate :: "('s, 'w) eth_world operation" where
  "eth_hashrate = answering (Value (JString ''0x0''))"

definition eth_getWork :: "('s, 'w) eth_world operation" where
  "eth_getWork = unsupported"

definition eth_submitHashrate :: "('s, 'w) eth_world operation" where
  "eth_submitHashrate = unsupported"

definition eth_signTransaction :: "('s, 'w) eth_world operation" where
  "eth_signTransaction = unsupported"

definition eth_sign :: "('s, 'w) eth_world operation" where
  "eth_sign = unsupported"

definition eth_sendTransaction :: "('s, 'w) eth_world operation" where
  "eth_sendTransaction = unsupported"

definition eth_protocolVersion :: "('s, 'w) eth_world operation" where
  "eth_protocolVersion = unsupported"

definition eth_coinbase :: "('s, 'w) eth_world operation" where
  "eth_coinbase = unsupported"

definition eth_simulateV1 :: "('s, 'w) eth_world operation" where
  "eth_simulateV1 = unsupported"

definition eth_blobBaseFee :: "('s, 'w) eth_world operation" where
  "eth_blobBaseFee = unsupported"

definition eth_getStorageAt :: "('s, 'w) eth_env \<Rightarrow> ('s, 'w) eth_world operation" where
  "eth_getStorageAt env = rpcMethod (rpcParamValidationRules [(0, required T_address), (1, required T_hex64), (2, required_block)]
     (rpcParamLayoutConfig (Custom (\<lambda>params. [nth_jv params 0, nth_jv params 1, nth_jv params 2]))
       (plain_operation (cached_handler env (unless_head 2) ''getStorageAt'' (uncached env ''contractService.getStorageAt'' 4)))))"

definition eth_getBalance :: "('s, 'w) eth_env \<Rightarrow> ('s, 'w) eth_world operation" where
  "eth_getBalance env = calling_cached env ''getBalance'' ''accountService.getBalance'' [required T_address, required_block] (unless_head 1)"

definition eth_getCode :: "('s, 'w) eth_env \<Rightarrow> ('s, 'w) eth_world operation" where
  "eth_getCode env = calling_cached env ''getCode'' ''contractService.getCode'' [required T_address, required_block] (unless_head 1)"

definition eth_getBlockByHash :: "('s, 'w) eth_env \<Rightarrow> ('s, 'w) eth_world operation" where
  "eth_getBlockByHash env = calling_cached env ''getBlockByHash'' ''blockService.getBlockByHash'' [required T_blockHash, required T_boolean] always_cached"

definition eth_getBlockTransactionCountByHash :: "('s, 'w) eth_env \<Rightarrow> ('s, 'w) eth_world operation" where
  "eth_getBlockTransactionCountByHash env = calling_cached env ''getBlockTransactionCountByHash'' ''blockService.getBlockTransactionCountByHash'' [required T_blockHash] always_cached"

definition eth_getBlockTransactionCountByNumber :: "('s, 'w) eth_env \<Rightarrow> ('s, 'w) eth_world operation" where
  "eth_getBlockTransactionCountByNumber env = calling_cached env ''getBlockTransactionCountByNumber'' ''blockService.getBlockTransactionCountByNumber'' [required T_blockNumber] (unless_head 0)"

definition eth_getTransactionByBlockHashAndIndex :: "('s, 'w) eth_env \<Rightarrow> ('s, 'w) eth_world operation" where
  "eth_getTransactionByBlockHashAndIndex env = calling_cached env ''getTransactionByBlockHashAndIndex'' ''transactionService.getTransactionByBlockHashAndIndex''
     [required T_blockHash, required T_hex] always_cached"

definition eth_getTransactionByBlockNumberAndIndex :: "('s, 'w) eth_env \<Rightarrow> ('s, 'w) eth_world operation" where
  "eth_getTransactionByBlockNumberAndIndex env = calling_cached env ''getTransactionByBlockNumberAndIndex'' ''transactionService.getTransactionByBlockNumberAndIndex''
     [required T_blockNumber, required T_hex] (unless_head 0)"

definition eth_getBlockByNumber :: "('s, 'w) eth_env \<Rightarrow> ('s, 'w) eth_world operation" where
  "eth_getBlockByNumber env = calling_cached env ''getBlockByNumber'' ''blockService.getBlockByNumber'' [required T_blockNumber, required T_boolean] (unless_head 0)"

definition eth_getTransactionCount :: "('s, 'w) eth_env \<Rightarrow> ('s, 'w) eth_world operation" where
  "eth_getTransactionCount env = calling_cached env ''getTransactionCount'' ''accountService.getTransactionCount'' [required T_address, required_block] (unless_head 1)"

definition eth_sendRawTransaction :: "('s, 'w) eth_env \<Rightarrow> ('s, 'w) eth_world operation" where
  "eth_sendRawTransaction env = calling env ''transactionService.sendRawTransaction'' [required T_hex]"

text \<open>
  Every call is announced. The function has three parameters, the last one for the request details; a request with three
  parameters puts the third one, the override of the state, in that place.
\<close>

definition eth_call :: "('s, 'w) eth_env \<Rightarrow> ('s, 'w) eth_world operation" where
  "eth_call env = rpcMethod (rpcParamValidationRules [(0, required T_transaction), (1, required T_blockParams), (2, optional T_stateOverride)]
     (plain_operation (cached_handler env (unless_head 1) ''call'' (\<lambda>args e.
       uncached env ''contractService.call'' 3 args (e\<lparr>es_executions := es_executions e @ [''eth_call'']\<rparr>)))))"

definition eth_getTransactionByHash :: "('s, 'w) eth_env \<Rightarrow> ('s, 'w) eth_world operation" where
  "eth_getTransactionByHash env = calling_cached env ''getTransactionByHash'' ''transactionService.getTransactionByHash'' [required T_transactionHash] always_cached"

definition eth_getTransactionReceipt :: "('s, 'w) eth_env \<Rightarrow> ('s, 'w) eth_world operation" where
  "eth_getTransactionReceipt env = calling_cached env ''getTransactionReceipt'' ''transactionService.getTransactionReceipt'' [required T_transactionHash] always_cached"

definition getLogs_cache :: cache_options where
  "getLogs_cache = always_cached\<lparr>co_skipNamedParams := [\<lparr>sn_index = 0,
     sn_fields = [(''fromBlock'', NON_CACHABLE_BLOCK_PARAMS), (''toBlock'', NON_CACHABLE_BLOCK_PARAMS)]\<rparr>]\<rparr>"

definition eth_getLogs :: "('s, 'w) eth_env \<Rightarrow> ('s, 'w) eth_world operation" where
  "eth_getLogs env = calling_cached env ''getLogs'' ''contractService.getLogs'' [required T_filter] getLogs_cache"

definition eth_maxPriorityFeePerGas :: "('s, 'w) eth_world operation" where
  "eth_maxPriorityFeePerGas = answering (Value (JString ''0x0''))"

definition eth_getBlockReceipts :: "('s, 'w) eth_env \<Rightarrow> ('s, 'w) eth_world operation" where
  "eth_getBlockReceipts env = calling_cached env ''getBlockReceipts'' ''blockService.getBlockReceipts'' [required_block] (unless_head 0)"

definition eth_getProof :: "('s, 'w) eth_world operation" where
  "eth_getProof = unsupported"

definition eth_createAccessList :: "('s, 'w) eth_world operation" where
  "eth_createAccessList = unsupported"

section \<open>The service\<close>

definition eth_methods :: "('s, 'w) eth_env \<Rightarrow> (string \<times> ('s, 'w) eth_world operation) list" where
  "eth_methods env = [
     (''accounts'', eth_accounts),
     (''feeHistory'', eth_feeHistory env),
     (''blockNumber'', eth_blockNumber env),
     (''chainId'', eth_chainId env),
     (''estimateGas'', eth_estimateGas env),
     (''gasPrice'', eth_gasPrice env),
     (''mining'', eth_mining),
     (''newFilter'', eth_newFilter env),
     (''getFilterLogs'', eth_getFilterLogs env),
     (''getFilterChanges'', eth_getFilterChanges env),
     (''newBlockFilter'', eth_newBlockFilter env),
     (''uninstallFilter'', eth_uninstallFilter env),
     (''newPendingTransactionFilter'', eth_newPendingTransactionFilter),
     (''submitWork'', eth_submitWork),
     (''syncing'', eth_syncing),
     (''getUncleByBlockHashAndIndex'', eth_getUncleByBlockHashAndIndex),
     (''getUncleByBlockNumberAndIndex'', eth_getUncleByBlockNumberAndIndex),
     (''getUncleCountByBlockHash'', eth_getUncleCountByBlockHash),
     (''getUncleCountByBlockNumber'', eth_getUncleCountByBlockNumber),
     (''hashrate'', eth_hashrate),
     (''getWork'', eth_getWork),
     (''submitHashrate'', eth_submitHashrate),
     (''signTransaction'', eth_signTransaction),
     (''sign'', eth_sign),
     (''sendTransaction'', eth_sendTransaction),
     (''protocolVersion'', eth_protocolVersion),
     (''coinbase'', eth_coinbase),
     (''simulateV1'', eth_simulateV1),
     (''blobBaseFee'', eth_blobBaseFee),
     (''getStorageAt'', eth_getStorageAt env),
     (''getBalance'', eth_getBalance env),
     (''getCode'', eth_getCode env),
     (''getBlockByHash'', eth_getBlockByHash env),
     (''getBlockTransactionCountByHash'', eth_getBlockTransactionCountByHash env),
     (''getBlockTransactionCountByNumber'', eth_getBlockTransactionCountByNumber env),
     (''getTransactionByBlockHashAndIndex'', eth_getTransactionByBlockHashAndIndex env),
     (''getTransactionByBlockNumberAndIndex'', eth_getTransactionByBlockNumberAndIndex env),
     (''getBlockByNumber'', eth_getBlockByNumber env),
     (''getTransactionCount'', eth_getTransactionCount env),
     (''sendRawTransaction'', eth_sendRawTransaction env),
     (''call'', eth_call env),
     (''getTransactionByHash'', eth_getTransactionByHash env),
     (''getTransactionReceipt'', eth_getTransactionReceipt env),
     (''getLogs'', eth_getLogs env),
     (''maxPriorityFeePerGas'', eth_maxPriorityFeePerGas),
     (''getBlockReceipts'', eth_getBlockReceipts env),
     (''getProof'', eth_getProof),
     (''createAccessList'', eth_createAccessList)]"

definition eth_service :: "('s, 'w) eth_env \<Rightarrow> ('s, 'w) eth_world service" where
  "eth_service env = \<lparr>sv_namespace = ''eth'', sv_prototype = (''constructor'', None) # map (\<lambda>(n, f). (n, Some f)) (eth_methods env),
     sv_own = Map.empty\<rparr>"

section \<open>Registration\<close>

lemma fold_register_lookup:
  assumes "\<forall>n \<in> set ns. service_get sv n = Some (f n) \<and> op_is_rpc (f n)"
  shows "fold (register_operation sv) ns reg (sv_namespace sv @ ''_'' @ n) =
    (if n \<in> set ns then Some ((f n)\<lparr>op_name := n\<rparr>) else reg (sv_namespace sv @ ''_'' @ n))"
  using assms
proof (induction ns arbitrary: reg)
  case (Cons k ns)
  then show ?case by (simp add: register_operation_def)
qed simp

lemmas eth_cached_defs = eth_feeHistory_def eth_getStorageAt_def eth_getBalance_def eth_getCode_def eth_getBlockByHash_def
  eth_getBlockTransactionCountByHash_def eth_getBlockTransactionCountByNumber_def eth_getTransactionByBlockHashAndIndex_def
  eth_getTransactionByBlockNumberAndIndex_def eth_getBlockByNumber_def eth_getTransactionCount_def eth_call_def
  eth_getTransactionByHash_def eth_getTransactionReceipt_def eth_getLogs_def eth_getBlockReceipts_def

lemmas eth_service_defs = eth_blockNumber_def eth_estimateGas_def eth_gasPrice_def eth_newFilter_def eth_getFilterLogs_def
  eth_getFilterChanges_def eth_newBlockFilter_def eth_uninstallFilter_def eth_sendRawTransaction_def

lemmas eth_answer_defs = eth_accounts_def eth_chainId_def eth_mining_def eth_newPendingTransactionFilter_def eth_submitWork_def
  eth_syncing_def eth_hashrate_def eth_getWork_def eth_submitHashrate_def eth_signTransaction_def eth_sign_def eth_sendTransaction_def
  eth_protocolVersion_def eth_coinbase_def eth_simulateV1_def eth_blobBaseFee_def eth_maxPriorityFeePerGas_def eth_getProof_def
  eth_createAccessList_def

lemmas eth_uncle_defs = eth_getUncleByBlockHashAndIndex_def eth_getUncleByBlockNumberAndIndex_def eth_getUncleCountByBlockHash_def
  eth_getUncleCountByBlockNumber_def

lemma op_is_rpc_decorated [simp]: "op_is_rpc (rpcMethod f)"
  by (simp add: rpcMethod_def)

lemma op_is_rpc_shapes [simp]: "op_is_rpc (answering r)" "op_is_rpc unsupported" "op_is_rpc (asking env name)" "op_is_rpc (calling env name rules)"
  "op_is_rpc (calling_cached env m name rules opts)"
  by (simp_all add: answering_def unsupported_def asking_def calling_def calling_cached_def)

lemma eth_methods_marked: "\<forall>f \<in> set (map snd (eth_methods env)). op_is_rpc f"
  by (simp add: eth_methods_def eth_cached_defs eth_service_defs eth_answer_defs eth_uncle_defs)

lemma eth_names: "map fst (eth_methods env) = [''accounts'', ''feeHistory'', ''blockNumber'', ''chainId'', ''estimateGas'', ''gasPrice'',
    ''mining'', ''newFilter'', ''getFilterLogs'', ''getFilterChanges'', ''newBlockFilter'', ''uninstallFilter'',
    ''newPendingTransactionFilter'', ''submitWork'', ''syncing'', ''getUncleByBlockHashAndIndex'', ''getUncleByBlockNumberAndIndex'',
    ''getUncleCountByBlockHash'', ''getUncleCountByBlockNumber'', ''hashrate'', ''getWork'', ''submitHashrate'', ''signTransaction'', ''sign'',
    ''sendTransaction'', ''protocolVersion'', ''coinbase'', ''simulateV1'', ''blobBaseFee'', ''getStorageAt'', ''getBalance'', ''getCode'',
    ''getBlockByHash'', ''getBlockTransactionCountByHash'', ''getBlockTransactionCountByNumber'', ''getTransactionByBlockHashAndIndex'',
    ''getTransactionByBlockNumberAndIndex'', ''getBlockByNumber'', ''getTransactionCount'', ''sendRawTransaction'', ''call'',
    ''getTransactionByHash'', ''getTransactionReceipt'', ''getLogs'', ''maxPriorityFeePerGas'', ''getBlockReceipts'', ''getProof'',
    ''createAccessList'']"
  by (simp add: eth_methods_def)

lemma eth_names_distinct: "distinct (map fst (eth_methods env))"
  unfolding eth_names by code_simp

lemma eth_registry:
  assumes "map_of (eth_methods env) n = Some f"
  shows "registerRpcMethods [eth_service env] (''eth_'' @ n) = Some (f\<lparr>op_name := n\<rparr>)"
proof -
  let ?ms = "eth_methods env" and ?sv = "eth_service env"
  have ns: "operation_names ?sv = map fst ?ms"
  proof -
    have "''constructor'' \<notin> fst ` set ?ms" using arg_cong [OF eth_names, of set env] by simp
    then have "filter (\<lambda>(n, p). n \<noteq> ''constructor'' \<and> p \<noteq> None) (map (\<lambda>(n, f). (n, Some f)) ?ms) = map (\<lambda>(n, f). (n, Some f)) ?ms"
      by (intro filter_True) force
    then show ?thesis by (simp add: operation_names_def eth_service_def comp_def case_prod_unfold)
  qed
  have get: "service_get ?sv k = map_of ?ms k" if "k \<in> set (map fst ?ms)" for k
  proof -
    have "k \<noteq> ''constructor''" using that arg_cong [OF eth_names, of set env] by auto
    moreover have "map_of (map (\<lambda>(n, f). (n, Some f)) ?ms) k = map_option Some (map_of ?ms k)" by (simp add: map_of_map)
    ultimately show ?thesis by (cases "map_of ?ms k") (simp_all add: service_get_def eth_service_def)
  qed
  have all: "\<forall>k \<in> set (map fst ?ms). service_get ?sv k = Some (the (map_of ?ms k)) \<and> op_is_rpc (the (map_of ?ms k))"
  proof
    fix k assume k: "k \<in> set (map fst ?ms)"
    then obtain g where "map_of ?ms k = Some g" by (metis domD dom_map_of_conv_image_fst set_map)
    then show "service_get ?sv k = Some (the (map_of ?ms k)) \<and> op_is_rpc (the (map_of ?ms k))"
      using get [OF k] eth_methods_marked [of env] by (force dest: map_of_SomeD)
  qed
  have "n \<in> set (map fst ?ms)" using assms by (force dest: map_of_SomeD)
  then show ?thesis
    using fold_register_lookup [OF all, of Map.empty n] assms
    by (simp add: registerRpcMethods_def register_service_def ns) (simp add: eth_service_def)
qed

section \<open>Properties\<close>

text \<open>The methods that answer by themselves, with their answers.\<close>

definition eth_fixed_answers :: "string \<Rightarrow> (string \<times> returned) list" where
  "eth_fixed_answers chain =
     [(''accounts'', Value (JArray [])), (''chainId'', Value (JString chain)), (''mining'', Value (JBool False)),
      (''submitWork'', Value (JBool False)), (''syncing'', Value (JBool False)), (''hashrate'', Value (JString ''0x0'')),
      (''maxPriorityFeePerGas'', Value (JString ''0x0''))] @
     map (\<lambda>n. (n, ErrorValue (JsonRpcErr UNSUPPORTED_METHOD))) [''newPendingTransactionFilter'', ''getWork'', ''submitHashrate'',
       ''signTransaction'', ''sign'', ''sendTransaction'', ''protocolVersion'', ''coinbase'', ''simulateV1'', ''blobBaseFee'', ''getProof'',
       ''createAccessList'']"

lemma eth_length: "length (eth_methods env) = 48"
  by (simp add: eth_methods_def)

lemma eth_lookup:
  assumes "eth_methods env ! k = (n, f)" and "k < 48"
  shows "map_of (eth_methods env) n = Some f"
proof -
  have "(n, f) \<in> set (eth_methods env)" using assms nth_mem [of k "eth_methods env"] by (simp add: eth_length)
  then show ?thesis by (simp add: eth_names_distinct)
qed

lemma eth_fixed_nth:
  "eth_methods env ! 0 = (''accounts'', eth_accounts)" "eth_methods env ! 3 = (''chainId'', eth_chainId env)"
  "eth_methods env ! 6 = (''mining'', eth_mining)" "eth_methods env ! 13 = (''submitWork'', eth_submitWork)"
  "eth_methods env ! 14 = (''syncing'', eth_syncing)" "eth_methods env ! 19 = (''hashrate'', eth_hashrate)"
  "eth_methods env ! 44 = (''maxPriorityFeePerGas'', eth_maxPriorityFeePerGas)"
  by (simp_all add: eth_methods_def)

lemma eth_unsupported_nth:
  "eth_methods env ! 12 = (''newPendingTransactionFilter'', eth_newPendingTransactionFilter)" "eth_methods env ! 20 = (''getWork'', eth_getWork)"
  "eth_methods env ! 21 = (''submitHashrate'', eth_submitHashrate)" "eth_methods env ! 22 = (''signTransaction'', eth_signTransaction)"
  "eth_methods env ! 23 = (''sign'', eth_sign)" "eth_methods env ! 24 = (''sendTransaction'', eth_sendTransaction)"
  "eth_methods env ! 25 = (''protocolVersion'', eth_protocolVersion)" "eth_methods env ! 26 = (''coinbase'', eth_coinbase)"
  "eth_methods env ! 27 = (''simulateV1'', eth_simulateV1)" "eth_methods env ! 28 = (''blobBaseFee'', eth_blobBaseFee)"
  "eth_methods env ! 46 = (''getProof'', eth_getProof)" "eth_methods env ! 47 = (''createAccessList'', eth_createAccessList)"
  by (simp_all add: eth_methods_def)

lemmas eth_fixed_lookup = eth_fixed_nth [THEN eth_lookup, simplified] eth_unsupported_nth [THEN eth_lookup, simplified]

lemma eth_fixed_methods:
  assumes "(n, r) \<in> set (eth_fixed_answers (ee_chain env))"
  shows "map_of (eth_methods env) n = Some (answering r)"
  using assms unfolding eth_fixed_answers_def
  by (simp, elim disjE conjE) (simp_all add: eth_fixed_lookup eth_answer_defs unsupported_def)

text \<open>The methods that need no service answer a request with any parameters in the same way: accounts, mining, work, synchronisation, hash rate,
  priority fee and chain with their fixed values, and signing, work, proofs and the other unsupported methods with the error for an
  unsupported method; nothing in the world changes.\<close>

lemma eth_fixed_dispatch:
  assumes "(n, r) \<in> set (eth_fixed_answers (ee_chain env))"
  shows "dispatch itx (registerRpcMethods [eth_service env]) (''eth_'' @ n) params rd d =
    (d, case r of Value v \<Rightarrow> Inr v | ErrorValue e \<Rightarrow> Inl UNSUPPORTED_METHOD)"
proof -
  have "r = ErrorValue e \<Longrightarrow> e = JsonRpcErr UNSUPPORTED_METHOD" for e
    using assms by (auto simp: eth_fixed_answers_def)
  then show ?thesis
    using eth_registry [OF eth_fixed_methods [OF assms]]
    by (auto simp: dispatch_defs rethrow_returned_def answering_def rpcMethod_def rpcParamLayoutConfig_def plain_operation_def
        constant_handler_def split: returned.splits)
qed

text \<open>The methods that take a block, with the place of the block among their arguments.\<close>

definition block_methods :: "(string \<times> nat) list" where
  "block_methods = [(''feeHistory'', 1), (''getStorageAt'', 2), (''getBalance'', 1), (''getCode'', 1), (''getBlockTransactionCountByNumber'', 0),
     (''getTransactionByBlockNumberAndIndex'', 0), (''getBlockByNumber'', 0), (''getTransactionCount'', 1), (''call'', 1), (''getBlockReceipts'', 0)]"

lemma decorator_skips:
  assumes "cache_decorator client opts ttl m target now args (s, w) = ((s', w'), r)"
    and "shouldSkipCachingForSingleParams args (co_skipParams opts)"
  shows "s' = fst (c_get client now (generateCacheKey m args) s)"
  using assms by (auto simp: cache_decorator_def Let_def split: prod.splits sum.splits if_splits)

lemma head_params_skip:
  assumes "i < length args" and "args ! i = RpcParam (JString tag)" and "tag \<in> {''latest'', ''pending'', ''finalized'', ''safe''}"
  shows "shouldSkipCachingForSingleParams args [(i, NON_CACHABLE_BLOCK_PARAMS)]"
proof -
  have "split_on (CHR ''|'') NON_CACHABLE_BLOCK_PARAMS = [''latest'', ''pending'', ''finalized'', ''safe'']" by code_simp
  then show ?thesis using assms by simp
qed

lemma cached_handler_skips:
  assumes "cached_handler env opts m f args (s, e) = ((s', e'), r)" and "co_skipParams opts = [(i, NON_CACHABLE_BLOCK_PARAMS)]"
    and "i < length args" and "args ! i = RpcParam (JString tag)" and "tag \<in> {''latest'', ''pending'', ''finalized'', ''safe''}"
  shows "s' = fst (c_get (ee_cache env) (ee_now env) (generateCacheKey m args) s)"
  using assms(1,2) head_params_skip [OF assms(3-5)]
  by (auto simp: cached_handler_def Let_def split: prod.splits dest: decorator_skips)

definition cached_unless_head :: "('s, 'w) eth_env \<Rightarrow> string \<Rightarrow> nat \<Rightarrow> ('s, 'w) eth_world operation \<Rightarrow> bool" where
  "cached_unless_head env n i f \<longleftrightarrow>
     (\<exists>opts g. op_run f = cached_handler env opts n g \<and> co_skipParams opts = [(i, NON_CACHABLE_BLOCK_PARAMS)])"

lemma cached_unless_head_plain:
  "co_skipParams opts = [(i, NON_CACHABLE_BLOCK_PARAMS)] \<Longrightarrow> cached_unless_head env n i (plain_operation (cached_handler env opts n g))"
  unfolding cached_unless_head_def by (intro exI [of _ opts] exI [of _ g]) (simp add: plain_operation_def)

lemma cached_unless_head_decorated:
  "cached_unless_head env n i (rpcMethod f) = cached_unless_head env n i f"
  "cached_unless_head env n i (rpcParamValidationRules rules f) = cached_unless_head env n i f"
  "cached_unless_head env n i (rpcParamLayoutConfig lay f) = cached_unless_head env n i f"
  by (simp_all add: cached_unless_head_def rpcMethod_def rpcParamValidationRules_def rpcParamLayoutConfig_def)

lemma unless_head_skips:
  "co_skipParams (unless_head i) = [(i, NON_CACHABLE_BLOCK_PARAMS)]" "co_skipParams ((unless_head i)\<lparr>co_ttl := t\<rparr>) = [(i, NON_CACHABLE_BLOCK_PARAMS)]"
  by (simp_all add: unless_head_def)

lemma eth_block_nth:
  "eth_methods env ! 29 = (''getStorageAt'', eth_getStorageAt env)" "eth_methods env ! 30 = (''getBalance'', eth_getBalance env)"
  "eth_methods env ! 31 = (''getCode'', eth_getCode env)"
  "eth_methods env ! 34 = (''getBlockTransactionCountByNumber'', eth_getBlockTransactionCountByNumber env)"
  "eth_methods env ! 36 = (''getTransactionByBlockNumberAndIndex'', eth_getTransactionByBlockNumberAndIndex env)"
  "eth_methods env ! 37 = (''getBlockByNumber'', eth_getBlockByNumber env)"
  "eth_methods env ! 38 = (''getTransactionCount'', eth_getTransactionCount env)" "eth_methods env ! 40 = (''call'', eth_call env)"
  "eth_methods env ! 45 = (''getBlockReceipts'', eth_getBlockReceipts env)" "eth_methods env ! Suc 0 = (''feeHistory'', eth_feeHistory env)"
  by (simp_all add: eth_methods_def)

lemmas eth_block_lookup = eth_block_nth [THEN eth_lookup, simplified]

lemma cached_unless_head_calling:
  "co_skipParams opts = [(i, NON_CACHABLE_BLOCK_PARAMS)] \<Longrightarrow> cached_unless_head env n i (calling_cached env n k rules opts)"
  by (simp add: calling_cached_def cached_unless_head_decorated cached_unless_head_plain)

lemma eth_block_cached:
  "cached_unless_head env ''getStorageAt'' 2 (eth_getStorageAt env)" "cached_unless_head env ''getBalance'' 1 (eth_getBalance env)"
  "cached_unless_head env ''getCode'' 1 (eth_getCode env)"
  "cached_unless_head env ''getBlockTransactionCountByNumber'' 0 (eth_getBlockTransactionCountByNumber env)"
  "cached_unless_head env ''getTransactionByBlockNumberAndIndex'' 0 (eth_getTransactionByBlockNumberAndIndex env)"
  "cached_unless_head env ''getBlockByNumber'' 0 (eth_getBlockByNumber env)"
  "cached_unless_head env ''getTransactionCount'' 1 (eth_getTransactionCount env)" "cached_unless_head env ''call'' 1 (eth_call env)"
  "cached_unless_head env ''getBlockReceipts'' 0 (eth_getBlockReceipts env)" "cached_unless_head env ''feeHistory'' 1 (eth_feeHistory env)"
  unfolding eth_cached_defs
  by (simp_all only: cached_unless_head_decorated cached_unless_head_calling cached_unless_head_plain unless_head_skips)

lemma block_method_runs:
  assumes "(n, i) \<in> set block_methods" and "map_of (eth_methods env) n = Some f"
  shows "cached_unless_head env n i f"
proof -
  have "\<forall>(n, i) \<in> set block_methods. \<forall>f. map_of (eth_methods env) n = Some f \<longrightarrow> cached_unless_head env n i f"
    by (simp add: block_methods_def eth_block_lookup eth_block_cached [simplified])
  then show ?thesis using assms by blast
qed


text \<open>
  Two answers for the head that are stored all the same or go wrong: logs without any bound, which are those of the latest
  block, and a call with an override of the state, which its service sees instead of the details of the request.
\<close>

lemma unbounded_logs_are_cached:
  "shouldSkipCachingForNamedParams [RpcParam (JObject [(''address'', JString a)]), RequestDetails rd] (co_skipNamedParams getLogs_cache) = Inr False
   \<and> \<not> shouldSkipCachingForSingleParams [RpcParam (JObject [(''address'', JString a)]), RequestDetails rd] (co_skipParams getLogs_cache)"
  by (simp add: getLogs_cache_def always_cached_def from_entries_def arg_field_def js_get_def NON_CACHABLE_BLOCK_PARAMS_def)

lemma override_instead_of_details:
  "first_args 3 (arrangeRpcParams DefaultLayout [transaction, block, override] rd) = [RpcParam transaction, RpcParam block, RpcParam override]"
  by (simp add: first_args_def arrangeRpcParams_def)

definition silent_env :: "(nat, unit) eth_env" where
  "silent_env = \<lparr>ee_service = (\<lambda>name args w. (w, Inr (Value (JString ''0x5'')))), ee_chain = ''0x12a'',
     ee_cache = \<lparr>c_get = (\<lambda>_ _ n. (n, Inr JNullV)), c_set = (\<lambda>_ _ _ _ n. (Suc n, Inr ())), c_delete = (\<lambda>_ _ n. (n, Inr ())),
       c_clear = (\<lambda>n. (n, Inr ())), c_keys = (\<lambda>_ _ n. (n, Inr [])), c_incrBy = (\<lambda>_ _ _ n. (n, Inr JNullV)),
       c_lRange = (\<lambda>_ _ _ _ n. (n, Inr [])), c_rPush = (\<lambda>_ _ _ n. (n, Inr 0))\<rparr>,
     ee_now = 0, ee_ttl = 3600000, ee_object = (\<lambda>_. JNullV), ee_error = (\<lambda>_. None)\<rparr>"

lemma eth_fixed_dispatch_witness:
  "\<forall>d. dispatch 2 (registerRpcMethods [eth_service silent_env]) ''eth_coinbase'' [JNullV] sample_details d = (d, Inl UNSUPPORTED_METHOD) \<and>
     dispatch 2 (registerRpcMethods [eth_service silent_env]) ''eth_chainId'' [] sample_details d = (d, Inr (JString ''0x12a''))"
  using eth_fixed_dispatch [of "''coinbase''" "ErrorValue (JsonRpcErr UNSUPPORTED_METHOD)" silent_env 2 "[JNullV]" sample_details]
    eth_fixed_dispatch [of "''chainId''" "Value (JString ''0x12a'')" silent_env 2 "[]" sample_details]
  by (simp add: eth_fixed_answers_def silent_env_def)


end
