(* ===== verification/MirrorNode.thy ===== *)
theory MirrorNode
  imports EthCommon Effects
begin

text \<open>
  The client of the mirror node (\<open>lib/clients/mirrorNodeClient.ts\<close>): requests with their errors, pagination, the polling for records
  that are not complete yet, the resolution of entities, and the cached queries. The HTTP library, with the
  retries it makes by itself, is the function \<open>mv_http\<close> on the state of the world, and the cache is a client on the same
  state. Answers are JavaScript values.
\<close>

section \<open>Requests\<close>

datatype request_method = GET | POST

text \<open>\<open>hr_web3\<close>: the request goes to the client for contract calls. \<open>hr_retries\<close> overrides the number of retries of the library.\<close>

record http_request =
  hr_method :: request_method
  hr_web3 :: bool
  hr_path :: string
  hr_requestId :: string
  hr_forwarded :: "string option"
  hr_retries :: "nat option"
  hr_data :: jv

text \<open>A failed request: the status of the response, when there is one, or the code of the failure; and what the error object is made from.\<close>

record http_failure =
  hf_status :: "int option"
  hf_code :: "string option"
  hf_cause :: mirror_cause

record 'w mirror_env =
  mv_http :: "http_request \<Rightarrow> 'w \<Rightarrow> 'w \<times> (http_failure + jv)"
  mv_cache :: "'w cache_client"
  mv_now :: int
  mv_requestRetryCount :: nat
  mv_resultsPageMax :: int
  mv_logsPageMax :: int
  mv_blockRangePageMax :: int
  mv_limitParam :: int
  mv_callAcceptedErrors :: "int list"

definition GET_BLOCK_ENDPOINT :: string where "GET_BLOCK_ENDPOINT = ''blocks/''"
definition GET_BLOCKS_ENDPOINT :: string where "GET_BLOCKS_ENDPOINT = ''blocks''"
definition GET_TOKENS_ENDPOINT :: string where "GET_TOKENS_ENDPOINT = ''tokens''"
definition GET_BALANCE_ENDPOINT :: string where "GET_BALANCE_ENDPOINT = ''balances''"
definition GET_CONTRACT_ENDPOINT :: string where "GET_CONTRACT_ENDPOINT = ''contracts/''"
definition CONTRACT_CALL_ENDPOINT :: string where "CONTRACT_CALL_ENDPOINT = ''contracts/call''"
definition GET_ACCOUNTS_BY_ID_ENDPOINT :: string where "GET_ACCOUNTS_BY_ID_ENDPOINT = ''accounts/''"
definition GET_NETWORK_FEES_ENDPOINT :: string where "GET_NETWORK_FEES_ENDPOINT = ''network/fees''"
definition GET_TRANSACTIONS_ENDPOINT :: string where "GET_TRANSACTIONS_ENDPOINT = ''transactions''"
definition GET_CONTRACT_RESULT_ENDPOINT :: string where "GET_CONTRACT_RESULT_ENDPOINT = ''contracts/results/''"
definition GET_CONTRACT_RESULTS_ENDPOINT :: string where "GET_CONTRACT_RESULTS_ENDPOINT = ''contracts/results''"
definition GET_NETWORK_EXCHANGERATE_ENDPOINT :: string where "GET_NETWORK_EXCHANGERATE_ENDPOINT = ''network/exchangerate''"
definition GET_CONTRACT_RESULT_LOGS_ENDPOINT :: string where "GET_CONTRACT_RESULT_LOGS_ENDPOINT = ''contracts/results/logs''"
definition CONTRACT_ADDRESS_STATE_ENDPOINT :: string where "CONTRACT_ADDRESS_STATE_ENDPOINT = ''contracts/{address}/state''"
definition GET_CONTRACT_RESULTS_BY_ADDRESS_ENDPOINT :: string where
  "GET_CONTRACT_RESULTS_BY_ADDRESS_ENDPOINT = ''contracts/{address}/results''"
definition GET_TRANSACTIONS_ENDPOINT_TRANSACTION_ID :: string where
  "GET_TRANSACTIONS_ENDPOINT_TRANSACTION_ID = ''transactions/{transactionId}''"
definition GET_CONTRACTS_RESULTS_ACTIONS :: string where
  "GET_CONTRACTS_RESULTS_ACTIONS = ''contracts/results/{transactionId}/actions''"
definition GET_CONTRACTS_RESULTS_OPCODES :: string where
  "GET_CONTRACTS_RESULTS_OPCODES = ''contracts/results/{transactionId}/opcodes''"
definition GET_CONTRACT_RESULT_LOGS_BY_ADDRESS_ENDPOINT :: string where
  "GET_CONTRACT_RESULT_LOGS_BY_ADDRESS_ENDPOINT = ''contracts/{address}/results/logs''"
definition GET_CONTRACT_RESULTS_DETAILS_BY_CONTRACT_ID_ENDPOINT :: string where
  "GET_CONTRACT_RESULTS_DETAILS_BY_CONTRACT_ID_ENDPOINT = ''contracts/{contractId}/results/{timestamp}''"
definition GET_CONTRACT_RESULTS_DETAILS_BY_ADDRESS_AND_TIMESTAMP_ENDPOINT :: string where
  "GET_CONTRACT_RESULTS_DETAILS_BY_ADDRESS_AND_TIMESTAMP_ENDPOINT = ''contracts/{address}/results/{timestamp}''"

text \<open>The labels whose listed statuses count as no answer. The statuses of contract calls can be configured.\<close>

definition acceptedErrorLabels :: "string list" where
  "acceptedErrorLabels = [GET_ACCOUNTS_BY_ID_ENDPOINT, GET_BALANCE_ENDPOINT, GET_BLOCK_ENDPOINT, GET_BLOCKS_ENDPOINT, GET_CONTRACT_ENDPOINT,
     GET_CONTRACT_RESULTS_BY_ADDRESS_ENDPOINT, GET_CONTRACT_RESULTS_DETAILS_BY_CONTRACT_ID_ENDPOINT,
     GET_CONTRACT_RESULTS_DETAILS_BY_ADDRESS_AND_TIMESTAMP_ENDPOINT, GET_CONTRACT_RESULT_ENDPOINT, GET_CONTRACT_RESULT_LOGS_ENDPOINT,
     GET_CONTRACT_RESULT_LOGS_BY_ADDRESS_ENDPOINT, GET_CONTRACT_RESULTS_ENDPOINT, GET_CONTRACTS_RESULTS_ACTIONS,
     GET_CONTRACTS_RESULTS_OPCODES, GET_NETWORK_EXCHANGERATE_ENDPOINT, GET_NETWORK_FEES_ENDPOINT, GET_TOKENS_ENDPOINT,
     GET_TRANSACTIONS_ENDPOINT, CONTRACT_CALL_ENDPOINT, CONTRACT_ADDRESS_STATE_ENDPOINT]"

definition acceptedErrors :: "'w mirror_env \<Rightarrow> string \<Rightarrow> int list" where
  "acceptedErrors env pathLabel =
     (if pathLabel = CONTRACT_CALL_ENDPOINT \<and> mv_callAcceptedErrors env \<noteq> [] then mv_callAcceptedErrors env
      else if pathLabel \<in> set acceptedErrorLabels then [404] else [])"

definition ErrorCodes :: "string \<Rightarrow> int option" where
  "ErrorCodes c = (if c = ''ECONNABORTED'' then Some 504 else if c = ''NOT_SUPPORTED'' then Some 501 else None)"

text \<open>\<open>error.response?.status || ErrorCodes[error.code] || 567\<close>.\<close>

definition effectiveStatusCode :: "http_failure \<Rightarrow> int" where
  "effectiveStatusCode error = (case hf_status error of
     Some s \<Rightarrow> if s \<noteq> 0 then s else (case Option.bind (hf_code error) ErrorCodes of Some c \<Rightarrow> c | None \<Rightarrow> 567)
   | None \<Rightarrow> (case Option.bind (hf_code error) ErrorCodes of Some c \<Rightarrow> c | None \<Rightarrow> 567))"

definition handleError :: "'w mirror_env \<Rightarrow> http_failure \<Rightarrow> string \<Rightarrow> int \<Rightarrow> thrown + jv" where
  "handleError env error pathLabel status =
     (if hf_status error \<noteq> None \<and> status \<in> set (acceptedErrors env pathLabel) then Inr JNullV
      else Inl (RelayError (MirrorErr (MirrorNodeClientError (hf_cause error) status))))"

definition formatIpForForwardedHeader :: "string \<Rightarrow> string" where
  "formatIpForForwardedHeader ip = (if str_includes ip '':'' \<and> \<not> startsWith ip ''['' then ''['' @ ip @ '']'' else ip)"

definition http_request_of ::
    "string \<Rightarrow> string \<Rightarrow> request_method \<Rightarrow> request_details \<Rightarrow> jv \<Rightarrow> nat option \<Rightarrow> http_request" where
  "http_request_of path pathLabel method rd body retries =
     \<lparr>hr_method = method, hr_web3 = (method = POST \<or> pathLabel = GET_CONTRACTS_RESULTS_OPCODES), hr_path = path,
      hr_requestId = rd_requestId rd,
      hr_forwarded = (if trim (rd_ipAddress rd) \<noteq> [] then Some (''for='' @ [CHR 0x22] @ formatIpForForwardedHeader (rd_ipAddress rd) @ [CHR 0x22])
        else None),
      hr_retries = retries, hr_data = body\<rparr>"

definition mirror_request ::
    "'w mirror_env \<Rightarrow> string \<Rightarrow> string \<Rightarrow> request_method \<Rightarrow> request_details \<Rightarrow> jv \<Rightarrow> nat option \<Rightarrow> ('w, jv) io" where
  "mirror_request env path pathLabel method rd body retries = (\<lambda>w.
     case mv_http env (http_request_of path pathLabel method rd body retries) w of
       (w', Inr response) \<Rightarrow> (w', Inr response)
     | (w', Inl error) \<Rightarrow> (w', handleError env error pathLabel (effectiveStatusCode error)))"

definition mirror_get :: "'w mirror_env \<Rightarrow> string \<Rightarrow> string \<Rightarrow> request_details \<Rightarrow> nat option \<Rightarrow> ('w, jv) io" where
  "mirror_get env path pathLabel rd retries = mirror_request env path pathLabel GET rd JNullV retries"

definition mirror_post :: "'w mirror_env \<Rightarrow> string \<Rightarrow> jv \<Rightarrow> string \<Rightarrow> request_details \<Rightarrow> nat option \<Rightarrow> ('w, jv) io" where
  "mirror_post env path body pathLabel rd retries =
     mirror_request env path pathLabel POST rd (if truthy body then body else JObject []) retries"

section \<open>Query parameters\<close>

type_synonym query_params = "(string \<times> jv) list"

definition nullish :: "jv \<Rightarrow> bool" where
  "nullish v \<longleftrightarrow> v = JUndefined \<or> v = JNullV"

text \<open>A parameter that is set again is appended to the text of its value.\<close>

definition setQueryParam :: "string \<Rightarrow> jv \<Rightarrow> query_params \<Rightarrow> query_params" where
  "setQueryParam key value params =
     (if key = [] \<or> nullish value \<or> value = JString [] then params
      else case map_of params key of
          Some old \<Rightarrow> if truthy old then AList.update key (JString (js_String old @ ''&'' @ key @ ''='' @ js_String value)) params
            else AList.update key value params
        | None \<Rightarrow> AList.update key value params)"

definition param_text :: "string \<times> jv \<Rightarrow> string" where
  "param_text p = (case snd p of
     JArray vs \<Rightarrow> join_with ''&'' (map (\<lambda>v. fst p @ ''='' @ js_String v) vs)
   | v \<Rightarrow> fst p @ ''='' @ js_String v)"

fun append_params :: "string \<Rightarrow> query_params \<Rightarrow> string" where
  "append_params paramString [] = paramString"
| "append_params paramString (p # ps) =
     append_params (paramString @ (if paramString = [] then ''?'' else ''&'') @ param_text p) ps"

definition getQueryParams :: "query_params \<Rightarrow> string" where
  "getQueryParams params = append_params [] params"

text \<open>Limit and order of the caller, or the configured limit in ascending order.\<close>

definition setLimitOrderParams :: "'w mirror_env \<Rightarrow> (nat option \<times> string) option \<Rightarrow> query_params \<Rightarrow> query_params" where
  "setLimitOrderParams env limitOrder params = (case limitOrder of
     Some (limit, order) \<Rightarrow> setQueryParam ''order'' (JString order) (setQueryParam ''limit'' (case limit of Some n \<Rightarrow> JNumV (int n) | None \<Rightarrow> JUndefined) params)
   | None \<Rightarrow> setQueryParam ''order'' (JString ''asc'') (setQueryParam ''limit'' (JNumV (mv_limitParam env)) params))"

definition set_params :: "(string \<times> jv) list \<Rightarrow> query_params" where
  "set_params kvs = fold (\<lambda>(k, v). setQueryParam k v) kvs []"

definition setContractResultsParams :: "jv \<Rightarrow> query_params" where
  "setContractResultsParams p = set_params [(''block.hash'', js_get p ''blockHash''), (''block.number'', js_get p ''blockNumber''),
     (''from'', js_get p ''from''), (''internal'', js_get p ''internal''), (''timestamp'', js_get p ''timestamp''),
     (''transaction.index'', js_get p ''transactionIndex'')]"

definition prepareLogsParams :: "'w mirror_env \<Rightarrow> jv \<Rightarrow> (nat option \<times> string) option \<Rightarrow> string" where
  "prepareLogsParams env p limitOrder = getQueryParams (setLimitOrderParams env limitOrder (set_params
     [(''transaction.hash'', js_get p ''transaction.hash''), (''index'', js_get p ''index''), (''timestamp'', js_get p ''timestamp''),
      (''topic0'', js_get p ''topic0''), (''topic1'', js_get p ''topic1''), (''topic2'', js_get p ''topic2''), (''topic3'', js_get p ''topic3'')]))"

section \<open>Pagination\<close>

definition NEXT_LINK_PREFIX :: string where "NEXT_LINK_PREFIX = ''/api/v1/''"
definition MAX_MIRROR_NODE_PAGINATION :: int where "MAX_MIRROR_NODE_PAGINATION = 20"

text \<open>\<open>results.concat(x)\<close>: the elements of an array, or the value itself.\<close>

definition js_concat :: "jv list \<Rightarrow> jv \<Rightarrow> jv list" where
  "js_concat xs v = xs @ (case v of JArray ys \<Rightarrow> ys | _ \<Rightarrow> [v])"

definition page_items :: "string \<Rightarrow> jv \<Rightarrow> jv list" where
  "page_items resultProperty result =
     (if truthy result \<and> truthy (js_get result resultProperty) then js_concat [] (js_get result resultProperty) else [])"

definition next_page :: "jv \<Rightarrow> string option" where
  "next_page result = (let link = js_get (js_get result ''links'') ''next''
     in if truthy link then Some (replace_first NEXT_LINK_PREFIX [] (js_String link)) else None)"

function getPaginatedResults ::
    "'w mirror_env \<Rightarrow> string \<Rightarrow> string \<Rightarrow> string \<Rightarrow> request_details \<Rightarrow> jv list \<Rightarrow> int \<Rightarrow> int \<Rightarrow> 'w \<Rightarrow> 'w \<times> (thrown + jv list)" where
  "getPaginatedResults env url pathLabel resultProperty rd results page pageMax w =
     (case mirror_get env url pathLabel rd None w of
        (w', Inl e) \<Rightarrow> (w', Inl e)
      | (w', Inr result) \<Rightarrow>
          (let results' = results @ page_items resultProperty result
           in if page = pageMax then (w', Inl (json_error_thrown (PAGINATION_MAX pageMax)))
              else (case next_page result of
                  Some url' \<Rightarrow> if page < pageMax
                    then getPaginatedResults env url' pathLabel resultProperty rd results' (page + 1) pageMax w'
                    else (w', Inr results')
                | None \<Rightarrow> (w', Inr results'))))"
  by pat_completeness auto
termination
  by (relation "measure (\<lambda>(env, url, pathLabel, resultProperty, rd, results, page, pageMax, w). nat (pageMax - page))") auto

declare getPaginatedResults.simps [simp del]

definition paginated :: "'w mirror_env \<Rightarrow> string \<Rightarrow> string \<Rightarrow> string \<Rightarrow> request_details \<Rightarrow> int \<Rightarrow> ('w, jv) io" where
  "paginated env url pathLabel resultProperty rd pageMax =
     io_then (getPaginatedResults env url pathLabel resultProperty rd [] 1 pageMax) (\<lambda>rs. io_return (JArray rs))"

section \<open>Accounts\<close>

text \<open>The query object of an account; the marker that asks for transactions is left out of the query, since it is the default.\<close>

definition client_getAccount ::
    "'w mirror_env \<Rightarrow> string \<Rightarrow> request_details \<Rightarrow> query_params \<Rightarrow> nat option \<Rightarrow> ('w, jv) io" where
  "client_getAccount env idOrAliasOrEvmAddress rd queryParamObject retries =
     (let filtered = filter (\<lambda>(key, value). \<not> (key = ''transactions'' \<and> truthy value) \<and> value \<noteq> JUndefined \<and> value \<noteq> JString [])
            queryParamObject
      in mirror_get env (GET_ACCOUNTS_BY_ID_ENDPOINT @ idOrAliasOrEvmAddress @ getQueryParams filtered) GET_ACCOUNTS_BY_ID_ENDPOINT rd retries)"

definition no_transactions :: query_params where
  "no_transactions = [(''transactions'', JBool False)]"

definition getAccountLatestEthereumTransactionsByTimestamp ::
    "'w mirror_env \<Rightarrow> string \<Rightarrow> string \<Rightarrow> request_details \<Rightarrow> nat \<Rightarrow> ('w, jv) io" where
  "getAccountLatestEthereumTransactionsByTimestamp env idOrAliasOrEvmAddress timestampTo rd numberOfTransactions =
     client_getAccount env idOrAliasOrEvmAddress rd
       [(''transactiontype'', JString ''ETHEREUMTRANSACTION''), (''timestamp'', JString (''lte:'' @ timestampTo)),
        (''transactions'', JBool True), (''limit'', JNumV (int numberOfTransactions)), (''order'', JString ''desc'')] None"

text \<open>What follows each occurrence of a text.\<close>

fun suffixes_after :: "string \<Rightarrow> string \<Rightarrow> string list" where
  "suffixes_after p [] = (if p = [] then [[]] else [])"
| "suffixes_after p (c # s) = (if startsWith (c # s) p then [drop (length p) (c # s)] else []) @ suffixes_after p s"

text \<open>
  \<open>url.indexOf\<close> is -1 when nothing is found, so the start of the identifier is then the ninth character. A regular expression takes its
  first match; a missing match becomes the text \<open>null\<close>.
\<close>

definition extractAccountIdFromUrl :: "string \<Rightarrow> string" where
  "extractAccountIdFromUrl url =
     (let found = suffixes_after ''/accounts/'' url;
          rest = (case found of r # _ \<Rightarrow> r | [] \<Rightarrow> drop 9 url)
      in if startsWith rest ''0x''
         then (case filter (\<lambda>r. startsWith r ''0x'' \<and> length r \<ge> 42 \<and> list_all (is_digit_in 16) (take 40 (drop 2 r))) found of
             r # _ \<Rightarrow> take 42 r | [] \<Rightarrow> ''null'')
         else (case filter (\<lambda>i. i \<noteq> []) (map (takeWhile (\<lambda>c. is_digit_in 10 c \<or> c = CHR ''.'')) found) of
             i # _ \<Rightarrow> i | [] \<Rightarrow> ''null''))"

text \<open>\<open>URLSearchParams\<close>: the pairs of a query, with \<open>+\<close> and the percent escapes decoded.\<close>

fun form_decode :: "string \<Rightarrow> string" where
  "form_decode [] = []"
| "form_decode (c # s) =
     (if c = CHR ''+'' then CHR '' '' # form_decode s
      else if c = CHR ''%'' then (case s of
          a # b # t \<Rightarrow> if is_digit_in 16 a \<and> is_digit_in 16 b then char_of (radix_val 16 [a, b]) # form_decode t
            else CHR ''%'' # form_decode (a # b # t)
        | _ \<Rightarrow> CHR ''%'' # form_decode s)
      else c # form_decode s)"

definition search_param :: "string \<Rightarrow> string \<Rightarrow> jv" where
  "search_param url key =
     (let pieces = split_on (CHR ''?'') url; query = (if length pieces > 1 then pieces ! 1 else []);
          pairs = map (\<lambda>p. (form_decode (takeWhile (\<lambda>c. c \<noteq> CHR ''='') p), form_decode (drop 1 (dropWhile (\<lambda>c. c \<noteq> CHR ''='') p))))
            (filter (\<lambda>p. p \<noteq> []) (split_on (CHR ''&'') query))
      in case map_of pairs key of Some v \<Rightarrow> JString v | None \<Rightarrow> JNullV)"

definition getAccountPaginated :: "'w mirror_env \<Rightarrow> string \<Rightarrow> request_details \<Rightarrow> ('w, jv) io" where
  "getAccountPaginated env url rd =
     paginated env (GET_ACCOUNTS_BY_ID_ENDPOINT @ extractAccountIdFromUrl url @
         getQueryParams (set_params [(''limit'', JNumV 100), (''timestamp'', search_param url ''timestamp'')]))
       GET_ACCOUNTS_BY_ID_ENDPOINT ''transactions'' rd MAX_MIRROR_NODE_PAGINATION"

definition getTransactionsForAccount :: "'w mirror_env \<Rightarrow> string \<Rightarrow> string \<Rightarrow> string \<Rightarrow> request_details \<Rightarrow> ('w, jv) io" where
  "getTransactionsForAccount env accountId timestampFrom timestampTo rd =
     paginated env (GET_TRANSACTIONS_ENDPOINT @ getQueryParams (set_params [(''account.id'', JString accountId),
         (''timestamp'', JString (''gte:'' @ timestampFrom)), (''timestamp'', JString (''lt:'' @ timestampTo))]))
       GET_TRANSACTIONS_ENDPOINT ''transactions'' rd MAX_MIRROR_NODE_PAGINATION"

definition getBalanceAtTimestamp :: "'w mirror_env \<Rightarrow> string \<Rightarrow> request_details \<Rightarrow> jv \<Rightarrow> ('w, jv) io" where
  "getBalanceAtTimestamp env accountId rd timestamp =
     mirror_get env (GET_BALANCE_ENDPOINT @ getQueryParams (set_params [(''account.id'', JString accountId), (''timestamp'', timestamp)]))
       GET_BALANCE_ENDPOINT rd None"

section \<open>Blocks\<close>

definition cache_get :: "'w mirror_env \<Rightarrow> string \<Rightarrow> ('w, jv) io" where
  "cache_get env key = (\<lambda>w. io_cache (c_get (mv_cache env) (mv_now env) key w))"

definition cache_put :: "'w mirror_env \<Rightarrow> string \<Rightarrow> jv \<Rightarrow> int option \<Rightarrow> ('w, unit) io" where
  "cache_put env key value ttl = (\<lambda>w. io_cache (c_set (mv_cache env) (mv_now env) key value ttl w))"

definition ONE_DAY :: int where "ONE_DAY = 86400000"
definition ONE_HOUR :: int where "ONE_HOUR = 3600000"

text \<open>\<open>hashOrBlockNumber\<close> is printed in the path.\<close>

definition client_getBlock :: "'w mirror_env \<Rightarrow> string \<Rightarrow> request_details \<Rightarrow> ('w, jv) io" where
  "client_getBlock env hashOrBlockNumber rd =
     (let label = ''getBlock.'' @ hashOrBlockNumber in
      io_then (cache_get env label) (\<lambda>cachedResponse.
      if truthy cachedResponse then io_return cachedResponse
      else io_then (mirror_get env (GET_BLOCK_ENDPOINT @ hashOrBlockNumber) GET_BLOCK_ENDPOINT rd None) (\<lambda>block.
        if truthy block then io_then (cache_put env label block None) (\<lambda>_. io_return block) else io_return block)))"

definition client_getBlocks ::
    "'w mirror_env \<Rightarrow> request_details \<Rightarrow> jv \<Rightarrow> jv \<Rightarrow> (nat option \<times> string) option \<Rightarrow> ('w, jv) io" where
  "client_getBlocks env rd blockNumber timestamp limitOrder =
     mirror_get env (GET_BLOCKS_ENDPOINT @ getQueryParams (setLimitOrderParams env limitOrder
         (set_params [(''block.number'', blockNumber), (''timestamp'', timestamp)])))
       GET_BLOCKS_ENDPOINT rd None"

definition client_getLatestBlock :: "'w mirror_env \<Rightarrow> request_details \<Rightarrow> ('w, jv) io" where
  "client_getLatestBlock env rd = client_getBlocks env rd JUndefined JUndefined (Some (Some 1, ''desc''))"

text \<open>The first element of an array; \<open>.length > 0\<close> of a missing array throws.\<close>

definition js_first :: "jv \<Rightarrow> thrown + jv option" where
  "js_first v = (case v of
     JArray [] \<Rightarrow> Inr None
   | JArray (x # _) \<Rightarrow> Inr (Some x)
   | JUndefined \<Rightarrow> Inl (js_type_error ''Cannot read properties of undefined'')
   | JNullV \<Rightarrow> Inl (js_type_error ''Cannot read properties of null'')
   | _ \<Rightarrow> Inr None)"

definition getEarliestBlock :: "'w mirror_env \<Rightarrow> request_details \<Rightarrow> ('w, jv) io" where
  "getEarliestBlock env rd =
     io_then (cache_get env ''getBlock.earliest'') (\<lambda>cachedResponse.
     if \<not> nullish cachedResponse then io_return cachedResponse
     else io_then (client_getBlocks env rd JUndefined JUndefined (Some (Some 1, ''asc''))) (\<lambda>blocks.
       if \<not> truthy blocks then io_return JNullV
       else io_then (io_pure (js_first (js_get blocks ''blocks''))) (\<lambda>first. case first of
           Some block \<Rightarrow> io_then (cache_put env ''getBlock.earliest'' block (Some ONE_DAY)) (\<lambda>_. io_return block)
         | None \<Rightarrow> io_return JNullV)))"

section \<open>Contracts\<close>

definition client_getContract :: "'w mirror_env \<Rightarrow> string \<Rightarrow> request_details \<Rightarrow> nat option \<Rightarrow> jv \<Rightarrow> ('w, jv) io" where
  "client_getContract env contractIdOrAddress rd retries timestamp =
     mirror_get env (GET_CONTRACT_ENDPOINT @ contractIdOrAddress @ getQueryParams (set_params [(''timestamp'', timestamp)]))
       GET_CONTRACT_ENDPOINT rd retries"

definition getIsValidContractCacheLabel :: "string \<Rightarrow> string" where
  "getIsValidContractCacheLabel contractIdOrAddress = ''getContract.valid.'' @ contractIdOrAddress"

definition getContractId :: "'w mirror_env \<Rightarrow> string \<Rightarrow> request_details \<Rightarrow> nat option \<Rightarrow> ('w, jv) io" where
  "getContractId env contractIdOrAddress rd retries =
     (let label = ''getContract.id.'' @ contractIdOrAddress in
      io_then (cache_get env label) (\<lambda>cachedResponse.
      if \<not> nullish cachedResponse then io_return cachedResponse
      else io_then (mirror_get env (GET_CONTRACT_ENDPOINT @ contractIdOrAddress) GET_CONTRACT_ENDPOINT rd retries) (\<lambda>contract.
        if \<not> nullish contract
        then let id = js_get contract ''contract_id'' in io_then (cache_put env label id (Some ONE_DAY)) (\<lambda>_. io_return id)
        else io_return JNullV)))"

definition isValidContract :: "'w mirror_env \<Rightarrow> string \<Rightarrow> request_details \<Rightarrow> nat option \<Rightarrow> ('w, jv) io" where
  "isValidContract env contractIdOrAddress rd retries =
     (let label = getIsValidContractCacheLabel contractIdOrAddress in
      io_then (cache_get env label) (\<lambda>cachedResponse.
      if \<not> nullish cachedResponse then io_return cachedResponse
      else io_then (getContractId env contractIdOrAddress rd retries) (\<lambda>contract.
        let valid = JBool (\<not> nullish contract)
        in io_then (cache_put env label valid (Some ONE_DAY)) (\<lambda>_. io_return valid))))"

text \<open>Only a complete and successful result is kept in the cache.\<close>

definition cacheable_result :: "jv \<Rightarrow> bool" where
  "cacheable_result response \<longleftrightarrow> \<not> nullish response \<and> \<not> nullish (js_get response ''transaction_index'') \<and>
     \<not> nullish (js_get response ''block_number'') \<and> js_get response ''block_hash'' \<noteq> JString EMPTY_HEX \<and>
     js_get response ''result'' = JString ''SUCCESS''"

definition getContractResult :: "'w mirror_env \<Rightarrow> string \<Rightarrow> request_details \<Rightarrow> ('w, jv) io" where
  "getContractResult env transactionIdOrHash rd =
     (let cacheKey = ''getContractResult.'' @ transactionIdOrHash in
      io_then (cache_get env cacheKey) (\<lambda>cachedResponse.
      if truthy cachedResponse then io_return cachedResponse
      else io_then (mirror_get env (GET_CONTRACT_RESULT_ENDPOINT @ transactionIdOrHash) GET_CONTRACT_RESULT_ENDPOINT rd None) (\<lambda>response.
        if cacheable_result response
        then io_then (cache_put env cacheKey response (Some ONE_HOUR)) (\<lambda>_. io_return response)
        else io_return response)))"

text \<open>A record the mirror node has not completed yet.\<close>

definition immature_result :: "jv \<Rightarrow> bool" where
  "immature_result r \<longleftrightarrow> truthy r \<and> (nullish (js_get r ''transaction_index'') \<or> nullish (js_get r ''block_number'') \<or>
     js_get r ''block_hash'' = JString EMPTY_HEX)"

definition immature_log :: "jv \<Rightarrow> bool" where
  "immature_log l \<longleftrightarrow> truthy l \<and> (nullish (js_get l ''transaction_index'') \<or> nullish (js_get l ''block_number'') \<or>
     nullish (js_get l ''index'') \<or> js_get l ''block_hash'' = JString EMPTY_HEX)"

text \<open>The polling loop, with so many attempts left; the last attempt does not ask again.\<close>

fun poll_mature :: "(jv \<Rightarrow> bool) \<Rightarrow> ('w, jv) io \<Rightarrow> nat \<Rightarrow> jv \<Rightarrow> ('w, jv) io" where
  "poll_mature immature ask 0 r = io_return r"
| "poll_mature immature ask (Suc n) r =
     (if truthy r \<and> (\<exists>x \<in> set (js_concat [] r). immature x)
      then if n = 0 then io_throw (json_error_thrown DEPENDENT_SERVICE_IMMATURE_RECORDS)
        else io_then ask (poll_mature immature ask n)
      else io_return r)"

definition getContractResultWithRetry :: "'w mirror_env \<Rightarrow> ('w, jv) io \<Rightarrow> ('w, jv) io" where
  "getContractResultWithRetry env ask = io_then ask (poll_mature immature_result ask (mv_requestRetryCount env))"

definition getContractResults ::
    "'w mirror_env \<Rightarrow> request_details \<Rightarrow> jv \<Rightarrow> (nat option \<times> string) option \<Rightarrow> ('w, jv) io" where
  "getContractResults env rd params limitOrder =
     paginated env (GET_CONTRACT_RESULTS_ENDPOINT @ getQueryParams (setLimitOrderParams env limitOrder (setContractResultsParams params)))
       GET_CONTRACT_RESULTS_ENDPOINT ''results'' rd (mv_resultsPageMax env)"

definition contract_path :: "string \<Rightarrow> string \<Rightarrow> string \<Rightarrow> string \<Rightarrow> string" where
  "contract_path endpoint placeholder contract timestamp =
     replace_first ''{timestamp}'' timestamp (replace_first placeholder contract endpoint)"

definition getContractResultsDetails :: "'w mirror_env \<Rightarrow> string \<Rightarrow> string \<Rightarrow> request_details \<Rightarrow> ('w, jv) io" where
  "getContractResultsDetails env contractId timestamp rd =
     mirror_get env (contract_path GET_CONTRACT_RESULTS_DETAILS_BY_CONTRACT_ID_ENDPOINT ''{contractId}'' contractId timestamp)
       GET_CONTRACT_RESULTS_DETAILS_BY_CONTRACT_ID_ENDPOINT rd None"

definition getContractsResultsActions :: "'w mirror_env \<Rightarrow> string \<Rightarrow> request_details \<Rightarrow> ('w, jv) io" where
  "getContractsResultsActions env transactionIdOrHash rd =
     paginated env (replace_first ''{transactionId}'' transactionIdOrHash GET_CONTRACTS_RESULTS_ACTIONS)
       GET_CONTRACTS_RESULTS_ACTIONS ''actions'' rd MAX_MIRROR_NODE_PAGINATION"

definition getContractsResultsOpcodes :: "'w mirror_env \<Rightarrow> string \<Rightarrow> request_details \<Rightarrow> query_params option \<Rightarrow> ('w, jv) io" where
  "getContractsResultsOpcodes env transactionIdOrHash rd params =
     mirror_get env (replace_first ''{transactionId}'' transactionIdOrHash GET_CONTRACTS_RESULTS_OPCODES @
         (case params of Some ps \<Rightarrow> getQueryParams ps | None \<Rightarrow> []))
       GET_CONTRACTS_RESULTS_OPCODES rd None"

definition getContractResultsByAddress ::
    "'w mirror_env \<Rightarrow> string \<Rightarrow> request_details \<Rightarrow> jv \<Rightarrow> (nat option \<times> string) option \<Rightarrow> ('w, jv) io" where
  "getContractResultsByAddress env contractIdOrAddress rd params limitOrder =
     mirror_get env (replace_first ''{address}'' contractIdOrAddress GET_CONTRACT_RESULTS_BY_ADDRESS_ENDPOINT @
         getQueryParams (setLimitOrderParams env limitOrder (setContractResultsParams params)))
       GET_CONTRACT_RESULTS_BY_ADDRESS_ENDPOINT rd None"

definition getContractResultsByAddressAndTimestamp :: "'w mirror_env \<Rightarrow> string \<Rightarrow> string \<Rightarrow> request_details \<Rightarrow> ('w, jv) io" where
  "getContractResultsByAddressAndTimestamp env contractIdOrAddress timestamp rd =
     mirror_get env (contract_path GET_CONTRACT_RESULTS_DETAILS_BY_ADDRESS_AND_TIMESTAMP_ENDPOINT ''{address}'' contractIdOrAddress timestamp)
       GET_CONTRACT_RESULTS_DETAILS_BY_ADDRESS_AND_TIMESTAMP_ENDPOINT rd None"

definition getLatestContractResultsByAddress ::
    "'w mirror_env \<Rightarrow> string \<Rightarrow> string option \<Rightarrow> nat \<Rightarrow> request_details \<Rightarrow> ('w, jv) io" where
  "getLatestContractResultsByAddress env address blockEndTimestamp limit rd =
     getContractResultsByAddress env address rd
       (case blockEndTimestamp of Some t \<Rightarrow> if t \<noteq> [] then JObject [(''timestamp'', JString (''lte:'' @ t))] else JObject [] | None \<Rightarrow> JObject [])
       (Some (Some limit, ''desc''))"

definition getContractState :: "'w mirror_env \<Rightarrow> string \<Rightarrow> request_details \<Rightarrow> jv \<Rightarrow> ('w, jv) io" where
  "getContractState env address rd timestamp =
     paginated env (replace_first ''{address}'' address CONTRACT_ADDRESS_STATE_ENDPOINT @
         getQueryParams (setLimitOrderParams env (Some (Some 100, ''desc'')) (set_params [(''timestamp'', timestamp)])))
       CONTRACT_ADDRESS_STATE_ENDPOINT ''state'' rd MAX_MIRROR_NODE_PAGINATION"

definition getContractStateByAddressAndSlot :: "'w mirror_env \<Rightarrow> string \<Rightarrow> string \<Rightarrow> request_details \<Rightarrow> jv \<Rightarrow> ('w, jv) io" where
  "getContractStateByAddressAndSlot env address slot rd blockEndTimestamp =
     mirror_get env (replace_first ''{address}'' address CONTRACT_ADDRESS_STATE_ENDPOINT @
         getQueryParams (setLimitOrderParams env (Some (Some 100, ''desc''))
           (set_params [(''timestamp'', blockEndTimestamp), (''slot'', JString slot)])))
       CONTRACT_ADDRESS_STATE_ENDPOINT rd None"

text \<open>A contract call may be repeated once.\<close>

definition postContractCall :: "'w mirror_env \<Rightarrow> jv \<Rightarrow> request_details \<Rightarrow> ('w, jv) io" where
  "postContractCall env callData rd = mirror_post env CONTRACT_CALL_ENDPOINT callData CONTRACT_CALL_ENDPOINT rd (Some 1)"

section \<open>Logs\<close>

text \<open>\<open>Number\<close> of a timestamp, in nanoseconds, when the text is one.\<close>

definition ts_number :: "string \<Rightarrow> int option" where
  "ts_number t = (if t \<noteq> [] \<and> list_all (\<lambda>c. is_digit_in 10 c \<or> c = CHR ''.'') t \<and> length (filter (\<lambda>c. c = CHR ''.'') t) \<le> 1 \<and> t \<noteq> ''.''
     then Some (ts_nanos t) else None)"

definition bound_of :: "string \<Rightarrow> jv list \<Rightarrow> int option" where
  "bound_of op timestamps = (case List.find (\<lambda>v. startsWith (js_String v) (op @ '':'')) timestamps of
     Some v \<Rightarrow> ts_number (split_on (CHR '':'') (js_String v) ! 1) | None \<Rightarrow> None)"

text \<open>A range of less than three seconds is within one block, for which more pages are allowed.\<close>

definition calculateMaxPage :: "'w mirror_env \<Rightarrow> jv \<Rightarrow> int" where
  "calculateMaxPage env params = (case js_get params ''timestamp'' of
     JArray timestamps \<Rightarrow> (case (bound_of ''gte'' timestamps, bound_of ''lte'' timestamps) of
         (Some gte, Some lte) \<Rightarrow> if lte - gte < 3 * 10 ^ 9 then mv_blockRangePageMax env else mv_logsPageMax env
       | _ \<Rightarrow> mv_logsPageMax env)
   | _ \<Rightarrow> mv_logsPageMax env)"

definition client_getContractResultsLogsWithRetry ::
    "'w mirror_env \<Rightarrow> request_details \<Rightarrow> jv \<Rightarrow> (nat option \<times> string) option \<Rightarrow> ('w, jv) io" where
  "client_getContractResultsLogsWithRetry env rd params limitOrder =
     (let ask = paginated env (GET_CONTRACT_RESULT_LOGS_ENDPOINT @ prepareLogsParams env params limitOrder)
            GET_CONTRACT_RESULT_LOGS_ENDPOINT ''logs'' rd (calculateMaxPage env params)
      in io_then ask (poll_mature immature_log ask (mv_requestRetryCount env)))"

definition ZeroAddress :: string where
  "ZeroAddress = ''0x'' @ replicate 40 (CHR ''0'')"

definition client_getContractResultsLogsByAddress ::
    "'w mirror_env \<Rightarrow> string \<Rightarrow> request_details \<Rightarrow> jv \<Rightarrow> (nat option \<times> string) option \<Rightarrow> ('w, jv) io" where
  "client_getContractResultsLogsByAddress env address rd params limitOrder =
     (if address = ZeroAddress then io_return (JArray [])
      else paginated env (replace_first ''{address}'' address GET_CONTRACT_RESULT_LOGS_BY_ADDRESS_ENDPOINT @ prepareLogsParams env params limitOrder)
        GET_CONTRACT_RESULT_LOGS_BY_ADDRESS_ENDPOINT ''logs'' rd (calculateMaxPage env params))"

section \<open>Network and tokens\<close>

definition getNetworkExchangeRate :: "'w mirror_env \<Rightarrow> request_details \<Rightarrow> jv \<Rightarrow> ('w, jv) io" where
  "getNetworkExchangeRate env rd timestamp =
     mirror_get env (GET_NETWORK_EXCHANGERATE_ENDPOINT @ getQueryParams (set_params [(''timestamp'', timestamp)]))
       GET_NETWORK_EXCHANGERATE_ENDPOINT rd None"

definition client_getNetworkFees :: "'w mirror_env \<Rightarrow> request_details \<Rightarrow> jv \<Rightarrow> jv \<Rightarrow> ('w, jv) io" where
  "client_getNetworkFees env rd timestamp order =
     mirror_get env (GET_NETWORK_FEES_ENDPOINT @ getQueryParams (set_params [(''timestamp'', timestamp), (''order'', order)]))
       GET_NETWORK_FEES_ENDPOINT rd None"

definition getTokenById :: "'w mirror_env \<Rightarrow> string \<Rightarrow> request_details \<Rightarrow> nat option \<Rightarrow> ('w, jv) io" where
  "getTokenById env tokenId rd retries = mirror_get env (GET_TOKENS_ENDPOINT @ ''/'' @ tokenId) GET_TOKENS_ENDPOINT rd retries"

section \<open>The type of an entity\<close>

definition TYPE_CONTRACT :: string where "TYPE_CONTRACT = ''CONTRACT''"
definition TYPE_ACCOUNT :: string where "TYPE_ACCOUNT = ''ACCOUNT''"
definition TYPE_TOKEN :: string where "TYPE_TOKEN = ''TOKEN''"

definition entity_number :: "string \<Rightarrow> string" where
  "entity_number s = (case parseInt s 16 of Some n \<Rightarrow> dec n | None \<Rightarrow> ''NaN'')"

definition toEntityId :: "string \<Rightarrow> string" where
  "toEntityId address0 = (let address = drop 2 address0 in
     entity_number (str_slice address 0 8) @ ''.'' @ entity_number (str_slice address 8 24) @ ''.'' @ entity_number (drop 24 address))"

definition entity_of :: "string \<Rightarrow> jv \<Rightarrow> jv" where
  "entity_of type entity = JObject [(''type'', JString type), (''entity'', entity)]"

definition null_on_error :: "('w, jv) io \<Rightarrow> ('w, jv) io" where
  "null_on_error c = io_catch c (\<lambda>_. io_return JNullV)"

text \<open>
  A contract is looked for first. Then an account and a token are looked for at the same time, and the first answer that is
  not empty decides; \<open>account_first\<close> says which of the two answers first.
\<close>

definition resolveEntityType ::
    "'w mirror_env \<Rightarrow> bool \<Rightarrow> string \<Rightarrow> request_details \<Rightarrow> string list \<Rightarrow> nat option \<Rightarrow> string option \<Rightarrow> ('w, jv) io" where
  "resolveEntityType env account_first entityIdentifier rd searchableTypes retries timestamp =
     (let timed = (case timestamp of Some t \<Rightarrow> t \<noteq> [] | None \<Rightarrow> False);
          label = ''resolveEntityType_'' @ entityIdentifier @ (if timed then ''_'' @ the timestamp else []);
          time = (case timestamp of Some t \<Rightarrow> JString t | None \<Rightarrow> JUndefined);
          found = (\<lambda>type entity. let response = entity_of type entity in io_then (cache_put env label response None) (\<lambda>_. io_return response))
      in io_then (cache_get env label) (\<lambda>cachedResponse.
      if truthy cachedResponse then io_return cachedResponse
      else io_then (if TYPE_CONTRACT \<in> set searchableTypes then null_on_error (client_getContract env entityIdentifier rd retries time)
          else io_return JNullV) (\<lambda>contract.
        if truthy contract then found TYPE_CONTRACT contract
        else io_then (if TYPE_ACCOUNT \<in> set searchableTypes
            then null_on_error (client_getAccount env entityIdentifier rd [(''timestamp'', time), (''transactions'', JBool False)] retries)
            else io_return JNullV) (\<lambda>account.
          io_then (if TYPE_TOKEN \<in> set searchableTypes
            then null_on_error (getTokenById env (toEntityId entityIdentifier) rd retries) else io_return JNullV) (\<lambda>token.
          if nullish account \<and> nullish token then io_return JNullV
          else if nullish token \<or> \<not> nullish account \<and> account_first then found TYPE_ACCOUNT account
          else found TYPE_TOKEN token)))))"

section \<open>Transactions\<close>

definition getTransactionById :: "'w mirror_env \<Rightarrow> string \<Rightarrow> request_details \<Rightarrow> jv \<Rightarrow> ('w, jv) io" where
  "getTransactionById env transactionId rd nonce = (case formatTransactionId transactionId of
     None \<Rightarrow> io_return JNullV
   | Some formattedId \<Rightarrow>
       mirror_get env (replace_first ''{transactionId}'' formattedId GET_TRANSACTIONS_ENDPOINT_TRANSACTION_ID @
           getQueryParams (set_params [(''nonce'', nonce)]))
         GET_TRANSACTIONS_ENDPOINT_TRANSACTION_ID rd None)"

definition error_status :: "thrown \<Rightarrow> int option" where
  "error_status e = (case e of
     RelayError (MirrorErr m) \<Rightarrow> Some (me_statusCode m) | RelayError (SdkErr s) \<Rightarrow> Some (st_code (se_status s)) | _ \<Rightarrow> None)"

text \<open>A request is repeated until it answers with something; a record that is not found counts as no answer, other errors are only logged.\<close>

fun repeatedRequest :: "('w, jv) io \<Rightarrow> nat \<Rightarrow> jv \<Rightarrow> 'w \<Rightarrow> 'w \<times> jv" where
  "repeatedRequest ask 0 result w = (w, result)"
| "repeatedRequest ask (Suc n) result w =
     (case ask w of
        (w', r) \<Rightarrow> let result' = (case r of Inr v \<Rightarrow> v | Inl e \<Rightarrow> if error_status e = Some 404 then JNullV else result)
          in if truthy result' then (w', result') else repeatedRequest ask n result' w')"

text \<open>The sum of what an account paid in the transfers of a record.\<close>

definition getTransferAmountSumForAccount :: "(string \<times> int) list \<Rightarrow> string \<Rightarrow> int" where
  "getTransferAmountSumForAccount transfers accountId =
     foldl (\<lambda>acc transfer. acc - snd transfer) 0 (filter (\<lambda>transfer. fst transfer = accountId \<and> snd transfer < 0) transfers)"

definition transfers_of :: "jv \<Rightarrow> (string \<times> int) list" where
  "transfers_of record = (case js_get record ''transfers'' of
     JArray ts \<Rightarrow> map (\<lambda>t. (js_String (js_get t ''account''), case js_get t ''amount'' of JNumV n \<Rightarrow> n | _ \<Rightarrow> 0)) ts
   | _ \<Rightarrow> [])"

record transaction_record_metrics =
  tm_transactionFee :: int
  tm_status :: jv

text \<open>Without a record the answer is an error with status 404; a list without the transaction throws when it is read.\<close>

definition getTransactionRecordMetrics ::
    "'w mirror_env \<Rightarrow> string \<Rightarrow> string \<Rightarrow> string \<Rightarrow> request_details \<Rightarrow> ('w, transaction_record_metrics) io" where
  "getTransactionRecordMetrics env transactionId txConstructorName operatorAccountId rd = (\<lambda>w.
     let masked = rd\<lparr>rd_ipAddress := ''xxx.xxx.xxx.xxx''\<rparr> in
     case repeatedRequest (getTransactionById env transactionId masked (JNumV 0)) (mv_requestRetryCount env) JUndefined w of
       (w', records) \<Rightarrow>
         if \<not> truthy records
         then (w', Inl (RelayError (MirrorErr (MirrorNodeClientError \<lparr>mc_messages = [], mc_message = ''No transaction record retrieved: transactionId='' @
           transactionId @ '', txConstructorName='' @ txConstructorName @ ''.''\<rparr> 404))))
         else (w', case js_get records ''transactions'' of
             JArray ts \<Rightarrow> (case List.find (\<lambda>t. Some (js_get t ''transaction_id'') = map_option JString (formatTransactionId transactionId)) ts of
                 Some record \<Rightarrow> Inr \<lparr>tm_transactionFee = getTransferAmountSumForAccount (transfers_of record) operatorAccountId,
                   tm_status = js_get record ''result''\<rparr>
               | None \<Rightarrow> Inl (js_type_error ''Cannot read properties of undefined''))
           | _ \<Rightarrow> Inl (js_type_error ''Cannot read properties of undefined'')))"

section \<open>Pagination reads every page\<close>

text \<open>The answers of the pages that follow each other from a path on, up to the one without a link.\<close>

inductive page_chain :: "'w mirror_env \<Rightarrow> string \<Rightarrow> request_details \<Rightarrow> string \<Rightarrow> 'w \<Rightarrow> jv list \<Rightarrow> 'w \<Rightarrow> bool"
  for env pathLabel rd where
  last_page: "mirror_get env url pathLabel rd None w = (w', Inr r) \<Longrightarrow> next_page r = None \<Longrightarrow> page_chain env pathLabel rd url w [r] w'"
| more_pages: "mirror_get env url pathLabel rd None w = (w', Inr r) \<Longrightarrow> next_page r = Some url' \<Longrightarrow>
    page_chain env pathLabel rd url' w' rs w'' \<Longrightarrow> page_chain env pathLabel rd url w (r # rs) w''"

lemma page_chain_pages: "page_chain env pathLabel rd url w rs w' \<Longrightarrow> rs \<noteq> []"
  by (induction rule: page_chain.induct) simp_all

lemma pages_within:
  assumes "page_chain env pathLabel rd url w rs w'" and "page + int (length rs) \<le> pageMax"
  shows "getPaginatedResults env url pathLabel prop rd results page pageMax w =
    (w', Inr (results @ concat (map (page_items prop) rs)))"
  using assms
proof (induction arbitrary: results page rule: page_chain.induct)
  case (last_page url w w' r)
  then show ?case by (subst getPaginatedResults.simps) (simp add: Let_def)
next
  case (more_pages url w w' r url' rs w'')
  then have "getPaginatedResults env url' pathLabel prop rd (results @ page_items prop r) (page + 1) pageMax w' =
      (w'', Inr ((results @ page_items prop r) @ concat (map (page_items prop) rs)))" by simp
  then show ?case using more_pages by (subst getPaginatedResults.simps) (simp add: Let_def)
qed

lemma pages_beyond:
  assumes "page_chain env pathLabel rd url w rs w'" and "page \<le> pageMax" and "pageMax < page + int (length rs)"
  shows "snd (getPaginatedResults env url pathLabel prop rd results page pageMax w) = Inl (json_error_thrown (PAGINATION_MAX pageMax))"
  using assms
proof (induction arbitrary: results page rule: page_chain.induct)
  case (last_page url w w' r)
  then show ?case by (subst getPaginatedResults.simps) (simp add: Let_def)
next
  case (more_pages url w w' r url' rs w'')
  show ?case
  proof (cases "page = pageMax")
    case True
    then show ?thesis using more_pages.hyps by (subst getPaginatedResults.simps) (simp add: Let_def)
  next
    case False
    then have "snd (getPaginatedResults env url' pathLabel prop rd (results @ page_items prop r) (page + 1) pageMax w') =
        Inl (json_error_thrown (PAGINATION_MAX pageMax))" using more_pages by simp
    then show ?thesis using False more_pages.hyps more_pages.prems by (subst getPaginatedResults.simps) (simp add: Let_def)
  qed
qed


section \<open>Polling ends with complete records\<close>

lemma poll_mature_result:
  assumes "poll_mature immature ask n r w = (w', Inr r')" and "0 < n"
  shows "(truthy r' \<longrightarrow> (\<forall>x \<in> set (js_concat [] r'). \<not> immature x)) \<and> (\<exists>k < n. w' = ((\<lambda>v. fst (ask v)) ^^ k) w)"
  using assms
proof (induction n arbitrary: r w)
  case (Suc n)
  show ?case
  proof (cases "truthy r \<and> (\<exists>x \<in> set (js_concat [] r). immature x)")
    case False
    then show ?thesis using Suc.prems by (auto intro!: exI [of _ 0] split: if_splits)
  next
    case True
    then have "0 < n" using Suc.prems by (auto split: if_splits)
    obtain w1 r1 where ask: "ask w = (w1, Inr r1)" and rest: "poll_mature immature ask n r1 w1 = (w', Inr r')"
      using Suc.prems True \<open>0 < n\<close> by (auto simp: io_then_eq_Inr)
    obtain k where "k < n" "w' = ((\<lambda>v. fst (ask v)) ^^ k) w1" using Suc.IH [OF rest \<open>0 < n\<close>] by auto
    then have "w' = ((\<lambda>v. fst (ask v)) ^^ Suc k) w" using ask by (simp add: funpow_Suc_right del: funpow.simps)
    then show ?thesis using Suc.IH [OF rest \<open>0 < n\<close>] \<open>k < n\<close> by (auto intro!: exI [of _ "Suc k"])
  qed
qed simp

text \<open>Polling for the result of a transaction never hands out an incomplete record: with at least one attempt configured, the value it returns contains
  no record without transaction index, block number or block hash, and it asked at most as often as configured.\<close>

lemma polled_results_mature:
  assumes "getContractResultWithRetry env ask w = (w', Inr r)" and "0 < mv_requestRetryCount env"
  shows "(\<forall>x \<in> set (js_concat [] r). \<not> immature_result x) \<and>
    (\<exists>k. 1 \<le> k \<and> k \<le> mv_requestRetryCount env \<and> w' = ((\<lambda>v. fst (ask v)) ^^ k) w)"
proof -
  obtain w1 r1 where ask: "ask w = (w1, Inr r1)" and poll: "poll_mature immature_result ask (mv_requestRetryCount env) r1 w1 = (w', Inr r)"
    using assms(1) by (auto simp: getContractResultWithRetry_def io_then_eq_Inr)
  have "\<forall>x \<in> set (js_concat [] r). \<not> immature_result x"
    using poll_mature_result [OF poll assms(2)] by (cases r) (auto simp: js_concat_def immature_result_def)
  moreover obtain k where "k < mv_requestRetryCount env" "w' = ((\<lambda>v. fst (ask v)) ^^ k) w1"
    using poll_mature_result [OF poll assms(2)] by auto
  then have "w' = ((\<lambda>v. fst (ask v)) ^^ Suc k) w \<and> Suc k \<le> mv_requestRetryCount env" using ask by (simp add: funpow_Suc_right del: funpow.simps)
  ultimately show ?thesis by (intro conjI exI [of _ "Suc k"]) simp_all
qed

lemma transfer_sum_nonneg: "getTransferAmountSumForAccount transfers accountId =
    (\<Sum>transfer \<leftarrow> filter (\<lambda>t. fst t = accountId \<and> snd t < 0) transfers. - snd transfer) \<and>
  0 \<le> getTransferAmountSumForAccount transfers accountId"
proof -
  have fold: "foldl (\<lambda>acc t. acc - snd t) a ts = a + (\<Sum>t \<leftarrow> ts. - snd t)" for a :: int and ts :: "(string \<times> int) list"
    by (induction ts arbitrary: a) simp_all
  have "0 \<le> (\<Sum>t \<leftarrow> filter (\<lambda>t. fst t = accountId \<and> snd t < 0) transfers. - snd t)"
    by (intro sum_list_nonneg) auto
  then show ?thesis by (simp add: getTransferAmountSumForAccount_def fold)
qed

text \<open>A mirror node with two pages of results; the state counts the requests. A record is complete from the third request on.\<close>

definition two_pages :: "http_request \<Rightarrow> nat \<Rightarrow> nat \<times> (http_failure + jv)" where
  "two_pages req n = (Suc n, Inr (if hr_path req = ''results''
     then JObject [(''logs'', JArray [JNumV 1, JNumV 2]), (''links'', JObject [(''next'', JString ''/api/v1/page2'')])]
     else JObject [(''logs'', JArray [JNumV 3]), (''links'', JObject [(''next'', JNullV)])]))"

definition no_cache :: "nat cache_client" where
  "no_cache = \<lparr>c_get = (\<lambda>_ _ n. (n, Inr JNullV)), c_set = (\<lambda>_ _ _ _ n. (n, Inr ())), c_delete = (\<lambda>_ _ n. (n, Inr ())),
     c_clear = (\<lambda>n. (n, Inr ())), c_keys = (\<lambda>_ _ n. (n, Inr [])), c_incrBy = (\<lambda>_ _ _ n. (n, Inr JNullV)),
     c_lRange = (\<lambda>_ _ _ _ n. (n, Inr [])), c_rPush = (\<lambda>_ _ _ n. (n, Inr 0))\<rparr>"

definition sample_env :: "nat mirror_env" where
  "sample_env = \<lparr>mv_http = two_pages, mv_cache = no_cache, mv_now = 0, mv_requestRetryCount = 4, mv_resultsPageMax = 25,
     mv_logsPageMax = 200, mv_blockRangePageMax = 500, mv_limitParam = 100, mv_callAcceptedErrors = []\<rparr>"

definition sample_details :: request_details where
  "sample_details = \<lparr>rd_requestId = ''r1'', rd_ipAddress = ''::1'', rd_connectionId = None\<rparr>"

definition maturing :: "nat \<Rightarrow> nat \<times> (thrown + jv)" where
  "maturing n = (Suc n, Inr (JObject [(''transaction_index'', if n < 2 then JNullV else JNumV 0), (''block_number'', JNumV 7),
     (''block_hash'', JString ''0xab'')]))"

lemma sample_pages:
  "page_chain sample_env ''results'' sample_details ''results'' 0
     [JObject [(''logs'', JArray [JNumV 1, JNumV 2]), (''links'', JObject [(''next'', JString ''/api/v1/page2'')])],
      JObject [(''logs'', JArray [JNumV 3]), (''links'', JObject [(''next'', JNullV)])]] 2"
proof -
  let ?one = "JObject [(''logs'', JArray [JNumV 1, JNumV 2]), (''links'', JObject [(''next'', JString ''/api/v1/page2'')])]"
  let ?two = "JObject [(''logs'', JArray [JNumV 3]), (''links'', JObject [(''next'', JNullV)])]"
  have "mirror_get sample_env ''results'' ''results'' sample_details None 0 = (1, Inr ?one) \<and>
      mirror_get sample_env ''page2'' ''results'' sample_details None 1 = (2, Inr ?two) \<and> next_page ?one = Some ''page2'' \<and> next_page ?two = None"
    by code_simp
  then show ?thesis by (intro more_pages last_page) auto
qed


lemma polled_results_mature_witness:
  "\<exists>r. getContractResultWithRetry sample_env maturing 0 = (3, Inr r) \<and> \<not> immature_result r"
proof -
  have run: "getContractResultWithRetry sample_env maturing 0 =
      (3, Inr (JObject [(''transaction_index'', JNumV 0), (''block_number'', JNumV 7), (''block_hash'', JString ''0xab'')]))"
    by code_simp
  have "0 < mv_requestRetryCount sample_env" by (simp add: sample_env_def)
  from polled_results_mature [OF run this] run show ?thesis by (simp add: js_concat_def)
qed

end
