(* ===== verification/EthAccount.thy ===== *)
theory EthAccount
  imports MirrorNode EthFee EthFilter Precheck
begin

text \<open>
  Balances and nonces of accounts (\<open>lib/services/ethService/accountService/AccountService.ts\<close>). The mirror node is a record of
  functions, as for the shared services, with the queries for accounts beside those for blocks. Amounts are exact; the code
  computes them as JavaScript numbers, which is the same up to 2 to the power of 53.
\<close>

section \<open>What the mirror node knows of accounts\<close>

record transfer =
  tf_account :: string
  tf_amount :: int
  tf_is_approval :: bool

record account_tx =
  tx_consensus_timestamp :: string
  tx_transaction_id :: string
  tx_transfers :: "transfer list"

text \<open>\<open>ma_next\<close> is the link to older transactions. The balance object may be missing.\<close>

record mirror_account =
  ma_account :: string
  ma_evm_address :: string
  ma_balance :: "int option"
  ma_ethereum_nonce :: account_nonce
  ma_next :: "string option"
  ma_transactions :: "account_tx list"

record contract_tx =
  ct_from :: string
  ct_nonce :: int

record account_mirror =
  am_common :: mirror
  am_getAccount :: "string \<Rightarrow> thrown + mirror_account option"
  am_getAccountWithTransactions :: "string \<Rightarrow> thrown + mirror_account option"
  am_getAccountPaginated :: "string \<Rightarrow> thrown + account_tx list"
  am_getBalanceAtTimestamp :: "string \<Rightarrow> string \<Rightarrow> thrown + int list option"
  am_getEarliestBlock :: "thrown + block option"
  am_getLatestEthereumTransactions :: "string \<Rightarrow> string \<Rightarrow> nat \<Rightarrow> thrown + account_tx list option"
  am_getContractResult :: "string \<Rightarrow> thrown + contract_tx option"

record account_config =
  ac_common :: common_config
  ac_blockNumberTtl :: int

section \<open>The latest block\<close>

definition ETH_BLOCK_NUMBER :: string where "ETH_BLOCK_NUMBER = ''eth_block_number''"
definition BALANCES_UPDATE_INTERVAL :: int where "BALANCES_UPDATE_INTERVAL = 900"
definition BLOCK_HASH_LENGTH :: nat where "BLOCK_HASH_LENGTH = 66"
definition ONE_HEX :: string where "ONE_HEX = ''0x1''"

text \<open>The number as the cache holds it, and the end of the block.\<close>

record latest_block =
  lb_blockNumber :: jv
  lb_timeStampTo :: string

definition null_property :: "string \<Rightarrow> thrown" where
  "null_property p = js_type_error (''Cannot read properties of null (reading '' @ [CHR 39] @ p @ [CHR 39] @ '')'')"

definition blockNumberTimestamp :: "'s cache_client \<Rightarrow> account_config \<Rightarrow> account_mirror \<Rightarrow> int \<Rightarrow> ('s, latest_block) io" where
  "blockNumberTimestamp client cfg m now =
     io_then (io_pure (mn_getLatestBlock (am_common m))) (\<lambda>blocks. case blocks of
       Some (b # _) \<Rightarrow> (let currentBlock = JString (numberTo0x (bk_number b)) in
         io_then (\<lambda>s. io_cache (c_set client now ETH_BLOCK_NUMBER currentBlock (Some (ac_blockNumberTtl cfg)) s)) (\<lambda>_.
           io_return \<lparr>lb_blockNumber = currentBlock, lb_timeStampTo = bk_to b\<rparr>))
     | _ \<Rightarrow> io_throw (json_error_thrown COULD_NOT_RETRIEVE_LATEST_BLOCK))"

text \<open>
  A block at most one behind the latest one, or in front of it, counts as the latest. A cached number comes without the end of
  its block, which is asked for when it is needed. A hash nobody knows throws.
\<close>

definition extractBlockNumberAndTimestamp ::
    "'s cache_client \<Rightarrow> account_config \<Rightarrow> account_mirror \<Rightarrow> int \<Rightarrow> string \<Rightarrow> ('s, latest_block \<times> string) io" where
  "extractBlockNumberAndTimestamp client cfg m now ref =
     io_then (\<lambda>s. io_cache (c_get client now ETH_BLOCK_NUMBER s)) (\<lambda>blockNumberCached.
     io_then (if truthy blockNumberCached then io_return \<lparr>lb_blockNumber = blockNumberCached, lb_timeStampTo = ''0''\<rparr>
       else blockNumberTimestamp client cfg m now) (\<lambda>latestBlock.
     io_then (if length ref > 32
       then io_then (io_pure (mn_getBlock (am_common m) ref)) (\<lambda>b. case b of
           Some block \<Rightarrow> io_return (Some (bk_number block)) | None \<Rightarrow> io_throw (null_property ''number''))
       else io_return (Number_str ref)) (\<lambda>currentBlockNumber.
     let ref' = (case (Number_str (js_String (lb_blockNumber latestBlock)), currentBlockNumber) of
           (Some latest, Some current) \<Rightarrow> if latest - current \<le> 1 then ''latest'' else ref
         | _ \<Rightarrow> ref)
     in io_then (if ref' \<noteq> ''latest'' \<and> lb_timeStampTo latestBlock = ''0'' then blockNumberTimestamp client cfg m now
         else io_return latestBlock) (\<lambda>latestBlock'. io_return (latestBlock', ref')))))"

section \<open>Balances\<close>

text \<open>What the account gained from a moment on.\<close>

definition getBalanceAtBlockTimestamp :: "string \<Rightarrow> account_tx list \<Rightarrow> string \<Rightarrow> int" where
  "getBalanceAtBlockTimestamp account transactions blockTimestamp =
     foldl (+) 0 (map tf_amount (concat (map (\<lambda>transaction. filter (\<lambda>transfer. tf_account transfer = account \<and> \<not> tf_is_approval transfer)
         (tx_transfers transaction))
       (filter (\<lambda>transaction. tx_consensus_timestamp transaction \<ge> blockTimestamp) transactions))))"

text \<open>Older transactions are read only when the next page still reaches into the time after the block.\<close>

definition getPagedTransactions :: "account_mirror \<Rightarrow> string \<Rightarrow> block \<Rightarrow> thrown + account_tx list" where
  "getPagedTransactions m nextPage block = (case search_param nextPage ''timestamp'' of
     JString marker \<Rightarrow> (case split_on (CHR '':'') marker of
         _ # t # _ \<Rightarrow> if t \<ge> bk_to block then am_getAccountPaginated m nextPage else Inr []
       | _ \<Rightarrow> Inr [])
   | _ \<Rightarrow> Inr [])"

definition getBalanceAtBlockNumber :: "account_mirror \<Rightarrow> string \<Rightarrow> block \<Rightarrow> latest_block \<Rightarrow> thrown + int option" where
  "getBalanceAtBlockNumber m account block latestBlock =
     (if seconds_of (lb_timeStampTo latestBlock) - seconds_of (bk_from block) > BALANCES_UPDATE_INTERVAL
      then res_bind (am_getBalanceAtTimestamp m account (bk_from block)) (\<lambda>balance.
        Inr (Some (case balance of Some (b # _) \<Rightarrow> b * TINYBAR_TO_WEIBAR_COEF | _ \<Rightarrow> 0)))
      else res_bind (am_getAccountWithTransactions m account) (\<lambda>mirrorAccount. case mirrorAccount of
        None \<Rightarrow> Inr None
      | Some acc \<Rightarrow>
          res_bind (case ma_next acc of
              Some nextPage \<Rightarrow> if nextPage \<noteq> [] then getPagedTransactions m nextPage block else Inr []
            | None \<Rightarrow> Inr []) (\<lambda>older.
          let currentBalance = (case ma_balance acc of Some b \<Rightarrow> b | None \<Rightarrow> 0);
              balanceFromTxs = getBalanceAtBlockTimestamp (ma_account acc) (ma_transactions acc @ older) (bk_to block)
          in Inr (Some ((currentBalance - balanceFromTxs) * TINYBAR_TO_WEIBAR_COEF)))))"

text \<open>The balance now; an account the mirror node does not know has none.\<close>

definition current_balance :: "account_mirror \<Rightarrow> string \<Rightarrow> thrown + int option" where
  "current_balance m account = res_bind (am_getAccount m account) (\<lambda>mirrorAccount. case mirrorAccount of
     None \<Rightarrow> Inr None
   | Some acc \<Rightarrow> (case ma_balance acc of
       Some b \<Rightarrow> Inr (Some (b * TINYBAR_TO_WEIBAR_COEF))
     | None \<Rightarrow> Inl (js_type_error ''Cannot read properties of undefined'')))"

text \<open>The \<open>try\<close> block of \<open>getBalance\<close>: \<open>latestBlock\<close> is missing when the block was the latest from the start.\<close>

definition balance_in_block :: "account_mirror \<Rightarrow> account_config \<Rightarrow> string \<Rightarrow> latest_block option \<Rightarrow> string \<Rightarrow> thrown + string" where
  "balance_in_block m cfg account latestBlock ref =
     res_bind (if blockTagIsLatestOrPending (Tag ref) then Inr None
         else res_bind (getHistoricalBlockResponse (am_common m) (cc_maxBlockRange (ac_common cfg)) (Tag ref) True) (\<lambda>b. case (b, latestBlock) of
           (Some block, Some latest) \<Rightarrow> if JNumV (bk_number block) \<noteq> lb_blockNumber latest then getBalanceAtBlockNumber m account block latest else Inr None
         | _ \<Rightarrow> Inr None)) (\<lambda>found.
     res_bind (case found of Some weibars \<Rightarrow> Inr (Some weibars) | None \<Rightarrow> current_balance m account) (\<lambda>weibars.
       Inr (case weibars of Some w \<Rightarrow> numberTo0x w | None \<Rightarrow> ''0x0'')))"

definition account_getBalance :: "'s cache_client \<Rightarrow> account_config \<Rightarrow> account_mirror \<Rightarrow> int \<Rightarrow> string \<Rightarrow> string \<Rightarrow> ('s, string) io" where
  "account_getBalance client cfg m now account ref =
     io_then (if blockTagIsLatestOrPending (Tag ref) then io_return (None, ref)
       else io_then (extractBlockNumberAndTimestamp client cfg m now ref) (\<lambda>(latest, ref'). io_return (Some latest, ref')))
     (\<lambda>(latestBlock, ref'). \<lambda>s. rethrow (s, balance_in_block m cfg account latestBlock ref'))"

section \<open>Nonces\<close>

text \<open>A nonce of null belongs to a contract from before nonces were kept; a missing one has no \<open>toString\<close>.\<close>

definition getAccountLatestEthereumNonce :: "account_mirror \<Rightarrow> string \<Rightarrow> thrown + string" where
  "getAccountLatestEthereumNonce m address = res_bind (am_getAccount m address) (\<lambda>accountData. case accountData of
     None \<Rightarrow> Inr ZERO_HEX
   | Some acc \<Rightarrow> (case ma_ethereum_nonce acc of
       NonceIs n \<Rightarrow> Inr (numberTo0x n)
     | NonceNull \<Rightarrow> Inr ONE_HEX
     | NonceUndefined \<Rightarrow> Inl (js_type_error ''Cannot read properties of undefined'')))"

definition getAccountNonceForEarliestBlock :: "account_mirror \<Rightarrow> thrown + string" where
  "getAccountNonceForEarliestBlock m = res_bind (am_getEarliestBlock m) (\<lambda>block. case block of
     None \<Rightarrow> Inl (json_error_thrown (INTERNAL_ERROR ''No network blocks found''))
   | Some b \<Rightarrow> if bk_number b \<le> 1 then Inr ZERO_HEX
       else Inl (json_error_thrown (INTERNAL_ERROR (''Partial mirror node encountered, earliest block number is '' @ dec (bk_number b)))))"

definition getAccountNonceFromContractResult :: "account_mirror \<Rightarrow> string \<Rightarrow> int \<Rightarrow> thrown + string" where
  "getAccountNonceFromContractResult m address blockNum =
     res_bind (mn_getBlock (am_common m) (dec blockNum)) (\<lambda>b. case b of
       None \<Rightarrow> Inl (json_error_thrown (UNKNOWN_BLOCK None))
     | Some block \<Rightarrow> res_bind (am_getLatestEthereumTransactions m address (bk_to block) 2) (\<lambda>transactions. case transactions of
         None \<Rightarrow> Inr ZERO_HEX
       | Some [] \<Rightarrow> Inr ZERO_HEX
       | Some [_] \<Rightarrow> Inr ONE_HEX
       | Some (t # _) \<Rightarrow> res_bind (am_getContractResult m (tx_transaction_id t)) (\<lambda>result. case result of
           None \<Rightarrow> Inl (json_error_thrown (RESOURCE_NOT_FOUND (''Failed to retrieve contract results for transaction '' @ tx_transaction_id t)))
         | Some transactionResult \<Rightarrow> res_bind (am_getAccount m (ct_from transactionResult)) (\<lambda>accountResult. case accountResult of
             None \<Rightarrow> Inl (null_property ''evm_address'')
           | Some acc \<Rightarrow> if ma_evm_address acc \<noteq> toLowerCase address then getAccountLatestEthereumNonce m address
               else Inr (numberTo0x (ct_nonce transactionResult + 1))))))"

text \<open>A block by its number or by its hash.\<close>

definition getAccountNonceForHistoricBlock :: "account_mirror \<Rightarrow> account_config \<Rightarrow> string \<Rightarrow> int + string \<Rightarrow> thrown + string" where
  "getAccountNonceForHistoricBlock m cfg address numOrHash =
     res_bind (case numOrHash of
         Inl n \<Rightarrow> if n < 0 then Inl (json_error_thrown (UNKNOWN_BLOCK None)) else Inr n
       | Inr hash \<Rightarrow> res_bind (mn_getBlock (am_common m) hash) (\<lambda>b. case b of
           Some block \<Rightarrow> Inr (bk_number block) | None \<Rightarrow> Inl (null_property ''number''))) (\<lambda>blockNum.
     res_bind (mn_getLatestBlock (am_common m)) (\<lambda>blocks. case blocks of
       Some (latest # _) \<Rightarrow> if bk_number latest - blockNum \<le> cc_maxBlockRange (ac_common cfg) then getAccountLatestEthereumNonce m address
         else getAccountNonceFromContractResult m address blockNum
     | _ \<Rightarrow> Inl (json_error_thrown (UNKNOWN_BLOCK None))))"

definition account_getTransactionCount ::
    "account_mirror \<Rightarrow> account_config \<Rightarrow> 'p storage \<Rightarrow> 'p \<Rightarrow> string \<Rightarrow> string \<Rightarrow> thrown + string" where
  "account_getTransactionCount m cfg storage pool address ref =
     (let blockNum = Number_str ref in
      if blockNum = Some 0 \<or> blockNum = Some 1 then Inr ZERO_HEX
      else if blockTagIsLatestOrPending (Tag ref)
      then res_bind (getAccountLatestEthereumNonce m address) (\<lambda>mnNonce.
        if ref = ''pending''
        then res_bind (lift_error (getPendingCount storage address pool)) (\<lambda>pending.
          Inr (case Number_str mnNonce of Some n \<Rightarrow> numberTo0x (n + int pending) | None \<Rightarrow> ''0xNaN''))
        else Inr mnNonce)
      else if ref = ''earliest'' then getAccountNonceForEarliestBlock m
      else case blockNum of
          Some n \<Rightarrow> if length ref \<noteq> BLOCK_HASH_LENGTH \<and> n > 0 then getAccountNonceForHistoricBlock m cfg address (Inl n)
            else if length ref = BLOCK_HASH_LENGTH \<and> startsWith ref EMPTY_HEX then getAccountNonceForHistoricBlock m cfg address (Inr ref)
            else Inl (json_error_thrown (UNKNOWN_BLOCK None))
        | None \<Rightarrow> if length ref = BLOCK_HASH_LENGTH \<and> startsWith ref EMPTY_HEX then getAccountNonceForHistoricBlock m cfg address (Inr ref)
            else Inl (json_error_thrown (UNKNOWN_BLOCK None)))"

section \<open>Balances of recent blocks\<close>

text \<open>What one transaction moved to an account.\<close>

definition gain :: "string \<Rightarrow> account_tx \<Rightarrow> int" where
  "gain account transaction =
     sum_list (map tf_amount (filter (\<lambda>transfer. tf_account transfer = account \<and> \<not> tf_is_approval transfer) (tx_transfers transaction)))"

definition balance_before :: "string \<Rightarrow> int \<Rightarrow> account_tx list \<Rightarrow> string \<Rightarrow> int" where
  "balance_before account opening ledger t = opening + sum_list (map (gain account) (filter (\<lambda>x. tx_consensus_timestamp x < t) ledger))"

text \<open>
  The mirror node answers from a ledger: the balance is that of the whole ledger, the answer holds the recent transactions, and a link
  with a bound leads to the older ones, when there are any.
\<close>

definition serves_ledger :: "account_mirror \<Rightarrow> string \<Rightarrow> string \<Rightarrow> int \<Rightarrow> account_tx list \<Rightarrow> account_tx list \<Rightarrow> bool" where
  "serves_ledger m address account opening recent older \<longleftrightarrow> (\<exists>acc. am_getAccountWithTransactions m address = Inr (Some acc) \<and>
     ma_account acc = account \<and> ma_balance acc = Some (opening + sum_list (map (gain account) (recent @ older))) \<and> ma_transactions acc = recent \<and>
     (case ma_next acc of None \<Rightarrow> older = []
      | Some url \<Rightarrow> url \<noteq> [] \<and> am_getAccountPaginated m url = Inr older \<and>
          (\<exists>bound how marker rest. search_param url ''timestamp'' = JString bound \<and> split_on (CHR '':'') bound = how # marker # rest \<and>
             (\<forall>x \<in> set older. tx_consensus_timestamp x < marker))))"

lemma foldl_plus: "foldl (+) (a :: int) xs = a + sum_list xs"
  by (induction xs arbitrary: a) simp_all

lemma gained_since:
  "getBalanceAtBlockTimestamp account ledger t = sum_list (map (gain account) (filter (\<lambda>x. t \<le> tx_consensus_timestamp x) ledger))"
  by (induction ledger) (simp_all add: getBalanceAtBlockTimestamp_def foldl_plus gain_def)

lemma gained_split:
  "sum_list (map (gain account) ledger) - getBalanceAtBlockTimestamp account ledger t =
     sum_list (map (gain account) (filter (\<lambda>x. tx_consensus_timestamp x < t) ledger))"
  unfolding gained_since by (induction ledger) (auto simp: not_le)

lemma getBalanceAtBlockNumber_ledger:
  assumes "serves_ledger m address account opening recent older"
    and "seconds_of (lb_timeStampTo latest) - seconds_of (bk_from block) \<le> BALANCES_UPDATE_INTERVAL"
  shows "getBalanceAtBlockNumber m address block latest =
    Inr (Some (balance_before account opening (recent @ older) (bk_to block) * TINYBAR_TO_WEIBAR_COEF))"
proof -
  obtain acc where acc: "am_getAccountWithTransactions m address = Inr (Some acc)" "ma_account acc = account"
    "ma_balance acc = Some (opening + sum_list (map (gain account) (recent @ older)))" "ma_transactions acc = recent"
    and next_page: "case ma_next acc of None \<Rightarrow> older = []
      | Some url \<Rightarrow> url \<noteq> [] \<and> am_getAccountPaginated m url = Inr older \<and>
          (\<exists>bound how marker rest. search_param url ''timestamp'' = JString bound \<and> split_on (CHR '':'') bound = how # marker # rest \<and>
             (\<forall>x \<in> set older. tx_consensus_timestamp x < marker))"
    using assms(1) unfolding serves_ledger_def by blast
  define fetched where "fetched = (case ma_next acc of Some url \<Rightarrow> if url \<noteq> [] then getPagedTransactions m url block else Inr [] | None \<Rightarrow> Inr [])"
  have "\<exists>got. fetched = Inr got \<and> getBalanceAtBlockTimestamp account (recent @ got) (bk_to block) =
      getBalanceAtBlockTimestamp account (recent @ older) (bk_to block)"
  proof (cases "ma_next acc")
    case (Some url)
    then obtain bound how marker rest where link: "search_param url ''timestamp'' = JString bound" "split_on (CHR '':'') bound = how # marker # rest"
      "\<forall>x \<in> set older. tx_consensus_timestamp x < marker" "am_getAccountPaginated m url = Inr older" "url \<noteq> []"
      using next_page by auto
    have "filter (\<lambda>x. bk_to block \<le> tx_consensus_timestamp x) older = []" if "\<not> bk_to block \<le> marker"
      using link(3) that by (fastforce simp: filter_empty_conv)
    then show ?thesis using Some link by (auto simp: fetched_def getPagedTransactions_def gained_since)
  qed (use next_page in \<open>simp add: fetched_def\<close>)
  then obtain got where got: "fetched = Inr got" "getBalanceAtBlockTimestamp account (recent @ got) (bk_to block) =
      getBalanceAtBlockTimestamp account (recent @ older) (bk_to block)" by blast
  have "opening + sum_list (map (gain account) (recent @ older)) - getBalanceAtBlockTimestamp account (recent @ older) (bk_to block) =
      balance_before account opening (recent @ older) (bk_to block)"
    using gained_split [of account "recent @ older" "bk_to block"] by (simp add: balance_before_def)
  then show ?thesis
    using assms(2) acc got by (simp add: getBalanceAtBlockNumber_def fetched_def [symmetric] Let_def)
qed


text \<open>A transaction at the very end of a block belongs to the block but not to its balance.\<close>

lemma last_transaction_left_out:
  "tx_consensus_timestamp x = t \<Longrightarrow> balance_before account opening (x # ledger) t = balance_before account opening ledger t"
  by (simp add: balance_before_def)

section \<open>Nonces of old blocks\<close>

text \<open>
  The Ethereum transactions an account has sent, in the order of their timestamps; the nonce of each is the number of those
  before it. The mirror node answers with the latest ones up to a moment.
\<close>

definition serves_sent :: "account_mirror \<Rightarrow> string \<Rightarrow> account_tx list \<Rightarrow> bool" where
  "serves_sent m address sent \<longleftrightarrow> sorted (map tx_consensus_timestamp sent) \<and>
     (\<forall>t. am_getLatestEthereumTransactions m address t 2 = Inr (Some (take 2 (rev (filter (\<lambda>x. tx_consensus_timestamp x \<le> t) sent))))) \<and>
     (\<forall>i < length sent. \<exists>r acc. am_getContractResult m (tx_transaction_id (sent ! i)) = Inr (Some r) \<and> ct_nonce r = int i \<and>
        am_getAccount m (ct_from r) = Inr (Some acc) \<and> ma_evm_address acc = toLowerCase address)"

lemma sorted_filter_le:
  "sorted (map f xs) \<Longrightarrow> filter (\<lambda>x. f x \<le> t) xs = take (length (filter (\<lambda>x. f x \<le> t) xs)) xs"
proof (induction xs)
  case (Cons a xs)
  then have "filter (\<lambda>x. f x \<le> t) xs = []" if "\<not> f a \<le> t" using that by (fastforce simp: filter_empty_conv)
  with Cons show ?case by auto
qed simp

lemma nonce_of_sent:
  assumes "serves_sent m address sent" and "mn_getBlock (am_common m) (dec n) = Inr (Some block)"
  shows "getAccountNonceFromContractResult m address n =
    Inr (numberTo0x (int (length (filter (\<lambda>x. tx_consensus_timestamp x \<le> bk_to block) sent))))"
proof -
  have numbers: "numberTo0x 0 = ZERO_HEX" "numberTo0x 1 = ONE_HEX" by (code_simp, code_simp)
  define past where "past = filter (\<lambda>x. tx_consensus_timestamp x \<le> bk_to block) sent"
  have asked: "am_getLatestEthereumTransactions m address (bk_to block) 2 = Inr (Some (take 2 (rev past)))"
    using assms(1) by (simp add: serves_sent_def past_def)
  have past: "past = take (length past) sent"
    using assms(1) sorted_filter_le [of tx_consensus_timestamp sent "bk_to block"] by (simp add: serves_sent_def past_def)
  show ?thesis
  proof (cases "length past < 2")
    case True
    then consider "past = []" | x where "past = [x]" by (cases past rule: remdups_adj.cases) auto
    then show ?thesis using asked assms(2)
      by cases (simp_all add: getAccountNonceFromContractResult_def past_def [symmetric] numbers)
  next
    case False
    then have "2 \<le> length (rev past)" by simp
    then obtain x more where newest1: "rev past = x # more" by (cases "rev past") simp_all
    with \<open>2 \<le> length (rev past)\<close> obtain y ys where "more = y # ys" by (cases more) simp_all
    with newest1 have newest: "rev past = x # y # ys" by simp
    define k where "k = length past - 1"
    have k: "k < length past" using False by (simp add: k_def)
    have "rev past ! 0 = past ! k" using k by (subst rev_nth) (auto simp: k_def)
    then have "x = past ! k" by (simp only: newest nth_Cons_0)
    also have "\<dots> = sent ! k" by (subst past) (simp add: k)
    finally have x: "x = sent ! k" .
    have "length past \<le> length sent" by (simp add: past_def)
    then have "k < length sent" using k by simp
    obtain result acc where "am_getContractResult m (tx_transaction_id x) = Inr (Some result)" "ct_nonce result = int k"
      "am_getAccount m (ct_from result) = Inr (Some acc)" "ma_evm_address acc = toLowerCase address"
      using assms(1) x \<open>k < length sent\<close> unfolding serves_sent_def by blast
    moreover have "int k + 1 = int (length past)" using False by (simp add: k_def)
    ultimately show ?thesis using assms(2) asked newest
      by (simp add: getAccountNonceFromContractResult_def past_def [symmetric])
  qed
qed


text \<open>Asked for the pending count, the service adds the transactions in the pool to the nonce of the account.\<close>

lemma pending_count:
  assumes "am_getAccount m address = Inr (Some acc)" and "ma_ethereum_nonce acc = NonceIs n" and "0 \<le> n" and "n < 2 ^ 53"
    and "getPendingCount storage address pool = Inr k"
  shows "account_getTransactionCount m cfg storage pool address ''pending'' = Inr (numberTo0x (n + int k))"
proof -
  have "Number_str ''pending'' = None" by code_simp
  moreover have "Number_str (numberTo0x n) = Some n" using Number_numberTo0x [OF assms(3)] double_of_int_exact [of n] assms(3,4) by simp
  ultimately show ?thesis
    using assms by (simp add: account_getTransactionCount_def blockTagIsLatestOrPending_def getAccountLatestEthereumNonce_def lift_error_def)
qed

section \<open>A concrete account\<close>

definition received :: "string \<Rightarrow> string \<Rightarrow> int \<Rightarrow> account_tx" where
  "received t txid amount = \<lparr>tx_consensus_timestamp = t, tx_transaction_id = txid,
     tx_transfers = [\<lparr>tf_account = ''0.0.7'', tf_amount = amount, tf_is_approval = False\<rparr>, \<lparr>tf_account = ''0.0.3'', tf_amount = - amount, tf_is_approval = False\<rparr>]\<rparr>"

definition ledger_account :: mirror_account where
  "ledger_account = \<lparr>ma_account = ''0.0.7'', ma_evm_address = ''0xa1'', ma_balance = Some 100, ma_ethereum_nonce = NonceIs 2,
     ma_next = Some ''/api/v1/accounts/0.0.7?timestamp=lt:200.0'', ma_transactions = [received ''200.0'' ''t3'' 30]\<rparr>"

definition past_chain :: mirror where
  "past_chain = sample_mirror\<lparr>mn_getLatestBlock := Inr (Some [sample_block 100 ''500.0'' ''502.0'']),
     mn_getBlock := (\<lambda>ref. Inr (if ref = ''5'' then Some (sample_block 5 ''100.0'' ''102.0'') else None))\<rparr>"

definition ledger_mirror :: account_mirror where
  "ledger_mirror = \<lparr>am_common = past_chain, am_getAccount = (\<lambda>_. Inr (Some ledger_account)),
     am_getAccountWithTransactions = (\<lambda>_. Inr (Some ledger_account)),
     am_getAccountPaginated = (\<lambda>_. Inr [received ''150.0'' ''t2'' 20, received ''099.0'' ''t1'' 10]),
     am_getBalanceAtTimestamp = (\<lambda>_ _. Inr None), am_getEarliestBlock = Inr None,
     am_getLatestEthereumTransactions = (\<lambda>_ t _. Inr (Some (take 2 (rev (filter (\<lambda>x. tx_consensus_timestamp x \<le> t)
       [received ''099.0'' ''t1'' 10, received ''101.0'' ''t2'' 10]))))),
     am_getContractResult = (\<lambda>txid. Inr (Some \<lparr>ct_from = ''0xa1'', ct_nonce = if txid = ''t1'' then 0 else 1\<rparr>))\<rparr>"

definition account_cfg :: account_config where
  "account_cfg = \<lparr>ac_common = sample_common, ac_blockNumberTtl = 1000\<rparr>"

lemma ledger_served:
  "serves_ledger ledger_mirror ''0xa1'' ''0.0.7'' 40 [received ''200.0'' ''t3'' 30] [received ''150.0'' ''t2'' 20, received ''099.0'' ''t1'' 10]"
proof -
  have link: "search_param ''/api/v1/accounts/0.0.7?timestamp=lt:200.0'' ''timestamp'' = JString ''lt:200.0''"
    and bound: "split_on (CHR '':'') ''lt:200.0'' = [''lt'', ''200.0'']" by (code_simp, code_simp)
  have "\<forall>x \<in> set [received ''150.0'' ''t2'' 20, received ''099.0'' ''t1'' 10]. tx_consensus_timestamp x < ''200.0''"
    by (simp add: received_def)
  with link bound show ?thesis
    unfolding serves_ledger_def
    by (intro exI [of _ ledger_account]) (simp add: ledger_mirror_def ledger_account_def, simp add: received_def gain_def)
qed

lemma sent_served: "serves_sent ledger_mirror ''0xA1'' [received ''099.0'' ''t1'' 10, received ''101.0'' ''t2'' 10]"
proof -
  have "toLowerCase ''0xA1'' = ''0xa1''" by code_simp
  then show ?thesis
    by (auto simp: serves_sent_def ledger_mirror_def ledger_account_def received_def less_Suc_eq)
qed

lemma block_five: "Number_str ''0x5'' = Some 5 \<and> dec 5 = ''5'' \<and> Number_str (numberTo0x 100) = Some 100"
proof -
  have "numberTo0x 5 = ''0x5'' \<and> dec 5 = ''5''" by code_simp
  then show ?thesis
    using Number_numberTo0x [of 5] Number_numberTo0x [of 100] double_of_int_exact [of 5] double_of_int_exact [of 100] by simp
qed



end
