(* ===== verification/EthModel.thy ===== *)
theory EthModel
  imports EthFee TxPool
begin

text \<open>
  The objects of the answers and how they are made from the records of the mirror node: transactions
  (\<open>lib/factories/transactionFactory.ts\<close>), receipts (\<open>transactionReceiptFactory.ts\<close>), blocks (\<open>blockFactory.ts\<close>, \<open>lib/model.ts\<close>) and the
  bloom filter of logs (\<open>logsBloomUtils.ts\<close>). A missing or null field of a record is \<open>None\<close>. The hash function keccak256 is an argument.
\<close>

section \<open>Constants\<close>

definition INVALID_EVM_INSTRUCTION :: string where "INVALID_EVM_INSTRUCTION = ''0xfe''"
definition EMPTY_BLOOM :: string where "EMPTY_BLOOM = ''0x'' @ replicate 512 (CHR ''0'')"
definition ZERO_ADDRESS_HEX :: string where "ZERO_ADDRESS_HEX = ''0x'' @ replicate 40 (CHR ''0'')"
definition ZERO_HEX_8_BYTE :: string where "ZERO_HEX_8_BYTE = ''0x0000000000000000''"
definition EMPTY_ARRAY_HEX :: string where
  "EMPTY_ARRAY_HEX = ''0x1dcc4de8dec75d7aab85b567b6ccd41ad312451b948a7413f0a142fd40d49347''"
definition DEFAULT_ROOT_HASH :: string where
  "DEFAULT_ROOT_HASH = ''0x56e81f171bcc55a6ff8345e692c0f86e5b48e01b996cadc001622fb5e363b421''"
definition TX_DEFAULT_GAS_DEFAULT :: int where "TX_DEFAULT_GAS_DEFAULT = 400000"
definition BLOCK_GAS_LIMIT :: int where "BLOCK_GAS_LIMIT = 30000000"

section \<open>Contract results\<close>

record contract_result =
  cr_hash :: string
  cr_from :: string
  cr_to :: "string option"
  cr_result :: string
  cr_error_message :: "string option"
  cr_block_hash :: string
  cr_block_number :: "int option"
  cr_block_gas_used :: "int option"
  cr_transaction_index :: "int option"
  cr_gas_limit :: "int option"
  cr_gas_price :: "string option"
  cr_gas_used :: "int option"
  cr_function_parameters :: string
  cr_call_result :: string
  cr_nonce :: "int option"
  cr_r :: "string option"
  cr_s :: "string option"
  cr_v :: "int option"
  cr_type :: "int option"
  cr_amount :: "int option"
  cr_chain_id :: "string option"
  cr_max_priority_fee_per_gas :: "string option"
  cr_max_fee_per_gas :: "string option"
  cr_root :: "string option"
  cr_status :: string
  cr_bloom :: string
  cr_address :: string
  cr_contract_id :: "string option"
  cr_created_contract_ids :: "string list"
  cr_timestamp :: string
  cr_logs :: "mirror_log list"

section \<open>Transactions\<close>

text \<open>A chain that is left out of the object is \<open>None\<close>.\<close>

record tx_object =
  xt_blockHash :: string
  xt_blockNumber :: "string option"
  xt_chainId :: "string option"
  xt_from :: string
  xt_gas :: string
  xt_gasPrice :: string
  xt_hash :: string
  xt_input :: string
  xt_nonce :: string
  xt_r :: string
  xt_s :: string
  xt_to :: "string option"
  xt_transactionIndex :: "string option"
  xt_type :: string
  xt_v :: string
  xt_value :: string

text \<open>Transactions with an access list (always empty) repeat \<open>v\<close> as \<open>yParity\<close>; the last class adds the priority fee and the fee limit.\<close>

datatype transaction =
    Transaction tx_object
  | Transaction2930 tx_object string
  | Transaction1559 tx_object string string string

definition tx_fields :: "transaction \<Rightarrow> tx_object" where
  "tx_fields t = (case t of Transaction f \<Rightarrow> f | Transaction2930 f _ \<Rightarrow> f | Transaction1559 f _ _ _ \<Rightarrow> f)"

definition fee_hex :: "string option \<Rightarrow> string" where
  "fee_hex fee = (case fee of
     None \<Rightarrow> ZERO_HEX
   | Some f \<Rightarrow> if f = EMPTY_HEX then ZERO_HEX
       else prepend0x (case trimPrecedingZeros (Some f) of Some t \<Rightarrow> t | None \<Rightarrow> ''0''))"

definition createTransactionByType :: "int option \<Rightarrow> tx_object \<Rightarrow> string option \<Rightarrow> string option \<Rightarrow> transaction option" where
  "createTransactionByType type obj maxPriorityFee maxFee =
     (if type = None \<or> type = Some 0 then Some (Transaction obj)
      else if type = Some 1 then Some (Transaction2930 obj (xt_v obj))
      else if type = Some 2 then Some (Transaction1559 obj (xt_v obj) (fee_hex maxPriorityFee) (fee_hex maxFee))
      else None)"

text \<open>The transaction of a log without a contract result; \<open>signature\<close> is the text for \<open>r\<close> and \<open>s\<close>.\<close>

definition transaction_of_log :: "string \<Rightarrow> eth_log \<Rightarrow> int \<Rightarrow> string \<Rightarrow> transaction option" where
  "transaction_of_log chainId l type signature = createTransactionByType (Some type)
     \<lparr>xt_blockHash = lg_blockHash l, xt_blockNumber = Some (lg_blockNumber l), xt_chainId = Some chainId, xt_from = lg_address l,
      xt_gas = numberTo0x TX_DEFAULT_GAS_DEFAULT, xt_gasPrice = INVALID_EVM_INSTRUCTION, xt_hash = lg_transactionHash l,
      xt_input = ZERO_HEX_8_BYTE, xt_nonce = nanOrNumberTo0x (JNum 0), xt_r = signature, xt_s = signature, xt_to = Some (lg_address l),
      xt_transactionIndex = Some (lg_transactionIndex l), xt_type = numberTo0x type, xt_v = ZERO_HEX, xt_value = ZERO_HEX\<rparr>
     (Some ZERO_HEX) (Some ZERO_HEX)"

definition createTransactionFromLog :: "string \<Rightarrow> eth_log \<Rightarrow> int \<Rightarrow> transaction option" where
  "createTransactionFromLog chainId l type = transaction_of_log chainId l type EMPTY_HEX"

definition js_num :: "int option \<Rightarrow> js_number" where
  "js_num n = (case n of Some i \<Rightarrow> JNum i | None \<Rightarrow> JNull)"

text \<open>A price that is not hexadecimal is a text, whose \<open>toString\<close> is the text itself.\<close>

definition gas_price_hex :: "string option \<Rightarrow> string" where
  "gas_price_hex price = (case price of
     None \<Rightarrow> ZERO_HEX
   | Some p \<Rightarrow> if p = ''0x'' then ZERO_HEX
       else if isHex p then numberTo0x ((case BigInt_str p of Some n \<Rightarrow> n | None \<Rightarrow> 0) * TINYBAR_TO_WEIBAR_COEF)
       else EMPTY_HEX @ p)"

definition signature_hex :: "string option \<Rightarrow> string" where
  "signature_hex s = (case s of None \<Rightarrow> ZERO_HEX | Some t \<Rightarrow> stripLeadingZeroForSignatures (str_slice t 0 66))"

definition createTransactionFromContractResult :: "contract_result \<Rightarrow> thrown + transaction option" where
  "createTransactionFromContractResult cr = (case tinybarsToWeibars (cr_amount cr) True of
     Inl m \<Rightarrow> Inl (js_type_error m)
   | Inr amount \<Rightarrow> Inr (createTransactionByType (cr_type cr)
       \<lparr>xt_blockHash = toHash32 (cr_block_hash cr), xt_blockNumber = nullableNumberTo0x (cr_block_number cr),
        xt_chainId = (if cr_chain_id cr = Some EMPTY_HEX then None else cr_chain_id cr), xt_from = str_slice (cr_from cr) 0 42,
        xt_gas = nanOrNumberTo0x (js_num (cr_gas_limit cr)), xt_gasPrice = gas_price_hex (cr_gas_price cr),
        xt_hash = str_slice (cr_hash cr) 0 66, xt_input = cr_function_parameters cr, xt_nonce = nanOrNumberTo0x (js_num (cr_nonce cr)),
        xt_r = signature_hex (cr_r cr), xt_s = signature_hex (cr_s cr), xt_to = map_option (\<lambda>a. str_slice a 0 42) (cr_to cr),
        xt_transactionIndex = nullableNumberTo0x (cr_transaction_index cr), xt_type = nanOrNumberTo0x (js_num (cr_type cr)),
        xt_v = nanOrNumberTo0x (js_num (cr_v cr)), xt_value = nanOrNumberInt64To0x (js_num amount)\<rparr>
       (cr_max_priority_fee_per_gas cr) (cr_max_fee_per_gas cr)))"

section \<open>Bloom filters\<close>

text \<open>The three places of an item: the low eleven bits of the first three pairs of bytes of its hash.\<close>

definition bloom_locs :: "8 word list \<Rightarrow> nat list" where
  "bloom_locs item = map (\<lambda>i. (unat (item ! (2 * i)) * 256 + unat (item ! (2 * i + 1))) mod 2048) [0, 1, 2]"

definition set_bloom_bit :: "nat \<Rightarrow> 8 word list \<Rightarrow> 8 word list" where
  "set_bloom_bit loc bitvector =
     (let byteLoc = loc div 8; i = 256 - byteLoc - 1 in bitvector[i := or (bitvector ! i) (push_bit (loc mod 8) 1)])"

definition bloom_of :: "(string \<Rightarrow> 8 word list) \<Rightarrow> string list \<Rightarrow> 8 word list" where
  "bloom_of keccak256 items = fold (\<lambda>item. fold set_bloom_bit (bloom_locs (keccak256 item))) items (replicate 256 0)"

definition buildLogsBloom :: "(string \<Rightarrow> 8 word list) \<Rightarrow> string \<Rightarrow> string list \<Rightarrow> string" where
  "buildLogsBloom keccak256 address topics =
     (if address = [] then EMPTY_BLOOM else if topics = [] then EMPTY_BLOOM
      else prepend0x (toHexString (bloom_of keccak256 (address # topics))))"

section \<open>Receipts\<close>

record receipt =
  rc_blockHash :: string
  rc_blockNumber :: string
  rc_contractAddress :: string
  rc_cumulativeGasUsed :: string
  rc_effectiveGasPrice :: string
  rc_from :: string
  rc_gasUsed :: string
  rc_logs :: "eth_log list"
  rc_logsBloom :: string
  rc_root :: string
  rc_status :: string
  rc_to :: "string option"
  rc_transactionHash :: string
  rc_transactionIndex :: string
  rc_type :: string
  rc_revertReason :: "string option"

text \<open>The receipt of a transaction without a contract result holds the first of its logs.\<close>

definition createSyntheticReceipt :: "(string \<Rightarrow> 8 word list) \<Rightarrow> eth_log \<Rightarrow> string \<Rightarrow> receipt" where
  "createSyntheticReceipt keccak256 l gasPriceForTimestamp =
     \<lparr>rc_blockHash = lg_blockHash l, rc_blockNumber = lg_blockNumber l, rc_contractAddress = lg_address l,
      rc_cumulativeGasUsed = ZERO_HEX, rc_effectiveGasPrice = gasPriceForTimestamp, rc_from = ZERO_ADDRESS_HEX,
      rc_gasUsed = ZERO_HEX, rc_logs = [l], rc_logsBloom = buildLogsBloom keccak256 (lg_address l) (lg_topics l),
      rc_root = DEFAULT_ROOT_HASH, rc_status = ''0x1'', rc_to = Some (lg_address l), rc_transactionHash = lg_transactionHash l,
      rc_transactionIndex = lg_transactionIndex l, rc_type = ZERO_HEX, rc_revertReason = None\<rparr>"

text \<open>\<open>numberTo0x\<close> of a missing number throws.\<close>

definition number_field :: "int option \<Rightarrow> thrown + string" where
  "number_field n = (case n of Some i \<Rightarrow> Inr (numberTo0x i) | None \<Rightarrow> Inl (js_type_error ''Cannot read properties of null''))"

definition revert_reason :: "string option \<Rightarrow> string option" where
  "revert_reason errorMessage = (case errorMessage of
     None \<Rightarrow> None
   | Some m \<Rightarrow> if m = [] then None else Some (if isHex (prepend0x m) then m else prepend0x (ASCIIToHex m)))"

text \<open>The receipt of a contract creation has no receiver.\<close>

definition createRegularReceipt ::
    "string \<Rightarrow> string \<Rightarrow> eth_log list \<Rightarrow> contract_result \<Rightarrow> string option \<Rightarrow> thrown + receipt" where
  "createRegularReceipt effectiveGas from logs r to =
     res_bind (number_field (cr_block_number r)) (\<lambda>blockNumber.
     res_bind (number_field (cr_block_gas_used r)) (\<lambda>cumulativeGasUsed.
     res_bind (number_field (cr_transaction_index r)) (\<lambda>transactionIndex.
       Inr \<lparr>rc_blockHash = toHash32 (cr_block_hash r), rc_blockNumber = blockNumber,
         rc_contractAddress = getContractAddressFromReceipt (cr_address r) (cr_function_parameters r) (cr_call_result r),
         rc_cumulativeGasUsed = cumulativeGasUsed, rc_effectiveGasPrice = effectiveGas, rc_from = from,
         rc_gasUsed = nanOrNumberTo0x (js_num (cr_gas_used r)), rc_logs = logs,
         rc_logsBloom = (if cr_bloom r = EMPTY_HEX then EMPTY_BLOOM else cr_bloom r),
         rc_root = (case cr_root r of Some h \<Rightarrow> if h \<noteq> [] then h else DEFAULT_ROOT_HASH | None \<Rightarrow> DEFAULT_ROOT_HASH),
         rc_status = cr_status r,
         rc_to = (case cr_contract_id r of Some c \<Rightarrow> if c \<in> set (cr_created_contract_ids r) then None else to | None \<Rightarrow> to),
         rc_transactionHash = toHash32 (cr_hash r), rc_transactionIndex = transactionIndex, rc_type = nanOrNumberTo0x (js_num (cr_type r)),
         rc_revertReason = revert_reason (cr_error_message r)\<rparr>)))"

section \<open>Blocks\<close>

text \<open>The transactions of a block, as objects or as hashes.\<close>

datatype block_txs = Details "transaction list" | Hashes "string list"

record block_object =
  bo_baseFeePerGas :: string
  bo_difficulty :: string
  bo_extraData :: string
  bo_gasLimit :: string
  bo_gasUsed :: string
  bo_hash :: string
  bo_logsBloom :: string
  bo_miner :: string
  bo_mixHash :: string
  bo_nonce :: string
  bo_number :: string
  bo_parentHash :: string
  bo_receiptsRoot :: string
  bo_timestamp :: string
  bo_sha3Uncles :: string
  bo_size :: string
  bo_stateRoot :: string
  bo_totalDifficulty :: string
  bo_transactions :: block_txs
  bo_transactionsRoot :: string
  bo_uncles :: "string list"
  bo_withdrawals :: "string list"
  bo_withdrawalsRoot :: string

text \<open>\<open>n | 0\<close>: a missing number is zero, and the bits are those of a signed 32-bit number.\<close>

definition to_int32 :: "int option \<Rightarrow> int" where
  "to_int32 n = (case n of None \<Rightarrow> 0 | Some i \<Rightarrow> sint (word_of_int i :: 32 word))"

definition block_timestamp :: "string \<Rightarrow> string" where
  "block_timestamp from = (let t = (if CHR ''.'' \<in> set from then takeWhile (\<lambda>c. c \<noteq> CHR ''.'') from else [])
     in case Number_str t of Some n \<Rightarrow> numberTo0x n | None \<Rightarrow> ''0xNaN'')"

definition no_transactions_in :: "block_txs \<Rightarrow> bool" where
  "no_transactions_in txs \<longleftrightarrow> txs = Details [] \<or> txs = Hashes []"

definition createBlock :: "block \<Rightarrow> block_txs \<Rightarrow> string \<Rightarrow> string \<Rightarrow> block_object" where
  "createBlock b txArray price receiptsRoot =
     \<lparr>bo_baseFeePerGas = price, bo_difficulty = ZERO_HEX, bo_extraData = EMPTY_HEX, bo_gasLimit = numberTo0x BLOCK_GAS_LIMIT,
      bo_gasUsed = numberTo0x (bk_gas_used b), bo_hash = toHash32 (bk_hash b),
      bo_logsBloom = (if bk_logs_bloom b = EMPTY_HEX then EMPTY_BLOOM else bk_logs_bloom b), bo_miner = ZERO_ADDRESS_HEX,
      bo_mixHash = ZERO_HEX_32_BYTE, bo_nonce = ZERO_HEX_8_BYTE, bo_number = numberTo0x (bk_number b),
      bo_parentHash = str_slice (bk_previous_hash b) 0 66, bo_receiptsRoot = receiptsRoot, bo_timestamp = block_timestamp (bk_from b),
      bo_sha3Uncles = EMPTY_ARRAY_HEX, bo_size = numberTo0x (to_int32 (bk_size b)), bo_stateRoot = DEFAULT_ROOT_HASH,
      bo_totalDifficulty = ZERO_HEX, bo_transactions = txArray,
      bo_transactionsRoot = (if no_transactions_in txArray then DEFAULT_ROOT_HASH else toHash32 (bk_hash b)), bo_uncles = [],
      bo_withdrawals = [], bo_withdrawalsRoot = ZERO_HEX_32_BYTE\<rparr>"

section \<open>Bloom filters find every log\<close>

definition bloom_has :: "8 word list \<Rightarrow> nat \<Rightarrow> bool" where
  "bloom_has bitvector loc \<longleftrightarrow> bit (bitvector ! (255 - loc div 8)) (loc mod 8)"

lemma complement_inj: "x < 256 \<Longrightarrow> y < 256 \<Longrightarrow> 255 - x = 255 - y \<longleftrightarrow> x = (y :: nat)"
  by arith

lemma bloom_place:
  assumes "a < 2048" and "b < 2048"
  shows "255 - a div 8 = 255 - b div 8 \<and> a mod 8 = b mod 8 \<longleftrightarrow> a = (b :: nat)"
proof -
  have "a div 8 < 256" by (rule less_mult_imp_div_less) (use assms(1) in simp)
  moreover have "b div 8 < 256" by (rule less_mult_imp_div_less) (use assms(2) in simp)
  moreover have "a div 8 * 8 + a mod 8 = a" "b div 8 * 8 + b mod 8 = b" by (rule div_mult_mod_eq)+
  ultimately show ?thesis by (metis complement_inj)
qed

lemma one_bit: "n < 8 \<Longrightarrow> m < 8 \<Longrightarrow> bit (push_bit n 1 :: 8 word) m \<longleftrightarrow> m = n"
  by (simp add: push_bit_eq_mult bit_exp_iff)

lemma set_bloom_bit_has:
  assumes "length bv = 256" and "loc < 2048" and "l < 2048"
  shows "bloom_has (set_bloom_bit loc bv) l \<longleftrightarrow> l = loc \<or> bloom_has bv l"
proof -
  have new: "bit (push_bit (loc mod 8) 1 :: 8 word) (l mod 8) \<longleftrightarrow> l mod 8 = loc mod 8" by (rule one_bit) simp_all
  have place: "set_bloom_bit loc bv ! (255 - l div 8) =
      (if 255 - l div 8 = 255 - loc div 8 then or (bv ! (255 - loc div 8)) (push_bit (loc mod 8) 1) else bv ! (255 - l div 8))"
    using assms(1) by (simp add: set_bloom_bit_def Let_def nth_list_update del: push_bit_of_1)
  show ?thesis
    unfolding bloom_has_def place using bloom_place [OF assms(3,2)] by (simp only: bit_or_iff new split: if_split) metis
qed

lemma set_bloom_bits_has:
  assumes "length bv = 256" and "\<forall>loc \<in> set locs. loc < 2048" and "l < 2048"
  shows "length (fold set_bloom_bit locs bv) = 256 \<and> (bloom_has (fold set_bloom_bit locs bv) l \<longleftrightarrow> l \<in> set locs \<or> bloom_has bv l)"
  using assms
proof (induction locs arbitrary: bv)
  case (Cons loc locs)
  moreover have "length (set_bloom_bit loc bv) = 256" using Cons.prems by (simp add: set_bloom_bit_def Let_def)
  ultimately show ?case using set_bloom_bit_has [of bv loc l] by auto
qed simp

lemma bloom_locs_small: "\<forall>loc \<in> set (bloom_locs item). loc < 2048"
  by (simp add: bloom_locs_def)

lemma blooms_has:
  assumes "length bv = 256" and "l < 2048"
  shows "length (fold (\<lambda>item. fold set_bloom_bit (bloom_locs (keccak256 item))) items bv) = 256 \<and>
    (bloom_has (fold (\<lambda>item. fold set_bloom_bit (bloom_locs (keccak256 item))) items bv) l \<longleftrightarrow>
      (\<exists>item \<in> set items. l \<in> set (bloom_locs (keccak256 item))) \<or> bloom_has bv l)"
  using assms
proof (induction items arbitrary: bv)
  case (Cons item items)
  then show ?case using set_bloom_bits_has [OF Cons.prems(1) bloom_locs_small Cons.prems(2), of "keccak256 item"] by auto
qed simp


definition plain_hash :: "string \<Rightarrow> 8 word list" where
  "plain_hash s = map (\<lambda>i. of_nat (length s + i)) [0..<32]"


end
