(* ===== verification/EthBlock.thy ===== *)
theory EthBlock
  imports EthModel Precheck
begin

text \<open>
  Blocks and their receipts (\<open>lib/services/ethService/blockService/BlockService.ts\<close>, \<open>blockWorker.ts\<close>) and the resolution of addresses
  (\<open>CommonService.ts\<close>). The mirror node is a record of functions, as for the other services; the packages for hashing, for the RLP
  encoding and for the trie are a record of functions as well.
\<close>

section \<open>Packages and queries\<close>

text \<open>An item of the RLP encoding.\<close>

datatype rlp_item = RlpBytes "8 word list" | RlpList "rlp_item list"

record crypto =
  cy_keccak256 :: "string \<Rightarrow> 8 word list"
  cy_hexToBytes :: "string \<Rightarrow> 8 word list"
  cy_bytesToInt :: "8 word list \<Rightarrow> int"
  cy_intToBytes :: "int \<Rightarrow> 8 word list"
  cy_rlpInt :: "int \<Rightarrow> 8 word list"
  cy_rlpEncode :: "rlp_item \<Rightarrow> 8 word list"
  cy_trieRoot :: "(8 word list \<times> 8 word list) list \<Rightarrow> 8 word list"

record block_mirror =
  bm_common :: mirror
  bm_getContractResultsWithRetry :: "string list \<Rightarrow> thrown + contract_result list option"
  bm_getContractResults :: "string list \<Rightarrow> thrown + contract_result list option"
  bm_resolveEntityType :: "string \<Rightarrow> string list \<Rightarrow> thrown + (string \<times> string option) option"

record block_config =
  bc_common :: common_config
  bc_scaled :: "int \<Rightarrow> int"
  bc_maxBlockSize :: int
  bc_revertStatuses :: "string list"
  bc_chain :: string

section \<open>Addresses\<close>

text \<open>The entity of an address comes with its type and its EVM address; a token keeps the address it was asked for.\<close>

definition resolveEvmAddress :: "block_mirror \<Rightarrow> string \<Rightarrow> string list \<Rightarrow> thrown + string" where
  "resolveEvmAddress m address searchableTypes =
     (if address = [] then Inr address
      else res_bind (bm_resolveEntityType m address searchableTypes) (\<lambda>entity. Inr (case entity of
          Some (type, Some evm_address) \<Rightarrow> if (type = ''CONTRACT'' \<or> type = ''ACCOUNT'') \<and> evm_address \<noteq> [] then evm_address else address
        | _ \<Rightarrow> address)))"

definition ALL_TYPES :: "string list" where
  "ALL_TYPES = [''CONTRACT'', ''TOKEN'', ''ACCOUNT'']"

text \<open>A missing address stays missing.\<close>

definition resolve_optional :: "block_mirror \<Rightarrow> string option \<Rightarrow> thrown + string option" where
  "resolve_optional m address = (case address of
     None \<Rightarrow> Inr None | Some a \<Rightarrow> res_bind (resolveEvmAddress m a ALL_TYPES) (\<lambda>r. Inr (Some r)))"

section \<open>The transactions of a block\<close>

text \<open>\<open>_.uniqWith(xs, _.isEqual)\<close> keeps the first of equal elements.\<close>

fun uniq :: "'a list \<Rightarrow> 'a list" where
  "uniq [] = []"
| "uniq (x # xs) = x # filter (\<lambda>y. y \<noteq> x) (uniq xs)"

definition synthetic_transaction :: "string \<Rightarrow> eth_log \<Rightarrow> transaction option" where
  "synthetic_transaction chain l = transaction_of_log chain l 0 ZERO_HEX"

text \<open>A transaction is added for every log whose transaction is not among the results.\<close>

definition populateSyntheticTransactions :: "string \<Rightarrow> eth_log list \<Rightarrow> block_txs \<Rightarrow> block_txs" where
  "populateSyntheticTransactions chain logs txs = (case txs of
     Details ts \<Rightarrow> Details (uniq (ts @ List.map_filter (synthetic_transaction chain)
       (filter (\<lambda>l. lg_transactionHash l \<notin> set (map (xt_hash \<circ> tx_fields) ts)) logs)))
   | Hashes hs \<Rightarrow> Hashes (uniq (hs @ map lg_transactionHash (filter (\<lambda>l. lg_transactionHash l \<notin> set hs) logs))))"

text \<open>
  The results that count for the network, with their addresses resolved; the chain of a result that has none is that of the relay. A
  result becomes its hash, or a transaction, which is null for an unknown type.
\<close>

definition skipped_result :: "block_config \<Rightarrow> contract_result \<Rightarrow> bool" where
  "skipped_result cfg cr = isRevertedDueToHederaSpecificValidation (bc_revertStatuses cfg) (cr_result cr) (cr_error_message cr)"

definition resolved_result :: "block_mirror \<Rightarrow> block_config \<Rightarrow> contract_result \<Rightarrow> thrown + contract_result" where
  "resolved_result m cfg cr =
     res_bind (resolveEvmAddress m (cr_from cr) [''ACCOUNT'']) (\<lambda>from.
     res_bind (resolve_optional m (cr_to cr)) (\<lambda>to.
       Inr (cr\<lparr>cr_from := from, cr_to := to,
         cr_chain_id := (case cr_chain_id cr of Some c \<Rightarrow> Some (if c \<noteq> [] then c else bc_chain cfg) | None \<Rightarrow> Some (bc_chain cfg))\<rparr>)))"

fun prepared :: "block_mirror \<Rightarrow> block_config \<Rightarrow> (contract_result \<Rightarrow> thrown + 'a) \<Rightarrow> contract_result list \<Rightarrow> thrown + 'a list" where
  "prepared m cfg mk [] = Inr []"
| "prepared m cfg mk (cr # crs) =
     (if skipped_result cfg cr then prepared m cfg mk crs
      else res_bind (resolved_result m cfg cr) (\<lambda>r. res_bind (mk r) (\<lambda>x. res_bind (prepared m cfg mk crs) (\<lambda>xs. Inr (x # xs)))))"

datatype prepared_txs = PreparedTxs "transaction option list" | PreparedHashes "string list"

definition prepareTransactionArray :: "block_mirror \<Rightarrow> block_config \<Rightarrow> contract_result list \<Rightarrow> bool \<Rightarrow> thrown + prepared_txs" where
  "prepareTransactionArray m cfg contractResults showDetails =
     (if showDetails then map_sum id PreparedTxs (prepared m cfg createTransactionFromContractResult contractResults)
      else map_sum id PreparedHashes (prepared m cfg (\<lambda>r. Inr (cr_hash r)) contractResults))"

text \<open>Reading the hash of a null transaction throws.\<close>

definition known_txs :: "prepared_txs \<Rightarrow> thrown + block_txs" where
  "known_txs txs = (case txs of
     PreparedTxs ts \<Rightarrow> if None \<in> set ts then Inl (js_type_error ''Cannot read properties of null'') else Inr (Details (map the ts))
   | PreparedHashes hs \<Rightarrow> Inr (Hashes hs))"

section \<open>The root of the receipts\<close>

record receipt_root =
  rr_transactionIndex :: "string option"
  rr_type :: "string option"
  rr_root :: "string option"
  rr_status :: string
  rr_cumulativeGasUsed :: string
  rr_logsBloom :: string
  rr_logs :: "eth_log list"

definition positive_hex :: "int option \<Rightarrow> string option" where
  "positive_hex n = (case n of Some i \<Rightarrow> if i \<noteq> 0 then Some (numberTo0x i) else None | None \<Rightarrow> None)"

text \<open>A transaction without a result takes the bloom filter from the address of the first log of the block and the topics of its own first log.\<close>

definition receipt_root_of ::
    "(string \<Rightarrow> 8 word list) \<Rightarrow> contract_result list \<Rightarrow> eth_log list \<Rightarrow> string \<Rightarrow> thrown + receipt_root" where
  "receipt_root_of keccak256 contractResults logs txHash =
     (let logsPerTx = filter (\<lambda>l. lg_transactionHash l = txHash) logs in
      case filter (\<lambda>cr. cr_hash cr = txHash) contractResults of
        cr # _ \<Rightarrow> Inr \<lparr>rr_transactionIndex = (case cr_transaction_index cr of Some i \<Rightarrow> Some (numberTo0x i)
              | None \<Rightarrow> (case logsPerTx of l # _ \<Rightarrow> Some (lg_transactionIndex l) | [] \<Rightarrow> None)),
            rr_type = positive_hex (cr_type cr), rr_root = cr_root cr, rr_status = cr_status cr,
            rr_cumulativeGasUsed = (case positive_hex (cr_block_gas_used cr) of Some g \<Rightarrow> g | None \<Rightarrow> ZERO_HEX),
            rr_logsBloom = cr_bloom cr, rr_logs = logsPerTx\<rparr>
      | [] \<Rightarrow> (case (logs, logsPerTx) of
            (first # _, l # _) \<Rightarrow> Inr \<lparr>rr_transactionIndex = Some (lg_transactionIndex l), rr_type = None, rr_root = Some ZERO_HEX_32_BYTE,
              rr_status = ''0x1'', rr_cumulativeGasUsed = ZERO_HEX, rr_logsBloom = buildLogsBloom keccak256 (lg_address first) (lg_topics l),
              rr_logs = logsPerTx\<rparr>
          | _ \<Rightarrow> Inl (js_type_error ''Cannot read properties of undefined'')))"

fun res_map :: "('a \<Rightarrow> thrown + 'b) \<Rightarrow> 'a list \<Rightarrow> thrown + 'b list" where
  "res_map f [] = Inr []"
| "res_map f (x # xs) = res_bind (f x) (\<lambda>y. res_bind (res_map f xs) (\<lambda>ys. Inr (y # ys)))"

definition buildReceiptRootHashes ::
    "(string \<Rightarrow> 8 word list) \<Rightarrow> string list \<Rightarrow> contract_result list \<Rightarrow> eth_log list \<Rightarrow> thrown + receipt_root list" where
  "buildReceiptRootHashes keccak256 txHashes contractResults logs = res_map (receipt_root_of keccak256 contractResults logs) txHashes"

definition encodeLogs :: "crypto \<Rightarrow> eth_log list \<Rightarrow> rlp_item" where
  "encodeLogs c logs = RlpList (map (\<lambda>l. RlpList [RlpBytes (cy_hexToBytes c (lg_address l)),
     RlpList (map (\<lambda>t. RlpBytes (cy_hexToBytes c t)) (lg_topics l)), RlpBytes (cy_hexToBytes c (lg_data l))]) logs)"

text \<open>The status stands in for a missing root; a typed transaction has its type in front.\<close>

definition encodeReceipt :: "crypto \<Rightarrow> receipt_root \<Rightarrow> int \<Rightarrow> 8 word list" where
  "encodeReceipt c receipt txType =
     (let receiptRoot = (case rr_root receipt of
            Some r \<Rightarrow> if r \<noteq> [] then cy_hexToBytes c r
              else if cy_bytesToInt c (cy_hexToBytes c (rr_status receipt)) = 0 then [] else cy_hexToBytes c ''0x1''
          | None \<Rightarrow> if cy_bytesToInt c (cy_hexToBytes c (rr_status receipt)) = 0 then [] else cy_hexToBytes c ''0x1'');
          encodedReceipt = cy_rlpEncode c (RlpList [RlpBytes receiptRoot, RlpBytes (cy_hexToBytes c (rr_cumulativeGasUsed receipt)),
            RlpBytes (cy_hexToBytes c (rr_logsBloom receipt)), encodeLogs c (rr_logs receipt)])
      in if txType = 0 then encodedReceipt else cy_intToBytes c txType @ encodedReceipt)"

definition or_zero :: "string option \<Rightarrow> string" where
  "or_zero s = (case s of Some t \<Rightarrow> t | None \<Rightarrow> ZERO_HEX)"

definition getRootHash :: "crypto \<Rightarrow> receipt_root list \<Rightarrow> string" where
  "getRootHash c receipts =
     (if receipts = [] then ZERO_HEX_32_BYTE
      else prepend0x (toHexString (cy_trieRoot c (map (\<lambda>receipt.
        (if rr_transactionIndex receipt = Some ZERO_HEX then cy_rlpEncode c (RlpBytes [])
         else cy_rlpInt c (cy_bytesToInt c (cy_hexToBytes c (or_zero (rr_transactionIndex receipt)))),
         encodeReceipt c receipt (cy_bytesToInt c (cy_hexToBytes c (or_zero (rr_type receipt)))))) receipts))))"

section \<open>Blocks\<close>

definition tx_hashes :: "block_txs \<Rightarrow> string list" where
  "tx_hashes txs = (case txs of Details ts \<Rightarrow> map (xt_hash \<circ> tx_fields) ts | Hashes hs \<Rightarrow> hs)"

text \<open>
  Results and logs are asked for at the same time; when both queries fail, the error of the results stands for either. The number of
  transactions in the error is that of the mirror node, which always sends one.
\<close>

definition worker_getBlock :: "crypto \<Rightarrow> block_mirror \<Rightarrow> block_config \<Rightarrow> string \<Rightarrow> bool \<Rightarrow> thrown + block_object option" where
  "worker_getBlock c m cfg ref showDetails =
     res_bind (getHistoricalBlockResponse (bm_common m) (cc_maxBlockRange (bc_common cfg)) (Tag ref) True) (\<lambda>b. case b of
       None \<Rightarrow> Inr None
     | Some blockResponse \<Rightarrow>
         (let range = [''gte:'' @ bk_from blockResponse, ''lte:'' @ bk_to blockResponse] in
          res_bind (bm_getContractResultsWithRetry m range) (\<lambda>results.
          res_bind (getLogsWithParams (bm_common m) NoAddress \<lparr>lq_timestamp = range, lq_topics = []\<rparr>) (\<lambda>logs. case results of
            None \<Rightarrow> if logs = [] then Inr None else Inl (js_type_error ''Cannot read properties of null'')
          | Some contractResults \<Rightarrow>
              if showDetails \<and> int (length contractResults) \<ge> bc_maxBlockSize cfg
              then Inl (json_error_thrown (MAX_BLOCK_SIZE (case bk_count blockResponse of Some n \<Rightarrow> n | None \<Rightarrow> 0)))
              else res_bind (prepareTransactionArray m cfg contractResults showDetails) (\<lambda>prep.
                res_bind (known_txs prep) (\<lambda>known.
                let txArray = populateSyntheticTransactions (bc_chain cfg) logs known in
                res_bind (buildReceiptRootHashes (cy_keccak256 c) (tx_hashes txArray) contractResults logs) (\<lambda>receipts.
                res_bind (gasPrice (bm_common m) (bc_scaled cfg)) (\<lambda>price.
                  Inr (Some (createBlock blockResponse txArray price (getRootHash c receipts)))))))))))"

section \<open>Receipts of a block\<close>

text \<open>The logs of each transaction, in the order in which the transactions first appear.\<close>

definition logs_by_hash :: "eth_log list \<Rightarrow> (string \<times> eth_log list) list" where
  "logs_by_hash logs = map (\<lambda>h. (h, filter (\<lambda>l. lg_transactionHash l = h) logs)) (uniq (map lg_transactionHash logs))"

definition regular_receipt ::
    "block_mirror \<Rightarrow> string \<Rightarrow> eth_log list \<Rightarrow> contract_result \<Rightarrow> thrown + receipt" where
  "regular_receipt m effectiveGas logs cr =
     res_bind (resolveEvmAddress m (cr_from cr) ALL_TYPES) (\<lambda>from.
     res_bind (resolve_optional m (cr_to cr)) (\<lambda>to.
       createRegularReceipt effectiveGas from (filter (\<lambda>l. lg_transactionHash l = cr_hash cr) logs) cr to))"

definition synthetic_receipts :: "(string \<Rightarrow> 8 word list) \<Rightarrow> string \<Rightarrow> contract_result list \<Rightarrow> eth_log list \<Rightarrow> receipt list" where
  "synthetic_receipts keccak256 effectiveGas contractResults logs =
     map (\<lambda>(h, group). createSyntheticReceipt keccak256 (hd group) effectiveGas)
       (filter (\<lambda>(h, group). h \<notin> set (map cr_hash contractResults)) (logs_by_hash logs))"

definition worker_getBlockReceipts :: "crypto \<Rightarrow> block_mirror \<Rightarrow> block_config \<Rightarrow> string \<Rightarrow> thrown + receipt list option" where
  "worker_getBlockReceipts c m cfg ref =
     res_bind (getHistoricalBlockResponse (bm_common m) (cc_maxBlockRange (bc_common cfg)) (Tag ref) True) (\<lambda>b. case b of
       None \<Rightarrow> Inr None
     | Some block \<Rightarrow>
         (let range = [''lte:'' @ bk_to block, ''gte:'' @ bk_from block] in
          res_bind (bm_getContractResults m range) (\<lambda>results.
          res_bind (getLogsWithParams (bm_common m) NoAddress \<lparr>lq_timestamp = range, lq_topics = []\<rparr>) (\<lambda>logs.
            if (results = None \<or> results = Some []) \<and> logs = [] then Inr (Some [])
            else res_bind (getGasPriceInWeibars (bm_common m) (Some (hd (split_on (CHR ''.'') (bk_from block))))) (\<lambda>price.
              let effectiveGas = numberTo0x price in
              case results of
                None \<Rightarrow> Inl (js_type_error ''Cannot read properties of null'')
              | Some contractResults \<Rightarrow>
                  res_bind (res_map (regular_receipt m effectiveGas logs) (filter (\<lambda>cr. \<not> skipped_result cfg cr) contractResults)) (\<lambda>receipts.
                    Inr (Some (receipts @ synthetic_receipts (cy_keccak256 c) effectiveGas contractResults logs))))))))"

section \<open>The service\<close>

definition with_generic_errors :: "thrown + 'a \<Rightarrow> thrown + 'a" where
  "with_generic_errors r = (case r of Inl e \<Rightarrow> Inl (genericErrorHandler e) | Inr v \<Rightarrow> Inr v)"

definition block_getBlock :: "crypto \<Rightarrow> block_mirror \<Rightarrow> block_config \<Rightarrow> string \<Rightarrow> bool \<Rightarrow> thrown + block_object option" where
  "block_getBlock c m cfg ref showDetails = WorkersPool_run (worker_getBlock c m cfg ref showDetails)"

definition block_getBlockByHash :: "crypto \<Rightarrow> block_mirror \<Rightarrow> block_config \<Rightarrow> string \<Rightarrow> bool \<Rightarrow> thrown + block_object option" where
  "block_getBlockByHash c m cfg hash showDetails = with_generic_errors (block_getBlock c m cfg hash showDetails)"

definition block_getBlockByNumber :: "crypto \<Rightarrow> block_mirror \<Rightarrow> block_config \<Rightarrow> string \<Rightarrow> bool \<Rightarrow> thrown + block_object option" where
  "block_getBlockByNumber c m cfg blockNumber showDetails = with_generic_errors (block_getBlock c m cfg blockNumber showDetails)"

definition block_getBlockReceipts :: "crypto \<Rightarrow> block_mirror \<Rightarrow> block_config \<Rightarrow> string \<Rightarrow> thrown + receipt list option" where
  "block_getBlockReceipts c m cfg ref = WorkersPool_run (worker_getBlockReceipts c m cfg ref)"

definition getTransactionCountFromBlockResponse :: "block option \<Rightarrow> string option" where
  "getTransactionCountFromBlockResponse b = (case b of
     None \<Rightarrow> None | Some block \<Rightarrow> (case bk_count block of None \<Rightarrow> None | Some n \<Rightarrow> Some (numberTo0x n)))"

definition block_getBlockTransactionCountByHash :: "block_mirror \<Rightarrow> string \<Rightarrow> thrown + string option" where
  "block_getBlockTransactionCountByHash m hash =
     with_generic_errors (res_bind (mn_getBlock (bm_common m) hash) (\<lambda>b. Inr (getTransactionCountFromBlockResponse b)))"

text \<open>The tag is translated outside the handler of errors.\<close>

definition block_getBlockTransactionCountByNumber :: "block_mirror \<Rightarrow> string \<Rightarrow> thrown + string option" where
  "block_getBlockTransactionCountByNumber m blockNumOrTag =
     res_bind (translateBlockTag (bm_common m) (Tag blockNumOrTag)) (\<lambda>blockNum.
       with_generic_errors (res_bind (mn_getBlock (bm_common m) (case blockNum of Some n \<Rightarrow> dec n | None \<Rightarrow> ''NaN''))
         (\<lambda>b. Inr (getTransactionCountFromBlockResponse b))))"

text \<open>There are no uncles.\<close>

definition getUncleByBlockHashAndIndex :: "string \<Rightarrow> string \<Rightarrow> jv" where "getUncleByBlockHashAndIndex blockHash index = JNullV"
definition getUncleByBlockNumberAndIndex :: "string \<Rightarrow> string \<Rightarrow> jv" where "getUncleByBlockNumberAndIndex blockNumOrTag index = JNullV"
definition getUncleCountByBlockHash :: "string \<Rightarrow> string" where "getUncleCountByBlockHash blockHash = ZERO_HEX"
definition getUncleCountByBlockNumber :: "string \<Rightarrow> string" where "getUncleCountByBlockNumber blockNumOrTag = ZERO_HEX"

section \<open>Blocks and their receipts\<close>

lemma set_uniq [simp]: "set (uniq xs) = set xs"
  by (induction xs) auto

lemma distinct_uniq [simp]: "distinct (uniq xs)"
  by (induction xs) auto

lemma resolved_result_hash: "resolved_result m cfg cr = Inr r \<Longrightarrow> cr_hash r = cr_hash cr"
  by (auto simp: resolved_result_def res_bind_eq_Inr)

lemma prepared_hashes:
  "prepared m cfg (\<lambda>r. Inr (cr_hash r)) crs = Inr hs \<Longrightarrow> hs = map cr_hash (filter (\<lambda>cr. \<not> skipped_result cfg cr) crs)"
  by (induction crs arbitrary: hs) (auto simp: res_bind_eq_Inr resolved_result_hash split: if_splits)

lemma with_generic_errors_Inr [simp]: "with_generic_errors r = Inr v \<longleftrightarrow> r = Inr v"
  by (cases r) (simp_all add: with_generic_errors_def)

lemma WorkersPool_run_Inr [simp]: "WorkersPool_run r = Inr v \<longleftrightarrow> r = Inr v"
  by (cases r) (simp_all add: WorkersPool_run_def)

lemma worker_getBlock_hashes:
  assumes "worker_getBlock c m cfg ref False = Inr (Some b)"
  obtains block crs logs where
    "getHistoricalBlockResponse (bm_common m) (cc_maxBlockRange (bc_common cfg)) (Tag ref) True = Inr (Some block)"
    "bm_getContractResultsWithRetry m [''gte:'' @ bk_from block, ''lte:'' @ bk_to block] = Inr (Some crs)"
    "getLogsWithParams (bm_common m) NoAddress \<lparr>lq_timestamp = [''gte:'' @ bk_from block, ''lte:'' @ bk_to block], lq_topics = []\<rparr> = Inr logs"
    "bo_transactions b = Hashes (uniq (map cr_hash (filter (\<lambda>cr. \<not> skipped_result cfg cr) crs) @
      map lg_transactionHash (filter (\<lambda>l. lg_transactionHash l \<notin> set (map cr_hash (filter (\<lambda>cr. \<not> skipped_result cfg cr) crs))) logs)))"
proof -
  obtain block where block: "getHistoricalBlockResponse (bm_common m) (cc_maxBlockRange (bc_common cfg)) (Tag ref) True = Inr (Some block)"
    using assms by (auto simp: worker_getBlock_def res_bind_eq_Inr split: option.splits)
  let ?range = "[''gte:'' @ bk_from block, ''lte:'' @ bk_to block]"
  obtain results logs where asked: "bm_getContractResultsWithRetry m ?range = Inr results"
    "getLogsWithParams (bm_common m) NoAddress \<lparr>lq_timestamp = ?range, lq_topics = []\<rparr> = Inr logs"
    using assms block by (auto simp: worker_getBlock_def Let_def res_bind_eq_Inr)
  obtain crs where crs: "results = Some crs"
    using assms block asked by (cases results) (auto simp: worker_getBlock_def Let_def split: if_splits)
  obtain hs where hs: "prepared m cfg (\<lambda>r. Inr (cr_hash r)) crs = Inr hs"
    and txs: "bo_transactions b = populateSyntheticTransactions (bc_chain cfg) logs (Hashes hs)"
    using assms block asked crs
    by (cases "prepared m cfg (\<lambda>r. Inr (cr_hash r)) crs")
      (auto simp: worker_getBlock_def Let_def res_bind_eq_Inr prepareTransactionArray_def known_txs_def createBlock_def)
  show thesis
    using that [OF block asked(1) [unfolded crs] asked(2)] txs prepared_hashes [OF hs]
    by (simp add: populateSyntheticTransactions_def)
qed

lemma res_map_map:
  "res_map f xs = Inr ys \<Longrightarrow> (\<And>x y. f x = Inr y \<Longrightarrow> g y = h x) \<Longrightarrow> map g ys = map h xs"
  by (induction xs arbitrary: ys) (auto simp: res_bind_eq_Inr)

lemma regular_receipt_hash: "regular_receipt m effectiveGas logs cr = Inr r \<Longrightarrow> rc_transactionHash r = toHash32 (cr_hash cr)"
  by (auto simp: regular_receipt_def createRegularReceipt_def res_bind_eq_Inr)

lemma synthetic_receipt_hashes:
  "rc_transactionHash ` set (synthetic_receipts keccak256 effectiveGas crs logs) =
     lg_transactionHash ` set (filter (\<lambda>l. lg_transactionHash l \<notin> set (map cr_hash crs)) logs)"
proof -
  have first: "lg_transactionHash (hd (filter (\<lambda>l. lg_transactionHash l = h) logs)) = h" if "h \<in> lg_transactionHash ` set logs" for h
  proof -
    have "filter (\<lambda>l. lg_transactionHash l = h) logs \<noteq> []" using that by (auto simp: filter_empty_conv)
    then show ?thesis using hd_in_set by fastforce
  qed
  have "rc_transactionHash ` set (synthetic_receipts keccak256 effectiveGas crs logs) =
      (\<lambda>h. lg_transactionHash (hd (filter (\<lambda>l. lg_transactionHash l = h) logs))) ` {h \<in> lg_transactionHash ` set logs. h \<notin> set (map cr_hash crs)}"
    by (simp add: synthetic_receipts_def logs_by_hash_def createSyntheticReceipt_def filter_map comp_def image_image)
  also have "\<dots> = {h \<in> lg_transactionHash ` set logs. h \<notin> set (map cr_hash crs)}"
    using first by force
  finally show ?thesis by auto
qed

lemma worker_receipt_hashes:
  assumes "worker_getBlockReceipts c m cfg ref = Inr (Some rs)"
    and "getHistoricalBlockResponse (bm_common m) (cc_maxBlockRange (bc_common cfg)) (Tag ref) True = Inr (Some block)"
    and "bm_getContractResults m [''lte:'' @ bk_to block, ''gte:'' @ bk_from block] = Inr (Some crs)"
    and "getLogsWithParams (bm_common m) NoAddress \<lparr>lq_timestamp = [''lte:'' @ bk_to block, ''gte:'' @ bk_from block], lq_topics = []\<rparr> = Inr logs"
  shows "set (map rc_transactionHash rs) = toHash32 ` cr_hash ` {cr \<in> set crs. \<not> skipped_result cfg cr} \<union>
    lg_transactionHash ` {l \<in> set logs. lg_transactionHash l \<notin> cr_hash ` set crs}"
proof (cases "crs = [] \<and> logs = []")
  case True
  then show ?thesis using assms by (simp add: worker_getBlockReceipts_def)
next
  case False
  then obtain gas receipts where receipts: "res_map (regular_receipt m gas logs) (filter (\<lambda>cr. \<not> skipped_result cfg cr) crs) = Inr receipts"
    and rs: "rs = receipts @ synthetic_receipts (cy_keccak256 c) gas crs logs"
    using assms by (auto simp: worker_getBlockReceipts_def Let_def res_bind_eq_Inr)
  have "map rc_transactionHash receipts = map (\<lambda>cr. toHash32 (cr_hash cr)) (filter (\<lambda>cr. \<not> skipped_result cfg cr) crs)"
    by (rule res_map_map [OF receipts regular_receipt_hash])
  from arg_cong [OF this, of set] show ?thesis
    by (simp add: rs synthetic_receipt_hashes image_image)
qed

text \<open>C23: A block and its receipts tell of the same transactions: the hashes of a block are distinct, and they are exactly the transaction
  hashes of its receipts, for results and for logs without a result alike, as long as the mirror node answers both queries for the range
  of the block in the same way, its hashes have 32 bytes, and a result that does not count for the network has no logs.\<close>

theorem block_and_receipts_agree:
  assumes "block_getBlockByNumber c m cfg ref False = Inr (Some b)" and "block_getBlockReceipts c m cfg ref = Inr (Some rs)"
    and "\<And>from to. bm_getContractResults m [''lte:'' @ to, ''gte:'' @ from] = bm_getContractResultsWithRetry m [''gte:'' @ from, ''lte:'' @ to]"
    and "\<And>from to. mn_getContractResultsLogsWithRetry (bm_common m) \<lparr>lq_timestamp = [''lte:'' @ to, ''gte:'' @ from], lq_topics = []\<rparr> =
      mn_getContractResultsLogsWithRetry (bm_common m) \<lparr>lq_timestamp = [''gte:'' @ from, ''lte:'' @ to], lq_topics = []\<rparr>"
    and "\<And>range crs cr. bm_getContractResultsWithRetry m range = Inr (Some crs) \<Longrightarrow> cr \<in> set crs \<Longrightarrow> length (cr_hash cr) \<le> 66"
    and "\<And>range crs cr q ls l. bm_getContractResultsWithRetry m range = Inr (Some crs) \<Longrightarrow> cr \<in> set crs \<Longrightarrow> skipped_result cfg cr \<Longrightarrow>
      mn_getContractResultsLogsWithRetry (bm_common m) q = Inr (Some ls) \<Longrightarrow> l \<in> set ls \<Longrightarrow> toHash32 (ml_transaction_hash l) \<noteq> cr_hash cr"
  shows "\<exists>hs. bo_transactions b = Hashes hs \<and> distinct hs \<and> set (map rc_transactionHash rs) = set hs"
proof -
  have "worker_getBlock c m cfg ref False = Inr (Some b)" using assms(1) by (simp add: block_getBlockByNumber_def block_getBlock_def)
  then obtain block crs logs where block: "getHistoricalBlockResponse (bm_common m) (cc_maxBlockRange (bc_common cfg)) (Tag ref) True = Inr (Some block)"
    and crs: "bm_getContractResultsWithRetry m [''gte:'' @ bk_from block, ''lte:'' @ bk_to block] = Inr (Some crs)"
    and logs: "getLogsWithParams (bm_common m) NoAddress \<lparr>lq_timestamp = [''gte:'' @ bk_from block, ''lte:'' @ bk_to block], lq_topics = []\<rparr> = Inr logs"
    and txs: "bo_transactions b = Hashes (uniq (map cr_hash (filter (\<lambda>cr. \<not> skipped_result cfg cr) crs) @
      map lg_transactionHash (filter (\<lambda>l. lg_transactionHash l \<notin> set (map cr_hash (filter (\<lambda>cr. \<not> skipped_result cfg cr) crs))) logs)))"
    by (rule worker_getBlock_hashes)
  have "getLogsWithParams (bm_common m) NoAddress \<lparr>lq_timestamp = [''lte:'' @ bk_to block, ''gte:'' @ bk_from block], lq_topics = []\<rparr> = Inr logs"
    using logs unfolding getLogsWithParams_def log_address.case assms(4) .
  then have rs: "set (map rc_transactionHash rs) = toHash32 ` cr_hash ` {cr \<in> set crs. \<not> skipped_result cfg cr} \<union>
      lg_transactionHash ` {l \<in> set logs. lg_transactionHash l \<notin> cr_hash ` set crs}"
    using worker_receipt_hashes [OF _ block, of c rs crs logs] assms(2,3) crs by (simp add: block_getBlockReceipts_def)
  have short: "toHash32 (cr_hash cr) = cr_hash cr" if "cr \<in> set crs" for cr
    using assms(5) [OF crs that] by (simp add: toHash32_def str_slice_def)
  have apart: "lg_transactionHash l \<noteq> cr_hash cr" if l: "l \<in> set logs" "cr \<in> set crs" "skipped_result cfg cr" for l cr
  proof -
    obtain answer where "mn_getContractResultsLogsWithRetry (bm_common m) \<lparr>lq_timestamp = [''gte:'' @ bk_from block, ''lte:'' @ bk_to block], lq_topics = []\<rparr> = Inr answer"
      "logs = (case answer of None \<Rightarrow> [] | Some ls \<Rightarrow> map Log_of ls)"
      using logs unfolding getLogsWithParams_def log_address.case res_bind_eq_Inr by auto
    then obtain q ls k where "mn_getContractResultsLogsWithRetry (bm_common m) q = Inr (Some ls)" "k \<in> set ls" "l = Log_of k"
      using l(1) by (cases answer) auto
    then show ?thesis using assms(6) [OF crs l(2,3)] by (simp add: Log_of_def)
  qed
  have "set (map rc_transactionHash rs) = cr_hash ` {cr \<in> set crs. \<not> skipped_result cfg cr} \<union>
      lg_transactionHash ` {l \<in> set logs. lg_transactionHash l \<notin> cr_hash ` {cr \<in> set crs. \<not> skipped_result cfg cr}}"
    unfolding rs using short apart by (fastforce simp: image_iff)
  then show ?thesis by (intro exI conjI) (rule txs, auto)
qed

text \<open>With details, two logs of one transaction without a result count twice when their addresses differ.\<close>

lemma duplicate_details:
  assumes "lg_address a \<noteq> lg_address b" and "lg_transactionHash a = lg_transactionHash b"
  shows "\<exists>s t. populateSyntheticTransactions chain [a, b] (Details []) = Details [s, t] \<and> xt_hash (tx_fields s) = xt_hash (tx_fields t)"
    and "populateSyntheticTransactions chain [a, b] (Hashes []) = Hashes [lg_transactionHash a]"
  using assms
  by (simp_all add: populateSyntheticTransactions_def synthetic_transaction_def transaction_of_log_def createTransactionByType_def
      List.map_filter_def tx_fields_def)

section \<open>A concrete block\<close>

definition sample_result :: "string \<Rightarrow> contract_result" where
  "sample_result hash = \<lparr>cr_hash = hash, cr_from = ''0xa1'', cr_to = Some ''0xb2'', cr_result = ''SUCCESS'', cr_error_message = None,
     cr_block_hash = ''0xab'', cr_block_number = Some 2, cr_block_gas_used = Some 50, cr_transaction_index = Some 1, cr_gas_limit = Some 100,
     cr_gas_price = Some ''0x'', cr_gas_used = Some 50, cr_function_parameters = ''0x'', cr_call_result = ''0x'', cr_nonce = Some 3,
     cr_r = None, cr_s = None, cr_v = Some 1, cr_type = Some 2, cr_amount = Some 0, cr_chain_id = Some ''0x12a'',
     cr_max_priority_fee_per_gas = None, cr_max_fee_per_gas = None, cr_root = None, cr_status = ''0x1'', cr_bloom = ''0x'', cr_address = ''0xb2'',
     cr_contract_id = Some ''0.0.9'', cr_created_contract_ids = [], cr_timestamp = ''21.0'', cr_logs = []\<rparr>"

definition sample_crypto :: crypto where
  "sample_crypto = \<lparr>cy_keccak256 = plain_hash, cy_hexToBytes = (\<lambda>s. [of_nat (length s)]), cy_bytesToInt = (\<lambda>bs. int (length bs)),
     cy_intToBytes = (\<lambda>n. [of_int n]), cy_rlpInt = (\<lambda>n. [of_int n]), cy_rlpEncode = (\<lambda>_. []), cy_trieRoot = (\<lambda>ps. [of_nat (length ps)])\<rparr>"

text \<open>One transaction with a result, and one that left a log only.\<close>

definition sample_block_mirror :: block_mirror where
  "sample_block_mirror = \<lparr>bm_common = sample_mirror\<lparr>mn_getContractResultsLogsWithRetry := (\<lambda>_. Inr (Some [sample_log ''21.0'']))\<rparr>,
     bm_getContractResultsWithRetry = (\<lambda>_. Inr (Some [sample_result ''0xee''])),
     bm_getContractResults = (\<lambda>_. Inr (Some [sample_result ''0xee''])), bm_resolveEntityType = (\<lambda>_ _. Inr None)\<rparr>"

definition sample_block_config :: block_config where
  "sample_block_config = \<lparr>bc_common = sample_common, bc_scaled = (\<lambda>_. 0), bc_maxBlockSize = 1000, bc_revertStatuses = [''WRONG_NONCE''], bc_chain = ''0x12a''\<rparr>"

lemma sample_not_skipped: "\<not> skipped_result sample_block_config (sample_result h)"
proof -
  have "hexToASCII (strip0x []) = [] \<and> [] \<noteq> units ''WRONG_NONCE''" by code_simp
  then show ?thesis
    by (simp add: skipped_result_def isRevertedDueToHederaSpecificValidation_def sample_block_config_def sample_result_def)
qed

lemma sample_block_two: "getHistoricalBlockResponse (bm_common sample_block_mirror) 5 (Tag ''latest'') True = Inr (Some (sample_block 2 ''20.0'' ''29.9''))"
proof -
  have "Number_str ''latest'' = None" by code_simp
  then show ?thesis
    by (simp add: getHistoricalBlockResponse_def blockTagIsLatestOrPending_def beyond_range_def latest_first_def sample_block_mirror_def sample_mirror_def)
qed

lemma sample_parts:
  "bc_common sample_block_config = sample_common" "bc_maxBlockSize sample_block_config = 1000" "bc_chain sample_block_config = ''0x12a''"
  "bc_scaled sample_block_config = (\<lambda>_. 0)" "cc_maxBlockRange sample_common = 5" "bm_resolveEntityType sample_block_mirror = (\<lambda>_ _. Inr None)"
  "bm_getContractResultsWithRetry sample_block_mirror = (\<lambda>_. Inr (Some [sample_result ''0xee'']))"
  "bm_getContractResults sample_block_mirror = (\<lambda>_. Inr (Some [sample_result ''0xee'']))"
  "getLogsWithParams (bm_common sample_block_mirror) NoAddress q = Inr [Log_of (sample_log ''21.0'')]"
  "getGasPriceInWeibars (bm_common sample_block_mirror) t = Inr 50000000000"
  by (simp_all add: sample_block_config_def sample_common_def sample_block_mirror_def sample_mirror_def getLogsWithParams_def
      getGasPriceInWeibars_def TINYBAR_TO_WEIBAR_COEF_def)

lemma sample_hashes: "lg_transactionHash (Log_of (sample_log t)) = ''0xcd''" "cr_hash (sample_result h) = h"
  by (simp_all add: Log_of_def sample_log_def toHash32_def str_slice_def sample_result_def)

lemma sample_resolved: "resolved_result sample_block_mirror sample_block_config (sample_result h) = Inr (sample_result h)"
  by (simp add: resolved_result_def resolveEvmAddress_def resolve_optional_def sample_parts) (simp add: sample_result_def resolveEvmAddress_def sample_parts)

lemma sample_getBlock:
  "\<exists>b. worker_getBlock sample_crypto sample_block_mirror sample_block_config ''latest'' False = Inr (Some b) \<and> bo_transactions b = Hashes [''0xee'', ''0xcd'']"
  by (simp add: worker_getBlock_def sample_parts sample_block_two Let_def prepareTransactionArray_def sample_not_skipped sample_resolved
      known_txs_def populateSyntheticTransactions_def sample_hashes tx_hashes_def buildReceiptRootHashes_def receipt_root_of_def gasPrice_def createBlock_def)

lemma sample_regular: "\<exists>r. regular_receipt sample_block_mirror gas logs (sample_result h) = Inr r"
  by (simp add: regular_receipt_def resolveEvmAddress_def resolve_optional_def createRegularReceipt_def sample_parts)
    (simp add: sample_result_def number_field_def resolveEvmAddress_def sample_parts)

lemma sample_getBlockReceipts:
  "\<exists>rs. worker_getBlockReceipts sample_crypto sample_block_mirror sample_block_config ''latest'' = Inr (Some rs)"
proof -
  obtain r where "regular_receipt sample_block_mirror (numberTo0x 50000000000) [Log_of (sample_log ''21.0'')] (sample_result ''0xee'') = Inr r"
    using sample_regular by blast
  then show ?thesis by (simp add: worker_getBlockReceipts_def sample_parts sample_block_two Let_def sample_not_skipped)
qed

theorem block_and_receipts_agree_witness:
  "\<exists>b rs. block_getBlockByNumber sample_crypto sample_block_mirror sample_block_config ''latest'' False = Inr (Some b) \<and>
     block_getBlockReceipts sample_crypto sample_block_mirror sample_block_config ''latest'' = Inr (Some rs) \<and>
     bo_transactions b = Hashes [''0xee'', ''0xcd''] \<and> set (map rc_transactionHash rs) = {''0xee'', ''0xcd''}"
proof -
  obtain b where b: "block_getBlockByNumber sample_crypto sample_block_mirror sample_block_config ''latest'' False = Inr (Some b)"
    "bo_transactions b = Hashes [''0xee'', ''0xcd'']" using sample_getBlock by (auto simp: block_getBlockByNumber_def block_getBlock_def)
  obtain rs where rs: "block_getBlockReceipts sample_crypto sample_block_mirror sample_block_config ''latest'' = Inr (Some rs)"
    using sample_getBlockReceipts by (auto simp: block_getBlockReceipts_def)
  have hash: "length (cr_hash cr) \<le> 66 \<and> \<not> skipped_result sample_block_config cr" if "bm_getContractResultsWithRetry sample_block_mirror range = Inr (Some crs)"
    "cr \<in> set crs" for range crs cr using that by (auto simp: sample_parts sample_hashes sample_not_skipped)
  have "\<exists>hs. bo_transactions b = Hashes hs \<and> distinct hs \<and> set (map rc_transactionHash rs) = set hs"
    by (rule block_and_receipts_agree [OF b(1) rs])
      (use hash in \<open>auto simp: sample_parts sample_block_mirror_def\<close>)
  with b rs show ?thesis by auto
qed

end
