(* ===== verification/EthContract.thy ===== *)
theory EthContract
  imports EthBlock EthFilter MirrorNode
begin

text \<open>
  Contract calls, gas estimates, code and storage (\<open>lib/services/ethService/contractService/ContractService.ts\<close>). A call object is a
  JavaScript object, since it goes to the mirror node as JSON after some of its properties were changed; \<open>NaN\<close> is the null that JSON makes of it. The
  mirror node is a record of functions, as for the other services; the one account the service looks up is cached.
\<close>

section \<open>Queries and configuration\<close>

record contract_mirror =
  km_common :: mirror
  km_postContractCall :: "jv \<Rightarrow> thrown + jv"
  km_getAccount :: "string \<Rightarrow> thrown + jv"
  km_getContractState :: "string \<Rightarrow> string \<Rightarrow> string option \<Rightarrow> thrown + jv list option"
  km_resolveEntityType :: "string \<Rightarrow> string list \<Rightarrow> thrown + jv"

text \<open>
  \<open>kc_hexEcdsa\<close> tells whether the key of the operator is of the format \<open>HEX_ECDSA\<close>; then its address is \<open>kc_operatorEvmAddress\<close>, which is
  undefined without an operator.
\<close>

record contract_config =
  kc_common :: common_config
  kc_hexEcdsa :: bool
  kc_operatorEvmAddress :: jv
  kc_operatorAccountId :: string

definition MAX_GAS_PER_SEC :: int where "MAX_GAS_PER_SEC = 15000000"
definition HTS_ADDRESS :: string where "HTS_ADDRESS = ''0x0000000000000000000000000000000000000167''"

text \<open>\<open>CommonService.getAccount\<close>: the account from the cache, or from the mirror node, whose answer is kept.\<close>

definition common_getAccount :: "'s cache_client \<Rightarrow> contract_mirror \<Rightarrow> int \<Rightarrow> string \<Rightarrow> ('s, jv) io" where
  "common_getAccount client m now address =
     (let key = ''account_'' @ address in
      io_then (\<lambda>s. io_cache (c_get client now key s)) (\<lambda>cached.
      if truthy cached then io_return cached
      else io_then (io_pure (km_getAccount m address)) (\<lambda>account.
        io_then (\<lambda>s. io_cache (c_set client now key account None s)) (\<lambda>_. io_return account))))"

section \<open>The call object\<close>

definition js_set :: "string \<Rightarrow> jv \<Rightarrow> jv \<Rightarrow> jv" where
  "js_set k x v = (case v of JObject ps \<Rightarrow> JObject (AList.update k x ps) | _ \<Rightarrow> v)"

text \<open>\<open>v?.toString()\<close>, and \<open>Number.parseInt\<close> of a text as a JavaScript number.\<close>

definition opt_toString :: "jv \<Rightarrow> string option" where
  "opt_toString v = (if nullish v then None else Some (js_String v))"

definition js_parseInt :: "string \<Rightarrow> jv" where
  "js_parseInt s = number_jv (map_option double_of_int (parseInt_auto s))"

definition weibar_of :: "jv \<Rightarrow> weibar_value" where
  "weibar_of v = (case v of JNumV n \<Rightarrow> NumberV n | JBool b \<Rightarrow> BoolV b | _ \<Rightarrow> StringV (js_String v))"

definition positive_value :: "jv \<Rightarrow> bool" where
  "positive_value v = (case v of JNumV n \<Rightarrow> n > 0 | _ \<Rightarrow> False)"

text \<open>The value in tinybars.\<close>

definition format_value :: "jv \<Rightarrow> thrown + jv" where
  "format_value c = (if truthy (js_get c ''value'')
     then res_bind (other_error (weibarHexToTinyBarInt (weibar_of (js_get c ''value'')))) (\<lambda>t. Inr (js_set ''value'' (JNumV t) c))
     else Inr c)"

text \<open>A gas price of zero is left out; a missing one counts as zero.\<close>

definition format_price :: "jv \<Rightarrow> jv" where
  "format_price c = (let price = js_parseInt (or_str (opt_toString (js_get c ''gasPrice'')) ''0'')
     in if price = JNumV 0 then js_delete [''gasPrice''] (js_set ''gasPrice'' price c) else js_set ''gasPrice'' price c)"

definition format_gas :: "jv \<Rightarrow> jv" where
  "format_gas c = (if truthy (js_get c ''gas'') then js_set ''gas'' (js_parseInt (js_String (js_get c ''gas''))) c else c)"

text \<open>Someone has to pay the value: without a sender it is the operator.\<close>

definition format_from :: "'s cache_client \<Rightarrow> contract_config \<Rightarrow> contract_mirror \<Rightarrow> int \<Rightarrow> jv \<Rightarrow> ('s, jv) io" where
  "format_from client cfg m now c =
     (if \<not> truthy (js_get c ''from'') \<and> truthy (js_get c ''value'') \<and> positive_value (js_get c ''value'')
      then if kc_hexEcdsa cfg then io_return (js_set ''from'' (kc_operatorEvmAddress cfg) c)
        else io_then (common_getAccount client m now (kc_operatorAccountId cfg)) (\<lambda>operatorAccount.
          io_return (js_set ''from'' (js_get operatorAccount ''evm_address'') c))
      else io_return c)"

text \<open>The input takes the place of the data, unless the data are null or empty.\<close>

definition format_input :: "jv \<Rightarrow> jv" where
  "format_input c = (let i = js_get c ''input''; d = js_get c ''data'' in
     if truthy i \<and> d = JUndefined \<or> truthy i \<and> truthy d then js_delete [''input''] (js_set ''data'' i c) else c)"

definition contractCallFormat :: "'s cache_client \<Rightarrow> contract_config \<Rightarrow> contract_mirror \<Rightarrow> int \<Rightarrow> jv \<Rightarrow> ('s, jv) io" where
  "contractCallFormat client cfg m now transaction =
     io_then (io_pure (format_value transaction)) (\<lambda>c.
     io_then (format_from client cfg m now (format_gas (format_price c))) (\<lambda>c1. io_return (format_input c1)))"

definition getCappedBlockGasLimit :: "string option \<Rightarrow> jv option" where
  "getCappedBlockGasLimit gasString = (case gasString of
     None \<Rightarrow> None
   | Some g \<Rightarrow> if g = [] then None
       else Some (case js_parseInt g of JNumV gas \<Rightarrow> JNumV (if gas > MAX_GAS_PER_SEC then MAX_GAS_PER_SEC else gas) | v \<Rightarrow> v))"

definition set_opt :: "string \<Rightarrow> jv option \<Rightarrow> jv \<Rightarrow> jv" where
  "set_opt k x v = (case x of Some y \<Rightarrow> js_set k y v | None \<Rightarrow> v)"

definition prepareMirrorNodeCallData :: "jv \<Rightarrow> jv option \<Rightarrow> jv \<Rightarrow> string option \<Rightarrow> jv" where
  "prepareMirrorNodeCallData c gas value block =
     set_opt ''block'' (map_option JString block) (js_set ''estimate'' (JBool False)
       ((if value \<noteq> JNullV then js_set ''value'' value else id) (set_opt ''gas'' gas c)))"

section \<open>Calls\<close>

definition getBlockNumberFromHash :: "contract_mirror \<Rightarrow> string \<Rightarrow> thrown + string" where
  "getBlockNumberFromHash m blockHash = res_bind (mn_getBlock (km_common m) blockHash) (\<lambda>block. case block of
     Some b \<Rightarrow> Inr (numberTo0x (bk_number b))
   | None \<Rightarrow> Inl (json_error_thrown (RESOURCE_NOT_FOUND (''Block Hash: '' @ quoted blockHash))))"

text \<open>Property access on an array finds neither property.\<close>

definition extractBlockNumberOrTag :: "contract_mirror \<Rightarrow> jv \<Rightarrow> thrown + string option" where
  "extractBlockNumberOrTag m blockParam =
     (if \<not> truthy blockParam then Inr None
      else if typeof_object blockParam
        then if \<not> nullish (js_get blockParam ''blockNumber'') then Inr (Some (js_String (js_get blockParam ''blockNumber'')))
          else if \<not> nullish (js_get blockParam ''blockHash'')
          then map_sum id Some (getBlockNumberFromHash m (js_String (js_get blockParam ''blockHash'')))
          else Inl (json_error_thrown (INVALID_ARGUMENTS ''neither block nor hash specified''))
      else case blockParam of
        JString s \<Rightarrow> if isBlockHash s then map_sum id Some (getBlockNumberFromHash m s) else Inr (Some s)
      | _ \<Rightarrow> Inr None)"

definition executeMirrorNodeCall :: "contract_mirror \<Rightarrow> jv \<Rightarrow> thrown + string" where
  "executeMirrorNodeCall m callData = res_bind (km_postContractCall m callData) (\<lambda>response.
     Inr (if truthy (js_get response ''result'') then prepend0x (js_String (js_get response ''result'')) else EMPTY_HEX))"

definition contract_revert :: "mirror_error \<Rightarrow> predefined" where
  "contract_revert e = CONTRACT_REVERT (Some (revertReason e)) (case me_data e of Some d \<Rightarrow> d | None \<Rightarrow> [])"

definition handleMirrorNodeClientError :: "mirror_error \<Rightarrow> thrown + returned" where
  "handleMirrorNodeClientError e =
     (if isFailInvalid e \<or> isInvalidTransaction e then Inr (Value (JString EMPTY_HEX))
      else if isContractRevert e then Inl (json_error_thrown (contract_revert e))
      else if me_statusCode e = 400 then Inl (json_error_thrown (COULD_NOT_SIMULATE_TRANSACTION (or_str (me_detail e) (me_message e))))
      else Inl (RelayError (MirrorErr e)))"

text \<open>\<open>e.message.toString()\<close>, which throws without a message; an error of the relay has one.\<close>

definition internal_error_of :: "thrown \<Rightarrow> thrown + returned" where
  "internal_error_of e = (case e of
     OtherError (Some t) \<Rightarrow> Inr (ErrorValue (JsonRpcErr (INTERNAL_ERROR t)))
   | RelayError (SdkErr x) \<Rightarrow> (case se_message x of
       Some t \<Rightarrow> Inr (ErrorValue (JsonRpcErr (INTERNAL_ERROR t)))
     | None \<Rightarrow> Inr (ErrorValue (JsonRpcErr (INTERNAL_ERROR []))))
   | RelayError (MirrorErr x) \<Rightarrow> Inr (ErrorValue (JsonRpcErr (INTERNAL_ERROR (me_message x))))
   | _ \<Rightarrow> Inl (js_type_error ''Cannot read properties of undefined''))"

definition handleMirrorNodeError :: "thrown \<Rightarrow> thrown + returned" where
  "handleMirrorNodeError e = (case e of
     RelayError (JsonRpcErr x) \<Rightarrow> Inr (ErrorValue (JsonRpcErr x))
   | RelayError (MirrorErr x) \<Rightarrow> handleMirrorNodeClientError x
   | _ \<Rightarrow> internal_error_of e)"

definition callMirrorNode :: "contract_mirror \<Rightarrow> jv \<Rightarrow> jv option \<Rightarrow> jv \<Rightarrow> string option \<Rightarrow> thrown + returned" where
  "callMirrorNode m c gas value block =
     (case executeMirrorNodeCall m (prepareMirrorNodeCallData c gas value block) of
        Inl e \<Rightarrow> handleMirrorNodeError e | Inr r \<Rightarrow> Inr (Value (JString r)))"

text \<open>Errors of the relay and of the mirror node are thrown on, others become an internal error that is returned.\<close>

definition call_error :: "thrown \<Rightarrow> thrown + returned" where
  "call_error e = (case e of
     RelayError (JsonRpcErr x) \<Rightarrow> Inl e | RelayError (MirrorErr x) \<Rightarrow> Inl e | _ \<Rightarrow> internal_error_of e)"

definition contract_call :: "'s cache_client \<Rightarrow> contract_config \<Rightarrow> contract_mirror \<Rightarrow> int \<Rightarrow> jv \<Rightarrow> jv \<Rightarrow> ('s, returned) io" where
  "contract_call client cfg m now c blockParam =
     io_catch (
       if truthy (js_get c ''to'') \<and> \<not> isValidEthereumAddress (Some (js_String (js_get c ''to'')))
       then io_throw (json_error_thrown (INVALID_CONTRACT_ADDRESS (Some (js_String (js_get c ''to'')))))
       else io_then (io_pure (extractBlockNumberOrTag m blockParam)) (\<lambda>blockNumberOrTag.
         let gas = getCappedBlockGasLimit (opt_toString (js_get c ''gas'')) in
         io_then (contractCallFormat client cfg m now c) (\<lambda>c1.
           io_pure (callMirrorNode m c1 gas (js_get c1 ''value'') blockNumberOrTag))))
     (\<lambda>e. io_pure (call_error e))"

section \<open>Gas estimates\<close>

definition estimateGasFromMirrorNode :: "'s cache_client \<Rightarrow> contract_config \<Rightarrow> contract_mirror \<Rightarrow> int \<Rightarrow> jv \<Rightarrow> ('s, jv) io" where
  "estimateGasFromMirrorNode client cfg m now transaction =
     io_then (contractCallFormat client cfg m now transaction) (\<lambda>c. io_pure (km_postContractCall m (js_set ''estimate'' (JBool True) c)))"

definition estimate_error :: "thrown \<Rightarrow> thrown" where
  "estimate_error e = (case e of
     RelayError (MirrorErr x) \<Rightarrow>
       if isContractRevert x then json_error_thrown (contract_revert x)
       else if me_statusCode x = 400 then json_error_thrown (COULD_NOT_SIMULATE_TRANSACTION (or_str (me_detail x) (me_message x)))
       else e
   | _ \<Rightarrow> e)"

definition contract_estimateGas :: "'s cache_client \<Rightarrow> contract_config \<Rightarrow> contract_mirror \<Rightarrow> int \<Rightarrow> jv \<Rightarrow> ('s, returned) io" where
  "contract_estimateGas client cfg m now transaction =
     io_catch (io_then (estimateGasFromMirrorNode client cfg m now transaction) (\<lambda>response.
       let result = js_get response ''result'' in
       io_return (if truthy result
         then Value (JString (prepend0x (case trimPrecedingZeros (Some (js_String result)) of Some t \<Rightarrow> t | None \<Rightarrow> ''0'')))
         else ErrorValue (JsonRpcErr (INTERNAL_ERROR ''Fail to retrieve gas estimate'')))))
     (\<lambda>e. io_throw (estimate_error e))"

section \<open>Code, storage, logs and accounts\<close>

text \<open>\<open>parseFloat(a) > parseFloat(b)\<close> of two timestamps, which does not hold when one is missing.\<close>

definition ts_after :: "jv \<Rightarrow> string \<Rightarrow> bool" where
  "ts_after a b = (case (ts_number (js_String a), ts_number b) of (Some x, Some y) \<Rightarrow> x > y | _ \<Rightarrow> False)"

definition contract_getCode :: "contract_config \<Rightarrow> contract_mirror \<Rightarrow> string \<Rightarrow> block_ref \<Rightarrow> thrown + jv" where
  "contract_getCode cfg m address ref =
     (if \<not> isBlockParamValid ref
      then Inl (json_error_thrown (UNKNOWN_BLOCK (Some (''The value passed is not a valid blockHash/blockNumber/blockTag value: '' @
        (case ref of Tag s \<Rightarrow> s | BlockNum n \<Rightarrow> dec n | NoBlock \<Rightarrow> ''null'')))))
      else if address = HTS_ADDRESS then Inr (JString INVALID_EVM_INSTRUCTION)
      else res_bind (km_resolveEntityType m address [TYPE_CONTRACT, TYPE_TOKEN]) (\<lambda>result.
        if truthy result
        then res_bind (getHistoricalBlockResponse (km_common m) (cc_maxBlockRange (kc_common cfg)) ref True) (\<lambda>blockInfo. case blockInfo of
            None \<Rightarrow> Inr (JString EMPTY_HEX)
          | Some b \<Rightarrow> (let entity = js_get result ''entity'' in
              if ts_after (js_get entity ''created_timestamp'') (bk_to b) then Inr (JString EMPTY_HEX)
              else if js_get result ''type'' = JString TYPE_TOKEN then Inr (JString (redirectBytecodeAddressReplace address))
              else if js_get result ''type'' = JString TYPE_CONTRACT \<and> js_get entity ''runtime_bytecode'' \<noteq> JString EMPTY_HEX
                then Inr (js_get entity ''runtime_bytecode'')
              else Inr (JString EMPTY_HEX)))
        else Inr (JString EMPTY_HEX)))"

text \<open>Without a contract or a slot the value is zero.\<close>

definition contract_getStorageAt :: "contract_config \<Rightarrow> contract_mirror \<Rightarrow> string \<Rightarrow> string \<Rightarrow> string \<Rightarrow> thrown + jv" where
  "contract_getStorageAt cfg m address slot ref =
     res_bind (getHistoricalBlockResponse (km_common m) (cc_maxBlockRange (kc_common cfg)) (Tag ref) False) (\<lambda>blockResponse.
     if \<not> blockTagIsLatestOrPending (Tag ref) \<and> blockResponse = None
     then Inl (json_error_thrown (RESOURCE_NOT_FOUND (''block '' @ quoted ref @ ''.'')))
     else case km_getContractState m address slot (map_option bk_to blockResponse) of
         Inl e \<Rightarrow> Inl (genericErrorHandler e)
       | Inr (Some (value # _)) \<Rightarrow> Inr value
       | Inr _ \<Rightarrow> Inr (JString ZERO_HEX_32_BYTE))"

definition contract_getLogs :: "contract_config \<Rightarrow> contract_mirror \<Rightarrow> jv \<Rightarrow> thrown + eth_log list" where
  "contract_getLogs cfg m params = getLogs (km_common m) (kc_common cfg)
     (case js_get params ''blockHash'' of JString s \<Rightarrow> Some s | _ \<Rightarrow> None) (block_ref_of (js_get params ''fromBlock''))
     (block_ref_of (js_get params ''toBlock'')) (address_of (js_get params ''address'')) (topics_of (js_get params ''topics''))"

definition contract_accounts :: jv where
  "contract_accounts = JArray []"


section \<open>What a call sends\<close>

lemma object_set [simp]: "is_object_tag (js_set k x v) = is_object_tag v"
  by (cases v) (simp_all add: js_set_def is_object_tag_def)

lemma object_delete [simp]: "is_object_tag (js_delete ks v) = is_object_tag v"
  by (cases v) (simp_all add: js_delete_def is_object_tag_def)

lemma js_get_set [simp]: "is_object_tag v \<Longrightarrow> js_get (js_set k x v) j = (if j = k then x else js_get v j)"
  by (cases v) (simp_all add: js_set_def is_object_tag_def js_get_JObject update_conv')

lemma js_get_deleted [simp]: "is_object_tag v \<Longrightarrow> js_get (js_delete ks v) j = (if j \<in> set ks then JUndefined else js_get v j)"
  by (cases v) (simp_all add: is_object_tag_def js_get_delete)

text \<open>What the formatting leaves of each property.\<close>

definition formatted :: "jv \<Rightarrow> jv \<Rightarrow> bool" where
  "formatted c c1 \<longleftrightarrow> is_object_tag c1 \<and> js_get c1 ''to'' = js_get c ''to'' \<and> js_get c1 ''gasPrice'' \<noteq> JNumV 0 \<and>
     \<not> (truthy (js_get c1 ''input'') \<and> truthy (js_get c1 ''data'')) \<and>
     (truthy (js_get c ''from'') \<longrightarrow> js_get c1 ''from'' = js_get c ''from'') \<and>
     js_get c1 ''gas'' = (if truthy (js_get c ''gas'') then js_parseInt (js_String (js_get c ''gas'')) else js_get c ''gas'') \<and>
     (if truthy (js_get c ''value'') then \<exists>t. weibarHexToTinyBarInt (weibar_of (js_get c ''value'')) = Inr t \<and> js_get c1 ''value'' = JNumV t
      else js_get c1 ''value'' = js_get c ''value'')"

lemma format_input_formatted:
  assumes "is_object_tag c"
  shows "is_object_tag (format_input c)" and "\<not> (truthy (js_get (format_input c) ''input'') \<and> truthy (js_get (format_input c) ''data''))"
    and "k \<notin> {''input'', ''data''} \<Longrightarrow> js_get (format_input c) k = js_get c k"
  using assms by (auto simp: format_input_def Let_def)

lemma format_price_formatted:
  assumes "is_object_tag c"
  shows "is_object_tag (format_price c)" and "js_get (format_price c) ''gasPrice'' \<noteq> JNumV 0"
    and "k \<noteq> ''gasPrice'' \<Longrightarrow> js_get (format_price c) k = js_get c k"
  using assms by (simp_all add: format_price_def Let_def)

lemma format_gas_formatted:
  assumes "is_object_tag c"
  shows "is_object_tag (format_gas c)" and "k \<noteq> ''gas'' \<Longrightarrow> js_get (format_gas c) k = js_get c k"
    and "js_get (format_gas c) ''gas'' = (if truthy (js_get c ''gas'') then js_parseInt (js_String (js_get c ''gas'')) else js_get c ''gas'')"
  using assms by (auto simp: format_gas_def)

lemma format_value_formatted:
  assumes "format_value c = Inr c1" and "is_object_tag c"
  shows "is_object_tag c1" and "k \<noteq> ''value'' \<Longrightarrow> js_get c1 k = js_get c k"
    and "if truthy (js_get c ''value'') then \<exists>t. weibarHexToTinyBarInt (weibar_of (js_get c ''value'')) = Inr t \<and> js_get c1 ''value'' = JNumV t
      else js_get c1 ''value'' = js_get c ''value''"
  using assms by (auto simp: format_value_def other_error_def res_bind_def split: if_splits sum.splits)

lemma format_from_formatted:
  assumes "format_from client cfg m now c s = (s1, Inr c1)" and "is_object_tag c"
  shows "is_object_tag c1" and "k \<noteq> ''from'' \<or> truthy (js_get c ''from'') \<Longrightarrow> js_get c1 k = js_get c k"
  using assms by (auto simp: format_from_def io_then_eq_Inr split: if_splits)

lemma contractCallFormat_formatted:
  assumes "contractCallFormat client cfg m now c s = (s1, Inr c1)" and "is_object_tag c"
  shows "formatted c c1"
proof -
  obtain v w where v: "format_value c = Inr v" "format_from client cfg m now (format_gas (format_price v)) s = (s1, Inr w)" "c1 = format_input w"
    using assms(1) by (auto simp: contractCallFormat_def io_then_eq_Inr)
  note o = format_value_formatted [OF v(1) assms(2)]
  note p = format_price_formatted [OF o(1)]
  note g = format_gas_formatted [OF p(1)]
  note f = format_from_formatted [OF v(2) g(1)]
  note i = format_input_formatted [OF f(1)]
  have kept: "js_get c1 ''to'' = js_get c ''to''" "js_get c1 ''value'' = js_get v ''value''"
    unfolding v(3) by (simp_all add: i(3) f(2) g(2) p(3) o(2))
  have price: "js_get c1 ''gasPrice'' = js_get (format_price v) ''gasPrice''"
    unfolding v(3) by (simp add: i(3) f(2) g(2))
  have sender: "js_get c1 ''from'' = js_get c ''from''" if "truthy (js_get c ''from'')"
  proof -
    have "js_get (format_gas (format_price v)) ''from'' = js_get c ''from''" by (simp add: g(2) p(3) o(2))
    then show ?thesis unfolding v(3) using that by (simp add: i(3) f(2))
  qed
  have gas: "js_get c1 ''gas'' = (if truthy (js_get c ''gas'') then js_parseInt (js_String (js_get c ''gas'')) else js_get c ''gas'')"
    unfolding v(3) by (simp add: i(3) f(2) g(3) p(3) o(2))
  show ?thesis
    unfolding formatted_def
    by (intro conjI impI) (use i(1,2) [folded v(3)] kept(1) p(2) [folded price] sender gas o(3) [folded kept(2)] in \<open>assumption | blast\<close>)+
qed


lemma prepared_call:
  assumes "is_object_tag c" and "js_get c ''value'' = value"
  shows "is_object_tag (prepareMirrorNodeCallData c gas value block)"
    and "js_get (prepareMirrorNodeCallData c gas value block) ''estimate'' = JBool False"
    and "js_get (prepareMirrorNodeCallData c gas value block) ''gas'' = (case gas of Some g \<Rightarrow> g | None \<Rightarrow> js_get c ''gas'')"
    and "js_get (prepareMirrorNodeCallData c gas value (Some b)) ''block'' = JString b"
    and "k \<notin> {''estimate'', ''gas'', ''block''} \<Longrightarrow> js_get (prepareMirrorNodeCallData c gas value block) k = js_get c k"
  using assms by (auto simp: prepareMirrorNodeCallData_def set_opt_def split: option.split)

lemma capped_gas: "getCappedBlockGasLimit g = Some (JNumV n) \<Longrightarrow> n \<le> 15000000"
  by (auto simp: getCappedBlockGasLimit_def MAX_GAS_PER_SEC_def split: option.splits if_splits jv.splits)

lemma no_gas_sent:
  assumes "getCappedBlockGasLimit (opt_toString v) = None"
  shows "(if truthy v then js_parseInt (js_String v) else v) \<noteq> JNumV n \<or> n = 0"
proof -
  have "js_parseInt [] = JNullV" by code_simp
  with assms show ?thesis
    by (auto simp: getCappedBlockGasLimit_def opt_toString_def nullish_def split: option.splits if_splits)
qed

text \<open>The answer to a call, from the answer of the mirror node.\<close>

definition answers :: "thrown + jv \<Rightarrow> jv \<Rightarrow> bool" where
  "answers r v \<longleftrightarrow> (case r of
     Inr response \<Rightarrow> v = JString (if truthy (js_get response ''result'') then prepend0x (js_String (js_get response ''result'')) else EMPTY_HEX)
   | Inl e \<Rightarrow> v = JString EMPTY_HEX \<and> (\<exists>x. e = RelayError (MirrorErr x) \<and> (isFailInvalid x \<or> isInvalidTransaction x)))"

lemma internal_error_no_value: "internal_error_of e \<noteq> Inr (Value v)"
  by (simp add: internal_error_of_def split: thrown.split relay_error.split option.split)

lemma callMirrorNode_value:
  "callMirrorNode m c gas value block = Inr (Value v) \<Longrightarrow> answers (km_postContractCall m (prepareMirrorNodeCallData c gas value block)) v"
  by (auto simp: callMirrorNode_def executeMirrorNodeCall_def answers_def handleMirrorNodeError_def handleMirrorNodeClientError_def
      internal_error_no_value res_bind_def split: sum.splits thrown.splits relay_error.splits if_splits)

lemma contract_call_value:
  assumes "contract_call client cfg m now c blockParam s = (s', Inr (Value v))"
  shows "(\<not> truthy (js_get c ''to'') \<or> isValidEthereumAddress (Some (js_String (js_get c ''to'')))) \<and>
    (\<exists>block c1. extractBlockNumberOrTag m blockParam = Inr block \<and> contractCallFormat client cfg m now c s = (s', Inr c1) \<and>
      callMirrorNode m c1 (getCappedBlockGasLimit (opt_toString (js_get c ''gas''))) (js_get c1 ''value'') block = Inr (Value v))"
proof -
  have no: "call_error e \<noteq> Inr (Value v)" for e
    by (simp add: call_error_def internal_error_no_value split: thrown.split relay_error.split)
  show ?thesis
    using assms no by (auto simp: contract_call_def io_catch_apply io_then_eq_Inr Let_def split: prod.splits sum.splits if_splits)
qed

text \<open>C22: A call that is answered was sent to the mirror node in a normal form: it is marked as a call and not as an estimate, its gas is at most 15 million, a price
  of zero is left out, input and data are never both present, the value is the one given in weibars turned into tinybars, the receiver and a given
  sender are unchanged and a receiver is an address, and a block hash became the number of its block. The answer is the result of the mirror node, or
  empty when it reports an invalid transaction.\<close>

theorem call_request_sent:
  assumes "contract_call client cfg m now c blockParam s = (s', Inr (Value v))" and "is_object_tag c"
  shows "\<exists>body. is_object_tag body \<and> answers (km_postContractCall m body) v \<and> js_get body ''estimate'' = JBool False \<and>
    (\<forall>g. js_get body ''gas'' = JNumV g \<longrightarrow> g \<le> 15000000) \<and> js_get body ''gasPrice'' \<noteq> JNumV 0 \<and>
    \<not> (truthy (js_get body ''input'') \<and> truthy (js_get body ''data'')) \<and>
    (if truthy (js_get c ''value'')
     then \<exists>t. weibarHexToTinyBarInt (weibar_of (js_get c ''value'')) = Inr t \<and> js_get body ''value'' = JNumV t
     else js_get body ''value'' = js_get c ''value'') \<and>
    (truthy (js_get c ''from'') \<longrightarrow> js_get body ''from'' = js_get c ''from'') \<and>
    js_get body ''to'' = js_get c ''to'' \<and> (truthy (js_get c ''to'') \<longrightarrow> isValidEthereumAddress (Some (js_String (js_get body ''to'')))) \<and>
    (\<forall>h. blockParam = JString h \<and> isBlockHash h \<longrightarrow>
      (\<exists>b. mn_getBlock (km_common m) h = Inr (Some b) \<and> js_get body ''block'' = JString (numberTo0x (bk_number b))))"
proof -
  obtain block c1 where call: "extractBlockNumberOrTag m blockParam = Inr block" "contractCallFormat client cfg m now c s = (s', Inr c1)"
    "callMirrorNode m c1 (getCappedBlockGasLimit (opt_toString (js_get c ''gas''))) (js_get c1 ''value'') block = Inr (Value v)"
    and to: "\<not> truthy (js_get c ''to'') \<or> isValidEthereumAddress (Some (js_String (js_get c ''to'')))"
    using contract_call_value [OF assms(1)] by blast
  define gas where "gas = getCappedBlockGasLimit (opt_toString (js_get c ''gas''))"
  define body where "body = prepareMirrorNodeCallData c1 gas (js_get c1 ''value'') block"
  have f: "formatted c c1" by (rule contractCallFormat_formatted [OF call(2) assms(2)])
  have o: "is_object_tag c1" using f by (simp add: formatted_def)
  note p = prepared_call [OF o refl, where gas = gas]
  have cap: "g \<le> 15000000" if g: "js_get body ''gas'' = JNumV g" for g
  proof (cases gas)
    case None
    then have "js_get c1 ''gas'' = JNumV g" using g p(3) [of block, folded body_def] by simp
    then show ?thesis using no_gas_sent [of "js_get c ''gas''" g] None f unfolding gas_def formatted_def by auto
  next
    case (Some x)
    then show ?thesis using g p(3) [of block, folded body_def] capped_gas unfolding gas_def by auto
  qed
  have hash: "\<exists>b. mn_getBlock (km_common m) h = Inr (Some b) \<and> js_get body ''block'' = JString (numberTo0x (bk_number b))"
    if "blockParam = JString h" "isBlockHash h" for h
  proof -
    have "h \<noteq> []" using that(2) by (auto simp: isBlockHash_def)
    then have "map_sum id Some (getBlockNumberFromHash m h) = Inr block"
      using call(1) that by (simp add: extractBlockNumberOrTag_def typeof_object_def)
    then obtain b where "mn_getBlock (km_common m) h = Inr (Some b)" "block = Some (numberTo0x (bk_number b))"
      by (cases "mn_getBlock (km_common m) h") (auto simp: getBlockNumberFromHash_def split: option.splits)
    then show ?thesis using p(4) by (simp add: body_def)
  qed
  have kept: "js_get body k = js_get c1 k" if "k \<notin> {''estimate'', ''gas'', ''block''}" for k using p(5) [OF that, of block, folded body_def] .
  have "answers (km_postContractCall m body) v" using callMirrorNode_value [OF call(3)] by (simp add: gas_def body_def)
  then show ?thesis
    using f to cap hash p(1,2) [of block, folded body_def] unfolding formatted_def
    by (intro exI [of _ body]) (simp add: kept)
qed


text \<open>Data that are null or empty keep the input from taking their place.\<close>

lemma null_data_hides_input:
  "format_input (JObject [(''data'', JNullV), (''input'', JString ''0x01'')]) = JObject [(''data'', JNullV), (''input'', JString ''0x01'')]"
  by code_simp

text \<open>A contract that was created after the block, or is not known, has no code there.\<close>

lemma code_before_creation:
  assumes "isBlockParamValid ref" and "address \<noteq> HTS_ADDRESS"
    and "km_resolveEntityType m address [TYPE_CONTRACT, TYPE_TOKEN] = Inr entity"
    and "getHistoricalBlockResponse (km_common m) (cc_maxBlockRange (kc_common cfg)) ref True = Inr (Some b)"
    and "\<not> truthy entity \<or> ts_after (js_get (js_get entity ''entity'') ''created_timestamp'') (bk_to b)"
  shows "contract_getCode cfg m address ref = Inr (JString EMPTY_HEX)"
  using assms by (auto simp: contract_getCode_def)

text \<open>A call and an estimate report a revert and a refused request in the same way.\<close>

lemma call_and_estimate_errors:
  assumes "\<not> isFailInvalid x" and "\<not> isInvalidTransaction x"
  shows "handleMirrorNodeClientError x = Inl (estimate_error (RelayError (MirrorErr x)))"
  using assms by (simp add: handleMirrorNodeClientError_def estimate_error_def)

section \<open>A concrete call\<close>

definition sample_contract_mirror :: contract_mirror where
  "sample_contract_mirror = \<lparr>km_common = sample_mirror, km_postContractCall = (\<lambda>body. Inr (JObject [(''result'', JString ''0x2a'')])),
     km_getAccount = (\<lambda>_. Inr JNullV), km_getContractState = (\<lambda>_ _ _. Inr None), km_resolveEntityType = (\<lambda>_ _. Inr JNullV)\<rparr>"

definition sample_contract_config :: contract_config where
  "sample_contract_config = \<lparr>kc_common = sample_common, kc_hexEcdsa = True, kc_operatorEvmAddress = JUndefined, kc_operatorAccountId = ''0.0.2''\<rparr>"

definition sample_call :: jv where
  "sample_call = JObject [(''from'', JString ''0x00000000000000000000000000000000000000a1''), (''to'', JString ''0x00000000000000000000000000000000000000b2''),
     (''gas'', JString ''0xffffffff''), (''value'', JString ''0x1''), (''input'', JString ''0x01''), (''data'', JString ''0x02'')]"

lemma sample_properties: "is_object_tag sample_call" "js_get sample_call ''value'' = JString ''0x1''" "truthy (js_get sample_call ''from'')"
  by code_simp+

lemma sample_value: "weibarHexToTinyBarInt (weibar_of (js_get sample_call ''value'')) = Inr 1" "truthy (js_get sample_call ''value'')"
proof -
  have "BigInt_str ''0x1'' = Some 1" by code_simp
  then show "weibarHexToTinyBarInt (weibar_of (js_get sample_call ''value'')) = Inr 1"
    by (simp add: sample_properties weibar_of_def weibarHexToTinyBarInt_def TINYBAR_TO_WEIBAR_COEF_def trunc_div_def)
qed (simp add: sample_properties)

lemma sample_sender:
  "truthy (js_get (format_gas (format_price (js_set ''value'' (JNumV 1) sample_call))) ''from'')"
  using sample_properties by (simp add: format_gas_formatted format_price_formatted)

lemma sample_address: "isValidEthereumAddress (Some (js_String (js_get sample_call ''to'')))"
  by code_simp

lemma sample_call_runs: "contract_call client sample_contract_config sample_contract_mirror now sample_call JNullV s = (s, Inr (Value (JString ''0x2a'')))"
proof -
  have "format_value sample_call = Inr (js_set ''value'' (JNumV 1) sample_call)"
    by (simp add: format_value_def sample_value other_error_def)
  moreover have "prepend0x ''0x2a'' = ''0x2a''" by code_simp
  ultimately show ?thesis
    by (simp add: contract_call_def sample_address extractBlockNumberOrTag_def io_catch_apply io_then_apply contractCallFormat_def format_from_def
        sample_sender callMirrorNode_def executeMirrorNodeCall_def sample_contract_mirror_def js_get_JObject)
qed

theorem call_request_sent_witness:
  "\<exists>body. answers (km_postContractCall sample_contract_mirror body) (JString ''0x2a'') \<and> js_get body ''value'' = JNumV 1 \<and>
     (\<forall>g. js_get body ''gas'' = JNumV g \<longrightarrow> g \<le> 15000000)"
proof -
  show ?thesis
    using call_request_sent [OF sample_call_runs sample_properties(1)] sample_value by (auto simp: sample_contract_mirror_def)
qed

end
