(* ===== verification/EthTransaction.thy ===== *)
theory EthTransaction
  imports EthContract EthAccount
begin

text \<open>
  Transactions, their receipts and the sending of raw transactions (\<open>lib/services/ethService/transactionService/TransactionService.ts\<close>, with
  \<open>getContractRevertReasonFromTransaction\<close> of \<open>mirrorNodeClient.ts\<close>). Sending changes the pool of pending transactions and the cache of the
  exchange rate, and leaves a trace of the calls to the services whose order matters: the lock, the pool and the network. What the lock service,
  the network and the mirror node answer is an argument.
\<close>

section \<open>Looking transactions up\<close>

text \<open>A block by its hash or by its number, which may be NaN.\<close>

datatype block_param = ByBlockHash string | ByBlockNumber "int option"

text \<open>A contract result without a hash counts as none.\<close>

record tx_mirror =
  xm_block :: block_mirror
  xm_getContractResult :: "string \<Rightarrow> thrown + contract_result option"
  xm_getContractResultsOf :: "block_param \<Rightarrow> int option \<Rightarrow> thrown + contract_result list option"
  xm_getLogsOfTransaction :: "string \<Rightarrow> thrown + mirror_log list option"

definition logs_of_transaction :: "tx_mirror \<Rightarrow> string \<Rightarrow> thrown + eth_log list" where
  "logs_of_transaction m hash = res_bind (xm_getLogsOfTransaction m hash) (\<lambda>ls. Inr (case ls of None \<Rightarrow> [] | Some l \<Rightarrow> map Log_of l))"

definition or_chain :: "string \<Rightarrow> contract_result \<Rightarrow> contract_result" where
  "or_chain chain cr = cr\<lparr>cr_chain_id := Some (or_str (cr_chain_id cr) chain)\<rparr>"

definition created_by :: "contract_result \<Rightarrow> bool" where
  "created_by cr \<longleftrightarrow> (case cr_contract_id cr of Some c \<Rightarrow> c \<in> set (cr_created_contract_ids cr) | None \<Rightarrow> False)"

definition getTransactionByBlockHashOrBlockNumAndIndex :: "tx_mirror \<Rightarrow> block_param \<Rightarrow> string \<Rightarrow> thrown + transaction option" where
  "getTransactionByBlockHashOrBlockNumAndIndex m blockParam transactionIndex =
     res_bind (xm_getContractResultsOf m blockParam (Number_str transactionIndex)) (\<lambda>contractResults. case contractResults of
       None \<Rightarrow> Inl (null_property ''0'')
     | Some [] \<Rightarrow> Inr None
     | Some (cr # _) \<Rightarrow>
         res_bind (resolve_optional (xm_block m) (cr_to cr)) (\<lambda>to.
         res_bind (resolveEvmAddress (xm_block m) (cr_from cr) [TYPE_ACCOUNT]) (\<lambda>from.
           createTransactionFromContractResult (cr\<lparr>cr_from := from, cr_to := to\<rparr>))))"

definition generic_errors :: "thrown + 'a \<Rightarrow> thrown + 'a" where
  "generic_errors r = (case r of Inl e \<Rightarrow> Inl (genericErrorHandler e) | Inr v \<Rightarrow> Inr v)"

definition tx_getTransactionByBlockHashAndIndex :: "tx_mirror \<Rightarrow> string \<Rightarrow> string \<Rightarrow> thrown + transaction option" where
  "tx_getTransactionByBlockHashAndIndex m blockHash transactionIndex =
     generic_errors (getTransactionByBlockHashOrBlockNumAndIndex m (ByBlockHash blockHash) transactionIndex)"

definition tx_getTransactionByBlockNumberAndIndex :: "tx_mirror \<Rightarrow> block_ref \<Rightarrow> string \<Rightarrow> thrown + transaction option" where
  "tx_getTransactionByBlockNumberAndIndex m blockNumOrTag transactionIndex =
     res_bind (translateBlockTag (bm_common (xm_block m)) blockNumOrTag) (\<lambda>blockNum.
       generic_errors (getTransactionByBlockHashOrBlockNumAndIndex m (ByBlockNumber blockNum) transactionIndex))"

text \<open>A transaction without a result is made from its first log. A transaction that created its contract has no receiver.\<close>

definition tx_getTransactionByHash :: "tx_mirror \<Rightarrow> string \<Rightarrow> string \<Rightarrow> thrown + transaction option" where
  "tx_getTransactionByHash m chain hash = res_bind (xm_getContractResult m hash) (\<lambda>contractResult. case contractResult of
     None \<Rightarrow> res_bind (logs_of_transaction m hash) (\<lambda>syntheticLogs. Inr (case syntheticLogs of
         [] \<Rightarrow> None | l # _ \<Rightarrow> createTransactionFromLog chain l 0))
   | Some cr \<Rightarrow>
       res_bind (resolveEvmAddress (xm_block m) (cr_from cr) [TYPE_ACCOUNT]) (\<lambda>from.
       res_bind (if created_by cr then Inr None else resolve_optional (xm_block m) (cr_to cr)) (\<lambda>to.
         createTransactionFromContractResult ((or_chain chain cr)\<lparr>cr_from := from, cr_to := to\<rparr>))))"

section \<open>Receipts\<close>

text \<open>The logs of a result name the block and the transaction of the result.\<close>

definition receipt_log :: "contract_result \<Rightarrow> mirror_log \<Rightarrow> thrown + eth_log" where
  "receipt_log r l =
     res_bind (number_field (cr_block_number r)) (\<lambda>blockNumber.
     res_bind (number_field (cr_transaction_index r)) (\<lambda>transactionIndex.
       Inr \<lparr>lg_address = ml_address l, lg_blockTimestamp = numberTo0x (seconds_of (cr_timestamp r)), lg_blockHash = toHash32 (cr_block_hash r),
         lg_blockNumber = blockNumber, lg_data = ml_data l, lg_logIndex = numberTo0x (ml_index l), lg_removed = False, lg_topics = ml_topics l,
         lg_transactionHash = toHash32 (cr_hash r), lg_transactionIndex = transactionIndex\<rparr>))"

definition handleRegularTransactionReceipt :: "tx_mirror \<Rightarrow> contract_result \<Rightarrow> thrown + receipt" where
  "handleRegularTransactionReceipt m receiptResponse =
     res_bind (getCurrentGasPriceForBlock (bm_common (xm_block m)) (cr_block_hash receiptResponse)) (\<lambda>effectiveGas.
     res_bind (res_map (receipt_log receiptResponse) (cr_logs receiptResponse)) (\<lambda>logs.
     res_bind (resolveEvmAddress (xm_block m) (cr_from receiptResponse) ALL_TYPES) (\<lambda>from.
     res_bind (resolve_optional (xm_block m) (cr_to receiptResponse)) (\<lambda>to.
       createRegularReceipt effectiveGas from logs receiptResponse to))))"

definition handleSyntheticTransactionReceipt :: "(string \<Rightarrow> 8 word list) \<Rightarrow> tx_mirror \<Rightarrow> string \<Rightarrow> thrown + receipt option" where
  "handleSyntheticTransactionReceipt keccak256 m hash = res_bind (logs_of_transaction m hash) (\<lambda>syntheticLogs. case syntheticLogs of
     [] \<Rightarrow> Inr None
   | l # _ \<Rightarrow> res_bind (getCurrentGasPriceForBlock (bm_common (xm_block m)) (lg_blockHash l)) (\<lambda>price.
       Inr (Some (createSyntheticReceipt keccak256 l price))))"

definition tx_getTransactionReceipt :: "(string \<Rightarrow> 8 word list) \<Rightarrow> tx_mirror \<Rightarrow> string \<Rightarrow> thrown + receipt option" where
  "tx_getTransactionReceipt keccak256 m hash = res_bind (xm_getContractResult m hash) (\<lambda>receiptResponse. case receiptResponse of
     None \<Rightarrow> handleSyntheticTransactionReceipt keccak256 m hash
   | Some r \<Rightarrow> res_bind (handleRegularTransactionReceipt m r) (\<lambda>receipt. Inr (Some receipt)))"

section \<open>The services around a sent transaction\<close>

text \<open>
  The calls whose order matters, with the address of the sender: the lock is taken and given back under a session key, the payload is
  saved and removed, the bytes are handed to the network, and a file with call data is deleted.
\<close>

datatype send_event =
    Acquired string string
  | Released string string
  | Saved string eth_tx
  | Executing
  | Submitted string string
  | FileDeleted string
  | Removed string string

record ('c, 'p) send_state =
  sd_cache :: 'c
  sd_pool :: 'p
  sd_trace :: "send_event list"

type_synonym ('c, 'p, 'a) send = "(('c, 'p) send_state, 'a) io"

text \<open>What the network answers: the id of a file with the call data, and the id of the transaction.\<close>

record submission =
  su_fileId :: "string option"
  su_transactionId :: "string option"

text \<open>
  \<open>sv_decode\<close> and \<open>sv_hashOf\<close> are ethers' decoder and hash, \<open>sv_acquireLock\<close> the session key the lock service grants to an address, if any.
  \<open>sv_submit\<close> is the network, \<open>sv_getContractResult\<close> and \<open>sv_getNonce\<close> the mirror node as it is asked for the i-th time; \<open>sv_contractRevert\<close> is the
  status code of a reverted call.
\<close>

record send_env =
  sv_readOnly :: bool
  sv_asyncProcessing :: bool
  sv_poolEnabled :: bool
  sv_now :: int
  sv_decode :: "string \<Rightarrow> string + eth_tx"
  sv_hashOf :: "string \<Rightarrow> string"
  sv_common :: mirror
  sv_scaled :: "int \<Rightarrow> int"
  sv_precheck :: precheck_config
  sv_getAccount :: "string \<Rightarrow> thrown + account_info option"
  sv_acquireLock :: "string \<Rightarrow> string option"
  sv_exchangeRate :: "thrown + jv"
  sv_submit :: "string \<Rightarrow> string \<Rightarrow> int \<Rightarrow> jv \<times> jv \<Rightarrow> thrown + submission"
  sv_getContractResult :: "string option \<Rightarrow> nat \<Rightarrow> thrown + jv"
  sv_getNonce :: "string \<Rightarrow> nat \<Rightarrow> thrown + account_nonce option"
  sv_getTransactionById :: "string \<Rightarrow> thrown + jv"
  sv_retryCount :: nat
  sv_contractRevert :: int

definition emit :: "send_event \<Rightarrow> ('c, 'p, unit) send" where
  "emit ev = (\<lambda>s. (s\<lparr>sd_trace := sd_trace s @ [ev]\<rparr>, Inr ()))"

text \<open>A change of the pool, which may fail and is then not recorded.\<close>

definition pool_change :: "('p \<Rightarrow> string + 'p) \<Rightarrow> send_event \<Rightarrow> ('c, 'p, unit) send" where
  "pool_change f ev = (\<lambda>s. case f (sd_pool s) of
     Inl message \<Rightarrow> (s, Inl (OtherError (Some message)))
   | Inr p \<Rightarrow> (s\<lparr>sd_pool := p, sd_trace := sd_trace s @ [ev]\<rparr>, Inr ()))"

definition on_cache :: "('c \<Rightarrow> 'c \<times> (string + 'a)) \<Rightarrow> ('c, 'p, 'a) send" where
  "on_cache f = (\<lambda>s. case io_cache (f (sd_cache s)) of (c, r) \<Rightarrow> (s\<lparr>sd_cache := c\<rparr>, r))"

text \<open>The rate is the quotient of the two numbers.\<close>

definition getCurrentNetworkExchangeRateInCents :: "'c cache_client \<Rightarrow> send_env \<Rightarrow> ('c, 'p, jv \<times> jv) send" where
  "getCurrentNetworkExchangeRateInCents client env =
     (let cacheKey = ''currentNetworkExchangeRate'' in
      io_then (on_cache (c_get client (sv_now env) cacheKey)) (\<lambda>cached.
      io_then (if truthy cached then io_return cached
        else io_then (io_pure (sv_exchangeRate env)) (\<lambda>answer.
          if nullish answer then io_throw (null_property ''current_rate'')
          else let rate = js_get answer ''current_rate'' in
            io_then (on_cache (c_set client (sv_now env) cacheKey rate (Some (15 * 60 * 1000)))) (\<lambda>_. io_return rate))) (\<lambda>rate.
      if nullish rate then io_throw (null_property ''cent_equivalent'')
      else io_return (js_get rate ''cent_equivalent'', js_get rate ''hbar_equivalent''))))"

section \<open>Submitting\<close>

record submit_result =
  sr_txSubmitted :: bool
  sr_transactionId :: "string option"
  sr_error :: "thrown option"

text \<open>The id is looked at after the transaction has been handed over, so that an invalid one is an error but stays known.\<close>

definition submitted_result :: "submission \<Rightarrow> submit_result" where
  "submitted_result r = \<lparr>sr_txSubmitted = True, sr_transactionId = su_transactionId r,
     sr_error = (let shown = (case su_transactionId r of Some i \<Rightarrow> i | None \<Rightarrow> ''undefined'') in
       if TRANSACTION_ID_REGEX_test shown then None
       else Some (json_error_thrown (INTERNAL_ERROR (''Transaction successfully submitted but returned invalid transactionID: transactionId=='' @ shown))))\<rparr>"

definition failed_result :: "thrown \<Rightarrow> submit_result" where
  "failed_result e = \<lparr>sr_txSubmitted = False,
     sr_transactionId = Some (case e of RelayError (SdkErr x) \<Rightarrow> se_transactionId x | _ \<Rightarrow> []), sr_error = Some e\<rparr>"

definition submitTransaction :: "'c cache_client \<Rightarrow> send_env \<Rightarrow> string \<Rightarrow> string \<Rightarrow> int \<Rightarrow> ('c, 'p, submit_result) send" where
  "submitTransaction client env transactionBuffer originalCallerAddress networkGasPrice =
     io_catch (io_then (getCurrentNetworkExchangeRateInCents client env) (\<lambda>rate.
       io_then (emit (Submitted originalCallerAddress transactionBuffer)) (\<lambda>_.
       io_then (io_pure (sv_submit env transactionBuffer originalCallerAddress networkGasPrice rate)) (\<lambda>r.
       io_then (case su_fileId r of Some fileId \<Rightarrow> emit (FileDeleted fileId) | None \<Rightarrow> io_return ()) (\<lambda>_.
         io_return (submitted_result r))))))
     (\<lambda>e. io_return (failed_result e))"

section \<open>Errors of a sent transaction\<close>

text \<open>The first match of the pattern of transaction ids in a text.\<close>

definition txid_text :: "string \<Rightarrow> string" where
  "txid_text s = (let r = drop 4 s; ds = takeWhile (is_digit_in 10) r; r' = drop 1 (dropWhile (is_digit_in 10) r);
       es = takeWhile (is_digit_in 10) r'; r'' = drop 1 (dropWhile (is_digit_in 10) r')
     in take 4 s @ ds @ ''@'' @ es @ ''.'' @ take 9 (takeWhile (is_digit_in 10) r''))"

fun TRANSACTION_ID_REGEX_match :: "string \<Rightarrow> string option" where
  "TRANSACTION_ID_REGEX_match [] = None"
| "TRANSACTION_ID_REGEX_match (c # s) = (if txid_at (c # s) then Some (txid_text (c # s)) else TRANSACTION_ID_REGEX_match s)"

text \<open>The answer is only logged; looking at it may throw.\<close>

definition getContractRevertReasonFromTransaction :: "send_env \<Rightarrow> thrown \<Rightarrow> thrown + jv" where
  "getContractRevertReasonFromTransaction env e = (case e of
     RelayError (SdkErr x) \<Rightarrow>
       if isContractRevertExecuted (sv_contractRevert env) x
       then case TRANSACTION_ID_REGEX_match (case se_message x of Some t \<Rightarrow> t | None \<Rightarrow> []) of
           Some transactionId \<Rightarrow> res_bind (sv_getTransactionById env transactionId) (\<lambda>tx.
             if tx = JNullV \<or> js_length tx = Some 0 then Inr JNullV
             else if tx = JUndefined then Inl (js_type_error ''Cannot read properties of undefined'')
             else case js_get tx ''transactions'' of
                 JArray (_ # second # _) \<Rightarrow> Inr (js_get second ''result'')
               | v \<Rightarrow> if nullish v then Inl (js_type_error ''Cannot read properties of undefined'') else Inr JUndefined)
         | None \<Rightarrow> Inr JUndefined
       else Inr JUndefined
   | _ \<Rightarrow> Inr JUndefined)"

definition WRONG_NONCE :: string where "WRONG_NONCE = ''WRONG_NONCE''"

text \<open>The nonce of the account, asked for until it differs from that of the transaction.\<close>

fun updated_nonce :: "(nat \<Rightarrow> thrown + account_nonce option) \<Rightarrow> int \<Rightarrow> nat \<Rightarrow> nat \<Rightarrow> thrown + account_nonce option" where
  "updated_nonce ask nonce i 0 = Inr None"
| "updated_nonce ask nonce i (Suc n) = res_bind (ask i) (\<lambda>account. case account of
     None \<Rightarrow> Inl (null_property ''ethereum_nonce'')
   | Some accountNonce \<Rightarrow> if accountNonce \<noteq> NonceIs nonce then Inr (Some accountNonce) else updated_nonce ask nonce (Suc i) n)"

text \<open>A nonce of zero is as falsy as a missing one.\<close>

definition wrong_nonce_error :: "send_env \<Rightarrow> eth_tx \<Rightarrow> thrown + returned" where
  "wrong_nonce_error env parsedTx =
     res_bind (updated_nonce (sv_getNonce env (from_str parsedTx)) (tx_nonce parsedTx) 0 (sv_retryCount env)) (\<lambda>accountNonce. case accountNonce of
       Some (NonceIs n) \<Rightarrow>
         if n = 0 then Inl (json_error_thrown (INTERNAL_ERROR ''Cannot find updated account nonce for WRONG_NONCE error.''))
         else Inr (ErrorValue (JsonRpcErr (if tx_nonce parsedTx > n then NONCE_TOO_HIGH (tx_nonce parsedTx) n else NONCE_TOO_LOW (tx_nonce parsedTx) n)))
     | _ \<Rightarrow> Inl (json_error_thrown (INTERNAL_ERROR ''Cannot find updated account nonce for WRONG_NONCE error.'')))"

definition sendRawTransactionErrorHandler :: "send_env \<Rightarrow> thrown option \<Rightarrow> string \<Rightarrow> bool \<Rightarrow> eth_tx \<Rightarrow> thrown + returned" where
  "sendRawTransactionErrorHandler env error transactionBuffer txSubmitted parsedTx =
     (let otherwise = (if \<not> txSubmitted
            then case error of Some e \<Rightarrow> internal_error_of e | None \<Rightarrow> Inl (null_property ''message'')
            else res_bind (case error of Some e \<Rightarrow> getContractRevertReasonFromTransaction env e | None \<Rightarrow> Inr JUndefined) (\<lambda>_.
              Inr (Value (JString (sv_hashOf env transactionBuffer)))))
      in case error of
        Some (RelayError (JsonRpcErr e)) \<Rightarrow> Inr (ErrorValue (JsonRpcErr e))
      | Some (RelayError (SdkErr e)) \<Rightarrow> if st_name (se_status e) = WRONG_NONCE then wrong_nonce_error env parsedTx else otherwise
      | _ \<Rightarrow> otherwise)"

section \<open>Sending\<close>

definition validateRawTransaction :: "'p storage \<Rightarrow> send_env \<Rightarrow> eth_tx \<Rightarrow> int \<Rightarrow> ('c, 'p, unit) send" where
  "validateRawTransaction storage env parsedTx networkGasPrice =
     (\<lambda>s. (s, generic_errors (sendRawTransactionCheck (sv_precheck env) (sv_getAccount env) storage (sd_pool s) parsedTx networkGasPrice)))"

definition release_lock :: "string \<Rightarrow> string option \<Rightarrow> ('c, 'p, unit) send" where
  "release_lock address lockSessionKey = (case lockSessionKey of
     Some k \<Rightarrow> if k \<noteq> [] then emit (Released address k) else io_return () | None \<Rightarrow> io_return ())"

text \<open>The record of the transaction is polled for whenever its id is known; \<open>None\<close> in front of an error is the answer that there is a hash.\<close>

definition poll_record :: "send_env \<Rightarrow> string \<Rightarrow> thrown option \<Rightarrow> thrown + jv" where
  "poll_record env transactionId error =
     (let formatted = formatTransactionIdWithoutQueryParams transactionId;
          contractResult = snd (repeatedRequest (\<lambda>i. (Suc i, sv_getContractResult env formatted i)) (sv_retryCount env) JUndefined 0)
      in if \<not> truthy contractResult
         then Inl (case error of
             Some (RelayError (SdkErr x)) \<Rightarrow> RelayError (SdkErr x)
           | _ \<Rightarrow> json_error_thrown (INTERNAL_ERROR (''No matching transaction record retrieved: transactionId='' @ transactionId)))
         else if nullish (js_get contractResult ''hash'')
         then Inl (json_error_thrown (INTERNAL_ERROR (''Transaction returned a null transaction hash: transactionId='' @ transactionId)))
         else Inr (js_get contractResult ''hash''))"

definition finish_sending :: "send_env \<Rightarrow> string \<Rightarrow> eth_tx \<Rightarrow> submit_result \<Rightarrow> thrown + returned" where
  "finish_sending env transactionBuffer parsedTx r =
     (let known = (case sr_transactionId r of Some i \<Rightarrow> i | None \<Rightarrow> []) in
      if known = [] then sendRawTransactionErrorHandler env (sr_error r) transactionBuffer (sr_txSubmitted r) parsedTx
      else case poll_record env known (sr_error r) of
          Inr hash \<Rightarrow> Inr (Value hash)
        | Inl e \<Rightarrow> sendRawTransactionErrorHandler env (Some e) transactionBuffer (sr_txSubmitted r) parsedTx)"

definition sendRawTransactionProcessor ::
    "'c cache_client \<Rightarrow> 'p storage \<Rightarrow> send_env \<Rightarrow> string \<Rightarrow> eth_tx \<Rightarrow> int \<Rightarrow> string option \<Rightarrow> ('c, 'p, returned) send" where
  "sendRawTransactionProcessor client storage env transactionBuffer parsedTx networkGasPrice lockSessionKey =
     (let originalCallerAddress = (case tx_from parsedTx of Some a \<Rightarrow> a | None \<Rightarrow> []) in
      io_then (emit Executing) (\<lambda>_.
      io_then (submitTransaction client env transactionBuffer originalCallerAddress networkGasPrice) (\<lambda>r.
      io_then (release_lock originalCallerAddress lockSessionKey) (\<lambda>_.
      io_then (pool_change (removeTransaction (sv_poolEnabled env) storage originalCallerAddress (tx_serialized parsedTx))
          (Removed originalCallerAddress (tx_serialized parsedTx))) (\<lambda>_.
        io_pure (finish_sending env transactionBuffer parsedTx r))))))"

text \<open>Without a sender there is no lock, and the pool cannot fold the case of its address.\<close>

definition save_pending :: "'p storage \<Rightarrow> send_env \<Rightarrow> eth_tx \<Rightarrow> ('c, 'p, unit) send" where
  "save_pending storage env parsedTx = (case tx_from parsedTx of
     Some a \<Rightarrow> pool_change (saveTransaction (sv_poolEnabled env) storage a parsedTx) (Saved a parsedTx)
   | None \<Rightarrow> if sv_poolEnabled env then io_throw (null_property ''toLowerCase'') else io_return ())"

definition prune0x :: "string \<Rightarrow> string" where
  "prune0x input = (if startsWith input EMPTY_HEX then drop 2 input else input)"

definition acquire_lock :: "send_env \<Rightarrow> eth_tx \<Rightarrow> ('c, 'p, string option) send" where
  "acquire_lock env parsedTx = (case tx_from parsedTx of
     None \<Rightarrow> io_return None
   | Some a \<Rightarrow> if a = [] then io_return None else (case sv_acquireLock env a of
       None \<Rightarrow> io_return None
     | Some k \<Rightarrow> io_then (emit (Acquired a k)) (\<lambda>_. io_return (Some k))))"

text \<open>
  With asynchronous processing the processor runs on after the answer, and what it returns or throws is lost; the model runs it
  to its end before it answers.
\<close>

definition send_checked :: "'c cache_client \<Rightarrow> 'p storage \<Rightarrow> send_env \<Rightarrow> string \<Rightarrow> eth_tx \<Rightarrow> string option \<Rightarrow> ('c, 'p, returned) send" where
  "send_checked client storage env transactionBuffer parsedTx lockSessionKey =
     io_then (io_pure (getGasPriceInWeibars (sv_common env) None)) (\<lambda>price.
     let networkGasPrice = addPercentageBufferToGasPrice (sv_scaled env) price in
     io_then (validateRawTransaction storage env parsedTx networkGasPrice) (\<lambda>_.
     io_then (save_pending storage env parsedTx) (\<lambda>_.
     let processor = sendRawTransactionProcessor client storage env transactionBuffer parsedTx networkGasPrice lockSessionKey in
     if sv_asyncProcessing env
     then (\<lambda>s. (fst (processor s), Inr (Value (JString (sv_hashOf env transactionBuffer)))))
     else processor)))"

definition sendRawTransaction :: "'c cache_client \<Rightarrow> 'p storage \<Rightarrow> send_env \<Rightarrow> string \<Rightarrow> ('c, 'p, returned) send" where
  "sendRawTransaction client storage env transaction =
     (if sv_readOnly env then io_throw (json_error_thrown (UNSUPPORTED_OPERATION ''Relay is in read-only mode''))
      else io_then (io_pure (parseRawTransaction (sv_decode env) (Inl transaction))) (\<lambda>parsedTx.
        let transactionBuffer = prune0x transaction in
        io_then (acquire_lock env parsedTx) (\<lambda>lockSessionKey.
        io_catch (send_checked client storage env transactionBuffer parsedTx lockSessionKey)
          (\<lambda>error. io_then (release_lock (case tx_from parsedTx of Some a \<Rightarrow> a | None \<Rightarrow> []) lockSessionKey) (\<lambda>_. io_throw error)))))"


section \<open>What sending does to the pool and in which order\<close>

fun pool_op_of :: "send_event \<Rightarrow> pool_op list" where
  "pool_op_of (Saved a tx) = [Save a tx]"
| "pool_op_of (Removed a x) = [Remove a x]"
| "pool_op_of _ = []"

definition pool_ops :: "send_event list \<Rightarrow> pool_op list" where
  "pool_ops evs = concat (map pool_op_of evs)"

lemma pool_ops_simps [simp]: "pool_ops [] = []" "pool_ops (ev # evs) = pool_op_of ev @ pool_ops evs" "pool_ops (es @ fs) = pool_ops es @ pool_ops fs"
  by (simp_all add: pool_ops_def)

text \<open>A step from one state to another that adds events to the trace; the pool has changed as the events say.\<close>

definition effect :: "bool \<Rightarrow> 'p storage \<Rightarrow> ('c, 'p) send_state \<Rightarrow> ('c, 'p) send_state \<Rightarrow> send_event list \<Rightarrow> bool" where
  "effect enabled storage s s' evs \<longleftrightarrow>
     sd_trace s' = sd_trace s @ evs \<and> run_pool enabled storage (pool_ops evs) (sd_pool s) = Inr (sd_pool s')"

lemma run_pool_append: "run_pool e st (ops @ ops') s = res_bind (run_pool e st ops s) (run_pool e st ops')"
  by (induction e st ops s rule: run_pool.induct) (auto simp: res_bind_def split: sum.splits)

lemma effect_refl [simp]: "effect e st s s []"
  by (simp add: effect_def)

lemma effect_trans: "effect e st s s1 es \<Longrightarrow> effect e st s1 s2 fs \<Longrightarrow> effect e st s s2 (es @ fs)"
  by (simp add: effect_def run_pool_append)

lemma effect_emit:
  assumes "emit ev s = (s', r)" and "pool_op_of ev = []"
  shows "effect e st s s' [ev] \<and> r = Inr ()"
  using assms by (auto simp: emit_def effect_def)

lemma effect_save:
  assumes "pool_change (saveTransaction e st a tx) (Saved a tx) s = (s', r)"
  shows "(r = Inr () \<and> effect e st s s' [Saved a tx]) \<or> (\<exists>m. r = Inl (OtherError (Some m)) \<and> s' = s)"
  using assms by (auto simp: pool_change_def effect_def split: sum.splits)

lemma effect_remove:
  assumes "pool_change (removeTransaction e st a x) (Removed a x) s = (s', r)"
  shows "(r = Inr () \<and> effect e st s s' [Removed a x]) \<or>
    (\<exists>m. removeTransaction e st a x (sd_pool s) = Inl m \<and> r = Inl (OtherError (Some m)) \<and> s' = s)"
  using assms by (auto simp: pool_change_def effect_def split: sum.splits)

lemma effect_cache:
  assumes "on_cache f s = (s', r)"
  shows "effect e st s s' []"
  using assms by (auto simp: on_cache_def effect_def split: prod.splits)

lemma effect_then:
  assumes "io_then c f s = (s', r)"
    and "\<And>s1 x. c s = (s1, x) \<Longrightarrow> effect e st s s1 []"
    and "\<And>s1 a. f a s1 = (s', r) \<Longrightarrow> effect e st s1 s' []"
  shows "effect e st s s' []"
proof -
  obtain s1 x where c: "c s = (s1, x)" by (cases "c s")
  show ?thesis
  proof (cases x)
    case (Inl err)
    then show ?thesis using assms(1,2) c by (auto simp: io_then_Inl)
  next
    case (Inr a)
    then have "f a s1 = (s', r)" using assms(1) c by (simp add: io_then_Inr)
    then show ?thesis using effect_trans [OF assms(2) [OF c] assms(3)] by simp
  qed
qed

lemma effect_rate:
  assumes "getCurrentNetworkExchangeRateInCents client env s = (s', r)"
  shows "effect e st s s' []"
  using assms unfolding getCurrentNetworkExchangeRateInCents_def Let_def
  by (auto elim!: effect_then split: if_splits simp: io_throw_def io_pure_def) (erule effect_cache)+

text \<open>The events of a submission: none when the exchange rate is not known, else the submission and perhaps the deletion of its file.\<close>

definition submit_events :: "string \<Rightarrow> string \<Rightarrow> send_event list \<Rightarrow> bool" where
  "submit_events a buffer mid \<longleftrightarrow> mid = [] \<or> mid = [Submitted a buffer] \<or> (\<exists>f. mid = [Submitted a buffer, FileDeleted f])"

lemma effect_submit:
  assumes "submitTransaction client env buffer a price s = (s', x)"
  obtains mid r where "x = Inr r" and "effect e st s s' mid" and "submit_events a buffer mid" and "sr_txSubmitted r \<Longrightarrow> Submitted a buffer \<in> set mid"
proof -
  obtain s1 y where rate: "getCurrentNetworkExchangeRateInCents client env s = (s1, y)" by (cases "getCurrentNetworkExchangeRateInCents client env s")
  note e1 = effect_rate [OF rate, of e st]
  show thesis
  proof (cases y)
    case (Inl err)
    then have "x = Inr (failed_result err)" "s' = s1"
      using assms rate by (auto simp: submitTransaction_def io_catch_apply io_then_Inl)
    then show thesis using that [of "failed_result err" "[]"] e1 by (simp add: submit_events_def failed_result_def)
  next
    case (Inr rate')
    obtain s2 where emit: "emit (Submitted a buffer) s1 = (s2, Inr ())" by (simp add: emit_def)
    have e2: "effect e st s s2 [Submitted a buffer]"
      using effect_trans [OF e1 conjunct1 [OF effect_emit [OF emit]]] by simp
    show thesis
    proof (cases "sv_submit env buffer a price rate'")
      case (Inl err)
      then have "x = Inr (failed_result err)" "s' = s2"
        using assms rate Inr emit by (auto simp: submitTransaction_def io_catch_apply io_then_apply)
      then show thesis using that [of "failed_result err" "[Submitted a buffer]"] e2 by (simp add: submit_events_def failed_result_def)
    next
      case (Inr r)
      note sub = Inr
      show thesis
      proof (cases "su_fileId r")
        case None
        then have "x = Inr (submitted_result r)" "s' = s2"
          using assms rate \<open>y = Inr rate'\<close> emit sub by (auto simp: submitTransaction_def io_catch_apply io_then_apply)
        then show thesis using that [of "submitted_result r" "[Submitted a buffer]"] e2 by (simp add: submit_events_def)
      next
        case (Some f)
        obtain s3 where del: "emit (FileDeleted f) s2 = (s3, Inr ())" by (simp add: emit_def)
        then have "x = Inr (submitted_result r)" "s' = s3"
          using assms rate \<open>y = Inr rate'\<close> emit sub Some by (auto simp: submitTransaction_def io_catch_apply io_then_apply)
        then show thesis using that [of "submitted_result r" "[Submitted a buffer, FileDeleted f]"]
            effect_trans [OF e2 conjunct1 [OF effect_emit [OF del]]] by (simp add: submit_events_def)
      qed
    qed
  qed
qed

text \<open>Whether the storage may fail to remove the payload.\<close>

definition removal_fails :: "bool \<Rightarrow> 'p storage \<Rightarrow> string \<Rightarrow> string \<Rightarrow> bool" where
  "removal_fails e st a x \<longleftrightarrow> (\<exists>p m. removeTransaction e st a x p = Inl m)"

lemma effect_processor:
  assumes "sendRawTransactionProcessor client storage env buffer tx price (Some k) s = (s', x)"
    and "tx_from tx = Some a" and "k \<noteq> []"
  obtains mid post r where "effect (sv_poolEnabled env) storage s s' (Executing # mid @ Released a k # post)" and "submit_events a buffer mid"
    and "sr_txSubmitted r \<Longrightarrow> Submitted a buffer \<in> set mid"
    and "post = [Removed a (tx_serialized tx)] \<and> x = finish_sending env buffer tx r \<or>
      post = [] \<and> (\<exists>m. x = Inl (OtherError (Some m))) \<and> removal_fails (sv_poolEnabled env) storage a (tx_serialized tx)"
proof -
  obtain s1 where s1: "emit Executing s = (s1, Inr ())" by (simp add: emit_def)
  obtain s2 y where s2: "submitTransaction client env buffer a price s1 = (s2, y)" by (cases "submitTransaction client env buffer a price s1")
  obtain mid r where r: "y = Inr r" "effect (sv_poolEnabled env) storage s1 s2 mid" "submit_events a buffer mid"
    "sr_txSubmitted r \<Longrightarrow> Submitted a buffer \<in> set mid" using effect_submit [OF s2, where e = "sv_poolEnabled env" and st = storage] by blast
  obtain s3 where s3: "emit (Released a k) s2 = (s3, Inr ())" by (simp add: emit_def)
  let ?remove = "pool_change (removeTransaction (sv_poolEnabled env) storage a (tx_serialized tx)) (Removed a (tx_serialized tx))"
  obtain s4 z where s4: "?remove s3 = (s4, z)" by (cases "?remove s3")
  have e3: "effect (sv_poolEnabled env) storage s s3 (Executing # mid @ [Released a k])"
    using effect_trans [OF effect_trans [OF conjunct1 [OF effect_emit [OF s1]] r(2)] conjunct1 [OF effect_emit [OF s3]]] by simp
  have run: "sendRawTransactionProcessor client storage env buffer tx price (Some k) s =
      (case z of Inl e \<Rightarrow> (s4, Inl e) | Inr _ \<Rightarrow> (s4, finish_sending env buffer tx r))"
    using assms(2,3) s1 s2 r(1) s3 s4
    by (simp add: sendRawTransactionProcessor_def io_then_apply release_lock_def)
  from effect_remove [OF s4] show thesis
  proof
    assume z: "z = Inr () \<and> effect (sv_poolEnabled env) storage s3 s4 [Removed a (tx_serialized tx)]"
    then have "s' = s4" "x = finish_sending env buffer tx r" using run assms(1) by auto
    then show thesis using that [of mid "[Removed a (tx_serialized tx)]" r] effect_trans [OF e3 conjunct2 [OF z]] r(3,4) by simp
  next
    assume "\<exists>m. removeTransaction (sv_poolEnabled env) storage a (tx_serialized tx) (sd_pool s3) = Inl m \<and> z = Inl (OtherError (Some m)) \<and> s4 = s3"
    then have "s' = s3" "\<exists>m. x = Inl (OtherError (Some m))" "removal_fails (sv_poolEnabled env) storage a (tx_serialized tx)"
      using run assms(1) by (auto simp: removal_fails_def)
    then show thesis using that [of mid "[]" r] e3 r(3,4) by simp
  qed
qed


text \<open>
  The events of a whole call after the lock was taken: given back at once when the transaction is refused; otherwise the payload is
  saved, submitted while the lock is held, the lock is given back and the payload removed. A second release comes from an error afterwards.
\<close>

definition send_events :: "string \<Rightarrow> string \<Rightarrow> eth_tx \<Rightarrow> string \<Rightarrow> send_event list \<Rightarrow> bool" where
  "send_events a k tx buffer evs \<longleftrightarrow> evs = [Released a k] \<or>
     (\<exists>mid post. evs = Saved a tx # Executing # mid @ Released a k # post \<and> submit_events a buffer mid \<and>
        (post = [] \<or> post = [Released a k] \<or> post = [Removed a (tx_serialized tx)] \<or> post = [Removed a (tx_serialized tx), Released a k]))"

text \<open>A result that is a value, and not an error that was thrown or returned, is justified by the record of the transaction or by its submission.\<close>

definition hash_justified :: "send_env \<Rightarrow> string \<Rightarrow> bool \<Rightarrow> thrown + returned \<Rightarrow> bool" where
  "hash_justified env buffer submitted r \<longleftrightarrow> (\<forall>v. r = Inr (Value v) \<longrightarrow>
     v = JString (sv_hashOf env buffer) \<and> submitted \<or>
     (\<exists>txid i result. sv_getContractResult env txid i = Inr result \<and> v = js_get result ''hash'' \<and> \<not> nullish v))"

lemma repeated_answer:
  "snd (repeatedRequest (\<lambda>i. (Suc i, ask i)) n result i) = result \<or> snd (repeatedRequest (\<lambda>i. (Suc i, ask i)) n result i) = JNullV \<or>
   (\<exists>j. ask j = Inr (snd (repeatedRequest (\<lambda>i. (Suc i, ask i)) n result i)))"
proof (induction n arbitrary: i result)
  case (Suc n)
  show ?case
  proof (cases "ask i")
    case (Inl e)
    then show ?thesis using Suc.IH [of "if error_status e = Some 404 then JNullV else result" "Suc i"] by (auto simp: Let_def split: if_splits)
  next
    case (Inr v)
    then show ?thesis using Suc.IH [of v "Suc i"] by (auto simp: Let_def)
  qed
qed simp

lemma poll_record_justified:
  assumes "poll_record env txid error = Inr v"
  shows "\<exists>i result. sv_getContractResult env (formatTransactionIdWithoutQueryParams txid) i = Inr result \<and> v = js_get result ''hash'' \<and> \<not> nullish v"
proof -
  let ?r = "snd (repeatedRequest (\<lambda>i. (Suc i, sv_getContractResult env (formatTransactionIdWithoutQueryParams txid) i)) (sv_retryCount env) JUndefined 0)"
  have r: "truthy ?r" "v = js_get ?r ''hash''" "\<not> nullish v"
    using assms by (auto simp: poll_record_def Let_def split: if_splits)
  then have "?r \<noteq> JUndefined" "?r \<noteq> JNullV" by auto
  with repeated_answer [of "sv_getContractResult env (formatTransactionIdWithoutQueryParams txid)" "sv_retryCount env" JUndefined 0] r
  show ?thesis by blast
qed

lemma wrong_nonce_no_value: "wrong_nonce_error env tx \<noteq> Inr (Value v)"
  by (auto simp: wrong_nonce_error_def res_bind_def split: sum.splits option.splits account_nonce.splits if_splits)

lemma error_handler_value:
  "sendRawTransactionErrorHandler env error buffer submitted tx = Inr (Value v) \<Longrightarrow> v = JString (sv_hashOf env buffer) \<and> submitted"
  by (auto simp: sendRawTransactionErrorHandler_def Let_def wrong_nonce_no_value internal_error_no_value res_bind_def
      split: if_splits option.splits thrown.splits relay_error.splits sum.splits)

lemma finish_justified: "hash_justified env buffer (sr_txSubmitted r) (finish_sending env buffer tx r)"
  unfolding hash_justified_def finish_sending_def Let_def
  using error_handler_value [of env _ buffer _ tx] poll_record_justified [of env]
  by (auto split: sum.splits if_splits) metis+


lemma submit_no_pool: "submit_events a buffer mid \<Longrightarrow> pool_ops mid = []"
  by (auto simp: submit_events_def)

lemma send_events_sent:
  assumes "submit_events a buffer mid" and "post = [] \<and> fails \<or> post = [Removed a (tx_serialized tx)]"
  shows "send_events a k tx buffer (Saved a tx # Executing # mid @ Released a k # post)"
    and "send_events a k tx buffer (Saved a tx # Executing # mid @ Released a k # post @ [Released a k])"
  unfolding send_events_def
  by (rule disjI2, rule exI [of _ mid], rule exI [of _ post], use assms in blast)
    (rule disjI2, rule exI [of _ mid], rule exI [of _ "post @ [Released a k]"], use assms in auto)

lemma hash_justified_mono: "hash_justified env buffer p r \<Longrightarrow> (p \<Longrightarrow> q) \<Longrightarrow> hash_justified env buffer q r"
  by (auto simp: hash_justified_def)

lemma hash_justified_thrown [simp]: "hash_justified env buffer p (Inl e)"
  by (simp add: hash_justified_def)

lemma effect_checked:
  assumes "send_checked client storage env buffer tx (Some k) s = (s', x)" and "tx_from tx = Some a" and "k \<noteq> []"
  obtains (refused) "s' = s" and "\<exists>e. x = Inl e"
  | (sent) mid post where "effect (sv_poolEnabled env) storage s s' (Saved a tx # Executing # mid @ Released a k # post)" and "submit_events a buffer mid"
      and "post = [] \<and> removal_fails (sv_poolEnabled env) storage a (tx_serialized tx) \<or> post = [Removed a (tx_serialized tx)]"
      and "\<not> sv_asyncProcessing env \<Longrightarrow> hash_justified env buffer (Submitted a buffer \<in> set mid) x"
proof -
  let ?price = "addPercentageBufferToGasPrice (sv_scaled env)"
  let ?check = "\<lambda>p. generic_errors (sendRawTransactionCheck (sv_precheck env) (sv_getAccount env) storage (sd_pool s) tx (?price p))"
  let ?processor = "\<lambda>p. sendRawTransactionProcessor client storage env buffer tx (?price p) (Some k)"
  let ?save = "pool_change (saveTransaction (sv_poolEnabled env) storage a tx) (Saved a tx)"
  obtain s1 y where save: "?save s = (s1, y)" by (cases "?save s")
  show thesis
  proof (cases "\<exists>p. getGasPriceInWeibars (sv_common env) None = Inr p \<and> ?check p = Inr () \<and> y = Inr ()")
    case False
    then have "s' = s \<and> (\<exists>e. x = Inl e)"
      using assms(1,2) save effect_save [OF save]
      by (auto simp: send_checked_def Let_def io_then_apply validateRawTransaction_def save_pending_def split: sum.splits)
    then show thesis using refused by blast
  next
    case True
    then obtain p where p: "getGasPriceInWeibars (sv_common env) None = Inr p" "?check p = Inr ()" "y = Inr ()" by blast
    obtain s2 z where run: "?processor p s1 = (s2, z)" by (cases "?processor p s1")
    have result: "s' = s2" "x = (if sv_asyncProcessing env then Inr (Value (JString (sv_hashOf env buffer))) else z)"
      using assms(1,2) save p run
      by (auto simp: send_checked_def Let_def io_then_apply validateRawTransaction_def save_pending_def split: if_splits)
    have e1: "effect (sv_poolEnabled env) storage s s1 [Saved a tx]" using effect_save [OF save] p(3) by auto
    obtain mid post r where e2: "effect (sv_poolEnabled env) storage s1 s2 (Executing # mid @ Released a k # post)" "submit_events a buffer mid"
      "sr_txSubmitted r \<Longrightarrow> Submitted a buffer \<in> set mid"
      "post = [Removed a (tx_serialized tx)] \<and> z = finish_sending env buffer tx r \<or>
        post = [] \<and> (\<exists>m. z = Inl (OtherError (Some m))) \<and> removal_fails (sv_poolEnabled env) storage a (tx_serialized tx)"
      using effect_processor [OF run assms(2,3)] by blast
    have "hash_justified env buffer (Submitted a buffer \<in> set mid) z"
      using e2(4) hash_justified_mono [OF finish_justified e2(3)] by auto
    then show thesis
      using sent [of mid post] effect_trans [OF e1 e2(1)] e2(2,4) result by auto
  qed
qed

lemma sendRawTransaction_run:
  assumes "sendRawTransaction client storage env raw s = (s', r)"
    and "\<not> sv_readOnly env" and "sv_decode env raw = Inr tx" and "tx_from tx = Some a" and "a \<noteq> []"
    and "sv_acquireLock env a = Some k" and "k \<noteq> []"
  obtains evs where "effect (sv_poolEnabled env) storage s s' (Acquired a k # evs)" and "send_events a k tx (prune0x raw) evs"
    and "\<not> removal_fails (sv_poolEnabled env) storage a (tx_serialized tx) \<Longrightarrow> pool_ops evs = [] \<or> pool_ops evs = [Save a tx, Remove a (tx_serialized tx)]"
    and "\<not> sv_asyncProcessing env \<Longrightarrow> hash_justified env (prune0x raw) (Submitted a (prune0x raw) \<in> set evs) r"
proof -
  obtain s1 where acquired: "emit (Acquired a k) s = (s1, Inr ())" by (simp add: emit_def)
  have e0: "effect (sv_poolEnabled env) storage s s1 [Acquired a k]" using effect_emit [OF acquired] by simp
  let ?body = "send_checked client storage env (prune0x raw) tx (Some k)"
  obtain s2 x where body: "?body s1 = (s2, x)" by (cases "?body s1")
  obtain s3 where released: "emit (Released a k) s2 = (s3, Inr ())" by (simp add: emit_def)
  have e3: "effect (sv_poolEnabled env) storage s2 s3 [Released a k]" using effect_emit [OF released] by simp
  have run: "(s', r) = (case x of Inl e \<Rightarrow> (s3, Inl e) | Inr v \<Rightarrow> (s2, Inr v))"
    using assms acquired body released
    by (simp add: sendRawTransaction_def parseRawTransaction_def acquire_lock_def io_then_apply io_catch_apply release_lock_def Let_def split: sum.splits)
  show thesis
  proof (cases rule: effect_checked [OF body assms(4,7), case_names refused sent])
    case refused
    then have "s' = s3" "\<exists>e. r = Inl e" using run by auto
    then show thesis
      using that [of "[Released a k]"] effect_trans [OF e0 e3 [unfolded refused(1)]] by (auto simp: send_events_def)
  next
    case (sent mid post)
    show thesis
    proof (cases x)
      case (Inl e)
      then have "s' = s3" "r = Inl e" using run by auto
      then show thesis
        using that [of "Saved a tx # Executing # mid @ Released a k # post @ [Released a k]"] effect_trans [OF effect_trans [OF e0 sent(1)] e3]
          send_events_sent [OF sent(2,3)] sent(3) submit_no_pool [OF sent(2)] by auto
    next
      case (Inr v)
      then have "s' = s2" "r = x" using run by auto
      then show thesis
        using that [of "Saved a tx # Executing # mid @ Released a k # post"] effect_trans [OF e0 sent(1)]
          send_events_sent [OF sent(2,3)] hash_justified_mono [OF sent(4)] sent(3) submit_no_pool [OF sent(2)] by auto
    qed
  qed
qed


lemma send_submitted:
  assumes "send_events a k tx buffer evs" and "Submitted a b \<in> set evs"
  shows "b = buffer \<and> (\<exists>rest. evs = [Saved a tx, Executing] @ Submitted a buffer # rest \<and> Released a k \<in> set rest \<and> Submitted a buffer \<notin> set rest)"
  using assms by (auto simp: send_events_def submit_events_def)

lemma send_order:
  assumes "send_events a k tx buffer evs"
  shows "Released a k \<in> set evs"
    and "\<forall>pre b post. evs = pre @ Submitted a b # post \<longrightarrow>
      b = buffer \<and> Saved a tx \<in> set pre \<and> Released a k \<notin> set pre \<and> Released a k \<in> set post \<and> Submitted a b \<notin> set (pre @ post)"
proof -
  show "Released a k \<in> set evs" using assms by (auto simp: send_events_def)
  have "b = buffer \<and> pre = [Saved a tx, Executing] \<and> Released a k \<in> set post \<and> Submitted a b \<notin> set post"
    if evs: "evs = pre @ Submitted a b # post" for pre b post
  proof -
    obtain rest where rest: "b = buffer" "evs = [Saved a tx, Executing] @ Submitted a buffer # rest" "Released a k \<in> set rest"
      "Submitted a buffer \<notin> set rest" using send_submitted [OF assms, of b] evs by auto
    have "Submitted a buffer \<notin> set [Saved a tx, Executing]" by simp
    then have "pre = [Saved a tx, Executing]" "post = rest"
      using append_Cons_eq_iff [of "Submitted a buffer" "[Saved a tx, Executing]" rest pre post] rest(1,2,4) evs by simp_all
    with rest show ?thesis by simp
  qed
  then show "\<forall>pre b post. evs = pre @ Submitted a b # post \<longrightarrow>
      b = buffer \<and> Saved a tx \<in> set pre \<and> Released a k \<notin> set pre \<and> Released a k \<in> set post \<and> Submitted a b \<notin> set (pre @ post)"
    by fastforce
qed




section \<open>Looking up by index and by hash\<close>

text \<open>A transaction looked up by the hash of its block and its index is the one looked up by its own hash, when the mirror node knows its chain and it
  did not create its contract.\<close>

lemma index_and_hash_agree:
  assumes "xm_getContractResultsOf m (ByBlockHash h) (Number_str i) = Inr (Some (cr # crs))" and "xm_getContractResult m hash = Inr (Some cr)"
    and "cr_chain_id cr = Some c" and "c \<noteq> []" and "\<not> created_by cr"
  shows "tx_getTransactionByBlockHashAndIndex m h i = Inr t \<longleftrightarrow> tx_getTransactionByHash m chain hash = Inr t"
proof -
  have chain: "or_chain chain cr = cr" using assms(3,4) by (simp add: or_chain_def or_str_def)
  have "tx_getTransactionByBlockHashAndIndex m h i = Inr t \<longleftrightarrow> (\<exists>to from. resolve_optional (xm_block m) (cr_to cr) = Inr to \<and>
      resolveEvmAddress (xm_block m) (cr_from cr) [TYPE_ACCOUNT] = Inr from \<and> createTransactionFromContractResult (cr\<lparr>cr_from := from, cr_to := to\<rparr>) = Inr t)"
    using assms(1) by (auto simp: tx_getTransactionByBlockHashAndIndex_def getTransactionByBlockHashOrBlockNumAndIndex_def generic_errors_def
        res_bind_eq_Inr res_bind_def split: sum.splits)
  moreover have "tx_getTransactionByHash m chain hash = Inr t \<longleftrightarrow> (\<exists>to from. resolve_optional (xm_block m) (cr_to cr) = Inr to \<and>
      resolveEvmAddress (xm_block m) (cr_from cr) [TYPE_ACCOUNT] = Inr from \<and> createTransactionFromContractResult (cr\<lparr>cr_from := from, cr_to := to\<rparr>) = Inr t)"
    using assms(2,5) by (auto simp: tx_getTransactionByHash_def chain res_bind_eq_Inr)
  ultimately show ?thesis by simp
qed

text \<open>By its hash a transaction that created its contract has no receiver; by its index it has the contract.\<close>

lemma created_contract_differs:
  assumes "created_by cr" and "cr_to cr = Some a" and "a \<noteq> []" and "bm_resolveEntityType (xm_block m) = (\<lambda>_ _. Inr None)"
    and "cr_type cr = Some 0" and "cr_amount cr = Some 0"
    and "xm_getContractResultsOf m (ByBlockHash h) (Number_str i) = Inr (Some (cr # crs))" and "xm_getContractResult m hash = Inr (Some cr)"
  shows "\<exists>t. tx_getTransactionByHash m chain hash = Inr (Some t) \<and> xt_to (tx_fields t) = None"
    and "\<exists>t. tx_getTransactionByBlockHashAndIndex m h i = Inr (Some t) \<and> xt_to (tx_fields t) = Some (str_slice a 0 42)"
  using assms
  by (simp_all add: tx_getTransactionByHash_def tx_getTransactionByBlockHashAndIndex_def getTransactionByBlockHashOrBlockNumAndIndex_def generic_errors_def
      resolve_optional_def resolveEvmAddress_def createTransactionFromContractResult_def createTransactionByType_def tx_fields_def or_chain_def
      tinybarsToWeibars_def TOTAL_SUPPLY_TINYBARS_def)


section \<open>A concrete transaction\<close>

definition good_tx :: eth_tx where
  "good_tx = sample_tx\<lparr>tx_gasPrice := Some 60000000000\<rparr>"

definition good_precheck :: precheck_config where
  "good_precheck = \<lparr>pc_chain = ''0x12a'', pc_maxTransactionFeeThreshold = 15000000, pc_sendRawTransactionSizeLimit = 131072,
     pc_callDataSizeLimit = 131072, pc_gasPriceTinyBarBuffer = 0, pc_paymasterEnabled = False, pc_paymasterWhitelist = [],
     pc_deterministicDeployerTransaction = ''0x01''\<rparr>"

text \<open>The network answers with an id, and the mirror node has the record with the hash.\<close>

definition sample_send_env :: send_env where
  "sample_send_env = \<lparr>sv_readOnly = False, sv_asyncProcessing = False, sv_poolEnabled = True, sv_now = 0, sv_decode = (\<lambda>_. Inr good_tx),
     sv_hashOf = (\<lambda>b. ''0x'' @ b), sv_common = sample_mirror, sv_scaled = (\<lambda>_. 0), sv_precheck = good_precheck,
     sv_getAccount = (\<lambda>_. Inr (Some \<lparr>ai_ethereum_nonce = NonceIs 7, ai_balance = Some 200000, ai_receiver_sig_required = False\<rparr>)),
     sv_acquireLock = (\<lambda>_. Some ''key''), sv_exchangeRate = Inr (JObject [(''current_rate'', JObject [(''cent_equivalent'', JNumV 12), (''hbar_equivalent'', JNumV 1)])]),
     sv_submit = (\<lambda>_ _ _ _. Inr \<lparr>su_fileId = None, su_transactionId = Some ''0.0.5@12.3''\<rparr>),
     sv_getContractResult = (\<lambda>_ _. Inr (JObject [(''hash'', JString ''0xab'')])), sv_getNonce = (\<lambda>_ _. Inr None),
     sv_getTransactionById = (\<lambda>_. Inr JNullV), sv_retryCount = 3, sv_contractRevert = 33\<rparr>"

definition start_state :: "(nat, local_pool) send_state" where
  "start_state = \<lparr>sd_cache = 0, sd_pool = empty_pool, sd_trace = []\<rparr>"

lemma good_tx_passes: "sendRawTransactionCheck good_precheck (sv_getAccount sample_send_env) LocalPendingTransactionStorage empty_pool good_tx 50000000000 = Inr ()"
proof -
  have "int_str 16 298 = ''12a'' \<and> prepend0x ''12a'' = ''0x12a''" by code_simp
  moreover have "transactionIntrinsicGasCost ''0x'' \<le> 21000" by code_simp
  moreover have "double_of_int 21000 = 21000" "double_of_int 298 = 298" by (simp_all add: double_of_int_exact)
  moreover have "length (replace_first ''0x'' [] ''0x'') = 0" "length (replace_first ''0x'' [] ''0xf8'') = 2" by code_simp+
  ultimately show ?thesis
    unfolding sendRawTransactionCheck_iff static_ok_def receiver_ok_def price_ok_def
    by (simp add: good_tx_def sample_tx_def good_precheck_def sample_send_env_def txGasPrice_def sender_ok_def getPendingCount_def
        LocalPendingTransactionStorage_def local_getList_def empty_pool_def)
qed

lemma sample_send:
  "\<exists>s'. sendRawTransaction no_cache LocalPendingTransactionStorage sample_send_env ''0xf8'' start_state = (s', Inr (Value (JString ''0xab'')))"
proof -
  have prune: "prune0x ''0xf8'' = ''f8''" by code_simp
  have txid: "TRANSACTION_ID_REGEX_test ''0.0.5@12.3''" by code_simp
  have price: "getGasPriceInWeibars (sv_common sample_send_env) None = Inr 50000000000"
    by (simp add: sample_send_env_def sample_mirror_def getGasPriceInWeibars_def TINYBAR_TO_WEIBAR_COEF_def)
  have tx: "tx_from good_tx = Some ''0xAb''" by (simp add: good_tx_def sample_tx_def)
  have poll: "poll_record sample_send_env ''0.0.5@12.3'' None = Inr (JString ''0xab'')"
    by (simp add: poll_record_def sample_send_env_def numeral_3_eq_3 js_get_JObject nullish_def)
  have parts: "\<not> sv_readOnly sample_send_env" "\<not> sv_asyncProcessing sample_send_env" "sv_poolEnabled sample_send_env"
    "sv_decode sample_send_env = (\<lambda>_. Inr good_tx)" "sv_scaled sample_send_env = (\<lambda>_. 0)" "sv_precheck sample_send_env = good_precheck"
    "sv_acquireLock sample_send_env = (\<lambda>_. Some ''key'')"
    "sv_exchangeRate sample_send_env = Inr (JObject [(''current_rate'', JObject [(''cent_equivalent'', JNumV 12), (''hbar_equivalent'', JNumV 1)])])"
    "sv_submit sample_send_env = (\<lambda>_ _ _ _. Inr \<lparr>su_fileId = None, su_transactionId = Some ''0.0.5@12.3''\<rparr>)"
    by (simp_all add: sample_send_env_def)
  have pool: "sd_pool start_state = empty_pool" by (simp add: start_state_def)
  have storage: "saveTransaction True LocalPendingTransactionStorage a tx p = Inr (local_addToList (toLowerCase a) (tx_serialized tx) p)"
    "removeTransaction True LocalPendingTransactionStorage a x p = Inr (local_removeFromList (toLowerCase a) x p)" for a tx x p
    by (simp_all add: saveTransaction_def removeTransaction_def LocalPendingTransactionStorage_def)
  have rate: "getCurrentNetworkExchangeRateInCents no_cache sample_send_env s = (s, Inr (JNumV 12, JNumV 1))" for s :: "(nat, local_pool) send_state"
    by (simp add: getCurrentNetworkExchangeRateInCents_def Let_def io_then_apply on_cache_def no_cache_def io_cache_def other_error_def
        parts js_get_JObject nullish_def)
  have submitted: "submitted_result \<lparr>su_fileId = None, su_transactionId = Some ''0.0.5@12.3''\<rparr> =
      \<lparr>sr_txSubmitted = True, sr_transactionId = Some ''0.0.5@12.3'', sr_error = None\<rparr>"
    using txid by (simp add: submitted_result_def Let_def del: TRANSACTION_ID_REGEX_test.simps)
  show ?thesis
    by (simp add: sendRawTransaction_def Let_def parts parseRawTransaction_def prune acquire_lock_def tx emit_def io_then_apply io_catch_apply
        send_checked_def price addPercentageBufferToGasPrice_def validateRawTransaction_def pool good_tx_passes generic_errors_def save_pending_def
        pool_change_def storage sendRawTransactionProcessor_def submitTransaction_def rate submitted release_lock_def
        finish_sending_def poll)
qed

lemma sample_parts_of_send:
  "\<not> sv_readOnly sample_send_env" "sv_decode sample_send_env ''0xf8'' = Inr good_tx" "tx_from good_tx = Some ''0xAb''" "''0xAb'' \<noteq> []"
  "sv_acquireLock sample_send_env ''0xAb'' = Some ''key''" "''key'' \<noteq> []" "\<not> sv_asyncProcessing sample_send_env" "sv_poolEnabled sample_send_env"
  "run_pool True LocalPendingTransactionStorage [] empty_pool = Inr (sd_pool start_state)" "sd_trace start_state = []"
  by (simp_all add: sample_send_env_def good_tx_def sample_tx_def start_state_def)




definition index_mirror :: tx_mirror where
  "index_mirror = \<lparr>xm_block = sample_block_mirror, xm_getContractResult = (\<lambda>_. Inr (Some (sample_result ''0xee''))),
     xm_getContractResultsOf = (\<lambda>_ _. Inr (Some [sample_result ''0xee''])), xm_getLogsOfTransaction = (\<lambda>_. Inr None)\<rparr>"

lemma index_and_hash_agree_witness:
  "\<forall>t. tx_getTransactionByBlockHashAndIndex index_mirror ''0xab'' ''0x1'' = Inr t \<longleftrightarrow> tx_getTransactionByHash index_mirror ''0x12a'' ''0xee'' = Inr t"
proof (rule allI, rule index_and_hash_agree [where c = "''0x12a''"])
  show "cr_chain_id (sample_result ''0xee'') = Some ''0x12a''" "\<not> created_by (sample_result ''0xee'')"
    by (simp_all add: sample_result_def created_by_def)
qed (simp_all add: index_mirror_def)


section \<open>Two answers that hide what happened\<close>

text \<open>When the account's nonce is zero, the answer is an internal error and not that the nonce is too high.\<close>

lemma zero_nonce_hidden:
  assumes "sv_retryCount env \<noteq> 0" and "sv_getNonce env (from_str tx) 0 = Inr (Some (NonceIs 0))" and "tx_nonce tx > 0"
  shows "wrong_nonce_error env tx = Inl (json_error_thrown (INTERNAL_ERROR ''Cannot find updated account nonce for WRONG_NONCE error.''))"
  using assms by (cases "sv_retryCount env") (simp_all add: wrong_nonce_error_def)

text \<open>A transaction that was submitted and whose id is not valid is looked up all the same.\<close>

lemma invalid_id_polled:
  assumes "su_transactionId r = Some i" and "i \<noteq> []" and "\<not> TRANSACTION_ID_REGEX_test i"
    and "\<And>j. sv_getContractResult env None j = Inr (JObject [(''hash'', JString h)])" and "sv_retryCount env \<noteq> 0"
  shows "finish_sending env buffer tx (submitted_result r) = Inr (Value (JString h))"
proof -
  have "formatTransactionIdWithoutQueryParams i = None"
    using assms(3) by (simp add: formatTransactionIdWithoutQueryParams_def formatTransactionId_def)
  then show ?thesis
    using assms by (cases "sv_retryCount env") (simp_all add: finish_sending_def submitted_result_def poll_record_def Let_def js_get_JObject nullish_def)
qed

end
