(* ===== verification/EthDebug.thy ===== *)
theory EthDebug
  imports EthTransaction
begin

text \<open>
  The tracers (\<open>lib/debug.ts\<close>): traces of a transaction by the call tracer, the prestate tracer and the opcode logger, and traces of the
  transactions of a block. The mirror node is a record of functions, as for the other services.
\<close>

section \<open>Records of the mirror node\<close>

record trace_action =
  an_call_depth :: int
  an_call_type :: "string option"
  an_call_operation_type :: string
  an_caller_type :: string
  an_recipient_type :: string
  an_from :: "string option"
  an_to :: "string option"
  an_gas :: int
  an_gas_used :: int
  an_input :: "string option"
  an_result_data :: "string option"
  an_value :: int
  an_timestamp :: string

record opcode =
  oc_pc :: int
  oc_op :: string
  oc_gas :: int
  oc_gas_cost :: int
  oc_depth :: int
  oc_stack :: "string list option"
  oc_memory :: "string list option"
  oc_storage :: "(string \<times> string) list option"
  oc_reason :: "string option"

record opcodes_response =
  or_gas :: int
  or_failed :: bool
  or_return_value :: "string option"
  or_opcodes :: "opcode list option"

record opcode_options =
  oo_memory :: bool
  oo_stack :: bool
  oo_storage :: bool

text \<open>The code of a contract, and what an entity was at a moment.\<close>

record contract_code =
  cc_bytecode :: "string option"
  cc_runtime_bytecode :: "string option"

record traced_entity =
  te_type :: string
  te_evm_address :: "string option"
  te_contract_id :: string
  te_nonce :: jv
  te_runtime_bytecode :: jv
  te_balance :: "int option"
  te_ethereum_nonce :: jv

record debug_mirror =
  dm_tx :: tx_mirror
  dm_getContractResult :: "string \<Rightarrow> thrown + contract_result option"
  dm_getActions :: "string \<Rightarrow> thrown + trace_action list option"
  dm_getOpcodes :: "string \<Rightarrow> opcode_options \<Rightarrow> thrown + opcodes_response option"
  dm_getContract :: "string \<Rightarrow> thrown + contract_code option"
  dm_resolveEntityAt :: "string \<Rightarrow> string \<Rightarrow> string \<Rightarrow> thrown + traced_entity option"
  dm_getBalancesAt :: "string \<Rightarrow> string \<Rightarrow> thrown + int option list option"
  dm_getContractState :: "string \<Rightarrow> string \<Rightarrow> thrown + (string \<times> string) list"

record debug_config =
  dc_enabled :: bool
  dc_opcodeLoggerEnabled :: bool
  dc_maxBlockRange :: int

section \<open>Addresses\<close>

definition resolveAddress :: "debug_mirror \<Rightarrow> string option \<Rightarrow> string list \<Rightarrow> thrown + string option" where
  "resolveAddress m address types = (case address of
     None \<Rightarrow> Inr None
   | Some a \<Rightarrow> if a = [] then Inr (Some a)
       else res_bind (bm_resolveEntityType (xm_block (dm_tx m)) a types) (\<lambda>entity. Inr (Some (case entity of
           Some (type, Some evm) \<Rightarrow> if (type = TYPE_CONTRACT \<or> type = TYPE_ACCOUNT) \<and> evm \<noteq> [] then evm else a
         | _ \<Rightarrow> a))))"

definition resolveMultipleAddresses :: "debug_mirror \<Rightarrow> string option \<Rightarrow> string option \<Rightarrow> thrown + string option \<times> string option" where
  "resolveMultipleAddresses m from to =
     res_bind (resolveAddress m from [TYPE_CONTRACT, TYPE_TOKEN, TYPE_ACCOUNT]) (\<lambda>resolvedFrom.
     res_bind (resolveAddress m to [TYPE_CONTRACT, TYPE_TOKEN, TYPE_ACCOUNT]) (\<lambda>resolvedTo. Inr (resolvedFrom, resolvedTo)))"

section \<open>Results\<close>

record call_frame =
  cf_type :: string
  cf_from :: "string option"
  cf_to :: "string option"
  cf_gas :: string
  cf_gasUsed :: string
  cf_input :: "string option"
  cf_output :: "string option"
  cf_value :: string

text \<open>\<open>error\<close> and \<open>revertReason\<close> are there for a failed transaction only.\<close>

record call_trace =
  ct_frame :: call_frame
  ct_failure :: "(string \<times> nat list) option"
  ct_calls :: "call_frame list"

record struct_log =
  sl_pc :: int
  sl_op :: string
  sl_gas :: int
  sl_gasCost :: int
  sl_depth :: int
  sl_stack :: "string list option"
  sl_memory :: "string list option"
  sl_storage :: "(string \<times> string) list option"
  sl_reason :: "string option"

record opcode_result =
  ol_gas :: int
  ol_failed :: bool
  ol_returnValue :: string
  ol_structLogs :: "struct_log list option"

datatype trace_result = CallTrace call_trace | OpcodeTrace opcode_result | PrestateTrace jv

definition weibar_hex :: "int option \<Rightarrow> thrown + string" where
  "weibar_hex amount = (case tinybarsToWeibars amount False of
     Inl message \<Rightarrow> Inl (js_type_error message)
   | Inr v \<Rightarrow> Inr (numberTo0x (case v of Some n \<Rightarrow> n | None \<Rightarrow> 0)))"

text \<open>The code of a created contract stands for the data of the call that created it, but for the first call.\<close>

definition created_code :: "debug_mirror \<Rightarrow> nat \<Rightarrow> trace_action \<Rightarrow> thrown + contract_code option" where
  "created_code m index action = (case an_to action of
     Some a \<Rightarrow> if index \<noteq> 0 \<and> an_call_operation_type action \<in> {''CREATE'', ''CREATE2''} \<and> a \<noteq> [] then dm_getContract m a else Inr None
   | None \<Rightarrow> Inr None)"

definition format_action :: "debug_mirror \<Rightarrow> nat \<times> trace_action \<Rightarrow> thrown + call_frame" where
  "format_action m = (\<lambda>(index, action).
     res_bind (resolveMultipleAddresses m (an_from action) (an_to action)) (\<lambda>(from, to).
     res_bind (created_code m index action) (\<lambda>contract.
     res_bind (weibar_hex (Some (an_value action))) (\<lambda>value.
       let either = (\<lambda>f other. case contract of Some c \<Rightarrow> (case f c of Some x \<Rightarrow> Some x | None \<Rightarrow> other) | None \<Rightarrow> other)
       in Inr \<lparr>cf_type = an_call_operation_type action, cf_from = from, cf_to = to, cf_gas = numberTo0x (an_gas action),
         cf_gasUsed = numberTo0x (an_gas_used action), cf_input = either cc_bytecode (an_input action),
         cf_output = either cc_runtime_bytecode (an_result_data action), cf_value = value\<rparr>))))"

definition formatActionsResult :: "debug_mirror \<Rightarrow> trace_action list \<Rightarrow> thrown + call_frame list" where
  "formatActionsResult m result = res_map (format_action m) (List.enumerate 0 result)"

definition or_empty :: "bool \<Rightarrow> string list option \<Rightarrow> string list option" where
  "or_empty wanted xs = (if wanted then Some (case xs of Some ys \<Rightarrow> map strip0x ys | None \<Rightarrow> []) else None)"

definition format_opcode :: "opcode_options \<Rightarrow> opcode \<Rightarrow> struct_log" where
  "format_opcode options oc = \<lparr>sl_pc = oc_pc oc, sl_op = oc_op oc, sl_gas = oc_gas oc, sl_gasCost = oc_gas_cost oc, sl_depth = oc_depth oc,
     sl_stack = or_empty (oo_stack options) (oc_stack oc), sl_memory = or_empty (oo_memory options) (oc_memory oc),
     sl_storage = (if oo_storage options
       then Some (mapKeysAndValues (case oc_storage oc of Some st \<Rightarrow> st | None \<Rightarrow> []) (Some strip0x) (Some strip0x)) else None),
     sl_reason = (case oc_reason oc of Some r \<Rightarrow> if r \<noteq> [] then Some (strip0x r) else None | None \<Rightarrow> None)\<rparr>"

definition formatOpcodesResult :: "opcodes_response option \<Rightarrow> opcode_options \<Rightarrow> opcode_result" where
  "formatOpcodesResult result options = (case result of
     None \<Rightarrow> \<lparr>ol_gas = 0, ol_failed = True, ol_returnValue = [], ol_structLogs = Some []\<rparr>
   | Some r \<Rightarrow> \<lparr>ol_gas = or_gas r, ol_failed = or_failed r,
       ol_returnValue = (case or_return_value r of Some v \<Rightarrow> strip0x v | None \<Rightarrow> []),
       ol_structLogs = map_option (map (format_opcode options)) (or_opcodes r)\<rparr>)"

section \<open>Transactions without a contract result\<close>

datatype tracer_type = CallTracer | OpcodeLogger | PrestateTracer

definition synthetic_trace :: "debug_mirror \<Rightarrow> eth_log \<Rightarrow> thrown + call_trace" where
  "synthetic_trace m l =
     (let (from, to) = (case lg_topics l of
            _ # t1 # t2 # _ \<Rightarrow> (prepend0x (drop (length t1 - 40) t1), prepend0x (drop (length t2 - 40) t2))
          | _ \<Rightarrow> (lg_address l, lg_address l))
      in res_bind (resolveMultipleAddresses m (Some from) (Some to)) (\<lambda>(resolvedFrom, resolvedTo).
        Inr \<lparr>ct_frame = \<lparr>cf_type = ''CALL'', cf_from = resolvedFrom, cf_to = resolvedTo, cf_gas = numberTo0x TX_DEFAULT_GAS_DEFAULT,
              cf_gasUsed = ZERO_HEX, cf_input = Some EMPTY_HEX, cf_output = Some EMPTY_HEX, cf_value = ZERO_HEX\<rparr>,
          ct_failure = None, ct_calls = []\<rparr>))"

definition handleSyntheticTransaction :: "debug_mirror \<Rightarrow> string \<Rightarrow> tracer_type \<Rightarrow> thrown + trace_result" where
  "handleSyntheticTransaction m transactionIdOrHash tracer =
     res_bind (logs_of_transaction (dm_tx m) transactionIdOrHash) (\<lambda>logs. case logs of
       [] \<Rightarrow> Inl (json_error_thrown (RESOURCE_NOT_FOUND (''Failed to retrieve transaction information for '' @ transactionIdOrHash)))
     | l # _ \<Rightarrow> (case tracer of
         PrestateTracer \<Rightarrow> Inr (PrestateTrace (JObject []))
       | OpcodeLogger \<Rightarrow> Inr (OpcodeTrace \<lparr>ol_gas = 0, ol_failed = False, ol_returnValue = [], ol_structLogs = Some []\<rparr>)
       | CallTracer \<Rightarrow> map_sum id CallTrace (synthetic_trace m l)))"

section \<open>Tracers\<close>

definition options_of :: "jv \<Rightarrow> opcode_options" where
  "options_of tracerConfig = \<lparr>oo_memory = truthy (js_get tracerConfig ''enableMemory''),
     oo_stack = (\<not> truthy (js_get tracerConfig ''disableStack'')), oo_storage = (\<not> truthy (js_get tracerConfig ''disableStorage''))\<rparr>"

definition callOpcodeLogger :: "debug_mirror \<Rightarrow> string \<Rightarrow> jv \<Rightarrow> thrown + trace_result" where
  "callOpcodeLogger m transactionIdOrHash tracerConfig = generic_errors (
     res_bind (dm_getOpcodes m transactionIdOrHash (options_of tracerConfig)) (\<lambda>response. case response of
       None \<Rightarrow> handleSyntheticTransaction m transactionIdOrHash OpcodeLogger
     | Some r \<Rightarrow> Inr (OpcodeTrace (formatOpcodesResult (Some r) (options_of tracerConfig)))))"

definition top_call :: "debug_mirror \<Rightarrow> bool \<Rightarrow> string \<Rightarrow> trace_action list \<Rightarrow> contract_result \<Rightarrow> thrown + trace_result" where
  "top_call m onlyTopCall type actions r =
     res_bind (formatActionsResult m actions) (\<lambda>formattedActions.
     res_bind (resolveMultipleAddresses m (Some (cr_from r)) (cr_to r)) (\<lambda>(resolvedFrom, resolvedTo).
     res_bind (weibar_hex (cr_amount r)) (\<lambda>value.
     res_bind (number_field (cr_gas_limit r)) (\<lambda>gas.
     res_bind (number_field (cr_gas_used r)) (\<lambda>gasUsed.
       let failed = cr_result r \<noteq> ''SUCCESS'' in
       Inr (CallTrace \<lparr>ct_frame = \<lparr>cf_type = type, cf_from = resolvedFrom, cf_to = resolvedTo, cf_gas = gas, cf_gasUsed = gasUsed,
              cf_input = Some (cr_function_parameters r), cf_output = (if failed then cr_error_message r else Some (cr_call_result r)), cf_value = value\<rparr>,
          ct_failure = (if failed then Some (cr_result r, decodeErrorMessage (cr_error_message r)) else None),
          ct_calls = (if onlyTopCall \<or> length actions = 1 then [] else drop 1 formattedActions)\<rparr>))))))"

definition callTracer :: "debug_mirror \<Rightarrow> string \<Rightarrow> bool \<Rightarrow> thrown + trace_result" where
  "callTracer m transactionHash onlyTopCall = generic_errors (
     res_bind (dm_getActions m transactionHash) (\<lambda>actionsResponse.
     res_bind (dm_getContractResult m transactionHash) (\<lambda>transactionsResponse.
       case (actionsResponse, transactionsResponse) of
         (Some (a # as), Some r) \<Rightarrow> (case an_call_type a of
             Some type \<Rightarrow> if type \<noteq> [] then top_call m onlyTopCall type (a # as) r
               else handleSyntheticTransaction m transactionHash CallTracer
           | None \<Rightarrow> handleSyntheticTransaction m transactionHash CallTracer)
       | _ \<Rightarrow> handleSyntheticTransaction m transactionHash CallTracer)))"

section \<open>The prestate tracer\<close>

record account_entity =
  ae_address :: string
  ae_type :: string
  ae_timestamp :: string

definition add_entity :: "string option \<Rightarrow> string \<Rightarrow> string \<Rightarrow> (string \<times> account_entity) list \<Rightarrow> (string \<times> account_entity) list" where
  "add_entity address type timestamp addressMap = (case address of
     Some a \<Rightarrow> if a \<noteq> [] then AList.update a \<lparr>ae_address = a, ae_type = type, ae_timestamp = timestamp\<rparr> addressMap else addressMap
   | None \<Rightarrow> addressMap)"

text \<open>The addresses of the actions; a later action replaces what an earlier one said of the same address.\<close>

definition action_addresses :: "trace_action list \<Rightarrow> (string \<times> account_entity) list" where
  "action_addresses actions = fold (\<lambda>action addressMap. add_entity (an_to action) (an_recipient_type action) (an_timestamp action)
     (add_entity (an_from action) (an_caller_type action) (an_timestamp action) addressMap)) actions []"

definition balance_hex :: "int option \<Rightarrow> jv" where
  "balance_hex balance = JString (case balance of Some n \<Rightarrow> if n \<noteq> 0 then numberTo0x n else ''0x0'' | None \<Rightarrow> ''0x0'')"

definition prestate_object :: "jv \<Rightarrow> jv \<Rightarrow> jv \<Rightarrow> (string \<times> string) list \<Rightarrow> jv" where
  "prestate_object balance nonce code storage = JObject [(''balance'', balance), (''nonce'', nonce), (''code'', code),
     (''storage'', JObject (map (\<lambda>(k, v). (k, JString v)) storage))]"

text \<open>What one address contributes: nothing when it is not known or a query fails.\<close>

definition prestate_of :: "debug_mirror \<Rightarrow> account_entity \<Rightarrow> (string \<times> jv) option" where
  "prestate_of m e = (case dm_resolveEntityAt m (ae_address e) (ae_type e) (ae_timestamp e) of
     Inr (Some entity) \<Rightarrow> (case te_evm_address entity of
         Some evm \<Rightarrow> if evm = [] then None
           else if te_type entity = TYPE_CONTRACT
           then (case (dm_getBalancesAt m (te_contract_id entity) (ae_timestamp e), dm_getContractState m (te_contract_id entity) (ae_timestamp e)) of
               (Inr (Some balances), Inr state) \<Rightarrow> Some (evm, prestate_object (balance_hex (case balances of b # _ \<Rightarrow> b | [] \<Rightarrow> None))
                 (te_nonce entity) (te_runtime_bytecode entity) (foldl (\<lambda>st (slot, value). AList.update slot value st) [] state))
             | _ \<Rightarrow> None)
           else if te_type entity = TYPE_ACCOUNT
           then Some (evm, prestate_object (balance_hex (te_balance entity)) (te_ethereum_nonce entity) (JString ''0x'') [])
           else None
       | None \<Rightarrow> None)
   | _ \<Rightarrow> None)"

text \<open>The addresses are looked up at the same time; \<open>finished\<close> is the order in which they are written to the result.\<close>

definition prestate_result :: "debug_mirror \<Rightarrow> account_entity list \<Rightarrow> (string \<times> jv) list" where
  "prestate_result m finished = foldl (\<lambda>result (evm, st). AList.update evm st result) [] (List.map_filter (prestate_of m) finished)"

definition prestate_key :: "string \<Rightarrow> bool \<Rightarrow> string" where
  "prestate_key transactionHash onlyTopCall = ''prestateTracer_'' @ transactionHash @ ''_'' @ (if onlyTopCall then ''true'' else ''false'')"

definition prestateTracer ::
    "'s cache_client \<Rightarrow> int \<Rightarrow> debug_mirror \<Rightarrow> (account_entity list \<Rightarrow> account_entity list) \<Rightarrow> string \<Rightarrow> bool \<Rightarrow> ('s, trace_result) io" where
  "prestateTracer client now m finish_order transactionHash onlyTopCall =
     (let cacheKey = prestate_key transactionHash onlyTopCall in
      io_then (\<lambda>s. io_cache (c_get client now cacheKey s)) (\<lambda>cachedResult.
      if truthy cachedResult then io_return (PrestateTrace cachedResult)
      else io_then (io_pure (dm_getActions m transactionHash)) (\<lambda>actionsResponse. case actionsResponse of
          Some (a # as) \<Rightarrow>
            (let filteredActions = (if onlyTopCall then filter (\<lambda>action. an_call_depth action = 0) (a # as) else a # as);
                 accountEntities = map snd (action_addresses filteredActions)
             in if accountEntities = [] then io_return (PrestateTrace (JObject []))
                else let result = JObject (prestate_result m (finish_order accountEntities)) in
                  io_then (\<lambda>s. io_cache (c_set client now cacheKey result None s)) (\<lambda>_. io_return (PrestateTrace result)))
        | _ \<Rightarrow> io_pure (handleSyntheticTransaction m transactionHash PrestateTracer))))"

section \<open>The methods\<close>

definition requireDebugAPIEnabled :: "debug_config \<Rightarrow> thrown + unit" where
  "requireDebugAPIEnabled cfg = (if dc_enabled cfg then Inr () else Inl (json_error_thrown UNSUPPORTED_METHOD))"

definition io_generic :: "('s, 'a) io \<Rightarrow> ('s, 'a) io" where
  "io_generic c = io_catch c (\<lambda>e. io_throw (genericErrorHandler e))"

definition or_else :: "jv \<Rightarrow> jv \<Rightarrow> jv" where
  "or_else a b = (if nullish a then b else a)"

text \<open>The properties of the opcode logger at the top level count when neither a tracer nor a configuration is given.\<close>

definition tracer_config :: "jv \<Rightarrow> jv" where
  "tracer_config tracerObject =
     (let tracerConfig = or_else (js_get tracerObject ''tracerConfig'') (JObject []);
          filteredConfig = filter (\<lambda>(k, _). k \<in> {''enableMemory'', ''disableStack'', ''disableStorage''}) (js_entries tracerObject)
      in if \<not> truthy (js_get tracerObject ''tracerConfig'') \<and> \<not> truthy (js_get tracerObject ''tracer'') \<and> truthy tracerObject \<and> filteredConfig \<noteq> []
         then JObject filteredConfig else tracerConfig)"

definition traceTransaction ::
    "'s cache_client \<Rightarrow> int \<Rightarrow> debug_config \<Rightarrow> debug_mirror \<Rightarrow> (account_entity list \<Rightarrow> account_entity list) \<Rightarrow> string \<Rightarrow> jv \<Rightarrow> ('s, trace_result) io" where
  "traceTransaction client now cfg m finish_order transactionIdOrHash tracerObject =
     (let tracer = or_else (js_get tracerObject ''tracer'') (JString ''opcodeLogger''); tracerConfig = tracer_config tracerObject in
      io_generic (io_then (io_pure (requireDebugAPIEnabled cfg)) (\<lambda>_.
        if tracer = JString ''callTracer''
        then io_pure (callTracer m transactionIdOrHash (truthy (js_get tracerConfig ''onlyTopCall'')))
        else if tracer = JString ''prestateTracer''
        then prestateTracer client now m finish_order transactionIdOrHash (truthy (js_get tracerConfig ''onlyTopCall''))
        else if \<not> dc_opcodeLoggerEnabled cfg then io_throw (json_error_thrown UNSUPPORTED_METHOD)
        else io_pure (callOpcodeLogger m transactionIdOrHash tracerConfig))))"

text \<open>The hashes of a block, those of results first; only results with a wrong nonce are left out.\<close>

definition getAllTransactionHashesFromBlock :: "debug_mirror \<Rightarrow> block \<Rightarrow> thrown + string list" where
  "getAllTransactionHashesFromBlock m b =
     (let timestampRange = [''gte:'' @ bk_from b, ''lte:'' @ bk_to b] in
      res_bind (bm_getContractResultsWithRetry (xm_block (dm_tx m)) timestampRange) (\<lambda>contractResults.
      res_bind (mn_getContractResultsLogsWithRetry (bm_common (xm_block (dm_tx m))) \<lparr>lq_timestamp = timestampRange, lq_topics = []\<rparr>) (\<lambda>allLogs.
        Inr (uniq (map cr_hash (filter (\<lambda>cr. cr_result cr \<noteq> ''WRONG_NONCE'') (case contractResults of Some crs \<Rightarrow> crs | None \<Rightarrow> [])) @
          filter (\<lambda>h. h \<noteq> []) (map ml_transaction_hash (case allLogs of Some ls \<Rightarrow> ls | None \<Rightarrow> [])))))))"

fun io_map :: "('a \<Rightarrow> ('s, 'b) io) \<Rightarrow> 'a list \<Rightarrow> ('s, 'b list) io" where
  "io_map f [] = io_return []"
| "io_map f (x # xs) = io_then (f x) (\<lambda>y. io_then (io_map f xs) (\<lambda>ys. io_return (y # ys)))"

definition traceBlockByNumber ::
    "'s cache_client \<Rightarrow> int \<Rightarrow> debug_config \<Rightarrow> debug_mirror \<Rightarrow> (account_entity list \<Rightarrow> account_entity list) \<Rightarrow> string \<Rightarrow> jv \<Rightarrow>
     ('s, (string \<times> trace_result) list) io" where
  "traceBlockByNumber client now cfg m finish_order blockNumber tracerObject = io_generic (
     io_then (io_pure (requireDebugAPIEnabled cfg)) (\<lambda>_.
     io_then (io_pure (getHistoricalBlockResponse (bm_common (xm_block (dm_tx m))) (dc_maxBlockRange cfg) (Tag blockNumber) True)) (\<lambda>blockResponse.
       case blockResponse of
         None \<Rightarrow> io_throw (json_error_thrown (RESOURCE_NOT_FOUND (''Block '' @ blockNumber @ '' not found'')))
       | Some b \<Rightarrow> io_then (io_pure (getAllTransactionHashesFromBlock m b)) (\<lambda>transactionHashes.
           let tracer = or_else (js_get tracerObject ''tracer'') (JString ''callTracer'');
               onlyTopCall = truthy (js_get (js_get tracerObject ''tracerConfig'') ''onlyTopCall'')
           in if tracer = JString ''callTracer''
              then io_map (\<lambda>txHash. io_then (io_pure (callTracer m txHash onlyTopCall)) (\<lambda>r. io_return (txHash, r))) transactionHashes
              else if tracer = JString ''prestateTracer''
              then io_map (\<lambda>txHash. io_then (prestateTracer client now m finish_order txHash onlyTopCall) (\<lambda>r. io_return (txHash, r))) transactionHashes
              else io_return []))))"

section \<open>Facts about the tracers\<close>

text \<open>What an action says of the addresses it names.\<close>

definition mentions :: "trace_action \<Rightarrow> (string \<times> account_entity) list" where
  "mentions action = concat (map (\<lambda>(a, type). case a of
     Some x \<Rightarrow> if x \<noteq> [] then [(x, \<lparr>ae_address = x, ae_type = type, ae_timestamp = an_timestamp action\<rparr>)] else [] | None \<Rightarrow> [])
     [(an_from action, an_caller_type action), (an_to action, an_recipient_type action)])"

definition last_mention :: "trace_action list \<Rightarrow> string \<Rightarrow> account_entity option" where
  "last_mention actions a = map_of (rev (concat (map mentions actions))) a"

definition update_all :: "('k \<times> 'v) list \<Rightarrow> ('k \<times> 'v) list \<Rightarrow> ('k \<times> 'v) list" where
  "update_all ps m = fold (\<lambda>(k, v). AList.update k v) ps m"

lemma update_all_simps [simp]: "update_all [] m = m" "update_all ((k, v) # ps) m = update_all ps (AList.update k v m)"
  by (simp_all add: update_all_def)

lemma update_all_append: "update_all (ps @ qs) m = update_all qs (update_all ps m)"
  by (simp add: update_all_def)

lemma update_all_map: "map_of (update_all ps m) = map_of m ++ map_of (rev ps)"
  by (induction ps arbitrary: m) (auto simp: update_conv' fun_eq_iff map_add_def split: option.split)

lemma update_all_distinct: "distinct (map fst m) \<Longrightarrow> distinct (map fst (update_all ps m))"
  by (induction ps arbitrary: m) (auto simp: distinct_update)

lemma addresses_updates: "action_addresses actions = update_all (concat (map mentions actions)) []"
proof -
  have "fold (\<lambda>action addressMap. add_entity (an_to action) (an_recipient_type action) (an_timestamp action)
     (add_entity (an_from action) (an_caller_type action) (an_timestamp action) addressMap)) actions m =
     update_all (concat (map mentions actions)) m" for m
    by (induction actions arbitrary: m) (auto simp: update_all_append add_entity_def mentions_def split: option.split)
  then show ?thesis by (simp add: action_addresses_def)
qed

lemma addresses_last: "map_of (action_addresses actions) = last_mention actions"
  by (simp add: addresses_updates update_all_map last_mention_def fun_eq_iff)

lemma addresses_distinct: "distinct (map fst (action_addresses actions))"
  by (simp add: addresses_updates update_all_distinct)

lemma traced_accounts: "e \<in> set (map snd (action_addresses actions)) \<longleftrightarrow> (\<exists>a. last_mention actions a = Some e)"
proof -
  have "(\<exists>a. last_mention actions a = Some e) \<longleftrightarrow> (\<exists>a. (a, e) \<in> set (action_addresses actions))"
    using map_of_eq_Some_iff [OF addresses_distinct [of actions]] by (simp add: addresses_last)
  then show ?thesis by force
qed

lemma prestate_updates: "prestate_result m es = update_all (List.map_filter (prestate_of m) es) []"
  by (simp add: prestate_result_def update_all_def foldl_conv_fold case_prod_unfold)

lemma map_filter_mset: "mset xs = mset ys \<Longrightarrow> mset (List.map_filter f xs) = mset (List.map_filter f ys)"
  by (metis map_filter_def mset_filter mset_map)

text \<open>The keys of the result, and their states, for any order in which the queries end.\<close>

lemma prestate_result_members:
  assumes "mset finished = mset es" and "distinct (map fst (List.map_filter (prestate_of m) es))"
  shows "map_of (prestate_result m finished) evm = Some st \<longleftrightarrow> (\<exists>e \<in> set es. prestate_of m e = Some (evm, st))"
proof -
  have same: "mset (List.map_filter (prestate_of m) finished) = mset (List.map_filter (prestate_of m) es)"
    using assms(1) by (rule map_filter_mset)
  then have "distinct (map fst (rev (List.map_filter (prestate_of m) finished)))"
    using assms(2) by (metis distinct_rev mset_eq_imp_distinct_iff mset_map rev_map)
  then have "map_of (rev (List.map_filter (prestate_of m) finished)) evm = Some st \<longleftrightarrow>
      (evm, st) \<in> set (List.map_filter (prestate_of m) es)"
    using mset_eq_setD [OF same] by (simp add: map_of_eq_Some_iff)
  also have "\<dots> \<longleftrightarrow> (\<exists>e \<in> set es. prestate_of m e = Some (evm, st))"
    by (force simp: map_filter_def)
  finally show ?thesis by (simp add: prestate_updates update_all_map)
qed


lemma last_mention_address: "last_mention actions a = Some e \<Longrightarrow> ae_address e = a"
  by (auto simp: last_mention_def mentions_def dest!: map_of_SomeD split: option.splits if_splits)

lemma accounts_distinct: "distinct (map snd (action_addresses actions))"
proof -
  have "ae_address e = a" if "(a, e) \<in> set (action_addresses actions)" for a e
    using that addresses_distinct [of actions] last_mention_address [of actions a e] by (simp add: addresses_last [symmetric])
  then have "map ae_address (map snd (action_addresses actions)) = map fst (action_addresses actions)" by auto
  then show ?thesis using addresses_distinct [of actions] by (metis distinct_map)
qed

lemma distinct_map_filter:
  "distinct es \<Longrightarrow> (\<And>d e k x y. d \<in> set es \<Longrightarrow> e \<in> set es \<Longrightarrow> f d = Some (k, x) \<Longrightarrow> f e = Some (k, y) \<Longrightarrow> d = e) \<Longrightarrow>
     distinct (map fst (List.map_filter f es))"
proof (induction es)
  case (Cons d es)
  have rest: "distinct (map fst (List.map_filter f es))" using Cons.prems by (intro Cons.IH) auto
  show ?case
  proof (cases "f d")
    case (Some kx)
    have "fst kx \<notin> set (map fst (List.map_filter f es))"
    proof
      assume "fst kx \<in> set (map fst (List.map_filter f es))"
      then obtain e y where "e \<in> set es" "f e = Some (fst kx, y)" by (force simp: map_filter_def)
      then have "d = e" using Cons.prems(2) [of d e "fst kx" "snd kx" y] Some by simp
      then show False using Cons.prems(1) \<open>e \<in> set es\<close> by simp
    qed
    then show ?thesis using rest Some by (simp add: List.map_filter_simps)
  qed (use rest in \<open>simp add: List.map_filter_simps\<close>)
qed (simp add: List.map_filter_simps)

lemma prestate_run:
  assumes "dm_getActions m h = Inr (Some (b # bs))" and "c_get client now (prestate_key h only_top) s = (s1, Inr v)" and "\<not> truthy v"
    and "acts = (if only_top then filter (\<lambda>a. an_call_depth a = 0) (b # bs) else b # bs)"
    and "result = JObject (prestate_result m (finish_order (map snd (action_addresses acts))))"
  shows "action_addresses acts = [] \<Longrightarrow> prestateTracer client now m finish_order h only_top s = (s1, Inr (PrestateTrace (JObject [])))"
    and "action_addresses acts \<noteq> [] \<Longrightarrow> c_set client now (prestate_key h only_top) result None s1 = (s2, Inr ()) \<Longrightarrow>
      prestateTracer client now m finish_order h only_top s = (s2, Inr (PrestateTrace result))"
  unfolding assms(4,5) prestateTracer_def Let_def by (simp_all add: io_then_apply io_cache_def other_error_def assms(1-3))



text \<open>
  Two names of one entity, of which the account was still without a balance when the second was last used: the state that is reported is the
  one whose query ended last.
\<close>

definition entity_mirror :: "debug_mirror \<Rightarrow> debug_mirror" where
  "entity_mirror m = m\<lparr>dm_resolveEntityAt := (\<lambda>a type t. Inr (if type = TYPE_ACCOUNT then Some
     \<lparr>te_type = TYPE_ACCOUNT, te_evm_address = Some ''0xee'', te_contract_id = [], te_nonce = JUndefined, te_runtime_bytecode = JUndefined,
       te_balance = (if t = ''1.0'' then None else Some 10), te_ethereum_nonce = JNumV 1\<rparr> else None))\<rparr>"

definition entity_at :: "string \<Rightarrow> string \<Rightarrow> account_entity" where
  "entity_at a t = \<lparr>ae_address = a, ae_type = TYPE_ACCOUNT, ae_timestamp = t\<rparr>"

lemma entity_prestate:
  "prestate_of (entity_mirror m) (entity_at a t) =
     Some (''0xee'', prestate_object (balance_hex (if t = ''1.0'' then None else Some 10)) (JNumV 1) (JString ''0x'') [])"
  by (simp add: prestate_of_def entity_mirror_def entity_at_def TYPE_ACCOUNT_def TYPE_CONTRACT_def)

lemma prestate_race:
  fixes m :: debug_mirror
  defines "d \<equiv> entity_at ''0xa1'' ''1.0''" and "e \<equiv> entity_at ''0xb2'' ''2.0''"
  shows "map_of (prestate_result (entity_mirror m) [d, e]) ''0xee'' \<noteq> map_of (prestate_result (entity_mirror m) [e, d]) ''0xee''"
proof -
  have "numberTo0x 10 = ''0xa''" by code_simp
  then show ?thesis
    by (simp add: prestate_updates map_filter_simps entity_prestate d_def e_def prestate_object_def balance_hex_def)
qed

section \<open>The traces of a block\<close>

lemma io_map_pure: "(\<And>x. x \<in> set xs \<Longrightarrow> f x w = (w, Inr (g x))) \<Longrightarrow> io_map f xs w = (w, Inr (map g xs))"
  by (induction xs) (simp_all add: io_then_apply)

lemma traces_returned:
  assumes "\<And>h. h \<in> set hs \<Longrightarrow> f h = Inr (t h)"
  shows "io_map (\<lambda>h w. (w, map_sum id (Pair h) (f h))) hs s = (s, Inr (map (\<lambda>h. (h, t h)) hs))"
  by (rule io_map_pure) (simp add: assms)

lemma io_map_fails:
  assumes "\<And>x. \<exists>r. f x w = (w, r)" and "h \<in> set xs" and "f h w = (w, Inl e)"
  shows "\<exists>e'. io_map f xs w = (w, Inl e')"
  using assms(2)
proof (induction xs)
  case (Cons x xs)
  obtain r where r: "f x w = (w, r)" using assms(1) by blast
  show ?case
  proof (cases r)
    case (Inr y)
    then have "h \<in> set xs" using Cons.prems assms(3) r by auto
    then show ?thesis using Cons.IH Inr r by (auto simp: io_then_apply)
  qed (simp add: r io_then_apply)
qed simp

lemma traces_fail:
  assumes "h \<in> set hs" and "f h = Inl e"
  shows "\<exists>e'. io_map (\<lambda>h w. (w, map_sum id (Pair h) (f h))) hs s = (s, Inl e')"
  by (rule io_map_fails [OF _ assms(1)]) (simp_all add: assms(2))

text \<open>What the two queries for a block answer.\<close>

definition block_answers :: "debug_mirror \<Rightarrow> block \<Rightarrow> contract_result list \<Rightarrow> mirror_log list \<Rightarrow> bool" where
  "block_answers m b results ls \<longleftrightarrow>
     bm_getContractResultsWithRetry (xm_block (dm_tx m)) [''gte:'' @ bk_from b, ''lte:'' @ bk_to b] = Inr (Some results) \<and>
     mn_getContractResultsLogsWithRetry (bm_common (xm_block (dm_tx m)))
       \<lparr>lq_timestamp = [''gte:'' @ bk_from b, ''lte:'' @ bk_to b], lq_topics = []\<rparr> = Inr (Some ls)"

text \<open>The transactions to be traced.\<close>

definition traced_hashes :: "contract_result list \<Rightarrow> mirror_log list \<Rightarrow> string set" where
  "traced_hashes results ls = cr_hash ` {r \<in> set results. cr_result r \<noteq> ''WRONG_NONCE''} \<union> (ml_transaction_hash ` set ls - {[]})"

lemma all_hashes:
  assumes "block_answers m b results ls"
  shows "\<exists>hs. getAllTransactionHashesFromBlock m b = Inr hs \<and> distinct hs \<and> set hs = traced_hashes results ls"
  using assms by (auto simp: getAllTransactionHashesFromBlock_def block_answers_def traced_hashes_def)

lemma trace_one: "io_then (io_pure r) (\<lambda>x. io_return (h, x)) = (\<lambda>w. (w, map_sum id (Pair h) r))"
  by (auto simp: io_then_apply split: sum.split)

lemma trace_block_run:
  assumes "dc_enabled cfg" and "js_get tracerObject ''tracer'' \<in> {JUndefined, JString ''callTracer''}"
    and "getHistoricalBlockResponse (bm_common (xm_block (dm_tx m))) (dc_maxBlockRange cfg) (Tag n) True = Inr (Some b)"
    and "getAllTransactionHashesFromBlock m b = Inr hs"
  shows "traceBlockByNumber client now cfg m finish_order n tracerObject s =
    io_generic (io_map (\<lambda>h w. (w, map_sum id (Pair h) (callTracer m h (truthy (js_get (js_get tracerObject ''tracerConfig'') ''onlyTopCall''))))) hs) s"
  using assms by (auto simp: traceBlockByNumber_def io_generic_def io_catch_apply io_then_apply requireDebugAPIEnabled_def or_else_def nullish_def trace_one)

text \<open>C35: A traced block has one trace for every transaction. When the block and its parts are found and the call tracer has a trace for each of
  its transactions, the answer pairs each of their hashes with that trace, no hash twice: the transactions are those with a result other than
  WRONG_NONCE and those that left a log.\<close>

theorem block_traces_complete:
  assumes "dc_enabled cfg" and "js_get tracerObject ''tracer'' \<in> {JUndefined, JString ''callTracer''}"
    and "getHistoricalBlockResponse (bm_common (xm_block (dm_tx m))) (dc_maxBlockRange cfg) (Tag n) True = Inr (Some b)"
    and "block_answers m b results ls"
    and "\<And>h. h \<in> traced_hashes results ls \<Longrightarrow>
      callTracer m h (truthy (js_get (js_get tracerObject ''tracerConfig'') ''onlyTopCall'')) = Inr (trace_of h)"
  shows "\<exists>hs. traceBlockByNumber client now cfg m finish_order n tracerObject s = (s, Inr (map (\<lambda>h. (h, trace_of h)) hs)) \<and>
     distinct hs \<and> set hs = traced_hashes results ls"
proof -
  obtain hs where hs: "getAllTransactionHashesFromBlock m b = Inr hs" "distinct hs" "set hs = traced_hashes results ls"
    using all_hashes [OF assms(4)] by blast
  then have "io_map (\<lambda>h w. (w, map_sum id (Pair h) (callTracer m h (truthy (js_get (js_get tracerObject ''tracerConfig'') ''onlyTopCall''))))) hs s =
      (s, Inr (map (\<lambda>h. (h, trace_of h)) hs))"
    using assms(5) by (intro traces_returned) blast
  then show ?thesis using hs(2,3) by (auto simp: trace_block_run [OF assms(1-3) hs(1)] io_generic_def io_catch_apply intro!: exI [of _ hs])
qed

text \<open>
  A result that cannot be traced, one without actions and logs, fails the traces of the whole block. The block of the same transactions leaves out
  more results than those with a wrong nonce.
\<close>

lemma untraced_result_fails_block:
  assumes "dc_enabled cfg" and "js_get tracerObject ''tracer'' \<in> {JUndefined, JString ''callTracer''}"
    and "getHistoricalBlockResponse (bm_common (xm_block (dm_tx m))) (dc_maxBlockRange cfg) (Tag n) True = Inr (Some b)"
    and "block_answers m b results ls" and "r \<in> set results" and "cr_result r \<noteq> ''WRONG_NONCE''"
    and "dm_getActions m (cr_hash r) = Inr (Some [])" and "dm_getContractResult m (cr_hash r) = Inr (Some r)"
    and "logs_of_transaction (dm_tx m) (cr_hash r) = Inr []"
  shows "\<exists>e. traceBlockByNumber client now cfg m finish_order n tracerObject s = (s, Inl e)"
proof -
  let ?f = "\<lambda>h. callTracer m h (truthy (js_get (js_get tracerObject ''tracerConfig'') ''onlyTopCall''))"
  obtain hs where hs: "getAllTransactionHashesFromBlock m b = Inr hs" "set hs = traced_hashes results ls"
    using all_hashes [OF assms(4)] by blast
  have member: "cr_hash r \<in> set hs" using hs(2) assms(5,6) by (auto simp: traced_hashes_def)
  have "\<exists>e. callTracer m (cr_hash r) only = Inl e" for only
    using assms(7-9) by (simp add: callTracer_def generic_errors_def handleSyntheticTransaction_def)
  then obtain e where "?f (cr_hash r) = Inl e" by blast
  then have "\<exists>e'. io_map (\<lambda>h w. (w, map_sum id (Pair h) (?f h))) hs s = (s, Inl e')"
    by (rule traces_fail [OF member])
  then obtain e' where "io_map (\<lambda>h w. (w, map_sum id (Pair h) (?f h))) hs s = (s, Inl e')" ..
  then show ?thesis by (auto simp: trace_block_run [OF assms(1-3) hs(1)] io_generic_def io_catch_apply)
qed


text \<open>
  The calls below the first one are the formatted actions after the first, and only a failed transaction has an error.
\<close>

lemma formatted_actions:
  assumes "formatActionsResult m actions = Inr frames"
  shows "length frames = length actions \<and> (\<forall>i < length actions. format_action m (i, actions ! i) = Inr (frames ! i))"
proof -
  have "length frames = length xs \<and> (\<forall>i < length xs. f (xs ! i) = Inr (frames ! i))" if "res_map f xs = Inr frames" for f :: "nat \<times> trace_action \<Rightarrow> thrown + call_frame" and xs
    using that by (induction xs arbitrary: frames) (auto simp: res_bind_eq_Inr nth_Cons split: nat.split)
  from this [OF assms [unfolded formatActionsResult_def]] show ?thesis by (simp add: nth_enumerate_eq)
qed

lemma call_trace_calls:
  assumes "dm_getActions m h = Inr (Some (a # as))" and "an_call_type a = Some type" and "type \<noteq> []"
    and "dm_getContractResult m h = Inr (Some r)" and "callTracer m h only = Inr t"
  shows "\<exists>c. t = CallTrace c \<and> (ct_failure c = None \<longleftrightarrow> cr_result r = ''SUCCESS'') \<and>
    (if only then ct_calls c = []
     else length (ct_calls c) = length as \<and> (\<forall>i < length as. format_action m (Suc i, as ! i) = Inr (ct_calls c ! i)))"
proof -
  have "top_call m only type (a # as) r = Inr t"
    using assms by (auto simp: callTracer_def generic_errors_def split: sum.splits)
  then obtain frames where "formatActionsResult m (a # as) = Inr frames"
    and c: "\<exists>c. t = CallTrace c \<and> (ct_failure c = None \<longleftrightarrow> cr_result r = ''SUCCESS'') \<and> ct_calls c = (if only \<or> as = [] then [] else drop 1 frames)"
    by (auto simp: top_call_def res_bind_eq_Inr Let_def)
  note formatted_actions [OF this(1)]
  then have calls: "length (drop 1 frames) = length as" "\<forall>i < length as. format_action m (Suc i, as ! i) = Inr (drop 1 frames ! i)"
    by (auto simp: nth_Cons)
  then have "as = [] \<Longrightarrow> drop 1 frames = []" by simp
  then obtain c' where "t = CallTrace c'" "ct_failure c' = None \<longleftrightarrow> cr_result r = ''SUCCESS''"
      "ct_calls c' = (if only then [] else drop 1 frames)"
    using c by (cases "as = []") auto
  with calls show ?thesis by (cases only) simp_all
qed


text \<open>A block with a result and a transaction that left a log only; the result has two actions, and the second names an account.\<close>

definition sample_action :: "int \<Rightarrow> string \<Rightarrow> trace_action" where
  "sample_action depth to = \<lparr>an_call_depth = depth, an_call_type = Some ''CALL'', an_call_operation_type = ''CALL'', an_caller_type = TYPE_CONTRACT,
     an_recipient_type = TYPE_ACCOUNT, an_from = None, an_to = Some to, an_gas = 10, an_gas_used = 5, an_input = None, an_result_data = None,
     an_value = 0, an_timestamp = ''21.0''\<rparr>"

definition sample_tx_mirror :: tx_mirror where
  "sample_tx_mirror = \<lparr>xm_block = sample_block_mirror, xm_getContractResult = (\<lambda>_. Inr None), xm_getContractResultsOf = (\<lambda>_ _. Inr None),
     xm_getLogsOfTransaction = (\<lambda>_. Inr (Some [sample_log ''21.0'']))\<rparr>"

definition sample_debug_mirror :: debug_mirror where
  "sample_debug_mirror = entity_mirror \<lparr>dm_tx = sample_tx_mirror, dm_getContractResult = (\<lambda>h. Inr (if h = ''0xee'' then Some (sample_result ''0xee'') else None)),
     dm_getActions = (\<lambda>h. Inr (if h = ''0xee'' then Some [sample_action 0 ''0xc1'', sample_action 1 ''0xa1''] else None)),
     dm_getOpcodes = (\<lambda>_ _. Inr None), dm_getContract = (\<lambda>_. Inr None), dm_resolveEntityAt = (\<lambda>_ _ _. Inr None),
     dm_getBalancesAt = (\<lambda>_ _. Inr None), dm_getContractState = (\<lambda>_ _. Inr [])\<rparr>"

definition debug_on :: debug_config where
  "debug_on = \<lparr>dc_enabled = True, dc_opcodeLoggerEnabled = True, dc_maxBlockRange = 5\<rparr>"

lemma sample_mentions:
  "last_mention (filter (\<lambda>a. an_call_depth a = 0) [sample_action 0 ''0xc1'', sample_action 1 ''0xa1'']) a =
     (if a = ''0xc1'' then Some (entity_at ''0xc1'' ''21.0'') else None)"
  by (simp add: last_mention_def mentions_def sample_action_def entity_at_def)


lemma sample_debug_parts:
  "dm_tx sample_debug_mirror = sample_tx_mirror" "dm_getActions sample_debug_mirror ''0xcd'' = Inr None"
  "dm_getActions sample_debug_mirror ''0xee'' = Inr (Some [sample_action 0 ''0xc1'', sample_action 1 ''0xa1''])"
  "dm_getContractResult sample_debug_mirror h = Inr (if h = ''0xee'' then Some (sample_result ''0xee'') else None)"
  "xm_block sample_tx_mirror = sample_block_mirror" "xm_getLogsOfTransaction sample_tx_mirror h = Inr (Some [sample_log ''21.0''])"
  "bm_resolveEntityType sample_block_mirror a types = Inr None"
  by (simp_all add: sample_debug_mirror_def entity_mirror_def sample_tx_mirror_def sample_block_mirror_def)

lemma debug_resolved: "resolveMultipleAddresses sample_debug_mirror a b = Inr (a, b)"
proof -
  have "resolveAddress sample_debug_mirror a types = Inr a" for a types
    by (simp add: resolveAddress_def sample_debug_parts split: option.split)
  then show ?thesis by (simp add: resolveMultipleAddresses_def)
qed

lemma no_weibars: "weibar_hex (Some 0) = Inr (numberTo0x 0)"
  by (simp add: weibar_hex_def tinybarsToWeibars_def TOTAL_SUPPLY_TINYBARS_def)

lemma sample_traces:
  assumes "h \<in> {''0xee'', ''0xcd''}"
  shows "\<exists>t. callTracer sample_debug_mirror h False = Inr t"
proof (cases "h = ''0xee''")
  case True
  have "created_code sample_debug_mirror i (sample_action d a) = Inr None" for i d a
    by (simp add: created_code_def sample_action_def)
  then have "\<exists>f. format_action sample_debug_mirror (i, sample_action d a) = Inr f" for i d a
    by (simp add: format_action_def debug_resolved no_weibars sample_action_def)
  then obtain f g where "format_action sample_debug_mirror (0, sample_action 0 ''0xc1'') = Inr f"
      "format_action sample_debug_mirror (Suc 0, sample_action 1 ''0xa1'') = Inr g" by metis
  then show ?thesis using True
    by (simp add: callTracer_def generic_errors_def sample_debug_parts top_call_def formatActionsResult_def debug_resolved no_weibars
        sample_action_def [of 0] sample_result_def number_field_def)
next
  case False
  then have "h = ''0xcd''" using assms by simp
  then show ?thesis
    by (simp add: callTracer_def generic_errors_def sample_debug_parts handleSyntheticTransaction_def logs_of_transaction_def
        synthetic_trace_def debug_resolved sample_log_def Log_of_def)
qed

theorem block_traces_complete_witness:
  "\<exists>hs t. traceBlockByNumber no_cache 0 debug_on sample_debug_mirror rev ''latest'' JUndefined 0 = (0, Inr (map (\<lambda>h. (h, t h)) hs)) \<and>
     distinct hs \<and> set hs = {''0xee'', ''0xcd''}"
proof -
  have answers: "block_answers sample_debug_mirror (sample_block 2 ''20.0'' ''29.9'') [sample_result ''0xee''] [sample_log ''21.0'']"
    by (simp add: block_answers_def sample_debug_parts sample_block_mirror_def)
  have hashes: "traced_hashes [sample_result ''0xee''] [sample_log ''21.0''] = {''0xee'', ''0xcd''}"
  proof -
    have "cr_result (sample_result h) = ''SUCCESS''" "cr_hash (sample_result h) = h" "ml_transaction_hash (sample_log u) = ''0xcd''" for h u
      by (simp_all add: sample_result_def sample_log_def)
    then have "{r \<in> set [sample_result ''0xee'']. cr_result r \<noteq> ''WRONG_NONCE''} = {sample_result ''0xee''}" by auto
    then show ?thesis unfolding traced_hashes_def by (simp add: sample_hashes sample_log_def insert_commute)
  qed
  obtain t where t: "h \<in> {''0xee'', ''0xcd''} \<Longrightarrow> callTracer sample_debug_mirror h False = Inr (t h)" for h
    using sample_traces by metis
  have tracer: "js_get JUndefined ''tracer'' \<in> {JUndefined, JString ''callTracer''}"
    and config: "truthy (js_get (js_get JUndefined ''tracerConfig'') ''onlyTopCall'') = False"
    by (simp_all add: js_get_def)
  have block: "getHistoricalBlockResponse (bm_common (xm_block (dm_tx sample_debug_mirror))) (dc_maxBlockRange debug_on) (Tag ''latest'') True =
      Inr (Some (sample_block 2 ''20.0'' ''29.9''))"
    using sample_block_two by (simp add: sample_debug_parts debug_on_def)
  have "dc_enabled debug_on" by (simp add: debug_on_def)
  from block_traces_complete [OF this tracer block answers, of t no_cache 0 rev 0] t show ?thesis
    unfolding hashes config by blast
qed

end
