(* ===== verification/Config.thy ===== *)
theory Config
  imports Prelude "HOL-Library.AList"
begin

text \<open>
  The configuration service (\<open>packages/config-service/src/services/\<close>): the table of the environment variables, their checks at start-up, their
  casts, what the relay gets to see of them and how they are printed. JavaScript's numbers are rationals, rounded to the nearest double, and its
  \<open>Number\<close> and \<open>JSON.parse\<close> are defined on texts of Latin-1 characters.
\<close>

section \<open>Numbers\<close>

datatype js_num = NumNaN | NumInf bool | Num rat

definition scale2 :: "rat \<Rightarrow> int \<Rightarrow> rat" where
  "scale2 q k = (if 0 \<le> k then q * 2 ^ nat k else q / 2 ^ nat (- k))"

definition round_half_even :: "rat \<Rightarrow> int" where
  "round_half_even q = (let f = \<lfloor>q\<rfloor>; r = q - of_int f in if r < 1 / 2 \<or> (r = 1 / 2 \<and> even f) then f else f + 1)"

text \<open>The nearest double of a positive rational: 53 bits of significand, an exponent of at least -1074.\<close>

definition double_of_pos :: "rat \<Rightarrow> rat" where
  "double_of_pos q =
     (let (n, d) = quotient_of q;
          k0 = 53 - (int (floorlog 2 (nat n)) - int (floorlog 2 (nat d)));
          k = min 1074 (if scale2 q k0 < 2 ^ 53 then k0 else k0 - 1)
      in scale2 (of_int (round_half_even (scale2 q k))) (- k))"

definition number_of_rat :: "rat \<Rightarrow> js_num" where
  "number_of_rat q = (if q = 0 then Num 0
     else let d = double_of_pos \<bar>q\<bar> in if 2 ^ 1024 \<le> d then NumInf (0 < q) else Num (if 0 < q then d else - d))"

section \<open>Reading numbers\<close>

text \<open>A decimal literal: its digits, the digits after the point, and the exponent.\<close>

type_synonym decimal = "string \<times> string option \<times> int option"

definition scan_exponent :: "string \<Rightarrow> int option \<times> string" where
  "scan_exponent s = (case s of
     c # r \<Rightarrow> if c = CHR ''e'' \<or> c = CHR ''E''
       then (let neg = startsWith r ''-''; t = (if neg \<or> startsWith r ''+'' then drop 1 r else r); ds = takeWhile (is_digit_in 10) t
             in if ds = [] then (None, s)
                else (Some (if neg then - int (radix_val 10 ds) else int (radix_val 10 ds)), dropWhile (is_digit_in 10) t))
       else (None, s)
   | [] \<Rightarrow> (None, s))"

definition scan_decimal :: "string \<Rightarrow> decimal \<times> string" where
  "scan_decimal s =
     (let r = dropWhile (is_digit_in 10) s;
          (f, t) = (case r of c # u \<Rightarrow> if c = CHR ''.'' then (Some (takeWhile (is_digit_in 10) u), dropWhile (is_digit_in 10) u) else (None, r)
                    | [] \<Rightarrow> (None, r));
          (e, rest) = scan_exponent t
      in ((takeWhile (is_digit_in 10) s, f, e), rest))"

fun decimal_value :: "decimal \<Rightarrow> rat" where
  "decimal_value (w, f, e) =
     (let fs = (case f of Some x \<Rightarrow> x | None \<Rightarrow> []); k = (case e of Some n \<Rightarrow> n | None \<Rightarrow> 0) - int (length fs); m = of_nat (radix_val 10 (w @ fs))
      in if 0 \<le> k then m * 10 ^ nat k else m / 10 ^ nat (- k))"

definition signed :: "bool \<Rightarrow> rat \<Rightarrow> rat" where
  "signed neg q = (if neg then - q else q)"

text \<open>\<open>Number(s)\<close>; a negative zero is zero.\<close>

definition Number_decimal :: "string \<Rightarrow> js_num" where
  "Number_decimal t =
     (let neg = startsWith t ''-''; u = (if neg \<or> startsWith t ''+'' then drop 1 t else t)
      in if u = ''Infinity'' then NumInf (\<not> neg)
         else case scan_decimal u of ((w, f, e), rest) \<Rightarrow>
           if rest = [] \<and> (w \<noteq> [] \<or> f \<notin> {None, Some []}) then number_of_rat (signed neg (decimal_value (w, f, e))) else NumNaN)"

definition Number_text :: "string \<Rightarrow> js_num" where
  "Number_text s = (case BigInt_str s of
     Some n \<Rightarrow> Num (of_int (double_of_int n)) | None \<Rightarrow> Number_decimal (trim s))"

section \<open>Reading JSON\<close>

datatype cval = CUndefined | CNull | CBool bool | CNum js_num | CStr string | CArr "cval list" | CObj "(string \<times> cval) list"

abbreviation number_of :: "rat \<Rightarrow> cval" where
  "number_of q \<equiv> CNum (number_of_rat q)"

datatype json_token = TValue cval | TArrayOpen | TArrayClose | TObjectOpen | TObjectClose | TComma | TColon

definition DOUBLE_QUOTE :: char where "DOUBLE_QUOTE = CHR 0x22"
definition BACKSLASH :: char where "BACKSLASH = CHR 0x5C"

fun json_escape :: "char \<Rightarrow> char option" where
  "json_escape c =
     (if c = DOUBLE_QUOTE \<or> c = BACKSLASH \<or> c = CHR ''/'' then Some c
      else if c = CHR ''b'' then Some (CHR 0x08) else if c = CHR ''f'' then Some (CHR 0x0C)
      else if c = CHR ''n'' then Some (CHR 0x0A) else if c = CHR ''r'' then Some (CHR 0x0D)
      else if c = CHR ''t'' then Some (CHR 0x09) else None)"

text \<open>The rest of a string literal; the characters read are in reverse order.\<close>

fun json_string :: "string \<Rightarrow> string \<Rightarrow> (string \<times> string) option" where
  "json_string acc [] = None"
| "json_string acc (c # s) =
     (if c = DOUBLE_QUOTE then Some (rev acc, s)
      else if c = BACKSLASH
      then (case s of
          e # r \<Rightarrow> if e = CHR ''u''
            then (case r of
                h1 # h2 # h3 # h4 # t \<Rightarrow> if list_all (is_digit_in 16) [h1, h2, h3, h4]
                  then json_string (char_of (radix_val 16 [h1, h2, h3, h4]) # acc) t else None
              | _ \<Rightarrow> None)
            else (case json_escape e of Some x \<Rightarrow> json_string (x # acc) r | None \<Rightarrow> None)
        | [] \<Rightarrow> None)
      else if (of_char c :: nat) < 32 then None else json_string (c # acc) s)"

text \<open>A number has no leading zeros and has digits on both sides of its point.\<close>

definition json_number :: "string \<Rightarrow> (cval \<times> string) option" where
  "json_number s =
     (let neg = startsWith s ''-''; u = (if neg then drop 1 s else s)
      in case scan_decimal u of ((w, f, e), rest) \<Rightarrow>
        if w = [] \<or> (hd w = CHR ''0'' \<and> length w > 1) \<or> f = Some [] then None
        else Some (number_of (signed neg (decimal_value (w, f, e))), rest))"

definition json_token :: "char \<Rightarrow> string \<Rightarrow> (json_token \<times> string) option" where
  "json_token c s =
     (if c = CHR ''['' then Some (TArrayOpen, s) else if c = CHR '']'' then Some (TArrayClose, s)
      else if c = CHR ''{'' then Some (TObjectOpen, s) else if c = CHR ''}'' then Some (TObjectClose, s)
      else if c = CHR '','' then Some (TComma, s) else if c = CHR '':'' then Some (TColon, s)
      else if c = DOUBLE_QUOTE then map_option (\<lambda>(t, r). (TValue (CStr t), r)) (json_string [] s)
      else if startsWith (c # s) ''true'' then Some (TValue (CBool True), drop 3 s)
      else if startsWith (c # s) ''false'' then Some (TValue (CBool False), drop 4 s)
      else if startsWith (c # s) ''null'' then Some (TValue CNull, drop 3 s)
      else map_option (\<lambda>(v, r). (TValue v, r)) (json_number (c # s)))"

function json_tokens :: "string \<Rightarrow> json_token list option" where
  "json_tokens [] = Some []"
| "json_tokens (c # s) =
     (if (of_char c :: nat) \<in> {9, 10, 13, 32} then json_tokens s
      else case json_token c s of
        None \<Rightarrow> None
      | Some (t, r) \<Rightarrow> if length r \<le> length s then map_option (Cons t) (json_tokens r) else None)"
  by pat_completeness auto
termination by (relation "measure length") auto

datatype json_expect = WantValue | WantValueOrEnd | WantKeyOrEnd | WantKey | WantColon | WantSeparator | Finished cval

datatype json_frame = InArray "cval list" | InObject "(string \<times> cval) list" string

fun json_put :: "cval \<Rightarrow> json_frame list \<Rightarrow> json_expect \<times> json_frame list" where
  "json_put v [] = (Finished v, [])"
| "json_put v (InArray vs # fs) = (WantSeparator, InArray (vs @ [v]) # fs)"
| "json_put v (InObject kvs k # fs) = (WantSeparator, InObject (AList.update k v kvs) k # fs)"

fun json_begin :: "json_token \<Rightarrow> json_frame list \<Rightarrow> (json_expect \<times> json_frame list) option" where
  "json_begin (TValue v) fs = Some (json_put v fs)"
| "json_begin TArrayOpen fs = Some (WantValueOrEnd, InArray [] # fs)"
| "json_begin TObjectOpen fs = Some (WantKeyOrEnd, InObject [] [] # fs)"
| "json_begin _ fs = None"

fun json_close_array :: "json_frame list \<Rightarrow> (json_expect \<times> json_frame list) option" where
  "json_close_array (InArray vs # fs) = Some (json_put (CArr vs) fs)"
| "json_close_array _ = None"

fun json_close_object :: "json_frame list \<Rightarrow> (json_expect \<times> json_frame list) option" where
  "json_close_object (InObject kvs k # fs) = Some (json_put (CObj kvs) fs)"
| "json_close_object _ = None"

fun json_key :: "json_token \<Rightarrow> json_frame list \<Rightarrow> (json_expect \<times> json_frame list) option" where
  "json_key (TValue (CStr k)) (InObject kvs _ # fs) = Some (WantColon, InObject kvs k # fs)"
| "json_key _ _ = None"

fun json_next :: "json_frame list \<Rightarrow> (json_expect \<times> json_frame list) option" where
  "json_next (InArray vs # fs) = Some (WantValue, InArray vs # fs)"
| "json_next (InObject kvs k # fs) = Some (WantKey, InObject kvs k # fs)"
| "json_next [] = None"

fun json_step :: "json_token \<Rightarrow> json_expect \<times> json_frame list \<Rightarrow> (json_expect \<times> json_frame list) option" where
  "json_step t (WantValue, fs) = json_begin t fs"
| "json_step t (WantValueOrEnd, fs) = (if t = TArrayClose then json_close_array fs else json_begin t fs)"
| "json_step t (WantKeyOrEnd, fs) = (if t = TObjectClose then json_close_object fs else json_key t fs)"
| "json_step t (WantKey, fs) = json_key t fs"
| "json_step t (WantColon, fs) = (if t = TColon then Some (WantValue, fs) else None)"
| "json_step t (WantSeparator, fs) =
     (if t = TComma then json_next fs else if t = TArrayClose then json_close_array fs
      else if t = TObjectClose then json_close_object fs else None)"
| "json_step t (Finished v, fs) = None"

fun json_run :: "json_token list \<Rightarrow> json_expect \<times> json_frame list \<Rightarrow> cval option" where
  "json_run [] (Finished v, []) = Some v"
| "json_run [] _ = None"
| "json_run (t # ts) st = (case json_step t st of Some st' \<Rightarrow> json_run ts st' | None \<Rightarrow> None)"

text \<open>\<open>JSON.parse(s)\<close>, \<open>None\<close> for the SyntaxError.\<close>

definition JSON_parse :: "string \<Rightarrow> cval option" where
  "JSON_parse s = (case json_tokens s of Some ts \<Rightarrow> json_run ts (WantValue, []) | None \<Rightarrow> None)"

section \<open>The table\<close>

datatype config_type = StringT | NumberT | BooleanT | StrArrayT | NumArrayT

record config_property =
  cp_type :: config_type
  cp_required :: bool
  cp_defaultValue :: cval

definition config_property :: "config_type \<Rightarrow> bool \<Rightarrow> cval \<Rightarrow> config_property" where
  "config_property type required defaultValue = \<lparr>cp_type = type, cp_required = required, cp_defaultValue = defaultValue\<rparr>"

definition ENTRIES_1 :: "(string \<times> config_property) list" where
  "ENTRIES_1 = [
     (''BATCH_REQUESTS_DISALLOWED_METHODS'', config_property StrArrayT False (CArr [CStr ''debug_traceTransaction'', CStr ''debug_traceBlockByNumber'', CStr ''eth_newFilter'', CStr ''eth_uninstallFilter'', CStr ''eth_getFilterChanges'', CStr ''eth_getFilterLogs'', CStr ''eth_newBlockFilter'', CStr ''eth_newPendingTransactionFilter''])),
     (''BATCH_REQUESTS_ENABLED'', config_property BooleanT False (CBool True)),
     (''BATCH_REQUESTS_MAX_SIZE'', config_property NumberT False (number_of 100)),
     (''CACHE_MAX'', config_property NumberT False (number_of 1000)),
     (''CACHE_TTL'', config_property NumberT False (number_of 3600000)),
     (''CALL_DATA_SIZE_LIMIT'', config_property NumberT False (number_of 131072)),
     (''CHAIN_ID'', config_property StringT True (CStr ''0x12a'')),
     (''CLIENT_TRANSPORT_SECURITY'', config_property BooleanT False (CBool False)),
     (''CONSENSUS_MAX_EXECUTION_TIME'', config_property NumberT False (number_of 15000)),
     (''CONTRACT_CALL_GAS_LIMIT'', config_property NumberT False (number_of 50000000)),
     (''CONTRACT_QUERY_TIMEOUT_RETRIES'', config_property NumberT False (number_of 3)),
     (''DEBUG_API_ENABLED'', config_property BooleanT False (CBool False)),
     (''DEFAULT_RATE_LIMIT'', config_property NumberT False (number_of 200)),
     (''DISABLE_ADMIN_NAMESPACE'', config_property BooleanT False (CBool False)),
     (''E2E_RELAY_HOST'', config_property StringT False (CStr ''http://localhost:7546'')),
     (''E2E_SERVER_PORT'', config_property NumberT False (number_of 7546)),
     (''ENABLE_TX_POOL'', config_property BooleanT False (CBool False)),
     (''ETH_BLOCK_NUMBER_CACHE_TTL_MS'', config_property NumberT False (number_of 1000)),
     (''ETH_CALL_ACCEPTED_ERRORS'', config_property NumArrayT False (CArr [])),
     (''ETH_CALL_CACHE_TTL'', config_property NumberT False (number_of 200)),
     (''ETH_FEE_HISTORY_FIXED'', config_property BooleanT False (CBool True)),
     (''ETH_GET_BALANCE_CACHE_TTL_MS'', config_property NumberT False (number_of 1000)),
     (''ETH_GET_GAS_PRICE_CACHE_TTL_MS'', config_property NumberT False (number_of 1800000)),
     (''ETH_GET_LOGS_BLOCK_RANGE_LIMIT'', config_property NumberT False (number_of 1000)),
     (''ETH_GET_TRANSACTION_COUNT_CACHE_TTL'', config_property NumberT False (number_of 500)),
     (''ETH_GET_TRANSACTION_COUNT_MAX_BLOCK_RANGE'', config_property NumberT False (number_of 1000))]"

definition ENTRIES_2 :: "(string \<times> config_property) list" where
  "ENTRIES_2 = [
     (''HEDERA_SPECIFIC_REVERT_STATUSES'', config_property StrArrayT False (CArr [CStr ''WRONG_NONCE'', CStr ''INVALID_ACCOUNT_ID'', CStr ''SCHEDULE_FUTURE_THROTTLE_EXCEEDED'', CStr ''SCHEDULE_FUTURE_GAS_LIMIT_EXCEEDED'', CStr ''THROTTLED_AT_CONSENSUS'', CStr ''EVM_HOOK_GAS_THROTTLED'', CStr ''BUSY'', CStr ''CONSENSUS_GAS_EXHAUSTED''])),
     (''FEE_HISTORY_MAX_RESULTS'', config_property NumberT False (number_of 10)),
     (''FILE_APPEND_CHUNK_SIZE'', config_property NumberT False (number_of 5120)),
     (''FILE_APPEND_MAX_CHUNKS'', config_property NumberT False (number_of 20)),
     (''FILTER_API_ENABLED'', config_property BooleanT False (CBool True)),
     (''FILTER_TTL'', config_property NumberT False (number_of 300000)),
     (''GAS_PRICE_PERCENTAGE_BUFFER'', config_property NumberT False (number_of 0)),
     (''GAS_PRICE_TINY_BAR_BUFFER'', config_property NumberT False (number_of 10000000000)),
     (''GET_RECORD_DEFAULT_TO_CONSENSUS_NODE'', config_property BooleanT False (CBool False)),
     (''GH_ACCESS_TOKEN'', config_property StringT False CNull),
     (''GITHUB_PR_NUMBER'', config_property StringT False CNull),
     (''GITHUB_REPOSITORY'', config_property StringT False CNull),
     (''GITHUB_TOKEN'', config_property StringT False CNull),
     (''HAPI_CLIENT_DURATION_RESET'', config_property NumberT False (number_of 3600000)),
     (''HAPI_CLIENT_ERROR_RESET'', config_property NumArrayT False (CArr [number_of 21, number_of 50])),
     (''HAPI_CLIENT_TRANSACTION_RESET'', config_property NumberT False (number_of 50)),
     (''HBAR_RATE_LIMIT_BASIC'', config_property NumberT False (number_of 300000000)),
     (''HBAR_RATE_LIMIT_EXTENDED'', config_property NumberT False (number_of 100000000)),
     (''HBAR_RATE_LIMIT_PRIVILEGED'', config_property NumberT False (number_of 270000000)),
     (''HBAR_RATE_LIMIT_DURATION'', config_property NumberT False (number_of 86400000)),
     (''HBAR_RATE_LIMIT_TINYBAR'', config_property NumberT False (number_of 25000000000)),
     (''HEDERA_NETWORK'', config_property StringT True CNull),
     (''HBAR_SPENDING_PLANS_CONFIG'', config_property StringT False (CStr ''spendingPlansConfig.json'')),
     (''INITIAL_BALANCE'', config_property NumberT False (number_of 5000000000)),
     (''INPUT_SIZE_LIMIT'', config_property NumberT False (number_of 1)),
     (''JUMBO_TX_ENABLED'', config_property BooleanT False (CBool True)),
     (''LIMIT_DURATION'', config_property NumberT False (number_of 60000)),
     (''LOCAL_NODE'', config_property BooleanT False CNull)]"

definition ENTRIES_3 :: "(string \<times> config_property) list" where
  "ENTRIES_3 = [
     (''LOCAL_LOCK_MAX_ENTRIES'', config_property NumberT False (number_of 1000)),
     (''LOG_LEVEL'', config_property StringT False (CStr ''trace'')),
     (''PRETTY_LOGS_ENABLED'', config_property BooleanT False (CBool True)),
     (''MAX_BLOCK_RANGE'', config_property NumberT False (number_of 5)),
     (''MAX_TRANSACTION_FEE_THRESHOLD'', config_property NumberT False (number_of 15000000)),
     (''MAX_GAS_ALLOWANCE_HBAR'', config_property NumberT False (number_of 0)),
     (''MEMWATCH_ENABLED'', config_property BooleanT False CNull),
     (''MIRROR_NODE_AGENT_CACHEABLE_DNS'', config_property BooleanT False (CBool True)),
     (''MIRROR_NODE_CONTRACT_RESULTS_LOGS_PG_MAX'', config_property NumberT False (number_of 200)),
     (''MIRROR_NODE_CONTRACT_RESULTS_LOGS_BLOCK_RANGE_PG_MAX'', config_property NumberT False (number_of 500)),
     (''MIRROR_NODE_CONTRACT_RESULTS_PG_MAX'', config_property NumberT False (number_of 25)),
     (''MIRROR_NODE_HTTP_KEEP_ALIVE'', config_property BooleanT False (CBool True)),
     (''MIRROR_NODE_HTTP_KEEP_ALIVE_MSECS'', config_property NumberT False (number_of 1000)),
     (''MIRROR_NODE_HTTP_MAX_SOCKETS'', config_property NumberT False (number_of 300)),
     (''MIRROR_NODE_HTTP_MAX_TOTAL_SOCKETS'', config_property NumberT False (number_of 300)),
     (''MIRROR_NODE_HTTP_SOCKET_TIMEOUT'', config_property NumberT False (number_of 60000)),
     (''MIRROR_NODE_LIMIT_PARAM'', config_property NumberT False (number_of 100)),
     (''MIRROR_NODE_MAX_REDIRECTS'', config_property NumberT False (number_of 5)),
     (''MIRROR_NODE_RETRIES'', config_property NumberT False (number_of 0)),
     (''MIRROR_NODE_RETRY_CODES'', config_property StrArrayT False (CArr [])),
     (''MIRROR_NODE_RETRY_DELAY'', config_property NumberT False (number_of 2000)),
     (''MIRROR_NODE_REQUEST_RETRY_COUNT'', config_property NumberT False (number_of 10)),
     (''MIRROR_NODE_TIMEOUT'', config_property NumberT False (number_of 10000)),
     (''MIRROR_NODE_URL'', config_property StringT True CNull),
     (''MIRROR_NODE_URL_HEADER_X_API_KEY'', config_property StringT False CNull),
     (''MIRROR_NODE_URL_WEB3'', config_property StringT False CNull),
     (''npm_package_version'', config_property StringT True CNull),
     (''OPCODELOGGER_ENABLED'', config_property BooleanT False (CBool True)),
     (''OPERATOR_ID_MAIN'', config_property StringT False CNull)]"

definition ENTRIES_4 :: "(string \<times> config_property) list" where
  "ENTRIES_4 = [
     (''OPERATOR_KEY_FORMAT'', config_property StringT False CNull),
     (''OPERATOR_KEY_MAIN'', config_property StringT False CNull),
     (''PAYMASTER_ENABLED'', config_property BooleanT False (CBool False)),
     (''PAYMASTER_WHITELIST'', config_property StrArrayT False (CArr [])),
     (''RATE_LIMIT_DISABLED'', config_property BooleanT False (CBool False)),
     (''READ_ONLY'', config_property BooleanT False (CBool False)),
     (''REDIS_ENABLED'', config_property BooleanT False (CBool True)),
     (''IP_RATE_LIMIT_STORE'', config_property StringT False CNull),
     (''REDIS_RECONNECT_DELAY_MS'', config_property NumberT False (number_of 1000)),
     (''REDIS_URL'', config_property StringT False (CStr ''redis://127.0.0.1:6379'')),
     (''REQUEST_ID_IS_OPTIONAL'', config_property BooleanT False (CBool False)),
     (''SDK_LOG_LEVEL'', config_property StringT False (CStr ''silent'')),
     (''SDK_REQUEST_TIMEOUT'', config_property NumberT False (number_of 10000)),
     (''SEND_RAW_TRANSACTION_SIZE_LIMIT'', config_property NumberT False (number_of 133120)),
     (''SERVER_HOST'', config_property StringT False CNull),
     (''SERVER_PORT'', config_property NumberT False (number_of 7546)),
     (''SERVER_REQUEST_TIMEOUT_MS'', config_property NumberT False (number_of 60000)),
     (''SUBSCRIPTIONS_ENABLED'', config_property BooleanT False (CBool False)),
     (''TEST'', config_property BooleanT False CNull),
     (''TEST_GAS_PRICE_DEVIATION'', config_property NumberT False (number_of (1 / 5))),
     (''TEST_INITIAL_ACCOUNT_STARTING_BALANCE'', config_property NumberT False (number_of 2000)),
     (''TEST_TRANSACTION_RECORD_COST_TOLERANCE'', config_property NumberT False (number_of (1 / 50))),
     (''TEST_WS_SERVER'', config_property BooleanT False (CBool False)),
     (''PENDING_TRANSACTION_STORAGE_TTL'', config_property NumberT False (number_of 30)),
     (''TIER_1_RATE_LIMIT'', config_property NumberT False (number_of 100)),
     (''TIER_2_RATE_LIMIT'', config_property NumberT False (number_of 800)),
     (''TIER_3_RATE_LIMIT'', config_property NumberT False (number_of 1600)),
     (''TX_DEFAULT_GAS'', config_property NumberT False CNull),
     (''TXPOOL_API_ENABLED'', config_property BooleanT False (CBool False)),
     (''USE_ASYNC_TX_PROCESSING'', config_property BooleanT False (CBool True))]"

definition ENTRIES_5 :: "(string \<times> config_property) list" where
  "ENTRIES_5 = [
     (''LOCK_MAX_HOLD_MS'', config_property NumberT False (number_of 30000)),
     (''LOCK_QUEUE_POLL_INTERVAL_MS'', config_property NumberT False (number_of 50)),
     (''LOCK_HEARTBEAT_MISSED_COUNT'', config_property NumberT False (number_of 5)),
     (''ENABLE_NONCE_ORDERING'', config_property BooleanT False (CBool False)),
     (''USE_MIRROR_NODE_MODULARIZED_SERVICES'', config_property BooleanT False CNull),
     (''WEB_SOCKET_HTTP_PORT'', config_property NumberT False (number_of 8547)),
     (''WEB_SOCKET_PORT'', config_property NumberT False (number_of 8546)),
     (''WRITE_SNAPSHOT_ON_MEMORY_LEAK'', config_property BooleanT False CNull),
     (''WS_BATCH_REQUESTS_ENABLED'', config_property BooleanT False (CBool True)),
     (''WS_BATCH_REQUESTS_MAX_SIZE'', config_property NumberT False (number_of 20)),
     (''WS_CACHE_TTL'', config_property NumberT False (number_of 20000)),
     (''WS_CONNECTION_LIMIT'', config_property NumberT False (number_of 10)),
     (''WS_CONNECTION_LIMIT_PER_IP'', config_property NumberT False (number_of 10)),
     (''WS_MAX_INACTIVITY_TTL'', config_property NumberT False (number_of 300000)),
     (''WS_MULTIPLE_ADDRESSES_ENABLED'', config_property BooleanT False (CBool False)),
     (''WS_NEW_HEADS_ENABLED'', config_property BooleanT False (CBool True)),
     (''WORKERS_POOL_MAX_THREADS'', config_property NumberT False (number_of 4)),
     (''WORKERS_POOL_MIN_THREADS'', config_property NumberT False (number_of 2)),
     (''WS_PING_INTERVAL'', config_property NumberT False (number_of 100000)),
     (''WS_POLLING_INTERVAL'', config_property NumberT False (number_of 500)),
     (''WS_RELAY_URL'', config_property StringT False (CStr ''ws://127.0.0.1:8546'')),
     (''WS_SAME_SUB_FOR_SAME_EVENT'', config_property BooleanT False (CBool True)),
     (''WS_SUBSCRIPTION_LIMIT'', config_property NumberT False (number_of 10)),
     (''ON_VALID_JSON_RPC_HTTP_RESPONSE_STATUS_CODE'', config_property NumberT False (number_of 400))]"

definition ENTRIES :: "(string \<times> config_property) list" where
  "ENTRIES = ENTRIES_1 @ ENTRIES_2 @ ENTRIES_3 @ ENTRIES_4 @ ENTRIES_5"

text \<open>A key may be without a value only when it is optional and has no default.\<close>

definition CanBeUndefined :: "config_property \<Rightarrow> bool" where
  "CanBeUndefined e \<longleftrightarrow> \<not> cp_required e \<and> cp_defaultValue e = CNull"

section \<open>Start-up checks and casts\<close>

type_synonym envs = "string \<Rightarrow> string option"

type_synonym casted = "(string \<times> cval) list"

definition configuration_error :: "string \<Rightarrow> string \<Rightarrow> string" where
  "configuration_error name what = ''Configuration error: '' @ name @ what"

definition mandatory_error :: "string \<Rightarrow> string" where
  "mandatory_error name = configuration_error name '' is a mandatory configuration for relay operation.''"

fun is_number :: "cval \<Rightarrow> bool" where
  "is_number (CNum _) = True"
| "is_number _ = False"

fun is_text :: "cval \<Rightarrow> bool" where
  "is_text (CStr _) = True"
| "is_text _ = False"

definition check_array :: "string \<Rightarrow> config_type \<Rightarrow> string \<Rightarrow> string + unit" where
  "check_array name type text = (case JSON_parse text of
     None \<Rightarrow> Inl (configuration_error name '' must be a valid JSON string.'')
   | Some (CArr items) \<Rightarrow>
       if list_all (if type = NumArrayT then is_number else is_text) items then Inr ()
       else Inl (configuration_error name ('' must contain only '' @ (if type = NumArrayT then ''numbers'' else ''strings'') @ ''.''))
   | Some _ \<Rightarrow> Inl (configuration_error name '' must be a valid JSON array.''))"

definition check_entry :: "envs \<Rightarrow> string \<times> config_property \<Rightarrow> string + unit" where
  "check_entry envs = (\<lambda>(name, e).
     if \<not> cp_required e then Inr ()
     else case envs name of
       None \<Rightarrow> Inl (mandatory_error name)
     | Some text \<Rightarrow>
         if cp_type e = NumberT \<and> Number_text text = NumNaN then Inl (configuration_error name '' must be a valid number.'')
         else if cp_type e \<in> {StrArrayT, NumArrayT} \<and> text \<noteq> [] then check_array name (cp_type e) text
         else Inr ())"

fun check_each :: "('a \<Rightarrow> string + unit) \<Rightarrow> 'a list \<Rightarrow> string + unit" where
  "check_each f [] = Inr ()"
| "check_each f (x # xs) = (case f x of Inl e \<Rightarrow> Inl e | Inr u \<Rightarrow> check_each f xs)"

definition startUp :: "envs \<Rightarrow> string + unit" where
  "startUp envs = check_each (check_entry envs) ENTRIES"

text \<open>What an entry contributes to the cast environment: nothing when it has neither a value nor a default.\<close>

definition cast_entry :: "envs \<Rightarrow> string \<times> config_property \<Rightarrow> string + (string \<times> cval) option" where
  "cast_entry envs = (\<lambda>(name, e). case envs name of
     None \<Rightarrow> Inr (if cp_defaultValue e \<noteq> CNull then Some (name, cp_defaultValue e) else None)
   | Some text \<Rightarrow> (case cp_type e of
         NumberT \<Rightarrow> Inr (Some (name, CNum (Number_text text)))
       | BooleanT \<Rightarrow> Inr (Some (name, CBool (text = ''true'')))
       | StringT \<Rightarrow> Inr (Some (name, CStr text))
       | _ \<Rightarrow> (case JSON_parse (if text = [] then ''[]'' else text) of
             Some v \<Rightarrow> Inr (Some (name, v)) | None \<Rightarrow> Inl ''SyntaxError'')))"

fun cast_each :: "('a \<Rightarrow> string + 'b option) \<Rightarrow> 'a list \<Rightarrow> string + 'b list" where
  "cast_each f [] = Inr []"
| "cast_each f (x # xs) = (case f x of
     Inl e \<Rightarrow> Inl e
   | Inr y \<Rightarrow> map_sum id (\<lambda>ys. case y of Some v \<Rightarrow> v # ys | None \<Rightarrow> ys) (cast_each f xs))"

definition typeCasting :: "envs \<Rightarrow> string + casted" where
  "typeCasting envs = cast_each (cast_entry envs) ENTRIES"

section \<open>Reading the configuration\<close>

definition nullish_value :: "cval \<Rightarrow> bool" where
  "nullish_value v \<longleftrightarrow> v = CUndefined \<or> v = CNull"

definition truthy_value :: "cval \<Rightarrow> bool" where
  "truthy_value v \<longleftrightarrow> v \<notin> {CUndefined, CNull, CBool False, CStr [], CNum NumNaN, CNum (Num 0)}"

text \<open>
  A number as a text. How the engine prints a fraction, or a number too large for all its digits, is an argument: the standard leaves it open
  for other bases than ten.
\<close>

definition number_text :: "(nat \<Rightarrow> rat \<Rightarrow> string) \<Rightarrow> nat \<Rightarrow> js_num \<Rightarrow> string" where
  "number_text other base x = (case x of
     NumNaN \<Rightarrow> ''NaN''
   | NumInf positive \<Rightarrow> if positive then ''Infinity'' else ''-Infinity''
   | Num q \<Rightarrow> if of_int \<lfloor>q\<rfloor> = q \<and> (base \<noteq> 10 \<or> \<bar>q\<bar> < 10 ^ 21) then int_str base \<lfloor>q\<rfloor> else other base q)"

text \<open>\<open>Number(value)\<close> of the values the table has for \<open>CHAIN_ID\<close>, which are texts.\<close>

definition Number_value :: "cval \<Rightarrow> js_num" where
  "Number_value v = (case v of CStr s \<Rightarrow> Number_text s | CNum n \<Rightarrow> n | CBool b \<Rightarrow> Num (if b then 1 else 0) | CNull \<Rightarrow> Num 0 | _ \<Rightarrow> NumNaN)"

definition own_value :: "casted \<Rightarrow> string \<Rightarrow> cval" where
  "own_value casted name = (case map_of casted name of Some v \<Rightarrow> v | None \<Rightarrow> CUndefined)"

definition config_get :: "(nat \<Rightarrow> rat \<Rightarrow> string) \<Rightarrow> casted \<Rightarrow> string \<Rightarrow> string + cval" where
  "config_get other casted name =
     (let configEntry = map_of ENTRIES name;
          own = own_value casted name;
          value = (if nullish_value own then (case configEntry of Some e \<Rightarrow> cp_defaultValue e | None \<Rightarrow> CUndefined) else own)
      in if nullish_value value \<and> (case configEntry of Some e \<Rightarrow> cp_required e | None \<Rightarrow> False) then Inl (mandatory_error name)
         else if name = ''CHAIN_ID'' \<and> value \<noteq> CUndefined then Inr (CStr (''0x'' @ number_text other 16 (Number_value value)))
         else Inr value)"

definition validateReadOnlyMode :: "(nat \<Rightarrow> rat \<Rightarrow> string) \<Rightarrow> casted \<Rightarrow> string + unit" where
  "validateReadOnlyMode other casted =
     (let vars = [''OPERATOR_ID_MAIN'', ''OPERATOR_KEY_MAIN''];
          present = (\<lambda>varName. map_sum id truthy_value (config_get other casted varName))
      in case config_get other casted ''READ_ONLY'' of
        Inl e \<Rightarrow> Inl e
      | Inr readOnly \<Rightarrow>
          if truthy_value readOnly then check_each (\<lambda>varName. map_sum id (\<lambda>_. ()) (present varName)) vars
          else check_each (\<lambda>varName. case present varName of
              Inl e \<Rightarrow> Inl e
            | Inr b \<Rightarrow> if b then Inr ()
                else Inl (configuration_error varName '' is mandatory for Relay operations in Read-Write mode.'')) vars)"

text \<open>What the constructor makes of the environment of the process, read from the file beforehand.\<close>

definition config_start :: "(nat \<Rightarrow> rat \<Rightarrow> string) \<Rightarrow> envs \<Rightarrow> string + casted" where
  "config_start other envs = (case startUp envs of
     Inl e \<Rightarrow> Inl e
   | Inr u \<Rightarrow> (case typeCasting envs of
         Inl e \<Rightarrow> Inl e
       | Inr casted \<Rightarrow> map_sum id (\<lambda>_. casted) (validateReadOnlyMode other casted)))"

section \<open>Printing the configuration\<close>

definition SENSITIVE_FIELDS :: "string list" where
  "SENSITIVE_FIELDS = [''OPERATOR_KEY_MAIN'', ''GITHUB_TOKEN'', ''GH_ACCESS_TOKEN'']"

definition alphanumeric :: "char \<Rightarrow> bool" where
  "alphanumeric c \<longleftrightarrow> is_digit_in 36 c"

definition GITHUB_SECRET_PATTERN :: "string \<Rightarrow> bool" where
  "GITHUB_SECRET_PATTERN s \<longleftrightarrow>
     (length s \<ge> 4 \<and> take 2 s = ''gh'' \<and> s ! 2 \<in> set ''pousr'' \<and> s ! 3 = CHR ''_'' \<and> list_all alphanumeric (drop 4 s) \<and>
       36 \<le> length (drop 4 s) \<and> length (drop 4 s) \<le> 251) \<or>
     (startsWith s ''github_pat_'' \<and> length s = 11 + 22 + 1 + 59 \<and> list_all alphanumeric (take 22 (drop 11 s)) \<and> s ! 33 = CHR ''_'' \<and>
       list_all alphanumeric (drop 34 s))"

text \<open>\<open>String(value)\<close>.\<close>

fun value_text :: "(nat \<Rightarrow> rat \<Rightarrow> string) \<Rightarrow> cval \<Rightarrow> string" where
  "value_text other CUndefined = ''undefined''"
| "value_text other CNull = ''null''"
| "value_text other (CBool b) = (if b then ''true'' else ''false'')"
| "value_text other (CNum n) = number_text other 10 n"
| "value_text other (CStr s) = s"
| "value_text other (CArr vs) = join_with '','' (map (\<lambda>v. if v = CNull then [] else value_text other v) vs)"
| "value_text other (CObj kvs) = ''[object Object]''"

definition mask_text :: string where "mask_text = ''**********''"

definition sensitive :: "(nat \<Rightarrow> rat \<Rightarrow> string) \<Rightarrow> string \<Rightarrow> cval \<Rightarrow> bool" where
  "sensitive other envName envValue \<longleftrightarrow> envName \<in> set SENSITIVE_FIELDS \<or>
     (\<exists>e \<in> set_option (map_of ENTRIES envName). cp_type e = StringT) \<and>
       GITHUB_SECRET_PATTERN (if nullish_value envValue then [] else value_text other envValue)"

definition maskUpEnv :: "(nat \<Rightarrow> rat \<Rightarrow> string) \<Rightarrow> string \<Rightarrow> cval \<Rightarrow> string" where
  "maskUpEnv other envName envValue =
     (if sensitive other envName envValue then envName @ '' = '' @ mask_text else envName @ '' = '' @ value_text other envValue)"

text \<open>\<open>s.split(separator)\<close> at a text of one character or more.\<close>

fun split_text :: "string \<Rightarrow> string \<Rightarrow> string \<Rightarrow> string list" where
  "split_text sep acc [] = [rev acc]"
| "split_text sep acc (c # s) =
     (if startsWith (c # s) sep then rev acc # split_text sep [] (drop (length sep - 1) s) else split_text sep (c # acc) s)"

definition masked_entry :: "(nat \<Rightarrow> rat \<Rightarrow> string) \<Rightarrow> string \<times> cval \<Rightarrow> string \<times> string" where
  "masked_entry other = (\<lambda>(name, v). let parsedEnv = split_text '' = '' [] (maskUpEnv other name v) in (parsedEnv ! 0, parsedEnv ! 1))"

definition getAllMasked :: "(nat \<Rightarrow> rat \<Rightarrow> string) \<Rightarrow> casted \<Rightarrow> (string \<times> string) list" where
  "getAllMasked other casted = foldl (\<lambda>maskedEnvs (k, v). AList.update k v maskedEnvs) [] (map (masked_entry other) casted)"


section \<open>Facts about the table\<close>

text \<open>The type a key is declared with.\<close>

fun has_type :: "config_type \<Rightarrow> cval \<Rightarrow> bool" where
  "has_type StringT v = is_text v"
| "has_type NumberT v = is_number v"
| "has_type BooleanT v = (case v of CBool b \<Rightarrow> True | _ \<Rightarrow> False)"
| "has_type StrArrayT v = (case v of CArr vs \<Rightarrow> list_all is_text vs | _ \<Rightarrow> False)"
| "has_type NumArrayT v = (case v of CArr vs \<Rightarrow> list_all is_number vs | _ \<Rightarrow> False)"

definition good_entry :: "string \<times> config_property \<Rightarrow> bool" where
  "good_entry = (\<lambda>(name, e). CHR '' '' \<notin> set name \<and> (cp_required e \<longrightarrow> cp_type e = StringT) \<and>
     (cp_defaultValue e = CNull \<or> has_type (cp_type e) (cp_defaultValue e)))"

lemmas entries_defs = ENTRIES_def ENTRIES_1_def ENTRIES_2_def ENTRIES_3_def ENTRIES_4_def ENTRIES_5_def

lemma good_entries: "list_all good_entry ENTRIES"
proof -
  have "list_all good_entry ENTRIES_1" "list_all good_entry ENTRIES_2" "list_all good_entry ENTRIES_3" "list_all good_entry ENTRIES_4"
    "list_all good_entry ENTRIES_5"
    by (simp_all add: entries_defs(2-6) good_entry_def config_property_def)
  then show ?thesis by (simp add: ENTRIES_def)
qed

text \<open>No key is there twice: even a checksum of the keys tells them apart.\<close>

definition key_sum :: "string \<Rightarrow> int" where
  "key_sum s = foldl (\<lambda>a c. (a * 31 + of_char c) mod 100003) 0 s"

lemma distinct_keys: "distinct (map fst ENTRIES)"
proof -
  have "distinct (map key_sum (map fst (map (\<lambda>(k, e). (k, ())) ENTRIES)))"
    unfolding entries_defs append.simps list.map fst_conv case_prod_conv by code_simp
  then have "distinct (map key_sum (map fst ENTRIES))" by (simp add: case_prod_unfold comp_def)
  then show ?thesis using distinct_map by blast
qed

lemma entry_good:
  assumes "map_of ENTRIES name = Some e"
  shows "CHR '' '' \<notin> set name" and "cp_required e \<Longrightarrow> cp_type e = StringT"
    and "cp_defaultValue e = CNull \<or> has_type (cp_type e) (cp_defaultValue e)"
  using good_entries map_of_SomeD [OF assms] by (auto simp: list_all_iff good_entry_def)

lemma typed_not_nullish: "has_type t v \<Longrightarrow> \<not> nullish_value v"
  by (cases t) (auto simp: nullish_value_def split: cval.splits)

section \<open>The cast environment\<close>

lemma map_sum_Inr: "map_sum f g x = Inr y \<longleftrightarrow> (\<exists>z. x = Inr z \<and> y = g z)"
  by (cases x) auto

lemma cast_each_Inr:
  "cast_each f xs = Inr ys \<Longrightarrow> (\<forall>x \<in> set xs. \<exists>y. f x = Inr y) \<and> ys = List.map_filter (\<lambda>x. case f x of Inr y \<Rightarrow> y | Inl e \<Rightarrow> None) xs"
  by (induction xs arbitrary: ys) (auto simp: map_filter_simps map_sum_Inr split: sum.splits option.splits)

lemma check_each_Inr: "check_each f xs = Inr u \<longleftrightarrow> (\<forall>x \<in> set xs. f x = Inr ())"
  by (induction xs) (auto split: sum.splits)

lemma map_of_filtered:
  assumes "distinct (map fst xs)" and "\<And>n e k v. f (n, e) = Some (k, v) \<Longrightarrow> k = n"
  shows "map_of (List.map_filter f xs) name = (case map_of xs name of Some e \<Rightarrow> map_option snd (f (name, e)) | None \<Rightarrow> None)"
  using assms(1)
proof (induction xs)
  case (Cons x xs)
  obtain n e where x: "x = (n, e)" by fastforce
  have absent: "map_of xs n = None" using Cons.prems by (simp add: x map_of_eq_None_iff)
  show ?case
  proof (cases "f (n, e)")
    case None
    then show ?thesis using Cons absent by (auto simp: x map_filter_simps)
  next
    case (Some kv)
    then have "fst kv = n" using assms(2) [of n e "fst kv" "snd kv"] by simp
    then show ?thesis using Cons Some by (cases kv) (auto simp: x map_filter_simps)
  qed
qed (simp add: map_filter_simps)

lemma cast_entry_key: "cast_entry envs (n, e) = Inr (Some (k, v)) \<Longrightarrow> k = n"
  by (auto simp: cast_entry_def split: option.splits config_type.splits if_splits)

lemma typeCasting_value:
  assumes "typeCasting envs = Inr casted" and "map_of ENTRIES name = Some e"
  shows "\<exists>y. cast_entry envs (name, e) = Inr y \<and> map_of casted name = map_option snd y"
proof -
  note parts = cast_each_Inr [OF assms(1) [unfolded typeCasting_def]]
  obtain y where y: "cast_entry envs (name, e) = Inr y" using parts map_of_SomeD [OF assms(2)] by blast
  have "map_of casted name = (case map_of ENTRIES name of Some e \<Rightarrow>
      map_option snd (case cast_entry envs (name, e) of Inr y \<Rightarrow> y | Inl e \<Rightarrow> None) | None \<Rightarrow> None)"
    unfolding conjunct2 [OF parts]
    by (rule map_of_filtered [OF distinct_keys]) (auto simp: cast_entry_key split: sum.splits)
  then have "map_of casted name = map_option snd y" using assms(2) y by simp
  then show ?thesis using y by blast
qed

lemma startUp_required:
  assumes "startUp envs = Inr ()" and "map_of ENTRIES name = Some e" and "cp_required e"
  shows "envs name \<noteq> None"
  using assms map_of_SomeD [OF assms(2)] by (fastforce simp: startUp_def check_each_Inr check_entry_def split: option.splits)

lemma config_start_parts:
  assumes "config_start other envs = Inr casted"
  shows "startUp envs = Inr ()" and "typeCasting envs = Inr casted" and "validateReadOnlyMode other casted = Inr ()"
  using assms by (auto simp: config_start_def map_sum_Inr split: sum.splits)

text \<open>What the cast environment holds under a key.\<close>

lemma own_value_cases:
  assumes "typeCasting envs = Inr casted" and "map_of ENTRIES name = Some e"
  shows "envs name = None \<Longrightarrow> own_value casted name = (if cp_defaultValue e = CNull then CUndefined else cp_defaultValue e)"
    and "envs name = Some text \<Longrightarrow> cp_type e \<notin> {StrArrayT, NumArrayT} \<Longrightarrow> has_type (cp_type e) (own_value casted name)"
  using typeCasting_value [OF assms]
  by (auto simp: cast_entry_def own_value_def split: config_type.splits if_splits)

lemma table_entry:
  assumes "(name, e) \<in> set ENTRIES_1 \<or> (name, e) \<in> set ENTRIES_2 \<or> (name, e) \<in> set ENTRIES_3 \<or> (name, e) \<in> set ENTRIES_4 \<or>
    (name, e) \<in> set ENTRIES_5"
  shows "map_of ENTRIES name = Some e"
  using assms distinct_keys by (intro map_of_is_SomeI) (auto simp: ENTRIES_def)

lemmas table_entry_1 = table_entry [OF disjI1]
lemmas table_entry_2 = table_entry [OF disjI2 [OF disjI1]]
lemmas table_entry_3 = table_entry [OF disjI2 [OF disjI2 [OF disjI1]]]
lemmas table_entry_4 = table_entry [OF disjI2 [OF disjI2 [OF disjI2 [OF disjI1]]]]

lemma chain_id_entry: "map_of ENTRIES ''CHAIN_ID'' = Some (config_property StringT True (CStr ''0x12a''))"
  by (rule table_entry_1) (simp add: ENTRIES_1_def)

text \<open>C28: Reading the configuration keeps the promise its type makes. When the service has started from an environment, every key of the table can
  be read without an error: the value is missing only for an optional key without a default, and otherwise it has the type the key is declared
  with, whatever the text in the environment. (The exception is an array given in the environment, which is any JSON value.)\<close>

theorem config_values_typed:
  assumes "config_start other envs = Inr casted" and "map_of ENTRIES name = Some e"
  shows "\<exists>v. config_get other casted name = Inr v \<and> (nullish_value v \<longrightarrow> CanBeUndefined e) \<and>
     (\<not> nullish_value v \<and> (cp_type e \<in> {StrArrayT, NumArrayT} \<longrightarrow> envs name = None) \<longrightarrow> has_type (cp_type e) v)"
proof -
  note parts = config_start_parts [OF assms(1)]
  note own = own_value_cases [OF parts(2) assms(2)]
  note good = entry_good [OF assms(2)]
  define found where "found = (if nullish_value (own_value casted name) then cp_defaultValue e else own_value casted name)"
  have typed: "has_type (cp_type e) found" if "\<not> nullish_value found" "cp_type e \<in> {StrArrayT, NumArrayT} \<longrightarrow> envs name = None"
  proof (cases "envs name")
    case None
    then show ?thesis using own(1) good(3) that(1) by (auto simp: found_def nullish_value_def)
  next
    case (Some t)
    then have "has_type (cp_type e) (own_value casted name)" using own(2) [OF Some] that(2) Some by simp
    then show ?thesis using typed_not_nullish by (simp add: found_def)
  qed
  have missing: "CanBeUndefined e" if "nullish_value found"
  proof -
    have none: "cp_defaultValue e = CNull" using that good(3) typed_not_nullish by (auto simp: found_def split: if_splits)
    have "\<not> cp_required e"
    proof
      assume required: "cp_required e"
      then obtain t where "envs name = Some t" using startUp_required [OF parts(1) assms(2)] by blast
      then have "has_type (cp_type e) (own_value casted name)" using own(2) good(2) [OF required] by simp
      then show False using that typed_not_nullish by (simp add: found_def)
    qed
    then show ?thesis using none by (simp add: CanBeUndefined_def)
  qed
  show ?thesis
  proof (cases "name = ''CHAIN_ID''")
    case True
    then have "cp_type e = StringT" "cp_required e" using assms(2) chain_id_entry by (auto simp: config_property_def)
    then have "\<not> nullish_value found" using missing by (auto simp: CanBeUndefined_def)
    then have "\<exists>t. config_get other casted name = Inr (CStr t)"
      using assms(2) unfolding True found_def by (auto simp: config_get_def Let_def nullish_value_def)
    then show ?thesis using \<open>cp_type e = StringT\<close> by (auto simp: nullish_value_def)
  next
    case False
    then have "config_get other casted name = Inr found"
      using assms(2) missing by (auto simp: config_get_def Let_def found_def CanBeUndefined_def)
    then show ?thesis using typed missing by auto
  qed
qed


section \<open>When the service starts\<close>

lemma cast_each_total: "(\<exists>ys. cast_each f xs = Inr ys) \<longleftrightarrow> (\<forall>x \<in> set xs. \<exists>y. f x = Inr y)"
  by (induction xs) (auto simp: map_sum_Inr split: sum.splits)

lemma operator_entries:
  "map_of ENTRIES ''READ_ONLY'' = Some (config_property BooleanT False (CBool False))"
  "map_of ENTRIES ''OPERATOR_ID_MAIN'' = Some (config_property StringT False CNull)"
  "map_of ENTRIES ''OPERATOR_KEY_MAIN'' = Some (config_property StringT False CNull)"
proof -
  show "map_of ENTRIES ''READ_ONLY'' = Some (config_property BooleanT False (CBool False))" by (rule table_entry_4) (simp add: ENTRIES_4_def)
  show "map_of ENTRIES ''OPERATOR_ID_MAIN'' = Some (config_property StringT False CNull)" by (rule table_entry_3) (simp add: ENTRIES_3_def)
  show "map_of ENTRIES ''OPERATOR_KEY_MAIN'' = Some (config_property StringT False CNull)" by (rule table_entry_4) (simp add: ENTRIES_4_def)
qed

lemma config_get_optional:
  assumes "map_of ENTRIES name = Some e" and "\<not> cp_required e" and "name \<noteq> ''CHAIN_ID''"
  shows "config_get other casted name = Inr (if nullish_value (own_value casted name) then cp_defaultValue e else own_value casted name)"
  using assms by (simp add: config_get_def Let_def)

lemma read_only_value:
  assumes "typeCasting envs = Inr casted"
  shows "config_get other casted ''READ_ONLY'' = Inr (CBool (envs ''READ_ONLY'' = Some ''true''))"
  using typeCasting_value [OF assms operator_entries(1)]
  by (auto simp: config_get_optional [OF operator_entries(1)] config_property_def cast_entry_def own_value_def nullish_value_def split: option.splits)

lemma operator_value:
  assumes "typeCasting envs = Inr casted" and "name \<in> {''OPERATOR_ID_MAIN'', ''OPERATOR_KEY_MAIN''}"
  shows "\<exists>v. config_get other casted name = Inr v \<and> (truthy_value v \<longleftrightarrow> envs name \<notin> {None, Some []})"
proof -
  have e: "map_of ENTRIES name = Some (config_property StringT False CNull)" using assms(2) operator_entries by auto
  have "name \<noteq> ''CHAIN_ID''" using assms(2) by auto
  then show ?thesis
    using typeCasting_value [OF assms(1) e]
    by (auto simp: config_get_optional [OF e] config_property_def cast_entry_def own_value_def nullish_value_def truthy_value_def split: option.splits)
qed

lemma validateReadOnlyMode_iff:
  assumes "typeCasting envs = Inr casted"
  shows "validateReadOnlyMode other casted = Inr () \<longleftrightarrow>
    envs ''READ_ONLY'' = Some ''true'' \<or> (\<forall>name \<in> {''OPERATOR_ID_MAIN'', ''OPERATOR_KEY_MAIN''}. envs name \<notin> {None, Some []})"
proof -
  obtain i where i: "config_get other casted ''OPERATOR_ID_MAIN'' = Inr i" "truthy_value i \<longleftrightarrow> envs ''OPERATOR_ID_MAIN'' \<notin> {None, Some []}"
    using operator_value [OF assms, of "''OPERATOR_ID_MAIN''" other] by auto
  obtain k where k: "config_get other casted ''OPERATOR_KEY_MAIN'' = Inr k" "truthy_value k \<longleftrightarrow> envs ''OPERATOR_KEY_MAIN'' \<notin> {None, Some []}"
    using operator_value [OF assms, of "''OPERATOR_KEY_MAIN''" other] by auto
  show ?thesis
    using i(2) k(2) by (simp add: validateReadOnlyMode_def Let_def read_only_value [OF assms] i(1) k(1) truthy_value_def [of "CBool _"])
qed

lemma startUp_iff: "startUp envs = Inr () \<longleftrightarrow> (\<forall>(name, e) \<in> set ENTRIES. cp_required e \<longrightarrow> envs name \<noteq> None)"
proof -
  have "check_entry envs (name, e) = Inr () \<longleftrightarrow> (cp_required e \<longrightarrow> envs name \<noteq> None)" if "(name, e) \<in> set ENTRIES" for name e
    using good_entries that by (auto simp: list_all_iff good_entry_def check_entry_def split: option.splits)
  then show ?thesis unfolding startUp_def check_each_Inr by auto
qed

lemma typeCasting_total:
  "(\<exists>casted. typeCasting envs = Inr casted) \<longleftrightarrow> (\<forall>(name, e) \<in> set ENTRIES. cp_type e \<in> {StrArrayT, NumArrayT} \<longrightarrow>
     (\<forall>t. envs name = Some t \<longrightarrow> JSON_parse (if t = [] then ''[]'' else t) \<noteq> None))"
proof -
  have "(\<exists>y. cast_entry envs (name, e) = Inr y) \<longleftrightarrow> (cp_type e \<in> {StrArrayT, NumArrayT} \<longrightarrow>
     (\<forall>t. envs name = Some t \<longrightarrow> JSON_parse (if t = [] then ''[]'' else t) \<noteq> None))" for name e
    by (auto simp: cast_entry_def split: option.splits config_type.splits)
  from this show ?thesis unfolding typeCasting_def cast_each_total split_def by (intro ball_cong refl) (metis prod.collapse)
qed

text \<open>C29: The service starts from an environment exactly when every required key is in it, every array in it is JSON, and either read-only mode is
  on or both the operator's id and key are there and not empty. Nothing else of the environment is checked: the checks of numbers and of the
  items of arrays concern required entries only, and every required entry of the table is a text.\<close>

theorem config_start_iff:
  "(\<exists>casted. config_start other envs = Inr casted) \<longleftrightarrow>
     (\<forall>(name, e) \<in> set ENTRIES. (cp_required e \<longrightarrow> envs name \<noteq> None) \<and> (cp_type e \<in> {StrArrayT, NumArrayT} \<longrightarrow>
       (\<forall>t. envs name = Some t \<longrightarrow> JSON_parse (if t = [] then ''[]'' else t) \<noteq> None))) \<and>
     (envs ''READ_ONLY'' = Some ''true'' \<or> (\<forall>name \<in> {''OPERATOR_ID_MAIN'', ''OPERATOR_KEY_MAIN''}. envs name \<notin> {None, Some []}))"
proof -
  have "(\<exists>casted. config_start other envs = Inr casted) \<longleftrightarrow>
      startUp envs = Inr () \<and> (\<exists>casted. typeCasting envs = Inr casted \<and> validateReadOnlyMode other casted = Inr ())"
    by (auto simp: config_start_def map_sum_Inr split: sum.splits)
  also have "\<dots> \<longleftrightarrow> startUp envs = Inr () \<and> (\<exists>casted. typeCasting envs = Inr casted) \<and>
      (envs ''READ_ONLY'' = Some ''true'' \<or> (\<forall>name \<in> {''OPERATOR_ID_MAIN'', ''OPERATOR_KEY_MAIN''}. envs name \<notin> {None, Some []}))"
    using validateReadOnlyMode_iff by blast
  finally show ?thesis unfolding startUp_iff typeCasting_total by blast
qed

section \<open>What is printed\<close>

lemma cast_keys:
  assumes "distinct (map fst xs)" and "\<And>n e k v. f (n, e) = Inr (Some (k, v)) \<Longrightarrow> k = n" and "cast_each f xs = Inr ys"
  shows "distinct (map fst ys) \<and> fst ` set ys \<subseteq> fst ` set xs"
  using assms(1,3)
proof (induction xs arbitrary: ys)
  case (Cons x xs)
  obtain y zs where y: "f x = Inr y" "cast_each f xs = Inr zs" "ys = (case y of Some v \<Rightarrow> v # zs | None \<Rightarrow> zs)"
    using Cons.prems(2) by (auto simp: map_sum_Inr split: sum.splits)
  have rest: "distinct (map fst zs) \<and> fst ` set zs \<subseteq> fst ` set xs" using Cons y(2) by simp
  show ?case
  proof (cases y)
    case (Some kv)
    then have "fst kv = fst x" using y(1) assms(2) [of "fst x" "snd x" "fst kv" "snd kv"] by simp
    then show ?thesis using rest Some y(3) Cons.prems(1) by auto
  qed (use rest y(3) in auto)
qed simp

lemma foldl_updates: "map_of (foldl (\<lambda>m (k, v). AList.update k v m) m kvs) = map_of m ++ map_of (rev kvs)"
  by (induction kvs arbitrary: m) (auto simp: update_conv' fun_eq_iff map_add_def split: option.split)

lemma map_of_rev_distinct: "distinct (map fst kvs) \<Longrightarrow> map_of (rev kvs) = map_of kvs"
proof
  fix k assume d: "distinct (map fst kvs)"
  then have "distinct (map fst (rev kvs))" by (simp add: rev_map [symmetric])
  then have "map_of (rev kvs) k = Some v \<longleftrightarrow> map_of kvs k = Some v" for v using d by (simp add: map_of_eq_Some_iff)
  then show "map_of (rev kvs) k = map_of kvs k" by (cases "map_of kvs k"; cases "map_of (rev kvs) k") auto
qed

lemma map_of_mapped: "map_of (map (\<lambda>(n, v). (n, f n v)) kvs) k = map_option (f k) (map_of kvs k)"
  by (induction kvs) auto

lemma split_at_first: "CHR '' '' \<notin> set name \<Longrightarrow> split_text '' = '' acc (name @ '' = '' @ rest) = (rev acc @ name) # split_text '' = '' [] rest"
  by (induction name arbitrary: acc) (auto simp: startsWith_def)

lemma split_hd: "split_text sep acc s \<noteq> [] \<and> (split_text sep acc s ! 0 = hd (split_text sep acc s))"
  by (induction sep acc s rule: split_text.induct) (auto simp: hd_conv_nth)

lemma split_mask: "split_text '' = '' [] mask_text = [mask_text]"
  by code_simp

lemma masked_entry_value:
  assumes "CHR '' '' \<notin> set name"
  shows "masked_entry other (name, v) =
    (name, if sensitive other name v then mask_text else hd (split_text '' = '' [] (value_text other v)))"
  using split_at_first [OF assms, of "[]"] split_hd [of "'' = ''" "[]" "value_text other v"]
  by (simp add: masked_entry_def maskUpEnv_def split_mask)


section \<open>Examples\<close>

definition sample_envs :: envs where
  "sample_envs = map_of [(''CHAIN_ID'', ''298''), (''HEDERA_NETWORK'', ''local''), (''MIRROR_NODE_URL'', ''http://m''), (''npm_package_version'', ''1''),
     (''OPERATOR_ID_MAIN'', ''0.0.2''), (''OPERATOR_KEY_MAIN'', ''30''), (''REDIS_URL'', ''a = b = c''), (''CACHE_MAX'', ''many'')]"

definition sample_entry_ok :: "string \<times> config_property \<Rightarrow> bool" where
  "sample_entry_ok = (\<lambda>(name, e). (cp_required e \<longrightarrow> sample_envs name \<noteq> None) \<and> (cp_type e \<in> {StrArrayT, NumArrayT} \<longrightarrow> sample_envs name = None))"

lemma sample_entries_ok: "list_all sample_entry_ok ENTRIES"
proof -
  have "list_all sample_entry_ok ENTRIES_1" "list_all sample_entry_ok ENTRIES_2" "list_all sample_entry_ok ENTRIES_3"
    "list_all sample_entry_ok ENTRIES_4" "list_all sample_entry_ok ENTRIES_5"
    by (simp_all add: entries_defs(2-6) sample_entry_ok_def sample_envs_def config_property_def)
  then show ?thesis by (simp add: ENTRIES_def)
qed

lemma sample_entry:
  assumes "(name, e) \<in> set ENTRIES"
  shows "(cp_required e \<longrightarrow> sample_envs name \<noteq> None) \<and> (cp_type e \<in> {StrArrayT, NumArrayT} \<longrightarrow> sample_envs name = None)"
  using sample_entries_ok assms by (auto simp: list_all_iff sample_entry_ok_def)

lemma sample_starts: "\<exists>casted. config_start other sample_envs = Inr casted"
proof -
  note ok = sample_entry
  have "\<exists>casted. typeCasting sample_envs = Inr casted" unfolding typeCasting_total using ok by fastforce
  then obtain casted where casted: "typeCasting sample_envs = Inr casted" ..
  have "startUp sample_envs = Inr ()" unfolding startUp_iff using ok by auto
  moreover have "validateReadOnlyMode other casted = Inr ()"
    unfolding validateReadOnlyMode_iff [OF casted] by (simp add: sample_envs_def)
  ultimately show ?thesis by (simp add: config_start_def casted)
qed

theorem config_values_typed_witness:
  "\<exists>casted v. config_start (\<lambda>_ _. []) sample_envs = Inr casted \<and> config_get (\<lambda>_ _. []) casted ''READ_ONLY'' = Inr v \<and> has_type BooleanT v"
proof -
  obtain casted where casted: "config_start (\<lambda>_ _. []) sample_envs = Inr casted" using sample_starts by blast
  obtain v where "config_get (\<lambda>_ _. []) casted ''READ_ONLY'' = Inr v" "\<not> nullish_value v \<longrightarrow> has_type BooleanT v" "nullish_value v \<longrightarrow> False"
    using config_values_typed [OF casted operator_entries(1)] by (auto simp: config_property_def CanBeUndefined_def)
  then show ?thesis using casted by blast
qed

theorem config_start_iff_witness:
  "(\<exists>casted. config_start (\<lambda>_ _. []) sample_envs = Inr casted) \<and>
   \<not> (\<exists>casted. config_start (\<lambda>_ _. []) (sample_envs(''OPERATOR_KEY_MAIN'' := Some [])) = Inr casted)"
proof -
  have "\<forall>(name, e) \<in> set ENTRIES. (cp_required e \<longrightarrow> sample_envs name \<noteq> None) \<and> (cp_type e \<in> {StrArrayT, NumArrayT} \<longrightarrow>
      (\<forall>t. sample_envs name = Some t \<longrightarrow> JSON_parse (if t = [] then ''[]'' else t) \<noteq> None))"
    using sample_entry by fastforce
  moreover have "\<forall>name \<in> {''OPERATOR_ID_MAIN'', ''OPERATOR_KEY_MAIN''}. sample_envs name \<notin> {None, Some []}"
    by (simp add: sample_envs_def)
  ultimately have starts: "\<exists>casted. config_start (\<lambda>_ _. []) sample_envs = Inr casted"
    using config_start_iff [of "\<lambda>_ _. []" sample_envs] by blast
  have "\<not> ((sample_envs(''OPERATOR_KEY_MAIN'' := Some [])) ''READ_ONLY'' = Some ''true'' \<or>
      (\<forall>name \<in> {''OPERATOR_ID_MAIN'', ''OPERATOR_KEY_MAIN''}. (sample_envs(''OPERATOR_KEY_MAIN'' := Some [])) name \<notin> {None, Some []}))"
    by (simp add: sample_envs_def)
  then have "\<not> (\<exists>casted. config_start (\<lambda>_ _. []) (sample_envs(''OPERATOR_KEY_MAIN'' := Some [])) = Inr casted)"
    using config_start_iff [of "\<lambda>_ _. []" "sample_envs(''OPERATOR_KEY_MAIN'' := Some [])"] by blast
  with starts show ?thesis by (rule conjI)
qed


text \<open>A number that is none starts the service all the same, an array need not be one, and a value with equal signs is printed in part only.\<close>

lemma number_not_checked:
  assumes "typeCasting envs = Inr casted" and "envs ''CACHE_MAX'' = Some ''many''"
  shows "config_get other casted ''CACHE_MAX'' = Inr (CNum NumNaN)"
proof -
  have e: "map_of ENTRIES ''CACHE_MAX'' = Some (config_property NumberT False (number_of 1000))"
    by (rule table_entry_1) (simp add: ENTRIES_1_def)
  have "Number_text ''many'' = NumNaN" by code_simp
  then show ?thesis
    using typeCasting_value [OF assms(1) e] assms(2)
    by (auto simp: config_get_optional [OF e] config_property_def cast_entry_def own_value_def nullish_value_def)
qed

lemma array_not_checked:
  assumes "typeCasting envs = Inr casted" and "envs ''HAPI_CLIENT_ERROR_RESET'' = Some ''true''"
  shows "config_get other casted ''HAPI_CLIENT_ERROR_RESET'' = Inr (CBool True)"
proof -
  have e: "map_of ENTRIES ''HAPI_CLIENT_ERROR_RESET'' = Some (config_property NumArrayT False (CArr [number_of 21, number_of 50]))"
    by (rule table_entry_2) (simp add: ENTRIES_2_def)
  have "JSON_parse ''true'' = Some (CBool True)" by code_simp
  then show ?thesis
    using typeCasting_value [OF assms(1) e] assms(2)
    by (auto simp: config_get_optional [OF e] config_property_def cast_entry_def own_value_def nullish_value_def)
qed

lemma printed_in_part: "masked_entry other (''REDIS_URL'', CStr ''a = b'') = (''REDIS_URL'', ''a'')"
proof -
  have "split_text '' = '' [] ''a = b'' = [''a'', ''b'']" "\<not> GITHUB_SECRET_PATTERN ''a = b''" by code_simp+
  then show ?thesis
    by (subst masked_entry_value) (simp_all add: sensitive_def SENSITIVE_FIELDS_def nullish_value_def)
qed

end
