(* ===== verification/Services.thy ===== *)
theory Services
  imports EthBlock Effects Config
begin

text \<open>
  The small services of the relay: \<open>net_\<close> and \<open>web3_\<close> methods (\<open>lib/net.ts\<close>, \<open>lib/web3.ts\<close>), the printed configuration of \<open>admin_config\<close>
  (\<open>lib/admin.ts\<close>), and the entry point of the worker threads (\<open>services/workersService/workers.ts\<close>).
\<close>

section \<open>net and web3\<close>

definition config_text :: "string + cval \<Rightarrow> string" where
  "config_text r = (case r of Inr (CStr s) \<Rightarrow> s | _ \<Rightarrow> [])"

text \<open>The chain id in decimal, as the constructor computes it.\<close>

definition net_chainId :: "(nat \<Rightarrow> rat \<Rightarrow> string) \<Rightarrow> casted \<Rightarrow> string" where
  "net_chainId other casted = number_text other 10 (case parseInt (config_text (config_get other casted ''CHAIN_ID'')) 16 of
     Some n \<Rightarrow> Num (of_int (double_of_int n)) | None \<Rightarrow> NumNaN)"

definition net_listening :: bool where "net_listening = True"

definition net_version :: "(nat \<Rightarrow> rat \<Rightarrow> string) \<Rightarrow> casted \<Rightarrow> string" where
  "net_version other casted = net_chainId other casted"

definition net_peerCount :: predefined where "net_peerCount = UNSUPPORTED_METHOD"

definition web3_clientVersion :: "(nat \<Rightarrow> rat \<Rightarrow> string) \<Rightarrow> casted \<Rightarrow> string" where
  "web3_clientVersion other casted = ''relay/'' @ config_text (config_get other casted ''npm_package_version'')"

definition web3_sha3 :: "(string \<Rightarrow> string) \<Rightarrow> string \<Rightarrow> string" where
  "web3_sha3 keccak256 input = keccak256 input"

section \<open>admin\<close>

definition getNetworkNameByChainId :: "(nat \<Rightarrow> rat \<Rightarrow> string) \<Rightarrow> casted \<Rightarrow> string" where
  "getNetworkNameByChainId other casted =
     (let chain = config_text (config_get other casted ''CHAIN_ID'') in
      if chain = ''0x127'' then ''mainnet'' else if chain = ''0x128'' then ''testnet''
      else if chain = ''0x129'' then ''previewnet'' else ''local'')"

definition index_of :: "char \<Rightarrow> string \<Rightarrow> int" where
  "index_of c s = (if c \<in> set s then int (length (takeWhile (\<lambda>d. d \<noteq> c) s)) else - 1)"

text \<open>\<open>s.substring(a, b)\<close>: both ends are clamped, and swapped when they are in the wrong order.\<close>

definition js_substring :: "string \<Rightarrow> int \<Rightarrow> int \<Rightarrow> string" where
  "js_substring s a b = (let x = min (nat a) (length s); y = min (nat b) (length s) in str_slice s (min x y) (max x y))"

definition endsWith :: "string \<Rightarrow> string \<Rightarrow> bool" where
  "endsWith s p \<longleftrightarrow> startsWith (rev s) (rev p)"

text \<open>The status page names its components; no names stand for a request that fails.\<close>

definition getConsensusNodeVersion :: "string \<Rightarrow> string list option \<Rightarrow> string" where
  "getConsensusNodeVersion targetNetwork components = (case components of
     None \<Rightarrow> ''local''
   | Some names \<Rightarrow> (case filter (\<lambda>name. endsWith name '' | Network Uptime'' \<and> str_includes (toLowerCase name) targetNetwork) names of
         networkName # _ \<Rightarrow> js_substring networkName (index_of (CHR ''('') networkName + 2) (index_of (CHR '')'') networkName)
       | [] \<Rightarrow> ''local''))"

definition section_of :: "(string \<Rightarrow> bool) \<Rightarrow> (string \<times> string) list \<Rightarrow> jv" where
  "section_of P envs = JObject (map (\<lambda>(k, v). (k, JString v)) (filter (\<lambda>it. P (fst it)) envs))"

definition SDK_PREFIX :: string where "SDK_PREFIX = ''SDK_''"
definition MIRROR_NODE_PREFIX :: string where "MIRROR_NODE_PREFIX = ''MIRROR_NODE_''"

definition admin_info :: "string \<Rightarrow> string \<Rightarrow> (string \<times> string) list \<Rightarrow> jv" where
  "admin_info version consensusVersion maskedEnvs = JObject
     [(''relay'', JObject [(''version'', JString version),
        (''config'', section_of (\<lambda>k. \<not> startsWith k SDK_PREFIX \<and> \<not> startsWith k MIRROR_NODE_PREFIX) maskedEnvs)]),
      (''upstreamDependencies'', JArray
        [JObject [(''service'', JString ''consensusNode''), (''version'', JString consensusVersion),
           (''config'', section_of (\<lambda>k. startsWith k SDK_PREFIX) maskedEnvs)],
         JObject [(''service'', JString ''mirrorNode''), (''config'', section_of (\<lambda>k. startsWith k MIRROR_NODE_PREFIX) maskedEnvs)]])]"

definition admin_config ::
    "'s cache_client \<Rightarrow> int \<Rightarrow> (nat \<Rightarrow> rat \<Rightarrow> string) \<Rightarrow> casted \<Rightarrow> string list option \<Rightarrow> 's \<Rightarrow> 's \<times> (string + jv)" where
  "admin_config client now other casted components s = (case c_get client now ''ADMIN_CONFIG'' s of
     (s1, Inl e) \<Rightarrow> (s1, Inl e)
   | (s1, Inr info) \<Rightarrow> if truthy info then (s1, Inr info)
       else let fresh = admin_info (config_text (config_get other casted ''npm_package_version''))
              (getConsensusNodeVersion (getNetworkNameByChainId other casted) components) (getAllMasked other casted)
            in case c_set client now ''ADMIN_CONFIG'' fresh None s1 of (s2, Inl e) \<Rightarrow> (s2, Inl e) | (s2, Inr u) \<Rightarrow> (s2, Inr fresh))"

section \<open>Workers\<close>

datatype worker_task =
    GetBlockTask string bool
  | GetBlockReceiptsTask string
  | GetLogsTask "string option" block_ref block_ref log_address "topic_arg list option"
  | OtherTask string

datatype worker_result = BlockResult "block_object option" | ReceiptsResult "receipt list option" | LogsResult "eth_log list"

definition handleTask :: "crypto \<Rightarrow> block_mirror \<Rightarrow> block_config \<Rightarrow> worker_task \<Rightarrow> thrown + worker_result" where
  "handleTask c m cfg task = (case task of
     GetBlockTask blockHashOrNumber showDetails \<Rightarrow> map_sum id BlockResult (worker_getBlock c m cfg blockHashOrNumber showDetails)
   | GetBlockReceiptsTask blockHashOrBlockNumber \<Rightarrow> map_sum id ReceiptsResult (worker_getBlockReceipts c m cfg blockHashOrBlockNumber)
   | GetLogsTask blockHash fromBlock toBlock address topics \<Rightarrow>
       map_sum id LogsResult (worker_getLogs (bm_common m) (bc_common cfg) blockHash fromBlock toBlock address topics)
   | OtherTask type \<Rightarrow> Inl (OtherError (Some (''Unknown task type: '' @ type))))"

section \<open>Facts\<close>

text \<open>The relay and the two upstream services have every printed value between them, each once.\<close>

lemma prefixes_disjoint: "\<not> (startsWith k SDK_PREFIX \<and> startsWith k MIRROR_NODE_PREFIX)"
  by (cases k) (auto simp: SDK_PREFIX_def MIRROR_NODE_PREFIX_def startsWith_def)

lemma admin_sections:
  fixes envs :: "(string \<times> string) list"
  shows "mset envs = mset (filter (\<lambda>it. \<not> startsWith (fst it) SDK_PREFIX \<and> \<not> startsWith (fst it) MIRROR_NODE_PREFIX) envs) +
    mset (filter (\<lambda>it. startsWith (fst it) SDK_PREFIX) envs) + mset (filter (\<lambda>it. startsWith (fst it) MIRROR_NODE_PREFIX) envs)"
  using prefixes_disjoint by (induction envs) auto

text \<open>The version of the network is the text between a bracket and the next.\<close>

lemma version_example:
  "getConsensusNodeVersion ''testnet'' (Some [''Mirror'', ''Testnet (v0.60) | Network Uptime'']) = ''0.60''"
  by code_simp

section \<open>The chain id\<close>

lemma parseInt_hex: "parseInt (''0x'' @ to_hex k) 16 = Some (int k)"
proof -
  have "list_all (is_digit_in 16) (to_hex k)" by (simp add: radix_str_digits)
  then have "parse_digits 16 (to_hex k) = Some (int k)"
    by (simp add: parse_digits_def takeWhile_digits [where P = "is_digit_in 16"] radix_val_radix_str del: takeWhile_eq_all_conv)
  then show ?thesis by (simp add: parseInt_def drop_0x_def startsWith_def Let_def is_space_def)
qed

lemma chain_id_value:
  assumes "typeCasting envs = Inr casted" and "envs ''CHAIN_ID'' = Some t" and "BigInt_str t = Some n" and "0 \<le> n" and "n < 2 ^ 53"
  shows "config_get other casted ''CHAIN_ID'' = Inr (CStr (''0x'' @ to_hex (nat n)))"
proof -
  have "own_value casted ''CHAIN_ID'' = CStr t"
    using typeCasting_value [OF assms(1) chain_id_entry] assms(2) by (auto simp: cast_entry_def config_property_def own_value_def)
  moreover have "Number_text t = Num (of_int n)" using assms(3-5) by (simp add: Number_text_def double_of_int_exact)
  ultimately show ?thesis
    using assms(4) by (simp add: config_get_def Let_def nullish_value_def chain_id_entry Number_value_def number_text_def int_str_def)
qed

text \<open>The chain id is one number in all its spellings: when the environment gives it in decimal or in hexadecimal, the configuration has it
  as a hexadecimal text, which is what \<open>eth_chainId\<close> answers, and \<open>net_version\<close> as a decimal one; read back, both are that number.\<close>

lemma chain_id_spellings:
  assumes "typeCasting envs = Inr casted" and "envs ''CHAIN_ID'' = Some t" and "BigInt_str t = Some n" and "0 \<le> n" and "n < 2 ^ 53"
  shows "\<exists>h. config_get other casted ''CHAIN_ID'' = Inr (CStr h) \<and> isHex h \<and> BigInt_str h = Some n \<and>
     BigInt_str (net_version other casted) = Some n \<and> list_all (is_digit_in 10) (net_version other casted)"
proof -
  note chain = chain_id_value [OF assms]
  have hex: "numberTo0x n = ''0x'' @ to_hex (nat n)" using assms(4) by (simp add: numberTo0x_nonneg)
  have "\<lfloor>rat_of_int n\<rfloor> = n" "\<bar>rat_of_int n\<bar> < 10 ^ 21"
    using assms(4,5) by (simp_all add: order.strict_trans [of _ "of_int (2 ^ 53)"] flip: of_int_abs)
  then have "net_version other casted = to_dec (nat n)"
    using assms(4,5) parseInt_hex [of "nat n"]
    by (simp add: net_version_def net_chainId_def chain config_text_def number_text_def double_of_int_exact int_str_def)
  then show ?thesis
    using chain hex assms(4) isHex_numberTo0x [OF assms(4)] BigInt_numberTo0x [OF assms(4)] BigInt_str_dec [of "nat n"]
    by (simp add: radix_str_digits)
qed

lemma chain_id_spellings_witness:
  "\<exists>casted. typeCasting sample_envs = Inr casted \<and> BigInt_str (net_version (\<lambda>_ _. []) casted) = Some 298"
proof -
  obtain casted where "config_start (\<lambda>_ _. []) sample_envs = Inr casted" using sample_starts by blast
  then have casted: "typeCasting sample_envs = Inr casted" by (rule config_start_parts)
  have "BigInt_str ''298'' = Some 298" by code_simp
  then show ?thesis using chain_id_spellings [OF casted, of "''298''" 298] casted by (auto simp: sample_envs_def)
qed

end
