(* ===== verification/Sdk.thy ===== *)
theory Sdk
  imports EthCommon Effects Config HbarLimiter
begin

text \<open>
  The client of the consensus nodes (\<open>lib/clients/sdkClient.ts\<close>, with \<open>estimateFileTransactionsFee\<close> of \<open>utils.ts\<close>) and the service that renews it
  (\<open>lib/services/hapiService/hapiService.ts\<close>). The SDK of the network is not part of the repository: what it answers to a transaction, a receipt, a
  query or a record is a function of the calls before. The state is that of the HBAR limiter, of any kind, the calls to the network and the
  events that are emitted for the accounting of their costs.
\<close>

section \<open>The SDK\<close>

record eth_submission =
  es_data :: "8 word list"
  es_callDataFileId :: "string option"
  es_maxTransactionFee :: int
  es_maxGasAllowance :: "int option"

datatype sdk_transaction =
    EthereumTransaction eth_submission
  | FileCreateTransaction string "string option"
  | FileAppendTransaction string string nat nat
  | FileDeleteTransaction string

datatype sdk_call = Executed sdk_transaction | ExecutedAll sdk_transaction | ReceiptAsked string | FileInfoAsked string | RecordAsked string

text \<open>An error the SDK throws; the id is that of the transaction, when it had got one.\<close>

record sdk_failure =
  sf_status :: "sdk_status option"
  sf_message :: "string option"
  sf_nodeAccountId :: "string option"
  sf_transactionId :: "string option"

datatype sdk_throw = Failed sdk_failure | JsonRpcThrown predefined

record sdk_response =
  rs_transactionId :: string
  rs_transactionHash :: "8 word list option"

record file_info =
  fi_size :: int
  fi_isDeleted :: bool

record tx_record =
  tr_status :: string
  tr_exchangeRateInCents :: rat
  tr_transfers :: "(string \<times> int) list"
  tr_gasUsed :: "int option"

text \<open>The transaction data as the SDK decodes it; \<open>ed_toBytes\<close> is its encoding with other call data.\<close>

record eth_data =
  ed_to :: string
  ed_callData :: "8 word list"
  ed_toBytes :: "8 word list \<Rightarrow> 8 word list"

datatype sdk_event =
    ExecuteTransaction string "string option" string string
  | ExecuteQuery int string string

record 'l sdk_state =
  sx_limiter :: 'l
  sx_calls :: "sdk_call list"
  sx_events :: "sdk_event list"

type_synonym ('l, 'a) sdk = "('l sdk_state, 'a) io"

record 'l sdk_env =
  dk_unknown :: sdk_status
  dk_invalidTransactionId :: int
  dk_jumboTxEnabled :: bool
  dk_fileAppendChunkSize :: nat
  dk_maxChunks :: nat
  dk_maxFeeThreshold :: int
  dk_maxGasAllowanceHbar :: int
  dk_operatorAccountId :: string
  dk_operatorPublicKey :: "string option"
  dk_isSubsidized :: "string \<Rightarrow> bool"
  dk_shouldLimit :: "string \<Rightarrow> string \<Rightarrow> int \<Rightarrow> 'l \<Rightarrow> 'l \<times> (thrown + bool)"
  dk_fromBytes :: "8 word list \<Rightarrow> string + eth_data"
  dk_execute :: "sdk_call list \<Rightarrow> sdk_transaction \<Rightarrow> sdk_throw + sdk_response"
  dk_executeAll :: "sdk_call list \<Rightarrow> sdk_transaction \<Rightarrow> sdk_failure + sdk_response list"
  dk_receipt :: "sdk_call list \<Rightarrow> sdk_response \<Rightarrow> sdk_throw + string option"
  dk_fileInfo :: "sdk_call list \<Rightarrow> string \<Rightarrow> int option \<times> (sdk_failure + file_info)"
  dk_record :: "sdk_call list \<Rightarrow> string \<Rightarrow> sdk_failure + tx_record"

section \<open>Fees\<close>

text \<open>The result of an operation on numbers is the nearest double.\<close>

definition fl :: "rat \<Rightarrow> rat" where
  "fl q = (if q = 0 then 0 else if q < 0 then - double_of_pos (- q) else double_of_pos q)"

definition math_round :: "rat \<Rightarrow> int" where
  "math_round q = \<lfloor>q + 1 / 2\<rfloor>"

definition TRANSACTION_GET_RECORD :: rat where "TRANSACTION_GET_RECORD = fl (1 / 100)"
definition FILE_CREATE_PER_5_KB :: rat where "FILE_CREATE_PER_5_KB = fl (951 / 100)"
definition FILE_APPEND_PER_5_KB :: rat where "FILE_APPEND_PER_5_KB = fl (955 / 100)"
definition FILE_APPEND_BASE_FEE :: rat where "FILE_APPEND_BASE_FEE = fl (39 / 10)"
definition FILE_APPEND_RATE_PER_BYTE :: rat where "FILE_APPEND_RATE_PER_BYTE = fl (11 / 10000)"
definition HBAR_TO_TINYBAR_COEF :: rat where "HBAR_TO_TINYBAR_COEF = 100000000"

text \<open>The rate is a positive number.\<close>

definition tinybars_of_cents :: "rat \<Rightarrow> rat \<Rightarrow> int" where
  "tinybars_of_cents cents rate = math_round (fl (fl (cents / rate) * HBAR_TO_TINYBAR_COEF))"

definition estimateFileTransactionsFee :: "nat \<Rightarrow> nat \<Rightarrow> rat \<Rightarrow> int" where
  "estimateFileTransactionsFee callDataSize fileChunkSize rate =
     (let fileAppendTransactions = of_int (\<lfloor>fl (of_nat callDataSize / of_nat fileChunkSize)\<rfloor> - 1);
          lastFileAppendChunkSize = callDataSize mod fileChunkSize;
          lastFileAppendChunkFeeInCents = fl (FILE_APPEND_BASE_FEE + fl (of_nat lastFileAppendChunkSize * FILE_APPEND_RATE_PER_BYTE));
          totalTxFeeInCents = fl (fl (FILE_CREATE_PER_5_KB + fl (FILE_APPEND_PER_5_KB * fileAppendTransactions)) + lastFileAppendChunkFeeInCents)
      in tinybars_of_cents totalTxFeeInCents rate)"

definition calculateTxRecordChargeAmount :: "rat \<Rightarrow> int" where
  "calculateTxRecordChargeAmount exchangeRateInCents = tinybars_of_cents TRANSACTION_GET_RECORD exchangeRateInCents"

definition getTransferAmountSumForAccount :: "tx_record \<Rightarrow> string \<Rightarrow> int" where
  "getTransferAmountSumForAccount transactionRecord accountId =
     foldl (\<lambda>acc (account, amount). acc - amount) 0 (filter (\<lambda>(account, amount). account = accountId \<and> amount < 0) (tr_transfers transactionRecord))"

section \<open>Executing\<close>

definition ask_sdk :: "sdk_call \<Rightarrow> (sdk_call list \<Rightarrow> 'a) \<Rightarrow> ('l, 'a) sdk" where
  "ask_sdk call answer = (\<lambda>s. (s\<lparr>sx_calls := sx_calls s @ [call]\<rparr>, Inr (answer (sx_calls s))))"

definition emit_event :: "sdk_event \<Rightarrow> ('l, unit) sdk" where
  "emit_event e = (\<lambda>s. (s\<lparr>sx_events := sx_events s @ [e]\<rparr>, Inr ()))"

definition should_limit :: "'l sdk_env \<Rightarrow> string \<Rightarrow> string \<Rightarrow> int \<Rightarrow> ('l, bool) sdk" where
  "should_limit env callerName originalCallerAddress estimatedTxFee = (\<lambda>s.
     case dk_shouldLimit env callerName originalCallerAddress estimatedTxFee (sx_limiter s) of (l, r) \<Rightarrow> (s\<lparr>sx_limiter := l\<rparr>, r))"

text \<open>The check before a transaction that may be limited.\<close>

definition check_limit :: "'l sdk_env \<Rightarrow> string \<Rightarrow> string \<Rightarrow> int \<Rightarrow> ('l, unit) sdk" where
  "check_limit env callerName originalCallerAddress estimatedTxFee =
     io_then (should_limit env callerName originalCallerAddress estimatedTxFee) (\<lambda>limited.
       if limited then io_throw (json_error_thrown HBAR_RATE_LIMIT_EXCEEDED) else io_return ())"

definition client_error :: "'l sdk_env \<Rightarrow> sdk_failure \<Rightarrow> string option \<Rightarrow> string option \<Rightarrow> sdk_error" where
  "client_error env f transactionId nodeId = SDKClientError (dk_unknown env) (sf_status f) (sf_message f) (sf_message f) transactionId nodeId"

definition execution_error :: "'l sdk_env \<Rightarrow> string \<Rightarrow> sdk_throw \<Rightarrow> thrown" where
  "execution_error env transactionId e = (case e of
     JsonRpcThrown j \<Rightarrow> json_error_thrown j
   | Failed f \<Rightarrow> RelayError (SdkErr (client_error env f (if transactionId \<noteq> [] then Some transactionId else sf_transactionId f) (sf_nodeAccountId f))))"

fun constructor_name :: "sdk_transaction \<Rightarrow> string" where
  "constructor_name (EthereumTransaction _) = ''EthereumTransaction''"
| "constructor_name (FileCreateTransaction _ _) = ''FileCreateTransaction''"
| "constructor_name (FileAppendTransaction _ _ _ _) = ''FileAppendTransaction''"
| "constructor_name (FileDeleteTransaction _) = ''FileDeleteTransaction''"

definition emit_transaction :: "sdk_transaction \<Rightarrow> string \<Rightarrow> string option \<Rightarrow> string \<Rightarrow> ('l, unit) sdk" where
  "emit_transaction tx transactionId hash originalCallerAddress =
     (if transactionId \<noteq> [] then emit_event (ExecuteTransaction transactionId hash (constructor_name tx) originalCallerAddress) else io_return ())"

text \<open>The event is emitted once there is an id, whatever the receipt says.\<close>

definition executeTransaction :: "'l sdk_env \<Rightarrow> sdk_transaction \<Rightarrow> string \<Rightarrow> bool \<Rightarrow> string \<Rightarrow> ('l, sdk_response) sdk" where
  "executeTransaction env tx callerName shouldThrowHbarLimit originalCallerAddress =
     io_then (if shouldThrowHbarLimit then check_limit env callerName originalCallerAddress 0 else io_return ()) (\<lambda>_.
     io_then (ask_sdk (Executed tx) (\<lambda>calls. dk_execute env calls tx)) (\<lambda>executed. case executed of
       Inl e \<Rightarrow> io_throw (execution_error env [] e)
     | Inr response \<Rightarrow>
         io_then (ask_sdk (ReceiptAsked (rs_transactionId response)) (\<lambda>calls. dk_receipt env calls response)) (\<lambda>receipt.
         io_then (emit_transaction tx (rs_transactionId response) (map_option (\<lambda>h. prepend0x (toHexString h)) (rs_transactionHash response)) originalCallerAddress) (\<lambda>_.
           case receipt of
             Inl e \<Rightarrow> io_throw (execution_error env (rs_transactionId response) e)
           | Inr _ \<Rightarrow> io_return response))))"

fun emit_all :: "sdk_transaction \<Rightarrow> sdk_response list \<Rightarrow> string \<Rightarrow> ('l, unit) sdk" where
  "emit_all tx [] originalCallerAddress = io_return ()"
| "emit_all tx (r # rs) originalCallerAddress =
     io_then (emit_transaction tx (rs_transactionId r) None originalCallerAddress) (\<lambda>_. emit_all tx rs originalCallerAddress)"

text \<open>When one of the transactions fails there are no responses, so there are no events for those that were executed before it.\<close>

definition executeAllTransaction :: "'l sdk_env \<Rightarrow> sdk_transaction \<Rightarrow> string \<Rightarrow> bool \<Rightarrow> string \<Rightarrow> ('l, unit) sdk" where
  "executeAllTransaction env tx callerName shouldThrowHbarLimit originalCallerAddress =
     io_then (if shouldThrowHbarLimit then check_limit env callerName originalCallerAddress 0 else io_return ()) (\<lambda>_.
     io_then (ask_sdk (ExecutedAll tx) (\<lambda>calls. dk_executeAll env calls tx)) (\<lambda>executed. case executed of
       Inl f \<Rightarrow> io_throw (RelayError (SdkErr (client_error env f None (sf_nodeAccountId f))))
     | Inr responses \<Rightarrow> emit_all tx responses originalCallerAddress))"

text \<open>The query for the info of a file. Its payment, when there is one, is reported on every path.\<close>

definition executeQuery :: "'l sdk_env \<Rightarrow> string \<Rightarrow> string \<Rightarrow> ('l, file_info) sdk" where
  "executeQuery env fileId originalCallerAddress =
     io_then (ask_sdk (FileInfoAsked fileId) (\<lambda>calls. dk_fileInfo env calls fileId)) (\<lambda>(queryCost, answer).
       let error = (\<lambda>f. client_error env f None None);
           status = (case answer of Inl f \<Rightarrow> st_name (se_status (error f)) | Inr _ \<Rightarrow> ''SUCCESS'')
       in io_then (case queryCost of Some c \<Rightarrow> if c \<noteq> 0 then emit_event (ExecuteQuery c status originalCallerAddress) else io_return ()
                   | None \<Rightarrow> io_return ()) (\<lambda>_.
         case answer of
           Inl f \<Rightarrow> if isGrpcTimeout (dk_invalidTransactionId env) (error f) then io_throw (json_error_thrown REQUEST_TIMEOUT)
             else io_throw (RelayError (SdkErr (error f)))
         | Inr info \<Rightarrow> io_return info))"

section \<open>Files\<close>

text \<open>An error of the SDK that nothing wraps.\<close>

definition raw_error :: "sdk_throw \<Rightarrow> thrown" where
  "raw_error e = (case e of JsonRpcThrown j \<Rightarrow> json_error_thrown j | Failed f \<Rightarrow> OtherError (sf_message f))"

definition no_cause :: sdk_failure where
  "no_cause = \<lparr>sf_status = None, sf_message = None, sf_nodeAccountId = None, sf_transactionId = None\<rparr>"

definition plain_client_error :: "'l sdk_env \<Rightarrow> string \<Rightarrow> thrown" where
  "plain_client_error env message = RelayError (SdkErr (SDKClientError (dk_unknown env) None None (Some message) None None))"

definition createFile :: "'l sdk_env \<Rightarrow> 8 word list \<Rightarrow> string \<Rightarrow> string \<Rightarrow> rat \<Rightarrow> ('l, string option) sdk" where
  "createFile env callData callerName originalCallerAddress rate =
     (let hexedCallData = toHexString callData; chunk = dk_fileAppendChunkSize env in
      io_then (check_limit env callerName originalCallerAddress (estimateFileTransactionsFee (length hexedCallData) chunk rate)) (\<lambda>_.
      io_then (executeTransaction env (FileCreateTransaction (take chunk hexedCallData) (dk_operatorPublicKey env)) callerName False originalCallerAddress) (\<lambda>response.
      io_then (ask_sdk (ReceiptAsked (rs_transactionId response)) (\<lambda>calls. dk_receipt env calls response)) (\<lambda>receipt. case receipt of
        Inl e \<Rightarrow> io_throw (raw_error e)
      | Inr None \<Rightarrow> io_return None
      | Inr (Some fileId) \<Rightarrow>
          io_then (if length callData > chunk
            then executeAllTransaction env (FileAppendTransaction fileId (drop chunk hexedCallData) chunk (dk_maxChunks env)) callerName False originalCallerAddress
            else io_return ()) (\<lambda>_.
          io_then (executeQuery env fileId originalCallerAddress) (\<lambda>fileInfo.
            if fi_size fileInfo = 0 then io_throw (plain_client_error env ''Created file is empty.'')
            else io_return (Some fileId)))))))"

text \<open>Whatever goes wrong while a file is deleted is only logged.\<close>

definition deleteFile :: "'l sdk_env \<Rightarrow> string \<Rightarrow> string \<Rightarrow> string \<Rightarrow> ('l, unit) sdk" where
  "deleteFile env fileId callerName originalCallerAddress = io_catch
     (io_then (executeTransaction env (FileDeleteTransaction fileId) callerName False originalCallerAddress) (\<lambda>_.
      io_then (executeQuery env fileId originalCallerAddress) (\<lambda>_. io_return ()))) (\<lambda>_. io_return ())"

section \<open>Submitting an Ethereum transaction\<close>

text \<open>The call data goes with the transaction, or into a file when it is too long and jumbo transactions are off.\<close>

definition carry_call_data :: "'l sdk_env \<Rightarrow> eth_data \<Rightarrow> string \<Rightarrow> string \<Rightarrow> rat \<Rightarrow> ('l, 8 word list \<times> string option) sdk" where
  "carry_call_data env d callerName originalCallerAddress rate =
     (if dk_jumboTxEnabled env \<or> length (ed_callData d) \<le> dk_fileAppendChunkSize env
      then io_return (ed_toBytes d (ed_callData d), None)
      else io_then (createFile env (ed_callData d) callerName originalCallerAddress rate) (\<lambda>file. case file of
          None \<Rightarrow> io_throw (plain_client_error env ''No fileId created for transaction. '')
        | Some fileId \<Rightarrow> io_return (ed_toBytes d [], Some fileId)))"

definition max_transaction_fee :: "'l sdk_env \<Rightarrow> int \<Rightarrow> thrown + int" where
  "max_transaction_fee env networkGasPriceInWeiBars =
     map_sum (\<lambda>m. js_type_error m) (\<lambda>p. double_of_int (p * dk_maxFeeThreshold env)) (weibarHexToTinyBarInt (NumberV networkGasPriceInWeiBars))"

definition submitEthereumTransaction ::
    "'l sdk_env \<Rightarrow> 8 word list \<Rightarrow> string \<Rightarrow> string \<Rightarrow> int \<Rightarrow> rat \<Rightarrow> ('l, string option \<times> sdk_response) sdk" where
  "submitEthereumTransaction env transactionBuffer callerName originalCallerAddress networkGasPriceInWeiBars rate =
     (case dk_fromBytes env transactionBuffer of
        Inl m \<Rightarrow> io_throw (js_type_error m)
      | Inr d \<Rightarrow>
          io_then (carry_call_data env d callerName originalCallerAddress rate) (\<lambda>(bytes, fileId).
          io_then (io_pure (max_transaction_fee env networkGasPriceInWeiBars)) (\<lambda>fee.
          io_then (executeTransaction env (EthereumTransaction \<lparr>es_data = bytes, es_callDataFileId = fileId, es_maxTransactionFee = fee,
              es_maxGasAllowance = (if dk_isSubsidized env (ed_to d) then Some (dk_maxGasAllowanceHbar env) else None)\<rparr>)
            callerName True originalCallerAddress) (\<lambda>response. io_return (fileId, response)))))"

section \<open>Records\<close>

record record_metric =
  rm_transactionFee :: int
  rm_txRecordChargeAmount :: int
  rm_gasUsed :: int
  rm_status :: string

definition getTransactionRecordMetrics :: "'l sdk_env \<Rightarrow> string \<Rightarrow> string \<Rightarrow> ('l, record_metric) sdk" where
  "getTransactionRecordMetrics env transactionId operatorAccountId =
     io_then (ask_sdk (RecordAsked transactionId) (\<lambda>calls. dk_record env calls transactionId)) (\<lambda>answer. case answer of
       Inl f \<Rightarrow> io_throw (RelayError (SdkErr (client_error env f None None)))
     | Inr r \<Rightarrow> io_return \<lparr>rm_transactionFee = getTransferAmountSumForAccount r operatorAccountId,
         rm_txRecordChargeAmount = calculateTxRecordChargeAmount (tr_exchangeRateInCents r),
         rm_gasUsed = (case tr_gasUsed r of Some g \<Rightarrow> g | None \<Rightarrow> 0), rm_status = tr_status r\<rparr>)"

section \<open>Renewing the client\<close>

record hapi_config =
  hc_transactionReset :: int
  hc_durationReset :: int
  hc_errorReset :: "int list"

text \<open>\<open>hp_client\<close> counts the clients made so far; the current one is the last.\<close>

record hapi =
  hp_transactionCount :: int
  hp_resetDuration :: int
  hp_shouldReset :: bool
  hp_client :: nat

definition isTimeResetDisabled :: "hapi_config \<Rightarrow> bool" where
  "isTimeResetDisabled cfg \<longleftrightarrow> hc_durationReset cfg = 0"

definition isReinitEnabled :: "hapi_config \<Rightarrow> bool" where
  "isReinitEnabled cfg \<longleftrightarrow> \<not> (hc_transactionReset cfg = 0 \<and> hc_errorReset cfg = [] \<and> isTimeResetDisabled cfg)"

definition HAPIService :: "hapi_config \<Rightarrow> int \<Rightarrow> hapi" where
  "HAPIService cfg now = \<lparr>hp_transactionCount = hc_transactionReset cfg, hp_resetDuration = now + hc_durationReset cfg,
     hp_shouldReset = False, hp_client = 0\<rparr>"

definition decrementTransactionCounter :: "hapi \<Rightarrow> hapi" where
  "decrementTransactionCounter h =
     (if hp_transactionCount h = 0 then h
      else let n = hp_transactionCount h - 1 in h\<lparr>hp_transactionCount := n, hp_shouldReset := hp_shouldReset h \<or> n \<le> 0\<rparr>)"

definition decrementErrorCounter :: "hapi_config \<Rightarrow> int \<Rightarrow> hapi \<Rightarrow> hapi" where
  "decrementErrorCounter cfg statusCode h =
     (if \<not> isReinitEnabled cfg \<or> hc_errorReset cfg = [] then h
      else if statusCode \<in> set (hc_errorReset cfg) then h\<lparr>hp_shouldReset := True\<rparr> else h)"

definition checkResetDuration :: "hapi_config \<Rightarrow> int \<Rightarrow> hapi \<Rightarrow> hapi" where
  "checkResetDuration cfg now h =
     (if isTimeResetDisabled cfg then h else if hp_resetDuration h < now then h\<lparr>hp_shouldReset := True\<rparr> else h)"

definition resetClient :: "hapi_config \<Rightarrow> int \<Rightarrow> hapi \<Rightarrow> hapi" where
  "resetClient cfg now h = h\<lparr>hp_client := Suc (hp_client h), hp_transactionCount := hc_transactionReset cfg,
     hp_resetDuration := now + hc_durationReset cfg, hp_shouldReset := False\<rparr>"

text \<open>The client a call is made with.\<close>

definition getSDKClient :: "hapi_config \<Rightarrow> int \<Rightarrow> hapi \<Rightarrow> hapi \<times> nat" where
  "getSDKClient cfg now h =
     (if \<not> isReinitEnabled cfg then (h, hp_client h)
      else let h1 = (if hp_shouldReset h then resetClient cfg now h else h);
               h2 = checkResetDuration cfg now (decrementTransactionCounter h1)
           in (h2, hp_client h2))"

text \<open>The wrappers of the client's operations: each is run with the client it gets.\<close>

definition with_sdk_client :: "hapi_config \<Rightarrow> int \<Rightarrow> (nat \<Rightarrow> 'a) \<Rightarrow> hapi \<Rightarrow> hapi \<times> 'a" where
  "with_sdk_client cfg now operation h = map_prod id operation (getSDKClient cfg now h)"

text \<open>What happens to the service: calls, each at its time, and errors that are reported to it.\<close>

datatype hapi_event = Call int | ErrorReported int

fun hapi_run :: "hapi_config \<Rightarrow> hapi_event list \<Rightarrow> hapi \<Rightarrow> hapi \<times> nat list" where
  "hapi_run cfg [] h = (h, [])"
| "hapi_run cfg (Call now # es) h = (let (h1, c) = getSDKClient cfg now h; (h2, cs) = hapi_run cfg es h1 in (h2, c # cs))"
| "hapi_run cfg (ErrorReported code # es) h = hapi_run cfg es (decrementErrorCounter cfg code h)"

section \<open>A client is not used for too long\<close>

text \<open>The calls a client has served and those it may still serve.\<close>

definition use_inv :: "hapi_config \<Rightarrow> hapi \<Rightarrow> nat \<Rightarrow> bool" where
  "use_inv cfg h used \<longleftrightarrow> 0 \<le> hp_transactionCount h \<and> int used + hp_transactionCount h = hc_transactionReset cfg \<and>
     (hp_transactionCount h = 0 \<longrightarrow> hp_shouldReset h)"

lemma getSDKClient_use:
  assumes "use_inv cfg h used" and "0 < hc_transactionReset cfg" and "getSDKClient cfg now h = (h', c)"
  shows "hp_client h' = c \<and> (if hp_shouldReset h then c = Suc (hp_client h) \<and> use_inv cfg h' 1 else c = hp_client h \<and> use_inv cfg h' (Suc used))"
  using assms
  by (auto simp: getSDKClient_def isReinitEnabled_def use_inv_def Let_def resetClient_def decrementTransactionCounter_def checkResetDuration_def split: if_splits)

lemma error_keeps_use: "use_inv cfg h used \<Longrightarrow> use_inv cfg (decrementErrorCounter cfg code h) used"
  and error_same_client: "hp_client (decrementErrorCounter cfg code h) = hp_client h"
  by (auto simp: decrementErrorCounter_def use_inv_def)

lemma run_uses:
  assumes "use_inv cfg h used" and "0 < hc_transactionReset cfg" and "hapi_run cfg es h = (h', cs)"
  shows "int (used + count_list cs (hp_client h)) \<le> hc_transactionReset cfg \<and> (\<forall>c. int (count_list cs c) \<le> hc_transactionReset cfg) \<and>
    (\<forall>c < hp_client h. count_list cs c = 0)"
  using assms(1,3)
proof (induction es arbitrary: h used cs)
  case (Cons e es)
  show ?case
  proof (cases e)
    case (Call now)
    obtain h1 c where get: "getSDKClient cfg now h = (h1, c)" by fastforce
    obtain cs1 where rest: "hapi_run cfg es h1 = (h', cs1)" "cs = c # cs1" using Cons.prems(2) by (auto simp: Call get split: prod.splits)
    note step = getSDKClient_use [OF Cons.prems(1) assms(2) get]
    have start: "int used \<le> hc_transactionReset cfg" using Cons.prems(1) by (simp add: use_inv_def)
    show ?thesis
    proof (cases "hp_shouldReset h")
      case True
      then have c: "hp_client h1 = Suc (hp_client h)" "c = Suc (hp_client h)" "use_inv cfg h1 1" using step by auto
      show ?thesis using Cons.IH [OF c(3) rest(1)] c(1,2) start by (auto simp: rest(2))
    next
      case False
      then have c: "hp_client h1 = hp_client h" "c = hp_client h" "use_inv cfg h1 (Suc used)" using step by auto
      show ?thesis using Cons.IH [OF c(3) rest(1)] c(1,2) by (auto simp: rest(2))
    qed
  next
    case (ErrorReported code)
    then show ?thesis using Cons.IH [OF error_keeps_use [OF Cons.prems(1)]] Cons.prems(2) by (simp add: error_same_client)
  qed
qed (use assms(1) in \<open>auto simp: use_inv_def\<close>)

lemma run_sorted_from: "hapi_run cfg es h = (h', cs) \<Longrightarrow> sorted (hp_client h # cs)"
proof (induction es arbitrary: h cs)
  case (Cons e es)
  show ?case
  proof (cases e)
    case (Call now)
    obtain h1 c where get: "getSDKClient cfg now h = (h1, c)" by fastforce
    obtain cs1 where rest: "hapi_run cfg es h1 = (h', cs1)" "cs = c # cs1" using Cons.prems by (auto simp: Call get split: prod.splits)
    have "hp_client h1 = c \<and> hp_client h \<le> c"
      using get by (auto simp: getSDKClient_def Let_def resetClient_def decrementTransactionCounter_def checkResetDuration_def split: if_splits)
    then show ?thesis using Cons.IH [OF rest(1)] rest(2) by auto
  next
    case (ErrorReported code)
    then show ?thesis using Cons.IH [of "decrementErrorCounter cfg code h"] Cons.prems by (simp add: error_same_client)
  qed
qed simp

lemma run_sorted: "hapi_run cfg es h = (h', cs) \<Longrightarrow> sorted cs"
  using run_sorted_from by fastforce

text \<open>C31: A client of the consensus nodes serves at most the configured number of calls: with a positive limit, in any sequence of calls and
  reported errors from the start of the service, at whatever times, no client is handed out more often, and each call gets the client before or a
  later one.\<close>

theorem client_bounded_use:
  assumes "0 < hc_transactionReset cfg" and "hapi_run cfg es (HAPIService cfg start) = (h, cs)"
  shows "int (count_list cs c) \<le> hc_transactionReset cfg \<and> sorted cs"
proof -
  have "use_inv cfg (HAPIService cfg start) 0" using assms(1) by (simp add: use_inv_def HAPIService_def)
  then show ?thesis using run_uses [OF _ assms] run_sorted [OF assms(2)] by blast
qed

theorem client_bounded_use_witness:
  "\<exists>h cs. hapi_run \<lparr>hc_transactionReset = 2, hc_durationReset = 0, hc_errorReset = [21]\<rparr> [Call 0, Call 1, Call 2, ErrorReported 21, Call 3]
      (HAPIService \<lparr>hc_transactionReset = 2, hc_durationReset = 0, hc_errorReset = [21]\<rparr> 0) = (h, cs) \<and> cs = [0, 0, 1, 2] \<and> int (count_list cs 0) \<le> 2 \<and> sorted cs"
proof -
  let ?cfg = "\<lparr>hc_transactionReset = 2, hc_durationReset = 0, hc_errorReset = [21]\<rparr>"
  let ?es = "[Call 0, Call 1, Call 2, ErrorReported 21, Call 3]"
  obtain h cs where run: "hapi_run ?cfg ?es (HAPIService ?cfg 0) = (h, cs)" by fastforce
  have "snd (hapi_run ?cfg ?es (HAPIService ?cfg 0)) = [0, 0, 1, 2]" by code_simp
  then have "cs = [0, 0, 1, 2]" by (simp only: run snd_conv)
  moreover have "int (count_list cs 0) \<le> 2 \<and> sorted cs" using client_bounded_use [OF _ run, of 0] by simp
  ultimately show ?thesis using run by blast
qed

text \<open>An error of the list renews the client at the next call.\<close>

lemma error_renews:
  assumes "code \<in> set (hc_errorReset cfg)" and "getSDKClient cfg now (decrementErrorCounter cfg code h) = (h', c)"
  shows "c = Suc (hp_client h)"
proof -
  have "isReinitEnabled cfg" using assms(1) by (auto simp: isReinitEnabled_def)
  then show ?thesis using assms
    by (auto simp: getSDKClient_def decrementErrorCounter_def Let_def resetClient_def decrementTransactionCounter_def checkResetDuration_def split: if_splits)
qed

section \<open>What is executed and what is reported\<close>

text \<open>The transactions handed to the network, in order.\<close>

definition executed :: "sdk_call list \<Rightarrow> sdk_transaction list" where
  "executed calls = concat (map (\<lambda>c. case c of Executed tx \<Rightarrow> [tx] | ExecutedAll tx \<Rightarrow> [tx] | _ \<Rightarrow> []) calls)"

lemma executed_append [simp]: "executed (xs @ ys) = executed xs @ executed ys"
  by (simp add: executed_def)

lemma executed_simps [simp]:
  "executed [] = []" "executed (Executed tx # cs) = tx # executed cs" "executed (ExecutedAll tx # cs) = tx # executed cs"
  "executed (ReceiptAsked i # cs) = executed cs" "executed (FileInfoAsked f # cs) = executed cs" "executed (RecordAsked i # cs) = executed cs"
  by (simp_all add: executed_def)

lemma ask_sdk_apply [io_simps]: "ask_sdk call answer s = (s\<lparr>sx_calls := sx_calls s @ [call]\<rparr>, Inr (answer (sx_calls s)))"
  by (simp add: ask_sdk_def)

lemma emit_event_apply [io_simps]: "emit_event e s = (s\<lparr>sx_events := sx_events s @ [e]\<rparr>, Inr ())"
  by (simp add: emit_event_def)

text \<open>The event of a transaction is emitted exactly when the network gave it an id, whether its receipt is good or not.\<close>

definition transaction_event :: "sdk_transaction \<Rightarrow> string \<Rightarrow> sdk_throw + sdk_response \<Rightarrow> sdk_event list" where
  "transaction_event tx caller answer = (case answer of
     Inl e \<Rightarrow> []
   | Inr r \<Rightarrow> if rs_transactionId r = [] then []
       else [ExecuteTransaction (rs_transactionId r) (map_option (\<lambda>h. prepend0x (toHexString h)) (rs_transactionHash r)) (constructor_name tx) caller])"

lemma executeTransaction_unchecked:
  assumes "executeTransaction env tx callerName False caller s = (s', r)"
  shows "executed (sx_calls s') = executed (sx_calls s) @ [tx]"
    and "sx_events s' = sx_events s @ transaction_event tx caller (dk_execute env (sx_calls s) tx)"
    and "sx_limiter s' = sx_limiter s"
    and "r = Inr resp \<Longrightarrow> dk_execute env (sx_calls s) tx = Inr resp"
  using assms
  by (auto simp: executeTransaction_def io_simps emit_transaction_def transaction_event_def split: sum.splits if_splits)

lemma executeTransaction_checked:
  "executeTransaction env tx callerName True caller s = (case check_limit env callerName caller 0 s of
     (s1, Inl e) \<Rightarrow> (s1, Inl e) | (s1, Inr u) \<Rightarrow> executeTransaction env tx callerName False caller s1)"
  by (simp add: executeTransaction_def io_simps split: prod.splits sum.splits)

lemma check_limit_keeps:
  assumes "check_limit env callerName caller fee s = (s', r)"
  shows "sx_calls s' = sx_calls s" and "sx_events s' = sx_events s"
  using assms by (auto simp: check_limit_def should_limit_def io_simps split: prod.splits sum.splits if_splits)

lemma executeAll_calls:
  assumes "executeAllTransaction env tx callerName False caller s = (s', r)"
  shows "executed (sx_calls s') = executed (sx_calls s) @ [tx]"
proof -
  have keep: "emit_all tx rs caller t = (t', q) \<Longrightarrow> sx_calls t' = sx_calls t" for rs t t' q
    by (induction rs arbitrary: t t' q) (auto simp: io_simps emit_transaction_def split: prod.splits sum.splits if_splits)
  show ?thesis using assms keep by (fastforce simp: executeAllTransaction_def io_simps split: sum.splits)
qed

lemma executeQuery_calls:
  assumes "executeQuery env fid caller s = (s', r)"
  shows "executed (sx_calls s') = executed (sx_calls s)"
  using assms by (auto simp: executeQuery_def io_simps Let_def split: prod.splits sum.splits option.splits if_splits)

text \<open>A file is made of the first chunk of the call data, in hexadecimal, and what is appended to it.\<close>

lemma createFile_contents:
  assumes "createFile env callData callerName caller rate s = (s', Inr (Some fid))" and "dk_fileAppendChunkSize env < length callData"
  shows "\<exists>head tail. executed (sx_calls s') = executed (sx_calls s) @
      [FileCreateTransaction head (dk_operatorPublicKey env), FileAppendTransaction fid tail (dk_fileAppendChunkSize env) (dk_maxChunks env)] \<and>
    head @ tail = toHexString callData \<and> length head \<le> dk_fileAppendChunkSize env"
proof -
  let ?chunk = "dk_fileAppendChunkSize env"
  let ?hex = "toHexString callData"
  let ?create = "FileCreateTransaction (take ?chunk ?hex) (dk_operatorPublicKey env)"
  let ?append = "FileAppendTransaction fid (drop ?chunk ?hex) ?chunk (dk_maxChunks env)"
  obtain s1 s2 s3 resp rc where
    limit: "check_limit env callerName caller (estimateFileTransactionsFee (length ?hex) ?chunk rate) s = (s1, Inr ())"
    and create: "executeTransaction env ?create callerName False caller s1 = (s2, Inr resp)"
    and receipt: "ask_sdk (ReceiptAsked (rs_transactionId resp)) (\<lambda>calls. dk_receipt env calls resp) s2 = (s3, Inr rc)"
    and rest: "(case rc of
        Inl e \<Rightarrow> io_throw (raw_error e)
      | Inr None \<Rightarrow> io_return None
      | Inr (Some fileId) \<Rightarrow>
          io_then (if length callData > ?chunk
            then executeAllTransaction env (FileAppendTransaction fileId (drop ?chunk ?hex) ?chunk (dk_maxChunks env)) callerName False caller
            else io_return ()) (\<lambda>_.
          io_then (executeQuery env fileId caller) (\<lambda>fileInfo.
            if fi_size fileInfo = 0 then io_throw (plain_client_error env ''Created file is empty.'')
            else io_return (Some fileId)))) s3 = (s', Inr (Some fid))"
    using assms(1) unfolding createFile_def Let_def io_then_eq_Inr by auto
  obtain x where rc: "rc = Inr (Some x)" using rest by (cases rc) (auto split: option.splits)
  obtain s4 s5 info where append: "executeAllTransaction env ?append callerName False caller s3 = (s4, Inr ())"
    and info: "executeQuery env fid caller s4 = (s5, Inr info)" and last: "s' = s5"
    using rest assms(2) by (auto simp: rc io_then_eq_Inr split: if_splits)
  have "executed (sx_calls s') = executed (sx_calls s) @ [?create, ?append]"
    using check_limit_keeps(1) [OF limit] executeTransaction_unchecked(1) [OF create] receipt executeAll_calls [OF append] executeQuery_calls [OF info] last
    by (auto simp: ask_sdk_apply)
  then show ?thesis by (intro exI [of _ "take ?chunk ?hex"] exI [of _ "drop ?chunk ?hex"]) simp
qed

text \<open>C21: A submitted transaction reaches the network with all of its call data. With jumbo transactions, or call data of at most one chunk, the one
  transaction executed carries the data as it is; otherwise a file is created and appended to, whose two contents are together the call data in
  hexadecimal, and the transaction names that file and has the encoding without call data. The file id is returned with the response.\<close>

theorem call_data_submitted:
  assumes "submitEthereumTransaction env buffer callerName caller price rate s = (s', Inr (fileId, response))" and "dk_fromBytes env buffer = Inr d"
  shows "\<exists>sub. (case fileId of
      None \<Rightarrow> (dk_jumboTxEnabled env \<or> length (ed_callData d) \<le> dk_fileAppendChunkSize env) \<and> es_data sub = ed_toBytes d (ed_callData d) \<and>
        executed (sx_calls s') = executed (sx_calls s) @ [EthereumTransaction sub]
    | Some fid \<Rightarrow> es_data sub = ed_toBytes d [] \<and> (\<exists>head tail. head @ tail = toHexString (ed_callData d) \<and>
        executed (sx_calls s') = executed (sx_calls s) @ [FileCreateTransaction head (dk_operatorPublicKey env),
          FileAppendTransaction fid tail (dk_fileAppendChunkSize env) (dk_maxChunks env), EthereumTransaction sub])) \<and>
    es_callDataFileId sub = fileId"
proof -
  obtain s1 s2 bytes fee where
    carry: "carry_call_data env d callerName caller rate s = (s1, Inr (bytes, fileId))"
    and run: "executeTransaction env (EthereumTransaction \<lparr>es_data = bytes, es_callDataFileId = fileId, es_maxTransactionFee = fee,
              es_maxGasAllowance = (if dk_isSubsidized env (ed_to d) then Some (dk_maxGasAllowanceHbar env) else None)\<rparr>)
            callerName True caller s1 = (s', Inr response)"
    using assms by (auto simp: submitEthereumTransaction_def io_then_eq_Inr)
  let ?sub = "\<lparr>es_data = bytes, es_callDataFileId = fileId, es_maxTransactionFee = fee,
              es_maxGasAllowance = (if dk_isSubsidized env (ed_to d) then Some (dk_maxGasAllowanceHbar env) else None)\<rparr>"
  obtain s2 u where limit: "check_limit env callerName caller 0 s1 = (s2, Inr u)"
    and exec: "executeTransaction env (EthereumTransaction ?sub) callerName False caller s2 = (s', Inr response)"
    using run by (auto simp: executeTransaction_checked split: prod.splits sum.splits)
  have last: "executed (sx_calls s') = executed (sx_calls s1) @ [EthereumTransaction ?sub]"
    using executeTransaction_unchecked(1) [OF exec] check_limit_keeps(1) [OF limit] by simp
  show ?thesis
  proof (cases "dk_jumboTxEnabled env \<or> length (ed_callData d) \<le> dk_fileAppendChunkSize env")
    case True
    then have "s1 = s" "bytes = ed_toBytes d (ed_callData d)" "fileId = None" using carry by (auto simp: carry_call_data_def)
    then show ?thesis using last True by (intro exI [of _ ?sub]) simp
  next
    case False
    then obtain fid where created: "createFile env (ed_callData d) callerName caller rate s = (s1, Inr (Some fid))"
      and data: "bytes = ed_toBytes d []" "fileId = Some fid"
      using carry by (auto simp: carry_call_data_def io_then_eq_Inr split: option.splits)
    obtain head tail where "executed (sx_calls s1) = executed (sx_calls s) @ [FileCreateTransaction head (dk_operatorPublicKey env),
        FileAppendTransaction fid tail (dk_fileAppendChunkSize env) (dk_maxChunks env)]" "head @ tail = toHexString (ed_callData d)"
      using createFile_contents [OF created] False by auto
    then show ?thesis using last data by (intro exI [of _ ?sub]) auto
  qed
qed

section \<open>The limit on expenses\<close>

text \<open>
  The limiter of \<open>HbarLimiter\<close> as the check of the client, at one instant and for one client. The reset of the limiter returns, as its
  duration is positive; an error of the database is an error without a class.
\<close>

definition hbar_limit_service :: "limiter_config \<Rightarrow> int \<Rightarrow> string \<Rightarrow> string \<Rightarrow> string \<Rightarrow> int \<Rightarrow> limiter \<Rightarrow> limiter \<times> (thrown + bool)" where
  "hbar_limit_service cfg now ipAddress callerName originalCallerAddress estimatedTxFee l =
     (case shouldLimit cfg now ''TRANSACTION'' callerName originalCallerAddress ipAddress estimatedTxFee l of
        Some (Inr (limited, l')) \<Rightarrow> (l', Inr limited)
      | _ \<Rightarrow> (l, Inl (OtherError None)))"

lemma limited_check:
  assumes "\<And>fee. \<exists>l'. dk_shouldLimit env callerName caller fee (sx_limiter s) = (l', Inr True)"
  shows "\<exists>s'. check_limit env callerName caller fee s = (s', Inl (json_error_thrown HBAR_RATE_LIMIT_EXCEEDED)) \<and>
    sx_calls s' = sx_calls s \<and> sx_events s' = sx_events s"
proof -
  obtain l' where "dk_shouldLimit env callerName caller fee (sx_limiter s) = (l', Inr True)" using assms by blast
  then show ?thesis by (simp add: check_limit_def should_limit_def io_simps)
qed

lemma limited_submission:
  assumes "\<And>fee. \<exists>l'. dk_shouldLimit env callerName caller fee (sx_limiter s) = (l', Inr True)"
    and "dk_fromBytes env buffer = Inr d" and "max_transaction_fee env price = Inr fee"
  shows "\<exists>s'. submitEthereumTransaction env buffer callerName caller price rate s = (s', Inl (json_error_thrown HBAR_RATE_LIMIT_EXCEEDED)) \<and>
    sx_calls s' = sx_calls s \<and> sx_events s' = sx_events s"
proof -
  note check = limited_check [of env callerName caller s, OF assms(1)]
  obtain s1 where s1: "check_limit env callerName caller 0 s = (s1, Inl (json_error_thrown HBAR_RATE_LIMIT_EXCEEDED))"
    "sx_calls s1 = sx_calls s \<and> sx_events s1 = sx_events s" using check by blast
  obtain s2 where s2: "check_limit env callerName caller (estimateFileTransactionsFee (length (toHexString (ed_callData d))) (dk_fileAppendChunkSize env) rate) s =
      (s2, Inl (json_error_thrown HBAR_RATE_LIMIT_EXCEEDED))" "sx_calls s2 = sx_calls s \<and> sx_events s2 = sx_events s" using check by blast
  show ?thesis
    using s1 s2
    by (auto simp: submitEthereumTransaction_def assms(2,3) carry_call_data_def createFile_def Let_def executeTransaction_checked io_then_apply)
qed

text \<open>C20: Nothing is sent once the operator's budget is used up. With the HBAR limiter as the check, between resets, and as soon as the operator's
  plan shows the total budget or more, a transaction that is submitted ends with the error for the limit: no transaction of any kind, also none
  that makes a file of its call data, has been handed to the network, and no cost is reported.\<close>

theorem exhausted_budget_stops:
  assumes "isEnabled cfg" and "operator_linked cfg (hl_db (sx_limiter s)) op" and "now < hl_reset (sx_limiter s)"
    and "lc_limits cfg OPERATOR \<le> amount_of (hl_db (sx_limiter s)) op"
    and "dk_shouldLimit env = hbar_limit_service cfg now ip" and "dk_fromBytes env buffer = Inr d" and "max_transaction_fee env price = Inr fee"
  shows "\<exists>s'. submitEthereumTransaction env buffer callerName caller price rate s = (s', Inl (json_error_thrown HBAR_RATE_LIMIT_EXCEEDED)) \<and>
    sx_calls s' = sx_calls s \<and> sx_events s' = sx_events s"
proof (rule limited_submission [OF _ assms(6,7)])
  fix f
  show "\<exists>l'. dk_shouldLimit env callerName caller f (sx_limiter s) = (l', Inr True)"
    using assms(1,4) totalBudget_open [OF assms(3) operator_linked_plan [OF assms(2)], of "''TRANSACTION''" callerName f ip]
    by (simp add: assms(5) hbar_limit_service_def shouldLimit_def Let_def)
qed

section \<open>Accounting\<close>

text \<open>
  The listener of the events (\<open>lib/services/metricService/metricService.ts\<close>): the expenses of a transaction are added to the limiter and observed.
  The metrics of the record are an argument, none when they could not be fetched.
\<close>

record metric_state =
  me_limiter :: limiter
  me_observed :: "(string \<times> string \<times> string \<times> int \<times> int) list"

definition addExpenseAndCaptureMetrics ::
    "limiter_config \<Rightarrow> int \<Rightarrow> string \<Rightarrow> string \<Rightarrow> string \<Rightarrow> string \<Rightarrow> int \<Rightarrow> int \<Rightarrow> string option \<Rightarrow> metric_state \<Rightarrow> hbar_error + metric_state" where
  "addExpenseAndCaptureMetrics cfg now ipAddress executionMode txConstructorName status cost gasUsed originalCallerAddress st =
     res_bind (addExpense cfg now cost (case originalCallerAddress of Some a \<Rightarrow> a | None \<Rightarrow> []) ipAddress (me_limiter st)) (\<lambda>l.
       Inr (st\<lparr>me_limiter := l, me_observed := me_observed st @ [(executionMode, txConstructorName, status, cost, gasUsed)]\<rparr>))"

definition captureTransactionMetrics ::
    "limiter_config \<Rightarrow> int \<Rightarrow> string \<Rightarrow> string \<Rightarrow> string \<Rightarrow> record_metric option \<Rightarrow> metric_state \<Rightarrow> hbar_error + metric_state" where
  "captureTransactionMetrics cfg now ipAddress txConstructorName originalCallerAddress metrics st = (case metrics of
     None \<Rightarrow> Inr st
   | Some r \<Rightarrow>
       res_bind (if rm_transactionFee r \<noteq> 0
           then addExpenseAndCaptureMetrics cfg now ipAddress ''TRANSACTION'' txConstructorName (rm_status r) (rm_transactionFee r) (rm_gasUsed r)
             (Some originalCallerAddress) st
           else Inr st) (\<lambda>st1.
         if rm_txRecordChargeAmount r \<noteq> 0
         then addExpenseAndCaptureMetrics cfg now ipAddress ''RECORD'' txConstructorName (rm_status r) (rm_txRecordChargeAmount r) 0
           (Some originalCallerAddress) st1
         else Inr st1))"

text \<open>What a transaction cost, its fee and the charge for its record, is what the plans of the operator and of the sender show in addition.\<close>

lemma captured_expense:
  assumes "isEnabled cfg" and "ids_ok (hl_db (me_limiter st))" and "operator_linked cfg (hl_db (me_limiter st)) op"
    and "plan_of (hl_db (me_limiter st)) caller ip = Some i" and "i \<noteq> op"
  shows "\<exists>st'. captureTransactionMetrics cfg now ip ctor caller (Some r) st = Inr st' \<and>
    (\<forall>j \<in> {op, i}. amount_of (hl_db (me_limiter st')) j =
      amount_of (hl_db (me_limiter st)) j + rm_transactionFee r + rm_txRecordChargeAmount r)"
proof -
  have add: "\<exists>st2. (if c \<noteq> 0 then addExpenseAndCaptureMetrics cfg now ip mode ctor status c gas (Some caller) st1 else Inr st1) = Inr st2 \<and>
      same_plans (me_limiter st1) (me_limiter st2) \<and>
      (\<forall>j \<in> {op, i}. amount_of (hl_db (me_limiter st2)) j = amount_of (hl_db (me_limiter st1)) j + c)"
    if same: "same_plans (me_limiter st) (me_limiter st1)" for c mode status gas st1
  proof -
    note keep = same_plans_keeps [OF same]
    have "operator_linked cfg (hl_db (me_limiter st1)) op" "ids_ok (hl_db (me_limiter st1))" "plan_of (hl_db (me_limiter st1)) caller ip = Some i"
      using keep assms(2-4) by simp_all
    then show ?thesis
      using addExpense_ok [OF assms(1), of "me_limiter st1" ip op caller i now c] operator_linked_plan assms(5)
      by (auto simp: addExpenseAndCaptureMetrics_def same_plans_def)
  qed
  have refl: "same_plans (me_limiter st) (me_limiter st)" by (simp add: same_plans_def)
  obtain st1 where st1: "(if rm_transactionFee r \<noteq> 0 then addExpenseAndCaptureMetrics cfg now ip ''TRANSACTION'' ctor (rm_status r) (rm_transactionFee r)
      (rm_gasUsed r) (Some caller) st else Inr st) = Inr st1" "same_plans (me_limiter st) (me_limiter st1)"
    "\<forall>j \<in> {op, i}. amount_of (hl_db (me_limiter st1)) j = amount_of (hl_db (me_limiter st)) j + rm_transactionFee r"
    using add [OF refl] by blast
  obtain st2 where st2: "(if rm_txRecordChargeAmount r \<noteq> 0 then addExpenseAndCaptureMetrics cfg now ip ''RECORD'' ctor (rm_status r)
      (rm_txRecordChargeAmount r) 0 (Some caller) st1 else Inr st1) = Inr st2"
    "\<forall>j \<in> {op, i}. amount_of (hl_db (me_limiter st2)) j = amount_of (hl_db (me_limiter st1)) j + rm_txRecordChargeAmount r"
    using add [OF st1(2)] by blast
  have "captureTransactionMetrics cfg now ip ctor caller (Some r) st = Inr st2"
    using st1(1) st2(1) by (simp add: captureTransactionMetrics_def)
  then show ?thesis using st1(3) st2(2) by auto
qed

text \<open>When a part of the appended data fails there is no event for the parts that were executed and paid before it.\<close>

lemma failed_append_not_reported:
  assumes "dk_executeAll env (sx_calls s) tx = Inl f"
  shows "\<exists>s'. executeAllTransaction env tx callerName False caller s = (s', Inl (RelayError (SdkErr (client_error env f None (sf_nodeAccountId f))))) \<and>
    sx_events s' = sx_events s"
  using assms by (simp add: executeAllTransaction_def io_simps)

text \<open>When the transaction fails after its file was made, the id of the file is lost, and the file is not deleted.\<close>

lemma file_left_behind:
  assumes "dk_fromBytes env buffer = Inr d" and "\<not> dk_jumboTxEnabled env" and "dk_fileAppendChunkSize env < length (ed_callData d)"
    and "createFile env (ed_callData d) callerName caller rate s = (s1, Inr (Some fid))" and "max_transaction_fee env price = Inr fee"
    and "dk_shouldLimit env callerName caller 0 (sx_limiter s1) = (l', Inr True)"
  shows "\<exists>s' head tail. submitEthereumTransaction env buffer callerName caller price rate s = (s', Inl (json_error_thrown HBAR_RATE_LIMIT_EXCEEDED)) \<and>
    executed (sx_calls s') = executed (sx_calls s) @ [FileCreateTransaction head (dk_operatorPublicKey env),
      FileAppendTransaction fid tail (dk_fileAppendChunkSize env) (dk_maxChunks env)]"
proof -
  have "carry_call_data env d callerName caller rate s = (s1, Inr (ed_toBytes d [], Some fid))"
    using assms(2-4) by (simp add: carry_call_data_def io_then_apply)
  then have "\<exists>s'. submitEthereumTransaction env buffer callerName caller price rate s = (s', Inl (json_error_thrown HBAR_RATE_LIMIT_EXCEEDED)) \<and>
      sx_calls s' = sx_calls s1"
    by (simp add: submitEthereumTransaction_def assms(1,5,6) io_then_apply executeTransaction_checked check_limit_def should_limit_def)
  then show ?thesis using createFile_contents [OF assms(4,3)] by auto
qed

section \<open>An instance\<close>

text \<open>A network that executes everything, with three bytes of call data and chunks of two.\<close>

definition sample_sdk_env :: "limiter sdk_env" where
  "sample_sdk_env = \<lparr>dk_unknown = \<lparr>st_code = 21, st_name = ''UNKNOWN''\<rparr>, dk_invalidTransactionId = 4, dk_jumboTxEnabled = False,
     dk_fileAppendChunkSize = 2, dk_maxChunks = 20, dk_maxFeeThreshold = 10, dk_maxGasAllowanceHbar = 0, dk_operatorAccountId = ''0.0.2'',
     dk_operatorPublicKey = None, dk_isSubsidized = (\<lambda>_. False), dk_shouldLimit = hbar_limit_service sample_config 0 [],
     dk_fromBytes = (\<lambda>bs. Inr \<lparr>ed_to = [], ed_callData = bs, ed_toBytes = (\<lambda>bs. bs)\<rparr>),
     dk_execute = (\<lambda>calls tx. Inr \<lparr>rs_transactionId = ''0.0.2@1'', rs_transactionHash = None\<rparr>),
     dk_executeAll = (\<lambda>calls tx. Inr []), dk_receipt = (\<lambda>calls r. Inr (Some ''0.0.9'')), dk_fileInfo = (\<lambda>calls f. (None, Inr \<lparr>fi_size = 6, fi_isDeleted = False\<rparr>)),
     dk_record = (\<lambda>calls i. Inr \<lparr>tr_status = ''SUCCESS'', tr_exchangeRateInCents = 12, tr_transfers = [], tr_gasUsed = None\<rparr>)\<rparr>"

definition spent_limiter :: limiter where
  "spent_limiter = sample_limiter\<lparr>hl_db := sample_db\<lparr>db_amounts := [(''op'', 100)]\<rparr>\<rparr>"

definition sdk_start :: "'l \<Rightarrow> 'l sdk_state" where
  "sdk_start l = \<lparr>sx_limiter = l, sx_calls = [], sx_events = []\<rparr>"

lemma sample_fee: "max_transaction_fee env 0 = Inr 0"
  by (simp add: max_transaction_fee_def weibarHexToTinyBarInt_def trunc_div_def double_of_int_def double_of_nat_def)

theorem exhausted_budget_stops_witness:
  "\<exists>s'. submitEthereumTransaction sample_sdk_env [1, 2, 3] ''f'' ''0x02'' 0 12 (sdk_start spent_limiter) =
     (s', Inl (json_error_thrown HBAR_RATE_LIMIT_EXCEEDED)) \<and> sx_calls s' = []"
proof -
  have "usable (sample_db\<lparr>db_amounts := a\<rparr>) = usable sample_db" for a by (simp add: fun_eq_iff usable_def)
  then have same: "linked links (sample_db\<lparr>db_amounts := a\<rparr>) k = linked links sample_db k" for links a k
    by (simp add: linked_def split: option.split)
  have linked: "operator_linked sample_config (hl_db (sx_limiter (sdk_start spent_limiter))) ''op''"
    using sample_facts(4) by (simp add: operator_linked_def same sdk_start_def spent_limiter_def sample_limiter_def)
  have "\<exists>s'. submitEthereumTransaction sample_sdk_env [1, 2, 3] ''f'' ''0x02'' 0 12 (sdk_start spent_limiter) =
      (s', Inl (json_error_thrown HBAR_RATE_LIMIT_EXCEEDED)) \<and> sx_calls s' = sx_calls (sdk_start spent_limiter) \<and>
      sx_events s' = sx_events (sdk_start spent_limiter)"
    by (rule exhausted_budget_stops [OF sample_facts(1) linked _ _ _ _ sample_fee, where now = 0 and ip = "[]"])
      (simp_all add: sdk_start_def spent_limiter_def sample_limiter_def sample_config_def sample_sdk_env_def amount_of_def)
  then show ?thesis by (auto simp: sdk_start_def)
qed

definition free_env :: "unit sdk_env" where
  "free_env = sdk_env.extend (sdk_env.make \<lparr>st_code = 21, st_name = ''UNKNOWN''\<rparr> 4 False 2 20 10 0 ''0.0.2'' None (\<lambda>_. False)
     (\<lambda>_ _ _ l. (l, Inr False)) (dk_fromBytes sample_sdk_env) (dk_execute sample_sdk_env) (dk_executeAll sample_sdk_env) (dk_receipt sample_sdk_env)
     (dk_fileInfo sample_sdk_env) (dk_record sample_sdk_env)) ()"

theorem call_data_submitted_witness:
  "\<exists>s' response sub. submitEthereumTransaction free_env [1, 2, 3] ''f'' ''0x02'' 0 12 (sdk_start ()) = (s', Inr (Some ''0.0.9'', response)) \<and>
     es_callDataFileId sub = Some ''0.0.9'' \<and> last (executed (sx_calls s')) = EthereumTransaction sub"
proof -
  have run: "\<exists>s' response. submitEthereumTransaction free_env [1, 2, 3] ''f'' ''0x02'' 0 12 (sdk_start ()) = (s', Inr (Some ''0.0.9'', response))"
    by (simp add: submitEthereumTransaction_def free_env_def sdk_env.defs sample_sdk_env_def carry_call_data_def createFile_def Let_def io_simps
        sample_fee check_limit_def should_limit_def executeTransaction_def executeAllTransaction_def executeQuery_def emit_transaction_def)
  then obtain s' response where s': "submitEthereumTransaction free_env [1, 2, 3] ''f'' ''0x02'' 0 12 (sdk_start ()) = (s', Inr (Some ''0.0.9'', response))"
    by blast
  show ?thesis using call_data_submitted [OF s'] s' by (fastforce simp: free_env_def sdk_env.defs sample_sdk_env_def)
qed

end
