(* ===== verification/Spec2Isabelle.thy ===== *)
theory Spec2Isabelle
  imports Precheck WsServer RedisLock Cache HbarLimiter HbarConfig EthFee EthFilter EthApi EthAccount EthBlock EthContract EthTransaction EthDebug MirrorNode Services Sdk
begin

text \<open>
  A verification development of the JSON-RPC relay (\<open>packages/relay/\<close>, \<open>packages/server/\<close>,
  \<open>packages/ws-server/\<close>).

  \<^bold>\<open>The program.\<close> The relay answers Ethereum JSON-RPC requests on top of a consensus network and
  its mirror node. A request arrives at a server, passes the rate limiter, and goes to the
  dispatcher, which looks the method up in the registry, validates the parameters, arranges
  the arguments and runs the handler; errors of the handler are mapped to JSON-RPC errors. A
  raw transaction is parsed and prechecked, ordered by the lock of its sender, kept in the pool of pending
  transactions while it is in flight, and its cost is charged to the operator's and the
  spender's HBAR spending plans.

  \<^bold>\<open>Theories and sources\<close> (paths under \<open>packages/relay/src/\<close>).
  \<^item> \<open>Prelude\<close>: results with errors as values; the JavaScript strings, numbers and number printing
    the other theories use, with their generic lemmas. \<open>Transitions\<close>: reachable states and the locale
    \<open>invariant_system\<close>.
  \<^item> \<open>Formatters\<close> (\<open>formatters.ts\<close>): one function per exported formatter. Theorems: printing and
    reading back hexadecimal numbers, two's complement of 64-bit amounts, exact conversions between
    tinybars and weibars, decoding of ABI error strings.
  \<^item> \<open>Errors\<close> (\<open>lib/errors/\<close>): the table of JSON-RPC errors as a datatype, with codes, messages
    and data; the errors of the mirror node and consensus clients with their classification and
    their JSON form, which is a round trip.
  \<^item> \<open>Json\<close>: JavaScript values as requests carry them. \<open>Validators\<close> (\<open>lib/validators/\<close>): the
    type tests, the object schemas and the validation of a parameter list. Theorems: which
    values the tests, the object schemas and a list of rules accept.
  \<^item> \<open>Dispatcher\<close> (\<open>lib/dispatcher/\<close>, \<open>lib/services/registryService/\<close>, \<open>lib/decorators/\<close>,
    \<open>utils.ts\<close>): registration, arrangement of arguments, dispatching. Theorems: which
    methods are registered; a request that is rejected does not run a handler; what a handler returns
    or throws reaches the client as the documented error.
  \<^item> \<open>RateLimiter\<close> (\<open>lib/services/rateLimiterService/\<close>): the in-memory and the Redis store. The
    locale \<open>window_limiter\<close> is the contract of a store; it is interpreted on the in-memory store, and on
    the Redis store through the locale \<open>redis_counters\<close> of a server's laws. Theorem: within a window exactly the
    first \<open>limit\<close> requests pass.
  \<^item> \<open>TxPool\<close> (\<open>lib/services/transactionPoolService/\<close>, \<open>lib/txpool.ts\<close>): the two storages, the service and
    the \<open>txpool_\<close> methods. The locale \<open>pending_storage\<close> relates a storage to a set of pairs of an
    address and a payload; both storages refine it.
  \<^item> \<open>Precheck\<close> (\<open>lib/precheck.ts\<close>): every check of a raw transaction and their composition, with
    the exact condition of acceptance.
  \<^item> \<open>LocalLock\<close> (\<open>lib/services/lockService/LocalLockStrategy.ts\<close>, \<open>LockService.ts\<close>): the lock by sender as a
    step relation over the points where the code awaits. Theorems: mutual exclusion, no
    deadlock, release by the owner only. The mutex package is the locale \<open>fifo_mutex\<close>.
  \<^item> \<open>RedisLock\<close> (\<open>RedisLockStrategy.ts\<close>, \<open>LockStrategyFactory.ts\<close>): the lock shared by several relays, as a step relation
    over single Redis commands, each of which may fail; the server is the locale \<open>lock_server\<close>. Theorems: mutual exclusion for the time to
    live of the lock, and first in, first out order.
  \<^item> \<open>Cache\<close> (\<open>lib/clients/cache/\<close>, \<open>lib/decorators/cache.decorator.ts\<close>): the cache clients and the decorator that caches the results of a
    method. The locale \<open>lru_package\<close> states what the LRU package does, \<open>cache_contract\<close> what the decorator needs of a client. Theorems:
    cached calls answer as the method would; reserved keys are never evicted.
  \<^item> \<open>HbarPlans\<close> (\<open>lib/db/\<close>), \<open>HbarLimiter\<close> (\<open>lib/services/hbarLimitService/\<close>) and \<open>HbarConfig\<close>
    (\<open>lib/config/hbarSpendingPlanConfigService.ts\<close>): spending plans, the limiter and the configured
    plans. Theorems: what an expense charges, when a request is limited, that the
    operator's budget is enforced, that resets happen at the next interval, and that populating
    establishes the configuration.
  \<^item> \<open>HttpServer\<close> (\<open>packages/server/src/\<close>): JSON-RPC responses, the HTTP status of an error, single requests and batches, whose items
    interleave in a step relation, the conformity service, the routes and the Forwarded header. Theorems: what reaches the client is well formed and
    in the order of the requests, a batch can always be answered, the status of every error, and which addresses the header parser accepts.
  \<^item> \<open>WsServer\<close> (\<open>packages/ws-server/src/\<close>): the WebSocket server as a step relation over the events of its connections. Theorems: the
    counters of connections and subscriptions are exact, polls match subscriptions, a closed connection keeps none, and notifications go once to
    the subscribers of their tag.
  \<^item> \<open>Effects\<close>: computations that change a state and may throw. \<open>EthCommon\<close> (\<open>lib/services/ethService/ethCommonService/\<close>, with the worker
    pool that runs its queries): block tags and ranges, queries for logs, gas prices. Theorems: logs come from bounded ranges only, logs of several
    addresses are sorted and complete, block numbers are read back.
  \<^item> \<open>EthFee\<close> (\<open>feeService/\<close>) and \<open>EthFilter\<close> (\<open>ethFilterService/\<close>): the fee history, and the filters over the locale \<open>filter_store\<close>, which
    the in-memory cache interprets. Theorems: the blocks of a history, and that a block filter reports every block once.
  \<^item> \<open>EthApi\<close> (\<open>lib/eth.ts\<close>): the methods of the \<open>eth_\<close> namespace with their rules, layouts and caches. Theorems: the fixed answers through the
    dispatcher, and that answers about the head of the chain are not stored.
  \<^item> \<open>MirrorNode\<close> (\<open>lib/clients/mirrorNodeClient.ts\<close>): requests, errors, query parameters, pagination, polling and the cached queries.
    Theorems: pagination returns everything or throws; polling never hands out an incomplete record.
  \<^item> \<open>EthAccount\<close> (\<open>accountService/\<close>): balances and nonces of accounts. Theorems: the balance of a recent block is that of the ledger before the
    end of the block; the count of an old block is the number of transactions sent.
  \<^item> \<open>EthModel\<close> (\<open>lib/factories/\<close>, \<open>lib/model.ts\<close>, \<open>logsBloomUtils.ts\<close>) and \<open>EthBlock\<close> (\<open>blockService/\<close>): the objects of the answers, and
    blocks with their receipts. Theorems: bloom filters have exactly the bits of their items; a block and its receipts are about the same
    transactions.
  \<^item> \<open>EthContract\<close> (\<open>contractService/\<close>): calls, gas estimates, code and storage. Theorem: the normal form of what is sent to the mirror node.
  \<^item> \<open>EthTransaction\<close> (\<open>transactionService/\<close>): looking transactions and receipts up, and sending them. Theorems: the lock is held around everything
    a sent transaction does, nothing stays in the pool, and a returned hash is justified.
  \<^item> \<open>EthDebug\<close> (\<open>debug.ts\<close>): the call tracer, the prestate tracer and the opcode logger. Theorems: a traced block has one trace for every
    transaction, and a prestate reports exactly the entities the actions name, in whatever order the queries end.
  \<^item> \<open>Config\<close> (\<open>packages/config-service/src/\<close>): the table of the configuration, the values read from the environment, the start-up
    checks and the masked printing. Theorems: which start-ups are refused, that every value has the type of its entry, that no printed
    value shows a secret.
  \<^item> \<open>Services\<close> (\<open>lib/net.ts\<close>, \<open>lib/web3.ts\<close>, \<open>lib/admin.ts\<close>, \<open>lib/services/workersService/\<close>): the small namespaces and the
    tasks of the worker threads.
  \<^item> \<open>Sdk\<close> (\<open>lib/clients/sdkClient.ts\<close>, \<open>hapiService/\<close>, \<open>metricService/\<close>): the calls to the consensus network, the
    renewal of the client and the charges of what was executed. Theorems: the submitted file is the call data, an exhausted budget stops
    everything before it is paid, and a client is used for a bounded number of calls.
  \<^item> This theory: properties across components. The pending count of an account is the least nonce a transaction is accepted
    with, and an expense of a configured address falls on its configured plan.

  \<^bold>\<open>Conventions.\<close> An exception is \<open>Inl\<close>, a returned value \<open>Inr\<close>. State is passed explicitly. What
  other packages do (ethers' decoder, the Redis server, the mutex, the account lookup of the mirror
  node) is an argument, and its laws are assumptions of a locale that is also interpreted on a
  concrete reference. Time is an argument of the operations that read the clock.

  \<^bold>\<open>Bounds.\<close> No definition uses fuel. Rates of exchange and numbers of the configuration are rationals. The loop of \<open>getResetTimestamp\<close>, which does not end for every
  duration, is a partial function, and it is proved to return for positive durations. JavaScript numbers
  are integers, with the rounding to doubles written out where a bigint is converted; strings
  are Latin-1, decoded texts are lists of UTF-16 units.

  \<^bold>\<open>Not modelled.\<close> The set-up of the relay (\<open>relay.ts\<close>, the \<open>index.ts\<close> files, the handlers of process signals) constructs the
  components above and hands them to each other; it has no operation of its own. Logging and the registries of metrics only record.
  The HTTP library, its retries and its socket pools, the consensus SDK with the keys of its operator, and the readers of the
  files of the environment and of the spending plans are input and output: what they answer is an argument of the
  operations that call them. The generated OpenRPC document, the test tools and the load scripts are not part of the relay.
\<close>

section \<open>The pool and the checks of a raw transaction\<close>

text \<open>C15: With the in-memory pool, after any history of saved and removed transactions, the pending transaction count of an account is its nonce
  plus the number of its distinct transactions still pending (those of other senders do not count), and it is exactly the least nonce
  with which a transaction is accepted: a transaction that passes the checks with this nonce passes them with every larger one, and with
  none below.\<close>

theorem pending_count_is_least_nonce:
  assumes "getAccount (from_str tx) = Inr (Some info)" and "ai_ethereum_nonce info = NonceIs n"
    and "am_getAccount m (from_str tx) = Inr (Some acc)" and "ma_ethereum_nonce acc = NonceIs n" and "0 \<le> n" and "n < 2 ^ 53"
  shows "\<exists>s c. run_pool True LocalPendingTransactionStorage ops empty_pool = Inr s \<and>
    c = n + int (card {x. (toLowerCase (from_str tx), x) \<in> fold spec_op ops {}}) \<and>
    account_getTransactionCount m acfg LocalPendingTransactionStorage s (from_str tx) ''pending'' = Inr (numberTo0x c) \<and>
    (\<forall>k. sendRawTransactionCheck cfg getAccount LocalPendingTransactionStorage s (tx\<lparr>tx_nonce := k\<rparr>) g = Inr () \<longleftrightarrow>
       c \<le> k \<and> sendRawTransactionCheck cfg getAccount LocalPendingTransactionStorage s (tx\<lparr>tx_nonce := c\<rparr>) g = Inr ())"
proof -
  obtain s where s: "run_pool True LocalPendingTransactionStorage ops empty_pool = Inr s"
    "getPendingCount LocalPendingTransactionStorage (from_str tx) s =
       Inr (card {x. (toLowerCase (from_str tx), x) \<in> fold spec_op ops {}})"
    using local_pool_answers [of ops "from_str tx"] by blast
  have nonce: "static_ok cfg (tx\<lparr>tx_nonce := k\<rparr>) = static_ok cfg tx" "receiver_ok getAccount (tx\<lparr>tx_nonce := k\<rparr>) = receiver_ok getAccount tx"
    "from_str (tx\<lparr>tx_nonce := k\<rparr>) = from_str tx" "txGasPrice (tx\<lparr>tx_nonce := k\<rparr>) = txGasPrice tx"
    "price_ok cfg (tx\<lparr>tx_nonce := k\<rparr>) g = price_ok cfg tx g" for k
    by (simp_all add: static_ok_def receiver_ok_def from_str_def txGasPrice_def price_ok_def fun_eq_iff isLegacyUnprotectedEtx_def
        isDeterministicDeploymentTransaction_def)
  define c where "c = n + int (card {x. (toLowerCase (from_str tx), x) \<in> fold spec_op ops {}})"
  have accepted: "sendRawTransactionCheck cfg getAccount LocalPendingTransactionStorage s (tx\<lparr>tx_nonce := k\<rparr>) g = Inr () \<longleftrightarrow>
      static_ok cfg tx \<and> receiver_ok getAccount tx \<and> c \<le> k \<and> (\<exists>price b. txGasPrice tx = Inr price \<and> price_ok cfg tx g price \<and>
        ai_balance info = Some b \<and> tx_value tx + price * tx_gasLimit tx \<le> b * 10000000000)" for k
    unfolding sendRawTransactionCheck_iff nonce using assms(1,2) s(2) by (auto simp: sender_ok_def c_def)
  have "account_getTransactionCount m acfg LocalPendingTransactionStorage s (from_str tx) ''pending'' = Inr (numberTo0x c)"
    unfolding c_def by (rule pending_count [OF assms(3-6) s(2)])
  moreover have "\<forall>k. sendRawTransactionCheck cfg getAccount LocalPendingTransactionStorage s (tx\<lparr>tx_nonce := k\<rparr>) g = Inr () \<longleftrightarrow>
      c \<le> k \<and> sendRawTransactionCheck cfg getAccount LocalPendingTransactionStorage s (tx\<lparr>tx_nonce := c\<rparr>) g = Inr ()"
    unfolding accepted by blast
  ultimately show ?thesis using s(1) c_def by blast
qed

definition relay_config :: precheck_config where
  "relay_config = \<lparr>pc_chain = ''0x12a'', pc_maxTransactionFeeThreshold = 15000000, pc_sendRawTransactionSizeLimit = 131072,
     pc_callDataSizeLimit = 131072, pc_gasPriceTinyBarBuffer = 0, pc_paymasterEnabled = False, pc_paymasterWhitelist = [],
     pc_deterministicDeployerTransaction = ''0x01''\<rparr>"

definition account_at :: "int \<Rightarrow> account_info" where
  "account_at n = \<lparr>ai_ethereum_nonce = NonceIs n, ai_balance = Some 100, ai_receiver_sig_required = False\<rparr>"

theorem pending_count_is_least_nonce_witness:
  "\<exists>s. account_getTransactionCount ledger_mirror account_cfg LocalPendingTransactionStorage s (from_str sample_tx) ''pending'' = Inr (numberTo0x 3) \<and>
     sendRawTransactionCheck relay_config (\<lambda>_. Inr (Some (account_at 2))) LocalPendingTransactionStorage s (sample_tx\<lparr>tx_nonce := 2\<rparr>) 5 \<noteq> Inr ()"
proof -
  have one: "{x. (toLowerCase (from_str sample_tx), x) \<in> fold spec_op [Save ''0xAb'' sample_tx] {}} = {tx_serialized sample_tx}"
    by (simp add: from_str_def sample_tx_def)
  have accounts: "ai_ethereum_nonce (account_at 2) = NonceIs 2" "am_getAccount ledger_mirror (from_str sample_tx) = Inr (Some ledger_account)"
    "ma_ethereum_nonce ledger_account = NonceIs 2" by (simp_all add: account_at_def ledger_mirror_def ledger_account_def)
  obtain s c where c: "c = 2 + int (card {tx_serialized sample_tx})"
    and run: "account_getTransactionCount ledger_mirror account_cfg LocalPendingTransactionStorage s (from_str sample_tx) ''pending'' = Inr (numberTo0x c)"
    and least: "\<forall>k. sendRawTransactionCheck relay_config (\<lambda>_. Inr (Some (account_at 2))) LocalPendingTransactionStorage s (sample_tx\<lparr>tx_nonce := k\<rparr>) 5 = Inr () \<longleftrightarrow>
      c \<le> k \<and> sendRawTransactionCheck relay_config (\<lambda>_. Inr (Some (account_at 2))) LocalPendingTransactionStorage s (sample_tx\<lparr>tx_nonce := c\<rparr>) 5 = Inr ()"
    using pending_count_is_least_nonce [of "\<lambda>_. Inr (Some (account_at 2))" sample_tx "account_at 2" 2 ledger_mirror ledger_account
        "[Save ''0xAb'' sample_tx]" account_cfg relay_config 5, unfolded one, OF refl accounts] by auto
  have "c = 3" using c by simp
  then have "\<not> c \<le> 2" by simp
  with run least \<open>c = 3\<close> show ?thesis by blast
qed

section \<open>Configured plans and expenses\<close>

text \<open>After the configured plans are populated, the plan the limiter finds for an expense of a configured EVM
  address is the plan it is configured in, whatever the client's IP address; for an expense without
  an EVM address from a configured IP address it is the plan of that IP address.\<close>

lemma configured_address_charged:
  assumes "\<forall>plan \<in> set plans. isValidSpendingPlanConfig plan" and "db_ok db"
    and "distinct (map (cf_id \<circ> plan_config_of) plans)" and "disjoint_addresses (map plan_config_of plans)"
    and "c \<in> plan_config_of ` set plans"
    and "populatePreconfiguredSpendingPlans now plans db = Inr (n, db')"
  shows "(a \<in> set (cf_evmAddresses c) \<and> a \<noteq> [] \<longrightarrow>
      (\<exists>plan. getSpendingPlan db' a ip = Some plan \<and> sp_id plan = cf_id c)) \<and>
    (ip \<in> set (cf_ipAddresses c) \<and> ip \<noteq> [] \<longrightarrow>
      (\<exists>plan. getSpendingPlan db' [] ip = Some plan \<and> sp_id plan = cf_id c))"
proof -
  have "plans \<noteq> []" using assms(5) by auto
  then have eff: "db_ok db'" "usable db' (cf_id c)"
    "\<And>k. plan_ids (db_evm db') k = Some (cf_id c) \<longleftrightarrow> k \<in> evm_key ` set (cf_evmAddresses c)"
    "\<And>k. plan_ids (db_ip db') k = Some (cf_id c) \<longleftrightarrow> k \<in> ip_key ` set (cf_ipAddresses c)"
    using populate_effect [OF _ assms(1-4), of now] assms(5,6) by auto
  then have plan: "sp_id (plan_at db' (cf_id c)) = cf_id c" by (simp add: sp_id_plan_at db_ok_def)
  have link: "linked links db' k = Some (cf_id c)" if "plan_ids links k = Some (cf_id c)" for links k
    using that eff(2) by (auto simp: plan_ids_def linked_def)
  show ?thesis
    using link [of "db_evm db'" "evm_key a"] link [of "db_ip db'" "ip_key ip"] eff(3,4) plan
    by (simp add: getSpendingPlan_eq plan_of_def)
qed

lemma configured_address_charged_witness:
  "\<exists>n db' plan. populatePreconfiguredSpendingPlans 5 sample_plans configured_db = Inr (n, db') \<and>
     getSpendingPlan db' ''0xAA'' ''10.0.0.1'' = Some plan \<and> sp_id plan = ''p1''"
proof -
  obtain n db' where run: "populatePreconfiguredSpendingPlans 5 sample_plans configured_db = Inr (n, db')"
    using populate_effect [OF sample_nonempty sample_valid sample_ok sample_distinct sample_disjoint, of 5]
    by (elim exE conjE)
  have cs: "plan_config_of ` set sample_plans = set (map plan_config_of sample_plans)" by simp
  define c where "c = hd (map plan_config_of sample_plans)"
  have c: "c \<in> plan_config_of ` set sample_plans" "cf_id c = ''p1''" "''0xAA'' \<in> set (cf_evmAddresses c)"
    unfolding cs c_def sample_configs by simp_all
  show ?thesis
    using configured_address_charged [OF sample_valid sample_ok sample_distinct sample_disjoint c(1) run, of "''0xAA''" "''10.0.0.1''"]
      run c(2,3) by auto
qed

end
